(* ===== verification/Prelude.thy ===== *)
theory Prelude
  imports Main "HOL-Library.Word" "HOL-Library.AList" "HOL-Library.Sublist"
begin

text \<open>
  Shared vocabulary of the development: outcomes of Go calls, sequencing of calls over
  an explicit state, Go maps as association lists with their lookup, update and
  equality, and the collections of rewrite rules the component theories extend.

  A Go function that returns an error, or may panic, returns a \<open>result\<close>. A method
  that changes state takes the state and returns it next to its result, and
  \<open>andThen\<close> sequences two such calls: the second runs only if the first returned
  without error, as after \<^verbatim>\<open>if err != nil { return err }\<close>.
\<close>

named_theorems outcome_simps \<open>how the sequencing combinators act on each outcome\<close>
named_theorems store_simps \<open>reads after writes on stores and maps\<close>

section \<open>Outcomes\<close>

datatype (dead 'e, 'a) result = Ok 'a | Err 'e | Panic string

definition is_Ok :: "('e, 'a) result \<Rightarrow> bool" where
  "is_Ok r \<longleftrightarrow> (case r of Ok _ \<Rightarrow> True | _ \<Rightarrow> False)"

definition bindR :: "('e, 'a) result \<Rightarrow> ('a \<Rightarrow> ('e, 'b) result) \<Rightarrow> ('e, 'b) result" where
  "bindR r f = (case r of Ok a \<Rightarrow> f a | Err e \<Rightarrow> Err e | Panic m \<Rightarrow> Panic m)"

definition andThen :: "('e, 'a) result \<times> 's \<Rightarrow> ('a \<Rightarrow> 's \<Rightarrow> ('e, 'b) result \<times> 's)
    \<Rightarrow> ('e, 'b) result \<times> 's" where
  "andThen p f = (case p of (Ok a, s) \<Rightarrow> f a s | (Err e, s) \<Rightarrow> (Err e, s) | (Panic m, s) \<Rightarrow> (Panic m, s))"

lemma is_Ok_simps [simp]: "is_Ok (Ok a)" "\<not> is_Ok (Err e)" "\<not> is_Ok (Panic m)"
  by (simp_all add: is_Ok_def)

lemma is_Ok_iff: "is_Ok r \<longleftrightarrow> (\<exists>a. r = Ok a)"
  by (cases r) simp_all

lemma bindR_simps [simp, outcome_simps]:
  "bindR (Ok a) f = f a" "bindR (Err e) f = Err e" "bindR (Panic m) f = Panic m"
  by (simp_all add: bindR_def)

lemma andThen_simps [simp, outcome_simps]:
  "andThen (Ok a, s) f = f a s" "andThen (Err e, s) f = (Err e, s)"
  "andThen (Panic m, s) f = (Panic m, s)"
  by (simp_all add: andThen_def)

lemma bindR_eq_Ok: "bindR r f = Ok b \<longleftrightarrow> (\<exists>a. r = Ok a \<and> f a = Ok b)"
  by (cases r) simp_all

lemma andThen_eq_Ok:
  "andThen p f = (Ok b, s') \<longleftrightarrow> (\<exists>a s. p = (Ok a, s) \<and> f a s = (Ok b, s'))"
  by (cases p; cases "fst p") auto

lemma andThenE:
  assumes "andThen p f = (r, s')"
  obtains (ok) a s where "p = (Ok a, s)" "f a s = (r, s')"
    | (err) e where "p = (Err e, s')" "r = Err e"
    | (panic) m where "p = (Panic m, s')" "r = Panic m"
  using assms by (cases p; cases "fst p") auto

lemma andThen_failed: "\<not> is_Ok (fst p) \<Longrightarrow> snd (andThen p f) = snd p"
  by (cases p; cases "fst p") auto

text \<open>A property of the state that every stage keeps holds after the sequence.\<close>

lemma andThen_state:
  assumes "P (snd p)" and "\<And>a s. P s \<Longrightarrow> P (snd (f a s))"
  shows "P (snd (andThen p f))"
  using assms by (cases p; cases "fst p") auto

section \<open>Go maps\<close>

text \<open>
  A Go map is the list of its entries in the order one \<^verbatim>\<open>range\<close> over it
  visits them; Go leaves that order open, so results that could depend on it are stated
  over every order. A read of a missing key is \<open>None\<close> (the zero value with
  \<^verbatim>\<open>ok == false\<close>).
\<close>

type_synonym ('k, 'v) gomap = "('k \<times> 'v) list"

definition map_eq :: "('k, 'v) gomap \<Rightarrow> ('k, 'v) gomap \<Rightarrow> bool" where
  "map_eq m n \<longleftrightarrow> (\<forall>k \<in> set (map fst m) \<union> set (map fst n). map_of m k = map_of n k)"

lemma map_eq_iff: "map_eq m n \<longleftrightarrow> map_of m = map_of n"
proof
  assume h: "map_eq m n"
  show "map_of m = map_of n"
  proof
    fix k
    show "map_of m k = map_of n k"
    proof (cases "k \<in> set (map fst m) \<union> set (map fst n)")
      case True
      with h show ?thesis by (simp add: map_eq_def)
    next
      case False
      then have "map_of m k = None" "map_of n k = None"
        by (auto simp: map_of_eq_None_iff)
      then show ?thesis by simp
    qed
  qed
qed (simp add: map_eq_def)

lemma map_of_update [simp, store_simps]:
  "map_of (AList.update k v m) k' = (if k' = k then Some v else map_of m k')"
  by (simp add: update_conv')

lemma map_of_delete [simp, store_simps]:
  "map_of (AList.delete k m) k' = (if k' = k then None else map_of m k')"
  by (simp add: delete_conv')

lemma distinct_keys_update: "distinct (map fst m) \<Longrightarrow> distinct (map fst (AList.update k v m))"
  by (rule distinct_update)

lemma distinct_keys_delete: "distinct (map fst m) \<Longrightarrow> distinct (map fst (AList.delete k m))"
  by (rule distinct_delete)

text \<open>Removing a list of keys, and copying the entries of one map over another.\<close>

lemma map_of_foldl_delete:
  "map_of (foldl (\<lambda>acc k. AList.delete k acc) m ks) k = (if k \<in> set ks then None else map_of m k)"
  by (induction ks arbitrary: m) auto

lemma map_of_foldl_update:
  "distinct (map fst w) \<Longrightarrow>
   map_of (foldl (\<lambda>acc (k, v). AList.update k v acc) m w) k =
     (case map_of w k of Some v \<Rightarrow> Some v | None \<Rightarrow> map_of m k)"
proof (induction w arbitrary: m)
  case (Cons a w)
  obtain k0 v0 where a: "a = (k0, v0)" by (cases a)
  have "k = k0 \<Longrightarrow> map_of w k = None"
    using Cons.prems a by (simp add: map_of_eq_None_iff)
  with Cons a show ?case by (simp split: option.splits)
qed simp

section \<open>Scalars\<close>

text \<open>
  Byte strings are lists of 8-bit characters, so \<^verbatim>\<open>[]byte\<close> and
  \<^verbatim>\<open>string\<close> share one type. Instants are nanoseconds, as
  \<^verbatim>\<open>time.Time\<close> keeps them; a \<^verbatim>\<open>nil\<close> timestamp is \<open>None\<close>.
\<close>

type_synonym bytes = "string"
type_synonym instant = int
type_synonym uint64 = "64 word"
type_synonym uint32 = "32 word"

abbreviation (input) second :: int where
  "second \<equiv> 1000000000"

text \<open>
  The verb \<^verbatim>\<open>%q\<close>: a quoted string with Go escapes for quotes, backslashes and control
  characters; bytes of multi-byte characters are kept.
\<close>

definition hex_digit :: "nat \<Rightarrow> char" where
  "hex_digit n = ''0123456789abcdef'' ! n"

definition quote_char :: "char \<Rightarrow> string" where
  "quote_char c =
     (let bs = CHR 0x5C; n = of_char c :: nat in
      if n = 0x22 \<or> c = bs then [bs, c]
      else if n = 7 then [bs, CHR ''a''] else if n = 8 then [bs, CHR ''b''] else if n = 12 then [bs, CHR ''f'']
      else if n = 10 then [bs, CHR ''n''] else if n = 13 then [bs, CHR ''r''] else if n = 9 then [bs, CHR ''t'']
      else if n = 11 then [bs, CHR ''v'']
      else if n < 32 \<or> n = 127 then [bs, CHR ''x'', hex_digit (n div 16), hex_digit (n mod 16)]
      else [c])"

definition quoted :: "string \<Rightarrow> string" where
  "quoted s = CHR 0x22 # concat (map quote_char s) @ [CHR 0x22]"

lemma option_cases_iff: "(case x of None \<Rightarrow> a | Some y \<Rightarrow> f y) = (if x = None then a else f (the x))"
  by (cases x) simp_all

lemma append_prefix_inj: "p @ xs = p @ ys \<longleftrightarrow> xs = ys"
  by simp

end
