(* ===== verification/Errors.thy ===== *)
theory Errors
  imports Prelude
begin

text \<open>
  Go error values, and the classification of errors in pkg/errs/errs.go.

  A package-level \<^verbatim>\<open>errors.New\<close> variable has its own identity, so each is a
  constructor of \<open>sentinel\<close>, also where two of them carry the same text (the two
  \<^verbatim>\<open>ErrLeaseHeld\<close> variables, the two uuid length errors). An error value is a
  sentinel, a wrapped error (\<^verbatim>\<open>fmt.Errorf\<close> with \<^verbatim>\<open>%w\<close>), an error with a
  text only, a gRPC status built by this program, or an error that a library made.

  The gRPC status package and containerd's errdefs are not part of the repository:
  \<open>ext_errs\<close> collects what the code calls of them, and every definition that uses
  them takes it as its first argument. \<open>grpc_documented\<close> states what their
  documentation promises; no error carries the status OK.
\<close>

section \<open>Error values\<close>

datatype sentinel =
    RepoErrNotFound | RepoErrIdxExists
  | KeysErrEmptyUID | KeysErrEmptyName | KeysErrEmptyIndex | KeysErrBadEncoding | KeysErrBadTag
  | KeysErrBadUIDLen | KeysErrBadPrefix | KeysErrBadUUIDLen
  | DomErrNotHolder | DomErrLeaseHeld | DomErrLeaseNotFound | DomErrLeaseExpired
  | DomErrInvalidTTL | DomErrInvalidHolder | DomErrInvalidToken
  | ErrsErrLeaseHeld
  | AppErrNodeNotConnected | AppErrNodeQueueFull
  | SchedErrNoNode | SchedErrNoReadyNode | SchedErrNoMatchingNode | SchedErrNodeDisconnected
  | VolErrDriverNotFound
  | CfgErrCurrentNotSet | CfgErrCurrentNotFound | CfgErrServerNotFound
  | NetErrInvalidPortMapping
  | OsErrNotExist | OsErrDeadlineExceeded | IoEOF | CtxCanceled | CtxDeadlineExceeded
  | BadgerErrKeyNotFound

datatype code =
    CodeOK | Canceled | Unknown | InvalidArgument | DeadlineExceeded | NotFound | AlreadyExists
  | PermissionDenied | ResourceExhausted | FailedPrecondition | Aborted | OutOfRange
  | Unimplemented | Internal | Unavailable | DataLoss | Unauthenticated

datatype error =
    Sentinel sentinel
  | Wrapped string error
  | Errorf string
  | StatusErr code string
  | Foreign string

type_synonym 'a res = "(error, 'a) result"

text \<open>A result without a value, as Go's lone \<^verbatim>\<open>error\<close> return.\<close>

fun from_err :: "error option \<Rightarrow> unit res" where
  "from_err None = Ok ()"
| "from_err (Some e) = Err e"

text \<open>\<^verbatim>\<open>errors.Is\<close> against a sentinel: the chain of wrapped errors is walked.\<close>

primrec errors_Is :: "error \<Rightarrow> sentinel \<Rightarrow> bool" where
  "errors_Is (Sentinel s) t \<longleftrightarrow> s = t"
| "errors_Is (Wrapped m e) t \<longleftrightarrow> errors_Is e t"
| "errors_Is (Errorf m) t \<longleftrightarrow> False"
| "errors_Is (StatusErr c m) t \<longleftrightarrow> False"
| "errors_Is (Foreign m) t \<longleftrightarrow> False"

definition is_err :: "error option \<Rightarrow> sentinel \<Rightarrow> bool" where
  "is_err err t \<longleftrightarrow> (case err of None \<Rightarrow> False | Some e \<Rightarrow> errors_Is e t)"

section \<open>The libraries the classification calls\<close>

record ext_errs =
  status_FromError :: "error option \<Rightarrow> (code \<times> string) option"
  status_Err :: "code \<times> string \<Rightarrow> error option"
  errdefs_IsNotFound :: "error option \<Rightarrow> bool"
  err_text :: "error \<Rightarrow> string"

definition grpc_documented :: "ext_errs \<Rightarrow> bool" where
  "grpc_documented x \<longleftrightarrow>
     (\<forall>c m. c \<noteq> CodeOK \<longrightarrow> status_FromError x (Some (StatusErr c m)) = Some (c, m)) \<and>
     (\<forall>e c m. status_FromError x (Some e) = Some (c, m) \<longrightarrow> c \<noteq> CodeOK) \<and>
     (\<forall>s. status_FromError x (Some (Sentinel s)) = None) \<and>
     (\<forall>m. status_FromError x (Some (Errorf m)) = None) \<and>
     (\<forall>m s. status_FromError x (Some (Wrapped m (Sentinel s))) = None) \<and>
     (\<forall>c m. c \<noteq> CodeOK \<longrightarrow> status_Err x (c, m) = Some (StatusErr c m)) \<and>
     (\<forall>c m. \<not> errdefs_IsNotFound x (Some (StatusErr c m))) \<and>
     (\<forall>s. \<not> errdefs_IsNotFound x (Some (Sentinel s))) \<and>
     (\<forall>m. \<not> errdefs_IsNotFound x (Some (Errorf m))) \<and>
     (\<forall>m s. \<not> errdefs_IsNotFound x (Some (Wrapped m (Sentinel s)))) \<and>
     \<not> errdefs_IsNotFound x None"

section \<open>pkg/errs\<close>

definition status_code_is :: "ext_errs \<Rightarrow> error option \<Rightarrow> code \<Rightarrow> bool" where
  "status_code_is x err c \<longleftrightarrow> (case status_FromError x err of Some (d, _) \<Rightarrow> d = c | None \<Rightarrow> False)"

definition IsNotFound :: "ext_errs \<Rightarrow> error option \<Rightarrow> bool" where
  "IsNotFound x err \<longleftrightarrow>
     (let b = status_code_is x err NotFound;
          b = (if errdefs_IsNotFound x err then True else b);
          b = (if is_err err RepoErrNotFound then True else b);
          b = (if is_err err OsErrNotExist then True else b)
      in b)"

definition IsConflict :: "ext_errs \<Rightarrow> error option \<Rightarrow> bool" where
  "IsConflict x err \<longleftrightarrow>
     (if err = None then False
      else if status_code_is x err AlreadyExists then True
      else if is_err err ErrsErrLeaseHeld then True
      else if is_err err DomErrLeaseHeld then True
      else if is_err err RepoErrIdxExists then True
      else False)"

definition IsPermissionDenied :: "ext_errs \<Rightarrow> error option \<Rightarrow> bool" where
  "IsPermissionDenied x err \<longleftrightarrow>
     (if err = None then False
      else if status_code_is x err PermissionDenied then True
      else if is_err err DomErrInvalidToken then True
      else False)"

definition IgnoreNotFound :: "ext_errs \<Rightarrow> error option \<Rightarrow> error option" where
  "IgnoreNotFound x err = (if IsNotFound x err then None else err)"

definition ToStatus :: "ext_errs \<Rightarrow> error option \<Rightarrow> error option" where
  "ToStatus x err =
     (case err of
        None \<Rightarrow> None
      | Some e \<Rightarrow>
          (case status_FromError x err of
             Some st \<Rightarrow> status_Err x st
           | None \<Rightarrow>
               if IsNotFound x err then Some (StatusErr NotFound (err_text x e))
               else if IsConflict x err then Some (StatusErr AlreadyExists (err_text x e))
               else if IsPermissionDenied x err then Some (StatusErr PermissionDenied (err_text x e))
               else Some (StatusErr Internal (''internal error: '' @ err_text x e))))"

section \<open>Facts on the classification\<close>

lemma is_err_simps [simp]:
  "\<not> is_err None t" "is_err (Some e) t = errors_Is e t"
  by (simp_all add: is_err_def)

lemma IsNotFound_iff:
  "IsNotFound x err \<longleftrightarrow> status_code_is x err NotFound \<or> errdefs_IsNotFound x err
     \<or> is_err err RepoErrNotFound \<or> is_err err OsErrNotExist"
  by (auto simp: IsNotFound_def Let_def)

lemma IsConflict_iff:
  "IsConflict x err \<longleftrightarrow> err \<noteq> None \<and> (status_code_is x err AlreadyExists \<or> is_err err ErrsErrLeaseHeld
     \<or> is_err err DomErrLeaseHeld \<or> is_err err RepoErrIdxExists)"
  by (auto simp: IsConflict_def)

lemma IsPermissionDenied_iff:
  "IsPermissionDenied x err \<longleftrightarrow> err \<noteq> None \<and> (status_code_is x err PermissionDenied
     \<or> is_err err DomErrInvalidToken)"
  by (auto simp: IsPermissionDenied_def)

lemma IsNotFound_repo [simp]: "IsNotFound x (Some (Sentinel RepoErrNotFound))"
  by (simp add: IsNotFound_iff)

lemma IsNotFound_sentinel:
  assumes "grpc_documented x"
  shows "IsNotFound x (Some (Sentinel s)) \<longleftrightarrow> s = RepoErrNotFound \<or> s = OsErrNotExist"
  using assms by (auto simp: IsNotFound_iff grpc_documented_def status_code_is_def)

text \<open>A wrapper around a sentinel classifies as the sentinel does.\<close>

lemma wrapped_sentinel_class:
  assumes "grpc_documented x"
  shows "IsNotFound x (Some (Wrapped m (Sentinel s))) = IsNotFound x (Some (Sentinel s))"
    and "IsConflict x (Some (Wrapped m (Sentinel s))) = IsConflict x (Some (Sentinel s))"
    and "IsPermissionDenied x (Some (Wrapped m (Sentinel s))) = IsPermissionDenied x (Some (Sentinel s))"
  using assms
  by (auto simp: IsNotFound_iff IsConflict_iff IsPermissionDenied_iff grpc_documented_def status_code_is_def)

definition err_code :: "ext_errs \<Rightarrow> error option \<Rightarrow> code" where
  "err_code x err = (case status_FromError x err of Some (c, _) \<Rightarrow> c | None \<Rightarrow> CodeOK)"

text \<open>What a client sees keeps the class: the class survives one trip over the wire.\<close>

lemma ToStatus_class:
  assumes doc: "grpc_documented x" and none: "status_FromError x (Some e) = None"
    and err: "ToStatus x (Some e) = Some e'"
  shows "IsNotFound x (Some e') = IsNotFound x (Some e)"
    and "\<not> IsNotFound x (Some e) \<Longrightarrow> IsConflict x (Some e') = IsConflict x (Some e)"
    and "\<not> IsNotFound x (Some e) \<Longrightarrow> \<not> IsConflict x (Some e) \<Longrightarrow>
         IsPermissionDenied x (Some e') = IsPermissionDenied x (Some e)"
  using assms
  by (auto simp: ToStatus_def IsNotFound_iff [of _ "Some (StatusErr _ _)"]
      IsConflict_iff [of _ "Some (StatusErr _ _)"] IsPermissionDenied_iff [of _ "Some (StatusErr _ _)"]
      grpc_documented_def status_code_is_def split: if_splits)

text \<open>
  A concrete library that satisfies the documented behaviour: a status is read off a
  status value, wrapped or not, as \<^verbatim>\<open>errors.As\<close> finds it.
\<close>

fun find_status :: "error \<Rightarrow> (code \<times> string) option" where
  "find_status (StatusErr c m) = (if c = CodeOK then None else Some (c, m))"
| "find_status (Wrapped m e) = find_status e"
| "find_status _ = None"

definition sample_ext :: ext_errs where
  "sample_ext = \<lparr>
     status_FromError = (\<lambda>err. case err of None \<Rightarrow> Some (CodeOK, []) | Some e \<Rightarrow> find_status e),
     status_Err = (\<lambda>(c, m). if c = CodeOK then None else Some (StatusErr c m)),
     errdefs_IsNotFound = (\<lambda>err. err = Some (Foreign ''errdefs: not found'')),
     err_text = (\<lambda>e. ''error'')\<rparr>"

lemma find_status_code: "find_status e = Some (c, m) \<Longrightarrow> c \<noteq> CodeOK"
  by (induction e rule: find_status.induct) (auto split: if_splits)

lemma sample_ext_documented: "grpc_documented sample_ext"
  by (simp add: grpc_documented_def sample_ext_def find_status_code)


text \<open>
  An error keeps its class on the way to the client: what the server's transport
  turns an error into is recognised by the client's classification as the same kind, not
  found before conflict before permission denied; and anything else arrives as an
  internal error.
\<close>

theorem status_keeps_class:
  assumes "grpc_documented x" and "status_FromError x (Some e) = None"
  shows "\<exists>e'. ToStatus x (Some e) = Some e' \<and>
    (if IsNotFound x (Some e) then IsNotFound x (Some e')
     else if IsConflict x (Some e) then IsConflict x (Some e') \<and> \<not> IsNotFound x (Some e')
     else if IsPermissionDenied x (Some e) then IsPermissionDenied x (Some e') \<and> \<not> IsNotFound x (Some e') \<and> \<not> IsConflict x (Some e')
     else \<not> IsNotFound x (Some e') \<and> \<not> IsConflict x (Some e') \<and> \<not> IsPermissionDenied x (Some e') \<and> err_code x (Some e') = Internal)"
proof -
  obtain e' where e': "ToStatus x (Some e) = Some e'"
    using assms(2) by (cases "ToStatus x (Some e)") (auto simp: ToStatus_def split: if_splits)
  note cls = ToStatus_class [OF assms e']
  have "\<not> IsNotFound x (Some e) \<Longrightarrow> \<not> IsConflict x (Some e) \<Longrightarrow> \<not> IsPermissionDenied x (Some e) \<Longrightarrow> err_code x (Some e') = Internal"
    using assms e' by (auto simp: ToStatus_def err_code_def grpc_documented_def)
  with e' cls show ?thesis by auto
qed

theorem status_keeps_class_witness:
  "\<exists>e'. ToStatus sample_ext (Some (Wrapped ''acquire'' (Sentinel DomErrLeaseHeld))) = Some e' \<and> IsConflict sample_ext (Some e')"
proof -
  have "status_FromError sample_ext (Some (Wrapped ''acquire'' (Sentinel DomErrLeaseHeld))) = None" by (simp add: sample_ext_def)
  moreover have "\<not> IsNotFound sample_ext (Some (Wrapped ''acquire'' (Sentinel DomErrLeaseHeld)))"
      "IsConflict sample_ext (Some (Wrapped ''acquire'' (Sentinel DomErrLeaseHeld)))"
    by (simp_all add: IsNotFound_iff IsConflict_iff sample_ext_def status_code_is_def)
  ultimately show ?thesis
    using status_keeps_class [OF sample_ext_documented, of "Wrapped ''acquire'' (Sentinel DomErrLeaseHeld)"] by auto
qed

end
