(* ===== verification/Labels.thy ===== *)
theory Labels
  imports Errors
begin

text \<open>
  Label maps and label selectors, pkg/labels/labels.go. A selector is one of the four
  implementations of the \<^verbatim>\<open>Selector\<close> interface. Reading a key a Go map lacks gives the
  empty string, which is what \<open>EqualitySelector\<close> compares with.
\<close>

type_synonym label = "(string, string) gomap"

definition DefaultLabelPrefix :: string where
  "DefaultLabelPrefix = ''voiyd.io''"

definition LabelPrefix_String :: "string \<Rightarrow> string" where
  "LabelPrefix_String d = DefaultLabelPrefix @ ''/'' @ d"

definition Label_Get :: "label \<Rightarrow> string \<Rightarrow> string" where
  "Label_Get l key = (case map_of l key of Some v \<Rightarrow> v | None \<Rightarrow> [])"

definition Label_Set :: "label \<Rightarrow> string \<Rightarrow> string \<Rightarrow> label" where
  "Label_Set l key v = AList.update key v l"

definition Label_Delete :: "label \<Rightarrow> string \<Rightarrow> label" where
  "Label_Delete l key = AList.delete key l"

definition Label_AppendMap :: "label \<Rightarrow> label \<Rightarrow> label" where
  "Label_AppendMap l m = foldl (\<lambda>acc (k, v). Label_Set acc k v) l m"

datatype selector =
    EqualitySelector string string
  | SetSelector string "string list" bool
  | ExistsSelector string
  | CompositeSelector "selector list"

fun Matches :: "selector \<Rightarrow> label \<Rightarrow> bool" where
  "Matches (EqualitySelector key v) labels \<longleftrightarrow> Label_Get labels key = v"
| "Matches (SetSelector key vs isin) labels \<longleftrightarrow>
     (case map_of labels key of
        None \<Rightarrow> False
      | Some v \<Rightarrow> if v \<in> set vs then isin else \<not> isin)"
| "Matches (ExistsSelector key) labels \<longleftrightarrow> map_of labels key \<noteq> None"
| "Matches (CompositeSelector sels) labels \<longleftrightarrow> list_all (\<lambda>s. Matches s labels) sels"

definition NewCompositeSelectorFromMap :: "label \<Rightarrow> selector" where
  "NewCompositeSelectorFromMap labelMap =
     CompositeSelector (map (\<lambda>(key, v). EqualitySelector key v) labelMap)"

section \<open>Lemmas\<close>

lemma Label_Get_Set [simp, store_simps]:
  "Label_Get (Label_Set l k v) k' = (if k' = k then v else Label_Get l k')"
  by (simp add: Label_Get_def Label_Set_def)

lemma Label_Get_Delete [simp, store_simps]:
  "Label_Get (Label_Delete l k) k' = (if k' = k then [] else Label_Get l k')"
  by (simp add: Label_Get_def Label_Delete_def)

lemma map_of_AppendMap:
  "distinct (map fst m) \<Longrightarrow> map_of (Label_AppendMap l m) k = (case map_of m k of Some v \<Rightarrow> Some v | None \<Rightarrow> map_of l k)"
  by (simp add: Label_AppendMap_def Label_Set_def map_of_foldl_update)

lemma Matches_FromMap_iff:
  "Matches (NewCompositeSelectorFromMap m) labels \<longleftrightarrow> (\<forall>(k, v) \<in> set m. Label_Get labels k = v)"
  by (auto simp: NewCompositeSelectorFromMap_def list_all_iff)

text \<open>The order in which \<^verbatim>\<open>range\<close> visits the label map does not matter.\<close>

lemma Matches_FromMap_order:
  "set m = set n \<Longrightarrow> Matches (NewCompositeSelectorFromMap m) l = Matches (NewCompositeSelectorFromMap n) l"
  by (simp add: Matches_FromMap_iff)

lemma Matches_map_eq:
  assumes "map_of l = map_of l'"
  shows "Matches s l = Matches s l'"
proof (induction s)
  case (CompositeSelector sels)
  then show ?case by (simp add: list_all_iff)
qed (simp_all add: Label_Get_def assms split: option.splits)

end
