(* ===== verification/Messages.thy ===== *)
theory Messages
  imports Labels
begin

text \<open>
  The protobuf messages the program stores and exchanges (api/types/v1 and
  api/services), one record per message. A nil pointer to a message and an unset wrapper
  (StringValue, BoolValue, Timestamp) are \<open>None\<close>. A repeated field is a list; the
  wire format does not tell an empty one from a missing one, so \<^verbatim>\<open>nil\<close> is \<open>[]\<close>. A
  map field is an association list, and a packed \<^verbatim>\<open>Any\<close> is the message it holds.
\<close>

section \<open>Shared messages\<close>

record Meta =
  meta_Name :: string
  meta_Labels :: label
  meta_Created :: "instant option"
  meta_Updated :: "instant option"
  meta_Generation :: uint64
  meta_ResourceVersion :: uint64
  meta_Uid :: string

record Condition =
  cond_Type :: "string option"
  cond_Status :: "bool option"
  cond_Reason :: "string option"
  cond_Msg :: "string option"
  cond_LastTransitionTime :: "instant option"

record ConditionRequest =
  creq_ResourceVersion :: string
  creq_TaskId :: string
  creq_Conditions :: "Condition list"

datatype ConditionStatus =
    CONDITION_STATUS_UNSPECIFIED | CONDITION_STATUS_TRUE | CONDITION_STATUS_FALSE | CONDITION_STATUS_UNKNOWN

record ConditionReport =
  crep_ResourceId :: string
  crep_Type :: string
  crep_Status :: ConditionStatus
  crep_Reason :: string
  crep_Msg :: string
  crep_ObservedGeneration :: uint64
  crep_ObservedAt :: "instant option"
  crep_Metadata :: "(string, string) gomap"
  crep_Reporter :: string

section \<open>Tasks\<close>

record EnvVar =
  env_Name :: string
  env_Value :: string

record Mount =
  mnt_Name :: string
  mnt_Destination :: string
  mnt_Type :: string
  mnt_Volume :: string
  mnt_Source :: string
  mnt_Options :: "string list"

record PortMapping =
  pm_Name :: string
  pm_HostPort :: uint32
  pm_TargetPort :: uint32
  pm_Protocol :: string
  pm_HostIp :: string

record Capabilities =
  cap_Add :: "string list"
  cap_Drop :: "string list"

record TaskConfig =
  tc_Image :: string
  tc_Args :: "string list"
  tc_Envvars :: "EnvVar list"
  tc_Mounts :: "Mount list"
  tc_PortMappings :: "PortMapping list"
  tc_NodeSelector :: label
  tc_User :: string
  tc_Privileged :: bool
  tc_Capabilities :: "Capabilities option"

record TaskStatus =
  ts_Phase :: "string option"
  ts_Reason :: "string option"
  ts_Node :: "string option"
  ts_Ip :: "string option"
  ts_Pid :: "uint32 option"
  ts_Id :: "string option"
  ts_Conditions :: "Condition list"

record Task =
  task_Version :: string
  task_Meta :: "Meta option"
  task_Config :: "TaskConfig option"
  task_Status :: "TaskStatus option"

section \<open>Nodes\<close>

record VolumeDriverHostLocal =
  vdh_RootDir :: string

record VolumeDriverTemplate =
  vdt_RootDir :: string

record VolumeConfig =
  vdc_HostLocal :: "VolumeDriverHostLocal option"
  vdc_Template :: "VolumeDriverTemplate option"

record NodeConfig =
  nc_VolumeDrivers :: "VolumeConfig option"

record IPLinkStatus =
  ipl_Link :: "string option"
  ipl_State :: "string option"
  ipl_Mac :: "string option"

record IPV4Status =
  ip4_Address :: "string option"
  ip4_Netmask :: "string option"
  ip4_Gateway :: "string option"
  ip4_Interface :: "string option"

record IPStatus =
  ip_Links :: "IPLinkStatus list"
  ip_Addresses :: "IPV4Status list"
  ip_Dns :: "string option"

record NodeStatus =
  ns_Phase :: "string option"
  ns_Status :: "string option"
  ns_Ip :: "IPStatus option"
  ns_Hostname :: "string option"
  ns_Runtime :: "string option"
  ns_Version :: "string option"
  ns_Conditions :: "Condition list"

record Node =
  node_Version :: string
  node_Meta :: "Meta option"
  node_Config :: "NodeConfig option"
  node_Status :: "NodeStatus option"

record UpgradeRequest =
  up_TargetVersion :: string
  up_Uid :: string
  up_Name :: string
  up_Selector :: label

section \<open>Volumes\<close>

record Template =
  tpl_Name :: string
  tpl_Data :: string

record VolConfig =
  vc_HostLocal :: "unit option"
  vc_Template :: "Template option"
  vc_NodeSelector :: label

record ControllerStatus =
  cs_Phase :: "string option"
  cs_Location :: "string option"
  cs_Ready :: "bool option"

record VolStatus =
  vs_Controllers :: "(string, ControllerStatus) gomap"
  vs_Conditions :: "Condition list"

record Volume =
  vol_Version :: string
  vol_Meta :: "Meta option"
  vol_Config :: "VolConfig option"
  vol_Status :: "VolStatus option"

section \<open>Leases\<close>

record LeaseConfig =
  lc_TaskId :: string
  lc_NodeId :: string
  lc_AcquiredAt :: "instant option"
  lc_RenewTime :: "instant option"
  lc_ExpiresAt :: "instant option"
  lc_TtlSeconds :: uint32
  lc_FencingToken :: uint64

record LeaseStatus =
  ls_TokenHash :: string

record Lease =
  lease_Version :: string
  lease_Meta :: "Meta option"
  lease_Config :: "LeaseConfig option"
  lease_Status :: "LeaseStatus option"

section \<open>Logs\<close>

record TailLogRequest =
  tl_NodeId :: string
  tl_TaskId :: string
  tl_SessionId :: string
  tl_Watch :: bool

record LogEntry =
  le_NodeId :: string
  le_TaskId :: string
  le_SessionId :: string
  le_Timestamp :: "instant option"
  le_Line :: string
  le_Seq :: uint64

section \<open>Events\<close>

datatype (plugins only: code) EventType =
    TaskCreate | TaskDelete | TaskUpdate | TaskPatch | TaskStart | TaskGet | TaskList | TaskKill | TaskStop
  | NodeGet | NodeCreate | NodeDelete | NodeList | NodeUpdate | NodePatch | NodeJoin | NodeForget
  | NodeConnect | NodeUpgrade
  | ContainerSetCreate | ContainerSetDelete | ContainerSetUpdate
  | Schedule | TailLogsStart | TailLogsStop
  | VolumeCreate | VolumeDelete | VolumeUpdate | VolumePatch | VolumeGet | VolumeList
  | RuntimeTaskExit | RuntimeTaskCreate | RuntimeTaskStart | RuntimeTaskDelete | RuntimeTaskIO
  | RuntimeTaskOOM | RuntimeTaskExecAdded | RuntimeTaskExecStarted | RuntimeTaskPaused
  | RuntimeTaskResumed | RuntimeTaskCheckpointed
  | RuntimeSnapshotPrepare | RuntimeSnapshotCommit | RuntimeSnapshotRemove
  | RuntimeNamespaceCreate | RuntimeNamespaceUpdate | RuntimeNamespaceDelete
  | RuntimeImageCreate | RuntimeImageUpdate | RuntimeImageDelete
  | RuntimeContainerCreate | RuntimeContainerUpdate | RuntimeContainerDelete
  | RuntimeContentCreate | RuntimeContentDelete
  | LeaseAcquired | LeaseExpired | LeaseRenewed | LeaseReleased | LeaseDeleted
  | ConditionReported

text \<open>What an \<^verbatim>\<open>Any\<close> holds; a schedule request packs a task and a node in turn.\<close>

datatype any =
    AnyTask Task | AnyNode Node | AnyVolume Volume | AnyLease Lease
  | AnyUpgrade UpgradeRequest | AnyConditionRequest ConditionRequest
  | AnyConditionReport ConditionReport | AnyTailLog TailLogRequest
  | AnySchedule "any option" "any option"
  | AnyOther string bytes

record Event =
  ev_Version :: string
  ev_Meta :: "Meta option"
  ev_ObjectId :: string
  ev_ClientId :: string
  ev_Type :: EventType
  ev_Object :: "any option"
  ev_Reason :: string

section \<open>Getters\<close>

text \<open>
  The generated getters read through nil pointers: a field of a missing message is its
  zero value.
\<close>

definition empty_Meta :: Meta where
  "empty_Meta = \<lparr>meta_Name = [], meta_Labels = [], meta_Created = None, meta_Updated = None,
                 meta_Generation = 0, meta_ResourceVersion = 0, meta_Uid = []\<rparr>"

definition getMeta :: "Meta option \<Rightarrow> Meta" where
  "getMeta m = (case m of None \<Rightarrow> empty_Meta | Some x \<Rightarrow> x)"

definition empty_TaskConfig :: TaskConfig where
  "empty_TaskConfig = \<lparr>tc_Image = [], tc_Args = [], tc_Envvars = [], tc_Mounts = [], tc_PortMappings = [],
     tc_NodeSelector = [], tc_User = [], tc_Privileged = False, tc_Capabilities = None\<rparr>"

definition empty_TaskStatus :: TaskStatus where
  "empty_TaskStatus = \<lparr>ts_Phase = None, ts_Reason = None, ts_Node = None, ts_Ip = None, ts_Pid = None,
     ts_Id = None, ts_Conditions = []\<rparr>"

definition empty_NodeStatus :: NodeStatus where
  "empty_NodeStatus = \<lparr>ns_Phase = None, ns_Status = None, ns_Ip = None, ns_Hostname = None,
     ns_Runtime = None, ns_Version = None, ns_Conditions = []\<rparr>"

definition empty_VolStatus :: VolStatus where
  "empty_VolStatus = \<lparr>vs_Controllers = [], vs_Conditions = []\<rparr>"

definition empty_LeaseConfig :: LeaseConfig where
  "empty_LeaseConfig = \<lparr>lc_TaskId = [], lc_NodeId = [], lc_AcquiredAt = None, lc_RenewTime = None,
     lc_ExpiresAt = None, lc_TtlSeconds = 0, lc_FencingToken = 0\<rparr>"

definition empty_LeaseStatus :: LeaseStatus where
  "empty_LeaseStatus = \<lparr>ls_TokenHash = []\<rparr>"

definition task_config :: "Task \<Rightarrow> TaskConfig" where
  "task_config t = (case task_Config t of None \<Rightarrow> empty_TaskConfig | Some c \<Rightarrow> c)"

definition task_status :: "Task \<Rightarrow> TaskStatus" where
  "task_status t = (case task_Status t of None \<Rightarrow> empty_TaskStatus | Some c \<Rightarrow> c)"

definition node_status :: "Node \<Rightarrow> NodeStatus" where
  "node_status n = (case node_Status n of None \<Rightarrow> empty_NodeStatus | Some c \<Rightarrow> c)"

definition lease_config :: "Lease \<Rightarrow> LeaseConfig" where
  "lease_config l = (case lease_Config l of None \<Rightarrow> empty_LeaseConfig | Some c \<Rightarrow> c)"

definition lease_status :: "Lease \<Rightarrow> LeaseStatus" where
  "lease_status l = (case lease_Status l of None \<Rightarrow> empty_LeaseStatus | Some c \<Rightarrow> c)"

text \<open>
  \<^verbatim>\<open>Timestamp.AsTime\<close> of a nil timestamp is the Unix epoch, and \<^verbatim>\<open>GetValue\<close> of a nil
  wrapper the zero value.
\<close>

definition AsTime :: "instant option \<Rightarrow> instant" where
  "AsTime t = (case t of None \<Rightarrow> 0 | Some x \<Rightarrow> x)"

definition GetValue :: "string option \<Rightarrow> string" where
  "GetValue v = (case v of None \<Rightarrow> [] | Some s \<Rightarrow> s)"

lemma getter_simps [simp]:
  "getMeta (Some m) = m" "AsTime (Some t) = t" "AsTime None = 0" "GetValue (Some s) = s" "GetValue None = []"
  by (simp_all add: getMeta_def AsTime_def GetValue_def)

lemma config_simps [simp]:
  "task_Config t = Some c \<Longrightarrow> task_config t = c" "task_Status t = Some s \<Longrightarrow> task_status t = s"
  "node_Status n = Some ns \<Longrightarrow> node_status n = ns"
  "lease_Config l = Some lc \<Longrightarrow> lease_config l = lc" "lease_Status l = Some ls \<Longrightarrow> lease_status l = ls"
  by (simp_all add: task_config_def task_status_def node_status_def lease_config_def lease_status_def)

end
