(* ===== verification/Conditions.thy ===== *)
theory Conditions
  imports Messages
begin

text \<open>
  Condition reports and their publisher, pkg/condition/condition.go and publisher.go.

  A controller builds a report and hands it to the publisher, which keeps one
  sub-publisher per resource. Each sub-publisher is a goroutine that gathers conditions,
  keeps the newest of each type and sends them to the server every 300 ms. Goroutines,
  timers and channels are the steps of a transition relation: any step that is enabled
  may come next. Sub-publishers are shared by pointer, so they live in a heap.
\<close>

section \<open>Reports\<close>

datatype CondType = RuntimeReady | ImageReady | VolumeReady | NetworkReady | TaskReady | TaskScheduled | NodeReady

fun type_text :: "CondType \<Rightarrow> string" where
  "type_text RuntimeReady = ''RuntimeReady''"
| "type_text ImageReady = ''ImageReady''"
| "type_text VolumeReady = ''VolumeReady''"
| "type_text NetworkReady = ''NetworkReady''"
| "type_text TaskReady = ''TaskReady''"
| "type_text TaskScheduled = ''TaskScheduled''"
| "type_text NodeReady = ''NodeReady''"

datatype (plugins only: code) Reason =
    ReasonPulling | ReasonPulled | ReasonPullFailed
  | ReasonAttaching | ReasonAttached | ReasonAttachFailed
  | ReasonDetaching | ReasonDetached | ReasonDetachFailed
  | ReasonCreating | ReasonCreated | ReasonCreateFailed
  | ReasonStarting | ReasonStarted | ReasonStartFailed
  | ReasonRunning | ReasonRunFailed
  | ReasonStopping | ReasonStopped | ReasonStopFailed
  | ReasonDeleting | ReasonDeleted | ReasonDeleteFailed
  | ReasonScheduling | ReasonScheduled | ReasonSchedulingFailed
  | ReasonConnecting | ReasonConnected | ReasonConnectionFailed
  | ReasonDisconnecting | ReasonDisconnected | ReasonDisconntFailed
  | ReasonUpgrading | ReasonUpgraded | ReasonUpgradeFailed
  | ReasonUnhealthy | ReasonReady | ReasonUnknown

primrec reason_text :: "Reason \<Rightarrow> string" where
  "reason_text ReasonPulling = ''Pulling''"
| "reason_text ReasonPulled = ''Pulled''"
| "reason_text ReasonPullFailed = ''PullFailed''"
| "reason_text ReasonAttaching = ''Attaching''"
| "reason_text ReasonAttached = ''Attached''"
| "reason_text ReasonAttachFailed = ''AttachFailed''"
| "reason_text ReasonDetaching = ''Detaching''"
| "reason_text ReasonDetached = ''Detached''"
| "reason_text ReasonDetachFailed = ''DetachFailed''"
| "reason_text ReasonCreating = ''Creating''"
| "reason_text ReasonCreated = ''Created''"
| "reason_text ReasonCreateFailed = ''CreateFailed''"
| "reason_text ReasonStarting = ''Starting''"
| "reason_text ReasonStarted = ''Started''"
| "reason_text ReasonStartFailed = ''StartFailed''"
| "reason_text ReasonRunning = ''Running''"
| "reason_text ReasonRunFailed = ''RunFailed''"
| "reason_text ReasonStopping = ''Stopping''"
| "reason_text ReasonStopped = ''Stopped''"
| "reason_text ReasonStopFailed = ''StopFailed''"
| "reason_text ReasonDeleting = ''Deleting''"
| "reason_text ReasonDeleted = ''Deleted''"
| "reason_text ReasonDeleteFailed = ''FailedFailed''"
| "reason_text ReasonScheduling = ''Scheduling''"
| "reason_text ReasonScheduled = ''Scheduled''"
| "reason_text ReasonSchedulingFailed = ''SchedulingFailed''"
| "reason_text ReasonConnecting = ''Connecting''"
| "reason_text ReasonConnected = ''Connected''"
| "reason_text ReasonConnectionFailed = ''ConnectionFailed''"
| "reason_text ReasonDisconnecting = ''Disconnecting''"
| "reason_text ReasonDisconnected = ''Disconnected''"
| "reason_text ReasonDisconntFailed = ''DisconnectFailed''"
| "reason_text ReasonUpgrading = ''Upgrading''"
| "reason_text ReasonUpgraded = ''Upgraded''"
| "reason_text ReasonUpgradeFailed = ''UpgradeFailed''"
| "reason_text ReasonUnhealthy = ''Unhealthy''"
| "reason_text ReasonReady = ''Ready''"
| "reason_text ReasonUnknown = ''Unknown''"

definition NewReport :: "string \<Rightarrow> uint64 \<Rightarrow> ConditionReport" where
  "NewReport resourceID gen = \<lparr>crep_ResourceId = resourceID, crep_Type = [], crep_Status = CONDITION_STATUS_UNSPECIFIED,
     crep_Reason = [], crep_Msg = [], crep_ObservedGeneration = gen, crep_ObservedAt = None, crep_Metadata = [],
     crep_Reporter = []\<rparr>"

definition NewReportFor :: "Task \<Rightarrow> ConditionReport" where
  "NewReportFor task = NewReport (meta_Uid (getMeta (task_Meta task))) (meta_Generation (getMeta (task_Meta task)))"

definition NewForResource :: "instant \<Rightarrow> Meta option \<Rightarrow> ConditionReport" where
  "NewForResource now m = (NewReport (meta_Uid (getMeta m)) (meta_ResourceVersion (getMeta m)))\<lparr>crep_ObservedAt := Some now\<rparr>"

definition Report_As :: "string \<Rightarrow> ConditionReport \<Rightarrow> ConditionReport" where
  "Report_As name r = r\<lparr>crep_Reporter := name\<rparr>"

definition Report_Type :: "instant \<Rightarrow> CondType \<Rightarrow> ConditionReport \<Rightarrow> ConditionReport" where
  "Report_Type now t r = r\<lparr>crep_Type := type_text t, crep_ObservedAt := Some now\<rparr>"

definition Report_WithMetadata :: "(string, string) gomap \<Rightarrow> ConditionReport \<Rightarrow> ConditionReport" where
  "Report_WithMetadata m r = r\<lparr>crep_Metadata := foldl (\<lambda>acc (k, v). AList.update k v acc) [] m\<rparr>"

text \<open>The message is variadic: without one, that of an earlier use of the report stays.\<close>

definition put_msg :: "string list \<Rightarrow> ConditionReport \<Rightarrow> ConditionReport" where
  "put_msg msg r = (case msg of [] \<Rightarrow> r | m # _ \<Rightarrow> r\<lparr>crep_Msg := m\<rparr>)"

definition Report_True :: "Reason \<Rightarrow> string list \<Rightarrow> ConditionReport \<Rightarrow> ConditionReport" where
  "Report_True reason msg r = put_msg msg (r\<lparr>crep_Status := CONDITION_STATUS_TRUE, crep_Reason := reason_text reason\<rparr>)"

definition Report_False :: "Reason \<Rightarrow> string list \<Rightarrow> ConditionReport \<Rightarrow> ConditionReport" where
  "Report_False reason msg r = put_msg msg (r\<lparr>crep_Status := CONDITION_STATUS_FALSE, crep_Reason := reason_text reason\<rparr>)"

definition Report_InProgress :: "Reason \<Rightarrow> string \<Rightarrow> ConditionReport \<Rightarrow> ConditionReport" where
  "Report_InProgress reason msg r =
     r\<lparr>crep_Status := CONDITION_STATUS_UNKNOWN, crep_Reason := reason_text reason, crep_Msg := msg\<rparr>"

section \<open>The publisher\<close>

text \<open>
  Where a sub-publisher's goroutine is: not yet started by Run, in its loop, blocked on
  telling Run that it is done, or returned.
\<close>

datatype cp_phase = Unstarted | Looping | Signalling | Returned

record ConditionPublisher =
  cp_state :: "Condition list"
  cp_condCh :: "Condition list"
  cp_id :: string
  cp_phase :: cp_phase

type_synonym cp_ptr = nat

record publisher =
  pub_subs :: "(string, cp_ptr) gomap"
  pub_heap :: "ConditionPublisher list"

definition NewPublisher :: publisher where
  "NewPublisher = \<lparr>pub_subs = [], pub_heap = []\<rparr>"

text \<open>The capacity of the channel to a sub-publisher.\<close>

definition condCh_cap :: nat where
  "condCh_cap = 256"

definition upd_sub :: "cp_ptr \<Rightarrow> (ConditionPublisher \<Rightarrow> ConditionPublisher) \<Rightarrow> publisher \<Rightarrow> publisher" where
  "upd_sub i f p = p\<lparr>pub_heap := (pub_heap p)[i := f (pub_heap p ! i)]\<rparr>"

text \<open>
  A new sub-publisher goes to the map; the goroutine that hands it to Run leaves it
  \<open>Unstarted\<close> until Run takes it.
\<close>

definition addSubPublisher :: "ConditionPublisher \<Rightarrow> publisher \<Rightarrow> publisher" where
  "addSubPublisher sub p = p\<lparr>pub_subs := AList.update (cp_id sub) (length (pub_heap p)) (pub_subs p),
                            pub_heap := pub_heap p @ [sub]\<rparr>"

definition cond_of :: "instant \<Rightarrow> bool \<Rightarrow> ConditionReport \<Rightarrow> Condition" where
  "cond_of now status report = \<lparr>cond_Type = Some (crep_Type report), cond_Status = Some status,
     cond_Reason = Some (crep_Reason report), cond_Msg = Some (crep_Msg report), cond_LastTransitionTime = Some now\<rparr>"

text \<open>\<open>None\<close> when the channel is full: the call blocks, with the publisher locked.\<close>

definition publisher_Report :: "instant \<Rightarrow> string \<Rightarrow> bool \<Rightarrow> ConditionReport \<Rightarrow> publisher \<Rightarrow> publisher option" where
  "publisher_Report now resourceID status report p =
     (let cond = cond_of now status report in
      case map_of (pub_subs p) resourceID of
        None \<Rightarrow>
          (let i = length (pub_heap p);
               p = addSubPublisher \<lparr>cp_state = [], cp_condCh = [], cp_id = resourceID, cp_phase = Unstarted\<rparr> p
           in Some (upd_sub i (\<lambda>s. s\<lparr>cp_condCh := cp_condCh s @ [cond]\<rparr>) p))
      | Some i \<Rightarrow>
          if length (cp_condCh (pub_heap p ! i)) < condCh_cap
          then Some (upd_sub i (\<lambda>s. s\<lparr>cp_condCh := cp_condCh s @ [cond]\<rparr>) p)
          else None)"

text \<open>Keeping the newest condition of each type.\<close>

fun dedupe :: "Condition \<Rightarrow> Condition list \<Rightarrow> Condition list" where
  "dedupe cond [] = [cond]"
| "dedupe cond (st # sts) =
     (if GetValue (cond_Type st) = GetValue (cond_Type cond) then
        (if AsTime (cond_LastTransitionTime cond) > AsTime (cond_LastTransitionTime st) then cond # sts else st # sts)
      else st # dedupe cond sts)"

definition recv_cond :: "ConditionPublisher \<Rightarrow> ConditionPublisher" where
  "recv_cond s = (case cp_condCh s of [] \<Rightarrow> s | c # cs \<Rightarrow> s\<lparr>cp_condCh := cs, cp_state := dedupe c (cp_state s)\<rparr>)"

text \<open>The state is sent to the server and forgotten once the server took it.\<close>

type_synonym 'w condition_client = "string \<Rightarrow> Condition list \<Rightarrow> 'w \<Rightarrow> unit res \<times> 'w"

definition cp_flush :: "'w condition_client \<Rightarrow> ConditionPublisher \<times> 'w \<Rightarrow> unit res \<times> (ConditionPublisher \<times> 'w)" where
  "cp_flush client sw =
     (case sw of (s, w) \<Rightarrow>
        if cp_state s = [] then (Ok (), (s, w))
        else (case client (cp_id s) (cp_state s) w of
                (Ok _, w') \<Rightarrow> (Ok (), (s\<lparr>cp_state := []\<rparr>, w'))
              | (r, w') \<Rightarrow> (r, (s, w'))))"

end
