(* ===== verification/ConditionProps.thy ===== *)
theory ConditionProps
  imports Conditions
begin

text \<open>
  The condition publisher as a transition system, its invariant, and what becomes of a
  reported condition: it is delivered, superseded by a newer one of its type, or still
  held by a sub-publisher.
\<close>

section \<open>Steps\<close>

datatype pub_label = Reported string Condition | Delivered string "Condition list" | Silent

definition flush_label :: "ConditionPublisher \<Rightarrow> unit res \<Rightarrow> pub_label" where
  "flush_label s r = (if cp_state s \<noteq> [] \<and> r = Ok () then Delivered (cp_id s) (cp_state s) else Silent)"

inductive pub_step :: "'w condition_client \<Rightarrow> publisher \<times> 'w \<Rightarrow> pub_label \<Rightarrow> publisher \<times> 'w \<Rightarrow> bool" for client where
  pb_report: "publisher_Report now rid status report p = Some p' \<Longrightarrow>
     pub_step client (p, w) (Reported rid (cond_of now status report)) (p', w)"
| pb_start: "i < length (pub_heap p) \<Longrightarrow> cp_phase (pub_heap p ! i) = Unstarted \<Longrightarrow>
     pub_step client (p, w) Silent (upd_sub i (\<lambda>s. s\<lparr>cp_phase := Looping\<rparr>) p, w)"
| pb_recv: "i < length (pub_heap p) \<Longrightarrow> cp_phase (pub_heap p ! i) = Looping \<Longrightarrow> cp_condCh (pub_heap p ! i) \<noteq> [] \<Longrightarrow>
     pub_step client (p, w) Silent (upd_sub i recv_cond p, w)"
| pb_tick: "i < length (pub_heap p) \<Longrightarrow> cp_phase (pub_heap p ! i) = Looping \<Longrightarrow>
     cp_flush client (pub_heap p ! i, w) = (r, (s', w')) \<Longrightarrow>
     pub_step client (p, w) (flush_label (pub_heap p ! i) r) (upd_sub i (\<lambda>_. s') p, w')"
| pb_cancel: "i < length (pub_heap p) \<Longrightarrow> cp_phase (pub_heap p ! i) = Looping \<Longrightarrow>
     cp_flush client (pub_heap p ! i, w) = (r, (s', w')) \<Longrightarrow>
     pub_step client (p, w) (flush_label (pub_heap p ! i) r) (upd_sub i (\<lambda>_. s'\<lparr>cp_phase := Returned\<rparr>) p, w')"
| pb_idle: "i < length (pub_heap p) \<Longrightarrow> cp_phase (pub_heap p ! i) = Looping \<Longrightarrow>
     cp_flush client (pub_heap p ! i, w) = (r, (s', w')) \<Longrightarrow>
     pub_step client (p, w) (flush_label (pub_heap p ! i) r) (upd_sub i (\<lambda>_. s'\<lparr>cp_phase := Signalling\<rparr>) p, w')"
| pb_done: "i < length (pub_heap p) \<Longrightarrow> cp_phase (pub_heap p ! i) = Signalling \<Longrightarrow>
     pub_step client (p, w) Silent
       ((upd_sub i (\<lambda>s. s\<lparr>cp_phase := Returned\<rparr>) p)\<lparr>pub_subs := AList.delete (cp_id (pub_heap p ! i)) (pub_subs p)\<rparr>, w)"

inductive pub_run :: "'w condition_client \<Rightarrow> publisher \<times> 'w \<Rightarrow> pub_label list \<Rightarrow> publisher \<times> 'w \<Rightarrow> bool" for client s0 where
  pbr_refl: "pub_run client s0 [] s0"
| pbr_step: "pub_run client s0 tr s \<Longrightarrow> pub_step client s l s' \<Longrightarrow> pub_run client s0 (tr @ [l]) s'"

section \<open>Invariant\<close>

abbreviation ctype :: "Condition \<Rightarrow> string" where
  "ctype c \<equiv> GetValue (cond_Type c)"

abbreviation ctime :: "Condition \<Rightarrow> instant" where
  "ctime c \<equiv> AsTime (cond_LastTransitionTime c)"

text \<open>Some condition of the list speaks of the same type and is at least as new.\<close>

definition covered :: "Condition \<Rightarrow> Condition list \<Rightarrow> bool" where
  "covered c cs \<longleftrightarrow> (\<exists>c' \<in> set cs. ctype c' = ctype c \<and> ctime c \<le> ctime c')"

definition held :: "Condition \<Rightarrow> ConditionPublisher \<Rightarrow> bool" where
  "held c s \<longleftrightarrow> c \<in> set (cp_condCh s) \<or> covered c (cp_state s)"

definition delivered :: "pub_label list \<Rightarrow> string \<Rightarrow> Condition \<Rightarrow> bool" where
  "delivered tr rid c \<longleftrightarrow> (\<exists>cs. Delivered rid cs \<in> set tr \<and> covered c cs)"

definition genuine :: "pub_label list \<Rightarrow> string \<Rightarrow> Condition list \<Rightarrow> bool" where
  "genuine tr rid cs \<longleftrightarrow> distinct (map ctype cs) \<and> (\<forall>c \<in> set cs. Reported rid c \<in> set tr)"

definition sub_ok :: "pub_label list \<Rightarrow> ConditionPublisher \<Rightarrow> bool" where
  "sub_ok tr s \<longleftrightarrow> genuine tr (cp_id s) (cp_state s) \<and> (\<forall>c \<in> set (cp_condCh s). Reported (cp_id s) c \<in> set tr)
     \<and> length (cp_condCh s) \<le> condCh_cap"

definition pub_ok :: "pub_label list \<Rightarrow> publisher \<Rightarrow> bool" where
  "pub_ok tr p \<longleftrightarrow>
     (\<forall>rid i. map_of (pub_subs p) rid = Some i \<longrightarrow> i < length (pub_heap p) \<and> cp_id (pub_heap p ! i) = rid) \<and>
     (\<forall>s \<in> set (pub_heap p). sub_ok tr s) \<and>
     (\<forall>rid c. Reported rid c \<in> set tr \<longrightarrow> delivered tr rid c \<or> (\<exists>s \<in> set (pub_heap p). cp_id s = rid \<and> held c s)) \<and>
     (\<forall>rid cs. Delivered rid cs \<in> set tr \<longrightarrow> genuine tr rid cs)"

lemma genuine_mono: "genuine tr rid cs \<Longrightarrow> genuine (tr @ [l]) rid cs"
  by (simp add: genuine_def)

lemma sub_ok_mono: "sub_ok tr s \<Longrightarrow> sub_ok (tr @ [l]) s"
  by (simp add: sub_ok_def genuine_mono)

lemma delivered_mono: "delivered tr rid c \<Longrightarrow> delivered (tr @ [l]) rid c"
  by (auto simp: delivered_def)

lemma set_upd_sub:
  "i < length (pub_heap p) \<Longrightarrow> s \<in> set (pub_heap p) \<Longrightarrow>
   s = pub_heap p ! i \<or> s \<in> set (pub_heap (upd_sub i f p))"
  by (auto simp: upd_sub_def in_set_conv_nth) (metis nth_list_update_neq)

lemma upd_sub_in: "i < length (pub_heap p) \<Longrightarrow> f (pub_heap p ! i) \<in> set (pub_heap (upd_sub i f p))"
  by (simp add: upd_sub_def set_update_memI)

lemma upd_sub_cases:
  "s \<in> set (pub_heap (upd_sub i f p)) \<Longrightarrow> s = f (pub_heap p ! i) \<or> s \<in> set (pub_heap p)"
  using set_update_subset_insert [of "pub_heap p" i "f (pub_heap p ! i)"] by (auto simp: upd_sub_def)

lemma upd_sub_simps [simp]:
  "pub_subs (upd_sub i f p) = pub_subs p" "length (pub_heap (upd_sub i f p)) = length (pub_heap p)"
  by (simp_all add: upd_sub_def)

lemma upd_sub_id:
  "i < length (pub_heap p) \<Longrightarrow> cp_id (f (pub_heap p ! i)) = cp_id (pub_heap p ! i) \<Longrightarrow>
   cp_id (pub_heap (upd_sub i f p) ! j) = cp_id (pub_heap p ! j)"
  by (cases "j = i") (simp_all add: upd_sub_def)

lemma pub_okD:
  assumes "pub_ok tr p"
  shows "map_of (pub_subs p) rid = Some i \<Longrightarrow> i < length (pub_heap p)"
    and "map_of (pub_subs p) rid = Some i \<Longrightarrow> cp_id (pub_heap p ! i) = rid"
    and "s \<in> set (pub_heap p) \<Longrightarrow> sub_ok tr s"
    and "Reported rid c \<in> set tr \<Longrightarrow> delivered tr rid c \<or> (\<exists>s \<in> set (pub_heap p). cp_id s = rid \<and> held c s)"
    and "Delivered rid cs \<in> set tr \<Longrightarrow> genuine tr rid cs"
  using assms unfolding pub_ok_def by blast+

text \<open>A step of one sub-publisher that loses nothing keeps the invariant.\<close>

lemma pub_ok_upd:
  assumes ok: "pub_ok tr p" and i: "i < length (pub_heap p)"
    and keeps_id: "cp_id (f (pub_heap p ! i)) = cp_id (pub_heap p ! i)"
    and sub: "sub_ok tr (pub_heap p ! i) \<Longrightarrow> sub_ok (tr @ [l]) (f (pub_heap p ! i))"
    and keep: "\<And>c. held c (pub_heap p ! i) \<Longrightarrow>
                 held c (f (pub_heap p ! i)) \<or> delivered (tr @ [l]) (cp_id (pub_heap p ! i)) c"
    and l: "l = Silent \<or> l = Delivered (cp_id (pub_heap p ! i)) (cp_state (pub_heap p ! i))
            \<or> (\<exists>c. l = Reported (cp_id (pub_heap p ! i)) c \<and> held c (f (pub_heap p ! i)))"
  shows "pub_ok (tr @ [l]) (upd_sub i f p)"
proof -
  let ?s = "pub_heap p ! i" and ?p' = "upd_sub i f p"
  have s: "sub_ok tr ?s" using pub_okD(3) [OF ok] i by simp
  have new: "f ?s \<in> set (pub_heap ?p')" by (rule upd_sub_in [OF i])
  have old: "delivered (tr @ [l]) rid c \<or> (\<exists>s \<in> set (pub_heap ?p'). cp_id s = rid \<and> held c s)"
    if rep: "Reported rid c \<in> set tr" for rid c
    using pub_okD(4) [OF ok rep]
  proof
    assume "delivered tr rid c"
    then show ?thesis by (simp add: delivered_mono)
  next
    assume "\<exists>s \<in> set (pub_heap p). cp_id s = rid \<and> held c s"
    then obtain s where "s \<in> set (pub_heap p)" "cp_id s = rid" "held c s" by blast
    with set_upd_sub [OF i, of s f] keep [of c] new keeps_id show ?thesis by metis
  qed
  show ?thesis
    unfolding pub_ok_def
  proof (intro conjI allI ballI impI)
    fix rid j assume "map_of (pub_subs ?p') rid = Some j"
    with pub_okD(1,2) [OF ok, of rid j] show "j < length (pub_heap ?p')" "cp_id (pub_heap ?p' ! j) = rid"
      by (simp_all add: upd_sub_id [OF i, of f, OF keeps_id])
  next
    fix s assume "s \<in> set (pub_heap ?p')"
    from upd_sub_cases [OF this] show "sub_ok (tr @ [l]) s"
      using sub [OF s] pub_okD(3) [OF ok] sub_ok_mono by blast
  next
    fix rid c assume "Reported rid c \<in> set (tr @ [l])"
    then show "delivered (tr @ [l]) rid c \<or> (\<exists>s \<in> set (pub_heap ?p'). cp_id s = rid \<and> held c s)"
      using l old [of rid c] new keeps_id by auto
  next
    fix rid cs assume "Delivered rid cs \<in> set (tr @ [l])"
    then show "genuine (tr @ [l]) rid cs"
      using l pub_okD(5) [OF ok, of rid cs] s by (auto simp: sub_ok_def genuine_mono)
  qed
qed

lemma pub_ok_subs: "pub_ok tr p \<Longrightarrow> pub_ok tr (p\<lparr>pub_subs := AList.delete rid (pub_subs p)\<rparr>)"
  by (simp add: pub_ok_def)

text \<open>A new sub-publisher that holds nothing yet.\<close>

lemma pub_ok_add:
  assumes ok: "pub_ok tr p"
  shows "pub_ok tr (addSubPublisher \<lparr>cp_state = [], cp_condCh = [], cp_id = rid, cp_phase = ph\<rparr> p)"
    (is "pub_ok tr ?p")
proof -
  have heap: "pub_heap ?p = pub_heap p @ [\<lparr>cp_state = [], cp_condCh = [], cp_id = rid, cp_phase = ph\<rparr>]"
    by (simp add: addSubPublisher_def)
  have subs: "pub_subs ?p = AList.update rid (length (pub_heap p)) (pub_subs p)" by (simp add: addSubPublisher_def)
  show ?thesis
    unfolding pub_ok_def heap subs
  proof (intro conjI allI ballI impI)
    fix r i assume "map_of (AList.update rid (length (pub_heap p)) (pub_subs p)) r = Some i"
    with pub_okD(1,2) [OF ok, of r i]
    show "i < length (pub_heap p @ [\<lparr>cp_state = [], cp_condCh = [], cp_id = rid, cp_phase = ph\<rparr>])"
      and "cp_id ((pub_heap p @ [\<lparr>cp_state = [], cp_condCh = [], cp_id = rid, cp_phase = ph\<rparr>]) ! i) = r"
      by (auto simp: nth_append split: if_splits)
  next
    fix s assume "s \<in> set (pub_heap p @ [\<lparr>cp_state = [], cp_condCh = [], cp_id = rid, cp_phase = ph\<rparr>])"
    then show "sub_ok tr s" using pub_okD(3) [OF ok] by (auto simp: sub_ok_def [of _ "\<lparr>cp_state = _, cp_condCh = _, cp_id = _, cp_phase = _\<rparr>"] genuine_def)
  qed (use pub_okD(4,5) [OF ok] in \<open>auto\<close>)
qed

lemma held_append: "held c s \<Longrightarrow> held c (s\<lparr>cp_condCh := cp_condCh s @ [c']\<rparr>)"
  by (auto simp: held_def)

lemma pub_ok_send:
  assumes ok: "pub_ok tr p" and i: "i < length (pub_heap p)" and room: "length (cp_condCh (pub_heap p ! i)) < condCh_cap"
  shows "pub_ok (tr @ [Reported (cp_id (pub_heap p ! i)) c]) (upd_sub i (\<lambda>s. s\<lparr>cp_condCh := cp_condCh s @ [c]\<rparr>) p)"
proof (rule pub_ok_upd [OF ok i])
  assume "sub_ok tr (pub_heap p ! i)"
  with room show "sub_ok (tr @ [Reported (cp_id (pub_heap p ! i)) c])
      ((pub_heap p ! i)\<lparr>cp_condCh := cp_condCh (pub_heap p ! i) @ [c]\<rparr>)"
    by (auto simp: sub_ok_def genuine_mono)
qed (auto simp: held_append, simp add: held_def)

lemma pub_ok_report:
  assumes ok: "pub_ok tr p" and r: "publisher_Report now rid status report p = Some p'"
  shows "pub_ok (tr @ [Reported rid (cond_of now status report)]) p'"
proof (cases "map_of (pub_subs p) rid")
  case None
  let ?s = "\<lparr>cp_state = [], cp_condCh = [], cp_id = rid, cp_phase = Unstarted\<rparr>"
  let ?q = "addSubPublisher ?s p"
  have q: "pub_heap ?q ! length (pub_heap p) = ?s" "length (pub_heap p) < length (pub_heap ?q)"
    by (simp_all add: addSubPublisher_def)
  have "pub_ok (tr @ [Reported rid (cond_of now status report)])
      (upd_sub (length (pub_heap p)) (\<lambda>s. s\<lparr>cp_condCh := cp_condCh s @ [cond_of now status report]\<rparr>) ?q)"
    using pub_ok_send [OF pub_ok_add [OF ok, of rid Unstarted] q(2)] q(1) by (simp add: condCh_cap_def)
  moreover have "p' = upd_sub (length (pub_heap p)) (\<lambda>s. s\<lparr>cp_condCh := cp_condCh s @ [cond_of now status report]\<rparr>) ?q"
    using r None by (simp add: publisher_Report_def Let_def)
  ultimately show ?thesis by simp
next
  case (Some i)
  with r pub_ok_send [OF ok pub_okD(1) [OF ok Some], of "cond_of now status report"] pub_okD(2) [OF ok Some]
  show ?thesis by (simp add: publisher_Report_def Let_def split: if_splits)
qed

section \<open>Steps of a sub-publisher\<close>

lemma dedupe_types: "set (map ctype (dedupe c cs)) = insert (ctype c) (set (map ctype cs))"
  by (induction cs) auto

lemma dedupe_set: "set (dedupe c cs) \<subseteq> insert c (set cs)"
  by (induction cs) auto

lemma dedupe_distinct: "distinct (map ctype cs) \<Longrightarrow> distinct (map ctype (dedupe c cs))"
proof (induction cs)
  case (Cons st sts)
  then show ?case using dedupe_types [of c sts] by auto
qed simp

lemma dedupe_covers: "covered c (dedupe c cs)"
  by (induction cs) (auto simp: covered_def)

lemma dedupe_keeps: "covered c' cs \<Longrightarrow> covered c' (dedupe c cs)"
  by (induction cs) (auto simp: covered_def)

lemma recv_keeps:
  assumes "cp_condCh s \<noteq> []"
  shows "sub_ok tr s \<Longrightarrow> sub_ok tr (recv_cond s)" and "held c s \<Longrightarrow> held c (recv_cond s)"
    and "cp_id (recv_cond s) = cp_id s" and "cp_phase (recv_cond s) = cp_phase s"
proof -
  from assms obtain d ds where ch: "cp_condCh s = d # ds" by (cases "cp_condCh s") auto
  show "held c s \<Longrightarrow> held c (recv_cond s)" "cp_id (recv_cond s) = cp_id s" "cp_phase (recv_cond s) = cp_phase s"
    by (auto simp: recv_cond_def ch held_def dedupe_covers dedupe_keeps)
  assume ok: "sub_ok tr s"
  then have "\<forall>x \<in> set (dedupe d (cp_state s)). Reported (cp_id s) x \<in> set tr"
    using dedupe_set [of d "cp_state s"] ch by (auto simp: sub_ok_def genuine_def)
  with ok show "sub_ok tr (recv_cond s)"
    by (simp add: recv_cond_def ch sub_ok_def genuine_def dedupe_distinct)
qed

lemma flush_cases:
  assumes "cp_flush client (s, w) = (r, (s', w'))"
  obtains (kept) "s' = s" "flush_label s r = Silent"
    | (sent) "s' = s\<lparr>cp_state := []\<rparr>" "flush_label s r = Delivered (cp_id s) (cp_state s)"
proof (cases "cp_state s = []")
  case True
  with assms kept show thesis by (simp add: cp_flush_def flush_label_def)
next
  case False
  obtain r0 w0 where c: "client (cp_id s) (cp_state s) w = (r0, w0)" by fastforce
  show thesis
  proof (cases r0)
    case (Ok u)
    with assms False c sent show thesis by (simp add: cp_flush_def flush_label_def)
  qed (use assms False c kept in \<open>auto simp: cp_flush_def flush_label_def\<close>)
qed

text \<open>Every flush, whatever phase follows it.\<close>

lemma pub_ok_flush:
  assumes ok: "pub_ok tr p" and i: "i < length (pub_heap p)"
    and fl: "cp_flush client (pub_heap p ! i, w) = (r, (s', w'))"
  shows "pub_ok (tr @ [flush_label (pub_heap p ! i) r]) (upd_sub i (\<lambda>_. s'\<lparr>cp_phase := ph\<rparr>) p)"
  using fl
proof (cases rule: flush_cases)
  case kept
  show ?thesis
    by (rule pub_ok_upd [OF ok i]) (auto simp: kept sub_ok_def genuine_mono held_def)
next
  case sent
  show ?thesis
  proof (rule pub_ok_upd [OF ok i])
    fix c assume "held c (pub_heap p ! i)"
    then show "held c (s'\<lparr>cp_phase := ph\<rparr>) \<or>
        delivered (tr @ [flush_label (pub_heap p ! i) r]) (cp_id (pub_heap p ! i)) c"
      unfolding sent by (auto simp: held_def delivered_def)
  qed (auto simp: sent sub_ok_def genuine_def)
qed

lemma flush_phase: "cp_flush client (s, w) = (r, (s', w')) \<Longrightarrow> s' = s'\<lparr>cp_phase := cp_phase s\<rparr>"
  by (elim flush_cases) simp_all

lemma pub_step_ok: "pub_step client s l s' \<Longrightarrow> pub_ok tr (fst s) \<Longrightarrow> pub_ok (tr @ [l]) (fst s')"
proof (induction rule: pub_step.induct)
  case (pb_report now rid status report p p' w)
  then show ?case by (simp add: pub_ok_report)
next
  case (pb_start i p w)
  show ?case unfolding fst_conv
    by (rule pub_ok_upd [OF pb_start(3) [unfolded fst_conv] pb_start(1)]) (auto simp: sub_ok_def genuine_mono held_def)
next
  case (pb_recv i p w)
  show ?case unfolding fst_conv
    by (rule pub_ok_upd [OF pb_recv(4) [unfolded fst_conv] pb_recv(1)])
       (use recv_keeps [OF pb_recv(3)] sub_ok_mono in \<open>auto\<close>)
next
  case (pb_tick i p w r s' w')
  from pub_ok_flush [OF pb_tick(4) [unfolded fst_conv] pb_tick(1,3), of "cp_phase (pub_heap p ! i)"]
  show ?case using flush_phase [OF pb_tick(3)] by simp
next
  case (pb_cancel i p w r s' w')
  from pub_ok_flush [OF pb_cancel(4) [unfolded fst_conv] pb_cancel(1,3)] show ?case by simp
next
  case (pb_idle i p w r s' w')
  from pub_ok_flush [OF pb_idle(4) [unfolded fst_conv] pb_idle(1,3)] show ?case by simp
next
  case (pb_done i p w)
  have "pub_ok (tr @ [Silent]) (upd_sub i (\<lambda>s. s\<lparr>cp_phase := Returned\<rparr>) p)"
    by (rule pub_ok_upd [OF pb_done(3) [unfolded fst_conv] pb_done(1)]) (auto simp: sub_ok_def genuine_mono held_def)
  from pub_ok_subs [OF this] show ?case by simp
qed

lemma pub_run_ok: "pub_run client s0 tr s \<Longrightarrow> fst s0 = NewPublisher \<Longrightarrow> pub_ok tr (fst s)"
proof (induction rule: pub_run.induct)
  case pbr_refl
  then show ?case by (simp add: pub_ok_def NewPublisher_def)
next
  case (pbr_step tr s l s')
  then show ?case by (simp add: pub_step_ok)
qed

section \<open>Properties\<close>

text \<open>
  C24. No report is forgotten: along every interleaving of reports, receives, flushes and
  exits, each reported condition either was delivered to the server, itself or through a
  condition of the same type at least as new, or is still held by a sub-publisher of its
  resource; and what is delivered in one call was reported for that resource, one
  condition per type.
\<close>

theorem condition_reports_kept:
  assumes "pub_run client (NewPublisher, w0) tr (p, w)"
  shows "(Reported rid c \<in> set tr \<longrightarrow> delivered tr rid c \<or> (\<exists>s \<in> set (pub_heap p). cp_id s = rid \<and> held c s))
       \<and> (Delivered rid cs \<in> set tr \<longrightarrow> distinct (map ctype cs) \<and> (\<forall>c \<in> set cs. Reported rid c \<in> set tr))"
proof -
  from pub_run_ok [OF assms] have ok: "pub_ok tr p" by simp
  from pub_okD(4,5) [OF ok] show ?thesis unfolding genuine_def by blast
qed

text \<open>Two reports on one task, the second newer, gathered and sent in one call.\<close>

definition run_report :: "Reason \<Rightarrow> ConditionReport" where
  "run_report reason = Report_True reason [] (Report_Type 0 TaskReady (NewReport ''t1'' 1))"

definition run_cond :: "instant \<Rightarrow> Reason \<Rightarrow> Condition" where
  "run_cond now reason = cond_of now True (run_report reason)"

abbreviation sub_at :: "Condition list \<Rightarrow> Condition list \<Rightarrow> cp_phase \<Rightarrow> publisher" where
  "sub_at st ch ph \<equiv> \<lparr>pub_subs = [(''t1'', 0)], pub_heap = [\<lparr>cp_state = st, cp_condCh = ch, cp_id = ''t1'', cp_phase = ph\<rparr>]\<rparr>"

definition accept_all :: "(string \<times> Condition list) list condition_client" where
  "accept_all rid cs w = (Ok (), w @ [(rid, cs)])"

lemma dedupe_run_cond: "dedupe (run_cond 6 ReasonRunning) [run_cond 5 ReasonStarting] = [run_cond 6 ReasonRunning]"
  by (simp add: run_cond_def cond_of_def run_report_def Report_True_def Report_Type_def NewReport_def put_msg_def)

lemma sample_run:
  "pub_run accept_all (NewPublisher, [])
     [Reported ''t1'' (run_cond 5 ReasonStarting), Reported ''t1'' (run_cond 6 ReasonRunning), Silent, Silent, Silent,
      Delivered ''t1'' [run_cond 6 ReasonRunning]]
     (sub_at [] [] Looping, [(''t1'', [run_cond 6 ReasonRunning])])"
proof -
  let ?a = "run_cond 5 ReasonStarting" and ?b = "run_cond 6 ReasonRunning"
  have s1: "pub_step accept_all (NewPublisher, []) (Reported ''t1'' ?a) (sub_at [] [?a] Unstarted, [])"
    unfolding run_cond_def
    by (rule pb_report) (simp add: publisher_Report_def NewPublisher_def addSubPublisher_def upd_sub_def)
  have s2: "pub_step accept_all (sub_at [] [?a] Unstarted, []) (Reported ''t1'' ?b) (sub_at [] [?a, ?b] Unstarted, [])"
    unfolding run_cond_def by (rule pb_report) (simp add: publisher_Report_def upd_sub_def condCh_cap_def)
  have s3: "pub_step accept_all (sub_at [] [?a, ?b] Unstarted, []) Silent (sub_at [] [?a, ?b] Looping, [])"
    using pb_start [of 0 "sub_at [] [?a, ?b] Unstarted" accept_all "[]"] by (simp add: upd_sub_def)
  have s4: "pub_step accept_all (sub_at [] [?a, ?b] Looping, []) Silent (sub_at [?a] [?b] Looping, [])"
    using pb_recv [of 0 "sub_at [] [?a, ?b] Looping" accept_all "[]"] by (simp add: upd_sub_def recv_cond_def)
  have s5: "pub_step accept_all (sub_at [?a] [?b] Looping, []) Silent (sub_at [?b] [] Looping, [])"
    using pb_recv [of 0 "sub_at [?a] [?b] Looping" accept_all "[]"]
    by (simp add: upd_sub_def recv_cond_def dedupe_run_cond del: dedupe.simps)
  have s6: "pub_step accept_all (sub_at [?b] [] Looping, []) (Delivered ''t1'' [?b]) (sub_at [] [] Looping, [(''t1'', [?b])])"
    using pb_tick [of 0 "sub_at [?b] [] Looping" accept_all "[]" "Ok ()"]
    by (simp add: upd_sub_def cp_flush_def accept_all_def flush_label_def)
  from pbr_step [OF pbr_step [OF pbr_step [OF pbr_step [OF pbr_step [OF pbr_step [OF pbr_refl s1] s2] s3] s4] s5] s6]
  show ?thesis by simp
qed

theorem condition_reports_kept_witness:
  "\<exists>tr. delivered tr ''t1'' (run_cond 5 ReasonStarting) \<and> Delivered ''t1'' [run_cond 6 ReasonRunning] \<in> set tr"
proof (intro exI conjI)
  let ?tr = "[Reported ''t1'' (run_cond 5 ReasonStarting), Reported ''t1'' (run_cond 6 ReasonRunning), Silent, Silent, Silent,
      Delivered ''t1'' [run_cond 6 ReasonRunning]]"
  have "\<not> (\<exists>s \<in> set (pub_heap (sub_at [] [] Looping)). cp_id s = ''t1'' \<and> held (run_cond 5 ReasonStarting) s)"
    by (simp add: held_def covered_def)
  with condition_reports_kept [OF sample_run, of "''t1''" "run_cond 5 ReasonStarting" "[]"]
  show "delivered ?tr ''t1'' (run_cond 5 ReasonStarting)" by simp
  show "Delivered ''t1'' [run_cond 6 ReasonRunning] \<in> set ?tr" by simp
qed

text \<open>
  A report can be stranded: once a sub-publisher has left its loop, nothing takes what
  its channel or its state holds, also what arrives after that, until Run has removed it
  from the map.
\<close>

definition stopped :: "cp_ptr \<Rightarrow> publisher \<Rightarrow> bool" where
  "stopped i p \<longleftrightarrow> i < length (pub_heap p) \<and> cp_phase (pub_heap p ! i) \<in> {Signalling, Returned}"

lemma nth_update_at: "i < length xs \<Longrightarrow> xs[j := x] ! i = (if j = i then x else xs ! i)"
  by (cases "j = i") simp_all

lemma pub_step_stopped:
  "pub_step client s l s' \<Longrightarrow> stopped i (fst s) \<Longrightarrow>
   stopped i (fst s') \<and> cp_state (pub_heap (fst s') ! i) = cp_state (pub_heap (fst s) ! i)
     \<and> set (cp_condCh (pub_heap (fst s) ! i)) \<subseteq> set (cp_condCh (pub_heap (fst s') ! i))"
proof (induction rule: pub_step.induct)
  case (pb_report now rid status report p p' w)
  then show ?case
    by (auto simp: publisher_Report_def Let_def stopped_def addSubPublisher_def upd_sub_def nth_append nth_update_at
        split: option.splits if_splits)
qed (auto simp: stopped_def upd_sub_def nth_update_at)

theorem condition_stranded:
  assumes "pub_run client s tr s'" and "stopped i (fst s)" and "c \<in> set (cp_condCh (pub_heap (fst s) ! i))"
  shows "c \<in> set (cp_condCh (pub_heap (fst s') ! i)) \<and> stopped i (fst s')"
  using assms
proof (induction rule: pub_run.induct)
  case (pbr_step tr s' l s'')
  then show ?case using pub_step_stopped [of client s' l s'' i] by blast
qed simp

end
