(* ===== verification/Keys.thy ===== *)
theory Keys
  imports Errors
begin

text \<open>
  Storage identifiers, pkg/keys/keys.go: a tag byte and a payload, their byte encoding
  with and without a key prefix, the decoder, and the parsers from user input. A
  \<^verbatim>\<open>uuid.UUID\<close> is its sixteen bytes. The uuid package is a parameter, \<open>uuid_lib\<close>;
  \<open>uuid_documented\<close> says that its parser inverts its printer and yields sixteen bytes.
\<close>

section \<open>The uuid package\<close>

record uuid_lib =
  uuid_Parse :: "string \<Rightarrow> bytes res"
  uuid_String :: "bytes \<Rightarrow> string"

definition uuid_documented :: "uuid_lib \<Rightarrow> bool" where
  "uuid_documented ul \<longleftrightarrow>
     (\<forall>u. length u = 16 \<longrightarrow> uuid_Parse ul (uuid_String ul u) = Ok u) \<and>
     (\<forall>s u. uuid_Parse ul s = Ok u \<longrightarrow> length u = 16) \<and>
     (\<forall>s m. uuid_Parse ul s \<noteq> Panic m) \<and>
     (\<forall>u. length u = 16 \<longrightarrow> uuid_String ul u \<noteq> [])"

section \<open>Identifiers\<close>

definition UUIDLen :: nat where "UUIDLen = 16"

definition TagUID :: char where "TagUID = CHR 0x01"
definition TagName :: char where "TagName = CHR 0x02"
definition TagIdx :: char where "TagIdx = CHR 0x03"

lemmas tag_defs = TagUID_def TagName_def TagIdx_def

lemma tags_distinct [simp]:
  "TagUID \<noteq> TagName" "TagUID \<noteq> TagIdx" "TagName \<noteq> TagIdx"
  "TagName \<noteq> TagUID" "TagIdx \<noteq> TagUID" "TagIdx \<noteq> TagName"
  by (simp_all add: tag_defs)

record ID =
  tag :: char
  raw :: bytes

definition keys_Index :: "string \<Rightarrow> ID res" where
  "keys_Index s = (if s = [] then Err (Sentinel KeysErrEmptyName) else Ok \<lparr>tag = TagIdx, raw = s\<rparr>)"

definition keys_Name :: "string \<Rightarrow> ID res" where
  "keys_Name s = (if s = [] then Err (Sentinel KeysErrEmptyName) else Ok \<lparr>tag = TagName, raw = s\<rparr>)"

definition keys_UUID :: "bytes \<Rightarrow> ID res" where
  "keys_UUID u = Ok \<lparr>tag = TagUID, raw = take UUIDLen u\<rparr>"

definition ID_AsUUID :: "ID \<Rightarrow> bytes res" where
  "ID_AsUUID i =
     (if tag i \<noteq> TagUID then Err (Errorf ''id is not a uuid'')
      else if length (raw i) \<noteq> UUIDLen then Err (Sentinel KeysErrBadUIDLen)
      else Ok (raw i))"

definition ID_Encode :: "ID \<Rightarrow> bytes" where
  "ID_Encode i = tag i # raw i"

definition ID_EncodePrefixed :: "ID \<Rightarrow> bytes \<Rightarrow> bytes" where
  "ID_EncodePrefixed i pre = pre @ ID_Encode i"

definition ID_String :: "uuid_lib \<Rightarrow> ID \<Rightarrow> string" where
  "ID_String ul i =
     (if tag i = TagUID
      then (case ID_AsUUID i of Ok u \<Rightarrow> uuid_String ul u | _ \<Rightarrow> [])
      else if tag i = TagName \<or> tag i = TagIdx then raw i
      else [])"

definition ID_NameStr :: "ID \<Rightarrow> string" where
  "ID_NameStr i = (if tag i = TagName \<or> tag i = TagIdx then raw i else [])"

definition ID_IdxStr :: "ID \<Rightarrow> string" where
  "ID_IdxStr i = ID_NameStr i"

definition ID_UUIDStr :: "uuid_lib \<Rightarrow> ID \<Rightarrow> string" where
  "ID_UUIDStr ul i =
     (if tag i = TagUID
      then (case ID_AsUUID i of Ok u \<Rightarrow> uuid_String ul u | _ \<Rightarrow> [])
      else [])"

definition keys_Decode :: "bytes \<Rightarrow> ID res" where
  "keys_Decode b =
     (case b of
        t # c # cs \<Rightarrow>
          (let payload = c # cs in
           if t = TagName then
             (if payload = [] then Err (Sentinel KeysErrEmptyName) else Ok \<lparr>tag = t, raw = payload\<rparr>)
           else if t = TagUID then
             (if length payload \<noteq> UUIDLen then Err (Sentinel KeysErrBadUUIDLen)
              else Ok \<lparr>tag = t, raw = payload\<rparr>)
           else if t = TagIdx then
             (if payload = [] then Err (Sentinel KeysErrEmptyIndex) else Ok \<lparr>tag = t, raw = payload\<rparr>)
           else Err (Sentinel KeysErrBadTag))
      | _ \<Rightarrow> Err (Sentinel KeysErrBadEncoding))"

definition keys_ParseBytes :: "bytes \<Rightarrow> bytes \<Rightarrow> ID res" where
  "keys_ParseBytes pre fullKey =
     (if \<not> prefix pre fullKey then Err (Sentinel KeysErrBadPrefix)
      else keys_Decode (drop (length pre) fullKey))"

definition keys_FromUIDOrName :: "uuid_lib \<Rightarrow> string \<Rightarrow> string \<Rightarrow> ID res" where
  "keys_FromUIDOrName ul uid name =
     (if uid \<noteq> [] then bindR (uuid_Parse ul uid) keys_UUID
      else if name \<noteq> [] then keys_Name name
      else Err (Errorf ''one of uid or name is required''))"

definition keys_ParseStr :: "uuid_lib \<Rightarrow> string \<Rightarrow> ID res" where
  "keys_ParseStr ul s =
     (case keys_FromUIDOrName ul s [] of
        Ok i \<Rightarrow> Ok i
      | Panic m \<Rightarrow> Panic m
      | Err _ \<Rightarrow>
          (case keys_FromUIDOrName ul [] s of
             Ok i \<Rightarrow> Ok i
           | Panic m \<Rightarrow> Panic m
           | Err _ \<Rightarrow> Err (Errorf (''error parsing '' @ quoted s @ '' as uid''))))"

section \<open>Well-formed identifiers and their codec\<close>

text \<open>What the constructors build: a sixteen-byte uid, or a nonempty name or index.\<close>

definition wf_ID :: "ID \<Rightarrow> bool" where
  "wf_ID i \<longleftrightarrow> (tag i = TagUID \<and> length (raw i) = UUIDLen) \<or>
              ((tag i = TagName \<or> tag i = TagIdx) \<and> raw i \<noteq> [])"

lemma wf_ID_constructors:
  "keys_Name s = Ok i \<Longrightarrow> wf_ID i" "keys_Index s = Ok i \<Longrightarrow> wf_ID i"
  "length u = 16 \<Longrightarrow> keys_UUID u = Ok i \<Longrightarrow> wf_ID i"
  by (auto simp: wf_ID_def keys_Name_def keys_Index_def keys_UUID_def UUIDLen_def split: if_splits)

lemma keys_Decode_wf: "keys_Decode b = Ok i \<Longrightarrow> wf_ID i \<and> b = ID_Encode i"
  by (auto simp: keys_Decode_def Let_def wf_ID_def ID_Encode_def split: list.splits if_splits)

lemma keys_Decode_Encode: "wf_ID i \<Longrightarrow> keys_Decode (ID_Encode i) = Ok i"
  by (cases i; cases "raw i")
    (auto simp: keys_Decode_def Let_def wf_ID_def ID_Encode_def UUIDLen_def)

lemma ID_EncodePrefixed_inj:
  "ID_EncodePrefixed i p = ID_EncodePrefixed j p \<longleftrightarrow> i = j"
  by (auto simp: ID_EncodePrefixed_def ID_Encode_def)

lemma keys_ParseBytes_iff:
  "keys_ParseBytes p k = Ok i \<longleftrightarrow> wf_ID i \<and> k = ID_EncodePrefixed i p"
proof
  assume h: "keys_ParseBytes p k = Ok i"
  then have pre: "prefix p k" and dec: "keys_Decode (drop (length p) k) = Ok i"
    by (auto simp: keys_ParseBytes_def split: if_splits)
  from pre have "k = p @ drop (length p) k" by (auto simp: prefix_def)
  with keys_Decode_wf [OF dec] show "wf_ID i \<and> k = ID_EncodePrefixed i p"
    by (simp add: ID_EncodePrefixed_def)
qed (auto simp: keys_ParseBytes_def ID_EncodePrefixed_def keys_Decode_Encode)

lemma keys_FromUIDOrName_wf:
  assumes "uuid_documented ul" and "keys_FromUIDOrName ul u n = Ok i"
  shows "wf_ID i"
  using assms
  by (auto simp: keys_FromUIDOrName_def bindR_eq_Ok uuid_documented_def
      intro: wf_ID_constructors split: if_splits)

lemma keys_ParseStr_wf:
  assumes "uuid_documented ul" and "keys_ParseStr ul s = Ok i"
  shows "wf_ID i"
  using assms by (auto simp: keys_ParseStr_def intro: keys_FromUIDOrName_wf split: result.splits)

text \<open>
  User input and identifiers: what \<^verbatim>\<open>String\<close> prints, \<^verbatim>\<open>ParseStr\<close> reads back,
  unless it is a name that reads as a uuid.
\<close>

lemma keys_ParseStr_String:
  assumes doc: "uuid_documented ul" and wf: "wf_ID i" and noidx: "tag i \<noteq> TagIdx"
    and plain: "tag i = TagName \<Longrightarrow> \<not> is_Ok (uuid_Parse ul (raw i))"
  shows "keys_ParseStr ul (ID_String ul i) = Ok i"
proof (cases "tag i = TagUID")
  case True
  with wf have len: "length (raw i) = 16" by (simp add: wf_ID_def UUIDLen_def)
  with doc have p: "uuid_Parse ul (uuid_String ul (raw i)) = Ok (raw i)" "uuid_String ul (raw i) \<noteq> []"
    by (auto simp: uuid_documented_def)
  with True len show ?thesis
    by (cases i)
      (simp add: ID_String_def ID_AsUUID_def keys_ParseStr_def keys_FromUIDOrName_def keys_UUID_def UUIDLen_def)
next
  case False
  with wf noidx have nm: "tag i = TagName" "raw i \<noteq> []" by (auto simp: wf_ID_def)
  with plain doc obtain e where e: "uuid_Parse ul (raw i) = Err e"
    by (cases "uuid_Parse ul (raw i)") (auto simp: uuid_documented_def)
  with nm show ?thesis
    by (cases i) (simp add: ID_String_def keys_ParseStr_def keys_FromUIDOrName_def keys_Name_def)
qed

text \<open>A uuid library that meets its documentation: a sixteen-byte text stands for itself.\<close>

definition sample_uuid :: uuid_lib where
  "sample_uuid = \<lparr>uuid_Parse = (\<lambda>s. if length s = 16 then Ok s else Err (Foreign ''invalid UUID length'')),
                  uuid_String = (\<lambda>u. u)\<rparr>"

lemma sample_uuid_documented: "uuid_documented sample_uuid"
  by (auto simp: uuid_documented_def sample_uuid_def split: if_splits)


section \<open>Properties\<close>

text \<open>
  C18. Storage keys are a faithful encoding: parsing a key under a prefix succeeds exactly
  on the encodings of well-formed identifiers and gives that identifier back, and two
  identifiers never share a key.
\<close>

theorem key_codec_faithful:
  "(keys_ParseBytes p k = Ok i \<longleftrightarrow> wf_ID i \<and> k = ID_EncodePrefixed i p)
   \<and> (ID_EncodePrefixed i p = ID_EncodePrefixed j p \<longleftrightarrow> i = j)"
  by (simp add: keys_ParseBytes_iff ID_EncodePrefixed_inj)

text \<open>
  What a user is shown can be typed back: printing an identifier and parsing the text
  gives the same identifier, for uids and for names that do not read as a uuid.
\<close>

theorem key_print_parse:
  assumes "uuid_documented ul" and "wf_ID i" and "tag i \<noteq> TagIdx"
    and "tag i = TagName \<longrightarrow> \<not> is_Ok (uuid_Parse ul (raw i))"
  shows "keys_ParseStr ul (ID_String ul i) = Ok i"
  using keys_ParseStr_String assms by blast

theorem key_print_parse_witness:
  "keys_ParseStr sample_uuid ''web'' = Ok \<lparr>tag = TagName, raw = ''web''\<rparr>
   \<and> keys_ParseStr sample_uuid ''0123456789abcdef'' = Ok \<lparr>tag = TagUID, raw = ''0123456789abcdef''\<rparr>"
  using key_print_parse [OF sample_uuid_documented, of "\<lparr>tag = TagName, raw = ''web''\<rparr>"]
    key_print_parse [OF sample_uuid_documented, of "\<lparr>tag = TagUID, raw = ''0123456789abcdef''\<rparr>"]
  by (simp add: wf_ID_def UUIDLen_def sample_uuid_def ID_String_def ID_AsUUID_def)

end
