(* ===== verification/KVStore.thy ===== *)
theory KVStore
  imports Keys
begin

text \<open>
  The key/value stores behind the repositories: the \<^verbatim>\<open>Txn\<close> and \<^verbatim>\<open>DB\<close> interfaces of
  pkg/repository/repository.go, the in-memory implementation
  (pkg/repository/inmemory/inmemory.go) and the wrapper around badger
  (pkg/repository/badger/badger.go).

  An implementation is a record of its primitives: what a read-only transaction begun
  in a store reads, how an update transaction begins, reads, writes and commits.
  \<^verbatim>\<open>View\<close> and \<^verbatim>\<open>Update\<close> are built on them once. A read in an update transaction gets
  the current store as well, because the in-memory transaction's \<^verbatim>\<open>base\<close> is the live map
  and not a copy of it.

  The locale \<open>kv_db\<close> states what the repositories rely on, over the abstract content
  (a partial map from keys to values) of a store and of a transaction.
\<close>

section \<open>The interfaces\<close>

record ('s, 'u) kv =
  view_Get :: "'s \<Rightarrow> bytes \<Rightarrow> bytes res"
  view_List :: "'s \<Rightarrow> bytes \<Rightarrow> int \<Rightarrow> bytes list res"
  upd_begin :: "'s \<Rightarrow> 'u"
  upd_Get :: "'s \<Rightarrow> 'u \<Rightarrow> bytes \<Rightarrow> bytes res"
  upd_Set :: "bytes \<Rightarrow> bytes \<Rightarrow> 'u \<Rightarrow> unit res \<times> 'u"
  upd_Delete :: "bytes \<Rightarrow> 'u \<Rightarrow> unit res \<times> 'u"
  upd_Keys :: "'s \<Rightarrow> 'u \<Rightarrow> bytes \<Rightarrow> bytes list res"
  upd_commit :: "'u \<Rightarrow> 's \<Rightarrow> unit res \<times> 's"

text \<open>
  A context is its \<^verbatim>\<open>Err()\<close>: \<open>None\<close> while it is live. The body of an update runs over
  the pair of its transaction and the store, since calls nested in it commit on their own.
\<close>

type_synonym ctx = "error option"

definition DB_View :: "ctx \<Rightarrow> ('s \<Rightarrow> 'a res) \<Rightarrow> 's \<Rightarrow> 'a res" where
  "DB_View ctx fn s = (case ctx of Some e \<Rightarrow> Err e | None \<Rightarrow> fn s)"

definition DB_Update :: "('s, 'u) kv \<Rightarrow> ctx \<Rightarrow> ('u \<times> 's \<Rightarrow> 'a res \<times> ('u \<times> 's)) \<Rightarrow> 's \<Rightarrow> 'a res \<times> 's" where
  "DB_Update ops ctx fn s =
     (case ctx of
        Some e \<Rightarrow> (Err e, s)
      | None \<Rightarrow>
          (case fn (upd_begin ops s, s) of
             (Ok a, (u, s')) \<Rightarrow> andThen (upd_commit ops u s') (\<lambda>_ s''. (Ok a, s''))
           | (Err e, (u, s')) \<Rightarrow> (Err e, s')
           | (Panic m, (u, s')) \<Rightarrow> (Panic m, s')))"

section \<open>The in-memory store\<close>

text \<open>The store is its map \<^verbatim>\<open>m\<close>; the snapshot of a \<^verbatim>\<open>View\<close> is a copy of it.\<close>

type_synonym mem = "(bytes, bytes) gomap"

definition inmemory_New :: mem where
  "inmemory_New = []"

definition viewTxn_Keys :: "mem \<Rightarrow> bytes \<Rightarrow> bytes list res" where
  "viewTxn_Keys snapshot p = Ok (map fst snapshot)"

definition viewTxn_Get :: "mem \<Rightarrow> bytes \<Rightarrow> bytes res" where
  "viewTxn_Get snapshot key =
     (case map_of snapshot key of None \<Rightarrow> Err (Sentinel RepoErrNotFound) | Some v \<Rightarrow> Ok v)"

definition viewTxn_Set :: "bytes \<Rightarrow> bytes \<Rightarrow> unit res" where
  "viewTxn_Set k v = Panic ''set called in read-only txn''"

definition viewTxn_Delete :: "bytes \<Rightarrow> unit res" where
  "viewTxn_Delete k = Panic ''delete called in read-only txn''"

definition viewTxn_List :: "mem \<Rightarrow> bytes \<Rightarrow> int \<Rightarrow> bytes list res" where
  "viewTxn_List snapshot p limit = Ok (map snd snapshot)"

record updateTxn =
  writes :: "(bytes, bytes) gomap"
  deletes :: "bytes list"

definition updateTxn_begin :: "mem \<Rightarrow> updateTxn" where
  "updateTxn_begin m = \<lparr>writes = [], deletes = []\<rparr>"

definition updateTxn_Keys :: "mem \<Rightarrow> updateTxn \<Rightarrow> bytes \<Rightarrow> bytes list res" where
  "updateTxn_Keys base t p = Panic ''unimplemented''"

definition updateTxn_List :: "bytes \<Rightarrow> int \<Rightarrow> bytes list res" where
  "updateTxn_List p limit = Panic ''list called in update-only txn''"

definition updateTxn_Get :: "mem \<Rightarrow> updateTxn \<Rightarrow> bytes \<Rightarrow> bytes res" where
  "updateTxn_Get base t key =
     (if key \<in> set (deletes t) then Err (Sentinel RepoErrNotFound)
      else case map_of (writes t) key of
          Some v \<Rightarrow> Ok v
        | None \<Rightarrow> (case map_of base key of Some v \<Rightarrow> Ok v | None \<Rightarrow> Err (Sentinel RepoErrNotFound)))"

definition updateTxn_Set :: "bytes \<Rightarrow> bytes \<Rightarrow> updateTxn \<Rightarrow> unit res \<times> updateTxn" where
  "updateTxn_Set key val t =
     (Ok (), \<lparr>writes = AList.update key val (writes t), deletes = removeAll key (deletes t)\<rparr>)"

definition updateTxn_Delete :: "bytes \<Rightarrow> updateTxn \<Rightarrow> unit res \<times> updateTxn" where
  "updateTxn_Delete key t =
     (Ok (), \<lparr>writes = AList.delete key (writes t), deletes = List.insert key (deletes t)\<rparr>)"

definition updateTxn_commit :: "updateTxn \<Rightarrow> mem \<Rightarrow> unit res \<times> mem" where
  "updateTxn_commit t m =
     (let m1 = foldl (\<lambda>acc k. AList.delete k acc) m (deletes t);
          m2 = foldl (\<lambda>acc (k, v). AList.update k v acc) m1 (writes t)
      in (Ok (), m2))"

definition inmemory :: "(mem, updateTxn) kv" where
  "inmemory = \<lparr>
     view_Get = viewTxn_Get, view_List = viewTxn_List, upd_begin = updateTxn_begin,
     upd_Get = updateTxn_Get, upd_Set = updateTxn_Set, upd_Delete = updateTxn_Delete,
     upd_Keys = updateTxn_Keys, upd_commit = updateTxn_commit\<rparr>"

definition inmemory_Len :: "mem \<Rightarrow> nat" where
  "inmemory_Len m = length m"

section \<open>The badger wrapper\<close>

text \<open>
  What the wrapper calls of the badger package: transactions over a database, single-key
  reads and writes, and an iterator positioned by \<^verbatim>\<open>Seek\<close>, given as the items it
  visits from there on in order (an item's value is read by a callback and may fail).
\<close>

record ('s, 't) badger_lib =
  bt_NewTransaction :: "'s \<Rightarrow> bool \<Rightarrow> 't"
  bt_Get :: "'t \<Rightarrow> bytes \<Rightarrow> bytes res"
  bt_Set :: "bytes \<Rightarrow> bytes \<Rightarrow> 't \<Rightarrow> unit res \<times> 't"
  bt_Delete :: "bytes \<Rightarrow> 't \<Rightarrow> unit res \<times> 't"
  bt_Seek :: "'t \<Rightarrow> bytes \<Rightarrow> (bytes \<times> bytes res) list"
  bt_Commit :: "'t \<Rightarrow> 's \<Rightarrow> unit res \<times> 's"

definition bitems :: "('s, 't) badger_lib \<Rightarrow> 't \<Rightarrow> bytes \<Rightarrow> (bytes \<times> bytes res) list" where
  "bitems lib t p = takeWhile (\<lambda>item. prefix p (fst item)) (bt_Seek lib t p)"

definition btxn_Keys :: "('s, 't) badger_lib \<Rightarrow> 't \<Rightarrow> bytes \<Rightarrow> bytes list res" where
  "btxn_Keys lib t p = Ok (map fst (bitems lib t p))"

fun collect :: "(bytes \<times> bytes res) list \<Rightarrow> bytes list \<Rightarrow> bytes list res" where
  "collect [] out = Ok out"
| "collect ((k, v) # items) out = bindR v (\<lambda>b. collect items (out @ [b]))"

definition btxn_List :: "('s, 't) badger_lib \<Rightarrow> 't \<Rightarrow> bytes \<Rightarrow> int \<Rightarrow> bytes list res" where
  "btxn_List lib t p limit = collect (bitems lib t p) []"

definition btxn_Get :: "('s, 't) badger_lib \<Rightarrow> 't \<Rightarrow> bytes \<Rightarrow> bytes res" where
  "btxn_Get lib t key =
     (case bt_Get lib t key of
        Err e \<Rightarrow> if errors_Is e BadgerErrKeyNotFound then Err (Sentinel RepoErrNotFound) else Err e
      | r \<Rightarrow> r)"

definition badger_DB :: "('s, 't) badger_lib \<Rightarrow> ('s, 't) kv" where
  "badger_DB lib = \<lparr>
     view_Get = (\<lambda>s. btxn_Get lib (bt_NewTransaction lib s False)),
     view_List = (\<lambda>s. btxn_List lib (bt_NewTransaction lib s False)),
     upd_begin = (\<lambda>s. bt_NewTransaction lib s True),
     upd_Get = (\<lambda>s t. btxn_Get lib t),
     upd_Set = bt_Set lib, upd_Delete = bt_Delete lib,
     upd_Keys = (\<lambda>s t. btxn_Keys lib t),
     upd_commit = bt_Commit lib\<rparr>"

section \<open>The contract of a store\<close>

definition found :: "bytes option \<Rightarrow> bytes res" where
  "found v = (case v of Some b \<Rightarrow> Ok b | None \<Rightarrow> Err (Sentinel RepoErrNotFound))"

lemma found_simps [simp]: "found (Some b) = Ok b" "found None = Err (Sentinel RepoErrNotFound)"
  by (simp_all add: found_def)

locale kv_db =
  fixes ops :: "('s, 'u) kv"
    and content :: "'s \<Rightarrow> bytes \<Rightarrow> bytes option"
    and tcontent :: "'s \<Rightarrow> 'u \<Rightarrow> bytes \<Rightarrow> bytes option"
    and tinv :: "'s \<Rightarrow> 'u \<Rightarrow> bool"
  assumes view_Get_content: "view_Get ops s k = found (content s k)"
    and begin_inv: "tinv s (upd_begin ops s)"
    and begin_content: "tcontent s (upd_begin ops s) = content s"
    and Get_content: "tinv s u \<Longrightarrow> upd_Get ops s u k = found (tcontent s u k)"
    and Set_ok: "tinv s u \<Longrightarrow> \<exists>u'. upd_Set ops k v u = (Ok (), u') \<and> tinv s u'
                  \<and> tcontent s u' = (tcontent s u)(k \<mapsto> v)"
    and Delete_ok: "tinv s u \<Longrightarrow> \<exists>u'. upd_Delete ops k u = (Ok (), u') \<and> tinv s u'
                  \<and> tcontent s u' = (tcontent s u)(k := None)"
    and commit_ok: "tinv s u \<Longrightarrow> \<exists>s'. upd_commit ops u s = (Ok (), s') \<and> content s' = tcontent s u"
    and idle_commit: "upd_commit ops (upd_begin ops s) s' = (Ok (), s')"
begin

text \<open>
  Transactions compose: a body that leaves the store alone commits what it wrote, and a
  body that returns an error leaves the content as it was.
\<close>

lemma Update_commits:
  assumes "fn (upd_begin ops s, s) = (Ok a, (u, s))" and "tinv s u"
  shows "\<exists>s'. DB_Update ops None fn s = (Ok a, s') \<and> content s' = tcontent s u"
  using assms commit_ok [of s u] by (auto simp: DB_Update_def)

lemma Update_aborts:
  assumes "fn (upd_begin ops s, s) = (Err e, (u, s))"
  shows "DB_Update ops None fn s = (Err e, s)"
  using assms by (simp add: DB_Update_def)

text \<open>
  A body that only nests other calls, and does not touch its own transaction, leaves
  the store as those calls left it.
\<close>

lemma Update_idle:
  assumes "fn (upd_begin ops s, s) = (r, (upd_begin ops s, s'))"
  shows "DB_Update ops None fn s = (r, s')"
  using assms by (cases r) (simp_all add: DB_Update_def idle_commit)

end

text \<open>A store whose update transactions can also enumerate keys, as badger's can.\<close>

locale kv_db_keys = kv_db +
  assumes Keys_content: "tinv s u \<Longrightarrow> \<exists>ks. upd_Keys ops s u p = Ok ks \<and> distinct ks
            \<and> set ks = {k. prefix p k \<and> tcontent s u k \<noteq> None}"

section \<open>The in-memory store meets the contract\<close>

definition mem_tcontent :: "mem \<Rightarrow> updateTxn \<Rightarrow> bytes \<Rightarrow> bytes option" where
  "mem_tcontent m t k =
     (if k \<in> set (deletes t) then None
      else case map_of (writes t) k of Some v \<Rightarrow> Some v | None \<Rightarrow> map_of m k)"

definition mem_tinv :: "mem \<Rightarrow> updateTxn \<Rightarrow> bool" where
  "mem_tinv m t \<longleftrightarrow> distinct (map fst (writes t)) \<and> set (map fst (writes t)) \<inter> set (deletes t) = {}"

lemma commit_content:
  assumes "mem_tinv m t"
  shows "map_of (snd (updateTxn_commit t m)) = mem_tcontent m t"
proof
  fix k
  have "k \<in> set (deletes t) \<Longrightarrow> map_of (writes t) k = None"
    using assms by (auto simp: mem_tinv_def map_of_eq_None_iff)
  then show "map_of (snd (updateTxn_commit t m)) k = mem_tcontent m t k"
    using assms
    by (simp add: updateTxn_commit_def Let_def map_of_foldl_update map_of_foldl_delete mem_tinv_def
        mem_tcontent_def split: option.splits)
qed

interpretation mem: kv_db inmemory map_of mem_tcontent mem_tinv
proof
  fix s s' :: mem and u :: updateTxn and k v :: bytes
  show "view_Get inmemory s k = found (map_of s k)"
    by (simp add: inmemory_def viewTxn_Get_def found_def split: option.splits)
  show "mem_tinv s (upd_begin inmemory s)"
    by (simp add: inmemory_def updateTxn_begin_def mem_tinv_def)
  show "mem_tcontent s (upd_begin inmemory s) = map_of s"
    by (rule ext) (simp add: inmemory_def updateTxn_begin_def mem_tcontent_def)
  show "upd_commit inmemory (upd_begin inmemory s) s' = (Ok (), s')"
    by (simp add: inmemory_def updateTxn_begin_def updateTxn_commit_def)
  assume inv: "mem_tinv s u"
  show "upd_Get inmemory s u k = found (mem_tcontent s u k)"
    by (simp add: inmemory_def updateTxn_Get_def mem_tcontent_def split: option.splits)
  show "\<exists>u'. upd_Set inmemory k v u = (Ok (), u') \<and> mem_tinv s u'
          \<and> mem_tcontent s u' = (mem_tcontent s u)(k \<mapsto> v)"
  proof (intro exI conjI)
    show "upd_Set inmemory k v u = (Ok (), snd (updateTxn_Set k v u))"
      by (simp add: inmemory_def updateTxn_Set_def)
    show "mem_tinv s (snd (updateTxn_Set k v u))"
      using inv by (auto simp: updateTxn_Set_def mem_tinv_def dom_update distinct_update)
    show "mem_tcontent s (snd (updateTxn_Set k v u)) = (mem_tcontent s u)(k \<mapsto> v)"
      by (rule ext) (simp add: updateTxn_Set_def mem_tcontent_def)
  qed
  show "\<exists>u'. upd_Delete inmemory k u = (Ok (), u') \<and> mem_tinv s u'
          \<and> mem_tcontent s u' = (mem_tcontent s u)(k := None)"
  proof (intro exI conjI)
    show "upd_Delete inmemory k u = (Ok (), snd (updateTxn_Delete k u))"
      by (simp add: inmemory_def updateTxn_Delete_def)
    show "mem_tinv s (snd (updateTxn_Delete k u))"
      using inv by (auto simp: updateTxn_Delete_def mem_tinv_def delete_keys distinct_removeAll)
    show "mem_tcontent s (snd (updateTxn_Delete k u)) = (mem_tcontent s u)(k := None)"
      by (rule ext) (simp add: updateTxn_Delete_def mem_tcontent_def)
  qed
  show "\<exists>s'. upd_commit inmemory u s = (Ok (), s') \<and> map_of s' = mem_tcontent s u"
    using commit_content [OF inv] by (auto simp: inmemory_def updateTxn_commit_def Let_def)
qed

section \<open>The badger wrapper meets the contract\<close>

text \<open>
  What badger's documentation promises of a database used by one writer at a time:
  \<open>begun s t\<close> says that \<open>t\<close> is a read-write transaction begun in \<open>s\<close>, with nothing
  committed since. A transaction without writes commits without effect. An iterator
  visits the keys of its transaction in order, so that those with a prefix are
  contiguous from the position \<^verbatim>\<open>Seek\<close> gives.
\<close>

locale badger_store =
  fixes lib :: "('s, 't) badger_lib"
    and bcontent :: "'s \<Rightarrow> bytes \<Rightarrow> bytes option"
    and btcontent :: "'t \<Rightarrow> bytes \<Rightarrow> bytes option"
    and begun :: "'s \<Rightarrow> 't \<Rightarrow> bool"
  assumes new_content: "btcontent (bt_NewTransaction lib s rw) = bcontent s"
    and new_begun: "begun s (bt_NewTransaction lib s True)"
    and bget: "bt_Get lib t k =
      (case btcontent t k of Some v \<Rightarrow> Ok v | None \<Rightarrow> Err (Sentinel BadgerErrKeyNotFound))"
    and bset: "begun s t \<Longrightarrow> \<exists>t'. bt_Set lib k v t = (Ok (), t') \<and> begun s t'
      \<and> btcontent t' = (btcontent t)(k \<mapsto> v)"
    and bdelete: "begun s t \<Longrightarrow> \<exists>t'. bt_Delete lib k t = (Ok (), t') \<and> begun s t'
      \<and> btcontent t' = (btcontent t)(k := None)"
    and bseek_distinct: "distinct (map fst (bitems lib t p))"
    and bseek_set: "set (map fst (bitems lib t p)) = {k. prefix p k \<and> btcontent t k \<noteq> None}"
    and bcommit: "begun s t \<Longrightarrow> \<exists>s'. bt_Commit lib t s = (Ok (), s') \<and> bcontent s' = btcontent t"
    and bcommit_idle: "bt_Commit lib (bt_NewTransaction lib s True) s' = (Ok (), s')"
begin

lemma btxn_Get_found: "btxn_Get lib t k = found (btcontent t k)"
  by (simp add: btxn_Get_def bget found_def split: option.splits)

end

sublocale badger_store \<subseteq> bdg: kv_db_keys "badger_DB lib" bcontent "\<lambda>s. btcontent" begun
proof
  fix s u k v s' p
  show "view_Get (badger_DB lib) s k = found (bcontent s k)"
    by (simp add: badger_DB_def btxn_Get_found new_content)
  show "begun s (upd_begin (badger_DB lib) s)"
    by (simp add: badger_DB_def new_begun)
  show "btcontent (upd_begin (badger_DB lib) s) = bcontent s"
    by (simp add: badger_DB_def new_content)
  show "upd_commit (badger_DB lib) (upd_begin (badger_DB lib) s) s' = (Ok (), s')"
    by (simp add: badger_DB_def bcommit_idle)
  assume b: "begun s u"
  show "upd_Get (badger_DB lib) s u k = found (btcontent u k)"
    by (simp add: badger_DB_def btxn_Get_found)
  show "\<exists>u'. upd_Set (badger_DB lib) k v u = (Ok (), u') \<and> begun s u' \<and> btcontent u' = (btcontent u)(k \<mapsto> v)"
    using bset [OF b] by (simp add: badger_DB_def)
  show "\<exists>u'. upd_Delete (badger_DB lib) k u = (Ok (), u') \<and> begun s u' \<and> btcontent u' = (btcontent u)(k := None)"
    using bdelete [OF b] by (simp add: badger_DB_def)
  show "\<exists>s'. upd_commit (badger_DB lib) u s = (Ok (), s') \<and> bcontent s' = btcontent u"
    using bcommit [OF b] by (simp add: badger_DB_def)
  show "\<exists>ks. upd_Keys (badger_DB lib) s u p = Ok ks \<and> distinct ks
      \<and> set ks = {k. prefix p k \<and> btcontent u k \<noteq> None}"
    using bseek_distinct bseek_set by (simp add: badger_DB_def btxn_Keys_def)
qed

text \<open>A database that behaves as documented: a transaction is a copy and a dirty flag.\<close>

definition sample_badger :: "(mem, mem \<times> bool) badger_lib" where
  "sample_badger = \<lparr>
     bt_NewTransaction = (\<lambda>s rw. (s, False)),
     bt_Get = (\<lambda>(m, d) k. case map_of m k of Some v \<Rightarrow> Ok v | None \<Rightarrow> Err (Sentinel BadgerErrKeyNotFound)),
     bt_Set = (\<lambda>k v (m, d). (Ok (), (AList.update k v m, True))),
     bt_Delete = (\<lambda>k (m, d). (Ok (), (AList.delete k m, True))),
     bt_Seek = (\<lambda>(m, d) p. map (\<lambda>(k, v). (k, Ok v)) (filter (\<lambda>(k, v). prefix p k) (AList.clearjunk m))),
     bt_Commit = (\<lambda>(m, d) s. (Ok (), if d then m else s))\<rparr>"

lemma sample_bitems:
  "map fst (bitems sample_badger (m, d) p) = filter (prefix p) (map fst (AList.clearjunk m))"
proof -
  have "bitems sample_badger (m, d) p =
      map (\<lambda>(k, v). (k, Ok v)) (filter (\<lambda>(k, v). prefix p k) (AList.clearjunk m))"
    unfolding bitems_def by (subst takeWhile_eq_all_conv [THEN iffD2]) (auto simp: sample_badger_def)
  then show ?thesis
    by (simp add: filter_map comp_def case_prod_unfold)
qed

interpretation sbadger: badger_store sample_badger map_of "\<lambda>t. map_of (fst t)"
  "\<lambda>s t. \<not> snd t \<longrightarrow> fst t = s"
proof
  fix t :: "mem \<times> bool" and p
  obtain m d where t: "t = (m, d)" by (cases t)
  show "distinct (map fst (bitems sample_badger t p))"
    by (simp add: t sample_bitems distinct_clearjunk)
  show "set (map fst (bitems sample_badger t p)) = {k. prefix p k \<and> map_of (fst t) k \<noteq> None}"
    by (auto simp: t sample_bitems dom_clearjunk map_of_eq_None_iff)
qed (auto simp: sample_badger_def fun_eq_iff)

end
