(* ===== verification/Exchange.thy ===== *)
theory Exchange
  imports KVStore Messages
begin

text \<open>
  The event exchange, its typed handler wrappers and the log exchange:
  pkg/events/exchange.go, handlers.go, events.go and log_exchange.go.

  Handlers and forwarders act on the world \<open>'w\<close> outside the exchange and run in order.
  A fan-out send runs in its own goroutine: it is recorded as a pending send and its
  delivery order is left open, as is the order of pending errors. The exchange's
  \<^verbatim>\<open>errChan\<close> has no receiver anywhere, so an error is a pending send for a persistent
  handler, while the direct send after a fire-once handler never returns.
\<close>

section \<open>Events\<close>

definition ALL_EVENTS :: "EventType list" where
  "ALL_EVENTS = [TaskCreate, TaskDelete, TaskUpdate, TaskStart, TaskGet, TaskList, TaskKill, TaskStop, TaskPatch,
     NodeGet, NodeCreate, NodeDelete, NodeList, NodeUpdate, NodeJoin, NodeForget, NodeConnect, NodeUpgrade, NodePatch,
     ContainerSetCreate, ContainerSetDelete, ContainerSetUpdate, Schedule, TailLogsStart, TailLogsStop,
     VolumeCreate, VolumeDelete, VolumeUpdate, VolumeGet, VolumeList,
     RuntimeTaskExit, RuntimeTaskCreate, RuntimeTaskStart, RuntimeTaskDelete, RuntimeTaskIO, RuntimeTaskOOM,
     RuntimeTaskExecAdded, RuntimeTaskExecStarted, RuntimeTaskPaused, RuntimeTaskResumed, RuntimeTaskCheckpointed,
     RuntimeSnapshotPrepare, RuntimeSnapshotCommit, RuntimeSnapshotRemove,
     RuntimeNamespaceCreate, RuntimeNamespaceUpdate, RuntimeNamespaceDelete,
     RuntimeImageCreate, RuntimeImageUpdate, RuntimeImageDelete,
     RuntimeContainerCreate, RuntimeContainerUpdate, RuntimeContainerDelete,
     RuntimeContentCreate, RuntimeContentDelete,
     LeaseAcquired, LeaseExpired, LeaseRenewed, LeaseReleased, LeaseDeleted, ConditionReported]"

text \<open>
  A new event is named by a fresh uuid, given as \<open>fresh\<close>, and carries the labels of all
  the maps, later ones over earlier ones.
\<close>

definition NewEvent :: "string \<Rightarrow> EventType \<Rightarrow> any \<Rightarrow> label list \<Rightarrow> Event" where
  "NewEvent fresh evType obj eventLabels =
     \<lparr>ev_Version = ''event/v1'',
      ev_Meta = Some (empty_Meta\<lparr>meta_Name := fresh, meta_Labels := foldl Label_AppendMap [] eventLabels\<rparr>),
      ev_ObjectId = [], ev_ClientId = [], ev_Type = evType, ev_Object = Some obj, ev_Reason = []\<rparr>"

section \<open>The exchange\<close>

type_synonym 'w handler = "ctx \<Rightarrow> Event \<Rightarrow> 'w \<Rightarrow> unit res \<times> 'w"
type_synonym chan_id = nat

record 'w Exchange =
  topics :: "(EventType, chan_id list) gomap"
  persistentHandlers :: "(EventType, 'w handler list) gomap"
  fireOnceHandlers :: "(EventType, 'w handler list) gomap option"
  forwarders :: "'w handler list"
  pending_sends :: "(chan_id \<times> Event) list"
  pending_errs :: "error list"
  next_chan :: chan_id

definition NewExchange :: "'w Exchange" where
  "NewExchange = \<lparr>topics = [], persistentHandlers = [], fireOnceHandlers = None, forwarders = [],
                  pending_sends = [], pending_errs = [], next_chan = 0\<rparr>"

definition at_type :: "(EventType, 'b list) gomap \<Rightarrow> EventType \<Rightarrow> 'b list" where
  "at_type m t = (case map_of m t of None \<Rightarrow> [] | Some xs \<Rightarrow> xs)"

definition Exchange_AddForwarder :: "'w handler \<Rightarrow> 'w Exchange \<Rightarrow> 'w Exchange" where
  "Exchange_AddForwarder f e = e\<lparr>forwarders := forwarders e @ [f]\<rparr>"

definition Exchange_On :: "EventType \<Rightarrow> 'w handler \<Rightarrow> 'w Exchange \<Rightarrow> 'w Exchange" where
  "Exchange_On ev f e =
     e\<lparr>persistentHandlers := AList.update ev (at_type (persistentHandlers e) ev @ [f]) (persistentHandlers e)\<rparr>"

text \<open>A write to the nil map \<^verbatim>\<open>fireOnceHandlers\<close> panics; a read of it finds nothing.\<close>

definition Exchange_Once :: "EventType \<Rightarrow> 'w handler \<Rightarrow> 'w Exchange \<Rightarrow> unit res \<times> 'w Exchange" where
  "Exchange_Once ev f e =
     (case fireOnceHandlers e of
        None \<Rightarrow> (Panic ''assignment to entry in nil map'', e)
      | Some m \<Rightarrow> (Ok (), e\<lparr>fireOnceHandlers := Some (AList.update ev (at_type m ev @ [f]) m)\<rparr>))"

definition Exchange_Unsubscribe :: "EventType \<Rightarrow> 'w Exchange \<Rightarrow> unit res \<times> 'w Exchange" where
  "Exchange_Unsubscribe t e = (Ok (), e)"

definition Exchange_Subscribe :: "EventType list \<Rightarrow> 'w Exchange \<Rightarrow> chan_id \<times> 'w Exchange" where
  "Exchange_Subscribe ts e =
     (let ch = next_chan e;
          tp = foldl (\<lambda>m t. AList.update t (at_type m t @ [ch]) m) (topics e) ts
      in (ch, e\<lparr>topics := tp, next_chan := ch + 1\<rparr>))"

definition once_at :: "'w Exchange \<Rightarrow> EventType \<Rightarrow> 'w handler list" where
  "once_at e t = (case fireOnceHandlers e of None \<Rightarrow> [] | Some m \<Rightarrow> at_type m t)"

text \<open>Persistent handlers: every one runs; an error is passed on and does not stop the loop.\<close>

fun run_persistent :: "'w handler list \<Rightarrow> ctx \<Rightarrow> Event \<Rightarrow> 'w \<Rightarrow> (unit res \<times> error list) \<times> 'w" where
  "run_persistent [] ctx ev w = ((Ok (), []), w)"
| "run_persistent (h # hs) ctx ev w =
     (case h ctx ev w of
        (Panic m, w') \<Rightarrow> ((Panic m, []), w')
      | (Err e, w') \<Rightarrow> (case run_persistent hs ctx ev w' of ((r, es), w'') \<Rightarrow> ((r, e # es), w''))
      | (Ok _, w') \<Rightarrow> run_persistent hs ctx ev w')"

fun run_once :: "'w handler list \<Rightarrow> ctx \<Rightarrow> Event \<Rightarrow> 'w \<Rightarrow> unit res \<times> 'w" where
  "run_once [] ctx ev w = (Ok (), w)"
| "run_once (h # hs) ctx ev w =
     (case h ctx ev w of
        (Err e, w') \<Rightarrow> (Panic ''blocked: send on errChan'', w')
      | (Panic m, w') \<Rightarrow> (Panic m, w')
      | (Ok _, w') \<Rightarrow> run_once hs ctx ev w')"

fun run_forwarders :: "'w handler list \<Rightarrow> ctx \<Rightarrow> Event \<Rightarrow> 'w \<Rightarrow> unit res \<times> 'w" where
  "run_forwarders [] ctx ev w = (Ok (), w)"
| "run_forwarders (f # fs) ctx ev w = andThen (f ctx ev w) (\<lambda>_ w'. run_forwarders fs ctx ev w')"

definition Exchange_publish ::
  "ctx \<Rightarrow> Event \<Rightarrow> bool \<Rightarrow> 'w Exchange \<times> 'w \<Rightarrow> unit res \<times> ('w Exchange \<times> 'w)"
where
  "Exchange_publish ctx ev persist st =
     (case st of (e, w) \<Rightarrow>
       (let t = ev_Type ev;
            evChans = at_type (topics e) t;
            persistent = at_type (persistentHandlers e) t;
            once = once_at e t;
            fwd = forwarders e;
            e = e\<lparr>fireOnceHandlers := map_option (AList.delete t) (fireOnceHandlers e),
                  pending_sends := pending_sends e @ map (\<lambda>ch. (ch, ev)) evChans\<rparr>
        in case run_persistent persistent ctx ev w of ((r, es), w) \<Rightarrow>
          (let e = e\<lparr>pending_errs := pending_errs e @ es\<rparr> in
           andThen (r, (e, w)) (\<lambda>_ (e, w).
           (case run_once once ctx ev w of (r, w) \<Rightarrow>
           andThen (r, (e, w)) (\<lambda>_ (e, w).
           if persist then (case run_forwarders fwd ctx ev w of (r, w) \<Rightarrow> (r, (e, w)))
           else (Ok (), (e, w))))))))"

definition Exchange_Forward :: "ctx \<Rightarrow> Event \<Rightarrow> 'w Exchange \<times> 'w \<Rightarrow> unit res \<times> ('w Exchange \<times> 'w)" where
  "Exchange_Forward ctx ev st = Exchange_publish ctx ev True st"

definition Exchange_Publish :: "ctx \<Rightarrow> Event \<Rightarrow> 'w Exchange \<times> 'w \<Rightarrow> unit res \<times> ('w Exchange \<times> 'w)" where
  "Exchange_Publish ctx ev st = Exchange_publish ctx ev False st"

section \<open>Handler wrappers\<close>

definition HandleErrors :: "'w handler \<Rightarrow> 'w handler" where
  "HandleErrors h = (\<lambda>ctx ev w. case h ctx ev w of (Err e, w') \<Rightarrow> (Err e, w') | (Ok _, w') \<Rightarrow> (Ok (), w') | p \<Rightarrow> p)"

definition events_Handle :: "'w handler \<Rightarrow> 'w handler" where
  "events_Handle h = (\<lambda>ctx ev w. h ctx ev w)"

text \<open>Unpacking an \<^verbatim>\<open>Any\<close> into a message of another type, or a nil \<^verbatim>\<open>Any\<close>, fails.\<close>

fun as_Task :: "any option \<Rightarrow> Task res" where
  "as_Task (Some (AnyTask t)) = Ok t"
| "as_Task _ = Err (Foreign ''mismatched message type'')"

fun as_Node :: "any option \<Rightarrow> Node res" where
  "as_Node (Some (AnyNode t)) = Ok t"
| "as_Node _ = Err (Foreign ''mismatched message type'')"

fun as_Volume :: "any option \<Rightarrow> Volume res" where
  "as_Volume (Some (AnyVolume t)) = Ok t"
| "as_Volume _ = Err (Foreign ''mismatched message type'')"

fun as_Lease :: "any option \<Rightarrow> Lease res" where
  "as_Lease (Some (AnyLease t)) = Ok t"
| "as_Lease _ = Err (Foreign ''mismatched message type'')"

fun as_Upgrade :: "any option \<Rightarrow> UpgradeRequest res" where
  "as_Upgrade (Some (AnyUpgrade t)) = Ok t"
| "as_Upgrade _ = Err (Foreign ''mismatched message type'')"

fun as_Schedule :: "any option \<Rightarrow> (any option \<times> any option) res" where
  "as_Schedule (Some (AnySchedule t n)) = Ok (t, n)"
| "as_Schedule _ = Err (Foreign ''mismatched message type'')"

definition HandleTask :: "(ctx \<Rightarrow> Task \<Rightarrow> 'w \<Rightarrow> unit res \<times> 'w) \<Rightarrow> 'w handler" where
  "HandleTask h = (\<lambda>ctx ev w. andThen (as_Task (ev_Object ev), w) (\<lambda>task w. h ctx task w))"

fun HandleTasks :: "(ctx \<Rightarrow> Task \<Rightarrow> 'w \<Rightarrow> unit res \<times> 'w) list \<Rightarrow> 'w handler" where
  "HandleTasks [] ctx ev w = (Ok (), w)"
| "HandleTasks (ih # hs) ctx ev w =
     andThen (as_Task (ev_Object ev), w) (\<lambda>task w.
     andThen (ih ctx task w) (\<lambda>_ w. HandleTasks hs ctx ev w))"

definition HandleVolume :: "(ctx \<Rightarrow> Volume \<Rightarrow> 'w \<Rightarrow> unit res \<times> 'w) \<Rightarrow> 'w handler" where
  "HandleVolume h = (\<lambda>ctx ev w. andThen (as_Volume (ev_Object ev), w) (\<lambda>vol w. h ctx vol w))"

definition HandleNode :: "(ctx \<Rightarrow> Node \<Rightarrow> 'w \<Rightarrow> unit res \<times> 'w) \<Rightarrow> 'w handler" where
  "HandleNode h = (\<lambda>ctx ev w. andThen (as_Node (ev_Object ev), w) (\<lambda>node w. h ctx node w))"

definition HandleNodeUpradeReq :: "(ctx \<Rightarrow> UpgradeRequest \<Rightarrow> 'w \<Rightarrow> unit res \<times> 'w) \<Rightarrow> 'w handler" where
  "HandleNodeUpradeReq h = (\<lambda>ctx ev w. andThen (as_Upgrade (ev_Object ev), w) (\<lambda>req w. h ctx req w))"

definition HandleLease :: "(ctx \<Rightarrow> Lease \<Rightarrow> 'w \<Rightarrow> unit res \<times> 'w) \<Rightarrow> 'w handler" where
  "HandleLease h = (\<lambda>ctx ev w. andThen (as_Lease (ev_Object ev), w) (\<lambda>lease w. h ctx lease w))"

definition HandleScheduling :: "(ctx \<Rightarrow> Task \<Rightarrow> Node \<Rightarrow> 'w \<Rightarrow> unit res \<times> 'w) \<Rightarrow> 'w handler" where
  "HandleScheduling h = (\<lambda>ctx ev w.
     andThen (as_Schedule (ev_Object ev), w) (\<lambda>req w.
     andThen (as_Task (fst req), w) (\<lambda>task w.
     andThen (as_Node (snd req), w) (\<lambda>node w. h ctx task node w))))"

section \<open>The bus the services publish on\<close>

text \<open>
  A service sees an exchange through \<^verbatim>\<open>Publish\<close> and \<^verbatim>\<open>Forward\<close>. The law services rely
  on: publishing reports no error of its own.
\<close>

record 'w bus =
  bus_Publish :: "ctx \<Rightarrow> Event \<Rightarrow> 'w \<Rightarrow> unit res \<times> 'w"
  bus_Forward :: "ctx \<Rightarrow> Event \<Rightarrow> 'w \<Rightarrow> unit res \<times> 'w"

locale event_bus =
  fixes b :: "'w bus"
  assumes Publish_no_error: "fst (bus_Publish b ctx ev w) \<noteq> Err e"
begin

lemma Publish_cases:
  obtains (ok) w' where "bus_Publish b ctx ev w = (Ok (), w')"
    | (panic) m w' where "bus_Publish b ctx ev w = (Panic m, w')"
proof (cases "bus_Publish b ctx ev w")
  case (Pair r w')
  then show ?thesis
    using ok panic Publish_no_error [of ctx ev w] by (cases r) auto
qed

text \<open>What follows a publish runs unless the publish itself never returned.\<close>

lemma Publish_then:
  "andThen (bus_Publish b ctx ev w) f =
     (case bus_Publish b ctx ev w of (Ok _, w') \<Rightarrow> f () w' | (Panic m, w') \<Rightarrow> (Panic m, w') | (Err e, w') \<Rightarrow> f () w')"
  by (rule Publish_cases [of ctx ev w]) simp_all

end

definition exchange_bus :: "('w Exchange \<times> 'w) bus" where
  "exchange_bus = \<lparr>bus_Publish = Exchange_Publish, bus_Forward = Exchange_Forward\<rparr>"

lemma run_persistent_no_error: "run_persistent hs ctx ev w \<noteq> ((Err e, es), w')"
  by (induction hs arbitrary: w es) (auto split: result.splits prod.splits)

lemma run_once_no_error: "run_once hs ctx ev w \<noteq> (Err e, w')"
  by (induction hs arbitrary: w) (auto split: result.splits prod.splits)

interpretation ex: event_bus exchange_bus
proof
  fix ctx ev and st :: "'w Exchange \<times> 'w" and err
  obtain e w where st: "st = (e, w)" by (cases st)
  obtain r es w1 where p: "run_persistent (at_type (persistentHandlers e) (ev_Type ev)) ctx ev w = ((r, es), w1)"
    by (metis surj_pair)
  obtain r2 w2 where o: "run_once (once_at e (ev_Type ev)) ctx ev w1 = (r2, w2)"
    by (metis surj_pair)
  have "r \<noteq> Err x" "r2 \<noteq> Err x" for x
    using p o run_persistent_no_error run_once_no_error by metis+
  then show "fst (bus_Publish exchange_bus ctx ev st) \<noteq> Err err"
    using p o by (cases r; cases r2)
      (auto simp: exchange_bus_def Exchange_Publish_def Exchange_publish_def st Let_def)
qed

section \<open>What publishing does\<close>

text \<open>
  The handlers of a type run in registration order on the world, each once, whatever the
  earlier ones returned.
\<close>

definition run_all :: "'w handler list \<Rightarrow> ctx \<Rightarrow> Event \<Rightarrow> 'w \<Rightarrow> 'w" where
  "run_all hs ctx ev w = foldl (\<lambda>w h. snd (h ctx ev w)) w hs"

definition never_panics :: "'w handler \<Rightarrow> bool" where
  "never_panics h \<longleftrightarrow> (\<forall>ctx ev w m. fst (h ctx ev w) \<noteq> Panic m)"

lemma run_persistent_all:
  assumes "\<forall>h \<in> set hs. never_panics h"
  shows "\<exists>es. run_persistent hs ctx ev w = ((Ok (), es), run_all hs ctx ev w)"
  using assms
proof (induction hs arbitrary: w)
  case (Cons h hs)
  obtain r w1 where h: "h ctx ev w = (r, w1)" by (cases "h ctx ev w")
  obtain es where es: "run_persistent hs ctx ev w1 = ((Ok (), es), run_all hs ctx ev w1)"
    using Cons by auto
  have "r \<noteq> Panic m" for m
    using Cons.prems h unfolding never_panics_def by (metis fst_conv list.set_intros(1))
  with h es show ?case by (cases r) (auto simp: run_all_def)
qed (simp add: run_all_def)

lemma run_all_append: "run_all (hs @ hs') ctx ev w = run_all hs' ctx ev (run_all hs ctx ev w)"
  by (simp add: run_all_def)

lemma at_type_update [simp]:
  "at_type (AList.update t v m) t' = (if t' = t then v else at_type m t')"
  by (simp add: at_type_def)

lemma Publish_delivers:
  assumes "\<forall>h \<in> set (at_type (persistentHandlers e) (ev_Type ev)). never_panics h"
    and "once_at e (ev_Type ev) = []"
  shows "\<exists>es. Exchange_Publish ctx ev (e, w) =
     (Ok (), (e\<lparr>fireOnceHandlers := map_option (AList.delete (ev_Type ev)) (fireOnceHandlers e),
                pending_sends := pending_sends e @ map (\<lambda>ch. (ch, ev)) (at_type (topics e) (ev_Type ev)),
                pending_errs := pending_errs e @ es\<rparr>,
              run_all (at_type (persistentHandlers e) (ev_Type ev)) ctx ev w))"
  using run_persistent_all [OF assms(1), of ctx ev w] assms(2)
  by (auto simp: Exchange_Publish_def Exchange_publish_def Let_def)

text \<open>Subscribing puts the channel at the end of each topic's list.\<close>

lemma Subscribe_topics:
  "ch = next_chan e \<Longrightarrow> distinct ts \<Longrightarrow>
   at_type (topics (snd (Exchange_Subscribe ts e))) t =
     (if t \<in> set ts then at_type (topics e) t @ [ch] else at_type (topics e) t)"
proof -
  assume ch: "ch = next_chan e" and d: "distinct ts"
  have "at_type (foldl (\<lambda>m t. AList.update t (at_type m t @ [ch]) m) m ts) t =
      (if t \<in> set ts then at_type m t @ [ch] else at_type m t)" for m
    using d by (induction ts arbitrary: m) auto
  then show ?thesis by (simp add: Exchange_Subscribe_def Let_def ch)
qed

text \<open>Forwarding: the forwarders run in order up to the first that fails.\<close>

lemma run_forwarders_stop:
  assumes "run_forwarders fs ctx ev w = (Err err, w')"
  shows "\<exists>pre f post w1. fs = pre @ f # post \<and> run_forwarders pre ctx ev w = (Ok (), w1) \<and> f ctx ev w1 = (Err err, w')"
  using assms
proof (induction fs arbitrary: w)
  case (Cons f fs)
  show ?case
  proof (cases "fst (f ctx ev w)")
    case (Ok u)
    then obtain w1 where f: "f ctx ev w = (Ok (), w1)" by (cases "f ctx ev w") auto
    with Cons.prems have "run_forwarders fs ctx ev w1 = (Err err, w')" by simp
    from Cons.IH [OF this] obtain pre g post w2 where "fs = pre @ g # post"
        "run_forwarders pre ctx ev w1 = (Ok (), w2)" "g ctx ev w2 = (Err err, w')" by blast
    with f show ?thesis
      by (intro exI [of _ "f # pre"] exI [of _ g] exI [of _ post] exI [of _ w2]) simp
  next
    case (Err x)
    with Cons.prems show ?thesis
      by (intro exI [of _ "[]"] exI [of _ f] exI [of _ fs] exI [of _ w]) (cases "f ctx ev w", auto)
  next
    case (Panic m)
    with Cons.prems show ?thesis by (cases "f ctx ev w") auto
  qed
qed simp


section \<open>Exchanges a program can build\<close>

text \<open>The states reached from \<^verbatim>\<open>NewExchange\<close> by the exchange's operations, with any handlers.\<close>

inductive ex_step :: "'w Exchange \<Rightarrow> 'w Exchange \<Rightarrow> bool" where
  ex_forwarder: "ex_step e (Exchange_AddForwarder f e)"
| ex_on: "ex_step e (Exchange_On t f e)"
| ex_once: "ex_step e (snd (Exchange_Once t f e))"
| ex_subscribe: "ex_step e (snd (Exchange_Subscribe ts e))"
| ex_unsubscribe: "ex_step e (snd (Exchange_Unsubscribe t e))"
| ex_publish: "ex_step e (fst (snd (Exchange_publish ctx ev persist (e, w))))"

inductive_cases ex_stepE: "ex_step e e'"

definition ex_built :: "'w Exchange \<Rightarrow> bool" where
  "ex_built e \<longleftrightarrow> ex_step\<^sup>*\<^sup>* NewExchange e"

lemma publish_exchange:
  assumes "Exchange_publish ctx ev persist (e, w) = (r, (e', w'))"
  shows "\<exists>es. e' = e\<lparr>fireOnceHandlers := map_option (AList.delete (ev_Type ev)) (fireOnceHandlers e),
                   pending_sends := pending_sends e @ map (\<lambda>ch. (ch, ev)) (at_type (topics e) (ev_Type ev)),
                   pending_errs := pending_errs e @ es\<rparr>"
proof -
  obtain r1 es w1 where p: "run_persistent (at_type (persistentHandlers e) (ev_Type ev)) ctx ev w = ((r1, es), w1)"
    by (metis surj_pair)
  obtain r2 w2 where o: "run_once (once_at e (ev_Type ev)) ctx ev w1 = (r2, w2)" by (metis surj_pair)
  obtain r3 w3 where f: "run_forwarders (forwarders e) ctx ev w2 = (r3, w3)" by (metis surj_pair)
  from assms p o f show ?thesis
    by (intro exI [of _ es], cases r1; cases r2)
      (auto simp: Exchange_publish_def Let_def split: if_splits)
qed

lemma ex_built_no_once: "ex_built e \<Longrightarrow> fireOnceHandlers e = None"
  unfolding ex_built_def
proof (induction rule: rtranclp_induct)
  case base
  show ?case by (simp add: NewExchange_def)
next
  case (step e e')
  from step.hyps(2) step.IH show ?case
  proof cases
    case (ex_publish ctx ev persist w)
    moreover obtain r e2 w2 where "Exchange_publish ctx ev persist (e, w) = (r, (e2, w2))" by (metis surj_pair)
    ultimately show ?thesis using publish_exchange [of ctx ev persist e w r e2 w2] step.IH by auto
  qed (simp_all add: Exchange_AddForwarder_def Exchange_On_def Exchange_Once_def Exchange_Subscribe_def
         Exchange_Unsubscribe_def Let_def)
qed

section \<open>Properties\<close>


text \<open>A handler that records the type of each event it sees, and an event.\<close>

definition recorder :: "EventType list handler" where
  "recorder ctx ev w = (Err (Foreign ''busy''), w @ [ev_Type ev])"

definition stop_event :: Event where
  "stop_event = NewEvent ''e'' TaskStop (AnyTask \<lparr>task_Version = [], task_Meta = None, task_Config = None, task_Status = None\<rparr>) []"

lemma stop_event_type [simp]: "ev_Type stop_event = TaskStop"
  by (simp add: stop_event_def NewEvent_def)

lemma NewExchange_empty [simp]:
  "topics NewExchange = []" "persistentHandlers NewExchange = []" "pending_sends NewExchange = []" "next_chan NewExchange = 0"
  by (simp_all add: NewExchange_def)


text \<open>
  Forwarding stops at the first failure: when \<^verbatim>\<open>Forward\<close> reports an error, it is
  the error of one of the forwarders, every forwarder before it succeeded and none after
  it ran. Handlers and subscribers have been served in any case.
\<close>

theorem exchange_forward_error:
  assumes "Exchange_Forward ctx ev (e, w) = (Err err, (e', w'))"
  shows "\<exists>pre f post w1 w2. forwarders e = pre @ f # post
    \<and> fst (Exchange_Publish ctx ev (e, w)) = Ok () \<and> snd (snd (Exchange_Publish ctx ev (e, w))) = w1
    \<and> run_forwarders pre ctx ev w1 = (Ok (), w2) \<and> f ctx ev w2 = (Err err, w')
    \<and> pending_sends e' = pending_sends e @ map (\<lambda>ch. (ch, ev)) (at_type (topics e) (ev_Type ev))"
proof -
  obtain r1 es w1 where p: "run_persistent (at_type (persistentHandlers e) (ev_Type ev)) ctx ev w = ((r1, es), w1)"
    by (metis surj_pair)
  obtain r2 w2 where o: "run_once (once_at e (ev_Type ev)) ctx ev w1 = (r2, w2)" by (metis surj_pair)
  have ne: "r1 \<noteq> Err x" "r2 \<noteq> Err x" for x
    using p o run_persistent_no_error run_once_no_error by metis+
  have "r1 = Ok ()" "r2 = Ok ()" and f: "run_forwarders (forwarders e) ctx ev w2 = (Err err, w')"
    using assms p o ne
    by (cases r1; cases r2; auto simp: Exchange_Forward_def Exchange_publish_def Let_def split: prod.splits)+
  then have pub: "fst (Exchange_Publish ctx ev (e, w)) = Ok ()" "snd (snd (Exchange_Publish ctx ev (e, w))) = w2"
    using p o by (simp_all add: Exchange_Publish_def Exchange_publish_def Let_def)
  have "pending_sends e' = pending_sends e @ map (\<lambda>ch. (ch, ev)) (at_type (topics e) (ev_Type ev))"
    using publish_exchange assms unfolding Exchange_Forward_def by fastforce
  with run_forwarders_stop [OF f] pub show ?thesis by blast
qed

theorem exchange_forward_error_witness:
  "\<exists>pre f post w2. [HandleErrors (\<lambda>_ _ w. (Ok (), w)), recorder] = pre @ f # post
    \<and> run_forwarders pre None stop_event [] = (Ok (), w2)
    \<and> f None stop_event w2 = (Err (Foreign ''busy''), [TaskStop])"
proof -
  let ?e = "Exchange_AddForwarder recorder (Exchange_AddForwarder (HandleErrors (\<lambda>_ _ w. (Ok (), w))) NewExchange)"
  have ran: "\<exists>e'. Exchange_Forward None stop_event (?e, []) = (Err (Foreign ''busy''), (e', [TaskStop]))"
    by (simp add: Exchange_Forward_def Exchange_publish_def Exchange_AddForwarder_def NewExchange_def at_type_def once_at_def
        HandleErrors_def recorder_def Let_def)
  then obtain e' where e': "Exchange_Forward None stop_event (?e, []) = (Err (Foreign ''busy''), (e', [TaskStop]))" ..
  have w: "snd (snd (Exchange_Publish None stop_event (?e, []))) = []"
    by (simp add: Exchange_Publish_def Exchange_publish_def Exchange_AddForwarder_def NewExchange_def at_type_def once_at_def Let_def)
  have f: "forwarders ?e = [HandleErrors (\<lambda>_ _ w. (Ok (), w)), recorder]"
    by (simp add: Exchange_AddForwarder_def NewExchange_def)
  from exchange_forward_error [OF e'] show ?thesis unfolding w f by metis
qed

text \<open>
  On every exchange a program can build, \<^verbatim>\<open>Once\<close> panics: the map of fire-once
  handlers is never made.
\<close>

theorem exchange_once_panics:
  assumes "ex_built e"
  shows "Exchange_Once t f e = (Panic ''assignment to entry in nil map'', e)"
  using ex_built_no_once [OF assms] by (simp add: Exchange_Once_def)

theorem exchange_once_panics_witness:
  "Exchange_Once TaskStop recorder (Exchange_On TaskStop recorder NewExchange)
     = (Panic ''assignment to entry in nil map'', Exchange_On TaskStop recorder NewExchange)"
  by (rule exchange_once_panics)
    (simp add: ex_built_def r_into_rtranclp ex_on)

end
