(* ===== verification/ProtoUtils.thy ===== *)
theory ProtoUtils
  imports Messages
begin

text \<open>
  The parts of pkg/protoutils/protoutils.go the services compare and merge messages with.
  \<open>SpecEqual\<close> compares the \<^verbatim>\<open>config\<close> field where the message type has one and the whole
  message otherwise; \<open>MergeSlices\<close> merges two lists by a key.
\<close>

section \<open>Comparing specifications\<close>

text \<open>
  The accessor \<open>fd\<close> of the field \<^verbatim>\<open>config\<close> is \<open>None\<close> for a message type without that
  field. A typed nil pointer is \<open>None\<close>; reading a field of it finds nothing.
  \<open>proto_Equal\<close> compares two messages, and \<open>cfg_Equal\<close> two values of the config field.
\<close>

definition SpecEqual ::
  "('m option \<Rightarrow> 'm option \<Rightarrow> bool) \<Rightarrow> ('c \<Rightarrow> 'c \<Rightarrow> bool) \<Rightarrow> ('m \<Rightarrow> 'c option) option \<Rightarrow> 'm option \<Rightarrow> 'm option \<Rightarrow> bool"
where
  "SpecEqual proto_Equal cfg_Equal fd a b =
     (case fd of
        None \<Rightarrow> proto_Equal a b
      | Some get \<Rightarrow>
          (let av = Option.bind a get; bv = Option.bind b get in
           if av = None \<and> bv = None then True
           else if av = None \<or> bv = None then False
           else cfg_Equal (the av) (the bv)))"

section \<open>Equality of messages\<close>

text \<open>
  \<^verbatim>\<open>proto.Equal\<close> compares map fields as maps, whatever the order of their entries, and
  everything else field by field.
\<close>

definition opt_Equal :: "('c \<Rightarrow> 'c \<Rightarrow> bool) \<Rightarrow> 'c option \<Rightarrow> 'c option \<Rightarrow> bool" where
  "opt_Equal eq a b = (case (a, b) of (None, None) \<Rightarrow> True | (Some x, Some y) \<Rightarrow> eq x y | _ \<Rightarrow> False)"

definition TaskConfig_Equal :: "TaskConfig \<Rightarrow> TaskConfig \<Rightarrow> bool" where
  "TaskConfig_Equal a b \<longleftrightarrow> map_eq (tc_NodeSelector a) (tc_NodeSelector b) \<and>
     a\<lparr>tc_NodeSelector := []\<rparr> = b\<lparr>tc_NodeSelector := []\<rparr>"

definition NodeConfig_Equal :: "NodeConfig \<Rightarrow> NodeConfig \<Rightarrow> bool" where
  "NodeConfig_Equal a b \<longleftrightarrow> a = b"

definition VolConfig_Equal :: "VolConfig \<Rightarrow> VolConfig \<Rightarrow> bool" where
  "VolConfig_Equal a b \<longleftrightarrow> map_eq (vc_NodeSelector a) (vc_NodeSelector b) \<and>
     a\<lparr>vc_NodeSelector := []\<rparr> = b\<lparr>vc_NodeSelector := []\<rparr>"

section \<open>Merging lists by key\<close>

text \<open>
  The base items go into a map by key, in order; a patch item updates the entry of its
  key or appends a new key; the result reads the map in the recorded order. Two base
  items with one key leave that key twice in the order.
\<close>

definition merge_base :: "('a \<Rightarrow> string) \<Rightarrow> 'a list \<Rightarrow> (string, 'a) gomap \<times> string list" where
  "merge_base keyFunc base =
     foldl (\<lambda>(m, order) item. (AList.update (keyFunc item) item m, order @ [keyFunc item])) ([], []) base"

definition merge_step :: "('a \<Rightarrow> string) \<Rightarrow> ('a \<Rightarrow> 'a \<Rightarrow> 'a) \<Rightarrow> (string, 'a) gomap \<times> string list \<Rightarrow> 'a
    \<Rightarrow> (string, 'a) gomap \<times> string list" where
  "merge_step keyFunc mergeItem st p =
     (case st of (m, order) \<Rightarrow>
        (case map_of m (keyFunc p) of
           Some b \<Rightarrow> (AList.update (keyFunc p) (mergeItem b p) m, order)
         | None \<Rightarrow> (AList.update (keyFunc p) p m, order @ [keyFunc p])))"

definition MergeSlices :: "'a list \<Rightarrow> 'a list \<Rightarrow> ('a \<Rightarrow> string) \<Rightarrow> ('a \<Rightarrow> 'a \<Rightarrow> 'a) \<Rightarrow> 'a list" where
  "MergeSlices base patch keyFunc mergeItem =
     (let (m, order) = foldl (merge_step keyFunc mergeItem) (merge_base keyFunc base) patch
      in map (\<lambda>k. the (map_of m k)) order)"

section \<open>What a merge contains\<close>

text \<open>The content after merging a list of patch items, as a partial map.\<close>

fun merge_spec :: "('a \<Rightarrow> string) \<Rightarrow> ('a \<Rightarrow> 'a \<Rightarrow> 'a) \<Rightarrow> 'a list \<Rightarrow> (string \<Rightarrow> 'a option) \<Rightarrow> (string \<Rightarrow> 'a option)" where
  "merge_spec kf mi [] c = c"
| "merge_spec kf mi (p # ps) c =
     merge_spec kf mi ps (c(kf p \<mapsto> (case c (kf p) of Some b \<Rightarrow> mi b p | None \<Rightarrow> p)))"

definition merge_ok :: "('a \<Rightarrow> string) \<Rightarrow> (string, 'a) gomap \<times> string list \<Rightarrow> bool" where
  "merge_ok kf st \<longleftrightarrow> set (snd st) = dom (map_of (fst st)) \<and> (\<forall>k v. map_of (fst st) k = Some v \<longrightarrow> kf v = k)"

lemma merge_base_fold:
  assumes "merge_ok kf st"
  shows "merge_ok kf (foldl (\<lambda>(m, order) item. (AList.update (kf item) item m, order @ [kf item])) st base)"
  using assms
proof (induction base arbitrary: st)
  case (Cons b base)
  obtain m order where st: "st = (m, order)" by (cases st)
  have "merge_ok kf (AList.update (kf b) b m, order @ [kf b])"
    using Cons.prems by (auto simp: merge_ok_def st split: if_splits)
  then show ?case using Cons.IH by (simp add: st)
qed simp

lemma merge_base_ok: "merge_ok kf (merge_base kf base)"
  unfolding merge_base_def by (rule merge_base_fold) (simp add: merge_ok_def)

lemma merge_base_order:
  "snd (foldl (\<lambda>(m, order) item. (AList.update (kf item) item m, order @ [kf item])) st base) =
     snd st @ map kf base"
  by (induction base arbitrary: st) (auto simp: case_prod_unfold)

lemma merge_base_content:
  "distinct (map kf base) \<Longrightarrow>
   map_of (fst (foldl (\<lambda>(m, order) item. (AList.update (kf item) item m, order @ [kf item])) st base)) k =
     (case find (\<lambda>x. kf x = k) base of Some x \<Rightarrow> Some x | None \<Rightarrow> map_of (fst st) k)"
proof (induction base arbitrary: st)
  case (Cons b base)
  have none: "kf b = k \<Longrightarrow> find (\<lambda>x. kf x = k) base = None"
    using Cons.prems by (simp add: find_None_iff) (metis imageI)
  show ?case
    using Cons none by (cases st) (auto split: option.splits)
qed simp

lemma merge_step_ok:
  assumes ok: "merge_ok kf st" and keep: "\<And>b p. kf b = kf p \<Longrightarrow> kf (mi b p) = kf p"
  shows "merge_ok kf (merge_step kf mi st p)"
proof (cases "map_of (fst st) (kf p)")
  case None
  with ok show ?thesis
    by (cases st) (auto simp: merge_step_def merge_ok_def split: if_splits)
next
  case (Some b)
  with ok have "kf b = kf p" by (simp add: merge_ok_def)
  with keep Some ok show ?thesis
    by (cases st) (auto simp: merge_step_def merge_ok_def split: if_splits)
qed

lemma merge_step_content:
  "map_of (fst (merge_step kf mi st p)) =
     (map_of (fst st))(kf p \<mapsto> (case map_of (fst st) (kf p) of Some b \<Rightarrow> mi b p | None \<Rightarrow> p))"
  by (cases st) (auto simp: merge_step_def fun_eq_iff split: option.splits)

lemma merge_fold_content:
  "map_of (fst (foldl (merge_step kf mi) st patch)) = merge_spec kf mi patch (map_of (fst st))"
  by (induction patch arbitrary: st) (simp_all add: merge_step_content)

lemma merge_fold_ok:
  assumes keep: "\<And>b p. kf b = kf p \<Longrightarrow> kf (mi b p) = kf p"
  shows "merge_ok kf st \<Longrightarrow> merge_ok kf (foldl (merge_step kf mi) st patch)"
  by (induction patch arbitrary: st) (simp_all add: merge_step_ok keep)

lemma merge_step_order:
  "snd (merge_step kf mi st p) = snd st @ (if map_of (fst st) (kf p) = None then [kf p] else [])"
  by (cases st) (simp add: merge_step_def split: option.splits)

lemma merge_fold_distinct:
  assumes keep: "\<And>b p. kf b = kf p \<Longrightarrow> kf (mi b p) = kf p"
  shows "merge_ok kf st \<Longrightarrow> distinct (snd st) \<Longrightarrow> distinct (snd (foldl (merge_step kf mi) st patch))"
proof (induction patch arbitrary: st)
  case (Cons p patch)
  have "kf p \<notin> set (snd st)" if "map_of (fst st) (kf p) = None"
    using Cons.prems(1) that by (auto simp: merge_ok_def)
  with Cons.prems have "distinct (snd (merge_step kf mi st p))"
    by (cases "map_of (fst st) (kf p)") (simp_all add: merge_step_order)
  with Cons show ?case by (simp add: merge_step_ok keep)
qed simp

lemma merge_fold_order:
  "\<exists>new. snd (foldl (merge_step kf mi) st patch) = snd st @ new"
proof (induction patch arbitrary: st)
  case (Cons p patch)
  from Cons [of "merge_step kf mi st p"] show ?case
    by (auto simp: merge_step_order)
qed simp

definition merge_content :: "('a \<Rightarrow> string) \<Rightarrow> 'a list \<Rightarrow> string \<Rightarrow> 'a option" where
  "merge_content kf xs k = find (\<lambda>x. kf x = k) xs"

text \<open>
  The whole of it: with distinct base keys, the merge has the base keys first and in
  their order, no key twice, and under each key the base item folded with the patch
  items of that key.
\<close>

lemma MergeSlices_unfold:
  "MergeSlices base patch kf mi =
     map (\<lambda>k. the (merge_spec kf mi patch (map_of (fst (merge_base kf base))) k))
         (snd (foldl (merge_step kf mi) (merge_base kf base) patch))"
  by (simp add: MergeSlices_def case_prod_unfold Let_def merge_fold_content)

lemma MergeSlices_keys:
  assumes keep: "\<And>b p. kf b = kf p \<Longrightarrow> kf (mi b p) = kf p"
  shows "map kf (MergeSlices base patch kf mi) = snd (foldl (merge_step kf mi) (merge_base kf base) patch)"
proof -
  have ok: "merge_ok kf (foldl (merge_step kf mi) (merge_base kf base) patch)"
    using keep merge_base_ok by (rule merge_fold_ok)
  show ?thesis
    unfolding MergeSlices_def case_prod_unfold Let_def map_map comp_def
    by (rule map_idI) (use ok in \<open>force simp: merge_ok_def dom_def\<close>)
qed

lemma MergeSlices_distinct:
  assumes keep: "\<And>b p. kf b = kf p \<Longrightarrow> kf (mi b p) = kf p" and "distinct (map kf base)"
  shows "distinct (map kf (MergeSlices base patch kf mi))"
proof -
  have "distinct (snd (merge_base kf base))"
    using assms(2) by (simp add: merge_base_def merge_base_order)
  with keep merge_base_ok have "distinct (snd (foldl (merge_step kf mi) (merge_base kf base) patch))"
    by (rule merge_fold_distinct)
  then show ?thesis
    using MergeSlices_keys [of kf mi base patch, OF keep] by simp
qed

lemma find_map_keys:
  assumes "distinct ks" "\<And>k. k \<in> set ks \<Longrightarrow> kf (f k) = k"
  shows "find (\<lambda>x. kf x = k) (map f ks) = (if k \<in> set ks then Some (f k) else None)"
  using assms by (induction ks) auto

lemma MergeSlices_content:
  assumes keep: "\<And>b p. kf b = kf p \<Longrightarrow> kf (mi b p) = kf p" and dist: "distinct (map kf base)"
  shows "merge_content kf (MergeSlices base patch kf mi) k = merge_spec kf mi patch (merge_content kf base) k"
proof -
  let ?st = "foldl (merge_step kf mi) (merge_base kf base) patch"
  have ok: "merge_ok kf ?st"
    using keep merge_base_ok by (rule merge_fold_ok)
  have d: "distinct (snd ?st)"
    using MergeSlices_distinct [of kf mi base patch, OF keep dist] MergeSlices_keys [of kf mi base patch, OF keep]
    by simp
  have base: "map_of (fst (merge_base kf base)) = merge_content kf base"
    by (rule ext) (simp add: merge_base_def merge_base_content [OF dist] merge_content_def split: option.splits)
  have "merge_content kf (MergeSlices base patch kf mi) k = map_of (fst ?st) k"
    unfolding merge_content_def MergeSlices_def case_prod_unfold Let_def
    by (subst find_map_keys [OF d]) (use ok in \<open>auto simp: merge_ok_def dom_def\<close>)
  then show ?thesis by (simp add: merge_fold_content base)
qed

end
