(* ===== verification/Repository.thy ===== *)
theory Repository
  imports KVStore ProtoUtils
begin

text \<open>
  The generic repository of pkg/repository/repository.go: resources of one type kept in a
  key/value store under their uid, with a name index and a second index that both point
  to the uid.

  The message type is given by \<open>msg\<close> (its metadata, its notion of an equal
  specification, its status field) and by the protobuf codec. Fresh uuids and clock
  readings are arguments. \<^verbatim>\<open>Create\<close> and \<^verbatim>\<open>Update\<close> write into the resource they are
  given, which callers go on using; both return it next to the stored resource.
\<close>

section \<open>The repository\<close>

record 'a msg =
  msg_Meta :: "'a \<Rightarrow> Meta option"
  msg_setMeta :: "Meta \<Rightarrow> 'a \<Rightarrow> 'a"
  msg_SpecEqual :: "'a option \<Rightarrow> 'a option \<Rightarrow> bool"
  msg_EnsureStatus :: "'a \<Rightarrow> 'a"

record 'a codec =
  proto_Marshal :: "'a \<Rightarrow> bytes res"
  proto_Unmarshal :: "bytes \<Rightarrow> 'a res"

record ('a, 's, 'u) Repo =
  repo_db :: "('s, 'u) kv"
  repo_prefix :: bytes
  repo_iprefix :: bytes
  repo_idxprefix :: bytes
  repo_msg :: "'a msg"
  repo_codec :: "'a codec"

definition Codec_Decode :: "('a, 's, 'u) Repo \<Rightarrow> bytes \<Rightarrow> 'a res" where
  "Codec_Decode R b = proto_Unmarshal (repo_codec R) b"

definition NewRepo :: "('s, 'u) kv \<Rightarrow> 'a msg \<Rightarrow> 'a codec \<Rightarrow> bytes \<Rightarrow> bytes \<Rightarrow> bytes \<Rightarrow> ('a, 's, 'u) Repo" where
  "NewRepo db m codec pre ipre idxpre =
     \<lparr>repo_db = db, repo_prefix = pre, repo_iprefix = ipre, repo_idxprefix = idxpre,
      repo_msg = m, repo_codec = codec\<rparr>"

text \<open>\<^verbatim>\<open>select\<close> on \<^verbatim>\<open>ctx.Done()\<close> with a default branch.\<close>

definition live :: "ctx \<Rightarrow> 'a res \<Rightarrow> 'a res" where
  "live ctx r = (case ctx of Some e \<Rightarrow> Err e | None \<Rightarrow> r)"

lemma live_None [simp]: "live None r = r"
  by (simp add: live_def)

fun decode_all :: "('a, 's, 'u) Repo \<Rightarrow> bytes list \<Rightarrow> 'a list res" where
  "decode_all R [] = Ok []"
| "decode_all R (b # bs) = bindR (Codec_Decode R b) (\<lambda>obj. bindR (decode_all R bs) (\<lambda>objs. Ok (obj # objs)))"

definition Repo_List :: "('a, 's, 'u) Repo \<Rightarrow> ctx \<Rightarrow> int \<Rightarrow> 's \<Rightarrow> 'a list res" where
  "Repo_List R ctx limit =
     DB_View ctx (\<lambda>s. bindR (view_List (repo_db R) s (repo_prefix R) limit) (decode_all R))"

text \<open>A missing key reported as badger's own error becomes \<^verbatim>\<open>ErrNotFound\<close>.\<close>

definition mapKeyNotFound :: "'b res \<Rightarrow> 'b res" where
  "mapKeyNotFound r =
     (case r of
        Err e \<Rightarrow> if e = Sentinel BadgerErrKeyNotFound then Err (Sentinel RepoErrNotFound) else Err e
      | _ \<Rightarrow> r)"

definition Repo_getByUID :: "('a, 's, 'u) Repo \<Rightarrow> ctx \<Rightarrow> ID \<Rightarrow> 's \<Rightarrow> 'a res" where
  "Repo_getByUID R ctx i =
     DB_View ctx (\<lambda>s. live ctx
       (bindR (mapKeyNotFound (view_Get (repo_db R) s (ID_EncodePrefixed i (repo_prefix R)))) (Codec_Decode R)))"

definition Repo_getByName :: "('a, 's, 'u) Repo \<Rightarrow> ctx \<Rightarrow> ID \<Rightarrow> 's \<Rightarrow> 'a res" where
  "Repo_getByName R ctx i =
     DB_View ctx (\<lambda>s. live ctx
       (bindR (mapKeyNotFound (view_Get (repo_db R) s (ID_EncodePrefixed i (repo_iprefix R)))) (\<lambda>idxItem.
        bindR (keys_Decode idxItem) (\<lambda>uid.
        bindR (view_Get (repo_db R) s (ID_EncodePrefixed uid (repo_prefix R))) (\<lambda>item.
        Codec_Decode R item)))))"

definition Repo_getByIndex :: "('a, 's, 'u) Repo \<Rightarrow> ctx \<Rightarrow> ID \<Rightarrow> 's \<Rightarrow> 'a res" where
  "Repo_getByIndex R ctx i =
     DB_View ctx (\<lambda>s. live ctx
       (bindR (view_Get (repo_db R) s (ID_EncodePrefixed i (repo_idxprefix R))) (\<lambda>idxItem.
        bindR (keys_Decode idxItem) (\<lambda>uid.
        bindR (view_Get (repo_db R) s (ID_EncodePrefixed uid (repo_prefix R))) (\<lambda>item.
        Codec_Decode R item)))))"

definition Repo_Get :: "('a, 's, 'u) Repo \<Rightarrow> ctx \<Rightarrow> ID \<Rightarrow> 's \<Rightarrow> 'a res" where
  "Repo_Get R ctx i =
     DB_View ctx (\<lambda>s. live ctx
       (if tag i = TagUID then Repo_getByUID R ctx i s
        else if tag i = TagName then Repo_getByName R ctx i s
        else if tag i = TagIdx then Repo_getByIndex R ctx i s
        else Err (Errorf ''unsupported  sssid tag: '')))"

text \<open>One write in an update transaction, and one removal.\<close>

definition txn_Set :: "('s, 'u) kv \<Rightarrow> bytes \<Rightarrow> bytes \<Rightarrow> 'u \<times> 's \<Rightarrow> unit res \<times> ('u \<times> 's)" where
  "txn_Set ops k v st = (case upd_Set ops k v (fst st) of (r, u') \<Rightarrow> (r, (u', snd st)))"

definition txn_Delete :: "('s, 'u) kv \<Rightarrow> bytes \<Rightarrow> 'u \<times> 's \<Rightarrow> unit res \<times> ('u \<times> 's)" where
  "txn_Delete ops k st = (case upd_Delete ops k (fst st) of (r, u') \<Rightarrow> (r, (u', snd st)))"

definition txn_Get :: "('s, 'u) kv \<Rightarrow> bytes \<Rightarrow> 'u \<times> 's \<Rightarrow> bytes res \<times> ('u \<times> 's)" where
  "txn_Get ops k st = (upd_Get ops (snd st) (fst st) k, st)"

definition bump_generation :: "'a msg \<Rightarrow> 'a \<Rightarrow> 'a" where
  "bump_generation m r =
     (case msg_Meta m r of
        None \<Rightarrow> r
      | Some meta \<Rightarrow> msg_setMeta m (meta\<lparr>meta_Generation := meta_Generation meta + 1\<rparr>) r)"

definition Create_body :: "('a, 's, 'u) Repo \<Rightarrow> ctx \<Rightarrow> ID \<Rightarrow> ID \<Rightarrow> ID \<Rightarrow> 'a \<Rightarrow> 'u \<times> 's \<Rightarrow> 'a res \<times> ('u \<times> 's)" where
  "Create_body R ctx uid name idx resource st =
     (case Repo_Get R ctx name (snd st) of
        Panic m \<Rightarrow> (Panic m, st)
      | Ok _ \<Rightarrow> (Err (Sentinel RepoErrIdxExists), st)
      | Err e \<Rightarrow>
          if \<not> errors_Is e RepoErrNotFound then (Err e, st)
          else
            (let changed = msg_SpecEqual (repo_msg R) None (Some resource);
                 resource = msg_EnsureStatus (repo_msg R) resource;
                 resource = (if changed then bump_generation (repo_msg R) resource else resource)
             in andThen (proto_Marshal (repo_codec R) resource, st) (\<lambda>b st.
                andThen (txn_Set (repo_db R) (ID_EncodePrefixed uid (repo_prefix R)) b st) (\<lambda>_ st.
                andThen (txn_Set (repo_db R) (ID_EncodePrefixed idx (repo_idxprefix R)) (ID_Encode uid) st) (\<lambda>_ st.
                andThen (txn_Set (repo_db R) (ID_EncodePrefixed name (repo_iprefix R)) (ID_Encode uid) st) (\<lambda>_ st.
                (Ok resource, st)))))))"

definition Repo_Create ::
  "('a, 's, 'u) Repo \<Rightarrow> uuid_lib \<Rightarrow> ctx \<Rightarrow> bytes \<Rightarrow> instant \<Rightarrow> instant \<Rightarrow> 'a \<Rightarrow> 's \<Rightarrow> ('a \<times> 'a) res \<times> 's"
where
  "Repo_Create R ul ctx u now1 now2 resource s =
     (case msg_Meta (repo_msg R) resource of
        None \<Rightarrow> (Panic ''nil pointer dereference'', s)
      | Some m \<Rightarrow>
          (let m = m\<lparr>meta_Uid := uuid_String ul u, meta_Created := Some now1,
                     meta_Updated := Some now2, meta_ResourceVersion := 1\<rparr>;
               resource = msg_setMeta (repo_msg R) m resource
           in andThen (keys_UUID u, s) (\<lambda>uid s.
              andThen (keys_Name (meta_Name m), s) (\<lambda>name s.
              andThen (keys_Index (meta_Name m), s) (\<lambda>idx s.
              andThen (DB_Update (repo_db R) ctx (Create_body R ctx uid name idx resource) s) (\<lambda>resource s.
              andThen (Repo_getByUID R ctx uid s, s) (\<lambda>res s. (Ok (res, resource), s))))))))"

text \<open>
  The scan for the index entry of a uid: entries that cannot be read or decoded are
  skipped, the first that points to the uid is deleted.
\<close>

fun delete_entry_of :: "('s, 'u) kv \<Rightarrow> ID \<Rightarrow> bytes list \<Rightarrow> 'u \<times> 's \<Rightarrow> unit res \<times> ('u \<times> 's)" where
  "delete_entry_of ops i [] st = (Ok (), st)"
| "delete_entry_of ops i (indexKey # rest) st =
     (case upd_Get ops (snd st) (fst st) indexKey of
        Panic m \<Rightarrow> (Panic m, st)
      | Err e \<Rightarrow> delete_entry_of ops i rest st
      | Ok indexValue \<Rightarrow>
          (case keys_Decode indexValue of
             Ok indexedUID \<Rightarrow>
               if ID_Encode indexedUID = ID_Encode i then txn_Delete ops indexKey st
               else delete_entry_of ops i rest st
           | _ \<Rightarrow> delete_entry_of ops i rest st))"

definition Delete_body :: "('a, 's, 'u) Repo \<Rightarrow> ctx \<Rightarrow> ID \<Rightarrow> 'u \<times> 's \<Rightarrow> unit res \<times> ('u \<times> 's)" where
  "Delete_body R ctx i st =
     (case ctx of
        Some e \<Rightarrow> (Err e, st)
      | None \<Rightarrow>
          if tag i = TagUID then
            andThen (upd_Keys (repo_db R) (snd st) (fst st) (repo_iprefix R), st) (\<lambda>indexKeys st.
            andThen (delete_entry_of (repo_db R) i indexKeys st) (\<lambda>_ st.
            andThen (upd_Keys (repo_db R) (snd st) (fst st) (repo_idxprefix R), st) (\<lambda>indexKeys2 st.
            andThen (delete_entry_of (repo_db R) i indexKeys2 st) (\<lambda>_ st.
            txn_Delete (repo_db R) (ID_EncodePrefixed i (repo_prefix R)) st))))
          else if tag i = TagName then
            andThen (txn_Get (repo_db R) (ID_EncodePrefixed i (repo_iprefix R)) st) (\<lambda>idxItem st.
            andThen (keys_Decode idxItem, st) (\<lambda>uid st.
            andThen (txn_Delete (repo_db R) (ID_EncodePrefixed uid (repo_prefix R)) st) (\<lambda>_ st.
            txn_Delete (repo_db R) (ID_EncodePrefixed i (repo_iprefix R)) st)))
          else (Err (Errorf ''unsupported id tag: ''), st))"

definition Repo_Delete :: "('a, 's, 'u) Repo \<Rightarrow> ctx \<Rightarrow> ID \<Rightarrow> 's \<Rightarrow> unit res \<times> 's" where
  "Repo_Delete R ctx i s = DB_Update (repo_db R) ctx (Delete_body R ctx i) s"

definition Repo_updateByName :: "('a, 's, 'u) Repo \<Rightarrow> ctx \<Rightarrow> ID \<Rightarrow> bytes \<Rightarrow> 's \<Rightarrow> unit res \<times> 's" where
  "Repo_updateByName R ctx i b s =
     DB_Update (repo_db R) ctx (\<lambda>st.
       andThen (txn_Get (repo_db R) (ID_EncodePrefixed i (repo_iprefix R)) st) (\<lambda>idxItem st.
       andThen (keys_Decode idxItem, st) (\<lambda>uid st.
       txn_Set (repo_db R) (ID_EncodePrefixed uid (repo_prefix R)) b st))) s"

definition Repo_updateByIdx :: "('a, 's, 'u) Repo \<Rightarrow> ctx \<Rightarrow> ID \<Rightarrow> bytes \<Rightarrow> 's \<Rightarrow> unit res \<times> 's" where
  "Repo_updateByIdx R ctx i b s =
     DB_Update (repo_db R) ctx (\<lambda>st.
       andThen (txn_Get (repo_db R) (ID_EncodePrefixed i (repo_idxprefix R)) st) (\<lambda>idxItem st.
       andThen (keys_Decode idxItem, st) (\<lambda>uid st.
       txn_Set (repo_db R) (ID_EncodePrefixed uid (repo_prefix R)) b st))) s"

definition Repo_updateByUID :: "('a, 's, 'u) Repo \<Rightarrow> ctx \<Rightarrow> ID \<Rightarrow> bytes \<Rightarrow> 's \<Rightarrow> unit res \<times> 's" where
  "Repo_updateByUID R ctx i b s =
     DB_Update (repo_db R) ctx (\<lambda>st.
       andThen (txn_Get (repo_db R) (ID_EncodePrefixed i (repo_prefix R)) st) (\<lambda>_ st.
       txn_Set (repo_db R) (ID_EncodePrefixed i (repo_prefix R)) b st)) s"

text \<open>The read-only fields are those of the stored resource, both counters go up.\<close>

definition preserve_meta :: "Meta \<Rightarrow> instant \<Rightarrow> Meta \<Rightarrow> Meta" where
  "preserve_meta existing now m =
     m\<lparr>meta_Uid := meta_Uid existing, meta_Created := meta_Created existing, meta_Updated := Some now,
       meta_ResourceVersion := meta_ResourceVersion existing + 1,
       meta_Generation := meta_Generation existing + 1\<rparr>"

text \<open>
  The nested calls of \<^verbatim>\<open>Update\<close> run their own transactions on the store; the enclosing
  transaction neither reads nor writes.
\<close>

definition nested :: "('s \<Rightarrow> 'b res \<times> 's) \<Rightarrow> 'u \<times> 's \<Rightarrow> 'b res \<times> ('u \<times> 's)" where
  "nested call st = (case call (snd st) of (r, s') \<Rightarrow> (r, (fst st, s')))"

definition Update_body :: "('a, 's, 'u) Repo \<Rightarrow> ctx \<Rightarrow> instant \<Rightarrow> ID \<Rightarrow> 'a \<Rightarrow> 'u \<times> 's \<Rightarrow> ('a \<times> 'a) res \<times> ('u \<times> 's)" where
  "Update_body R ctx now i resource st =
     (case ctx of
        Some e \<Rightarrow> (Err e, st)
      | None \<Rightarrow>
          andThen (Repo_Get R ctx i (snd st), st) (\<lambda>existing st.
          (case msg_Meta (repo_msg R) existing of
             None \<Rightarrow> (Panic ''nil pointer dereference'', st)
           | Some existingMeta \<Rightarrow>
          (case msg_Meta (repo_msg R) resource of
             None \<Rightarrow> (Panic ''nil pointer dereference'', st)
           | Some m \<Rightarrow>
               (let resource = msg_setMeta (repo_msg R) (preserve_meta existingMeta now m) resource
                in andThen (proto_Marshal (repo_codec R) resource, st) (\<lambda>b st.
                   if tag i = TagUID then
                     andThen (nested (Repo_updateByUID R ctx i b) st) (\<lambda>_ st.
                     andThen (Repo_getByUID R ctx i (snd st), st) (\<lambda>res st. (Ok (res, resource), st)))
                   else if tag i = TagName then
                     andThen (nested (Repo_updateByName R ctx i b) st) (\<lambda>_ st.
                     andThen (Repo_getByName R ctx i (snd st), st) (\<lambda>res st. (Ok (res, resource), st)))
                   else if tag i = TagIdx then
                     andThen (nested (Repo_updateByIdx R ctx i b) st) (\<lambda>_ st.
                     andThen (Repo_getByIndex R ctx i (snd st), st) (\<lambda>res st. (Ok (res, resource), st)))
                   else (Err (Errorf ''unsupported id tag: ''), st)))))))"

definition Repo_Update ::
  "('a, 's, 'u) Repo \<Rightarrow> ctx \<Rightarrow> instant \<Rightarrow> ID \<Rightarrow> 'a \<Rightarrow> 's \<Rightarrow> ('a \<times> 'a) res \<times> 's"
where
  "Repo_Update R ctx now i resource s = DB_Update (repo_db R) ctx (Update_body R ctx now i resource) s"

end
