(* ===== verification/RepoSpec.thy ===== *)
theory RepoSpec
  imports Repository
begin

text \<open>
  What a repository promises, as operations on an abstract state (resources by uid, two
  indexes from names to uids), and that the operations of \<open>Repository\<close> implement it on
  every store that meets the contract \<open>kv_db\<close>.

  \<open>repo_rel R c A\<close> relates the content \<open>c\<close> of a store to the abstract state \<open>A\<close>.
  \<open>repo_wf A\<close> is the invariant of the abstract state: indexed resources exist, one name
  per resource, and the two indexes agree on the live resources.
\<close>

section \<open>The abstract repository\<close>

record 'a repo_state =
  recs :: "bytes \<Rightarrow> 'a option"
  names :: "string \<Rightarrow> bytes option"
  idxs :: "string \<Rightarrow> bytes option"

definition spec_found :: "'a option \<Rightarrow> 'a res" where
  "spec_found v = (case v of Some r \<Rightarrow> Ok r | None \<Rightarrow> Err (Sentinel RepoErrNotFound))"

definition spec_resolve :: "'a repo_state \<Rightarrow> ID \<Rightarrow> bytes option" where
  "spec_resolve A i =
     (if tag i = TagUID then Some (raw i)
      else if tag i = TagName then names A (raw i)
      else if tag i = TagIdx then idxs A (raw i) else None)"

definition spec_Get :: "'a repo_state \<Rightarrow> ID \<Rightarrow> 'a res" where
  "spec_Get A i = spec_found (Option.bind (spec_resolve A i) (recs A))"

definition spec_Create :: "'a repo_state \<Rightarrow> bytes \<Rightarrow> string \<Rightarrow> 'a \<Rightarrow> 'a repo_state" where
  "spec_Create A u n r = A\<lparr>recs := (recs A)(u \<mapsto> r), idxs := (idxs A)(n \<mapsto> u), names := (names A)(n \<mapsto> u)\<rparr>"

definition spec_Update :: "'a repo_state \<Rightarrow> ID \<Rightarrow> 'a \<Rightarrow> 'a repo_state" where
  "spec_Update A i r =
     (case spec_resolve A i of None \<Rightarrow> A | Some u \<Rightarrow> A\<lparr>recs := (recs A)(u \<mapsto> r)\<rparr>)"

text \<open>Deleting by uid clears both indexes; deleting by name leaves the second index behind.\<close>

definition drop_uid :: "bytes \<Rightarrow> (string \<Rightarrow> bytes option) \<Rightarrow> string \<Rightarrow> bytes option" where
  "drop_uid u ix n = (if ix n = Some u then None else ix n)"

definition spec_DeleteUID :: "'a repo_state \<Rightarrow> bytes \<Rightarrow> 'a repo_state" where
  "spec_DeleteUID A u = A\<lparr>names := drop_uid u (names A), idxs := drop_uid u (idxs A), recs := (recs A)(u := None)\<rparr>"

definition spec_DeleteName :: "'a repo_state \<Rightarrow> string \<Rightarrow> 'a repo_state" where
  "spec_DeleteName A n =
     (case names A n of
        None \<Rightarrow> A
      | Some u \<Rightarrow> A\<lparr>recs := (recs A)(u := None), names := (names A)(n := None)\<rparr>)"

definition repo_wf :: "'a repo_state \<Rightarrow> bool" where
  "repo_wf A \<longleftrightarrow>
     (\<forall>n u. names A n = Some u \<longrightarrow> recs A u \<noteq> None \<and> idxs A n = Some u) \<and>
     (\<forall>n n' u. idxs A n = Some u \<longrightarrow> idxs A n' = Some u \<longrightarrow> n = n')"

definition fresh_uid :: "'a repo_state \<Rightarrow> bytes \<Rightarrow> bool" where
  "fresh_uid A u \<longleftrightarrow> length u = 16 \<and> recs A u = None \<and> (\<forall>n. idxs A n \<noteq> Some u)"

lemma spec_found_simps [simp]:
  "spec_found (Some r) = Ok r" "spec_found None = Err (Sentinel RepoErrNotFound)"
  by (simp_all add: spec_found_def)

lemma spec_resolve_recs [simp]: "spec_resolve (A\<lparr>recs := f\<rparr>) i = spec_resolve A i"
  by (simp add: spec_resolve_def)

lemma repo_wf_names_inj: "repo_wf A \<Longrightarrow> names A n = Some u \<Longrightarrow> names A n' = Some u \<Longrightarrow> n = n'"
  unfolding repo_wf_def by metis

lemma repo_wf_idxs_inj: "repo_wf A \<Longrightarrow> idxs A n = Some u \<Longrightarrow> idxs A n' = Some u \<Longrightarrow> n = n'"
  unfolding repo_wf_def by blast

lemma repo_wf_recs: "repo_wf A \<Longrightarrow> names A n = Some u \<Longrightarrow> \<exists>r. recs A u = Some r \<and> idxs A n = Some u"
  unfolding repo_wf_def by blast

text \<open>The abstract operations keep the invariant.\<close>

lemma repo_wf_empty: "repo_wf \<lparr>recs = (\<lambda>_. None), names = (\<lambda>_. None), idxs = (\<lambda>_. None)\<rparr>"
  by (simp add: repo_wf_def)

lemma repo_wf_Create:
  "repo_wf A \<Longrightarrow> fresh_uid A u \<Longrightarrow> names A n = None \<Longrightarrow> repo_wf (spec_Create A u n r)"
  by (auto simp: repo_wf_def spec_Create_def fresh_uid_def split: if_splits)

lemma repo_wf_Update: "repo_wf A \<Longrightarrow> repo_wf (spec_Update A i r)"
  by (auto simp: repo_wf_def spec_Update_def split: option.splits)

lemma repo_wf_DeleteUID: "repo_wf A \<Longrightarrow> repo_wf (spec_DeleteUID A u)"
  by (auto simp: repo_wf_def spec_DeleteUID_def drop_uid_def split: if_splits)

lemma repo_wf_DeleteName: "repo_wf A \<Longrightarrow> repo_wf (spec_DeleteName A n)"
  using repo_wf_names_inj [of A]
  by (auto simp: repo_wf_def spec_DeleteName_def split: option.splits if_splits)

section \<open>The keys of a repository\<close>

definition uid_key :: "('a, 's, 'u) Repo \<Rightarrow> bytes \<Rightarrow> bytes" where
  "uid_key R u = ID_EncodePrefixed \<lparr>tag = TagUID, raw = u\<rparr> (repo_prefix R)"

definition name_key :: "('a, 's, 'u) Repo \<Rightarrow> string \<Rightarrow> bytes" where
  "name_key R n = ID_EncodePrefixed \<lparr>tag = TagName, raw = n\<rparr> (repo_iprefix R)"

definition idx_key :: "('a, 's, 'u) Repo \<Rightarrow> string \<Rightarrow> bytes" where
  "idx_key R n = ID_EncodePrefixed \<lparr>tag = TagIdx, raw = n\<rparr> (repo_idxprefix R)"

lemmas key_defs = uid_key_def name_key_def idx_key_def ID_EncodePrefixed_def ID_Encode_def

definition repo_prefixes :: "('a, 's, 'u) Repo \<Rightarrow> bool" where
  "repo_prefixes R \<longleftrightarrow> parallel (repo_prefix R) (repo_iprefix R) \<and>
     parallel (repo_prefix R) (repo_idxprefix R) \<and> parallel (repo_iprefix R) (repo_idxprefix R)"

definition owned :: "('a, 's, 'u) Repo \<Rightarrow> bytes \<Rightarrow> bool" where
  "owned R k \<longleftrightarrow> prefix (repo_prefix R) k \<or> prefix (repo_iprefix R) k \<or> prefix (repo_idxprefix R) k"

definition uid_value :: "bytes \<Rightarrow> bytes" where
  "uid_value u = ID_Encode \<lparr>tag = TagUID, raw = u\<rparr>"

definition rec_rel :: "('a, 's, 'u) Repo \<Rightarrow> bytes option \<Rightarrow> 'a option \<Rightarrow> bool" where
  "rec_rel R v ro \<longleftrightarrow> (case ro of None \<Rightarrow> v = None | Some r \<Rightarrow> (\<exists>b. v = Some b \<and> Codec_Decode R b = Ok r))"

lemma rec_rel_simps [simp]:
  "rec_rel R v None \<longleftrightarrow> v = None" "rec_rel R v (Some r) \<longleftrightarrow> (\<exists>b. v = Some b \<and> Codec_Decode R b = Ok r)"
  by (simp_all add: rec_rel_def)

definition repo_rel :: "('a, 's, 'u) Repo \<Rightarrow> (bytes \<Rightarrow> bytes option) \<Rightarrow> 'a repo_state \<Rightarrow> bool" where
  "repo_rel R c A \<longleftrightarrow>
     (\<forall>u. length u = 16 \<longrightarrow> rec_rel R (c (uid_key R u)) (recs A u)) \<and>
     (\<forall>n. n \<noteq> [] \<longrightarrow> c (name_key R n) = map_option uid_value (names A n)) \<and>
     (\<forall>n. n \<noteq> [] \<longrightarrow> c (idx_key R n) = map_option uid_value (idxs A n)) \<and>
     (\<forall>n u. names A n = Some u \<or> idxs A n = Some u \<longrightarrow> n \<noteq> [] \<and> length u = 16) \<and>
     (\<forall>k. prefix (repo_iprefix R) k \<and> c k \<noteq> None \<longrightarrow> (\<exists>n. n \<noteq> [] \<and> k = name_key R n)) \<and>
     (\<forall>k. prefix (repo_idxprefix R) k \<and> c k \<noteq> None \<longrightarrow> (\<exists>n. n \<noteq> [] \<and> k = idx_key R n))"

lemma key_inj [simp]:
  "uid_key R u = uid_key R v \<longleftrightarrow> u = v" "name_key R n = name_key R m \<longleftrightarrow> n = m"
  "idx_key R n = idx_key R m \<longleftrightarrow> n = m"
  by (simp_all add: key_defs)

lemma key_prefix [simp]:
  "prefix (repo_prefix R) (uid_key R u)" "prefix (repo_iprefix R) (name_key R n)"
  "prefix (repo_idxprefix R) (idx_key R n)"
  by (simp_all add: key_defs)

lemma parallel_prefixes:
  "parallel p q \<Longrightarrow> prefix p k \<Longrightarrow> \<not> prefix q k"
  by (auto simp: prefix_def parallel_def append_eq_append_conv2)

lemma key_disjoint:
  assumes "repo_prefixes R"
  shows "uid_key R u \<noteq> name_key R n" "uid_key R u \<noteq> idx_key R m" "name_key R n \<noteq> idx_key R m"
    "name_key R n \<noteq> uid_key R u" "idx_key R m \<noteq> uid_key R u" "idx_key R m \<noteq> name_key R n"
    "\<not> prefix (repo_iprefix R) (uid_key R u)" "\<not> prefix (repo_idxprefix R) (uid_key R u)"
    "\<not> prefix (repo_idxprefix R) (name_key R n)" "\<not> prefix (repo_iprefix R) (idx_key R m)"
proof -
  have ne: "k \<noteq> k'" if "parallel p q" "prefix p k" "prefix q k'" for p q k k' :: bytes
    using parallel_prefixes [OF that(1,2)] that(3) by blast
  have par: "parallel (repo_prefix R) (repo_iprefix R)" "parallel (repo_prefix R) (repo_idxprefix R)"
    "parallel (repo_iprefix R) (repo_idxprefix R)"
    using assms by (simp_all add: repo_prefixes_def)
  show "uid_key R u \<noteq> name_key R n" "uid_key R u \<noteq> idx_key R m" "name_key R n \<noteq> idx_key R m"
    by (rule ne [OF par(1)] ne [OF par(2)] ne [OF par(3)], simp, simp)+
  then show "name_key R n \<noteq> uid_key R u" "idx_key R m \<noteq> uid_key R u" "idx_key R m \<noteq> name_key R n"
    by metis+
  show "\<not> prefix (repo_iprefix R) (uid_key R u)" "\<not> prefix (repo_idxprefix R) (uid_key R u)"
    "\<not> prefix (repo_idxprefix R) (name_key R n)"
    by (rule parallel_prefixes [OF par(1)] parallel_prefixes [OF par(2)] parallel_prefixes [OF par(3)], simp)+
  have "parallel (repo_idxprefix R) (repo_iprefix R)" using par(3) by (rule parallel_commute [THEN iffD1])
  then show "\<not> prefix (repo_iprefix R) (idx_key R m)" by (rule parallel_prefixes) simp
qed

lemma keys_Decode_uid_value [simp]:
  "length u = 16 \<Longrightarrow> keys_Decode (uid_value u) = Ok \<lparr>tag = TagUID, raw = u\<rparr>"
  by (simp add: uid_value_def keys_Decode_Encode wf_ID_def UUIDLen_def)

lemma uid_value_inj [simp]: "uid_value u = uid_value v \<longleftrightarrow> u = v"
  by (simp add: uid_value_def ID_Encode_def)

lemma owned_keys [simp]: "owned R (uid_key R u)" "owned R (name_key R n)" "owned R (idx_key R n)"
  by (simp_all add: owned_def)

text \<open>Effect of single writes on the relation.\<close>

lemma repo_rel_recs:
  assumes "repo_rel R c A" and "length u = 16"
  shows "rec_rel R (c (uid_key R u)) (recs A u)"
  using assms unfolding repo_rel_def by blast

lemma repo_rel_names:
  assumes "repo_rel R c A"
  shows "n \<noteq> [] \<Longrightarrow> c (name_key R n) = map_option uid_value (names A n)"
    and "n \<noteq> [] \<Longrightarrow> c (idx_key R n) = map_option uid_value (idxs A n)"
    and "names A n = Some u \<Longrightarrow> n \<noteq> [] \<and> length u = 16"
    and "idxs A n = Some u \<Longrightarrow> n \<noteq> [] \<and> length u = 16"
  using assms unfolding repo_rel_def by blast+

text \<open>Only the repository's own keys count.\<close>

lemma repo_rel_cong:
  assumes "repo_rel R c A" and same: "\<And>k. owned R k \<Longrightarrow> c' k = c k"
  shows "repo_rel R c' A"
  using assms(1) same unfolding repo_rel_def by (auto simp: owned_def)

lemma repo_rel_set_rec:
  assumes rel: "repo_rel R c A" and pre: "repo_prefixes R" and "Codec_Decode R b = Ok r"
  shows "repo_rel R (c(uid_key R u \<mapsto> b)) (A\<lparr>recs := (recs A)(u \<mapsto> r)\<rparr>)"
  unfolding repo_rel_def
  using rel assms(3) by (simp add: repo_rel_def key_disjoint [OF pre])

lemma repo_rel_del_rec:
  assumes rel: "repo_rel R c A" and pre: "repo_prefixes R"
  shows "repo_rel R (c(uid_key R u := None)) (A\<lparr>recs := (recs A)(u := None)\<rparr>)"
  unfolding repo_rel_def
  using rel by (simp add: repo_rel_def key_disjoint [OF pre])

lemma repo_rel_set_name:
  assumes rel: "repo_rel R c A" and pre: "repo_prefixes R" and "n \<noteq> []" "length u = 16"
  shows "repo_rel R (c(name_key R n \<mapsto> uid_value u)) (A\<lparr>names := (names A)(n \<mapsto> u)\<rparr>)"
  unfolding repo_rel_def
  using rel assms(3,4) by (auto simp: repo_rel_def key_disjoint [OF pre])

lemma repo_rel_set_idx:
  assumes rel: "repo_rel R c A" and pre: "repo_prefixes R" and "n \<noteq> []" "length u = 16"
  shows "repo_rel R (c(idx_key R n \<mapsto> uid_value u)) (A\<lparr>idxs := (idxs A)(n \<mapsto> u)\<rparr>)"
  unfolding repo_rel_def
  using rel assms(3,4) by (auto simp: repo_rel_def key_disjoint [OF pre])

lemma repo_rel_del_name:
  assumes rel: "repo_rel R c A" and pre: "repo_prefixes R" and "n \<noteq> []"
  shows "repo_rel R (c(name_key R n := None)) (A\<lparr>names := (names A)(n := None)\<rparr>)"
  unfolding repo_rel_def
  using rel assms(3) by (auto simp: repo_rel_def key_disjoint [OF pre])

lemma repo_rel_del_idx:
  assumes rel: "repo_rel R c A" and pre: "repo_prefixes R" and "n \<noteq> []"
  shows "repo_rel R (c(idx_key R n := None)) (A\<lparr>idxs := (idxs A)(n := None)\<rparr>)"
  unfolding repo_rel_def
  using rel assms(3) by (auto simp: repo_rel_def key_disjoint [OF pre])

text \<open>Removing every index entry that points to one uid.\<close>

definition drop_refs :: "(string \<Rightarrow> bytes) \<Rightarrow> (string \<Rightarrow> bytes option) \<Rightarrow> bytes \<Rightarrow>
    (bytes \<Rightarrow> bytes option) \<Rightarrow> bytes \<Rightarrow> bytes option" where
  "drop_refs kf ix u c k = (if \<exists>n. k = kf n \<and> ix n = Some u then None else c k)"

lemma repo_rel_drop_names:
  assumes rel: "repo_rel R c A" and pre: "repo_prefixes R"
  shows "repo_rel R (drop_refs (name_key R) (names A) u c) (A\<lparr>names := drop_uid u (names A)\<rparr>)"
  unfolding repo_rel_def
  using rel by (auto simp: repo_rel_def key_disjoint [OF pre] drop_refs_def drop_uid_def)

lemma repo_rel_drop_idxs:
  assumes rel: "repo_rel R c A" and pre: "repo_prefixes R"
  shows "repo_rel R (drop_refs (idx_key R) (idxs A) u c) (A\<lparr>idxs := drop_uid u (idxs A)\<rparr>)"
  unfolding repo_rel_def
  using rel by (auto simp: repo_rel_def key_disjoint [OF pre] drop_refs_def drop_uid_def)

lemma repo_rel_name_entries:
  assumes rel: "repo_rel R c A"
  shows "prefix (repo_iprefix R) k \<Longrightarrow> c k \<noteq> None \<Longrightarrow>
      \<exists>n w. k = name_key R n \<and> names A n = Some w \<and> length w = 16 \<and> c k = Some (uid_value w)"
    and "names A n = Some w \<Longrightarrow> prefix (repo_iprefix R) (name_key R n) \<and> c (name_key R n) = Some (uid_value w)"
proof -
  assume k: "prefix (repo_iprefix R) k" "c k \<noteq> None"
  then obtain n where "n \<noteq> []" "k = name_key R n" using rel unfolding repo_rel_def by blast
  with k repo_rel_names(1,3) [OF rel]
  show "\<exists>n w. k = name_key R n \<and> names A n = Some w \<and> length w = 16 \<and> c k = Some (uid_value w)"
    by (cases "names A n") auto
next
  assume "names A n = Some w"
  with repo_rel_names(1,3) [OF rel]
  show "prefix (repo_iprefix R) (name_key R n) \<and> c (name_key R n) = Some (uid_value w)" by simp
qed

lemma repo_rel_idx_entries:
  assumes rel: "repo_rel R c A"
  shows "prefix (repo_idxprefix R) k \<Longrightarrow> c k \<noteq> None \<Longrightarrow>
      \<exists>n w. k = idx_key R n \<and> idxs A n = Some w \<and> length w = 16 \<and> c k = Some (uid_value w)"
    and "idxs A n = Some w \<Longrightarrow> prefix (repo_idxprefix R) (idx_key R n) \<and> c (idx_key R n) = Some (uid_value w)"
proof -
  assume k: "prefix (repo_idxprefix R) k" "c k \<noteq> None"
  then obtain n where "n \<noteq> []" "k = idx_key R n" using rel unfolding repo_rel_def by blast
  with k repo_rel_names(2,4) [OF rel]
  show "\<exists>n w. k = idx_key R n \<and> idxs A n = Some w \<and> length w = 16 \<and> c k = Some (uid_value w)"
    by (cases "idxs A n") auto
next
  assume "idxs A n = Some w"
  with repo_rel_names(2,4) [OF rel]
  show "prefix (repo_idxprefix R) (idx_key R n) \<and> c (idx_key R n) = Some (uid_value w)" by simp
qed

lemma repo_rel_empty:
  "repo_rel R (\<lambda>_. None) \<lparr>recs = (\<lambda>_. None), names = (\<lambda>_. None), idxs = (\<lambda>_. None)\<rparr>"
  by (simp add: repo_rel_def)

text \<open>The store of one resource.\<close>

lemma single_rel:
  assumes pre: "repo_prefixes R" and dec: "Codec_Decode R b = Ok r" and n: "n \<noteq> []" and u: "length u = 16"
  shows "repo_rel R (map_of [(uid_key R u, b), (idx_key R n, uid_value u), (name_key R n, uid_value u)])
      (spec_Create \<lparr>recs = (\<lambda>_. None), names = (\<lambda>_. None), idxs = (\<lambda>_. None)\<rparr> u n r)"
proof -
  have "map_of [(uid_key R u, b), (idx_key R n, uid_value u), (name_key R n, uid_value u)]
      = Map.empty(uid_key R u \<mapsto> b, idx_key R n \<mapsto> uid_value u, name_key R n \<mapsto> uid_value u)"
    by (auto simp: fun_eq_iff key_disjoint [OF pre])
  with repo_rel_set_name [OF repo_rel_set_idx [OF repo_rel_set_rec [OF repo_rel_empty pre dec, of u] pre n u] pre n u]
  show "repo_rel R (map_of [(uid_key R u, b), (idx_key R n, uid_value u), (name_key R n, uid_value u)])
      (spec_Create \<lparr>recs = (\<lambda>_. None), names = (\<lambda>_. None), idxs = (\<lambda>_. None)\<rparr> u n r)"
    by (simp add: spec_Create_def)
qed

lemma single_wf:
  "length u = 16 \<Longrightarrow> repo_wf (spec_Create \<lparr>recs = (\<lambda>_. None), names = (\<lambda>_. None), idxs = (\<lambda>_. None)\<rparr> u n r)"
  by (rule repo_wf_Create [OF repo_wf_empty]) (simp_all add: fresh_uid_def)

section \<open>Single steps of a transaction\<close>

definition first_ref :: "(bytes \<Rightarrow> bytes option) \<Rightarrow> bytes \<Rightarrow> bytes list \<Rightarrow> bytes option" where
  "first_ref c v ks = find (\<lambda>k. c k = Some (uid_value v)) ks"

context kv_db
begin

lemma txn_Set_ok:
  assumes "tinv s u"
  shows "\<exists>u'. txn_Set ops k v (u, s) = (Ok (), (u', s)) \<and> tinv s u' \<and> tcontent s u' = (tcontent s u)(k \<mapsto> v)"
  using Set_ok [OF assms, of k v] by (auto simp: txn_Set_def)

lemma txn_Delete_ok:
  assumes "tinv s u"
  shows "\<exists>u'. txn_Delete ops k (u, s) = (Ok (), (u', s)) \<and> tinv s u' \<and> tcontent s u' = (tcontent s u)(k := None)"
  using Delete_ok [OF assms, of k] by (auto simp: txn_Delete_def)

lemma txn_Get_ok: "tinv s u \<Longrightarrow> txn_Get ops k (u, s) = (found (tcontent s u k), (u, s))"
  by (simp add: txn_Get_def Get_content)

text \<open>Three writes in a row.\<close>

lemma txn_Set3_ok:
  assumes "tinv s u"
  shows "\<exists>u'. andThen (txn_Set ops k1 v1 (u, s)) (\<lambda>_ st. andThen (txn_Set ops k2 v2 st) (\<lambda>_ st.
            andThen (txn_Set ops k3 v3 st) (\<lambda>_ st. (Ok r, st)))) = (Ok r, (u', s))
          \<and> tinv s u' \<and> tcontent s u' = (tcontent s u)(k1 \<mapsto> v1, k2 \<mapsto> v2, k3 \<mapsto> v3)"
proof -
  obtain u1 where u1: "txn_Set ops k1 v1 (u, s) = (Ok (), (u1, s))" "tinv s u1"
      "tcontent s u1 = (tcontent s u)(k1 \<mapsto> v1)"
    using txn_Set_ok [OF assms] by blast
  obtain u2 where u2: "txn_Set ops k2 v2 (u1, s) = (Ok (), (u2, s))" "tinv s u2"
      "tcontent s u2 = (tcontent s u1)(k2 \<mapsto> v2)"
    using txn_Set_ok [OF u1(2)] by blast
  obtain u3 where u3: "txn_Set ops k3 v3 (u2, s) = (Ok (), (u3, s))" "tinv s u3"
      "tcontent s u3 = (tcontent s u2)(k3 \<mapsto> v3)"
    using txn_Set_ok [OF u2(2)] by blast
  from u1 u2 u3 show ?thesis by auto
qed

text \<open>A transaction that reads one key and then writes one.\<close>

lemma Update_read_write:
  assumes "fn (upd_begin ops s, s) = txn_Set ops k v (upd_begin ops s, s)"
  shows "\<exists>s'. DB_Update ops None fn s = (Ok (), s') \<and> content s' = (content s)(k \<mapsto> v)"
proof -
  obtain u' where u': "txn_Set ops k v (upd_begin ops s, s) = (Ok (), (u', s))" "tinv s u'"
      "tcontent s u' = (tcontent s (upd_begin ops s))(k \<mapsto> v)"
    using txn_Set_ok [OF begin_inv] by blast
  with assms Update_commits [of fn s "()" u'] show ?thesis
    by (simp add: begin_content)
qed

text \<open>The scan deletes the first entry that points to the uid, if there is one.\<close>

lemma delete_entry_of_ok:
  assumes inv: "tinv s u" and len: "length v = 16"
    and entries: "\<forall>k \<in> set ks. \<exists>w. tcontent s u k = Some (uid_value w) \<and> length w = 16"
  shows "\<exists>u'. delete_entry_of ops \<lparr>tag = TagUID, raw = v\<rparr> ks (u, s) = (Ok (), (u', s)) \<and> tinv s u' \<and>
    tcontent s u' = (case first_ref (tcontent s u) v ks of None \<Rightarrow> tcontent s u | Some k \<Rightarrow> (tcontent s u)(k := None))"
  using entries
proof (induction ks)
  case Nil
  with inv show ?case by (auto simp: first_ref_def)
next
  case (Cons k ks)
  then obtain w where w: "tcontent s u k = Some (uid_value w)" "length w = 16" by auto
  show ?case
  proof (cases "w = v")
    case True
    then show ?thesis
      using w len inv txn_Delete_ok [OF inv, of k]
      by (auto simp: Get_content first_ref_def fun_upd_def)
  next
    case False
    then show ?thesis
      using w Cons inv by (simp add: Get_content first_ref_def ID_Encode_def)
  qed
qed

end

section \<open>The repository implements the specification\<close>

text \<open>
  The resource \<^verbatim>\<open>Create\<close> stores: fresh uid and timestamps, version 1, the status field
  present, the generation raised only where the comparison with no resource at all says
  equal.
\<close>

definition created :: "('a, 's, 'u) Repo \<Rightarrow> uuid_lib \<Rightarrow> bytes \<Rightarrow> instant \<Rightarrow> instant \<Rightarrow> Meta \<Rightarrow> 'a \<Rightarrow> 'a" where
  "created R ul u now1 now2 m resource =
     (let r = msg_setMeta (repo_msg R) (m\<lparr>meta_Uid := uuid_String ul u, meta_Created := Some now1,
                meta_Updated := Some now2, meta_ResourceVersion := 1\<rparr>) resource;
          r' = msg_EnsureStatus (repo_msg R) r
      in if msg_SpecEqual (repo_msg R) None (Some r) then bump_generation (repo_msg R) r' else r')"

locale repository = kv_db "repo_db R" content tcontent tinv
  for R :: "('a, 's, 'u) Repo" and content tcontent tinv +
  assumes prefixes: "repo_prefixes R"
begin

lemma mapKeyNotFound_found [simp]: "mapKeyNotFound (found v) = found v"
  by (cases v) (simp_all add: mapKeyNotFound_def)

lemma getByUID_content:
  "Repo_getByUID R None \<lparr>tag = TagUID, raw = u\<rparr> s = bindR (found (content s (uid_key R u))) (Codec_Decode R)"
  by (simp add: Repo_getByUID_def DB_View_def view_Get_content uid_key_def)

lemma getByUID_refines:
  assumes "repo_rel R (content s) A" and "length u = 16"
  shows "Repo_getByUID R None \<lparr>tag = TagUID, raw = u\<rparr> s = spec_found (recs A u)"
  using repo_rel_recs [OF assms] by (cases "recs A u") (auto simp: getByUID_content)

text \<open>Both index reads go through the uid the index holds.\<close>

lemma via_index_refines:
  assumes rel: "repo_rel R (content s) A" and ix: "content s k = map_option uid_value v"
    and len: "\<And>u. v = Some u \<Longrightarrow> length u = 16"
  shows "bindR (found (content s k)) (\<lambda>idxItem. bindR (keys_Decode idxItem) (\<lambda>uid.
           bindR (view_Get (repo_db R) s (ID_EncodePrefixed uid (repo_prefix R))) (Codec_Decode R)))
         = spec_found (Option.bind v (recs A))"
proof (cases v)
  case (Some u)
  with len have "length u = 16" by simp
  with repo_rel_recs [OF rel this] Some ix show ?thesis
    by (cases "recs A u") (auto simp: view_Get_content simp flip: uid_key_def)
qed (simp add: ix)

lemma getByName_refines:
  assumes "repo_rel R (content s) A" and "n \<noteq> []"
  shows "Repo_getByName R None \<lparr>tag = TagName, raw = n\<rparr> s = spec_found (Option.bind (names A n) (recs A))"
  using via_index_refines [OF assms(1), of "name_key R n" "names A n"] repo_rel_names [OF assms(1)] assms(2)
  by (simp add: Repo_getByName_def DB_View_def view_Get_content flip: name_key_def)

lemma getByIndex_refines:
  assumes "repo_rel R (content s) A" and "n \<noteq> []"
  shows "Repo_getByIndex R None \<lparr>tag = TagIdx, raw = n\<rparr> s = spec_found (Option.bind (idxs A n) (recs A))"
  using via_index_refines [OF assms(1), of "idx_key R n" "idxs A n"] repo_rel_names [OF assms(1)] assms(2)
  by (simp add: Repo_getByIndex_def DB_View_def view_Get_content flip: idx_key_def)

lemma Get_refines:
  assumes rel: "repo_rel R (content s) A" and wf: "wf_ID i"
  shows "Repo_Get R None i s = spec_Get A i"
proof -
  obtain t r where i: "i = \<lparr>tag = t, raw = r\<rparr>" by (cases i)
  from wf consider "t = TagUID" "length r = 16" | "t = TagName" "r \<noteq> []" | "t = TagIdx" "r \<noteq> []"
    by (auto simp: wf_ID_def i UUIDLen_def)
  then show ?thesis
    using getByUID_refines [OF rel] getByName_refines [OF rel] getByIndex_refines [OF rel]
    by cases (simp_all add: i Repo_Get_def DB_View_def spec_Get_def spec_resolve_def)
qed


lemma lookup_missing: "names A n = None \<Longrightarrow> spec_Get A \<lparr>tag = TagName, raw = n\<rparr> = Err (Sentinel RepoErrNotFound)"
  by (simp add: spec_Get_def spec_resolve_def)

lemma lookup_name:
  assumes "repo_wf A" and "names A n = Some u"
  shows "\<exists>r. spec_Get A \<lparr>tag = TagName, raw = n\<rparr> = Ok r"
  using repo_wf_recs [OF assms] assms(2) by (auto simp: spec_Get_def spec_resolve_def)

lemma Get_name:
  assumes "repo_rel R (content s) A" and "n \<noteq> []"
  shows "Repo_Get R None \<lparr>tag = TagName, raw = n\<rparr> s = spec_Get A \<lparr>tag = TagName, raw = n\<rparr>"
  using assms by (intro Get_refines) (simp_all add: wf_ID_def)

lemma Create_refines:
  assumes rel: "repo_rel R (content s) A" and fresh: "fresh_uid A u"
    and meta: "msg_Meta (repo_msg R) resource = Some m" and n: "meta_Name m \<noteq> []"
    and free: "names A (meta_Name m) = None"
    and marshal: "proto_Marshal (repo_codec R) (created R ul u now1 now2 m resource) = Ok b"
    and decode: "Codec_Decode R b = Ok r"
  shows "\<exists>s'. Repo_Create R ul None u now1 now2 resource s = (Ok (r, created R ul u now1 now2 m resource), s')
           \<and> repo_rel R (content s') (spec_Create A u (meta_Name m) r)
           \<and> (\<forall>k. \<not> owned R k \<longrightarrow> content s' k = content s k)"
proof -
  let ?r = "created R ul u now1 now2 m resource"
  let ?n = "meta_Name m"
  let ?res = "msg_setMeta (repo_msg R) (m\<lparr>meta_Uid := uuid_String ul u, meta_Created := Some now1,
                meta_Updated := Some now2, meta_ResourceVersion := 1\<rparr>) resource"
  let ?body = "Create_body R None \<lparr>tag = TagUID, raw = u\<rparr> \<lparr>tag = TagName, raw = ?n\<rparr> \<lparr>tag = TagIdx, raw = ?n\<rparr> ?res"
  from fresh have len: "length u = 16" by (simp add: fresh_uid_def)
  obtain t where t: "?body (upd_begin (repo_db R) s, s) = (Ok ?r, (t, s))" "tinv s t"
      "tcontent s t = (content s)(uid_key R u \<mapsto> b, idx_key R ?n \<mapsto> uid_value u, name_key R ?n \<mapsto> uid_value u)"
    using txn_Set3_ok [OF begin_inv [of s], of "uid_key R u" b "idx_key R ?n" "uid_value u" "name_key R ?n" "uid_value u" ?r]
      Get_name [OF rel n] lookup_missing [OF free] marshal
    by (auto simp: Create_body_def created_def Let_def begin_content uid_key_def name_key_def idx_key_def uid_value_def)
  obtain s' where s': "DB_Update (repo_db R) None ?body s = (Ok ?r, s')" "content s' = tcontent s t"
    using Update_commits [of ?body s ?r t, OF t(1,2)] by blast
  have rel': "repo_rel R (content s') (spec_Create A u ?n r)"
    using repo_rel_set_name [OF repo_rel_set_idx [OF repo_rel_set_rec [OF rel prefixes decode, of u] prefixes n len] prefixes n len]
    by (simp add: s' t spec_Create_def)
  then have "Repo_getByUID R None \<lparr>tag = TagUID, raw = u\<rparr> s' = Ok r"
    by (simp add: getByUID_refines len spec_Create_def)
  then have "Repo_Create R ul None u now1 now2 resource s = (Ok (r, ?r), s')"
    using s'(1) n len by (simp add: Repo_Create_def meta Let_def keys_UUID_def keys_Name_def keys_Index_def UUIDLen_def)
  moreover have "\<forall>k. \<not> owned R k \<longrightarrow> content s' k = content s k"
    by (auto simp: s' t)
  ultimately show ?thesis using rel' by blast
qed

lemma Create_exists:
  assumes rel: "repo_rel R (content s) A" and wf: "repo_wf A"
    and meta: "msg_Meta (repo_msg R) resource = Some m" and taken: "names A (meta_Name m) = Some v"
  shows "Repo_Create R ul None u now1 now2 resource s = (Err (Sentinel RepoErrIdxExists), s)"
proof -
  have n: "meta_Name m \<noteq> []" using repo_rel_names(3) [OF rel taken] by simp
  obtain r where "Repo_Get R None \<lparr>tag = TagName, raw = meta_Name m\<rparr> s = Ok r"
    using Get_name [OF rel n] lookup_name [OF wf taken] by auto
  then show ?thesis
    using n by (simp add: Repo_Create_def meta Let_def keys_UUID_def keys_Name_def keys_Index_def
        Create_body_def DB_Update_def)
qed

text \<open>An update of one resource, whichever way it is addressed.\<close>

lemma write_resolved:
  assumes rel: "repo_rel R (content s) A" and wf: "wf_ID i"
    and res: "spec_resolve A i = Some u" and ex: "recs A u \<noteq> None"
  shows "\<exists>s'. (if tag i = TagUID then Repo_updateByUID R None i b s
              else if tag i = TagName then Repo_updateByName R None i b s
              else Repo_updateByIdx R None i b s) = (Ok (), s')
            \<and> content s' = (content s)(uid_key R u \<mapsto> b)"
proof -
  obtain tg rw where i: "i = \<lparr>tag = tg, raw = rw\<rparr>" by (cases i)
  from wf consider "tg = TagUID" "length rw = 16" | "tg = TagName" "rw \<noteq> []" | "tg = TagIdx" "rw \<noteq> []"
    by (auto simp: wf_ID_def i UUIDLen_def)
  then show ?thesis
  proof cases
    case 1
    with res have u: "u = rw" by (simp add: spec_resolve_def i)
    obtain v where "content s (uid_key R u) = Some v"
      using repo_rel_recs [OF rel, of u] ex 1 u by auto
    then show ?thesis
      using 1 u by (simp add: i Repo_updateByUID_def, intro Update_read_write)
        (simp add: txn_Get_ok begin_inv begin_content flip: uid_key_def)
  next
    case 2
    with res have nm: "names A rw = Some u" by (simp add: spec_resolve_def i)
    then show ?thesis
      using 2 repo_rel_names(1,3) [OF rel]
      by (simp add: i Repo_updateByName_def, intro Update_read_write)
        (simp add: txn_Get_ok begin_inv begin_content flip: uid_key_def name_key_def)
  next
    case 3
    with res have nm: "idxs A rw = Some u" by (simp add: spec_resolve_def i)
    then show ?thesis
      using 3 repo_rel_names(2,4) [OF rel]
      by (simp add: i Repo_updateByIdx_def, intro Update_read_write)
        (simp add: txn_Get_ok begin_inv begin_content flip: uid_key_def idx_key_def)
  qed
qed

lemma spec_Get_Ok:
  "spec_Get A i = Ok r \<longleftrightarrow> (\<exists>u. spec_resolve A i = Some u \<and> recs A u = Some r)"
  by (cases "spec_resolve A i") (auto simp: spec_Get_def spec_found_def split: option.splits)

lemma spec_resolve_len:
  "repo_rel R c A \<Longrightarrow> wf_ID i \<Longrightarrow> spec_resolve A i = Some u \<Longrightarrow> length u = 16"
  using repo_rel_names(3,4) [of R c A]
  by (auto simp: spec_resolve_def wf_ID_def UUIDLen_def split: if_splits)

lemma Update_refines:
  assumes rel: "repo_rel R (content s) A" and wf: "wf_ID i"
    and old: "spec_Get A i = Ok old" and om: "msg_Meta (repo_msg R) old = Some em"
    and meta: "msg_Meta (repo_msg R) resource = Some m"
    and r': "r' = msg_setMeta (repo_msg R) (preserve_meta em now m) resource"
    and marshal: "proto_Marshal (repo_codec R) r' = Ok b" and decode: "Codec_Decode R b = Ok r"
  shows "\<exists>s'. Repo_Update R None now i resource s = (Ok (r, r'), s')
           \<and> repo_rel R (content s') (spec_Update A i r)
           \<and> (\<forall>k. \<not> owned R k \<longrightarrow> content s' k = content s k)"
proof -
  obtain u where u: "spec_resolve A i = Some u" "recs A u = Some old"
    using old by (auto simp: spec_Get_Ok)
  let ?A = "A\<lparr>recs := (recs A)(u \<mapsto> r)\<rparr>"
  let ?wr = "if tag i = TagUID then Repo_updateByUID R None i b s
              else if tag i = TagName then Repo_updateByName R None i b s
              else Repo_updateByIdx R None i b s"
  obtain s' where s': "?wr = (Ok (), s')" "content s' = (content s)(uid_key R u \<mapsto> b)"
    using write_resolved [OF rel wf u(1)] u(2) by blast
  have rel': "repo_rel R (content s') ?A"
    using repo_rel_set_rec [OF rel prefixes decode] by (simp add: s')
  have get: "Repo_Get R None i s' = Ok r"
    using Get_refines [OF rel' wf] u by (simp add: spec_Get_def)
  have t: "tag i = TagUID \<or> tag i = TagName \<or> tag i = TagIdx"
    using wf by (auto simp: wf_ID_def)
  have "Update_body R None now i resource (upd_begin (repo_db R) s, s) =
      (Ok (r, r'), (upd_begin (repo_db R) s, s'))"
    using t s'(1) get Get_refines [OF rel wf] old om meta marshal
    by (auto simp: Update_body_def Let_def nested_def Repo_Get_def DB_View_def simp flip: r')
  then have "Repo_Update R None now i resource s = (Ok (r, r'), s')"
    unfolding Repo_Update_def by (rule Update_idle)
  moreover have "\<forall>k. \<not> owned R k \<longrightarrow> content s' k = content s k" by (auto simp: s')
  ultimately show ?thesis using rel' u by (auto simp: spec_Update_def)
qed

lemma Update_missing:
  assumes rel: "repo_rel R (content s) A" and wf: "wf_ID i" and "spec_Get A i = Err e"
  shows "Repo_Update R None now i resource s = (Err e, s)"
  unfolding Repo_Update_def
  using assms(3) Get_refines [OF rel wf] by (intro Update_aborts) (simp add: Update_body_def)

lemma DeleteName_refines:
  assumes rel: "repo_rel R (content s) A" and nm: "names A n = Some u"
  shows "\<exists>s'. Repo_Delete R None \<lparr>tag = TagName, raw = n\<rparr> s = (Ok (), s')
           \<and> repo_rel R (content s') (spec_DeleteName A n)
           \<and> (\<forall>k. \<not> owned R k \<longrightarrow> content s' k = content s k)"
proof -
  from repo_rel_names(3) [OF rel nm] have n: "n \<noteq> []" "length u = 16" by simp_all
  let ?t0 = "upd_begin (repo_db R) s"
  let ?body = "Delete_body R None \<lparr>tag = TagName, raw = n\<rparr>"
  obtain t1 where t1: "txn_Delete (repo_db R) (uid_key R u) (?t0, s) = (Ok (), (t1, s))" "tinv s t1"
      "tcontent s t1 = (content s)(uid_key R u := None)"
    using txn_Delete_ok [OF begin_inv [of s]] by (auto simp: begin_content)
  obtain t2 where t2: "txn_Delete (repo_db R) (name_key R n) (t1, s) = (Ok (), (t2, s))" "tinv s t2"
      "tcontent s t2 = (tcontent s t1)(name_key R n := None)"
    using txn_Delete_ok [OF t1(2)] by blast
  have "?body (?t0, s) = (Ok (), (t2, s))"
    using t1(1) t2(1) n repo_rel_names(1) [OF rel n(1)] nm
    by (simp add: Delete_body_def txn_Get_ok begin_inv begin_content uid_key_def name_key_def)
  then obtain s' where s': "Repo_Delete R None \<lparr>tag = TagName, raw = n\<rparr> s = (Ok (), s')" "content s' = tcontent s t2"
    unfolding Repo_Delete_def using Update_commits [of ?body s "()" t2] t2(2) by blast
  moreover have "repo_rel R (content s') (spec_DeleteName A n)"
    using repo_rel_del_name [OF repo_rel_del_rec [OF rel prefixes, of u] prefixes n(1)] nm
    by (simp add: s' t2 t1 spec_DeleteName_def)
  moreover have "\<forall>k. \<not> owned R k \<longrightarrow> content s' k = content s k" by (auto simp: s' t1 t2)
  ultimately show ?thesis by blast
qed

lemma DeleteName_missing:
  assumes rel: "repo_rel R (content s) A" and "names A n = None" "n \<noteq> []"
  shows "Repo_Delete R None \<lparr>tag = TagName, raw = n\<rparr> s = (Err (Sentinel RepoErrNotFound), s)"
  unfolding Repo_Delete_def using assms(2,3) repo_rel_names(1) [OF rel assms(3)]
  by (intro Update_aborts)
    (simp add: Delete_body_def txn_Get_ok begin_inv begin_content flip: name_key_def)

end

text \<open>What protobuf promises: unmarshalling what was marshalled gives the message back.\<close>

definition codec_roundtrip :: "'a codec \<Rightarrow> bool" where
  "codec_roundtrip cd \<longleftrightarrow> (\<forall>x b. proto_Marshal cd x = Ok b \<longrightarrow> proto_Unmarshal cd b = Ok x)"

text \<open>A uid no key of the store mentions.\<close>

definition uid_unused :: "('a, 's, 'u) Repo \<Rightarrow> (bytes \<Rightarrow> bytes option) \<Rightarrow> bytes \<Rightarrow> bool" where
  "uid_unused R c u \<longleftrightarrow> length u = 16 \<and> c (uid_key R u) = None \<and> (\<forall>n. c (idx_key R n) \<noteq> Some (uid_value u))"

lemma uid_unused_fresh:
  assumes rel: "repo_rel R c A" and "uid_unused R c u"
  shows "fresh_uid A u"
proof -
  from assms have len: "length u = 16" and none: "c (uid_key R u) = None"
    and idx: "\<And>n. c (idx_key R n) \<noteq> Some (uid_value u)" by (simp_all add: uid_unused_def)
  have "recs A u = None" using repo_rel_recs [OF rel len] none by (cases "recs A u") auto
  moreover have "idxs A n \<noteq> Some u" for n
    using idx [of n] repo_rel_names(2,4) [OF rel, of n] by auto
  ultimately show ?thesis using len by (simp add: fresh_uid_def)
qed

text \<open>The store holds a well-formed repository.\<close>

definition repo_inv :: "('a, 's, 'u) Repo \<Rightarrow> (bytes \<Rightarrow> bytes option) \<Rightarrow> bool" where
  "repo_inv R c \<longleftrightarrow> (\<exists>A. repo_rel R c A \<and> repo_wf A)"

lemma repo_inv_empty: "repo_inv R (\<lambda>_. None)"
  unfolding repo_inv_def using repo_rel_empty repo_wf_empty by blast

text \<open>A cancelled context changes nothing.\<close>

lemma Create_cancelled: "snd (Repo_Create R ul (Some e) u now1 now2 resource s) = s"
  by (auto simp: Repo_Create_def Let_def keys_UUID_def keys_Name_def keys_Index_def DB_Update_def
      split: option.splits)

lemma Update_cancelled: "Repo_Update R (Some e) now i resource s = (Err e, s)"
  by (simp add: Repo_Update_def DB_Update_def)

lemma Delete_cancelled: "Repo_Delete R (Some e) i s = (Err e, s)"
  by (simp add: Repo_Delete_def DB_Update_def)

lemma Get_cancelled: "Repo_Get R (Some e) i s = Err e"
  by (simp add: Repo_Get_def DB_View_def)

context repository
begin

text \<open>A resource that cannot be marshalled is not stored.\<close>

lemma Create_unmarshalled:
  assumes rel: "repo_rel R (content s) A" and "msg_Meta (repo_msg R) resource = Some m" and n: "meta_Name m \<noteq> []"
    and free: "names A (meta_Name m) = None"
    and "\<not> is_Ok (proto_Marshal (repo_codec R) (created R ul u now1 now2 m resource))"
  shows "snd (Repo_Create R ul None u now1 now2 resource s) = s
     \<and> \<not> is_Ok (fst (Repo_Create R ul None u now1 now2 resource s))"
  using assms(2,5) n Get_name [OF rel n] lookup_missing [OF free]
  by (cases "proto_Marshal (repo_codec R) (created R ul u now1 now2 m resource)")
    (simp_all add: Repo_Create_def Let_def keys_UUID_def keys_Name_def keys_Index_def DB_Update_def
      Create_body_def created_def)

lemma Update_unmarshalled:
  assumes rel: "repo_rel R (content s) A" and wf: "wf_ID i"
    and old: "spec_Get A i = Ok old" and "msg_Meta (repo_msg R) old = Some em"
    and "msg_Meta (repo_msg R) resource = Some m"
    and r': "r' = msg_setMeta (repo_msg R) (preserve_meta em now m) resource"
    and "\<not> is_Ok (proto_Marshal (repo_codec R) r')"
  shows "snd (Repo_Update R None now i resource s) = s \<and> \<not> is_Ok (fst (Repo_Update R None now i resource s))"
  using assms(4,5,7) Get_refines [OF rel wf] old
  by (cases "proto_Marshal (repo_codec R) r'")
    (simp_all add: Repo_Update_def DB_Update_def Update_body_def Let_def r')

lemma Create_keeps_inv:
  assumes inv: "repo_inv R (content s)" and cd: "codec_roundtrip (repo_codec R)"
    and fresh: "uid_unused R (content s) u"
  shows "repo_inv R (content (snd (Repo_Create R ul ctx u now1 now2 resource s)))"
proof -
  obtain A where A: "repo_rel R (content s) A" "repo_wf A" using inv by (auto simp: repo_inv_def)
  note fr = uid_unused_fresh [OF A(1) fresh]
  let ?out = "Repo_Create R ul ctx u now1 now2 resource s"
  show ?thesis
  proof (cases "ctx \<noteq> None \<or> msg_Meta (repo_msg R) resource = None \<or> snd ?out = s")
    case True
    then have "snd ?out = s"
      by (cases ctx) (auto simp: Create_cancelled Repo_Create_def [of R ul None])
    with inv show ?thesis by simp
  next
    case False
    then obtain m where m: "ctx = None" "msg_Meta (repo_msg R) resource = Some m" "snd ?out \<noteq> s" by auto
    let ?r = "created R ul u now1 now2 m resource"
    have n: "meta_Name m \<noteq> []"
      using m by (auto simp: Repo_Create_def Let_def keys_UUID_def keys_Name_def)
    have free: "names A (meta_Name m) = None"
      using m(1,3) Create_exists [OF A m(2)] by (cases "names A (meta_Name m)") auto
    have "\<exists>b. proto_Marshal (repo_codec R) ?r = Ok b"
      using m(1,3) Create_unmarshalled [OF A(1) m(2) n free, of ul u now1 now2] by (auto simp: is_Ok_iff)
    then obtain b where b: "proto_Marshal (repo_codec R) ?r = Ok b" ..
    with cd have "Codec_Decode R b = Ok ?r" by (simp add: codec_roundtrip_def Codec_Decode_def)
    from Create_refines [OF A(1) fr m(2) n free b this] obtain s' where
      "?out = (Ok (?r, ?r), s')" "repo_rel R (content s') (spec_Create A u (meta_Name m) ?r)"
      using m(1) by blast
    with repo_wf_Create [OF A(2) fr free] show ?thesis by (auto simp: repo_inv_def)
  qed
qed

text \<open>The two outcomes of an update: nothing changed, or the resource was replaced.\<close>

lemma Update_outcome:
  assumes rel: "repo_rel R (content s) A" and cd: "codec_roundtrip (repo_codec R)" and wf: "wf_ID i"
  obtains (failed) "snd (Repo_Update R None now i resource s) = s" "\<not> is_Ok (fst (Repo_Update R None now i resource s))"
  | (stored) old em m s' where "spec_Get A i = Ok old" "msg_Meta (repo_msg R) old = Some em" "msg_Meta (repo_msg R) resource = Some m"
      "Repo_Update R None now i resource s = (Ok (msg_setMeta (repo_msg R) (preserve_meta em now m) resource,
         msg_setMeta (repo_msg R) (preserve_meta em now m) resource), s')"
      "repo_rel R (content s') (spec_Update A i (msg_setMeta (repo_msg R) (preserve_meta em now m) resource))"
      "\<forall>k. \<not> owned R k \<longrightarrow> content s' k = content s k"
proof -
  have get: "Repo_Get R None i s = spec_Get A i" by (rule Get_refines [OF rel wf])
  have "spec_Get A i = Err (Sentinel RepoErrNotFound) \<or> (\<exists>old. spec_Get A i = Ok old)"
    by (cases "Option.bind (spec_resolve A i) (recs A)") (auto simp: spec_Get_def)
  then consider (none) "spec_Get A i = Err (Sentinel RepoErrNotFound)"
    | (nometa) old where "spec_Get A i = Ok old" "msg_Meta (repo_msg R) old = None \<or> msg_Meta (repo_msg R) resource = None"
    | (meta) old em m where "spec_Get A i = Ok old" "msg_Meta (repo_msg R) old = Some em" "msg_Meta (repo_msg R) resource = Some m"
    by fastforce
  then show thesis
  proof cases
    case none
    with Update_missing [OF rel wf none] failed show ?thesis by simp
  next
    case (nometa old)
    then have "snd (Repo_Update R None now i resource s) = s" "\<not> is_Ok (fst (Repo_Update R None now i resource s))"
      using get by (auto simp: Repo_Update_def DB_Update_def Update_body_def split: option.splits)
    then show ?thesis by (rule failed)
  next
    case (meta old em m)
    let ?r' = "msg_setMeta (repo_msg R) (preserve_meta em now m) resource"
    show ?thesis
    proof (cases "is_Ok (proto_Marshal (repo_codec R) ?r')")
      case True
      then obtain b where b: "proto_Marshal (repo_codec R) ?r' = Ok b" by (auto simp: is_Ok_iff)
      with cd have "Codec_Decode R b = Ok ?r'" by (simp add: codec_roundtrip_def Codec_Decode_def)
      from Update_refines [OF rel wf meta refl b this] stored [OF meta] show ?thesis by blast
    next
      case False
      from Update_unmarshalled [OF rel wf meta refl False] failed show ?thesis by blast
    qed
  qed
qed

lemma Update_keeps_inv:
  assumes inv: "repo_inv R (content s)" and cd: "codec_roundtrip (repo_codec R)" and wf: "wf_ID i"
  shows "repo_inv R (content (snd (Repo_Update R ctx now i resource s)))"
proof -
  obtain A where A: "repo_rel R (content s) A" "repo_wf A" using inv by (auto simp: repo_inv_def)
  show ?thesis
  proof (cases ctx)
    case None
    from A(1) cd wf have "repo_inv R (content (snd (Repo_Update R None now i resource s)))"
      by (cases rule: Update_outcome [of s A i now resource]) (use inv repo_wf_Update [OF A(2)] in \<open>auto simp: repo_inv_def\<close>)
    with None show ?thesis by simp
  qed (simp add: Update_cancelled inv)
qed

lemma DeleteName_keeps_inv:
  assumes inv: "repo_inv R (content s)" and "tag i \<noteq> TagUID" "wf_ID i"
  shows "repo_inv R (content (snd (Repo_Delete R ctx i s)))"
proof (cases "ctx = None \<and> tag i = TagName")
  case True
  obtain A where A: "repo_rel R (content s) A" "repo_wf A" using inv by (auto simp: repo_inv_def)
  from True assms(3) obtain n where i: "i = \<lparr>tag = TagName, raw = n\<rparr>" "n \<noteq> []"
    by (cases i) (auto simp: wf_ID_def)
  show ?thesis
  proof (cases "names A n")
    case None
    with DeleteName_missing [OF A(1)] i True inv show ?thesis by simp
  next
    case (Some u)
    with DeleteName_refines [OF A(1) Some] i True repo_wf_DeleteName [OF A(2), of n] show ?thesis
      by (auto simp: repo_inv_def)
  qed
next
  case False
  with assms have "snd (Repo_Delete R ctx i s) = s"
    by (cases ctx) (simp_all add: Delete_cancelled Repo_Delete_def DB_Update_def Delete_body_def)
  with inv show ?thesis by simp
qed

end

text \<open>With a store that can list keys, a resource can also be deleted by its uid.\<close>

locale repository_keys = repository R content tcontent tinv + kv_db_keys "repo_db R" content tcontent tinv
  for R :: "('a, 's, 'u) Repo" and content tcontent tinv
begin

lemma scan_index:
  assumes inv: "tinv s t" and len: "length u = 16"
    and ent: "\<And>k. prefix p k \<Longrightarrow> tcontent s t k \<noteq> None \<Longrightarrow>
       \<exists>n w. k = kf n \<and> ix n = Some w \<and> length w = 16 \<and> tcontent s t k = Some (uid_value w)"
    and idx: "\<And>n w. ix n = Some w \<Longrightarrow> prefix p (kf n) \<and> tcontent s t (kf n) = Some (uid_value w)"
    and inj: "\<And>n n'. ix n = Some u \<Longrightarrow> ix n' = Some u \<Longrightarrow> n = n'"
  shows "\<exists>t'. andThen (upd_Keys (repo_db R) s t p, (t, s))
             (\<lambda>ks st. delete_entry_of (repo_db R) \<lparr>tag = TagUID, raw = u\<rparr> ks st) = (Ok (), (t', s))
          \<and> tinv s t' \<and> tcontent s t' = drop_refs kf ix u (tcontent s t)"
proof -
  obtain ks where ks: "upd_Keys (repo_db R) s t p = Ok ks"
      "set ks = {k. prefix p k \<and> tcontent s t k \<noteq> None}"
    using Keys_content [OF inv] by blast
  have "\<forall>k \<in> set ks. \<exists>w. tcontent s t k = Some (uid_value w) \<and> length w = 16"
  proof
    fix k assume "k \<in> set ks"
    then have "prefix p k" "tcontent s t k \<noteq> None" using ks(2) by simp_all
    from ent [OF this] show "\<exists>w. tcontent s t k = Some (uid_value w) \<and> length w = 16" by blast
  qed
  from delete_entry_of_ok [OF inv len this] obtain t' where t':
      "delete_entry_of (repo_db R) \<lparr>tag = TagUID, raw = u\<rparr> ks (t, s) = (Ok (), (t', s))" "tinv s t'"
      "tcontent s t' = (case first_ref (tcontent s t) u ks of None \<Rightarrow> tcontent s t
         | Some k \<Rightarrow> (tcontent s t)(k := None))"
    by blast
  have hit: "\<exists>n. k = kf n \<and> ix n = Some u" if "k \<in> set ks" "tcontent s t k = Some (uid_value u)" for k
    using ent [of k] that ks(2) by fastforce
  have "tcontent s t' = drop_refs kf ix u (tcontent s t)"
  proof (cases "first_ref (tcontent s t) u ks")
    case None
    then have "ix n \<noteq> Some u" for n
      using idx [of n u] ks(2) by (auto simp: first_ref_def find_None_iff)
    with None t'(3) show ?thesis by (simp add: drop_refs_def fun_eq_iff)
  next
    case (Some k)
    then have "k \<in> set ks" "tcontent s t k = Some (uid_value u)"
      by (auto simp: first_ref_def find_Some_iff in_set_conv_nth)
    then obtain n where "k = kf n" "ix n = Some u" using hit by blast
    with Some t'(3) inj show ?thesis by (auto simp: drop_refs_def fun_eq_iff)
  qed
  with t' ks(1) show ?thesis by auto
qed

lemma DeleteUID_refines:
  assumes rel: "repo_rel R (content s) A" and wf: "repo_wf A" and len: "length u = 16"
  shows "\<exists>s'. Repo_Delete R None \<lparr>tag = TagUID, raw = u\<rparr> s = (Ok (), s')
           \<and> repo_rel R (content s') (spec_DeleteUID A u)
           \<and> (\<forall>k. \<not> owned R k \<longrightarrow> content s' k = content s k)"
proof -
  let ?t0 = "upd_begin (repo_db R) s"
  let ?id = "\<lparr>tag = TagUID, raw = u\<rparr>"
  let ?body = "Delete_body R None ?id"
  let ?c1 = "drop_refs (name_key R) (names A) u (content s)"
  let ?A1 = "A\<lparr>names := drop_uid u (names A)\<rparr>"
  let ?c2 = "drop_refs (idx_key R) (idxs A) u ?c1"
  have rel0: "repo_rel R (tcontent s ?t0) A" using rel by (simp add: begin_content)
  obtain t1 where t1: "andThen (upd_Keys (repo_db R) s ?t0 (repo_iprefix R), (?t0, s))
        (\<lambda>ks st. delete_entry_of (repo_db R) ?id ks st) = (Ok (), (t1, s))" "tinv s t1" "tcontent s t1 = ?c1"
    using scan_index [OF begin_inv [of s] len, where p = "repo_iprefix R" and kf = "name_key R" and ix = "names A",
        OF repo_rel_name_entries [OF rel0] repo_wf_names_inj [OF wf, of _ u]] unfolding begin_content by blast
  have rel1: "repo_rel R (tcontent s t1) ?A1"
    using repo_rel_drop_names [OF rel prefixes] by (simp add: t1)
  obtain t2 where t2: "andThen (upd_Keys (repo_db R) s t1 (repo_idxprefix R), (t1, s))
        (\<lambda>ks st. delete_entry_of (repo_db R) ?id ks st) = (Ok (), (t2, s))" "tinv s t2" "tcontent s t2 = ?c2"
    using scan_index [OF t1(2) len, where p = "repo_idxprefix R" and kf = "idx_key R" and ix = "idxs A"]
      repo_rel_idx_entries [OF rel1] repo_wf_idxs_inj [OF wf] t1(3) by simp blast
  obtain t3 where t3: "txn_Delete (repo_db R) (uid_key R u) (t2, s) = (Ok (), (t3, s))" "tinv s t3"
      "tcontent s t3 = (tcontent s t2)(uid_key R u := None)"
    using txn_Delete_ok [OF t2(2)] by blast
  have "?body (?t0, s) = (Ok (), (t3, s))"
    using t1(1) t2(1) t3(1)
    by (auto simp: Delete_body_def andThen_eq_Ok uid_key_def)
  then obtain s' where s': "Repo_Delete R None ?id s = (Ok (), s')" "content s' = tcontent s t3"
    unfolding Repo_Delete_def using Update_commits [of ?body s "()" t3] t3(2) by blast
  moreover have "repo_rel R (content s') (spec_DeleteUID A u)"
    using repo_rel_del_rec [OF repo_rel_drop_idxs [OF rel1 prefixes] prefixes]
    by (simp add: s' t3 t2 t1 spec_DeleteUID_def)
  moreover have "\<forall>k. \<not> owned R k \<longrightarrow> content s' k = content s k"
    by (auto simp: s' t3 t2 drop_refs_def)
  ultimately show ?thesis by blast
qed

lemma Delete_keeps_inv:
  assumes inv: "repo_inv R (content s)" and wf: "wf_ID i"
  shows "repo_inv R (content (snd (Repo_Delete R ctx i s)))"
proof (cases "ctx = None \<and> tag i = TagUID")
  case True
  obtain A where A: "repo_rel R (content s) A" "repo_wf A" using inv by (auto simp: repo_inv_def)
  from True wf obtain u where i: "i = \<lparr>tag = TagUID, raw = u\<rparr>" "length u = 16"
    by (cases i) (auto simp: wf_ID_def UUIDLen_def)
  with DeleteUID_refines [OF A i(2)] True repo_wf_DeleteUID [OF A(2), of u] show ?thesis
    by (auto simp: repo_inv_def)
next
  case False
  with DeleteName_keeps_inv [OF inv _ wf] inv show ?thesis
    by (cases ctx) (auto simp: Delete_cancelled)
qed

end

section \<open>Sequences of operations\<close>

text \<open>
  One operation of any client, whatever its outcome; a created resource gets a uid that
  the store does not mention yet, as \<^verbatim>\<open>uuid.New\<close> draws it.
\<close>

inductive repo_step :: "('a, 's, 'u) Repo \<Rightarrow> ('s \<Rightarrow> bytes \<Rightarrow> bytes option) \<Rightarrow> uuid_lib \<Rightarrow> 's \<Rightarrow> 's \<Rightarrow> bool"
  for R content ul where
  step_create: "uid_unused R (content s) u \<Longrightarrow>
     repo_step R content ul s (snd (Repo_Create R ul ctx u now1 now2 resource s))"
| step_update: "wf_ID i \<Longrightarrow> repo_step R content ul s (snd (Repo_Update R ctx now i resource s))"
| step_delete: "wf_ID i \<Longrightarrow> repo_step R content ul s (snd (Repo_Delete R ctx i s))"

inductive_cases repo_stepE: "repo_step R content ul s s'"

inductive repo_reach :: "('a, 's, 'u) Repo \<Rightarrow> ('s \<Rightarrow> bytes \<Rightarrow> bytes option) \<Rightarrow> uuid_lib \<Rightarrow> 's \<Rightarrow> 's \<Rightarrow> bool"
  for R content ul s where
  reach_refl: "repo_reach R content ul s s"
| reach_step: "repo_reach R content ul s t \<Longrightarrow> repo_step R content ul t t' \<Longrightarrow> repo_reach R content ul s t'"

context repository_keys
begin

lemma step_keeps_inv:
  assumes "repo_step R content ul s s'" "repo_inv R (content s)" "codec_roundtrip (repo_codec R)"
  shows "repo_inv R (content s')"
  using assms
  by (elim repo_stepE) (auto intro: Create_keeps_inv Update_keeps_inv Delete_keeps_inv)

lemma reach_keeps_inv:
  assumes "repo_reach R content ul s s'" "repo_inv R (content s)" "codec_roundtrip (repo_codec R)"
  shows "repo_inv R (content s')"
  using assms by (induction rule: repo_reach.induct) (auto intro: step_keeps_inv)

end

end
