(* ===== verification/Resources.thy ===== *)
theory Resources
  imports RepoSpec
begin

text \<open>
  The repositories of the program: how each message type exposes its metadata, its
  specification and its status, and the key prefixes of pkg/repository/repository.go.
  The repository contract is interpreted on the in-memory store and, under badger's
  documented behaviour, on the badger wrapper.
\<close>

section \<open>Message types\<close>

definition Task_msg :: "Task msg" where
  "Task_msg = \<lparr>
     msg_Meta = task_Meta,
     msg_setMeta = (\<lambda>m t. t\<lparr>task_Meta := Some m\<rparr>),
     msg_SpecEqual = SpecEqual (\<lambda>_ _. False) TaskConfig_Equal (Some task_Config),
     msg_EnsureStatus = (\<lambda>t. t\<lparr>task_Status := Some (task_status t)\<rparr>)\<rparr>"

definition Node_msg :: "Node msg" where
  "Node_msg = \<lparr>
     msg_Meta = node_Meta,
     msg_setMeta = (\<lambda>m t. t\<lparr>node_Meta := Some m\<rparr>),
     msg_SpecEqual = SpecEqual (\<lambda>_ _. False) NodeConfig_Equal (Some node_Config),
     msg_EnsureStatus = (\<lambda>t. t\<lparr>node_Status := Some (node_status t)\<rparr>)\<rparr>"

definition vol_status :: "Volume \<Rightarrow> VolStatus" where
  "vol_status v = (case vol_Status v of None \<Rightarrow> empty_VolStatus | Some c \<Rightarrow> c)"

definition Volume_msg :: "Volume msg" where
  "Volume_msg = \<lparr>
     msg_Meta = vol_Meta,
     msg_setMeta = (\<lambda>m t. t\<lparr>vol_Meta := Some m\<rparr>),
     msg_SpecEqual = SpecEqual (\<lambda>_ _. False) VolConfig_Equal (Some vol_Config),
     msg_EnsureStatus = (\<lambda>t. t\<lparr>vol_Status := Some (vol_status t)\<rparr>)\<rparr>"

definition Lease_msg :: "Lease msg" where
  "Lease_msg = \<lparr>
     msg_Meta = lease_Meta,
     msg_setMeta = (\<lambda>m t. t\<lparr>lease_Meta := Some m\<rparr>),
     msg_SpecEqual = SpecEqual (\<lambda>_ _. False) (=) (Some lease_Config),
     msg_EnsureStatus = (\<lambda>t. t\<lparr>lease_Status := Some (lease_status t)\<rparr>)\<rparr>"

text \<open>An event has neither a \<^verbatim>\<open>config\<close> nor a \<^verbatim>\<open>status\<close> field: the whole message is compared.\<close>

definition Meta_Equal :: "Meta \<Rightarrow> Meta \<Rightarrow> bool" where
  "Meta_Equal a b \<longleftrightarrow> map_eq (meta_Labels a) (meta_Labels b) \<and> a\<lparr>meta_Labels := []\<rparr> = b\<lparr>meta_Labels := []\<rparr>"

definition Event_Equal :: "Event \<Rightarrow> Event \<Rightarrow> bool" where
  "Event_Equal a b \<longleftrightarrow> opt_Equal Meta_Equal (ev_Meta a) (ev_Meta b) \<and> a\<lparr>ev_Meta := None\<rparr> = b\<lparr>ev_Meta := None\<rparr>"

definition Event_msg :: "Event msg" where
  "Event_msg = \<lparr>
     msg_Meta = ev_Meta,
     msg_setMeta = (\<lambda>m t. t\<lparr>ev_Meta := Some m\<rparr>),
     msg_SpecEqual = SpecEqual (opt_Equal Event_Equal) (\<lambda>(_::unit) _. False) None,
     msg_EnsureStatus = (\<lambda>t. t)\<rparr>"

section \<open>Repositories\<close>

definition NewTaskRepo :: "('s, 'u) kv \<Rightarrow> Task codec \<Rightarrow> (Task, 's, 'u) Repo" where
  "NewTaskRepo db cd = NewRepo db Task_msg cd ''task/'' ''i/task/'' ''i/idx/task''"

definition NewNodeRepo :: "('s, 'u) kv \<Rightarrow> Node codec \<Rightarrow> (Node, 's, 'u) Repo" where
  "NewNodeRepo db cd = NewRepo db Node_msg cd ''node/'' ''i/node/'' ''i/idx/node''"

definition NewVolumeRepo :: "('s, 'u) kv \<Rightarrow> Volume codec \<Rightarrow> (Volume, 's, 'u) Repo" where
  "NewVolumeRepo db cd = NewRepo db Volume_msg cd ''volume/'' ''i/volume/'' ''i/idx/volume''"

definition NewEventRepo :: "('s, 'u) kv \<Rightarrow> Event codec \<Rightarrow> (Event, 's, 'u) Repo" where
  "NewEventRepo db cd = NewRepo db Event_msg cd ''event/'' ''i/event/'' ''i/idx/event''"

definition NewLeaseRepo :: "('s, 'u) kv \<Rightarrow> Lease codec \<Rightarrow> (Lease, 's, 'u) Repo" where
  "NewLeaseRepo db cd = NewRepo db Lease_msg cd ''lease/'' ''i/lease/'' ''i/idx/lease''"

lemmas new_repo_defs = NewTaskRepo_def NewNodeRepo_def NewVolumeRepo_def NewEventRepo_def NewLeaseRepo_def NewRepo_def
lemmas msg_defs = Task_msg_def Node_msg_def Volume_msg_def Lease_msg_def Event_msg_def

lemma repo_db_simps [simp]:
  "repo_db (NewTaskRepo db c1) = db" "repo_db (NewNodeRepo db c2) = db" "repo_db (NewVolumeRepo db c3) = db"
  "repo_db (NewEventRepo db c4) = db" "repo_db (NewLeaseRepo db c5) = db"
  by (simp_all add: new_repo_defs)

lemma repo_msg_simps [simp]:
  "repo_msg (NewTaskRepo db c1) = Task_msg" "repo_msg (NewNodeRepo db c2) = Node_msg"
  "repo_msg (NewVolumeRepo db c3) = Volume_msg" "repo_msg (NewEventRepo db c4) = Event_msg"
  "repo_msg (NewLeaseRepo db c5) = Lease_msg"
  by (simp_all add: new_repo_defs)

lemma repo_codec_simps [simp]:
  "repo_codec (NewTaskRepo db c1) = c1" "repo_codec (NewNodeRepo db c2) = c2"
  "repo_codec (NewVolumeRepo db c3) = c3" "repo_codec (NewEventRepo db c4) = c4"
  "repo_codec (NewLeaseRepo db c5) = c5"
  by (simp_all add: new_repo_defs)

lemma new_repo_prefixes:
  "repo_prefixes (NewTaskRepo db c1)" "repo_prefixes (NewNodeRepo db c2)" "repo_prefixes (NewVolumeRepo db c3)"
  "repo_prefixes (NewEventRepo db c4)" "repo_prefixes (NewLeaseRepo db c5)"
  by (simp_all add: repo_prefixes_def new_repo_defs parallel_def)

text \<open>The message types differ in nothing but the fields they name.\<close>

lemma msg_Meta_set [simp]:
  "msg_Meta Task_msg (msg_setMeta Task_msg m t) = Some m" "msg_Meta Node_msg (msg_setMeta Node_msg m n) = Some m"
  "msg_Meta Volume_msg (msg_setMeta Volume_msg m v) = Some m" "msg_Meta Lease_msg (msg_setMeta Lease_msg m l) = Some m"
  "msg_Meta Event_msg (msg_setMeta Event_msg m e) = Some m"
  by (simp_all add: msg_defs)

section \<open>The contract on the program's stores\<close>

interpretation mem_tasks: repository "NewTaskRepo inmemory cd" map_of mem_tcontent mem_tinv
  for cd
  by (simp add: repository_def repository_axioms_def mem.kv_db_axioms new_repo_prefixes)

interpretation mem_nodes: repository "NewNodeRepo inmemory cd" map_of mem_tcontent mem_tinv
  for cd
  by (simp add: repository_def repository_axioms_def mem.kv_db_axioms new_repo_prefixes)

interpretation mem_volumes: repository "NewVolumeRepo inmemory cd" map_of mem_tcontent mem_tinv
  for cd
  by (simp add: repository_def repository_axioms_def mem.kv_db_axioms new_repo_prefixes)

interpretation mem_leases: repository "NewLeaseRepo inmemory cd" map_of mem_tcontent mem_tinv
  for cd
  by (simp add: repository_def repository_axioms_def mem.kv_db_axioms new_repo_prefixes)

interpretation mem_events: repository "NewEventRepo inmemory cd" map_of mem_tcontent mem_tinv
  for cd
  by (simp add: repository_def repository_axioms_def mem.kv_db_axioms new_repo_prefixes)

context badger_store
begin

lemma badger_repository_keys:
  assumes "repo_prefixes R" and "repo_db R = badger_DB lib"
  shows "repository_keys R bcontent (\<lambda>s. btcontent) begun"
  using assms bdg.kv_db_keys_axioms bdg.kv_db_axioms
  by (simp add: repository_keys_def repository_def repository_axioms_def)

end

interpretation sb_leases: repository_keys "NewLeaseRepo (badger_DB sample_badger) cd" map_of
  "\<lambda>s t. map_of (fst t)" "\<lambda>s t. \<not> snd t \<longrightarrow> fst t = s"
  for cd
  by (rule sbadger.badger_repository_keys) (simp_all add: new_repo_prefixes)

section \<open>A concrete codec\<close>

text \<open>A codec that knows a fixed table of messages, and one task to create.\<close>

definition table_codec :: "('a \<times> bytes) list \<Rightarrow> 'a codec" where
  "table_codec tb = \<lparr>
     proto_Marshal = (\<lambda>x. case map_of tb x of Some b \<Rightarrow> Ok b | None \<Rightarrow> Err (Foreign ''marshal'')),
     proto_Unmarshal = (\<lambda>b. case map_of (map (\<lambda>(x, y). (y, x)) tb) b of Some x \<Rightarrow> Ok x | None \<Rightarrow> Err (Foreign ''unmarshal''))\<rparr>"

lemma table_codec_roundtrip:
  assumes "distinct (map snd tb)"
  shows "codec_roundtrip (table_codec tb)"
proof -
  have "map_of (map (\<lambda>(x, y). (y, x)) tb) b = Some x" if "map_of tb x = Some b" for x b
  proof (rule map_of_is_SomeI)
    show "distinct (map fst (map (\<lambda>(x, y). (y, x)) tb))"
      using assms by (simp add: case_prod_unfold comp_def)
    show "(b, x) \<in> set (map (\<lambda>(x, y). (y, x)) tb)"
      using map_of_SomeD [OF that] by force
  qed
  then show ?thesis
    by (auto simp: codec_roundtrip_def table_codec_def split: option.splits)
qed

definition sample_meta :: Meta where
  "sample_meta = empty_Meta\<lparr>meta_Name := ''web''\<rparr>"

definition sample_task :: Task where
  "sample_task = \<lparr>task_Version = ''task/v1'', task_Meta = Some sample_meta,
                  task_Config = Some (empty_TaskConfig\<lparr>tc_Image := ''nginx''\<rparr>), task_Status = None\<rparr>"

definition sample_uid :: bytes where
  "sample_uid = ''0123456789abcdef''"

definition created_task :: Task where
  "created_task = sample_task\<lparr>
     task_Meta := Some (sample_meta\<lparr>meta_Uid := sample_uid, meta_Created := Some 7, meta_Updated := Some 8,
                                    meta_ResourceVersion := 1\<rparr>),
     task_Status := Some empty_TaskStatus\<rparr>"

definition updated_task :: Task where
  "updated_task = sample_task\<lparr>
     task_Meta := Some (sample_meta\<lparr>meta_Uid := sample_uid, meta_Created := Some 7, meta_Updated := Some 9,
                                    meta_ResourceVersion := 2, meta_Generation := 1\<rparr>)\<rparr>"

definition sample_codec :: "Task codec" where
  "sample_codec = table_codec [(created_task, ''T1''), (updated_task, ''T2'')]"

abbreviation (input) task_repo :: "(Task, mem, updateTxn) Repo" where
  "task_repo \<equiv> NewTaskRepo inmemory sample_codec"

abbreviation (input) empty_repo :: "'a repo_state" where
  "empty_repo \<equiv> \<lparr>recs = (\<lambda>_. None), names = (\<lambda>_. None), idxs = (\<lambda>_. None)\<rparr>"

lemmas sample_defs = sample_meta_def sample_task_def sample_uid_def empty_Meta_def empty_TaskConfig_def
  empty_TaskStatus_def created_task_def updated_task_def

lemma sample_codec_roundtrip: "codec_roundtrip sample_codec"
  unfolding sample_codec_def by (rule table_codec_roundtrip) simp

lemma sample_created:
  "created (NewTaskRepo db sample_codec) sample_uuid sample_uid 7 8 sample_meta sample_task = created_task"
  by (simp add: created_def Task_msg_def SpecEqual_def sample_defs sample_uuid_def task_status_def Let_def)

lemma sample_marshal:
  "proto_Marshal sample_codec created_task = Ok ''T1''" "proto_Marshal sample_codec updated_task = Ok ''T2''"
  by (simp_all add: sample_codec_def table_codec_def created_task_def updated_task_def sample_defs)

section \<open>Properties\<close>

text \<open>
  C1. Creating a resource implements the specification: when the name is free and the
  drawn uid unused, \<^verbatim>\<open>Create\<close> returns the stored resource (fresh uid, both timestamps,
  version 1, status present), the store then relates to the abstract repository with
  that resource under the uid and both indexes pointing to it, the invariant holds, and
  no key of another repository changes.
\<close>

theorem repo_create_refines:
  assumes "repository R content tcontent tinv" and "codec_roundtrip (repo_codec R)"
    and "repo_rel R (content s) A" and "repo_wf A" and "uid_unused R (content s) u"
    and "msg_Meta (repo_msg R) resource = Some m" and "meta_Name m \<noteq> []" and "names A (meta_Name m) = None"
    and "proto_Marshal (repo_codec R) (created R ul u now1 now2 m resource) = Ok b"
  shows "\<exists>s'. Repo_Create R ul None u now1 now2 resource s =
            (Ok (created R ul u now1 now2 m resource, created R ul u now1 now2 m resource), s')
      \<and> repo_rel R (content s') (spec_Create A u (meta_Name m) (created R ul u now1 now2 m resource))
      \<and> repo_wf (spec_Create A u (meta_Name m) (created R ul u now1 now2 m resource))
      \<and> (\<forall>k. \<not> owned R k \<longrightarrow> content s' k = content s k)"
proof -
  have fr: "fresh_uid A u" using uid_unused_fresh assms(3,5) .
  have "Codec_Decode R b = Ok (created R ul u now1 now2 m resource)"
    using assms(2,9) by (simp add: codec_roundtrip_def Codec_Decode_def)
  from repository.Create_refines [OF assms(1,3) fr assms(6-9) this] repo_wf_Create [OF assms(4) fr assms(8)]
  show ?thesis by blast
qed

lemma sample_unused: "uid_unused R (map_of []) sample_uid"
  by (simp add: uid_unused_def sample_uid_def)

theorem repo_create_refines_witness:
  "\<exists>s'. Repo_Create task_repo sample_uuid None sample_uid 7 8 sample_task [] = (Ok (created_task, created_task), s')
      \<and> repo_rel task_repo (map_of s') (spec_Create empty_repo sample_uid ''web'' created_task)"
proof -
  have rel: "repo_rel task_repo (map_of []) empty_repo"
    using repo_rel_empty [of task_repo] by (simp add: fun_eq_iff)
  have n: "meta_Name sample_meta = ''web''" by (simp add: sample_meta_def)
  show ?thesis
    using repo_create_refines [OF mem_tasks.repository_axioms [of sample_codec], of "[]" empty_repo sample_uid
        sample_task sample_meta sample_uuid 7 8 "''T1''"]
      rel sample_codec_roundtrip sample_unused [of task_repo]
    by (simp add: sample_created sample_marshal repo_wf_empty n) (auto simp: Task_msg_def sample_task_def)
qed

text \<open>
  C2. A name is taken once: creating a resource under a name that the repository already
  has fails with \<^verbatim>\<open>ErrIdxExists\<close> and leaves the store as it was.
\<close>

theorem repo_create_duplicate:
  assumes "repository R content tcontent tinv"
    and "repo_rel R (content s) A" and "repo_wf A"
    and "msg_Meta (repo_msg R) resource = Some m" and "names A (meta_Name m) = Some v"
  shows "Repo_Create R ul None u now1 now2 resource s = (Err (Sentinel RepoErrIdxExists), s)"
  using repository.Create_exists [OF assms] .

text \<open>The store after one create, as the witnesses use it.\<close>

definition one_task :: mem where
  "one_task = [(uid_key task_repo sample_uid, ''T1''), (idx_key task_repo ''web'', uid_value sample_uid),
               (name_key task_repo ''web'', uid_value sample_uid)]"

definition one_state :: "Task repo_state" where
  "one_state = spec_Create empty_repo sample_uid ''web'' created_task"

lemma one_task_rel: "repo_rel task_repo (map_of one_task) one_state" "repo_wf one_state"
  unfolding one_task_def one_state_def
  by (rule single_rel; simp add: new_repo_prefixes Codec_Decode_def sample_codec_def table_codec_def sample_uid_def) (rule single_wf, simp add: sample_uid_def)

theorem repo_create_duplicate_witness:
  "Repo_Create task_repo sample_uuid None ''fedcba9876543210'' 1 2 sample_task one_task =
     (Err (Sentinel RepoErrIdxExists), one_task)"
proof -
  have taken: "names one_state (meta_Name sample_meta) = Some sample_uid"
    by (simp add: one_state_def spec_Create_def sample_meta_def)
  have meta: "msg_Meta (repo_msg task_repo) sample_task = Some sample_meta"
    by (simp add: Task_msg_def sample_task_def)
  show ?thesis
    by (rule repo_create_duplicate [OF mem_tasks.repository_axioms one_task_rel meta taken])
qed

text \<open>
  C3. Reads agree with the specification: by uid, by name and by index, \<^verbatim>\<open>Get\<close> returns
  the resource the abstract repository holds under that identifier, and
  \<^verbatim>\<open>ErrNotFound\<close> exactly when it holds none.
\<close>

theorem repo_get_refines:
  assumes "repository R content tcontent tinv" and "repo_rel R (content s) A" and "wf_ID i"
  shows "Repo_Get R None i s = spec_Get A i"
  using repository.Get_refines [OF assms] .

theorem repo_get_refines_witness:
  "Repo_Get task_repo None \<lparr>tag = TagName, raw = ''web''\<rparr> one_task = Ok created_task
   \<and> Repo_Get task_repo None \<lparr>tag = TagName, raw = ''db''\<rparr> one_task = Err (Sentinel RepoErrNotFound)"
  by (simp add: repo_get_refines [OF mem_tasks.repository_axioms one_task_rel(1)] wf_ID_def
      spec_Get_def spec_resolve_def one_state_def spec_Create_def)

text \<open>
  C4. An update replaces the one resource the identifier resolves to, keeps its uid and
  creation time, stamps the update time, raises resource version and generation by one
  (modulo 2 to the 64), and touches neither the indexes nor another repository's keys.
\<close>

theorem repo_update_refines:
  assumes "repository R content tcontent tinv" and "codec_roundtrip (repo_codec R)"
    and "repo_rel R (content s) A" and "repo_wf A" and "wf_ID i"
    and "spec_Get A i = Ok old" and "msg_Meta (repo_msg R) old = Some em"
    and "msg_Meta (repo_msg R) resource = Some m"
    and "r = msg_setMeta (repo_msg R) (m\<lparr>meta_Uid := meta_Uid em, meta_Created := meta_Created em,
               meta_Updated := Some now, meta_ResourceVersion := meta_ResourceVersion em + 1,
               meta_Generation := meta_Generation em + 1\<rparr>) resource"
    and "proto_Marshal (repo_codec R) r = Ok b"
  shows "\<exists>s'. Repo_Update R None now i resource s = (Ok (r, r), s')
      \<and> repo_rel R (content s') (spec_Update A i r) \<and> repo_wf (spec_Update A i r)
      \<and> (\<forall>k. \<not> owned R k \<longrightarrow> content s' k = content s k)"
proof -
  have "Codec_Decode R b = Ok r"
    using assms(2,10) by (simp add: codec_roundtrip_def Codec_Decode_def)
  moreover have "r = msg_setMeta (repo_msg R) (preserve_meta em now m) resource"
    using assms(9) by (simp add: preserve_meta_def)
  ultimately show ?thesis
    using repository.Update_refines [OF assms(1,3,5-8) _ assms(10)] repo_wf_Update [OF assms(4)] by blast
qed

theorem repo_update_refines_witness:
  "\<exists>s'. Repo_Update task_repo None 9 \<lparr>tag = TagName, raw = ''web''\<rparr> sample_task one_task
          = (Ok (updated_task, updated_task), s')
      \<and> repo_rel task_repo (map_of s') (spec_Update one_state \<lparr>tag = TagName, raw = ''web''\<rparr> updated_task)"
proof -
  have old: "spec_Get one_state \<lparr>tag = TagName, raw = ''web''\<rparr> = Ok created_task"
    by (simp add: spec_Get_def spec_resolve_def one_state_def spec_Create_def)
  have r: "updated_task = msg_setMeta Task_msg (sample_meta\<lparr>meta_Uid := sample_uid, meta_Created := Some 7,
      meta_Updated := Some 9, meta_ResourceVersion := 1 + 1, meta_Generation := 0 + 1\<rparr>) sample_task"
    by (simp add: Task_msg_def updated_task_def)
  show ?thesis
    using repo_update_refines [OF mem_tasks.repository_axioms _ one_task_rel _ old, of _ sample_task sample_meta
        updated_task 9 "''T2''"] sample_codec_roundtrip sample_marshal(2) r
    by (simp add: wf_ID_def) (auto simp: Task_msg_def created_task_def sample_task_def sample_meta_def empty_Meta_def)
qed


definition sample_lease :: Lease where
  "sample_lease = \<lparr>lease_Version = ''lease/v1'', lease_Meta = Some sample_meta, lease_Config = None, lease_Status = None\<rparr>"

abbreviation (input) lease_repo :: "(Lease, mem, mem \<times> bool) Repo" where
  "lease_repo \<equiv> NewLeaseRepo (badger_DB sample_badger) (table_codec [(sample_lease, ''L'')])"

definition one_lease :: mem where
  "one_lease = [(uid_key lease_repo sample_uid, ''L''), (idx_key lease_repo ''web'', uid_value sample_uid),
                (name_key lease_repo ''web'', uid_value sample_uid)]"

lemma one_lease_rel:
  "repo_rel lease_repo (map_of one_lease) (spec_Create empty_repo sample_uid ''web'' sample_lease)"
  "repo_wf (spec_Create empty_repo sample_uid ''web'' sample_lease)"
  unfolding one_lease_def
  by (rule single_rel; simp add: new_repo_prefixes Codec_Decode_def table_codec_def sample_uid_def) (rule single_wf, simp add: sample_uid_def)


text \<open>
  Deleting by name removes the resource and its name entry, so that neither the name
  nor the uid finds it; the entry of the second index stays in the store and points to a
  uid that no longer exists.
\<close>

theorem repo_delete_name:
  assumes "repository R content tcontent tinv"
    and "repo_rel R (content s) A" and "repo_wf A" and "names A n = Some u"
  shows "\<exists>s'. Repo_Delete R None \<lparr>tag = TagName, raw = n\<rparr> s = (Ok (), s')
      \<and> repo_rel R (content s') (spec_DeleteName A n) \<and> repo_wf (spec_DeleteName A n)
      \<and> content s' (idx_key R n) = Some (uid_value u) \<and> content s' (uid_key R u) = None
      \<and> content s' (name_key R n) = None"
proof -
  obtain s' where s': "Repo_Delete R None \<lparr>tag = TagName, raw = n\<rparr> s = (Ok (), s')"
      "repo_rel R (content s') (spec_DeleteName A n)"
    using repository.DeleteName_refines [OF assms(1,2,4)] by blast
  have n: "n \<noteq> []" "length u = 16" using repo_rel_names(3) [OF assms(2,4)] by simp_all
  have "idxs A n = Some u" using repo_wf_recs [OF assms(3,4)] by simp
  then have "content s' (idx_key R n) = Some (uid_value u)" "content s' (uid_key R u) = None"
      "content s' (name_key R n) = None"
    using repo_rel_names(1,2) [OF s'(2) n(1)] repo_rel_recs [OF s'(2) n(2)] assms(4)
    by (simp_all add: spec_DeleteName_def)
  with s' repo_wf_DeleteName [OF assms(3)] show ?thesis by blast
qed

theorem repo_delete_name_witness:
  "\<exists>s'. Repo_Delete task_repo None \<lparr>tag = TagName, raw = ''web''\<rparr> one_task = (Ok (), s')
      \<and> map_of s' (idx_key task_repo ''web'') = Some (uid_value sample_uid)"
proof -
  have "names one_state ''web'' = Some sample_uid" by (simp add: one_state_def spec_Create_def)
  from repo_delete_name [OF mem_tasks.repository_axioms one_task_rel this] show ?thesis by blast
qed



text \<open>
  The repositories can share one store: no key belongs to two of them.
\<close>

theorem repo_keys_isolated:
  "length (filter id [owned (NewTaskRepo db c1) k, owned (NewNodeRepo db c2) k, owned (NewVolumeRepo db c3) k,
                      owned (NewEventRepo db c4) k, owned (NewLeaseRepo db c5) k]) \<le> 1"
proof -
  have pairs:
    "\<not> (owned (NewTaskRepo db c1) k \<and> owned (NewNodeRepo db c2) k)"
    "\<not> (owned (NewTaskRepo db c1) k \<and> owned (NewVolumeRepo db c3) k)"
    "\<not> (owned (NewTaskRepo db c1) k \<and> owned (NewEventRepo db c4) k)"
    "\<not> (owned (NewTaskRepo db c1) k \<and> owned (NewLeaseRepo db c5) k)"
    "\<not> (owned (NewNodeRepo db c2) k \<and> owned (NewVolumeRepo db c3) k)"
    "\<not> (owned (NewNodeRepo db c2) k \<and> owned (NewEventRepo db c4) k)"
    "\<not> (owned (NewNodeRepo db c2) k \<and> owned (NewLeaseRepo db c5) k)"
    "\<not> (owned (NewVolumeRepo db c3) k \<and> owned (NewEventRepo db c4) k)"
    "\<not> (owned (NewVolumeRepo db c3) k \<and> owned (NewLeaseRepo db c5) k)"
    "\<not> (owned (NewEventRepo db c4) k \<and> owned (NewLeaseRepo db c5) k)"
    by (auto simp: owned_def new_repo_defs prefix_def)
  then show ?thesis by auto
qed

end
