(* ===== verification/LeaseManager.thy ===== *)
theory LeaseManager
  imports Resources
begin

text \<open>
  Task leases: internal/infra/lease_manager.go and lease_secret.go.

  The manager keeps one lease per task in the lease repository, found through the index
  on the task's uid. A lease names its holder, expires, carries a fencing token that
  grows with every acquisition, and stores the HMAC of the secret token its holder got.
  Each call holds the manager's mutex, so calls are sequential steps on the store.

  What a call draws from outside (the clock, random bytes, a fresh uuid) is the record
  \<open>env\<close>. SHA-256 is the parameter \<open>sha_hmac\<close>; base64 is written out.
\<close>

section \<open>Tokens\<close>

definition encodeURL :: string where
  "encodeURL = ''ABCDEFGHIJKLMNOPQRSTUVWXYZabcdefghijklmnopqrstuvwxyz0123456789-_''"

definition base64url :: "int \<Rightarrow> char" where
  "base64url n = encodeURL ! nat (n mod 64)"

text \<open>\<^verbatim>\<open>base64.RawURLEncoding\<close>: three bytes give four characters, no padding at the end.\<close>

fun RawURLEncoding :: "bytes \<Rightarrow> string" where
  "RawURLEncoding (a # b # c # rest) =
     (let n = of_char a * 65536 + of_char b * 256 + of_char c
      in base64url (n div 262144) # base64url (n div 4096) # base64url (n div 64) # base64url n
         # RawURLEncoding rest)"
| "RawURLEncoding [a, b] =
     (let n = of_char a * 65536 + of_char b * 256
      in [base64url (n div 262144), base64url (n div 4096), base64url (n div 64)])"
| "RawURLEncoding [a] =
     (let n = of_char a * 65536 in [base64url (n div 262144), base64url (n div 4096)])"
| "RawURLEncoding [] = []"

type_synonym hmac = "bytes \<Rightarrow> bytes \<Rightarrow> bytes"

definition GenerateHMAC :: "hmac \<Rightarrow> bytes \<Rightarrow> bytes \<Rightarrow> string res" where
  "GenerateHMAC sha_hmac message secret = Ok (RawURLEncoding (sha_hmac secret message))"

text \<open>\<^verbatim>\<open>rand.Read\<close> fills the 64 bytes or fails.\<close>

definition GenerateToken :: "bytes res \<Rightarrow> string res" where
  "GenerateToken rnd = bindR rnd (\<lambda>data. Ok (RawURLEncoding data))"

definition ValidateHMAC :: "hmac \<Rightarrow> bytes \<Rightarrow> bytes \<Rightarrow> bytes \<Rightarrow> bool res" where
  "ValidateHMAC sha_hmac message expectedHash secret =
     bindR (GenerateHMAC sha_hmac message secret) (\<lambda>h. Ok (h = expectedHash))"

section \<open>The manager\<close>

record ('s, 'u) LeaseManager =
  lm_db :: "(Lease, 's, 'u) Repo"
  lm_TTL :: uint32
  lm_Key :: bytes

record env =
  env_now :: instant
  env_rand :: "bytes res"
  env_uuid :: bytes
  env_t1 :: instant
  env_t2 :: instant

record libs =
  lib_errs :: ext_errs
  lib_uuid :: uuid_lib
  lib_hmac :: hmac

definition NewLeaseManager :: "(Lease, 's, 'u) Repo \<Rightarrow> ('s, 'u) LeaseManager" where
  "NewLeaseManager repo = \<lparr>lm_db = repo, lm_TTL = 60, lm_Key = []\<rparr>"

definition ttl_duration :: "('s, 'u) LeaseManager \<Rightarrow> int" where
  "ttl_duration m = uint (lm_TTL m) * second"

definition new_lease :: "string \<Rightarrow> string \<Rightarrow> instant \<Rightarrow> instant \<Rightarrow> uint32 \<Rightarrow> string \<Rightarrow> Lease" where
  "new_lease resource holder now expires ttl tokenHash =
     \<lparr>lease_Version = ''lease/v1'',
      lease_Meta = Some (empty_Meta\<lparr>meta_Name := resource, meta_ResourceVersion := 1, meta_Generation := 1\<rparr>),
      lease_Config = Some \<lparr>lc_TaskId = resource, lc_NodeId = holder, lc_AcquiredAt = Some now,
                           lc_RenewTime = Some now, lc_ExpiresAt = Some expires, lc_TtlSeconds = ttl,
                           lc_FencingToken = 1\<rparr>,
      lease_Status = Some \<lparr>ls_TokenHash = tokenHash\<rparr>\<rparr>"

definition LeaseManager_List :: "('s, 'u) LeaseManager \<Rightarrow> ctx \<Rightarrow> 's \<Rightarrow> Lease list res" where
  "LeaseManager_List m ctx s = Repo_List (lm_db m) ctx 0 s"

text \<open>Writing through \<^verbatim>\<open>GetConfig()\<close> or \<^verbatim>\<open>GetStatus()\<close> of a lease without them panics.\<close>

definition take_lease :: "string \<Rightarrow> instant \<Rightarrow> instant \<Rightarrow> string \<Rightarrow> Lease \<Rightarrow> Lease res" where
  "take_lease holder now expires tokenHash cur =
     (case (lease_Config cur, lease_Status cur) of
        (Some c, Some st) \<Rightarrow>
          Ok (cur\<lparr>lease_Config := Some (c\<lparr>lc_FencingToken := lc_FencingToken c + 1, lc_RenewTime := Some now,
                      lc_AcquiredAt := Some now, lc_ExpiresAt := Some expires, lc_NodeId := holder\<rparr>),
                  lease_Status := Some (st\<lparr>ls_TokenHash := tokenHash\<rparr>)\<rparr>)
      | _ \<Rightarrow> Panic ''nil pointer dereference'')"

definition LeaseManager_Acquire ::
  "libs \<Rightarrow> ('s, 'u) LeaseManager \<Rightarrow> ctx \<Rightarrow> env \<Rightarrow> string \<Rightarrow> string \<Rightarrow> int \<Rightarrow> 's \<Rightarrow> (Lease \<times> string) res \<times> 's"
where
  "LeaseManager_Acquire L m ctx env resource holder ttl s =
     (case ctx of
        Some e \<Rightarrow> (Err e, s)
      | None \<Rightarrow>
        if holder = [] then (Err (Sentinel DomErrInvalidHolder), s)
        else if ttl \<le> 0 then (Err (Sentinel DomErrInvalidTTL), s)
        else
        andThen (keys_Index resource, s) (\<lambda>uid s.
        let now = env_now env; expires = now + ttl_duration m in
        (case Repo_Get (lm_db m) ctx uid s of
           Panic p \<Rightarrow> (Panic p, s)
         | Err err \<Rightarrow>
             if IsNotFound (lib_errs L) (Some err) then
               andThen (GenerateToken (env_rand env), s) (\<lambda>token s.
               andThen (GenerateHMAC (lib_hmac L) token (lm_Key m), s) (\<lambda>tokenHash s.
               andThen (Repo_Create (lm_db m) (lib_uuid L) ctx (env_uuid env) (env_t1 env) (env_t2 env)
                          (new_lease resource holder now expires (lm_TTL m) tokenHash) s) (\<lambda>res s.
               (Ok (fst res, token), s))))
             else (Err err, s)
         | Ok cur \<Rightarrow>
             if \<not> AsTime (lc_ExpiresAt (lease_config cur)) > now \<or> lc_NodeId (lease_config cur) = holder then
               andThen (GenerateToken (env_rand env), s) (\<lambda>token s.
               andThen (GenerateHMAC (lib_hmac L) token (lm_Key m), s) (\<lambda>tokenHash s.
               andThen (take_lease holder now expires tokenHash cur, s) (\<lambda>cur s.
               andThen (Repo_Update (lm_db m) ctx (env_t1 env) uid cur s) (\<lambda>res s.
               (Ok (fst res, token), s)))))
             else (Err (Sentinel ErrsErrLeaseHeld), s))))"

definition LeaseManager_Get :: "('s, 'u) LeaseManager \<Rightarrow> ctx \<Rightarrow> string \<Rightarrow> 's \<Rightarrow> Lease res" where
  "LeaseManager_Get m ctx resource s =
     (case ctx of
        Some e \<Rightarrow> Err e
      | None \<Rightarrow> bindR (keys_Index resource) (\<lambda>uid. Repo_Get (lm_db m) ctx uid s))"

definition LeaseManager_release ::
  "libs \<Rightarrow> ('s, 'u) LeaseManager \<Rightarrow> ctx \<Rightarrow> string \<Rightarrow> string \<Rightarrow> string \<Rightarrow> bool \<Rightarrow> 's \<Rightarrow> unit res \<times> 's"
where
  "LeaseManager_release L m ctx resource holder token force s =
     (case ctx of
        Some e \<Rightarrow> (Err e, s)
      | None \<Rightarrow>
        if holder = [] then (Err (Sentinel DomErrInvalidHolder), s)
        else
        andThen (keys_Index resource, s) (\<lambda>uid s.
        andThen (Repo_Get (lm_db m) ctx uid s, s) (\<lambda>cur s.
        andThen (if force then (Ok (), s)
                 else andThen (ValidateHMAC (lib_hmac L) token (ls_TokenHash (lease_status cur)) (lm_Key m), s) (\<lambda>valid s.
                      if \<not> valid then (Err (Sentinel DomErrInvalidToken), s)
                      else if lc_NodeId (lease_config cur) \<noteq> holder then (Err (Sentinel DomErrNotHolder), s)
                      else (Ok (), s))) (\<lambda>_ s.
        andThen (keys_ParseStr (lib_uuid L) (meta_Uid (getMeta (lease_Meta cur))), s) (\<lambda>uid s.
        Repo_Delete (lm_db m) ctx uid s)))))"

definition LeaseManager_Release ::
  "libs \<Rightarrow> ('s, 'u) LeaseManager \<Rightarrow> ctx \<Rightarrow> string \<Rightarrow> string \<Rightarrow> string \<Rightarrow> 's \<Rightarrow> unit res \<times> 's"
where
  "LeaseManager_Release L m ctx resource holder token s = LeaseManager_release L m ctx resource holder token False s"

definition LeaseManager_Revoke ::
  "libs \<Rightarrow> ('s, 'u) LeaseManager \<Rightarrow> ctx \<Rightarrow> string \<Rightarrow> string \<Rightarrow> 's \<Rightarrow> unit res \<times> 's"
where
  "LeaseManager_Revoke L m ctx resource holder s = LeaseManager_release L m ctx resource holder [] True s"

definition renew_lease :: "instant \<Rightarrow> instant \<Rightarrow> string \<Rightarrow> Lease \<Rightarrow> Lease res" where
  "renew_lease now expires tokenHash cur =
     (case (lease_Config cur, lease_Status cur) of
        (Some c, Some st) \<Rightarrow>
          Ok (cur\<lparr>lease_Config := Some (c\<lparr>lc_RenewTime := Some now, lc_AcquiredAt := Some now,
                      lc_ExpiresAt := Some expires\<rparr>),
                  lease_Status := Some (st\<lparr>ls_TokenHash := tokenHash\<rparr>)\<rparr>)
      | _ \<Rightarrow> Panic ''nil pointer dereference'')"

definition LeaseManager_Renew ::
  "libs \<Rightarrow> ('s, 'u) LeaseManager \<Rightarrow> ctx \<Rightarrow> env \<Rightarrow> string \<Rightarrow> string \<Rightarrow> int \<Rightarrow> string \<Rightarrow> 's \<Rightarrow> (Lease \<times> string) res \<times> 's"
where
  "LeaseManager_Renew L m ctx env resource holder ttl token s =
     (case ctx of
        Some e \<Rightarrow> (Err e, s)
      | None \<Rightarrow>
        if holder = [] then (Err (Sentinel DomErrInvalidHolder), s)
        else if ttl \<le> 0 then (Err (Sentinel DomErrInvalidTTL), s)
        else
        let now = env_now env in
        andThen (uuid_Parse (lib_uuid L) resource, s) (\<lambda>uid s.
        andThen (keys_Index (uuid_String (lib_uuid L) uid), s) (\<lambda>i s.
        andThen (Repo_Get (lm_db m) ctx i s, s) (\<lambda>cur s.
        andThen (ValidateHMAC (lib_hmac L) token (ls_TokenHash (lease_status cur)) (lm_Key m), s) (\<lambda>valid s.
        if \<not> valid then (Err (Sentinel DomErrInvalidToken), s)
        else
        andThen (GenerateToken (env_rand env), s) (\<lambda>newToken s.
        andThen (GenerateHMAC (lib_hmac L) newToken (lm_Key m), s) (\<lambda>tokenHash s.
        let expires = now + ttl_duration m in
        andThen (renew_lease now expires tokenHash cur, s) (\<lambda>cur s.
        andThen (Repo_Update (lm_db m) ctx (env_t1 env) i cur s) (\<lambda>res s.
        (Ok (fst res, newToken), s))))))))))"

definition LeaseManager_IsHolder ::
  "libs \<Rightarrow> ('s, 'u) LeaseManager \<Rightarrow> ctx \<Rightarrow> string \<Rightarrow> string \<Rightarrow> 's \<Rightarrow> bool res"
where
  "LeaseManager_IsHolder L m ctx resourceID holderID s =
     (case LeaseManager_Get m ctx resourceID s of
        Panic p \<Rightarrow> Panic p
      | Err err \<Rightarrow> if IsNotFound (lib_errs L) (Some err) then Ok True else Err err
      | Ok cur \<Rightarrow> Ok (lc_NodeId (lease_config cur) = holderID))"

definition LeaseManager_AssertHolder ::
  "libs \<Rightarrow> ('s, 'u) LeaseManager \<Rightarrow> ctx \<Rightarrow> instant \<Rightarrow> string \<Rightarrow> string \<Rightarrow> 's \<Rightarrow> uint64 res"
where
  "LeaseManager_AssertHolder L m ctx now resourceID holderID s =
     (case ctx of
        Some e \<Rightarrow> Err e
      | None \<Rightarrow>
        if holderID = [] then Err (Sentinel DomErrInvalidHolder)
        else
        bindR (uuid_Parse (lib_uuid L) resourceID) (\<lambda>uid.
        bindR (keys_UUID uid) (\<lambda>i.
        bindR (Repo_Get (lm_db m) ctx i s) (\<lambda>cur.
        if \<not> AsTime (lc_ExpiresAt (lease_config cur)) > now then Err (Sentinel DomErrLeaseExpired)
        else if lc_NodeId (lease_config cur) \<noteq> holderID then Err (Sentinel DomErrNotHolder)
        else Ok (lc_FencingToken (lease_config cur))))))"

end
