(* ===== verification/ServiceBase.thy ===== *)
theory ServiceBase
  imports Exchange LeaseManager
begin

text \<open>
  What the services of internal/app share: their state, the calls on their repository,
  and the event bus they publish on.

  The state of a service is the store its repository keeps and the rest of the world.
  Publishing runs handlers, which may act on both. The services' mutex makes each
  operation one step. Fresh uuids and clock readings come with the call, as \<open>svc_env\<close>.
\<close>

record svc_env =
  sv_uuid :: bytes
  sv_t1 :: instant
  sv_t2 :: instant
  sv_event :: string

definition on_store :: "('s \<Rightarrow> 'a res \<times> 's) \<Rightarrow> 's \<times> 'w \<Rightarrow> 'a res \<times> ('s \<times> 'w)" where
  "on_store f st = (case f (fst st) of (r, s') \<Rightarrow> (r, (s', snd st)))"

definition reading :: "('s \<Rightarrow> 'a res) \<Rightarrow> 's \<times> 'w \<Rightarrow> 'a res \<times> ('s \<times> 'w)" where
  "reading f st = (f (fst st), st)"

lemma on_store_simps [simp]:
  "f s = (r, s') \<Longrightarrow> on_store f (s, w) = (r, (s', w))" "reading g (s, w) = (g s, (s, w))"
  by (simp_all add: on_store_def reading_def)

section \<open>The server's bus\<close>

text \<open>
  In the server the bus is the exchange, whose handlers act on the store and the rest of
  the world; the exchange itself is part of the services' world.
\<close>

definition server_bus :: "('s \<times> (('s \<times> 'w) Exchange \<times> 'w)) bus" where
  "server_bus = \<lparr>
     bus_Publish = (\<lambda>ctx ev (s, (e, w)). case Exchange_Publish ctx ev (e, (s, w)) of (r, (e', (s', w'))) \<Rightarrow> (r, (s', (e', w')))),
     bus_Forward = (\<lambda>ctx ev (s, (e, w)). case Exchange_Forward ctx ev (e, (s, w)) of (r, (e', (s', w'))) \<Rightarrow> (r, (s', (e', w'))))\<rparr>"

interpretation srv: event_bus server_bus
proof
  fix ctx ev and st :: "'s \<times> (('s \<times> 'w) Exchange \<times> 'w)" and err
  obtain s e w where st: "st = (s, (e, w))" by (cases st) auto
  show "fst (bus_Publish server_bus ctx ev st) \<noteq> Err err"
    using ex.Publish_no_error [of ctx ev "(e, (s, w))" err]
    by (auto simp: server_bus_def exchange_bus_def st split: prod.splits)
qed

text \<open>A bus that only records what is published and forwarded.\<close>

definition recording_bus :: "('s \<times> Event list) bus" where
  "recording_bus = \<lparr>bus_Publish = (\<lambda>ctx ev (s, evs). (Ok (), (s, evs @ [ev]))),
                    bus_Forward = (\<lambda>ctx ev (s, evs). (Ok (), (s, evs @ [ev])))\<rparr>"

interpretation rec_bus: event_bus recording_bus
  by unfold_locales (auto simp: recording_bus_def)

section \<open>Field masks\<close>

text \<open>
  One path of the mask: an unset source field is skipped; a write through a nil
  destination, or a read of a nil source, panics.
\<close>

definition copy_field :: "('st \<Rightarrow> 'f option) \<Rightarrow> ('f \<Rightarrow> 'st \<Rightarrow> 'st) \<Rightarrow> 'st option \<Rightarrow> 'st option \<Rightarrow> 'st option res" where
  "copy_field get put dst src =
     (case src of
        None \<Rightarrow> Panic ''nil pointer dereference''
      | Some sv \<Rightarrow>
          (case get sv of
             None \<Rightarrow> Ok dst
           | Some v \<Rightarrow>
               (case dst of
                  None \<Rightarrow> Panic ''nil pointer dereference''
                | Some d \<Rightarrow> Ok (Some (put v d)))))"

definition nonempty :: "'a list \<Rightarrow> 'a list option" where
  "nonempty xs = (if xs = [] then None else Some xs)"

fun apply_paths :: "('st option \<Rightarrow> 'st option \<Rightarrow> string \<Rightarrow> 'st option res) \<Rightarrow> 'st option \<Rightarrow> 'st option \<Rightarrow> string list
    \<Rightarrow> 'st option res" where
  "apply_paths step dst src [] = Ok dst"
| "apply_paths step dst src (p # ps) = bindR (step dst src p) (\<lambda>dst. apply_paths step dst src ps)"

definition unknown_path :: "string \<Rightarrow> error" where
  "unknown_path p = Errorf (''unknown mask path '' @ quoted p)"

text \<open>A field after a masked update: the new one if it is listed and set.\<close>

definition pick :: "bool \<Rightarrow> 'f option \<Rightarrow> 'f option \<Rightarrow> 'f option" where
  "pick listed new old = (if listed \<and> new \<noteq> None then new else old)"

section \<open>Lease guards\<close>

text \<open>The part of the lease manager that the task service asks.\<close>

type_synonym ('s, 'w) lease_guard = "ctx \<Rightarrow> string \<Rightarrow> string \<Rightarrow> 's \<times> 'w \<Rightarrow> bool res"

end
