(* ===== verification/LeaseSafety.thy ===== *)
theory LeaseSafety
  imports LeaseManager
begin

text \<open>
  What the lease manager guarantees, over the abstract lease repository: the outcome of
  each operation, that a lease in force cannot be taken by another holder, and that the
  fencing token grows with every acquisition, along every sequence of operations.
\<close>

section \<open>Leases in the repository\<close>

definition lease_at :: "Lease repo_state \<Rightarrow> string \<Rightarrow> Lease option" where
  "lease_at A r = Option.bind (idxs A r) (recs A)"

text \<open>A stored lease is complete and names the uid it is stored under.\<close>

definition lease_wf :: "uuid_lib \<Rightarrow> Lease repo_state \<Rightarrow> bool" where
  "lease_wf ul A \<longleftrightarrow>
     (\<forall>u l. recs A u = Some l \<longrightarrow> length u = 16 \<and>
        (\<exists>mt c st. lease_Meta l = Some mt \<and> lease_Config l = Some c \<and> lease_Status l = Some st
                 \<and> meta_Uid mt = uuid_String ul u))"

definition leases_ok :: "uuid_lib \<Rightarrow> (Lease, 's, 'u) Repo \<Rightarrow> (bytes \<Rightarrow> bytes option) \<Rightarrow> Lease repo_state \<Rightarrow> bool" where
  "leases_ok ul R c A \<longleftrightarrow> repo_rel R c A \<and> repo_wf A \<and> lease_wf ul A"

abbreviation (input) idx_id :: "string \<Rightarrow> ID" where
  "idx_id r \<equiv> \<lparr>tag = TagIdx, raw = r\<rparr>"

abbreviation expires_at :: "Lease \<Rightarrow> instant" where
  "expires_at l \<equiv> AsTime (lc_ExpiresAt (lease_config l))"

abbreviation holder_of :: "Lease \<Rightarrow> string" where
  "holder_of l \<equiv> lc_NodeId (lease_config l)"

abbreviation fencing :: "Lease \<Rightarrow> uint64" where
  "fencing l \<equiv> lc_FencingToken (lease_config l)"

abbreviation token_hash :: "Lease \<Rightarrow> string" where
  "token_hash l \<equiv> ls_TokenHash (lease_status l)"

lemma spec_Get_lease: "spec_Get A (idx_id r) = spec_found (lease_at A r)"
  by (simp add: spec_Get_def spec_resolve_def lease_at_def)

lemma lease_atE:
  assumes "lease_wf ul A" and "lease_at A r = Some l"
  obtains u mt c st where "idxs A r = Some u" "recs A u = Some l" "length u = 16" "lease_Meta l = Some mt"
    "lease_Config l = Some c" "lease_Status l = Some st" "meta_Uid mt = uuid_String ul u"
proof -
  from assms(2) obtain u where "idxs A r = Some u" "recs A u = Some l"
    by (cases "idxs A r") (auto simp: lease_at_def)
  with assms(1) that show ?thesis unfolding lease_wf_def by blast
qed

lemma lease_at_Update:
  assumes "repo_wf A" and "idxs A r = Some u"
  shows "lease_at (spec_Update A (idx_id r) l) r' = (if r' = r then Some l else lease_at A r')"
  using assms repo_wf_idxs_inj [OF assms(1), of r u r']
  by (cases "idxs A r'") (auto simp: spec_Update_def spec_resolve_def lease_at_def)

lemma lease_at_Create:
  assumes "fresh_uid A u"
  shows "lease_at (spec_Create A u r l) r' = (if r' = r then Some l else lease_at A r')"
  using assms by (cases "idxs A r'") (auto simp: spec_Create_def lease_at_def fresh_uid_def)

lemma lease_at_Delete:
  assumes "repo_wf A" and "idxs A r = Some u"
  shows "lease_at (spec_DeleteUID A u) r' = (if r' = r then None else lease_at A r')"
  using assms repo_wf_idxs_inj [OF assms(1), of r u r']
  by (cases "idxs A r'") (auto simp: spec_DeleteUID_def lease_at_def drop_uid_def)

lemma lease_wf_Update:
  assumes "lease_wf ul A" and "idxs A r = Some u" "length u = 16"
    and "lease_Meta l = Some mt" "meta_Uid mt = uuid_String ul u" "lease_Config l = Some c" "lease_Status l = Some st"
  shows "lease_wf ul (spec_Update A (idx_id r) l)"
  using assms unfolding lease_wf_def by (simp add: spec_Update_def spec_resolve_def)

lemma lease_wf_Create:
  assumes "lease_wf ul A" "length u = 16" "lease_Meta l = Some mt" "meta_Uid mt = uuid_String ul u"
    "lease_Config l = Some c" "lease_Status l = Some st"
  shows "lease_wf ul (spec_Create A u r l)"
  using assms unfolding lease_wf_def by (simp add: spec_Create_def)

lemma lease_wf_Delete: "lease_wf ul A \<Longrightarrow> lease_wf ul (spec_DeleteUID A u)"
  unfolding lease_wf_def by (simp add: spec_DeleteUID_def)

lemma no_lease_no_name:
  assumes "repo_wf A" and "lease_at A r = None"
  shows "names A r = None"
  using assms repo_wf_recs [OF assms(1), of r] by (cases "names A r") (auto simp: lease_at_def)

section \<open>Operations on one lease\<close>

definition hash_of :: "libs \<Rightarrow> ('s, 'u) LeaseManager \<Rightarrow> string \<Rightarrow> string" where
  "hash_of L m token = RawURLEncoding (lib_hmac L (lm_Key m) token)"

lemma GenerateHMAC_hash [simp]: "GenerateHMAC (lib_hmac L) token (lm_Key m) = Ok (hash_of L m token)"
  by (simp add: GenerateHMAC_def hash_of_def)

lemma ValidateHMAC_hash [simp]:
  "ValidateHMAC (lib_hmac L) token h (lm_Key m) = Ok (hash_of L m token = h)"
  by (simp add: ValidateHMAC_def)

text \<open>The lease a first acquisition stores, and what updating stores.\<close>

definition first_lease :: "libs \<Rightarrow> ('s, 'u) LeaseManager \<Rightarrow> env \<Rightarrow> string \<Rightarrow> string \<Rightarrow> string \<Rightarrow> Lease" where
  "first_lease L m env resource holder token =
     (let l = new_lease resource holder (env_now env) (env_now env + ttl_duration m) (lm_TTL m) (hash_of L m token)
      in l\<lparr>lease_Meta := Some (getMeta (lease_Meta l)\<lparr>meta_Uid := uuid_String (lib_uuid L) (env_uuid env),
             meta_Created := Some (env_t1 env), meta_Updated := Some (env_t2 env), meta_ResourceVersion := 1\<rparr>)\<rparr>)"

definition rewritten :: "instant \<Rightarrow> Lease \<Rightarrow> Lease" where
  "rewritten now l = l\<lparr>lease_Meta := Some (preserve_meta (getMeta (lease_Meta l)) now (getMeta (lease_Meta l)))\<rparr>"

text \<open>The lease a holder takes over: the old one with the new holder, times and hash.\<close>

definition taken :: "libs \<Rightarrow> ('s, 'u) LeaseManager \<Rightarrow> env \<Rightarrow> string \<Rightarrow> string \<Rightarrow> Lease \<Rightarrow> Lease" where
  "taken L m env h token cur = rewritten (env_t1 env)
     (cur\<lparr>lease_Config := Some (lease_config cur\<lparr>lc_FencingToken := fencing cur + 1, lc_RenewTime := Some (env_now env),
            lc_AcquiredAt := Some (env_now env), lc_ExpiresAt := Some (env_now env + ttl_duration m), lc_NodeId := h\<rparr>),
          lease_Status := Some \<lparr>ls_TokenHash = hash_of L m token\<rparr>\<rparr>)"

text \<open>The lease after a renewal: new times and a new hash, the holder and the fencing token kept.\<close>

definition renewed :: "libs \<Rightarrow> ('s, 'u) LeaseManager \<Rightarrow> env \<Rightarrow> string \<Rightarrow> Lease \<Rightarrow> Lease" where
  "renewed L m env token cur = rewritten (env_t1 env)
     (cur\<lparr>lease_Config := Some (lease_config cur\<lparr>lc_RenewTime := Some (env_now env),
            lc_AcquiredAt := Some (env_now env), lc_ExpiresAt := Some (env_now env + ttl_duration m)\<rparr>),
          lease_Status := Some \<lparr>ls_TokenHash = hash_of L m token\<rparr>\<rparr>)"

lemma rewritten_simps [simp]:
  "lease_Config (rewritten now l) = lease_Config l" "lease_Status (rewritten now l) = lease_Status l"
  "lease_config (rewritten now l) = lease_config l" "lease_status (rewritten now l) = lease_status l"
  by (simp_all add: rewritten_def lease_config_def lease_status_def)

lemma created_first_lease:
  assumes "repo_msg R = Lease_msg"
    and "l = new_lease resource holder now expires ttl h"
  shows "created R ul u t1 t2 (getMeta (lease_Meta l)) l =
    l\<lparr>lease_Meta := Some (getMeta (lease_Meta l)\<lparr>meta_Uid := uuid_String ul u, meta_Created := Some t1,
        meta_Updated := Some t2, meta_ResourceVersion := 1\<rparr>)\<rparr>"
  by (simp add: created_def assms Lease_msg_def SpecEqual_def new_lease_def lease_status_def Let_def)

locale leases = repository "lm_db m" content tcontent tinv
  for m :: "('s, 'u) LeaseManager" and content tcontent tinv +
  assumes lease_messages: "repo_msg (lm_db m) = Lease_msg"
begin

lemma Get_lease:
  assumes "repo_rel (lm_db m) (content s) A" and "r \<noteq> []"
  shows "Repo_Get (lm_db m) None (idx_id r) s = spec_found (lease_at A r)"
  using Get_refines [OF assms(1), of "idx_id r"] assms(2) by (simp add: wf_ID_def spec_Get_lease)

text \<open>
  Storing a changed lease back under its index: either it cannot be marshalled and
  nothing changes, or it replaces the old lease.
\<close>

lemma write_back:
  assumes ok: "leases_ok ul (lm_db m) (content s) A" and cd: "codec_roundtrip (repo_codec (lm_db m))"
    and r: "r \<noteq> []" and cur: "lease_at A r = Some cur"
    and same: "lease_Meta l = lease_Meta cur" and full: "lease_Config l = Some c" "lease_Status l = Some st"
  shows "(\<exists>s' A'. Repo_Update (lm_db m) None t (idx_id r) l s = (Ok (rewritten t l, rewritten t l), s')
            \<and> is_Ok (proto_Marshal (repo_codec (lm_db m)) (rewritten t l))
            \<and> leases_ok ul (lm_db m) (content s') A'
            \<and> (\<forall>r'. lease_at A' r' = (if r' = r then Some (rewritten t l) else lease_at A r')))
       \<or> (\<not> is_Ok (proto_Marshal (repo_codec (lm_db m)) (rewritten t l))
            \<and> snd (Repo_Update (lm_db m) None t (idx_id r) l s) = s
            \<and> \<not> is_Ok (fst (Repo_Update (lm_db m) None t (idx_id r) l s)))"
proof -
  let ?l = "rewritten t l"
  from ok have rel: "repo_rel (lm_db m) (content s) A" and wf: "repo_wf A" and lwf: "lease_wf ul A"
    by (simp_all add: leases_ok_def)
  obtain u mt where u: "idxs A r = Some u" "recs A u = Some cur" "length u = 16" "lease_Meta cur = Some mt"
      "meta_Uid mt = uuid_String ul u"
    using lease_atE [OF lwf cur] by metis
  have id: "wf_ID (idx_id r)" using r by (simp add: wf_ID_def)
  have old: "spec_Get A (idx_id r) = Ok cur" by (simp add: spec_Get_lease cur)
  have meta: "msg_Meta (repo_msg (lm_db m)) cur = Some mt" "msg_Meta (repo_msg (lm_db m)) l = Some mt"
    using u same by (simp_all add: lease_messages Lease_msg_def)
  have l: "?l = msg_setMeta (repo_msg (lm_db m)) (preserve_meta mt t mt) l"
    using u same by (simp add: lease_messages Lease_msg_def rewritten_def)
  show ?thesis
  proof (cases "proto_Marshal (repo_codec (lm_db m)) ?l")
    case (Ok b)
    with cd have dec: "Codec_Decode (lm_db m) b = Ok ?l" by (simp add: codec_roundtrip_def Codec_Decode_def)
    obtain s' where s': "Repo_Update (lm_db m) None t (idx_id r) l s = (Ok (?l, ?l), s')"
        "repo_rel (lm_db m) (content s') (spec_Update A (idx_id r) ?l)"
      using Update_refines [OF rel id old meta l Ok dec] by blast
    have "lease_wf ul (spec_Update A (idx_id r) ?l)"
      using lease_wf_Update [OF lwf u(1,3), of ?l "preserve_meta mt t mt" c st] u same full
      by (simp add: rewritten_def preserve_meta_def)
    with s'(2) repo_wf_Update [OF wf] have "leases_ok ul (lm_db m) (content s') (spec_Update A (idx_id r) ?l)"
      by (simp add: leases_ok_def)
    with s'(1) Ok lease_at_Update [OF wf u(1)] show ?thesis by auto
  next
    case (Err e)
    with Update_unmarshalled [OF rel id old meta l] show ?thesis by simp
  next
    case (Panic p)
    with Update_unmarshalled [OF rel id old meta l] show ?thesis by simp
  qed
qed

lemma store_back:
  assumes "leases_ok ul (lm_db m) (content s) A" and "codec_roundtrip (repo_codec (lm_db m))"
    and "r \<noteq> []" and "lease_at A r = Some cur"
    and "lease_Meta l = lease_Meta cur" "lease_Config l = Some c" "lease_Status l = Some st"
  shows "(\<exists>s' A'. andThen (Repo_Update (lm_db m) None t (idx_id r) l s) (\<lambda>res s. (Ok (fst res, tok), s))
              = (Ok (rewritten t l, tok), s')
            \<and> is_Ok (proto_Marshal (repo_codec (lm_db m)) (rewritten t l))
            \<and> leases_ok ul (lm_db m) (content s') A'
            \<and> (\<forall>r'. lease_at A' r' = (if r' = r then Some (rewritten t l) else lease_at A r')))
       \<or> (\<not> is_Ok (proto_Marshal (repo_codec (lm_db m)) (rewritten t l))
            \<and> snd (andThen (Repo_Update (lm_db m) None t (idx_id r) l s) (\<lambda>res s. (Ok (fst res, tok), s))) = s)"
proof -
  let ?up = "Repo_Update (lm_db m) None t (idx_id r) l s"
  from write_back [OF assms, of t] show ?thesis
  proof (elim disjE exE conjE)
    fix s' A'
    assume "?up = (Ok (rewritten t l, rewritten t l), s')"
      "is_Ok (proto_Marshal (repo_codec (lm_db m)) (rewritten t l))" "leases_ok ul (lm_db m) (content s') A'"
      "\<forall>r'. lease_at A' r' = (if r' = r then Some (rewritten t l) else lease_at A r')"
    then show ?thesis by (intro disjI1 exI [of _ s'] exI [of _ A']) simp
  next
    assume "\<not> is_Ok (proto_Marshal (repo_codec (lm_db m)) (rewritten t l))" "snd ?up = s" "\<not> is_Ok (fst ?up)"
    then show ?thesis by (simp add: andThen_failed)
  qed
qed

text \<open>Acquiring, case by case.\<close>

lemma Acquire_held:
  assumes "repo_rel (lm_db m) (content s) A" and "r \<noteq> []" "h \<noteq> []" "0 < ttl"
    and "lease_at A r = Some cur" "env_now env < expires_at cur" "holder_of cur \<noteq> h"
  shows "LeaseManager_Acquire L m None env r h ttl s = (Err (Sentinel ErrsErrLeaseHeld), s)"
  using assms Get_lease [OF assms(1,2)] by (simp add: LeaseManager_Acquire_def keys_Index_def)

lemma Acquire_unfold:
  assumes "repo_rel (lm_db m) (content s) A" and "r \<noteq> []" "h \<noteq> []" "0 < ttl"
    and "env_rand env = Ok rnd" and "lease_at A r = Some cur"
    and "\<not> env_now env < expires_at cur \<or> holder_of cur = h"
  shows "LeaseManager_Acquire L m None env r h ttl s =
    andThen (take_lease h (env_now env) (env_now env + ttl_duration m) (hash_of L m (RawURLEncoding rnd)) cur, s)
      (\<lambda>l s. andThen (Repo_Update (lm_db m) None (env_t1 env) (idx_id r) l s)
        (\<lambda>res s. (Ok (fst res, RawURLEncoding rnd), s)))"
  using assms Get_lease [OF assms(1,2)]
  by (auto simp: LeaseManager_Acquire_def keys_Index_def GenerateToken_def Let_def)

lemma Acquire_unfold_free:
  assumes "repo_rel (lm_db m) (content s) A" and "r \<noteq> []" "h \<noteq> []" "0 < ttl"
    and "env_rand env = Ok rnd" and "lease_at A r = None"
  shows "LeaseManager_Acquire L m None env r h ttl s =
    andThen (Repo_Create (lm_db m) (lib_uuid L) None (env_uuid env) (env_t1 env) (env_t2 env)
       (new_lease r h (env_now env) (env_now env + ttl_duration m) (lm_TTL m) (hash_of L m (RawURLEncoding rnd))) s)
      (\<lambda>res s. (Ok (fst res, RawURLEncoding rnd), s))"
  using assms Get_lease [OF assms(1,2)]
  by (simp add: LeaseManager_Acquire_def keys_Index_def GenerateToken_def Let_def)

lemma Acquire_free:
  assumes ok: "leases_ok (lib_uuid L) (lm_db m) (content s) A" and cd: "codec_roundtrip (repo_codec (lm_db m))"
    and args: "r \<noteq> []" "h \<noteq> []" "0 < ttl" and rnd: "env_rand env = Ok rnd"
    and none: "lease_at A r = None" and fresh: "uid_unused (lm_db m) (content s) (env_uuid env)"
    and l: "l = first_lease L m env r h (RawURLEncoding rnd)"
    and b: "proto_Marshal (repo_codec (lm_db m)) l = Ok b"
  shows "\<exists>s' A'. LeaseManager_Acquire L m None env r h ttl s = (Ok (l, RawURLEncoding rnd), s')
     \<and> leases_ok (lib_uuid L) (lm_db m) (content s') A'
     \<and> (\<forall>r'. lease_at A' r' = (if r' = r then Some l else lease_at A r'))"
proof -
  from ok have rel: "repo_rel (lm_db m) (content s) A" and wf: "repo_wf A" and lwf: "lease_wf (lib_uuid L) A"
    by (simp_all add: leases_ok_def)
  let ?n = "new_lease r h (env_now env) (env_now env + ttl_duration m) (lm_TTL m) (hash_of L m (RawURLEncoding rnd))"
  let ?mt = "getMeta (lease_Meta ?n)"
  note fr = uid_unused_fresh [OF rel fresh]
  have len: "length (env_uuid env) = 16" using fr by (simp add: fresh_uid_def)
  have meta: "msg_Meta (repo_msg (lm_db m)) ?n = Some ?mt" "meta_Name ?mt = r"
    by (simp_all add: lease_messages Lease_msg_def new_lease_def empty_Meta_def)
  have cr: "created (lm_db m) (lib_uuid L) (env_uuid env) (env_t1 env) (env_t2 env) ?mt ?n = l"
    unfolding l first_lease_def Let_def by (rule created_first_lease [OF lease_messages refl])
  have dec: "Codec_Decode (lm_db m) b = Ok l" using cd b by (simp add: codec_roundtrip_def Codec_Decode_def)
  obtain s' where s': "Repo_Create (lm_db m) (lib_uuid L) None (env_uuid env) (env_t1 env) (env_t2 env) ?n s = (Ok (l, l), s')"
      "repo_rel (lm_db m) (content s') (spec_Create A (env_uuid env) r l)"
    using Create_refines [OF rel fr meta(1) _ _ _ dec, of "lib_uuid L" "env_t1 env" "env_t2 env"]
      no_lease_no_name [OF wf none] args(1) b meta(2) cr by auto
  have "lease_wf (lib_uuid L) (spec_Create A (env_uuid env) r l)"
    using lease_wf_Create [OF lwf len, of l] by (auto simp: l first_lease_def new_lease_def Let_def)
  with s'(2) repo_wf_Create [OF wf fr no_lease_no_name [OF wf none]]
  have "leases_ok (lib_uuid L) (lm_db m) (content s') (spec_Create A (env_uuid env) r l)"
    by (simp add: leases_ok_def)
  moreover have "LeaseManager_Acquire L m None env r h ttl s = (Ok (l, RawURLEncoding rnd), s')"
    using Acquire_unfold_free [OF rel args rnd none] s'(1) by simp
  ultimately show ?thesis using lease_at_Create [OF fr] by blast
qed

lemma Acquire_free_unmarshalled:
  assumes ok: "leases_ok (lib_uuid L) (lm_db m) (content s) A"
    and args: "r \<noteq> []" "h \<noteq> []" "0 < ttl" and rnd: "env_rand env = Ok rnd" and none: "lease_at A r = None"
    and bad: "\<not> is_Ok (proto_Marshal (repo_codec (lm_db m)) (first_lease L m env r h (RawURLEncoding rnd)))"
  shows "snd (LeaseManager_Acquire L m None env r h ttl s) = s"
proof -
  from ok have rel: "repo_rel (lm_db m) (content s) A" and wf: "repo_wf A" by (simp_all add: leases_ok_def)
  let ?n = "new_lease r h (env_now env) (env_now env + ttl_duration m) (lm_TTL m) (hash_of L m (RawURLEncoding rnd))"
  let ?mt = "getMeta (lease_Meta ?n)"
  have meta: "msg_Meta (repo_msg (lm_db m)) ?n = Some ?mt" "meta_Name ?mt = r"
    by (simp_all add: lease_messages Lease_msg_def new_lease_def empty_Meta_def)
  have "created (lm_db m) (lib_uuid L) (env_uuid env) (env_t1 env) (env_t2 env) ?mt ?n
      = first_lease L m env r h (RawURLEncoding rnd)"
    unfolding first_lease_def Let_def by (rule created_first_lease [OF lease_messages refl])
  with Create_unmarshalled [OF rel meta(1), of "lib_uuid L" "env_uuid env" "env_t1 env" "env_t2 env"]
    no_lease_no_name [OF wf none] args(1) meta(2) bad
  show ?thesis
    using Acquire_unfold_free [OF rel args rnd none] by (simp add: andThen_failed)
qed

text \<open>Both ways of changing a lease store it back; the result is the stored lease.\<close>

lemma Acquire_take:
  assumes ok: "leases_ok (lib_uuid L) (lm_db m) (content s) A" and cd: "codec_roundtrip (repo_codec (lm_db m))"
    and args: "r \<noteq> []" "h \<noteq> []" "0 < ttl" and rnd: "env_rand env = Ok rnd"
    and cur: "lease_at A r = Some cur" and may: "\<not> env_now env < expires_at cur \<or> holder_of cur = h"
    and l: "l = taken L m env h (RawURLEncoding rnd) cur"
  shows "(\<exists>s' A'. LeaseManager_Acquire L m None env r h ttl s = (Ok (l, RawURLEncoding rnd), s')
            \<and> is_Ok (proto_Marshal (repo_codec (lm_db m)) l)
            \<and> leases_ok (lib_uuid L) (lm_db m) (content s') A'
            \<and> (\<forall>r'. lease_at A' r' = (if r' = r then Some l else lease_at A r')))
       \<or> (\<not> is_Ok (proto_Marshal (repo_codec (lm_db m)) l)
            \<and> snd (LeaseManager_Acquire L m None env r h ttl s) = s)"
proof -
  from ok have rel: "repo_rel (lm_db m) (content s) A" and lwf: "lease_wf (lib_uuid L) A"
    by (simp_all add: leases_ok_def)
  obtain c st where full: "lease_Config cur = Some c" "lease_Status cur = Some st"
    using lease_atE [OF lwf cur] by metis
  let ?l = "cur\<lparr>lease_Config := Some (c\<lparr>lc_FencingToken := lc_FencingToken c + 1, lc_RenewTime := Some (env_now env),
            lc_AcquiredAt := Some (env_now env), lc_ExpiresAt := Some (env_now env + ttl_duration m), lc_NodeId := h\<rparr>),
          lease_Status := Some \<lparr>ls_TokenHash = hash_of L m (RawURLEncoding rnd)\<rparr>\<rparr>"
  have lr: "l = rewritten (env_t1 env) ?l" by (simp add: l taken_def full)
  have acq: "LeaseManager_Acquire L m None env r h ttl s =
     andThen (Repo_Update (lm_db m) None (env_t1 env) (idx_id r) ?l s) (\<lambda>res s. (Ok (fst res, RawURLEncoding rnd), s))"
    using Acquire_unfold [OF rel args rnd cur may] full by (cases st) (simp add: take_lease_def)
  show ?thesis
    unfolding acq lr by (rule store_back [OF ok cd args(1) cur]) simp_all
qed

lemma Renew_ok:
  assumes ok: "leases_ok (lib_uuid L) (lm_db m) (content s) A" and cd: "codec_roundtrip (repo_codec (lm_db m))"
    and args: "h \<noteq> []" "0 < ttl" and rnd: "env_rand env = Ok rnd"
    and u: "uuid_Parse (lib_uuid L) r = Ok u" "uuid_String (lib_uuid L) u = r" "r \<noteq> []"
    and cur: "lease_at A r = Some cur" and tok: "hash_of L m token = token_hash cur"
    and l: "l = renewed L m env (RawURLEncoding rnd) cur"
  shows "(\<exists>s' A'. LeaseManager_Renew L m None env r h ttl token s = (Ok (l, RawURLEncoding rnd), s')
            \<and> is_Ok (proto_Marshal (repo_codec (lm_db m)) l)
            \<and> leases_ok (lib_uuid L) (lm_db m) (content s') A'
            \<and> (\<forall>r'. lease_at A' r' = (if r' = r then Some l else lease_at A r')))
       \<or> (\<not> is_Ok (proto_Marshal (repo_codec (lm_db m)) l)
            \<and> snd (LeaseManager_Renew L m None env r h ttl token s) = s)"
proof -
  from ok have rel: "repo_rel (lm_db m) (content s) A" and lwf: "lease_wf (lib_uuid L) A"
    by (simp_all add: leases_ok_def)
  obtain c st where full: "lease_Config cur = Some c" "lease_Status cur = Some st"
    using lease_atE [OF lwf cur] by metis
  let ?l = "cur\<lparr>lease_Config := Some (c\<lparr>lc_RenewTime := Some (env_now env),
            lc_AcquiredAt := Some (env_now env), lc_ExpiresAt := Some (env_now env + ttl_duration m)\<rparr>),
          lease_Status := Some \<lparr>ls_TokenHash = hash_of L m (RawURLEncoding rnd)\<rparr>\<rparr>"
  have lr: "l = rewritten (env_t1 env) ?l" by (simp add: l renewed_def full)
  have ren: "LeaseManager_Renew L m None env r h ttl token s =
     andThen (Repo_Update (lm_db m) None (env_t1 env) (idx_id r) ?l s) (\<lambda>res s. (Ok (fst res, RawURLEncoding rnd), s))"
    using args u rnd tok full cur Get_lease [OF rel u(3)]
    by (cases st) (simp add: LeaseManager_Renew_def keys_Index_def GenerateToken_def renew_lease_def Let_def)
  show ?thesis
    unfolding ren lr by (rule store_back [OF ok cd u(3) cur]) simp_all
qed

lemma Renew_bad_token:
  assumes "repo_rel (lm_db m) (content s) A" and "h \<noteq> []" "0 < ttl"
    and "uuid_Parse (lib_uuid L) r = Ok u" "uuid_String (lib_uuid L) u = r" "r \<noteq> []"
    and "lease_at A r = Some cur" and "hash_of L m token \<noteq> token_hash cur"
  shows "LeaseManager_Renew L m None env r h ttl token s = (Err (Sentinel DomErrInvalidToken), s)"
  using assms Get_lease [OF assms(1,6)] by (simp add: LeaseManager_Renew_def keys_Index_def Let_def)

lemma release_rejected:
  assumes "repo_rel (lm_db m) (content s) A" and "r \<noteq> []" "h \<noteq> []" and "lease_at A r = Some cur"
    and "hash_of L m token \<noteq> token_hash cur \<or> holder_of cur \<noteq> h"
  shows "LeaseManager_Release L m None r h token s =
    (Err (Sentinel (if hash_of L m token = token_hash cur then DomErrNotHolder else DomErrInvalidToken)), s)"
  using assms Get_lease [OF assms(1,2)]
  by (auto simp: LeaseManager_Release_def LeaseManager_release_def keys_Index_def)

lemma release_missing:
  assumes "repo_rel (lm_db m) (content s) A" and "r \<noteq> []" "h \<noteq> []" and "lease_at A r = None"
  shows "LeaseManager_release L m None r h token force s = (Err (Sentinel RepoErrNotFound), s)"
  using assms Get_lease [OF assms(1,2)]
  by (auto simp: LeaseManager_release_def keys_Index_def)

end

text \<open>Removing a lease needs a store that can list its keys.\<close>

locale leases_keys = leases m content tcontent tinv + repository_keys "lm_db m" content tcontent tinv
  for m :: "('s, 'u) LeaseManager" and content tcontent tinv
begin

lemma release_ok:
  assumes ok: "leases_ok (lib_uuid L) (lm_db m) (content s) A" and doc: "uuid_documented (lib_uuid L)"
    and args: "r \<noteq> []" "h \<noteq> []" and cur: "lease_at A r = Some cur"
    and may: "force \<or> hash_of L m token = token_hash cur \<and> holder_of cur = h"
  shows "\<exists>s' A'. LeaseManager_release L m None r h token force s = (Ok (), s')
     \<and> leases_ok (lib_uuid L) (lm_db m) (content s') A'
     \<and> (\<forall>r'. lease_at A' r' = (if r' = r then None else lease_at A r'))
     \<and> (\<forall>k. \<not> owned (lm_db m) k \<longrightarrow> content s' k = content s k)"
proof -
  from ok have rel: "repo_rel (lm_db m) (content s) A" and wf: "repo_wf A" and lwf: "lease_wf (lib_uuid L) A"
    by (simp_all add: leases_ok_def)
  obtain u mt where u: "idxs A r = Some u" "length u = 16" "lease_Meta cur = Some mt"
      "meta_Uid mt = uuid_String (lib_uuid L) u"
    using lease_atE [OF lwf cur] by metis
  have parse: "keys_ParseStr (lib_uuid L) (uuid_String (lib_uuid L) u) = Ok \<lparr>tag = TagUID, raw = u\<rparr>"
    using doc u(2) by (simp add: uuid_documented_def keys_ParseStr_def keys_FromUIDOrName_def keys_UUID_def UUIDLen_def)
  obtain s' where s': "Repo_Delete (lm_db m) None \<lparr>tag = TagUID, raw = u\<rparr> s = (Ok (), s')"
      "repo_rel (lm_db m) (content s') (spec_DeleteUID A u)" "\<forall>k. \<not> owned (lm_db m) k \<longrightarrow> content s' k = content s k"
    using DeleteUID_refines [OF rel wf u(2)] by blast
  have "leases_ok (lib_uuid L) (lm_db m) (content s') (spec_DeleteUID A u)"
    using s'(2) repo_wf_DeleteUID [OF wf] lease_wf_Delete [OF lwf] by (simp add: leases_ok_def)
  moreover have "LeaseManager_release L m None r h token force s = (Ok (), s')"
    using args may cur u parse s'(1) Get_lease [OF rel args(1)]
    by (auto simp: LeaseManager_release_def keys_Index_def)
  ultimately show ?thesis using lease_at_Delete [OF wf u(1)] s'(3) by blast
qed

end

section \<open>Every outcome of every operation\<close>

text \<open>
  How one operation on the lease of a task can move it: an acquisition leaves it, creates
  it with fencing token 1, or hands it over, when it has expired or to its own holder,
  with the fencing token one higher; a renewal leaves it or extends it for the same
  holder and fencing token; a release leaves it or removes it.
\<close>

definition acquire_move :: "instant \<Rightarrow> int \<Rightarrow> string \<Rightarrow> Lease option \<Rightarrow> Lease option \<Rightarrow> bool" where
  "acquire_move now ttl h l l' \<longleftrightarrow> l' = l \<or>
     (\<exists>x. l' = Some x \<and> holder_of x = h \<and> expires_at x = now + ttl \<and>
        (case l of None \<Rightarrow> fencing x = 1
         | Some y \<Rightarrow> (expires_at y \<le> now \<or> holder_of y = h) \<and> fencing x = fencing y + 1))"

definition renew_move :: "instant \<Rightarrow> int \<Rightarrow> Lease option \<Rightarrow> Lease option \<Rightarrow> bool" where
  "renew_move now ttl l l' \<longleftrightarrow> l' = l \<or>
     (\<exists>x y. l = Some y \<and> l' = Some x \<and> holder_of x = holder_of y \<and> fencing x = fencing y \<and> expires_at x = now + ttl)"

definition release_move :: "Lease option \<Rightarrow> Lease option \<Rightarrow> bool" where
  "release_move l l' \<longleftrightarrow> l' = l \<or> l' = None"

lemma first_lease_simps [simp]:
  "holder_of (first_lease L m env r h tok) = h" "fencing (first_lease L m env r h tok) = 1"
  "expires_at (first_lease L m env r h tok) = env_now env + ttl_duration m"
  "token_hash (first_lease L m env r h tok) = hash_of L m tok"
  by (simp_all add: first_lease_def new_lease_def Let_def lease_config_def lease_status_def)

lemma taken_simps [simp]:
  "holder_of (taken L m env h tok cur) = h" "fencing (taken L m env h tok cur) = fencing cur + 1"
  "expires_at (taken L m env h tok cur) = env_now env + ttl_duration m"
  "token_hash (taken L m env h tok cur) = hash_of L m tok"
  by (simp_all add: taken_def lease_config_def lease_status_def)

lemma renewed_simps [simp]:
  "holder_of (renewed L m env tok cur) = holder_of cur" "fencing (renewed L m env tok cur) = fencing cur"
  "expires_at (renewed L m env tok cur) = env_now env + ttl_duration m"
  "token_hash (renewed L m env tok cur) = hash_of L m tok"
  by (simp_all add: renewed_def lease_config_def lease_status_def)

definition moves_to :: "libs \<Rightarrow> ('s, 'u) LeaseManager \<Rightarrow> ('s \<Rightarrow> bytes \<Rightarrow> bytes option) \<Rightarrow> Lease repo_state \<Rightarrow> string
    \<Rightarrow> (Lease option \<Rightarrow> Lease option \<Rightarrow> bool) \<Rightarrow> 's \<Rightarrow> bool" where
  "moves_to L m content A r move s' \<longleftrightarrow>
     (\<exists>A'. leases_ok (lib_uuid L) (lm_db m) (content s') A' \<and> move (lease_at A r) (lease_at A' r) \<and>
           (\<forall>r'. r' \<noteq> r \<longrightarrow> lease_at A' r' = lease_at A r'))"

lemma moves_to_refl:
  assumes "leases_ok (lib_uuid L) (lm_db m) (content s) A" and "move (lease_at A r) (lease_at A r)"
  shows "moves_to L m content A r move s"
  using assms by (auto simp: moves_to_def)

lemma moves_toI:
  assumes "leases_ok (lib_uuid L) (lm_db m) (content s') A'"
    and "\<forall>r'. lease_at A' r' = (if r' = r then x else lease_at A r')" and "move (lease_at A r) x"
  shows "moves_to L m content A r move s'"
  using assms unfolding moves_to_def by (intro exI [of _ A']) auto

context leases
begin

lemma Acquire_moves:
  assumes ok: "leases_ok (lib_uuid L) (lm_db m) (content s) A" and cd: "codec_roundtrip (repo_codec (lm_db m))"
    and fresh: "uid_unused (lm_db m) (content s) (env_uuid env)"
  shows "moves_to L m content A r (acquire_move (env_now env) (ttl_duration m) h)
     (snd (LeaseManager_Acquire L m ctx env r h ttl s))"
proof -
  let ?out = "LeaseManager_Acquire L m ctx env r h ttl s"
  note [simp] = acquire_move_def
  from ok have rel: "repo_rel (lm_db m) (content s) A" and wf: "repo_wf A" by (simp_all add: leases_ok_def)
  have stay: ?thesis if "snd ?out = s" using moves_to_refl [of L m content s A, OF ok] that by simp
  show ?thesis
  proof (cases "ctx = None \<and> r \<noteq> [] \<and> h \<noteq> [] \<and> 0 < ttl \<and> is_Ok (env_rand env)")
    case False
    then have "snd ?out = s"
      using Get_lease [OF rel, of r]
      by (cases ctx; cases "env_rand env"; cases "lease_at A r")
        (auto simp: LeaseManager_Acquire_def keys_Index_def GenerateToken_def Let_def)
    then show ?thesis by (rule stay)
  next
    case True
    then obtain rnd where args: "ctx = None" "r \<noteq> []" "h \<noteq> []" "0 < ttl" "env_rand env = Ok rnd"
      by (auto simp: is_Ok_iff)
    show ?thesis
    proof (cases "lease_at A r")
      case None
      let ?l = "first_lease L m env r h (RawURLEncoding rnd)"
      show ?thesis
      proof (cases "proto_Marshal (repo_codec (lm_db m)) ?l")
        case (Ok b)
        from Acquire_free [OF ok cd args(2-5) None fresh refl Ok] obtain s' A' where
          "?out = (Ok (?l, RawURLEncoding rnd), s')" and A': "leases_ok (lib_uuid L) (lm_db m) (content s') A'"
          "\<forall>r'. lease_at A' r' = (if r' = r then Some ?l else lease_at A r')"
          using args(1) by blast
        with moves_toI [of L m content s' A', OF A'] None show ?thesis by simp
      qed (use Acquire_free_unmarshalled [OF ok args(2-5) None] args(1) stay in simp_all)
    next
      case (Some cur)
      show ?thesis
      proof (cases "env_now env < expires_at cur \<and> holder_of cur \<noteq> h")
        case True
        with Acquire_held [OF rel args(2-4) Some] args(1) stay show ?thesis by simp
      next
        case False
        then have may: "\<not> env_now env < expires_at cur \<or> holder_of cur = h" by blast
        from Acquire_take [OF ok cd args(2-5) Some may refl] show ?thesis
        proof (elim disjE exE conjE)
          fix s' A'
          assume out: "LeaseManager_Acquire L m None env r h ttl s =
              (Ok (taken L m env h (RawURLEncoding rnd) cur, RawURLEncoding rnd), s')"
            and A': "leases_ok (lib_uuid L) (lm_db m) (content s') A'"
            "\<forall>r'. lease_at A' r' = (if r' = r then Some (taken L m env h (RawURLEncoding rnd) cur) else lease_at A r')"
          from moves_toI [of L m content s' A', OF A'] out args(1) Some may show ?thesis by (simp add: not_less)
        qed (use args(1) stay in simp)
      qed
    qed
  qed
qed

lemma Renew_moves:
  assumes ok: "leases_ok (lib_uuid L) (lm_db m) (content s) A" and cd: "codec_roundtrip (repo_codec (lm_db m))"
    and uu: "uuid_Parse (lib_uuid L) r = Ok u" "uuid_String (lib_uuid L) u = r" "r \<noteq> []"
  shows "moves_to L m content A r (renew_move (env_now env) (ttl_duration m))
     (snd (LeaseManager_Renew L m ctx env r h ttl token s))"
proof -
  let ?out = "LeaseManager_Renew L m ctx env r h ttl token s"
  note [simp] = renew_move_def
  from ok have rel: "repo_rel (lm_db m) (content s) A" by (simp add: leases_ok_def)
  have stay: ?thesis if "snd ?out = s" using moves_to_refl [of L m content s A, OF ok] that by simp
  show ?thesis
  proof (cases "ctx = None \<and> h \<noteq> [] \<and> 0 < ttl \<and> is_Ok (env_rand env) \<and>
      (\<exists>cur. lease_at A r = Some cur \<and> hash_of L m token = token_hash cur)")
    case False
    then have "snd ?out = s"
      using Get_lease [OF rel uu(3)] uu
      by (cases ctx; cases "env_rand env"; cases "lease_at A r")
        (auto simp: LeaseManager_Renew_def keys_Index_def GenerateToken_def Let_def)
    then show ?thesis by (rule stay)
  next
    case True
    then obtain rnd cur where args: "ctx = None" "h \<noteq> []" "0 < ttl" "env_rand env = Ok rnd"
        "lease_at A r = Some cur" "hash_of L m token = token_hash cur"
      by (auto simp: is_Ok_iff)
    from Renew_ok [OF ok cd args(2-4) uu args(5,6) refl] show ?thesis
    proof (elim disjE exE conjE)
      fix s' A'
      assume out: "LeaseManager_Renew L m None env r h ttl token s =
          (Ok (renewed L m env (RawURLEncoding rnd) cur, RawURLEncoding rnd), s')"
        and A': "leases_ok (lib_uuid L) (lm_db m) (content s') A'"
        "\<forall>r'. lease_at A' r' = (if r' = r then Some (renewed L m env (RawURLEncoding rnd) cur) else lease_at A r')"
      from moves_toI [of L m content s' A', OF A'] out args(1,5) show ?thesis by simp
    qed (use args(1) stay in simp)
  qed
qed

end

context leases_keys
begin

lemma release_moves:
  assumes ok: "leases_ok (lib_uuid L) (lm_db m) (content s) A" and doc: "uuid_documented (lib_uuid L)"
  shows "moves_to L m content A r release_move (snd (LeaseManager_release L m ctx r h token force s))"
proof -
  let ?out = "LeaseManager_release L m ctx r h token force s"
  note [simp] = release_move_def
  from ok have rel: "repo_rel (lm_db m) (content s) A" by (simp add: leases_ok_def)
  have stay: ?thesis if "snd ?out = s" using moves_to_refl [of L m content s A, OF ok] that by simp
  show ?thesis
  proof (cases "ctx = None \<and> r \<noteq> [] \<and> h \<noteq> [] \<and>
      (\<exists>cur. lease_at A r = Some cur \<and> (force \<or> hash_of L m token = token_hash cur \<and> holder_of cur = h))")
    case False
    then have "snd ?out = s"
      using Get_lease [OF rel, of r]
      by (cases ctx; cases "lease_at A r") (auto simp: LeaseManager_release_def keys_Index_def)
    then show ?thesis by (rule stay)
  next
    case True
    then obtain cur where args: "ctx = None" "r \<noteq> []" "h \<noteq> []" "lease_at A r = Some cur"
        "force \<or> hash_of L m token = token_hash cur \<and> holder_of cur = h" by blast
    from release_ok [OF ok doc args(2-5)] args(1) show ?thesis by (auto intro!: moves_toI)
  qed
qed

end

end
