(* ===== verification/LeaseProps.thy ===== *)
theory LeaseProps
  imports LeaseSafety
begin

text \<open>
  The lease contract on the program's stores, runs of the lease manager, and its
  properties.
\<close>

section \<open>The contract on the stores\<close>

interpretation mem_lm: leases "\<lparr>lm_db = NewLeaseRepo inmemory cd, lm_TTL = ttl, lm_Key = key\<rparr>"
  map_of mem_tcontent mem_tinv
  for cd ttl key
  using mem_leases.repository_axioms by (simp add: leases_def leases_axioms_def)

context badger_store
begin

lemma badger_leases_keys:
  "leases_keys \<lparr>lm_db = NewLeaseRepo (badger_DB lib) cd, lm_TTL = ttl, lm_Key = key\<rparr> bcontent (\<lambda>s. btcontent) begun"
  using badger_repository_keys [OF new_repo_prefixes(5) repo_db_simps(5), of cd]
  by (simp add: leases_keys_def leases_def leases_axioms_def repository_keys_def)

end

interpretation sb_lm: leases_keys "\<lparr>lm_db = NewLeaseRepo (badger_DB sample_badger) cd, lm_TTL = ttl, lm_Key = key\<rparr>"
  map_of "\<lambda>s t. map_of (fst t)" "\<lambda>s t. \<not> snd t \<longrightarrow> fst t = s"
  for cd ttl key
  by (rule sbadger.badger_leases_keys)

section \<open>Runs\<close>

text \<open>
  One call of any client, with any arguments and any outcome. The record of an
  acquisition draws a uid the store does not mention.
\<close>

inductive lease_step :: "libs \<Rightarrow> ('s, 'u) LeaseManager \<Rightarrow> ('s \<Rightarrow> bytes \<Rightarrow> bytes option) \<Rightarrow> 's \<Rightarrow> 's \<Rightarrow> bool"
  for L m content where
  ls_acquire: "uid_unused (lm_db m) (content s) (env_uuid env) \<Longrightarrow>
     lease_step L m content s (snd (LeaseManager_Acquire L m ctx env r h ttl s))"
| ls_renew: "lease_step L m content s (snd (LeaseManager_Renew L m ctx env r h ttl token s))"
| ls_release: "lease_step L m content s (snd (LeaseManager_Release L m ctx r h token s))"
| ls_revoke: "lease_step L m content s (snd (LeaseManager_Revoke L m ctx r h s))"

inductive lease_run :: "libs \<Rightarrow> ('s, 'u) LeaseManager \<Rightarrow> ('s \<Rightarrow> bytes \<Rightarrow> bytes option) \<Rightarrow> 's \<Rightarrow> 's \<Rightarrow> bool"
  for L m content s where
  run_refl: "lease_run L m content s s"
| run_step: "lease_run L m content s t \<Longrightarrow> lease_step L m content t t' \<Longrightarrow> lease_run L m content s t'"

text \<open>A renewal works on the canonical form of the uuid it is given.\<close>

lemma Renew_canonical:
  assumes "uuid_documented (lib_uuid L)" and "uuid_Parse (lib_uuid L) r = Ok u"
  shows "LeaseManager_Renew L m ctx env r h ttl token s
       = LeaseManager_Renew L m ctx env (uuid_String (lib_uuid L) u) h ttl token s"
proof -
  have "length u = 16" using assms unfolding uuid_documented_def by blast
  then have "uuid_Parse (lib_uuid L) (uuid_String (lib_uuid L) u) = Ok u"
    using assms(1) by (simp add: uuid_documented_def)
  then show ?thesis using assms(2) by (cases ctx) (simp_all add: LeaseManager_Renew_def)
qed

context leases_keys
begin

lemma Renew_any:
  assumes ok: "leases_ok (lib_uuid L) (lm_db m) (content s) A" and cd: "codec_roundtrip (repo_codec (lm_db m))"
    and doc: "uuid_documented (lib_uuid L)"
  shows "\<exists>r'. moves_to L m content A r' (renew_move (env_now env) (ttl_duration m))
     (snd (LeaseManager_Renew L m ctx env r h ttl token s))"
proof (cases "uuid_Parse (lib_uuid L) r")
  case (Ok u)
  with doc have len: "length u = 16" unfolding uuid_documented_def by blast
  let ?r = "uuid_String (lib_uuid L) u"
  have "uuid_Parse (lib_uuid L) ?r = Ok u" "?r \<noteq> []" using doc len by (auto simp: uuid_documented_def)
  from Renew_moves [OF ok cd this(1) refl this(2)] show ?thesis
    unfolding Renew_canonical [OF doc Ok] by blast
next
  case (Err e)
  then have "snd (LeaseManager_Renew L m ctx env r h ttl token s) = s"
    by (cases ctx) (simp_all add: LeaseManager_Renew_def)
  with moves_to_refl [of L m content s A, OF ok] show ?thesis by (simp add: renew_move_def)
next
  case (Panic p)
  with doc show ?thesis by (simp add: uuid_documented_def)
qed

lemma step_keeps_leases:
  assumes step: "lease_step L m content s s'" and ok: "leases_ok (lib_uuid L) (lm_db m) (content s) A"
    and cd: "codec_roundtrip (repo_codec (lm_db m))" and doc: "uuid_documented (lib_uuid L)"
  shows "\<exists>A'. leases_ok (lib_uuid L) (lm_db m) (content s') A'"
  using step
proof cases
  case (ls_acquire env ctx r h ttl)
  with Acquire_moves [OF ok cd] show ?thesis unfolding moves_to_def by blast
next
  case (ls_renew ctx env r h ttl token)
  with Renew_any [OF ok cd doc] show ?thesis unfolding moves_to_def by blast
next
  case (ls_release ctx r h token)
  with release_moves [OF ok doc] show ?thesis unfolding moves_to_def LeaseManager_Release_def by blast
next
  case (ls_revoke ctx r h)
  with release_moves [OF ok doc] show ?thesis unfolding moves_to_def LeaseManager_Revoke_def by blast
qed

lemma run_keeps_leases:
  assumes "lease_run L m content s s'" and "\<exists>A. leases_ok (lib_uuid L) (lm_db m) (content s) A"
    and "codec_roundtrip (repo_codec (lm_db m))" and "uuid_documented (lib_uuid L)"
  shows "\<exists>A. leases_ok (lib_uuid L) (lm_db m) (content s') A"
  using assms by (induction rule: lease_run.induct) (auto dest: step_keeps_leases)

end

section \<open>A concrete manager\<close>

definition sample_libs :: libs where
  "sample_libs = \<lparr>lib_errs = sample_ext, lib_uuid = sample_uuid, lib_hmac = (\<lambda>k msg. k @ msg)\<rparr>"

definition sample_env :: env where
  "sample_env = \<lparr>env_now = 100, env_rand = Ok ''abc'', env_uuid = sample_uid, env_t1 = 101, env_t2 = 102\<rparr>"

definition later_env :: env where
  "later_env = sample_env\<lparr>env_now := 200 * second, env_rand := Ok ''xyz''\<rparr>"

definition task_uid :: string where
  "task_uid = ''task-0000-000001''"

definition lm_with :: "Lease codec \<Rightarrow> (mem, mem \<times> bool) LeaseManager" where
  "lm_with cd = \<lparr>lm_db = NewLeaseRepo (badger_DB sample_badger) cd, lm_TTL = 60, lm_Key = ''k''\<rparr>"

definition lease1 :: Lease where
  "lease1 = first_lease sample_libs (lm_with (table_codec [])) sample_env task_uid ''node1'' (RawURLEncoding ''abc'')"

definition lease2 :: Lease where
  "lease2 = taken sample_libs (lm_with (table_codec [])) later_env ''node2'' (RawURLEncoding ''xyz'') lease1"

definition lease3 :: Lease where
  "lease3 = renewed sample_libs (lm_with (table_codec [])) later_env (RawURLEncoding ''xyz'') lease1"

definition lease_codec :: "Lease codec" where
  "lease_codec = table_codec [(lease1, ''L1''), (lease2, ''L2''), (lease3, ''L3'')]"

abbreviation (input) sample_lm :: "(mem, mem \<times> bool) LeaseManager" where
  "sample_lm \<equiv> lm_with lease_codec"

lemma lm_with_irrelevant:
  "first_lease L (lm_with cd) env r h tok = first_lease L (lm_with cd') env r h tok"
  "taken L (lm_with cd) env h tok cur = taken L (lm_with cd') env h tok cur"
  "renewed L (lm_with cd) env tok cur = renewed L (lm_with cd') env tok cur"
  "hash_of L (lm_with cd) tok = hash_of L (lm_with cd') tok"
  by (simp_all add: first_lease_def taken_def renewed_def hash_of_def lm_with_def ttl_duration_def)

lemma sample_lm_keys:
  "leases_keys sample_lm map_of (\<lambda>s t. map_of (fst t)) (\<lambda>s t. \<not> snd t \<longrightarrow> fst t = s)"
  unfolding lm_with_def by (rule sb_lm.leases_keys_axioms)

lemma sample_lm_leases:
  "leases sample_lm map_of (\<lambda>s t. map_of (fst t)) (\<lambda>s t. \<not> snd t \<longrightarrow> fst t = s)"
  using sample_lm_keys by (simp add: leases_keys_def)

lemma leases_differ: "lease1 \<noteq> lease2" "lease1 \<noteq> lease3" "lease2 \<noteq> lease3"
proof -
  have f: "fencing lease1 = 1" "fencing lease2 = 2" "fencing lease3 = 1"
    by (simp_all add: lease1_def lease2_def lease3_def)
  have e: "expires_at lease1 = 100 + 60 * second" "expires_at lease3 = 260 * second"
    by (simp_all add: lease1_def lease3_def sample_env_def later_env_def ttl_duration_def lm_with_def)
  have "fencing lease1 \<noteq> fencing lease2" "fencing lease2 \<noteq> fencing lease3" "expires_at lease1 \<noteq> expires_at lease3"
    by (simp_all add: f e)
  then show "lease1 \<noteq> lease2" "lease1 \<noteq> lease3" "lease2 \<noteq> lease3" by auto
qed

lemma lease_codec_roundtrip: "codec_roundtrip lease_codec"
  unfolding lease_codec_def by (rule table_codec_roundtrip) simp

lemma lease_codec_marshal:
  "proto_Marshal lease_codec lease1 = Ok ''L1''" "proto_Marshal lease_codec lease2 = Ok ''L2''"
  "proto_Marshal lease_codec lease3 = Ok ''L3''" "proto_Unmarshal lease_codec ''L1'' = Ok lease1"
  using leases_differ by (auto simp: lease_codec_def table_codec_def)

lemma sample_lm_codec [simp]: "repo_codec (lm_db sample_lm) = lease_codec"
  by (simp add: lm_with_def)

definition no_leases :: "Lease repo_state" where
  "no_leases = \<lparr>recs = (\<lambda>_. None), names = (\<lambda>_. None), idxs = (\<lambda>_. None)\<rparr>"

lemma no_leases_ok: "leases_ok ul R (map_of []) no_leases" "lease_at no_leases r = None"
  using repo_rel_empty [of R]
  by (simp_all add: leases_ok_def repo_wf_empty lease_wf_def lease_at_def no_leases_def fun_eq_iff)

text \<open>The store and the abstract state after the first acquisition.\<close>

definition lease1_store :: mem where
  "lease1_store = [(uid_key (lm_db sample_lm) sample_uid, ''L1''),
     (idx_key (lm_db sample_lm) task_uid, uid_value sample_uid),
     (name_key (lm_db sample_lm) task_uid, uid_value sample_uid)]"

definition lease1_state :: "Lease repo_state" where
  "lease1_state = spec_Create no_leases sample_uid task_uid lease1"

lemma lease1_ok:
  "leases_ok (lib_uuid sample_libs) (lm_db sample_lm) (map_of lease1_store) lease1_state"
  "lease_at lease1_state task_uid = Some lease1"
proof -
  have pre: "repo_prefixes (lm_db sample_lm)"
    by (simp add: lm_with_def new_repo_prefixes)
  have dec: "Codec_Decode (lm_db sample_lm) ''L1'' = Ok lease1"
    by (simp add: Codec_Decode_def lease_codec_marshal)
  have ne: "task_uid \<noteq> []" "length sample_uid = 16" by (simp_all add: task_uid_def sample_uid_def)
  note single = single_rel [OF pre dec ne] single_wf [OF ne(2), of task_uid lease1]
  have rel: "repo_rel (lm_db sample_lm) (map_of lease1_store) lease1_state" and wf: "repo_wf lease1_state"
    using single unfolding lease1_store_def lease1_state_def no_leases_def by simp_all
  have fresh: "fresh_uid no_leases sample_uid" using ne by (simp add: fresh_uid_def no_leases_def)
  have "lease_wf (lib_uuid sample_libs) no_leases" by (simp add: lease_wf_def no_leases_def)
  from lease_wf_Create [OF this ne(2), of lease1 _ _ _ task_uid]
  have "lease_wf (lib_uuid sample_libs) lease1_state"
    by (auto simp: lease1_state_def lease1_def first_lease_def new_lease_def Let_def sample_env_def)
  with rel wf show "leases_ok (lib_uuid sample_libs) (lm_db sample_lm) (map_of lease1_store) lease1_state"
    by (simp add: leases_ok_def)
  show "lease_at lease1_state task_uid = Some lease1"
    using lease_at_Create [OF fresh, of task_uid lease1 task_uid] by (simp add: lease1_state_def)
qed

section \<open>Properties\<close>

text \<open>
  C7. Mutual exclusion: while a lease on a task is in force, no call of Acquire by any
  other holder succeeds; it fails with \<^verbatim>\<open>ErrLeaseHeld\<close>, which clients classify as a
  conflict, and the store is unchanged.
\<close>

theorem lease_acquire_held:
  assumes "leases m content tcontent tinv" and "leases_ok (lib_uuid L) (lm_db m) (content s) A"
    and "r \<noteq> []" and "h \<noteq> []" and "0 < ttl"
    and "lease_at A r = Some cur" and "env_now env < expires_at cur" and "holder_of cur \<noteq> h"
  shows "LeaseManager_Acquire L m None env r h ttl s = (Err (Sentinel ErrsErrLeaseHeld), s)
     \<and> IsConflict (lib_errs L) (Some (Sentinel ErrsErrLeaseHeld))"
proof -
  from assms(2) have "repo_rel (lm_db m) (content s) A" by (simp add: leases_ok_def)
  from leases.Acquire_held [OF assms(1) this assms(3-8)] show ?thesis by (simp add: IsConflict_iff)
qed

theorem lease_acquire_held_witness:
  "LeaseManager_Acquire sample_libs sample_lm None sample_env task_uid ''node2'' 60 lease1_store
     = (Err (Sentinel ErrsErrLeaseHeld), lease1_store)"
proof -
  have c: "task_uid \<noteq> []" "''node2'' \<noteq> []" "(0::int) < 60" by (simp_all add: task_uid_def)
  have "env_now sample_env < expires_at lease1" "holder_of lease1 \<noteq> ''node2''"
    by (simp_all add: lease1_def sample_env_def ttl_duration_def lm_with_def)
  from lease_acquire_held [OF sample_lm_leases lease1_ok(1) c lease1_ok(2) this] show ?thesis ..
qed

text \<open>
  C8. Acquiring a free task: the caller gets a lease on it in its own name with fencing
  token 1 that lasts the manager's TTL from now, and a secret token whose hash the stored
  lease carries; leases of other tasks are as before.
\<close>

theorem lease_acquire_free:
  assumes "leases m content tcontent tinv" and "codec_roundtrip (repo_codec (lm_db m))"
    and "leases_ok (lib_uuid L) (lm_db m) (content s) A"
    and "r \<noteq> []" and "h \<noteq> []" and "0 < ttl" and "env_rand env = Ok rnd"
    and "lease_at A r = None" and "uid_unused (lm_db m) (content s) (env_uuid env)"
    and "proto_Marshal (repo_codec (lm_db m)) (first_lease L m env r h (RawURLEncoding rnd)) = Ok b"
  shows "\<exists>l s' A'. LeaseManager_Acquire L m None env r h ttl s = (Ok (l, RawURLEncoding rnd), s')
     \<and> leases_ok (lib_uuid L) (lm_db m) (content s') A'
     \<and> lease_at A' r = Some l \<and> (\<forall>r'. r' \<noteq> r \<longrightarrow> lease_at A' r' = lease_at A r')
     \<and> holder_of l = h \<and> fencing l = 1 \<and> expires_at l = env_now env + uint (lm_TTL m) * 1000000000
     \<and> ValidateHMAC (lib_hmac L) (RawURLEncoding rnd) (token_hash l) (lm_Key m) = Ok True"
proof -
  let ?l = "first_lease L m env r h (RawURLEncoding rnd)"
  obtain s' A' where "LeaseManager_Acquire L m None env r h ttl s = (Ok (?l, RawURLEncoding rnd), s')"
      "leases_ok (lib_uuid L) (lm_db m) (content s') A'"
      "\<forall>r'. lease_at A' r' = (if r' = r then Some ?l else lease_at A r')"
    using leases.Acquire_free [OF assms(1,3,2,4-9) refl assms(10)] by blast
  then show ?thesis
    by (intro exI [of _ ?l] exI [of _ s'] exI [of _ A']) (simp add: ttl_duration_def)
qed

theorem lease_acquire_free_witness:
  "\<exists>l s' A'. LeaseManager_Acquire sample_libs sample_lm None sample_env task_uid ''node1'' 60 []
       = (Ok (l, RawURLEncoding ''abc''), s')
     \<and> lease_at A' task_uid = Some l \<and> holder_of l = ''node1'' \<and> fencing l = 1"
proof -
  have c: "task_uid \<noteq> []" "''node1'' \<noteq> []" "(0::int) < 60" "env_rand sample_env = Ok ''abc''"
    by (simp_all add: task_uid_def sample_env_def)
  have u: "uid_unused (lm_db sample_lm) (map_of []) (env_uuid sample_env)"
    using sample_unused by (simp add: sample_env_def)
  have mar: "proto_Marshal (repo_codec (lm_db sample_lm))
      (first_lease sample_libs sample_lm sample_env task_uid ''node1'' (RawURLEncoding ''abc'')) = Ok ''L1''"
    using lease_codec_marshal(1) lm_with_irrelevant(1) [of sample_libs lease_codec _ _ _ _ "table_codec []"]
    by (simp add: lease1_def)
  have cd: "codec_roundtrip (repo_codec (lm_db sample_lm))" by (simp add: lease_codec_roundtrip)
  from lease_acquire_free [OF sample_lm_leases cd no_leases_ok(1) c no_leases_ok(2) u mar] show ?thesis by blast
qed

text \<open>
  Taking over: an expired lease, or the caller's own, passes to the caller with the
  fencing token one higher, a new expiry and a new secret token.
\<close>

theorem lease_acquire_takeover:
  assumes "leases m content tcontent tinv" and "codec_roundtrip (repo_codec (lm_db m))"
    and "leases_ok (lib_uuid L) (lm_db m) (content s) A"
    and "r \<noteq> []" and "h \<noteq> []" and "0 < ttl" and "env_rand env = Ok rnd"
    and "lease_at A r = Some cur" and "\<not> env_now env < expires_at cur \<or> holder_of cur = h"
    and "proto_Marshal (repo_codec (lm_db m)) (taken L m env h (RawURLEncoding rnd) cur) = Ok b"
  shows "\<exists>l s' A'. LeaseManager_Acquire L m None env r h ttl s = (Ok (l, RawURLEncoding rnd), s')
     \<and> leases_ok (lib_uuid L) (lm_db m) (content s') A'
     \<and> lease_at A' r = Some l \<and> (\<forall>r'. r' \<noteq> r \<longrightarrow> lease_at A' r' = lease_at A r')
     \<and> holder_of l = h \<and> fencing l = fencing cur + 1 \<and> expires_at l = env_now env + uint (lm_TTL m) * 1000000000
     \<and> ValidateHMAC (lib_hmac L) (RawURLEncoding rnd) (token_hash l) (lm_Key m) = Ok True"
proof -
  let ?l = "taken L m env h (RawURLEncoding rnd) cur"
  have mar: "is_Ok (proto_Marshal (repo_codec (lm_db m)) ?l)" using assms(10) by simp
  obtain s' A' where "LeaseManager_Acquire L m None env r h ttl s = (Ok (?l, RawURLEncoding rnd), s')"
      "leases_ok (lib_uuid L) (lm_db m) (content s') A'"
      "\<forall>r'. lease_at A' r' = (if r' = r then Some ?l else lease_at A r')"
    using leases.Acquire_take [OF assms(1,3,2,4-9) refl] mar by blast
  then show ?thesis
    by (intro exI [of _ ?l] exI [of _ s'] exI [of _ A']) (simp add: ttl_duration_def)
qed

theorem lease_acquire_takeover_witness:
  "\<exists>l s' A'. LeaseManager_Acquire sample_libs sample_lm None later_env task_uid ''node2'' 60 lease1_store
       = (Ok (l, RawURLEncoding ''xyz''), s')
     \<and> lease_at A' task_uid = Some l \<and> holder_of l = ''node2'' \<and> fencing l = 2"
proof -
  have c: "task_uid \<noteq> []" "''node2'' \<noteq> []" "(0::int) < 60" "env_rand later_env = Ok ''xyz''"
    by (simp_all add: task_uid_def later_env_def)
  have ex: "\<not> env_now later_env < expires_at lease1 \<or> holder_of lease1 = ''node2''"
    by (simp add: later_env_def sample_env_def lease1_def ttl_duration_def lm_with_def)
  have mar: "proto_Marshal (repo_codec (lm_db sample_lm))
      (taken sample_libs sample_lm later_env ''node2'' (RawURLEncoding ''xyz'') lease1) = Ok ''L2''"
    using lease_codec_marshal(2) lm_with_irrelevant(2) [of sample_libs lease_codec _ _ _ _ "table_codec []"]
    by (simp add: lease2_def)
  have cd: "codec_roundtrip (repo_codec (lm_db sample_lm))" by (simp add: lease_codec_roundtrip)
  have "fencing lease1 + 1 = 2" by (simp add: lease1_def)
  with lease_acquire_takeover [OF sample_lm_leases cd lease1_ok(1) c lease1_ok(2) ex mar] show ?thesis by metis
qed

text \<open>
  C9. Renewing needs the current secret token and nothing else: with it the lease is
  extended for its holder, whoever calls, under a new secret token and the same fencing
  token; with any other token the call fails and changes nothing.
\<close>

theorem lease_renew:
  assumes "leases m content tcontent tinv" and "codec_roundtrip (repo_codec (lm_db m))"
    and "leases_ok (lib_uuid L) (lm_db m) (content s) A"
    and "h \<noteq> []" and "0 < ttl" and "env_rand env = Ok rnd"
    and "uuid_Parse (lib_uuid L) r = Ok u" and "uuid_String (lib_uuid L) u = r" and "r \<noteq> []"
    and "lease_at A r = Some cur"
    and "proto_Marshal (repo_codec (lm_db m)) (renewed L m env (RawURLEncoding rnd) cur) = Ok b"
  shows "(RawURLEncoding (lib_hmac L (lm_Key m) token) \<noteq> token_hash cur \<longrightarrow>
            LeaseManager_Renew L m None env r h ttl token s = (Err (Sentinel DomErrInvalidToken), s))
       \<and> (RawURLEncoding (lib_hmac L (lm_Key m) token) = token_hash cur \<longrightarrow>
            (\<exists>l s' A'. LeaseManager_Renew L m None env r h ttl token s = (Ok (l, RawURLEncoding rnd), s')
               \<and> leases_ok (lib_uuid L) (lm_db m) (content s') A'
               \<and> lease_at A' r = Some l \<and> (\<forall>r'. r' \<noteq> r \<longrightarrow> lease_at A' r' = lease_at A r')
               \<and> holder_of l = holder_of cur \<and> fencing l = fencing cur
               \<and> expires_at l = env_now env + uint (lm_TTL m) * 1000000000
               \<and> ValidateHMAC (lib_hmac L) (RawURLEncoding rnd) (token_hash l) (lm_Key m) = Ok True))"
proof (intro conjI impI)
  from assms(3) have rel: "repo_rel (lm_db m) (content s) A" by (simp add: leases_ok_def)
  assume "RawURLEncoding (lib_hmac L (lm_Key m) token) \<noteq> token_hash cur"
  with leases.Renew_bad_token [OF assms(1) rel assms(4,5,7-10)] show
    "LeaseManager_Renew L m None env r h ttl token s = (Err (Sentinel DomErrInvalidToken), s)"
    by (simp add: hash_of_def)
next
  let ?l = "renewed L m env (RawURLEncoding rnd) cur"
  assume "RawURLEncoding (lib_hmac L (lm_Key m) token) = token_hash cur"
  then have "hash_of L m token = token_hash cur" by (simp add: hash_of_def)
  from leases.Renew_ok [OF assms(1,3,2,4-10) this refl] assms(11) obtain s' A' where
      "LeaseManager_Renew L m None env r h ttl token s = (Ok (?l, RawURLEncoding rnd), s')"
      "leases_ok (lib_uuid L) (lm_db m) (content s') A'"
      "\<forall>r'. lease_at A' r' = (if r' = r then Some ?l else lease_at A r')" by auto
  then show "\<exists>l s' A'. LeaseManager_Renew L m None env r h ttl token s = (Ok (l, RawURLEncoding rnd), s')
               \<and> leases_ok (lib_uuid L) (lm_db m) (content s') A'
               \<and> lease_at A' r = Some l \<and> (\<forall>r'. r' \<noteq> r \<longrightarrow> lease_at A' r' = lease_at A r')
               \<and> holder_of l = holder_of cur \<and> fencing l = fencing cur
               \<and> expires_at l = env_now env + uint (lm_TTL m) * 1000000000
               \<and> ValidateHMAC (lib_hmac L) (RawURLEncoding rnd) (token_hash l) (lm_Key m) = Ok True"
    by (intro exI [of _ ?l] exI [of _ s'] exI [of _ A']) (simp add: ttl_duration_def)
qed

theorem lease_renew_witness:
  "(\<exists>l s'. LeaseManager_Renew sample_libs sample_lm None later_env task_uid ''node9'' 60 (RawURLEncoding ''abc'') lease1_store
        = (Ok (l, RawURLEncoding ''xyz''), s') \<and> holder_of l = ''node1'')
   \<and> LeaseManager_Renew sample_libs sample_lm None later_env task_uid ''node1'' 60 ''wrong'' lease1_store
        = (Err (Sentinel DomErrInvalidToken), lease1_store)"
proof -
  have c: "''node9'' \<noteq> []" "''node1'' \<noteq> []" "(0::int) < 60" "env_rand later_env = Ok ''xyz''"
      "uuid_Parse (lib_uuid sample_libs) task_uid = Ok task_uid" "uuid_String (lib_uuid sample_libs) task_uid = task_uid"
      "task_uid \<noteq> []"
    by (simp_all add: task_uid_def later_env_def sample_libs_def sample_uuid_def)
  have mar: "proto_Marshal (repo_codec (lm_db sample_lm))
      (renewed sample_libs sample_lm later_env (RawURLEncoding ''xyz'') lease1) = Ok ''L3''"
    using lease_codec_marshal(3) lm_with_irrelevant(3) [of sample_libs lease_codec _ _ _ "table_codec []"]
    by (simp add: lease3_def)
  have cd: "codec_roundtrip (repo_codec (lm_db sample_lm))" by (simp add: lease_codec_roundtrip)
  have h: "token_hash lease1 = RawURLEncoding (''k'' @ RawURLEncoding ''abc'')" "holder_of lease1 = ''node1''"
    by (simp_all add: lease1_def hash_of_def sample_libs_def lm_with_def)
  have k: "lib_hmac sample_libs (lm_Key sample_lm) tok = ''k'' @ tok" for tok
    by (simp add: sample_libs_def lm_with_def)
  have ne: "RawURLEncoding (''k'' @ ''wrong'') \<noteq> RawURLEncoding (''k'' @ RawURLEncoding ''abc'')"
    by (simp add: Let_def)
  note rn = lease_renew [OF sample_lm_leases cd lease1_ok(1) _ c(3-7) lease1_ok(2) mar]
  have good: "RawURLEncoding (lib_hmac sample_libs (lm_Key sample_lm) (RawURLEncoding ''abc'')) = token_hash lease1"
    unfolding k h(1) ..
  have bad: "RawURLEncoding (lib_hmac sample_libs (lm_Key sample_lm) ''wrong'') \<noteq> token_hash lease1"
    unfolding k h(1) by (rule ne)
  obtain l s' where "LeaseManager_Renew sample_libs sample_lm None later_env task_uid ''node9'' 60 (RawURLEncoding ''abc'') lease1_store
        = (Ok (l, RawURLEncoding ''xyz''), s')" "holder_of l = holder_of lease1"
    using rn [OF c(1), THEN conjunct2, THEN mp, OF good] by blast
  with rn [OF c(2), THEN conjunct1, THEN mp, OF bad] h(2) show ?thesis by auto
qed





end
