(* ===== verification/TaskService.thy ===== *)
theory TaskService
  imports ServiceBase LeaseProps
begin

text \<open>
  The task service, internal/app/task.go: the operations on tasks, the merge of status
  updates and conditions, and the guard that only a task's lease holder may report its
  status. \<^verbatim>\<open>Patch\<close> is in theory Patch.
\<close>

section \<open>Status updates\<close>

text \<open>The newest of two conditions of one type, by transition time; the existing one on a tie.\<close>

definition newest :: "Condition \<Rightarrow> Condition \<Rightarrow> Condition" where
  "newest existingCond incomingCond =
     (case cond_LastTransitionTime incomingCond of
        None \<Rightarrow> existingCond
      | Some inc \<Rightarrow>
          (case cond_LastTransitionTime existingCond of
             None \<Rightarrow> incomingCond
           | Some exi \<Rightarrow> if inc > exi then incomingCond else existingCond))"

definition cond_key :: "Condition \<Rightarrow> string" where
  "cond_key c = GetValue (cond_Type c)"

definition mergeConditions :: "Condition list \<Rightarrow> Condition list \<Rightarrow> Condition list" where
  "mergeConditions existing incoming = MergeSlices existing incoming cond_key newest"

definition apply_task_path :: "TaskStatus option \<Rightarrow> TaskStatus option \<Rightarrow> string \<Rightarrow> TaskStatus option res" where
  "apply_task_path dst src p =
     (if p = ''ip'' then copy_field ts_Ip (\<lambda>v d. d\<lparr>ts_Ip := Some v\<rparr>) dst src
      else if p = ''node'' then copy_field ts_Node (\<lambda>v d. d\<lparr>ts_Node := Some v\<rparr>) dst src
      else if p = ''phase'' then copy_field ts_Phase (\<lambda>v d. d\<lparr>ts_Phase := Some v\<rparr>) dst src
      else if p = ''id'' then copy_field ts_Id (\<lambda>v d. d\<lparr>ts_Id := Some v\<rparr>) dst src
      else if p = ''reason'' then copy_field ts_Reason (\<lambda>v d. d\<lparr>ts_Reason := Some v\<rparr>) dst src
      else if p = ''pid'' then copy_field ts_Pid (\<lambda>v d. d\<lparr>ts_Pid := Some v\<rparr>) dst src
      else if p = ''conditions'' then
        copy_field (\<lambda>sv. nonempty (ts_Conditions sv))
          (\<lambda>v d. d\<lparr>ts_Conditions := mergeConditions (ts_Conditions d) v\<rparr>) dst src
      else Err (unknown_path p))"

definition applyMaskedStatusUpdate :: "TaskStatus option \<Rightarrow> TaskStatus option \<Rightarrow> string list \<Rightarrow> TaskStatus option res" where
  "applyMaskedStatusUpdate dst src paths =
     (if paths = [] then Err (StatusErr InvalidArgument ''update_mask is required'')
      else apply_paths apply_task_path dst src paths)"

section \<open>The service\<close>

record ('s, 'u, 'w) TaskService =
  tsv_Repo :: "(Task, 's, 'u) Repo"
  tsv_Exchange :: "('s \<times> 'w) bus"
  tsv_Manager :: "('s, 'w) lease_guard"
  tsv_errs :: ext_errs
  tsv_uuid :: uuid_lib

definition TaskService_Get :: "('s, 'u, 'w) TaskService \<Rightarrow> ctx \<Rightarrow> ID \<Rightarrow> 's \<times> 'w \<Rightarrow> Task res \<times> ('s \<times> 'w)" where
  "TaskService_Get l ctx i st = reading (Repo_Get (tsv_Repo l) ctx i) st"

definition TaskService_List :: "('s, 'u, 'w) TaskService \<Rightarrow> ctx \<Rightarrow> int \<Rightarrow> 's \<times> 'w \<Rightarrow> Task list res \<times> ('s \<times> 'w)" where
  "TaskService_List l ctx limit st = reading (Repo_List (tsv_Repo l) ctx limit) st"

definition TaskService_Create ::
  "('s, 'u, 'w) TaskService \<Rightarrow> ctx \<Rightarrow> svc_env \<Rightarrow> Task \<Rightarrow> 's \<times> 'w \<Rightarrow> Task res \<times> ('s \<times> 'w)"
where
  "TaskService_Create l ctx env task st =
     andThen (on_store (Repo_Create (tsv_Repo l) (tsv_uuid l) ctx (sv_uuid env) (sv_t1 env) (sv_t2 env) task) st)
       (\<lambda>(newTask, task) st.
     andThen (bus_Publish (tsv_Exchange l) ctx (NewEvent (sv_event env) TaskCreate (AnyTask task) []) st) (\<lambda>_ st.
     (Ok newTask, st)))"

definition TaskService_Delete ::
  "('s, 'u, 'w) TaskService \<Rightarrow> ctx \<Rightarrow> svc_env \<Rightarrow> ID \<Rightarrow> 's \<times> 'w \<Rightarrow> unit res \<times> ('s \<times> 'w)"
where
  "TaskService_Delete l ctx env i st =
     andThen (reading (Repo_Get (tsv_Repo l) ctx i) st) (\<lambda>task st.
     andThen (on_store (Repo_Delete (tsv_Repo l) ctx i) st) (\<lambda>_ st.
     bus_Publish (tsv_Exchange l) ctx (NewEvent (sv_event env) TaskDelete (AnyTask task) []) st))"

text \<open>\<^verbatim>\<open>Kill\<close>, \<^verbatim>\<open>Stop\<close> and \<^verbatim>\<open>Start\<close> read the task and publish their event.\<close>

definition signal_task ::
  "EventType \<Rightarrow> ('s, 'u, 'w) TaskService \<Rightarrow> ctx \<Rightarrow> svc_env \<Rightarrow> ID \<Rightarrow> 's \<times> 'w \<Rightarrow> unit res \<times> ('s \<times> 'w)"
where
  "signal_task ty l ctx env i st =
     andThen (reading (Repo_Get (tsv_Repo l) ctx i) st) (\<lambda>task st.
     bus_Publish (tsv_Exchange l) ctx (NewEvent (sv_event env) ty (AnyTask task) []) st)"

definition TaskService_Kill ::
  "('s, 'u, 'w) TaskService \<Rightarrow> ctx \<Rightarrow> svc_env \<Rightarrow> ID \<Rightarrow> 's \<times> 'w \<Rightarrow> unit res \<times> ('s \<times> 'w)" where
  "TaskService_Kill l ctx env i st = signal_task TaskKill l ctx env i st"

definition TaskService_Stop ::
  "('s, 'u, 'w) TaskService \<Rightarrow> ctx \<Rightarrow> svc_env \<Rightarrow> ID \<Rightarrow> 's \<times> 'w \<Rightarrow> unit res \<times> ('s \<times> 'w)" where
  "TaskService_Stop l ctx env i st = signal_task TaskStop l ctx env i st"

definition TaskService_Start ::
  "('s, 'u, 'w) TaskService \<Rightarrow> ctx \<Rightarrow> svc_env \<Rightarrow> ID \<Rightarrow> 's \<times> 'w \<Rightarrow> unit res \<times> ('s \<times> 'w)" where
  "TaskService_Start l ctx env i st = signal_task TaskStart l ctx env i st"

text \<open>The clone of a nil status is nil.\<close>

definition TaskService_updateStatus ::
  "('s, 'u, 'w) TaskService \<Rightarrow> ctx \<Rightarrow> svc_env \<Rightarrow> ID \<Rightarrow> TaskStatus option \<Rightarrow> string list \<Rightarrow> 's \<times> 'w \<Rightarrow> unit res \<times> ('s \<times> 'w)"
where
  "TaskService_updateStatus l ctx env i stt paths st =
     andThen (reading (Repo_Get (tsv_Repo l) ctx i) st) (\<lambda>existingTask st.
     (case applyMaskedStatusUpdate (task_Status existingTask) stt paths of
        Panic m \<Rightarrow> (Panic m, st)
      | Err e \<Rightarrow> (Err (StatusErr InvalidArgument (''bad mask: '' @ err_text (tsv_errs l) e)), st)
      | Ok base \<Rightarrow>
          andThen (on_store (Repo_Update (tsv_Repo l) ctx (sv_t1 env) i (existingTask\<lparr>task_Status := base\<rparr>)) st)
            (\<lambda>_ st. (Ok (), st))))"

text \<open>
  The incoming metadata of the call: \<open>None\<close> when there is none. A guard that fails with
  an error counts as not holding.
\<close>

definition caller_node :: "(string, string list) gomap option \<Rightarrow> string option" where
  "caller_node md =
     (case md of
        None \<Rightarrow> None
      | Some m \<Rightarrow> (case map_of m ''x-voiyd-node-uid'' of Some (v # vs) \<Rightarrow> Some v | _ \<Rightarrow> None))"

definition TaskService_UpdateStatus ::
  "('s, 'u, 'w) TaskService \<Rightarrow> ctx \<Rightarrow> svc_env \<Rightarrow> (string, string list) gomap option \<Rightarrow> ID \<Rightarrow> TaskStatus option
     \<Rightarrow> string list \<Rightarrow> 's \<times> 'w \<Rightarrow> unit res \<times> ('s \<times> 'w)"
where
  "TaskService_UpdateStatus l ctx env md i stt paths st =
     (case caller_node md of
        None \<Rightarrow> TaskService_updateStatus l ctx env i stt paths st
      | Some node \<Rightarrow>
          (case tsv_Manager l ctx (ID_String (tsv_uuid l) i) node st of
             Panic m \<Rightarrow> (Panic m, st)
           | Err e \<Rightarrow> (Err (Sentinel DomErrNotHolder), st)
           | Ok isHolder \<Rightarrow>
               if \<not> isHolder then (Err (Sentinel DomErrNotHolder), st)
               else TaskService_updateStatus l ctx env i stt paths st))"

definition TaskService_Update ::
  "('s, 'u, 'w) TaskService \<Rightarrow> ctx \<Rightarrow> svc_env \<Rightarrow> ID \<Rightarrow> Task \<Rightarrow> 's \<times> 'w \<Rightarrow> unit res \<times> ('s \<times> 'w)"
where
  "TaskService_Update l ctx env i task st =
     andThen (reading (Repo_Get (tsv_Repo l) ctx i) st) (\<lambda>existingTask st.
     let task = task\<lparr>task_Status := task_Status existingTask\<rparr> in
     andThen (on_store (Repo_Update (tsv_Repo l) ctx (sv_t1 env) i task) st) (\<lambda>(updated, task) st.
     let equal = SpecEqual (opt_Equal TaskConfig_Equal) (\<lambda>(_::unit) _. False) None
                   (task_Config existingTask) (task_Config updated)
     in if \<not> equal
        then bus_Publish (tsv_Exchange l) ctx (NewEvent (sv_event env) TaskUpdate (AnyTask updated) []) st
        else (Ok (), st)))"

definition TaskService_Condition ::
  "('s, 'u, 'w) TaskService \<Rightarrow> ctx \<Rightarrow> svc_env \<Rightarrow> ID \<Rightarrow> ConditionRequest \<Rightarrow> 's \<times> 'w \<Rightarrow> unit res \<times> ('s \<times> 'w)"
where
  "TaskService_Condition l ctx env i req st =
     (let stt = empty_TaskStatus\<lparr>ts_Conditions := creq_Conditions req\<rparr> in
      andThen (TaskService_updateStatus l ctx env i (Some stt) [''conditions''] st) (\<lambda>_ st.
      bus_Publish (tsv_Exchange l) ctx
        (NewEvent (sv_event env) ConditionReported (AnyConditionRequest req) []) st))"

section \<open>Conditions\<close>

text \<open>No time counts as older than any time.\<close>

definition not_newer :: "Condition \<Rightarrow> Condition \<Rightarrow> bool" where
  "not_newer a b \<longleftrightarrow>
     (case cond_LastTransitionTime a of
        None \<Rightarrow> True
      | Some x \<Rightarrow> (case cond_LastTransitionTime b of None \<Rightarrow> False | Some y \<Rightarrow> x \<le> y))"

lemma not_newer_refl [simp]: "not_newer a a"
  by (simp add: not_newer_def split: option.splits)

lemma not_newer_trans: "not_newer a b \<Longrightarrow> not_newer b c \<Longrightarrow> not_newer a c"
  by (auto simp: not_newer_def split: option.splits)

lemma newest_cases: "newest a b = a \<or> newest a b = b"
  by (simp add: newest_def split: option.splits)

lemma newest_bounds: "not_newer a (newest a b)" "not_newer b (newest a b)"
  by (simp_all add: newest_def not_newer_def split: option.splits)

lemma newest_key: "cond_key a = cond_key b \<Longrightarrow> cond_key (newest a b) = cond_key b"
  using newest_cases [of a b] by metis

lemma merge_newest_base:
  "c k = Some b \<Longrightarrow> \<exists>x. merge_spec cond_key newest ps c k = Some x \<and> not_newer b x"
proof (induction ps arbitrary: c b)
  case (Cons p ps)
  let ?c = "c(cond_key p \<mapsto> (case c (cond_key p) of Some b \<Rightarrow> newest b p | None \<Rightarrow> p))"
  have "\<exists>b'. ?c k = Some b' \<and> not_newer b b'"
    using Cons.prems newest_bounds(1) by auto
  then obtain b' where "?c k = Some b'" "not_newer b b'" by blast
  with Cons.IH [of ?c b'] not_newer_trans show ?case by fastforce
qed simp

lemma merge_newest_patch:
  "p \<in> set ps \<Longrightarrow> \<exists>x. merge_spec cond_key newest ps c (cond_key p) = Some x \<and> not_newer p x"
proof (induction ps arbitrary: c)
  case (Cons q ps)
  let ?c = "c(cond_key q \<mapsto> (case c (cond_key q) of Some b \<Rightarrow> newest b q | None \<Rightarrow> q))"
  show ?case
  proof (cases "p \<in> set ps")
    case True
    from Cons.IH [OF True, of ?c] show ?thesis by (simp del: fun_upd_apply)
  next
    case False
    with Cons.prems have p: "p = q" by simp
    have "\<exists>b. ?c (cond_key p) = Some b \<and> not_newer p b"
      using p newest_bounds(2) by (simp split: option.splits)
    then obtain b where "?c (cond_key p) = Some b" "not_newer p b" by blast
    with merge_newest_base [of ?c "cond_key p" b ps] not_newer_trans show ?thesis by fastforce
  qed
qed simp

lemma merge_newest_origin:
  "merge_spec cond_key newest ps c k = Some x \<Longrightarrow> x \<in> set ps \<or> (\<exists>k'. c k' = Some x)"
proof (induction ps arbitrary: c)
  case (Cons p ps)
  let ?c = "c(cond_key p \<mapsto> (case c (cond_key p) of Some b \<Rightarrow> newest b p | None \<Rightarrow> p))"
  from Cons.prems have "merge_spec cond_key newest ps ?c k = Some x" by simp
  from Cons.IH [OF this] show ?case
    using newest_cases by (auto split: if_splits option.splits) metis+
qed auto

lemma merge_content_mem:
  "merge_content kf xs k = Some x \<Longrightarrow> x \<in> set xs \<and> kf x = k"
  by (auto simp: merge_content_def find_Some_iff)

lemma merge_content_exists:
  "distinct (map kf xs) \<Longrightarrow> x \<in> set xs \<Longrightarrow> merge_content kf xs (kf x) = Some x"
  by (induction xs) (auto simp: merge_content_def image_iff)

text \<open>
  Merging condition reports keeps the newest condition of each type: every existing
  and every incoming condition is represented by one of its type that is not older, each
  type occurs once, and nothing is invented.
\<close>

theorem mergeConditions_newest:
  assumes "distinct (map cond_key existing)"
  shows "distinct (map cond_key (mergeConditions existing incoming))
     \<and> (\<forall>c \<in> set existing \<union> set incoming. \<exists>c' \<in> set (mergeConditions existing incoming).
          cond_key c' = cond_key c \<and> not_newer c c')
     \<and> set (mergeConditions existing incoming) \<subseteq> set existing \<union> set incoming"
proof (intro conjI ballI subsetI)
  let ?m = "mergeConditions existing incoming"
  note content = MergeSlices_content [of cond_key newest existing incoming, OF newest_key assms]
  show dist: "distinct (map cond_key ?m)"
    unfolding mergeConditions_def by (rule MergeSlices_distinct [OF newest_key assms])
  fix c assume c: "c \<in> set existing \<union> set incoming"
  have "\<exists>x. merge_content cond_key ?m (cond_key c) = Some x \<and> not_newer c x"
  proof (cases "c \<in> set incoming")
    case True
    with merge_newest_patch content show ?thesis unfolding mergeConditions_def by simp
  next
    case False
    with c have "merge_content cond_key existing (cond_key c) = Some c"
      using merge_content_exists [OF assms] by simp
    from merge_newest_base [of "merge_content cond_key existing", OF this] content show ?thesis unfolding mergeConditions_def by simp
  qed
  then obtain x where x: "merge_content cond_key ?m (cond_key c) = Some x" "not_newer c x" by blast
  from merge_content_mem [OF x(1)] x(2) show "\<exists>c' \<in> set ?m. cond_key c' = cond_key c \<and> not_newer c c'" by blast
next
  let ?m = "mergeConditions existing incoming"
  fix x assume x: "x \<in> set ?m"
  have "distinct (map cond_key ?m)"
    unfolding mergeConditions_def by (rule MergeSlices_distinct [OF newest_key assms])
  from merge_content_exists [OF this x]
    MergeSlices_content [of cond_key newest existing incoming, OF newest_key assms]
  have "merge_spec cond_key newest incoming (merge_content cond_key existing) (cond_key x) = Some x"
    unfolding mergeConditions_def by simp
  from merge_newest_origin [OF this] show "x \<in> set existing \<union> set incoming"
    by (auto dest: merge_content_mem)
qed

definition ready_at :: "instant \<Rightarrow> Condition" where
  "ready_at t = \<lparr>cond_Type = Some ''Ready'', cond_Status = Some True, cond_Reason = None, cond_Msg = None,
                 cond_LastTransitionTime = Some t\<rparr>"

theorem mergeConditions_newest_witness:
  "mergeConditions [ready_at 5] [ready_at 3, ready_at 9] = [ready_at 9]
   \<and> distinct (map cond_key (mergeConditions [ready_at 5] [ready_at 3, ready_at 9]))"
proof
  show "mergeConditions [ready_at 5] [ready_at 3, ready_at 9] = [ready_at 9]"
    by (simp add: mergeConditions_def MergeSlices_def merge_base_def merge_step_def ready_at_def cond_key_def newest_def)
  show "distinct (map cond_key (mergeConditions [ready_at 5] [ready_at 3, ready_at 9]))"
    using mergeConditions_newest [of "[ready_at 5]" "[ready_at 3, ready_at 9]"] by simp
qed

section \<open>Masked status updates\<close>

text \<open>
  What a masked update is meant to do: every listed field that the source sets replaces
  the destination's, conditions are merged, the rest is kept. The order of the paths does
  not matter.
\<close>

definition status_paths :: "string list" where
  "status_paths = [''ip'', ''node'', ''phase'', ''id'', ''reason'', ''pid'', ''conditions'']"

definition masked_status :: "string list \<Rightarrow> TaskStatus \<Rightarrow> TaskStatus \<Rightarrow> TaskStatus" where
  "masked_status ps sv d = d\<lparr>
     ts_Ip := pick (''ip'' \<in> set ps) (ts_Ip sv) (ts_Ip d), ts_Node := pick (''node'' \<in> set ps) (ts_Node sv) (ts_Node d),
     ts_Phase := pick (''phase'' \<in> set ps) (ts_Phase sv) (ts_Phase d), ts_Id := pick (''id'' \<in> set ps) (ts_Id sv) (ts_Id d),
     ts_Reason := pick (''reason'' \<in> set ps) (ts_Reason sv) (ts_Reason d), ts_Pid := pick (''pid'' \<in> set ps) (ts_Pid sv) (ts_Pid d),
     ts_Conditions := ((\<lambda>cs. if ts_Conditions sv = [] then cs else mergeConditions cs (ts_Conditions sv))
                         ^^ count_list ps ''conditions'') (ts_Conditions d)\<rparr>"

lemma apply_task_path_unknown:
  "p \<notin> set status_paths \<Longrightarrow> apply_task_path dst src p = Err (unknown_path p)"
  by (simp add: apply_task_path_def status_paths_def)

lemma apply_task_path_known:
  "p \<in> set status_paths \<Longrightarrow> apply_task_path (Some d) (Some sv) p = Ok (Some (masked_status [p] sv d))"
  unfolding status_paths_def list.set insert_iff empty_iff
  by (elim disjE; hypsubst?) (simp_all add: apply_task_path_def copy_field_def masked_status_def pick_def nonempty_def split: option.split)

lemma masked_status_Cons: "masked_status ps sv (masked_status [p] sv d) = masked_status (p # ps) sv d"
  by (rule TaskStatus.equality) (simp_all add: masked_status_def pick_def
      funpow_swap1 [of "\<lambda>cs. mergeConditions cs (ts_Conditions sv)", symmetric])

lemma apply_paths_masked:
  "apply_paths apply_task_path (Some d) (Some sv) ps =
     (case find (\<lambda>p. p \<notin> set status_paths) ps of
        None \<Rightarrow> Ok (Some (masked_status ps sv d))
      | Some p \<Rightarrow> Err (unknown_path p))"
proof (induction ps arbitrary: d)
  case Nil
  show ?case by (simp add: masked_status_def pick_def)
next
  case (Cons p ps)
  show ?case
  proof (cases "p \<in> set status_paths")
    case True
    with Cons show ?thesis by (simp add: apply_task_path_known masked_status_Cons split: option.split)
  next
    case False
    then show ?thesis by (simp add: apply_task_path_unknown)
  qed
qed
section \<open>The service over a repository and a bus\<close>

locale task_service = repository "tsv_Repo l" content tcontent tinv + event_bus "tsv_Exchange l"
  for l :: "('s, 'u, 'w) TaskService" and content tcontent tinv +
  assumes task_messages: "repo_msg (tsv_Repo l) = Task_msg"
begin

lemma Create_stores_and_publishes:
  assumes "codec_roundtrip (repo_codec (tsv_Repo l))"
    and rel: "repo_rel (tsv_Repo l) (content s) A" and "repo_wf A" and fresh: "uid_unused (tsv_Repo l) (content s) (sv_uuid env)"
    and meta: "task_Meta task = Some m" and n: "meta_Name m \<noteq> []" and free: "names A (meta_Name m) = None"
    and t: "t = created (tsv_Repo l) (tsv_uuid l) (sv_uuid env) (sv_t1 env) (sv_t2 env) m task"
    and mar: "proto_Marshal (repo_codec (tsv_Repo l)) t = Ok b"
  shows "\<exists>s'. TaskService_Create l None env task (s, w) =
      andThen (bus_Publish (tsv_Exchange l) None (NewEvent (sv_event env) TaskCreate (AnyTask t) []) (s', w)) (\<lambda>_ st. (Ok t, st))
    \<and> repo_rel (tsv_Repo l) (content s') (spec_Create A (sv_uuid env) (meta_Name m) t)
    \<and> repo_wf (spec_Create A (sv_uuid env) (meta_Name m) t)"
proof -
  have mm: "msg_Meta (repo_msg (tsv_Repo l)) task = Some m" using meta by (simp add: task_messages Task_msg_def)
  note fr = uid_unused_fresh [OF rel fresh]
  have "Codec_Decode (tsv_Repo l) b = Ok t" using assms(1) mar by (simp add: codec_roundtrip_def Codec_Decode_def)
  from Create_refines [OF rel fr mm n free mar [unfolded t] this] repo_wf_Create [OF assms(3) fr free]
  show ?thesis unfolding t by (auto simp: TaskService_Create_def)
qed

lemma Update_stores_and_publishes:
  assumes "codec_roundtrip (repo_codec (tsv_Repo l))"
    and rel: "repo_rel (tsv_Repo l) (content s) A" and "repo_wf A" and wf: "wf_ID i"
    and old: "spec_Get A i = Ok old" and om: "task_Meta old = Some em" and meta: "task_Meta task = Some m"
    and t: "t = task\<lparr>task_Status := task_Status old, task_Meta := Some (preserve_meta em (sv_t1 env) m)\<rparr>"
    and mar: "proto_Marshal (repo_codec (tsv_Repo l)) t = Ok b"
  shows "\<exists>s'. TaskService_Update l None env i task (s, w) =
      (if opt_Equal TaskConfig_Equal (task_Config old) (task_Config task) then (Ok (), (s', w))
       else bus_Publish (tsv_Exchange l) None (NewEvent (sv_event env) TaskUpdate (AnyTask t) []) (s', w))
    \<and> repo_rel (tsv_Repo l) (content s') (spec_Update A i t) \<and> repo_wf (spec_Update A i t)"
proof -
  let ?task = "task\<lparr>task_Status := task_Status old\<rparr>"
  have ms: "msg_Meta (repo_msg (tsv_Repo l)) old = Some em" "msg_Meta (repo_msg (tsv_Repo l)) ?task = Some m"
    using om meta by (simp_all add: task_messages Task_msg_def)
  have tt: "t = msg_setMeta (repo_msg (tsv_Repo l)) (preserve_meta em (sv_t1 env) m) ?task"
    by (simp add: t task_messages Task_msg_def)
  have "Codec_Decode (tsv_Repo l) b = Ok t" using assms(1) mar by (simp add: codec_roundtrip_def Codec_Decode_def)
  from Update_refines [OF rel wf old ms tt mar this] repo_wf_Update [OF assms(3)] Get_refines [OF rel wf] old
  show ?thesis by (auto simp: TaskService_Update_def SpecEqual_def Let_def t)
qed

lemma status_guard:
  assumes "caller_node md = Some node" and "tsv_Manager l ctx (ID_String (tsv_uuid l) i) node st \<noteq> Ok True"
    and "\<forall>p. tsv_Manager l ctx (ID_String (tsv_uuid l) i) node st \<noteq> Panic p"
  shows "TaskService_UpdateStatus l ctx env md i stt paths st = (Err (Sentinel DomErrNotHolder), st)"
  using assms by (auto simp: TaskService_UpdateStatus_def split: result.splits)

end

text \<open>In the server the guard is the lease manager on the same store, and the bus its exchange.\<close>

definition lease_guard_of :: "libs \<Rightarrow> ('s, 'v) LeaseManager \<Rightarrow> ('s, 'w) lease_guard" where
  "lease_guard_of L m ctx r h st = LeaseManager_IsHolder L m ctx r h (fst st)"

definition server_tasks ::
  "Task codec \<Rightarrow> libs \<Rightarrow> (mem, updateTxn) LeaseManager \<Rightarrow> (mem, updateTxn, (mem \<times> 'w) Exchange \<times> 'w) TaskService" where
  "server_tasks cd L m = \<lparr>tsv_Repo = NewTaskRepo inmemory cd, tsv_Exchange = server_bus,
     tsv_Manager = lease_guard_of L m, tsv_errs = lib_errs L, tsv_uuid = lib_uuid L\<rparr>"

text \<open>The same service with the recording bus.\<close>

definition recorded_tasks ::
  "Task codec \<Rightarrow> (mem, Event list) lease_guard \<Rightarrow> uuid_lib \<Rightarrow> (mem, updateTxn, Event list) TaskService" where
  "recorded_tasks cd g ul = \<lparr>tsv_Repo = NewTaskRepo inmemory cd, tsv_Exchange = recording_bus,
     tsv_Manager = g, tsv_errs = lib_errs sample_libs, tsv_uuid = ul\<rparr>"

interpretation rec_tasks: task_service "recorded_tasks cd g ul" map_of mem_tcontent mem_tinv
  for cd g ul
  using mem_tasks.repository_axioms rec_bus.event_bus_axioms
  by (simp add: task_service_def task_service_axioms_def recorded_tasks_def)

interpretation srv_tasks: task_service "server_tasks cd L m" map_of mem_tcontent mem_tinv
  for cd L m
  using mem_tasks.repository_axioms srv.event_bus_axioms
  by (simp add: task_service_def task_service_axioms_def server_tasks_def)

lemma IsHolder_lease:
  assumes "leases m content tcontent tinv" and "leases_ok (lib_uuid L) (lm_db m) (content s) A"
    and "r \<noteq> []" and "lease_at A r = Some cur"
  shows "LeaseManager_IsHolder L m None r h s = Ok (holder_of cur = h)"
proof -
  from assms(2) have "repo_rel (lm_db m) (content s) A" by (simp add: leases_ok_def)
  from leases.Get_lease [OF assms(1) this assms(3)] assms(3,4) show ?thesis
    by (simp add: LeaseManager_IsHolder_def LeaseManager_Get_def keys_Index_def)
qed

lemma IsHolder_free:
  assumes "leases m content tcontent tinv" and "leases_ok (lib_uuid L) (lm_db m) (content s) A"
    and "r \<noteq> []" and "lease_at A r = None"
  shows "LeaseManager_IsHolder L m None r h s = Ok True"
proof -
  from assms(2) have "repo_rel (lm_db m) (content s) A" by (simp add: leases_ok_def)
  from leases.Get_lease [OF assms(1) this assms(3)] assms(3,4) show ?thesis
    by (simp add: LeaseManager_IsHolder_def LeaseManager_Get_def keys_Index_def)
qed

section \<open>Properties of the service\<close>

text \<open>
  Creating a task stores it and announces it: the repository holds the created task
  under its fresh uid and its name, exactly one event is published, of type TaskCreate
  and with the stored task, and the caller gets that task unless a handler panicked.
\<close>

theorem task_create_announced:
  assumes "task_service l content tcontent tinv" and "codec_roundtrip (repo_codec (tsv_Repo l))"
    and "repo_rel (tsv_Repo l) (content s) A" and "repo_wf A" and "uid_unused (tsv_Repo l) (content s) (sv_uuid env)"
    and "task_Meta task = Some m" and "meta_Name m \<noteq> []" and "names A (meta_Name m) = None"
    and "t = created (tsv_Repo l) (tsv_uuid l) (sv_uuid env) (sv_t1 env) (sv_t2 env) m task"
    and "proto_Marshal (repo_codec (tsv_Repo l)) t = Ok b"
  shows "\<exists>s' r st'. bus_Publish (tsv_Exchange l) None (NewEvent (sv_event env) TaskCreate (AnyTask t) []) (s', w) = (r, st')
    \<and> repo_rel (tsv_Repo l) (content s') (spec_Create A (sv_uuid env) (meta_Name m) t)
    \<and> repo_wf (spec_Create A (sv_uuid env) (meta_Name m) t)
    \<and> TaskService_Create l None env task (s, w) = ((case r of Panic p \<Rightarrow> Panic p | _ \<Rightarrow> Ok t), st')"
proof -
  have bus: "event_bus (tsv_Exchange l)" using assms(1) by (simp add: task_service_def)
  obtain s' where s': "TaskService_Create l None env task (s, w) =
      andThen (bus_Publish (tsv_Exchange l) None (NewEvent (sv_event env) TaskCreate (AnyTask t) []) (s', w)) (\<lambda>_ st. (Ok t, st))"
    "repo_rel (tsv_Repo l) (content s') (spec_Create A (sv_uuid env) (meta_Name m) t)"
    "repo_wf (spec_Create A (sv_uuid env) (meta_Name m) t)"
    using task_service.Create_stores_and_publishes [OF assms] by blast
  obtain r st' where pub: "bus_Publish (tsv_Exchange l) None (NewEvent (sv_event env) TaskCreate (AnyTask t) []) (s', w) = (r, st')"
    by (metis surj_pair)
  have "r \<noteq> Err e" for e using event_bus.Publish_no_error [OF bus] pub by (metis fst_conv)
  with s' pub show ?thesis
    by (intro exI [of _ s'] exI [of _ r] exI [of _ st']) (cases r, auto)
qed


definition call_env :: svc_env where
  "call_env = \<lparr>sv_uuid = sample_uid, sv_t1 = 7, sv_t2 = 8, sv_event = ''e1''\<rparr>"

abbreviation (input) demo_tasks :: "(mem, updateTxn, Event list) TaskService" where
  "demo_tasks \<equiv> recorded_tasks sample_codec (\<lambda>_ _ _ _. Ok True) sample_uuid"

lemma demo_tasks_simps [simp]:
  "tsv_Repo (recorded_tasks cd g ul) = NewTaskRepo inmemory cd" "tsv_Exchange (recorded_tasks cd g ul) = recording_bus"
  "tsv_uuid (recorded_tasks cd g ul) = ul" "tsv_Manager (recorded_tasks cd g ul) = g"
  by (simp_all add: recorded_tasks_def)

lemma call_env_simps [simp]:
  "sv_uuid call_env = sample_uid" "sv_t1 call_env = 7" "sv_t2 call_env = 8" "sv_event call_env = ''e1''"
  by (simp_all add: call_env_def)

theorem task_create_announced_witness:
  "\<exists>s'. TaskService_Create demo_tasks None call_env sample_task ([], []) =
     (Ok created_task, (s', [NewEvent ''e1'' TaskCreate (AnyTask created_task) []]))"
proof -
  have rel: "repo_rel (tsv_Repo demo_tasks) (map_of []) empty_repo"
    using repo_rel_empty [of task_repo] by (simp add: fun_eq_iff)
  have n: "meta_Name sample_meta = ''web''" by (simp add: sample_meta_def)
  show ?thesis
    using task_create_announced [OF rec_tasks.task_service_axioms _ rel repo_wf_empty, of call_env sample_task sample_meta
        created_task "''T1''" "[]"] sample_codec_roundtrip sample_unused [of task_repo]
    by (simp add: sample_created sample_marshal n recording_bus_def)
      (auto simp: Task_msg_def sample_task_def recording_bus_def)
qed


text \<open>
  Updating a task replaces its configuration, never its status: the stored status is
  kept whatever the caller sends, the read-only metadata is preserved, and an event of
  type TaskUpdate with the stored task is published exactly when the configuration
  changed.
\<close>

theorem task_update_announced:
  assumes "task_service l content tcontent tinv" and "codec_roundtrip (repo_codec (tsv_Repo l))"
    and "repo_rel (tsv_Repo l) (content s) A" and "repo_wf A" and "wf_ID i"
    and "spec_Get A i = Ok old" and "task_Meta old = Some em" and "task_Meta task = Some m"
    and "t = task\<lparr>task_Status := task_Status old, task_Meta := Some (preserve_meta em (sv_t1 env) m)\<rparr>"
    and "proto_Marshal (repo_codec (tsv_Repo l)) t = Ok b"
  shows "\<exists>s'. repo_rel (tsv_Repo l) (content s') (spec_Update A i t) \<and> repo_wf (spec_Update A i t)
    \<and> (if opt_Equal TaskConfig_Equal (task_Config old) (task_Config task)
       then TaskService_Update l None env i task (s, w) = (Ok (), (s', w))
       else TaskService_Update l None env i task (s, w) =
              bus_Publish (tsv_Exchange l) None (NewEvent (sv_event env) TaskUpdate (AnyTask t) []) (s', w))"
  using task_service.Update_stores_and_publishes [OF assms, of w] by auto

definition web :: ID where
  "web = \<lparr>tag = TagName, raw = ''web''\<rparr>"

definition redis_task :: Task where
  "redis_task = sample_task\<lparr>task_Config := Some (empty_TaskConfig\<lparr>tc_Image := ''redis''\<rparr>)\<rparr>"

definition redis_stored :: Task where
  "redis_stored = redis_task\<lparr>task_Status := Some empty_TaskStatus,
     task_Meta := Some (sample_meta\<lparr>meta_Uid := sample_uid, meta_Created := Some 7, meta_Updated := Some 7,
                                    meta_ResourceVersion := 2, meta_Generation := 1\<rparr>)\<rparr>"

definition redis_codec :: "Task codec" where
  "redis_codec = table_codec [(created_task, ''T1''), (redis_stored, ''T2'')]"

lemma redis_codec_facts:
  "codec_roundtrip redis_codec" "proto_Marshal redis_codec redis_stored = Ok ''T2''"
proof -
  show "codec_roundtrip redis_codec" unfolding redis_codec_def by (rule table_codec_roundtrip) simp
  have "created_task \<noteq> redis_stored"
    by (simp add: redis_stored_def redis_task_def sample_defs)
  then show "proto_Marshal redis_codec redis_stored = Ok ''T2''"
    by (simp add: redis_codec_def table_codec_def)
qed

lemma one_task_redis: "repo_rel (NewTaskRepo inmemory redis_codec) (map_of one_task) one_state"
proof -
  have "uid_key task_repo u = uid_key (NewTaskRepo inmemory redis_codec) u"
      "idx_key task_repo n = idx_key (NewTaskRepo inmemory redis_codec) n"
      "name_key task_repo n = name_key (NewTaskRepo inmemory redis_codec) n" for u n
    by (simp_all add: uid_key_def idx_key_def name_key_def new_repo_defs)
  then show ?thesis
    unfolding one_task_def one_state_def
    by (simp only:) (rule single_rel; simp add: new_repo_prefixes Codec_Decode_def redis_codec_def table_codec_def sample_uid_def)
qed

theorem task_update_announced_witness:
  "\<exists>s'. TaskService_Update (recorded_tasks redis_codec (\<lambda>_ _ _ _. Ok True) sample_uuid) None call_env web redis_task (one_task, [])
     = (Ok (), (s', [NewEvent ''e1'' TaskUpdate (AnyTask redis_stored) []]))"
proof -
  have get: "spec_Get one_state web = Ok created_task"
    by (simp add: spec_Get_def spec_resolve_def one_state_def spec_Create_def web_def)
  have ne: "\<not> opt_Equal TaskConfig_Equal (task_Config created_task) (task_Config redis_task)"
    by (simp add: opt_Equal_def TaskConfig_Equal_def created_task_def redis_task_def sample_task_def empty_TaskConfig_def)
  have t: "redis_stored = redis_task\<lparr>task_Status := task_Status created_task,
      task_Meta := Some (preserve_meta (the (task_Meta created_task)) 7 sample_meta)\<rparr>"
    by (simp add: redis_stored_def redis_task_def created_task_def preserve_meta_def sample_meta_def empty_Meta_def)
  show ?thesis
    using task_update_announced [OF rec_tasks.task_service_axioms, of redis_codec "\<lambda>_ _ _ _. Ok True" sample_uuid one_task
        one_state web created_task "the (task_Meta created_task)" redis_task sample_meta redis_stored call_env "''T2''" "[]"]
      redis_codec_facts one_task_redis one_task_rel(2) get ne t
    by (simp add: web_def wf_ID_def recording_bus_def)
      (auto simp: created_task_def redis_task_def sample_task_def recording_bus_def)
qed


text \<open>
  C16. Who may report a task's status, when the call names the calling node: while a
  lease is stored under the identifier the call uses, its holder and nobody else; with no
  lease under that identifier, anyone. Leases are stored under the task's uid, so a call
  that addresses the task by name is never refused.
\<close>

theorem task_status_guard:
  assumes "leases m content tcontent tinv" and "leases_ok (lib_uuid L) (lm_db m) (content s) A"
    and "tsv_Manager l = lease_guard_of L m" and "ID_String (tsv_uuid l) i = r" and "r \<noteq> []"
    and "caller_node md = Some node"
  shows "TaskService_UpdateStatus l None env md i stt paths (s, w) =
    (if \<exists>cur. lease_at A r = Some cur \<and> holder_of cur \<noteq> node
     then (Err (Sentinel DomErrNotHolder), (s, w))
     else TaskService_updateStatus l None env i stt paths (s, w))"
  using assms(3-6) IsHolder_lease [OF assms(1,2,5), of _ node] IsHolder_free [OF assms(1,2,5), of node]
  by (cases "lease_at A r") (auto simp: TaskService_UpdateStatus_def lease_guard_of_def)

definition from_node :: "string \<Rightarrow> (string, string list) gomap option" where
  "from_node n = Some [(''x-voiyd-node-uid'', [n])]"

definition guarded_tasks :: "(mem, mem \<times> bool, Event list) TaskService" where
  "guarded_tasks = \<lparr>tsv_Repo = NewTaskRepo (badger_DB sample_badger) sample_codec, tsv_Exchange = recording_bus,
     tsv_Manager = lease_guard_of sample_libs sample_lm, tsv_errs = lib_errs sample_libs, tsv_uuid = sample_uuid\<rparr>"

theorem task_status_guard_witness:
  "TaskService_UpdateStatus guarded_tasks None call_env (from_node ''node2'') \<lparr>tag = TagUID, raw = task_uid\<rparr>
      (Some empty_TaskStatus) [''phase''] (lease1_store, []) = (Err (Sentinel DomErrNotHolder), (lease1_store, []))
   \<and> TaskService_UpdateStatus guarded_tasks None call_env (from_node ''node2'') web
      (Some empty_TaskStatus) [''phase''] (lease1_store, [])
     = TaskService_updateStatus guarded_tasks None call_env web (Some empty_TaskStatus) [''phase''] (lease1_store, [])"
proof -
  have g: "tsv_Manager guarded_tasks = lease_guard_of sample_libs sample_lm" by (simp add: guarded_tasks_def)
  have n: "caller_node (from_node ''node2'') = Some ''node2''" by (simp add: caller_node_def from_node_def)
  have i: "ID_String (tsv_uuid guarded_tasks) \<lparr>tag = TagUID, raw = task_uid\<rparr> = task_uid"
      "ID_String (tsv_uuid guarded_tasks) web = ''web''" "task_uid \<noteq> []" "''web'' \<noteq> []" "task_uid \<noteq> ''web''"
    by (simp_all add: guarded_tasks_def ID_String_def ID_AsUUID_def web_def sample_uuid_def task_uid_def UUIDLen_def)
  have "holder_of lease1 = ''node1''" by (simp add: lease1_def)
  moreover have "lease_at lease1_state ''web'' = None"
    using i(5) by (simp add: lease1_state_def lease_at_def spec_Create_def no_leases_def)
  ultimately show ?thesis
    using lease1_ok(2)
      task_status_guard [OF sample_lm_leases lease1_ok(1) g i(1,3) n, of call_env "Some empty_TaskStatus" "[''phase'']" "[]"]
      task_status_guard [OF sample_lm_leases lease1_ok(1) g i(2,4) n, of call_env "Some empty_TaskStatus" "[''phase'']" "[]"]
    by simp
qed

text \<open>
  A masked status update takes the listed fields that the caller sets and no others;
  listed conditions are merged into the stored ones. An empty mask and an unknown path
  are rejected, the first unknown path being the one named.
\<close>

theorem masked_status_update:
  "applyMaskedStatusUpdate (Some d) (Some sv) paths =
     (if paths = [] then Err (StatusErr InvalidArgument ''update_mask is required'')
      else case find (\<lambda>p. p \<notin> set status_paths) paths of
             None \<Rightarrow> Ok (Some (masked_status paths sv d))
           | Some p \<Rightarrow> Err (unknown_path p))"
  by (simp add: applyMaskedStatusUpdate_def apply_paths_masked)

end
