(* ===== verification/Sessions.thy ===== *)
theory Sessions
  imports ServiceBase
begin

text \<open>
  Node sessions, internal/app/node_sessions.go: the sessions of connected nodes, targeted
  delivery to one node, and closing.

  A session is reached through a pointer that the manager's map, the transport and a
  running \<^verbatim>\<open>SendToNode\<close> may hold at once, so sessions live in a heap and the map holds
  addresses. The operations take the manager and the world of its exchange. A
  \<^verbatim>\<open>select\<close> with several ready cases may take any of them: \<open>select_send\<close> and
  \<open>select_next\<close> list the outcomes, and an operation takes the number of the one chosen.
\<close>

section \<open>State\<close>

record nodeSession =
  sess_nodeUID :: string
  sess_nodeName :: string
  sess_node :: "Node option"
  sess_out :: "Event list"
  sess_outClosed :: bool
  sess_closed :: bool

type_synonym sess_ptr = nat

record NodeSessionManager =
  nsm_sessions :: "(string, sess_ptr) gomap"
  nsm_heap :: "nodeSession list"
  nsm_outBuf :: nat

record NodeConnectInput =
  in_NodeUID :: string
  in_NodeName :: string

definition WithOutboundBuffer :: "int \<Rightarrow> NodeSessionManager \<Rightarrow> NodeSessionManager" where
  "WithOutboundBuffer sz m = (if sz > 0 then m\<lparr>nsm_outBuf := nat sz\<rparr> else m)"

definition NewNodeSessionManager :: "(NodeSessionManager \<Rightarrow> NodeSessionManager) list \<Rightarrow> NodeSessionManager" where
  "NewNodeSessionManager opts =
     foldl (\<lambda>m opt. opt m) \<lparr>nsm_sessions = [], nsm_heap = [], nsm_outBuf = 64\<rparr> opts"

definition set_session :: "sess_ptr \<Rightarrow> nodeSession \<Rightarrow> NodeSessionManager \<Rightarrow> NodeSessionManager" where
  "set_session p s m = m\<lparr>nsm_heap := (nsm_heap m)[p := s]\<rparr>"

section \<open>Reading the map\<close>

definition NodeSessionManager_List :: "ctx \<Rightarrow> int \<Rightarrow> NodeSessionManager \<Rightarrow> Node option list res" where
  "NodeSessionManager_List ctx limit m = Ok (map (\<lambda>(_, p). sess_node (nsm_heap m ! p)) (nsm_sessions m))"

definition NodeSessionManager_Set :: "ctx \<Rightarrow> string \<Rightarrow> Node option \<Rightarrow> NodeSessionManager \<Rightarrow> unit res \<times> NodeSessionManager" where
  "NodeSessionManager_Set ctx nodeUID node m =
     (case map_of (nsm_sessions m) nodeUID of
        Some p \<Rightarrow> (Ok (), set_session p ((nsm_heap m ! p)\<lparr>sess_node := node\<rparr>) m)
      | None \<Rightarrow> (Err (Errorf ''node session not found''), m))"

definition NodeSessionManager_Get :: "ctx \<Rightarrow> string \<Rightarrow> NodeSessionManager \<Rightarrow> Node option res" where
  "NodeSessionManager_Get ctx nodeUID m =
     (case map_of (nsm_sessions m) nodeUID of
        Some p \<Rightarrow> Ok (sess_node (nsm_heap m ! p))
      | None \<Rightarrow> Err (Errorf ''node session not found''))"

definition NodeSessionManager_IsNodeConnected :: "string \<Rightarrow> NodeSessionManager \<Rightarrow> bool" where
  "NodeSessionManager_IsNodeConnected nodeUID m \<longleftrightarrow> map_of (nsm_sessions m) nodeUID \<noteq> None"

section \<open>Closing\<close>

text \<open>
  The body of \<^verbatim>\<open>closeOnce\<close> in its steps, which other goroutines can see one by one:
  mark closed, leave the map, close the queue, publish. The exchange is optional.
\<close>

definition close_mark :: "sess_ptr \<Rightarrow> NodeSessionManager \<Rightarrow> NodeSessionManager" where
  "close_mark p m = set_session p ((nsm_heap m ! p)\<lparr>sess_closed := True\<rparr>) m"

definition close_remove :: "sess_ptr \<Rightarrow> NodeSessionManager \<Rightarrow> NodeSessionManager" where
  "close_remove p m =
     (let u = sess_nodeUID (nsm_heap m ! p)
      in if map_of (nsm_sessions m) u = Some p then m\<lparr>nsm_sessions := AList.delete u (nsm_sessions m)\<rparr> else m)"

definition close_out :: "sess_ptr \<Rightarrow> NodeSessionManager \<Rightarrow> NodeSessionManager" where
  "close_out p m = set_session p ((nsm_heap m ! p)\<lparr>sess_outClosed := True\<rparr>) m"

definition close_publish :: "'w bus option \<Rightarrow> string \<Rightarrow> Node option \<Rightarrow> 'w \<Rightarrow> unit res \<times> 'w" where
  "close_publish exchange fresh node w =
     (case (exchange, node) of
        (Some b, Some n) \<Rightarrow>
          (case bus_Publish b None (NewEvent fresh NodeForget (AnyNode n) []) w of
             (Panic x, w') \<Rightarrow> (Panic x, w')
           | (_, w') \<Rightarrow> (Ok (), w'))
      | _ \<Rightarrow> (Ok (), w))"

definition nodeSession_Close ::
  "'w bus option \<Rightarrow> string \<Rightarrow> sess_ptr \<Rightarrow> NodeSessionManager \<times> 'w \<Rightarrow> unit res \<times> (NodeSessionManager \<times> 'w)"
where
  "nodeSession_Close exchange fresh p st =
     (case st of (m, w) \<Rightarrow>
        if sess_closed (nsm_heap m ! p) then (Ok (), (m, w))
        else (let m = close_out p (close_remove p (close_mark p m))
              in case close_publish exchange fresh (sess_node (nsm_heap m ! p)) w of (r, w') \<Rightarrow> (r, (m, w'))))"

section \<open>Connecting\<close>

text \<open>
  The old session is closed after the new one is in the map. \<open>fresh1\<close> and \<open>fresh2\<close> name
  the two events. A nil node packs into an \<^verbatim>\<open>Any\<close> of the node type without content.
\<close>

definition connect_object :: "Node option \<Rightarrow> any" where
  "connect_object node = (case node of Some n \<Rightarrow> AnyNode n | None \<Rightarrow> AnyOther ''voiyd.services.nodes.v1.Node'' [])"

definition new_session :: "Node option \<Rightarrow> NodeConnectInput \<Rightarrow> nodeSession" where
  "new_session node inp = \<lparr>sess_nodeUID = in_NodeUID inp, sess_nodeName = in_NodeName inp, sess_node = node,
     sess_out = [], sess_outClosed = False, sess_closed = False\<rparr>"

definition connect_insert :: "Node option \<Rightarrow> NodeConnectInput \<Rightarrow> NodeSessionManager \<Rightarrow> NodeSessionManager" where
  "connect_insert node inp m =
     m\<lparr>nsm_heap := nsm_heap m @ [new_session node inp],
       nsm_sessions := AList.update (in_NodeUID inp) (length (nsm_heap m)) (nsm_sessions m)\<rparr>"

definition NodeSessionManager_Connect ::
  "'w bus option \<Rightarrow> string \<Rightarrow> string \<Rightarrow> ctx \<Rightarrow> Node option \<Rightarrow> NodeConnectInput \<Rightarrow> NodeSessionManager \<times> 'w
     \<Rightarrow> sess_ptr res \<times> (NodeSessionManager \<times> 'w)"
where
  "NodeSessionManager_Connect exchange fresh1 fresh2 ctx node inp st =
     (case ctx of
        Some e \<Rightarrow> (Err e, st)
      | None \<Rightarrow>
          if in_NodeUID inp = [] then (Err (StatusErr FailedPrecondition ''missing node uid''), st)
          else if in_NodeName inp = [] then (Err (StatusErr FailedPrecondition ''missing node name''), st)
          else
            (let m = fst st;
                 old = map_of (nsm_sessions m) (in_NodeUID inp);
                 st = (connect_insert node inp m, snd st)
             in andThen (case old of None \<Rightarrow> (Ok (), st) | Some p \<Rightarrow> nodeSession_Close exchange fresh1 p st) (\<lambda>_ st.
                case exchange of
                  None \<Rightarrow> (Ok (length (nsm_heap m)), st)
                | Some b \<Rightarrow>
                    (case bus_Publish b ctx (NewEvent fresh2 NodeConnect (connect_object node) []) (snd st) of
                       (Panic x, w') \<Rightarrow> (Panic x, (fst st, w'))
                     | (_, w') \<Rightarrow> (Ok (length (nsm_heap m)), (fst st, w'))))))"

definition NodeSessionManager_Disconnect ::
  "'w bus option \<Rightarrow> string \<Rightarrow> string \<Rightarrow> NodeSessionManager \<times> 'w \<Rightarrow> unit res \<times> (NodeSessionManager \<times> 'w)"
where
  "NodeSessionManager_Disconnect exchange fresh nodeUID st =
     (case map_of (nsm_sessions (fst st)) nodeUID of
        None \<Rightarrow> (Ok (), st)
      | Some p \<Rightarrow> nodeSession_Close exchange fresh p st)"

section \<open>Sending and receiving\<close>

definition not_connected :: "string \<Rightarrow> error" where
  "not_connected nodeUID = Wrapped (''node not connected: '' @ nodeUID) (Sentinel AppErrNodeNotConnected)"

definition queue_full :: "string \<Rightarrow> error" where
  "queue_full nodeUID = Wrapped (''node outbound queue full: '' @ nodeUID) (Sentinel AppErrNodeQueueFull)"

text \<open>
  The ready cases of the two selects. A send on a closed channel is ready and panics; a
  receive from a closed channel is ready once the channel is empty.
\<close>

definition select_send :: "ctx \<Rightarrow> nat \<Rightarrow> string \<Rightarrow> Event \<Rightarrow> nodeSession \<Rightarrow> (unit res \<times> nodeSession) list" where
  "select_send ctx cap nodeUID ev s =
     (case ctx of None \<Rightarrow> [] | Some e \<Rightarrow> [(Err e, s)])
     @ (if sess_closed s then [(Err (not_connected nodeUID), s)] else [])
     @ (if sess_outClosed s then [(Panic ''send on closed channel'', s)]
        else if length (sess_out s) < cap then [(Ok (), s\<lparr>sess_out := sess_out s @ [ev]\<rparr>)] else [])"

definition select_next :: "ctx \<Rightarrow> nodeSession \<Rightarrow> (Event res \<times> nodeSession) list" where
  "select_next ctx s =
     (case ctx of None \<Rightarrow> [] | Some e \<Rightarrow> [(Err e, s)])
     @ (if sess_closed s then [(Err (Sentinel IoEOF), s)] else [])
     @ (case sess_out s of
          ev # evs \<Rightarrow> [(Ok ev, s\<lparr>sess_out := evs\<rparr>)]
        | [] \<Rightarrow> if sess_outClosed s then [(Err (Sentinel IoEOF), s)] else [])"

text \<open>The select of \<^verbatim>\<open>SendToNode\<close> on a session found earlier, with its default case.\<close>

definition send_on ::
  "nat \<Rightarrow> ctx \<Rightarrow> string \<Rightarrow> Event \<Rightarrow> sess_ptr \<Rightarrow> NodeSessionManager \<Rightarrow> unit res \<times> NodeSessionManager"
where
  "send_on choice ctx nodeUID ev p m =
     (let outs = select_send ctx (nsm_outBuf m) nodeUID ev (nsm_heap m ! p)
      in if outs = [] then (Err (queue_full nodeUID), m)
         else (case outs ! (choice mod length outs) of (r, s) \<Rightarrow> (r, set_session p s m)))"

definition NodeSessionManager_SendToNode ::
  "nat \<Rightarrow> ctx \<Rightarrow> string \<Rightarrow> Event option \<Rightarrow> NodeSessionManager \<Rightarrow> unit res \<times> NodeSessionManager"
where
  "NodeSessionManager_SendToNode choice ctx nodeUID ev m =
     (case ctx of
        Some e \<Rightarrow> (Err e, m)
      | None \<Rightarrow>
          if nodeUID = [] then (Err (StatusErr InvalidArgument ''nodeUID is required''), m)
          else
            (case ev of
               None \<Rightarrow> (Err (StatusErr InvalidArgument ''event is required''), m)
             | Some ev \<Rightarrow>
                 (case map_of (nsm_sessions m) nodeUID of
                    None \<Rightarrow> (Err (not_connected nodeUID), m)
                  | Some p \<Rightarrow> send_on choice ctx nodeUID ev p m)))"

definition nodeSession_Handle ::
  "'w bus option \<Rightarrow> ctx \<Rightarrow> Event option \<Rightarrow> NodeSessionManager \<times> 'w \<Rightarrow> unit res \<times> (NodeSessionManager \<times> 'w)"
where
  "nodeSession_Handle exchange ctx ev st =
     (case ctx of
        Some e \<Rightarrow> (Err e, st)
      | None \<Rightarrow>
          (case ev of
             None \<Rightarrow> (Err (StatusErr InvalidArgument ''event is required''), st)
           | Some ev \<Rightarrow>
               (case exchange of
                  None \<Rightarrow> (Err (StatusErr FailedPrecondition ''event exchange is not configured''), st)
                | Some b \<Rightarrow> (case bus_Publish b ctx ev (snd st) of (r, w) \<Rightarrow> (r, (fst st, w))))))"

text \<open>\<open>None\<close> while no case is ready: the call waits.\<close>

definition nodeSession_Next ::
  "nat \<Rightarrow> ctx \<Rightarrow> sess_ptr \<Rightarrow> NodeSessionManager \<Rightarrow> (Event res \<times> NodeSessionManager) option"
where
  "nodeSession_Next choice ctx p m =
     (let outs = select_next ctx (nsm_heap m ! p)
      in if outs = [] then None
         else (case outs ! (choice mod length outs) of (r, s) \<Rightarrow> Some (r, set_session p s m)))"


section \<open>Interleavings\<close>

text \<open>
  The steps concurrent goroutines can take on the sessions, each labelled with the event
  it queues or receives. A send acts on a session that was looked up at any earlier time.
\<close>

datatype label_of_step = Sent sess_ptr Event | Received sess_ptr Event | Quiet

definition send_label :: "sess_ptr \<Rightarrow> Event \<Rightarrow> unit res \<Rightarrow> label_of_step" where
  "send_label p ev r = (if is_Ok r then Sent p ev else Quiet)"

definition next_label :: "sess_ptr \<Rightarrow> Event res \<Rightarrow> label_of_step" where
  "next_label p r = (case r of Ok ev \<Rightarrow> Received p ev | _ \<Rightarrow> Quiet)"

inductive sess_step :: "NodeSessionManager \<Rightarrow> label_of_step \<Rightarrow> NodeSessionManager \<Rightarrow> bool" where
  st_connect: "in_NodeUID inp \<noteq> [] \<Longrightarrow> sess_step m Quiet (connect_insert node inp m)"
| st_mark: "p < length (nsm_heap m) \<Longrightarrow> \<not> sess_closed (nsm_heap m ! p) \<Longrightarrow> sess_step m Quiet (close_mark p m)"
| st_remove: "p < length (nsm_heap m) \<Longrightarrow> sess_closed (nsm_heap m ! p) \<Longrightarrow> sess_step m Quiet (close_remove p m)"
| st_out: "p < length (nsm_heap m) \<Longrightarrow> sess_closed (nsm_heap m ! p) \<Longrightarrow>
           map_of (nsm_sessions m) (sess_nodeUID (nsm_heap m ! p)) \<noteq> Some p \<Longrightarrow> sess_step m Quiet (close_out p m)"
| st_set: "sess_step m Quiet (snd (NodeSessionManager_Set ctx u node m))"
| st_send: "p < length (nsm_heap m) \<Longrightarrow> send_on choice ctx u ev p m = (r, m') \<Longrightarrow> sess_step m (send_label p ev r) m'"
| st_next: "p < length (nsm_heap m) \<Longrightarrow> nodeSession_Next choice ctx p m = Some (r, m') \<Longrightarrow> sess_step m (next_label p r) m'"

inductive sess_run :: "NodeSessionManager \<Rightarrow> label_of_step list \<Rightarrow> NodeSessionManager \<Rightarrow> bool" for m0 where
  sr_refl: "sess_run m0 [] m0"
| sr_step: "sess_run m0 tr m \<Longrightarrow> sess_step m l m' \<Longrightarrow> sess_run m0 (tr @ [l]) m'"

inductive_cases sess_stepE: "sess_step m l m'"

section \<open>Invariant\<close>

definition sess_ok :: "NodeSessionManager \<Rightarrow> bool" where
  "sess_ok m \<longleftrightarrow>
     (\<forall>u p. map_of (nsm_sessions m) u = Some p \<longrightarrow>
        p < length (nsm_heap m) \<and> sess_nodeUID (nsm_heap m ! p) = u \<and> \<not> sess_outClosed (nsm_heap m ! p))
     \<and> (\<forall>p < length (nsm_heap m). sess_outClosed (nsm_heap m ! p) \<longrightarrow> sess_closed (nsm_heap m ! p))
     \<and> (\<forall>p < length (nsm_heap m). length (sess_out (nsm_heap m ! p)) \<le> nsm_outBuf m)"

lemma sess_okD:
  assumes "sess_ok m"
  shows "map_of (nsm_sessions m) u = Some p \<Longrightarrow>
      p < length (nsm_heap m) \<and> sess_nodeUID (nsm_heap m ! p) = u \<and> \<not> sess_outClosed (nsm_heap m ! p)"
    and "q < length (nsm_heap m) \<Longrightarrow> sess_outClosed (nsm_heap m ! q) \<Longrightarrow> sess_closed (nsm_heap m ! q)"
    and "q < length (nsm_heap m) \<Longrightarrow> length (sess_out (nsm_heap m ! q)) \<le> nsm_outBuf m"
  using assms unfolding sess_ok_def by blast+

lemma set_session_simps [simp]:
  "nsm_sessions (set_session p s m) = nsm_sessions m" "nsm_outBuf (set_session p s m) = nsm_outBuf m"
  "length (nsm_heap (set_session p s m)) = length (nsm_heap m)"
  "p < length (nsm_heap m) \<Longrightarrow> nsm_heap (set_session p s m) ! q = (if q = p then s else nsm_heap m ! q)"
  by (simp_all add: set_session_def nth_list_update)

text \<open>A write to one session keeps the invariant when the new session is as good as the old.\<close>

lemma sess_ok_write:
  assumes "sess_ok m" and "p < length (nsm_heap m)"
    and "sess_nodeUID s = sess_nodeUID (nsm_heap m ! p)"
    and "sess_outClosed s \<Longrightarrow> sess_closed s \<and> map_of (nsm_sessions m) (sess_nodeUID s) \<noteq> Some p"
    and "length (sess_out s) \<le> nsm_outBuf m"
  shows "sess_ok (set_session p s m)"
  using assms unfolding sess_ok_def by (auto simp del: set_session_simps(4) simp: set_session_simps(4) [OF assms(2)])

lemma sess_ok_connect:
  assumes "sess_ok m" shows "sess_ok (connect_insert node inp m)"
  using assms unfolding sess_ok_def connect_insert_def new_session_def
  by (auto simp: nth_append less_Suc_eq split: if_splits)

lemma close_remove_simps [simp]:
  "nsm_heap (close_remove p m) = nsm_heap m" "nsm_outBuf (close_remove p m) = nsm_outBuf m"
  by (simp_all add: close_remove_def Let_def)

lemma close_remove_lookup:
  "map_of (nsm_sessions (close_remove p m)) u =
     (if u = sess_nodeUID (nsm_heap m ! p) \<and> map_of (nsm_sessions m) u = Some p then None else map_of (nsm_sessions m) u)"
  by (auto simp: close_remove_def Let_def)

lemma sess_ok_remove: "sess_ok m \<Longrightarrow> sess_ok (close_remove p m)"
  unfolding sess_ok_def close_remove_lookup close_remove_simps by (metis option.distinct(1))

lemma select_send_mem:
  assumes "(r, s') \<in> set (select_send ctx cap u ev s)"
  shows "(s' = s \<and> \<not> is_Ok r) \<or> (r = Ok () \<and> s' = s\<lparr>sess_out := sess_out s @ [ev]\<rparr> \<and> length (sess_out s) < cap
           \<and> \<not> sess_outClosed s)"
  using assms by (auto simp: select_send_def split: option.splits if_splits)

lemma select_next_mem:
  assumes "(r, s') \<in> set (select_next ctx s)"
  shows "(s' = s \<and> \<not> is_Ok r) \<or> (\<exists>ev evs. r = Ok ev \<and> sess_out s = ev # evs \<and> s' = s\<lparr>sess_out := evs\<rparr>)"
  using assms by (cases "sess_out s") (auto simp: select_next_def split: option.splits if_splits)

lemma send_on_cases:
  assumes "send_on choice ctx u ev p m = (r, m')"
  obtains (refused) "\<not> is_Ok r" "m' = set_session p (nsm_heap m ! p) m"
    | (queued) "r = Ok ()" "length (sess_out (nsm_heap m ! p)) < nsm_outBuf m" "\<not> sess_outClosed (nsm_heap m ! p)"
        "m' = set_session p ((nsm_heap m ! p)\<lparr>sess_out := sess_out (nsm_heap m ! p) @ [ev]\<rparr>) m"
proof (cases "select_send ctx (nsm_outBuf m) u ev (nsm_heap m ! p) = []")
  case True
  with assms refused show ?thesis by (auto simp: send_on_def set_session_def)
next
  case False
  let ?outs = "select_send ctx (nsm_outBuf m) u ev (nsm_heap m ! p)"
  obtain s' where c: "?outs ! (choice mod length ?outs) = (r, s')" "m' = set_session p s' m"
    using assms False by (auto simp: send_on_def Let_def split: prod.splits)
  have "(r, s') \<in> set ?outs" using c(1) False nth_mem [of "choice mod length ?outs" ?outs] by simp
  from select_send_mem [OF this] c(2) refused queued show ?thesis by blast
qed

lemma next_cases:
  assumes "nodeSession_Next choice ctx p m = Some (r, m')"
  obtains (idle) "\<not> is_Ok r" "m' = set_session p (nsm_heap m ! p) m"
    | (received) ev evs where "r = Ok ev" "sess_out (nsm_heap m ! p) = ev # evs"
        "m' = set_session p ((nsm_heap m ! p)\<lparr>sess_out := evs\<rparr>) m"
proof -
  let ?outs = "select_next ctx (nsm_heap m ! p)"
  obtain s' where c: "?outs \<noteq> []" "?outs ! (choice mod length ?outs) = (r, s')" "m' = set_session p s' m"
    using assms by (auto simp: nodeSession_Next_def Let_def split: prod.splits if_splits)
  have "(r, s') \<in> set ?outs" using c(1,2) nth_mem [of "choice mod length ?outs" ?outs] by simp
  from select_next_mem [OF this] c(3) show ?thesis
    by (elim disjE exE conjE) (auto intro: idle received)
qed

lemma sess_step_ok: "sess_step m l m' \<Longrightarrow> sess_ok m \<Longrightarrow> sess_ok m'"
proof (induction rule: sess_step.induct)
  case (st_mark p m)
  then show ?case unfolding close_mark_def using sess_okD [OF st_mark(3)] by (intro sess_ok_write) auto
next
  case (st_out p m)
  then show ?case unfolding close_out_def using sess_okD [OF st_out(4)] by (intro sess_ok_write) auto
next
  case (st_set m ctx u node)
  then show ?case using sess_okD [OF st_set]
    by (auto simp: NodeSessionManager_Set_def intro!: sess_ok_write split: option.splits)
next
  case (st_send p m choice ctx u ev r m')
  from st_send(2) show ?case
    by (cases rule: send_on_cases) (use st_send sess_okD [OF st_send(3)] in \<open>auto intro!: sess_ok_write\<close>)
next
  case (st_next p m choice ctx r m')
  from st_next(2) show ?case
    by (cases rule: next_cases) (use st_next sess_okD [OF st_next(3)] in \<open>fastforce intro!: sess_ok_write\<close>)+
qed (simp_all add: sess_ok_connect sess_ok_remove)

lemma new_manager: "opts \<in> lists (range WithOutboundBuffer) \<Longrightarrow>
   nsm_sessions (NewNodeSessionManager opts) = [] \<and> nsm_heap (NewNodeSessionManager opts) = []"
proof -
  have "nsm_sessions (foldl (\<lambda>m opt. opt m) m opts) = nsm_sessions m \<and> nsm_heap (foldl (\<lambda>m opt. opt m) m opts) = nsm_heap m"
    if "opts \<in> lists (range WithOutboundBuffer)" for m :: NodeSessionManager
    using that by (induction opts arbitrary: m) (auto simp: WithOutboundBuffer_def)
  then show "opts \<in> lists (range WithOutboundBuffer) \<Longrightarrow>
     nsm_sessions (NewNodeSessionManager opts) = [] \<and> nsm_heap (NewNodeSessionManager opts) = []"
    by (simp add: NewNodeSessionManager_def)
qed

lemma sess_run_ok: "sess_run m0 tr m \<Longrightarrow> sess_ok m0 \<Longrightarrow> sess_ok m"
  by (induction rule: sess_run.induct) (auto dest: sess_step_ok)


section \<open>Whole operations as runs\<close>

lemma close_states:
  assumes "p < length (nsm_heap m)"
  shows "nsm_heap (close_out p (close_remove p (close_mark p m))) =
      (nsm_heap m)[p := (nsm_heap m ! p)\<lparr>sess_closed := True, sess_outClosed := True\<rparr>]"
    and "map_of (nsm_sessions (close_out p (close_remove p (close_mark p m)))) u =
      (if u = sess_nodeUID (nsm_heap m ! p) \<and> map_of (nsm_sessions m) u = Some p then None else map_of (nsm_sessions m) u)"
  using assms by (auto simp: close_out_def close_mark_def set_session_def close_remove_lookup)

lemma close_run:
  assumes "p < length (nsm_heap m)" and "\<not> sess_closed (nsm_heap m ! p)"
  shows "sess_run m [Quiet, Quiet, Quiet] (close_out p (close_remove p (close_mark p m)))"
proof -
  let ?m1 = "close_mark p m" and ?m2 = "close_remove p (close_mark p m)"
  have "sess_run m ([] @ [Quiet]) ?m1" by (rule sr_step [OF sr_refl st_mark [OF assms]])
  moreover have "sess_step ?m1 Quiet ?m2"
    using assms by (intro st_remove) (simp_all add: close_mark_def)
  ultimately have "sess_run m (([] @ [Quiet]) @ [Quiet]) ?m2" by (rule sr_step)
  moreover have "sess_step ?m2 Quiet (close_out p ?m2)"
    using assms by (intro st_out) (simp_all add: close_mark_def close_remove_lookup)
  ultimately have "sess_run m ((([] @ [Quiet]) @ [Quiet]) @ [Quiet]) (close_out p ?m2)" by (rule sr_step)
  then show ?thesis by simp
qed

text \<open>Connecting over an exchange, from a consistent state.\<close>

lemma close_publish_ok:
  "event_bus b \<Longrightarrow> close_publish (Some b) fresh (Some n) w = bus_Publish b None (NewEvent fresh NodeForget (AnyNode n) []) w"
  by (rule event_bus.Publish_cases [of b None "NewEvent fresh NodeForget (AnyNode n) []" w]) (auto simp: close_publish_def)

section \<open>Properties\<close>

definition sent_on :: "sess_ptr \<Rightarrow> label_of_step list \<Rightarrow> Event list" where
  "sent_on p tr = concat (map (\<lambda>l. case l of Sent q ev \<Rightarrow> if q = p then [ev] else [] | _ \<Rightarrow> []) tr)"

definition received_on :: "sess_ptr \<Rightarrow> label_of_step list \<Rightarrow> Event list" where
  "received_on p tr = concat (map (\<lambda>l. case l of Received q ev \<Rightarrow> if q = p then [ev] else [] | _ \<Rightarrow> []) tr)"

definition queued_on :: "sess_ptr \<Rightarrow> NodeSessionManager \<Rightarrow> Event list" where
  "queued_on p m = (if p < length (nsm_heap m) then sess_out (nsm_heap m ! p) else [])"

lemma trace_simps [simp]:
  "sent_on p [] = []" "received_on p [] = []"
  "sent_on p (tr @ [Sent q ev]) = sent_on p tr @ (if q = p then [ev] else [])"
  "sent_on p (tr @ [Received q ev]) = sent_on p tr" "sent_on p (tr @ [Quiet]) = sent_on p tr"
  "received_on p (tr @ [Received q ev]) = received_on p tr @ (if q = p then [ev] else [])"
  "received_on p (tr @ [Sent q ev]) = received_on p tr" "received_on p (tr @ [Quiet]) = received_on p tr"
  by (simp_all add: sent_on_def received_on_def)

lemma queued_on_set_session:
  "q < length (nsm_heap m) \<Longrightarrow> queued_on p (set_session q s m) = (if p = q then sess_out s else queued_on p m)"
  by (simp add: queued_on_def)

lemma out_after_set_node: "sess_out (xs[i := (xs ! i)\<lparr>sess_node := n\<rparr>] ! p) = sess_out (xs ! p)"
  by (cases "i < length xs") (auto simp: nth_list_update list_update_beyond not_less)

lemma step_fifo:
  assumes "sess_step m l m'" and "sent_on p tr = received_on p tr @ queued_on p m"
  shows "sent_on p (tr @ [l]) = received_on p (tr @ [l]) @ queued_on p m'"
  using assms
proof (induction rule: sess_step.induct)
  case (st_connect inp m node)
  then show ?case by (auto simp: connect_insert_def new_session_def queued_on_def nth_append less_Suc_eq)
next
  case (st_mark q m)
  then show ?case by (simp add: close_mark_def queued_on_set_session) (auto simp: queued_on_def)
next
  case (st_remove q m)
  then show ?case by (simp add: queued_on_def)
next
  case (st_out q m)
  then show ?case by (simp add: close_out_def queued_on_set_session) (auto simp: queued_on_def)
next
  case (st_set m ctx u node)
  then show ?case
    by (auto simp: NodeSessionManager_Set_def set_session_def queued_on_def out_after_set_node split: option.splits)
next
  case (st_send q m choice ctx u ev r m')
  from st_send(2) show ?case
    by (cases rule: send_on_cases) (use st_send in \<open>auto simp: send_label_def queued_on_set_session, auto simp: queued_on_def\<close>)
next
  case (st_next q m choice ctx r m')
  from st_next(2) show ?case
  proof (cases rule: next_cases)
    case idle
    with st_next show ?thesis
      by (cases r) (auto simp: next_label_def queued_on_set_session, auto simp: queued_on_def)
  next
    case (received ev evs)
    with st_next show ?thesis by (auto simp: next_label_def queued_on_set_session queued_on_def)
  qed
qed

text \<open>
  Targeted delivery is a bounded first-in first-out queue: along every interleaving
  of connects, closes, updates, sends and receives, what a session has delivered so far
  followed by what it still queues is exactly the sequence of events whose send
  succeeded, and the queue never exceeds its bound.
\<close>

theorem session_fifo:
  assumes "sess_run m0 tr m" and "nsm_heap m0 = []" and "nsm_sessions m0 = []"
  shows "sent_on p tr = received_on p tr @ queued_on p m \<and> length (queued_on p m) \<le> nsm_outBuf m"
proof -
  have "sess_ok m0" using assms(2,3) by (simp add: sess_ok_def)
  from sess_run_ok [OF assms(1) this] have "length (queued_on p m) \<le> nsm_outBuf m"
    by (simp add: queued_on_def sess_okD(3))
  moreover from assms(1) have "sent_on p tr = received_on p tr @ queued_on p m"
  proof induction
    case sr_refl
    show ?case using assms(2) by (simp add: queued_on_def)
  next
    case (sr_step tr m l m')
    from step_fifo [OF sr_step.hyps(2) sr_step.IH] show ?case .
  qed
  ultimately show ?thesis by simp
qed

definition node_in :: NodeConnectInput where
  "node_in = \<lparr>in_NodeUID = ''n1'', in_NodeName = ''alpha''\<rparr>"

definition one_session :: NodeSessionManager where
  "one_session = connect_insert None node_in (NewNodeSessionManager [WithOutboundBuffer 2])"

lemma one_session_run: "sess_run (NewNodeSessionManager [WithOutboundBuffer 2]) [Quiet] one_session"
  using sr_step [OF sr_refl st_connect [of node_in]]
  by (simp add: one_session_def node_in_def)

lemma one_session_eq:
  "one_session = \<lparr>nsm_sessions = [(''n1'', 0)], nsm_heap = [new_session None node_in], nsm_outBuf = 2\<rparr>"
  by (simp add: one_session_def connect_insert_def NewNodeSessionManager_def WithOutboundBuffer_def node_in_def)

theorem session_fifo_witness:
  "sent_on 0 [Quiet, Sent 0 stop_event] = [stop_event]
   \<and> queued_on 0 (snd (send_on 0 None ''n1'' stop_event 0 one_session)) = [stop_event]"
proof -
  let ?m0 = "NewNodeSessionManager [WithOutboundBuffer 2]" and ?s = "send_on 0 None ''n1'' stop_event 0 one_session"
  have r: "fst ?s = Ok ()"
    by (simp add: send_on_def one_session_eq select_send_def new_session_def)
  have "sess_step one_session (send_label 0 stop_event (fst ?s)) (snd ?s)"
    by (rule st_send) (simp_all add: one_session_eq)
  from sr_step [OF one_session_run this] have run: "sess_run ?m0 ([Quiet] @ [Sent 0 stop_event]) (snd ?s)"
    by (simp add: r send_label_def)
  have m0: "nsm_heap ?m0 = []" "nsm_sessions ?m0 = []" by (simp_all add: NewNodeSessionManager_def WithOutboundBuffer_def)
  have "sent_on 0 [Quiet, Sent 0 stop_event] = [stop_event]" "received_on 0 [Quiet, Sent 0 stop_event] = []"
    by (simp_all add: sent_on_def received_on_def)
  with session_fifo [OF run m0, of 0] show ?thesis by simp
qed

text \<open>
  Sending to a node, with no close running between its lookup and its select, never
  panics in any reachable state, and succeeds exactly by queueing the event at the end of
  the queue of the node's current session; a full queue and a missing session are
  reported as such and change nothing.
\<close>

theorem session_send:
  assumes "sess_run m0 tr m" and "nsm_heap m0 = []" and "nsm_sessions m0 = []" and "u \<noteq> []"
  shows "case NodeSessionManager_SendToNode choice None u (Some ev) m of (r, m') \<Rightarrow>
    (case map_of (nsm_sessions m) u of
       None \<Rightarrow> r = Err (not_connected u) \<and> m' = m
     | Some p \<Rightarrow>
         if r = Ok () then queued_on p m' = queued_on p m @ [ev] \<and> (\<forall>q. q \<noteq> p \<longrightarrow> queued_on q m' = queued_on q m)
         else m' = m \<and> (r = Err (not_connected u) \<or> r = Err (queue_full u) \<and> length (queued_on p m) = nsm_outBuf m))"
proof -
  have "sess_ok m0" using assms(2,3) by (simp add: sess_ok_def)
  note ok = sess_run_ok [OF assms(1) this]
  obtain r m' where s: "NodeSessionManager_SendToNode choice None u (Some ev) m = (r, m')" by (metis surj_pair)
  show ?thesis
  proof (cases "map_of (nsm_sessions m) u")
    case None
    with s assms(4) show ?thesis by (auto simp: NodeSessionManager_SendToNode_def)
  next
    case (Some p)
    let ?x = "nsm_heap m ! p"
    note p = sess_okD(1) [OF ok Some]
    have le: "length (sess_out ?x) \<le> nsm_outBuf m" using sess_okD(3) [OF ok] p by blast
    from s Some assms(4) have so: "send_on choice None u ev p m = (r, m')"
      by (simp add: NodeSessionManager_SendToNode_def)
    then consider "r = Ok ()" "m' = set_session p (?x\<lparr>sess_out := sess_out ?x @ [ev]\<rparr>) m"
      | "r \<noteq> Ok ()" "m' = m" "r = Err (not_connected u) \<or> r = Err (queue_full u) \<and> length (sess_out ?x) = nsm_outBuf m"
      using p le by (fastforce simp: send_on_def select_send_def set_session_def Let_def mod_Suc nth_Cons'
          split: if_splits prod.splits)
    then show ?thesis
      using s Some p by cases (auto simp: queued_on_set_session queued_on_def)
  qed
qed


theorem session_send_witness:
  "case NodeSessionManager_SendToNode 5 None ''n1'' (Some stop_event) one_session of (r, m') \<Rightarrow>
     if r = Ok () then queued_on 0 m' = queued_on 0 one_session @ [stop_event]
     else m' = one_session"
proof -
  have m0: "nsm_heap (NewNodeSessionManager [WithOutboundBuffer 2]) = []" "nsm_sessions (NewNodeSessionManager [WithOutboundBuffer 2]) = []"
    by (simp_all add: NewNodeSessionManager_def WithOutboundBuffer_def)
  have "map_of (nsm_sessions one_session) ''n1'' = Some 0" by (simp add: one_session_eq)
  with session_send [OF one_session_run m0, of "''n1''" stop_event 5] show ?thesis by (auto split: if_splits)
qed

text \<open>
  The race that remains: a send that looked its session up before that session was
  closed can panic with a send on a closed channel, whatever the state; the close is a
  run of the model like any other.
\<close>

theorem session_send_race:
  assumes "map_of (nsm_sessions m) u = Some p" and "sess_ok m" and "\<not> sess_closed (nsm_heap m ! p)"
  shows "\<exists>m'. sess_run m [Quiet, Quiet, Quiet] m' \<and> map_of (nsm_sessions m') u = None
    \<and> send_on 0 None u ev p m' = (Err (not_connected u), m')
    \<and> send_on 1 None u ev p m' = (Panic ''send on closed channel'', m')"
proof -
  let ?m = "close_out p (close_remove p (close_mark p m))"
  note p = sess_okD(1) [OF assms(2,1)]
  have h: "nsm_heap ?m ! p = (nsm_heap m ! p)\<lparr>sess_closed := True, sess_outClosed := True\<rparr>" "p < length (nsm_heap ?m)"
    using p by (simp_all add: close_states(1))
  have same: "set_session p (nsm_heap ?m ! p) ?m = ?m" by (simp add: set_session_def)
  have "select_send None (nsm_outBuf ?m) u ev (nsm_heap ?m ! p) =
      [(Err (not_connected u), nsm_heap ?m ! p), (Panic ''send on closed channel'', nsm_heap ?m ! p)]"
    by (simp add: select_send_def h(1))
  then have "send_on 0 None u ev p ?m = (Err (not_connected u), ?m)"
      "send_on 1 None u ev p ?m = (Panic ''send on closed channel'', ?m)"
    by (simp_all add: send_on_def same)
  moreover have "map_of (nsm_sessions ?m) u = None" using p assms(1) by (simp add: close_states(2))
  moreover have "sess_run m [Quiet, Quiet, Quiet] ?m" using p assms(3) by (intro close_run) auto
  ultimately show ?thesis by blast
qed

theorem session_send_race_witness:
  "\<exists>m'. sess_run one_session [Quiet, Quiet, Quiet] m'
      \<and> send_on 1 None ''n1'' stop_event 0 m' = (Panic ''send on closed channel'', m')"
proof -
  have "map_of (nsm_sessions one_session) ''n1'' = Some 0" "\<not> sess_closed (nsm_heap one_session ! 0)" "sess_ok one_session"
    by (simp_all add: one_session_eq new_session_def sess_ok_def node_in_def)
  with session_send_race [of one_session "''n1''" 0 stop_event] show ?thesis by blast
qed

text \<open>
  A node that connects again takes over: its new session is the current one, the old
  one is closed and gets no more events, the sessions of other nodes stay, and the
  exchange sees NodeForget with the old session's node before NodeConnect with the new
  one. The close of the old session does not remove the new one.
\<close>

theorem session_reconnect:
  assumes "event_bus b" and "sess_ok m" and "map_of (nsm_sessions m) (in_NodeUID inp) = Some p"
    and "\<not> sess_closed (nsm_heap m ! p)" and "sess_node (nsm_heap m ! p) = Some n"
    and "in_NodeUID inp \<noteq> []" and "in_NodeName inp \<noteq> []"
    and "bus_Publish b None (NewEvent f1 NodeForget (AnyNode n) []) w = (Ok (), w1)"
    and "bus_Publish b None (NewEvent f2 NodeConnect (connect_object node) []) w1 = (Ok (), w2)"
  shows "\<exists>m'. NodeSessionManager_Connect (Some b) f1 f2 None node inp (m, w) = (Ok (length (nsm_heap m)), (m', w2))
    \<and> sess_ok m' \<and> map_of (nsm_sessions m') = (map_of (nsm_sessions m))(in_NodeUID inp \<mapsto> length (nsm_heap m))
    \<and> nsm_heap m' ! length (nsm_heap m) = new_session node inp
    \<and> (\<forall>c ev. fst (send_on c None (in_NodeUID inp) ev p m') \<noteq> Ok ())"
proof -
  note p = sess_okD(1) [OF assms(2,3)]
  let ?m1 = "connect_insert node inp m"
  let ?m = "close_out p (close_remove p (close_mark p ?m1))"
  have p1: "p < length (nsm_heap ?m1)" "nsm_heap ?m1 ! p = nsm_heap m ! p"
    using p by (simp_all add: connect_insert_def nth_append)
  have lookup: "map_of (nsm_sessions ?m) = (map_of (nsm_sessions m))(in_NodeUID inp \<mapsto> length (nsm_heap m))"
    unfolding fun_eq_iff close_states(2) [OF p1(1)] p1(2) using p by (auto simp: connect_insert_def)
  have h: "nsm_heap ?m = (nsm_heap ?m1)[p := (nsm_heap m ! p)\<lparr>sess_closed := True, sess_outClosed := True\<rparr>]"
    using close_states(1) [OF p1(1)] p1(2) by simp
  have run: "sess_run ?m1 [Quiet, Quiet, Quiet] ?m"
    using assms(4) p1 by (intro close_run) simp_all
  have ok: "sess_ok ?m" using sess_run_ok [OF run sess_ok_connect [OF assms(2)]] .
  have "sess_node (nsm_heap ?m ! p) = Some n" using p1 assms(5) by (simp add: h)
  then have conn: "NodeSessionManager_Connect (Some b) f1 f2 None node inp (m, w) = (Ok (length (nsm_heap m)), (?m, w2))"
    using assms(3,4,6-9) p1 close_publish_ok [OF assms(1)]
    by (simp add: NodeSessionManager_Connect_def nodeSession_Close_def Let_def)
  have new: "nsm_heap ?m ! length (nsm_heap m) = new_session node inp"
    using p unfolding h by (simp add: connect_insert_def nth_list_update)
  have "fst (send_on c None (in_NodeUID inp) ev p ?m) \<noteq> Ok ()" for c ev
  proof -
    obtain r m' where s: "send_on c None (in_NodeUID inp) ev p ?m = (r, m')" by (metis surj_pair)
    then show ?thesis
    proof (cases rule: send_on_cases)
      case queued
      with p1(1) show ?thesis unfolding h by simp
    qed (use s in auto)
  qed
  with conn ok lookup new show ?thesis by blast
qed

definition alpha :: Node where
  "alpha = \<lparr>node_Version = ''node/v1'', node_Meta = None, node_Config = None, node_Status = None\<rparr>"

definition events_bus :: "Event list bus" where
  "events_bus = \<lparr>bus_Publish = (\<lambda>_ ev evs. (Ok (), evs @ [ev])), bus_Forward = (\<lambda>_ ev evs. (Ok (), evs @ [ev]))\<rparr>"

interpretation ev_bus: event_bus events_bus
  by unfold_locales (simp add: events_bus_def)

theorem session_reconnect_witness:
  "\<exists>m' evs. NodeSessionManager_Connect (Some events_bus) ''e1'' ''e2'' None (Some alpha) node_in
       (connect_insert (Some alpha) node_in (NewNodeSessionManager []), []) = (Ok 1, (m', evs))
     \<and> map ev_Type evs = [NodeForget, NodeConnect] \<and> map_of (nsm_sessions m') ''n1'' = Some 1"
proof -
  let ?m = "connect_insert (Some alpha) node_in (NewNodeSessionManager [])"
  let ?evs = "[NewEvent ''e1'' NodeForget (AnyNode alpha) [], NewEvent ''e2'' NodeConnect (connect_object (Some alpha)) []]"
  have m: "?m = \<lparr>nsm_sessions = [(''n1'', 0)], nsm_heap = [new_session (Some alpha) node_in], nsm_outBuf = 64\<rparr>"
    by (simp add: connect_insert_def NewNodeSessionManager_def node_in_def)
  have c: "sess_ok ?m" "map_of (nsm_sessions ?m) (in_NodeUID node_in) = Some 0" "\<not> sess_closed (nsm_heap ?m ! 0)"
      "sess_node (nsm_heap ?m ! 0) = Some alpha" "in_NodeUID node_in \<noteq> []" "in_NodeName node_in \<noteq> []" "length (nsm_heap ?m) = 1"
    unfolding m by (simp_all add: sess_ok_def new_session_def node_in_def)
  have pub: "bus_Publish events_bus None (NewEvent ''e1'' NodeForget (AnyNode alpha) []) [] = (Ok (), [hd ?evs])"
      "bus_Publish events_bus None (NewEvent ''e2'' NodeConnect (connect_object (Some alpha)) []) [hd ?evs] = (Ok (), ?evs)"
    by (simp_all add: events_bus_def)
  obtain m' where "NodeSessionManager_Connect (Some events_bus) ''e1'' ''e2'' None (Some alpha) node_in (?m, []) =
        (Ok (length (nsm_heap ?m)), (m', ?evs))"
      "map_of (nsm_sessions m') = (map_of (nsm_sessions ?m))(in_NodeUID node_in \<mapsto> length (nsm_heap ?m))"
    using session_reconnect [OF ev_bus.event_bus_axioms c(1-6) pub] by blast
  moreover have "map ev_Type ?evs = [NodeForget, NodeConnect]" by (simp add: NewEvent_def)
  moreover have "in_NodeUID node_in = ''n1''" by (simp add: node_in_def)
  ultimately show ?thesis
    using c(7) by (intro exI [of _ m'] exI [of _ ?evs]) simp
qed

end
