(* ===== verification/NodeService.thy ===== *)
theory NodeService
  imports TaskService Sessions
begin

text \<open>
  The node service, internal/app/node.go, with the session manager and the sender it is
  given as interfaces. \<^verbatim>\<open>Patch\<close> is in theory Patch.
\<close>

section \<open>Interfaces\<close>

text \<open>\<^verbatim>\<open>NodeSender\<close> and \<^verbatim>\<open>SessionManager\<close>, on a state that holds the store first.\<close>

record 'x NodeSender =
  snd_SendToNode :: "ctx \<Rightarrow> string \<Rightarrow> Event option \<Rightarrow> 'x \<Rightarrow> unit res \<times> 'x"
  snd_IsNodeConnected :: "string \<Rightarrow> 'x \<Rightarrow> bool"

record 'x SessionManager =
  smi_Connect :: "ctx \<Rightarrow> Node option \<Rightarrow> NodeConnectInput \<Rightarrow> 'x \<Rightarrow> sess_ptr res \<times> 'x"
  smi_Set :: "ctx \<Rightarrow> string \<Rightarrow> Node option \<Rightarrow> 'x \<Rightarrow> unit res \<times> 'x"

text \<open>
  What a client relies on: sending and setting act on sessions only, never on the store,
  and a send to a node without a session fails.
\<close>

locale node_sender =
  fixes sn :: "('s \<times> 'w) NodeSender"
  assumes Send_keeps_store: "fst (snd (snd_SendToNode sn ctx u ev st)) = fst st"
    and Send_disconnected: "\<not> snd_IsNodeConnected sn u st \<Longrightarrow> \<not> is_Ok (fst (snd_SendToNode sn ctx u ev st))
           \<and> snd (snd_SendToNode sn ctx u ev st) = st"

locale session_manager =
  fixes sm :: "('s \<times> 'w) SessionManager"
  assumes Set_keeps_store: "fst (snd (smi_Set sm ctx u node st)) = fst st"

text \<open>The server's session manager behind both; \<open>ch\<close> resolves a select, \<open>f1\<close> and \<open>f2\<close> name events.\<close>

definition sessions_sender :: "nat \<Rightarrow> ('s \<times> (NodeSessionManager \<times> 'w)) NodeSender" where
  "sessions_sender ch = \<lparr>
     snd_SendToNode = (\<lambda>ctx u ev (s, (m, w)). case NodeSessionManager_SendToNode ch ctx u ev m of (r, m') \<Rightarrow> (r, (s, (m', w)))),
     snd_IsNodeConnected = (\<lambda>u (s, (m, w)). NodeSessionManager_IsNodeConnected u m)\<rparr>"

definition sessions_manager :: "'w bus option \<Rightarrow> string \<Rightarrow> string \<Rightarrow> ('s \<times> (NodeSessionManager \<times> 'w)) SessionManager" where
  "sessions_manager exchange f1 f2 = \<lparr>
     smi_Connect = (\<lambda>ctx node inp (s, mw). case NodeSessionManager_Connect exchange f1 f2 ctx node inp mw of (r, mw') \<Rightarrow> (r, (s, mw'))),
     smi_Set = (\<lambda>ctx u node (s, (m, w)). case NodeSessionManager_Set ctx u node m of (r, m') \<Rightarrow> (r, (s, (m', w))))\<rparr>"

interpretation sess_snd: node_sender "sessions_sender ch" for ch
proof
  fix ctx u ev and st :: "'s \<times> (NodeSessionManager \<times> 'w)"
  obtain s m w where st: "st = (s, (m, w))" by (cases st) auto
  show "fst (snd (snd_SendToNode (sessions_sender ch) ctx u ev st)) = fst st"
    by (simp add: st sessions_sender_def split: prod.splits)
  assume "\<not> snd_IsNodeConnected (sessions_sender ch) u st"
  then show "\<not> is_Ok (fst (snd_SendToNode (sessions_sender ch) ctx u ev st))
      \<and> snd (snd_SendToNode (sessions_sender ch) ctx u ev st) = st"
    by (auto simp: st sessions_sender_def NodeSessionManager_IsNodeConnected_def NodeSessionManager_SendToNode_def
        split: option.splits)
qed

interpretation sess_mgr: session_manager "sessions_manager exchange f1 f2" for exchange f1 f2
  by unfold_locales (auto simp: sessions_manager_def split: prod.splits)

section \<open>Masked status updates\<close>

text \<open>A read through a nil \<^verbatim>\<open>Ip\<close> of the source, or a write through one of the destination, panics.\<close>

definition copy_ip ::
  "(IPStatus \<Rightarrow> 'f option) \<Rightarrow> ('f \<Rightarrow> IPStatus \<Rightarrow> IPStatus) \<Rightarrow> NodeStatus \<Rightarrow> NodeStatus \<Rightarrow> NodeStatus res"
where
  "copy_ip get put dst src =
     bindR (copy_field get put (ns_Ip dst) (ns_Ip src)) (\<lambda>ip. Ok (dst\<lparr>ns_Ip := ip\<rparr>))"

definition apply_node_path :: "NodeStatus \<Rightarrow> NodeStatus \<Rightarrow> string \<Rightarrow> NodeStatus res" where
  "apply_node_path dst src p =
     (let plain = (\<lambda>get put. case get src of None \<Rightarrow> Ok dst | Some v \<Rightarrow> Ok (put (Some v) dst)) in
      if p = ''phase'' then plain ns_Phase (\<lambda>v d. d\<lparr>ns_Phase := v\<rparr>)
      else if p = ''status'' then plain ns_Status (\<lambda>v d. d\<lparr>ns_Status := v\<rparr>)
      else if p = ''hostname'' then plain ns_Hostname (\<lambda>v d. d\<lparr>ns_Hostname := v\<rparr>)
      else if p = ''runtime'' then plain ns_Runtime (\<lambda>v d. d\<lparr>ns_Runtime := v\<rparr>)
      else if p = ''version'' then plain ns_Version (\<lambda>v d. d\<lparr>ns_Version := v\<rparr>)
      else if p = ''conditions'' then
        Ok (if ns_Conditions src = [] then dst else dst\<lparr>ns_Conditions := ns_Conditions src\<rparr>)
      else if p = ''ip.dns'' then copy_ip ip_Dns (\<lambda>v d. d\<lparr>ip_Dns := Some v\<rparr>) dst src
      else if p = ''ip.links'' then copy_ip (\<lambda>s. nonempty (ip_Links s)) (\<lambda>v d. d\<lparr>ip_Links := v\<rparr>) dst src
      else if p = ''ip.addresses'' then copy_ip (\<lambda>s. nonempty (ip_Addresses s)) (\<lambda>v d. d\<lparr>ip_Addresses := v\<rparr>) dst src
      else Err (unknown_path p))"

fun apply_node_paths :: "NodeStatus \<Rightarrow> NodeStatus \<Rightarrow> string list \<Rightarrow> NodeStatus res" where
  "apply_node_paths dst src [] = Ok dst"
| "apply_node_paths dst src (p # ps) = bindR (apply_node_path dst src p) (\<lambda>dst. apply_node_paths dst src ps)"

definition applyMaskedUpdateNode :: "NodeStatus option \<Rightarrow> NodeStatus option \<Rightarrow> string list \<Rightarrow> NodeStatus res" where
  "applyMaskedUpdateNode dst src paths =
     (if paths = [] then Err (StatusErr InvalidArgument ''update_mask is required'')
      else (case (dst, src) of
              (Some d, Some s) \<Rightarrow> apply_node_paths d s paths
            | _ \<Rightarrow> Err (StatusErr InvalidArgument ''src or dst cannot be empty'')))"

section \<open>The service\<close>

record ('s, 'u, 'w) NodeService =
  nsv_Repo :: "(Node, 's, 'u) Repo"
  nsv_Exchange :: "('s \<times> 'w) bus"
  nsv_Manager :: "('s \<times> 'w) SessionManager"
  nsv_Sender :: "('s \<times> 'w) NodeSender"
  nsv_errs :: ext_errs
  nsv_uuid :: uuid_lib

definition NodeService_Get :: "('s, 'u, 'w) NodeService \<Rightarrow> ctx \<Rightarrow> ID \<Rightarrow> 's \<times> 'w \<Rightarrow> Node res \<times> ('s \<times> 'w)" where
  "NodeService_Get l ctx i st = reading (Repo_Get (nsv_Repo l) ctx i) st"

definition NodeService_Create ::
  "('s, 'u, 'w) NodeService \<Rightarrow> ctx \<Rightarrow> svc_env \<Rightarrow> Node \<Rightarrow> 's \<times> 'w \<Rightarrow> Node res \<times> ('s \<times> 'w)"
where
  "NodeService_Create l ctx env node st =
     andThen (on_store (Repo_Create (nsv_Repo l) (nsv_uuid l) ctx (sv_uuid env) (sv_t1 env) (sv_t2 env) node) st)
       (\<lambda>(newNode, node) st.
     andThen (bus_Forward (nsv_Exchange l) ctx (NewEvent (sv_event env) NodeCreate (AnyNode newNode) []) st) (\<lambda>_ st.
     (Ok newNode, st)))"

definition delete_and_forward ::
  "EventType \<Rightarrow> ('s, 'u, 'w) NodeService \<Rightarrow> ctx \<Rightarrow> svc_env \<Rightarrow> ID \<Rightarrow> 's \<times> 'w \<Rightarrow> unit res \<times> ('s \<times> 'w)"
where
  "delete_and_forward ty l ctx env i st =
     andThen (reading (Repo_Get (nsv_Repo l) ctx i) st) (\<lambda>node st.
     andThen (on_store (Repo_Delete (nsv_Repo l) ctx i) st) (\<lambda>_ st.
     bus_Forward (nsv_Exchange l) ctx (NewEvent (sv_event env) ty (AnyNode node) []) st))"

definition NodeService_Delete ::
  "('s, 'u, 'w) NodeService \<Rightarrow> ctx \<Rightarrow> svc_env \<Rightarrow> ID \<Rightarrow> 's \<times> 'w \<Rightarrow> unit res \<times> ('s \<times> 'w)" where
  "NodeService_Delete l ctx env i st = delete_and_forward NodeDelete l ctx env i st"

definition NodeService_Forget ::
  "('s, 'u, 'w) NodeService \<Rightarrow> ctx \<Rightarrow> svc_env \<Rightarrow> ID \<Rightarrow> 's \<times> 'w \<Rightarrow> unit res \<times> ('s \<times> 'w)" where
  "NodeService_Forget l ctx env i st = delete_and_forward NodeForget l ctx env i st"

definition NodeService_List :: "('s, 'u, 'w) NodeService \<Rightarrow> ctx \<Rightarrow> int \<Rightarrow> 's \<times> 'w \<Rightarrow> Node list res \<times> ('s \<times> 'w)" where
  "NodeService_List l ctx limit st = reading (Repo_List (nsv_Repo l) ctx limit) st"

definition NodeService_UpdateStatus ::
  "('s, 'u, 'w) NodeService \<Rightarrow> ctx \<Rightarrow> svc_env \<Rightarrow> ID \<Rightarrow> NodeStatus option \<Rightarrow> string list \<Rightarrow> 's \<times> 'w \<Rightarrow> unit res \<times> ('s \<times> 'w)"
where
  "NodeService_UpdateStatus l ctx env i stt paths st =
     andThen (reading (Repo_Get (nsv_Repo l) ctx i) st) (\<lambda>existingNode st.
     (case applyMaskedUpdateNode (Some (node_status existingNode)) stt paths of
        Panic m \<Rightarrow> (Panic m, st)
      | Err e \<Rightarrow> (Err (StatusErr InvalidArgument (''bad mask: '' @ err_text (nsv_errs l) e)), st)
      | Ok base \<Rightarrow>
          andThen (on_store (Repo_Update (nsv_Repo l) ctx (sv_t1 env) i (existingNode\<lparr>node_Status := Some base\<rparr>)) st)
            (\<lambda>_ st. (Ok (), st))))"

text \<open>\<^verbatim>\<open>changed\<close> holds what \<^verbatim>\<open>SpecEqual\<close> returned, which is true when the two are equal.\<close>

definition NodeService_Update ::
  "('s, 'u, 'w) NodeService \<Rightarrow> ctx \<Rightarrow> svc_env \<Rightarrow> ID \<Rightarrow> Node \<Rightarrow> 's \<times> 'w \<Rightarrow> unit res \<times> ('s \<times> 'w)"
where
  "NodeService_Update l ctx env i node st =
     andThen (reading (Repo_Get (nsv_Repo l) ctx i) st) (\<lambda>existingNode st.
     andThen (on_store (Repo_Update (nsv_Repo l) ctx (sv_t1 env) i node) st) (\<lambda>(updated, node) st.
     andThen (smi_Set (nsv_Manager l) ctx (meta_Uid (getMeta (node_Meta updated))) (Some node) st) (\<lambda>_ st.
     let changed = SpecEqual (opt_Equal NodeConfig_Equal) (\<lambda>(_::unit) _. False) None
                     (node_Config existingNode) (node_Config updated)
     in if changed
        then bus_Forward (nsv_Exchange l) ctx (NewEvent (sv_event env) NodeUpdate (AnyNode updated) []) st
        else (Ok (), st))))"

definition NodeService_Join ::
  "('s, 'u, 'w) NodeService \<Rightarrow> ctx \<Rightarrow> svc_env \<Rightarrow> ID \<Rightarrow> Node \<Rightarrow> 's \<times> 'w \<Rightarrow> Node res \<times> ('s \<times> 'w)"
where
  "NodeService_Join l ctx env i node st =
     (case Repo_Get (nsv_Repo l) ctx i (fst st) of
        Panic m \<Rightarrow> (Panic m, st)
      | Err e \<Rightarrow>
          if errors_Is e RepoErrNotFound
          then andThen (NodeService_Create l ctx env node st) (\<lambda>_ st. (Err e, st))
          else (Err e, st)
      | Ok _ \<Rightarrow>
          andThen (on_store (Repo_Update (nsv_Repo l) ctx (sv_t1 env) i node) st) (\<lambda>(_, node) st.
          andThen (bus_Forward (nsv_Exchange l) ctx (NewEvent (sv_event env) NodeJoin (AnyNode node) []) st) (\<lambda>_ st.
          NodeService_Get l ctx i st)))"

definition NodeService_Connect ::
  "('s, 'u, 'w) NodeService \<Rightarrow> ctx \<Rightarrow> NodeConnectInput \<Rightarrow> 's \<times> 'w \<Rightarrow> sess_ptr res \<times> ('s \<times> 'w)"
where
  "NodeService_Connect l ctx inp st =
     andThen (keys_FromUIDOrName (nsv_uuid l) (in_NodeUID inp) (in_NodeName inp), st) (\<lambda>i st.
     andThen (NodeService_Get l ctx i st) (\<lambda>res st.
     smi_Connect (nsv_Manager l) ctx (Some res) inp st))"

text \<open>
  The loop over the nodes: a node that is skipped or cannot be reached is logged. The
  check of the connection looks at the uid of the request, not of the node. A selector
  that is not nil has an entry, as decoding leaves an empty map nil.
\<close>

fun upgrade_nodes ::
  "('s, 'u, 'w) NodeService \<Rightarrow> ctx \<Rightarrow> svc_env \<Rightarrow> UpgradeRequest \<Rightarrow> Node list \<Rightarrow> 's \<times> 'w \<Rightarrow> unit res \<times> ('s \<times> 'w)"
where
  "upgrade_nodes l ctx env req [] st = (Ok (), st)"
| "upgrade_nodes l ctx env req (n # ns) st =
     (if Matches (NewCompositeSelectorFromMap (up_Selector req)) (meta_Labels (getMeta (node_Meta n)))
      then if \<not> snd_IsNodeConnected (nsv_Sender l) (up_Uid req) st then upgrade_nodes l ctx env req ns st
           else (case snd_SendToNode (nsv_Sender l) ctx (meta_Uid (getMeta (node_Meta n)))
                        (Some (NewEvent (sv_event env) NodeUpgrade (AnyUpgrade req) [])) st of
                   (Panic m, st') \<Rightarrow> (Panic m, st')
                 | (_, st') \<Rightarrow> upgrade_nodes l ctx env req ns st')
      else upgrade_nodes l ctx env req ns st)"

definition NodeService_Upgrade ::
  "('s, 'u, 'w) NodeService \<Rightarrow> ctx \<Rightarrow> svc_env \<Rightarrow> UpgradeRequest \<Rightarrow> 's \<times> 'w \<Rightarrow> unit res \<times> ('s \<times> 'w)"
where
  "NodeService_Upgrade l ctx env req st =
     andThen (if up_Selector req \<noteq> []
              then andThen (reading (Repo_List (nsv_Repo l) ctx 0) st) (\<lambda>ns st. upgrade_nodes l ctx env req ns st)
              else (Ok (), st)) (\<lambda>_ st.
     if up_Uid req \<noteq> []
     then if \<not> snd_IsNodeConnected (nsv_Sender l) (up_Uid req) st then (Err (Sentinel AppErrNodeNotConnected), st)
          else snd_SendToNode (nsv_Sender l) ctx (up_Uid req) (Some (NewEvent (sv_event env) NodeUpgrade (AnyUpgrade req) [])) st
     else (Ok (), st))"

definition NodeService_Condition ::
  "('s, 'u, 'w) NodeService \<Rightarrow> ctx \<Rightarrow> svc_env \<Rightarrow> ID \<Rightarrow> ConditionRequest \<Rightarrow> 's \<times> 'w \<Rightarrow> unit res \<times> ('s \<times> 'w)"
where
  "NodeService_Condition l ctx env i req st =
     (let stt = empty_NodeStatus\<lparr>ns_Conditions := creq_Conditions req\<rparr> in
      andThen (NodeService_UpdateStatus l ctx env i (Some stt) [''conditions''] st) (\<lambda>_ st.
      bus_Publish (nsv_Exchange l) ctx
        (NewEvent (sv_event env) ConditionReported (AnyConditionRequest req) []) st))"


section \<open>The service over a repository\<close>

lemma andThen_return: "andThen (andThen p (\<lambda>_ st. (Ok v, st))) f = andThen p (\<lambda>_ st. f v st)"
  by (cases p; cases "fst p") auto

locale node_service = repository "nsv_Repo l" content tcontent tinv + node_sender "nsv_Sender l" + session_manager "nsv_Manager l"
  for l :: "('s, 'u, 'w) NodeService" and content tcontent tinv +
  assumes node_messages: "repo_msg (nsv_Repo l) = Node_msg"
begin

lemma Create_stores_and_forwards:
  assumes "codec_roundtrip (repo_codec (nsv_Repo l))"
    and rel: "repo_rel (nsv_Repo l) (content s) A" and "repo_wf A" and fresh: "uid_unused (nsv_Repo l) (content s) (sv_uuid env)"
    and meta: "node_Meta node = Some m" and n: "meta_Name m \<noteq> []" and free: "names A (meta_Name m) = None"
    and t: "t = created (nsv_Repo l) (nsv_uuid l) (sv_uuid env) (sv_t1 env) (sv_t2 env) m node"
    and mar: "proto_Marshal (repo_codec (nsv_Repo l)) t = Ok b"
  shows "\<exists>s'. NodeService_Create l None env node (s, w) =
      andThen (bus_Forward (nsv_Exchange l) None (NewEvent (sv_event env) NodeCreate (AnyNode t) []) (s', w)) (\<lambda>_ st. (Ok t, st))
    \<and> repo_rel (nsv_Repo l) (content s') (spec_Create A (sv_uuid env) (meta_Name m) t)
    \<and> repo_wf (spec_Create A (sv_uuid env) (meta_Name m) t)"
proof -
  have mm: "msg_Meta (repo_msg (nsv_Repo l)) node = Some m" using meta by (simp add: node_messages Node_msg_def)
  note fr = uid_unused_fresh [OF rel fresh]
  have "Codec_Decode (nsv_Repo l) b = Ok t" using assms(1) mar by (simp add: codec_roundtrip_def Codec_Decode_def)
  from Create_refines [OF rel fr mm n free mar [unfolded t] this] repo_wf_Create [OF assms(3) fr free]
  show ?thesis unfolding t by (auto simp: NodeService_Create_def)
qed

lemma Update_stores_then_sets:
  assumes "codec_roundtrip (repo_codec (nsv_Repo l))"
    and rel: "repo_rel (nsv_Repo l) (content s) A" and "repo_wf A" and wf: "wf_ID i"
    and old: "spec_Get A i = Ok old" and om: "node_Meta old = Some em" and meta: "node_Meta node = Some m"
    and t: "t = node\<lparr>node_Meta := Some (preserve_meta em (sv_t1 env) m)\<rparr>"
    and mar: "proto_Marshal (repo_codec (nsv_Repo l)) t = Ok b"
  shows "\<exists>s'. NodeService_Update l None env i node (s, w) =
      andThen (smi_Set (nsv_Manager l) None (meta_Uid em) (Some t) (s', w)) (\<lambda>_ st.
        if opt_Equal NodeConfig_Equal (node_Config old) (node_Config node)
        then bus_Forward (nsv_Exchange l) None (NewEvent (sv_event env) NodeUpdate (AnyNode t) []) st
        else (Ok (), st))
    \<and> repo_rel (nsv_Repo l) (content s') (spec_Update A i t) \<and> repo_wf (spec_Update A i t)"
proof -
  have ms: "msg_Meta (repo_msg (nsv_Repo l)) old = Some em" "msg_Meta (repo_msg (nsv_Repo l)) node = Some m"
    using om meta by (simp_all add: node_messages Node_msg_def)
  have tt: "t = msg_setMeta (repo_msg (nsv_Repo l)) (preserve_meta em (sv_t1 env) m) node"
    by (simp add: t node_messages Node_msg_def)
  have uid: "meta_Uid (preserve_meta em (sv_t1 env) m) = meta_Uid em" by (simp add: preserve_meta_def)
  have "Codec_Decode (nsv_Repo l) b = Ok t" using assms(1) mar by (simp add: codec_roundtrip_def Codec_Decode_def)
  from Update_refines [OF rel wf old ms tt mar this] obtain s' where
    "Repo_Update (nsv_Repo l) None (sv_t1 env) i node s = (Ok (t, t), s')" "repo_rel (nsv_Repo l) (content s') (spec_Update A i t)"
    by blast
  moreover have "node_Config t = node_Config node" "meta_Uid (getMeta (node_Meta t)) = meta_Uid em"
    by (simp_all add: t uid)
  ultimately show ?thesis
    using repo_wf_Update [OF assms(3)] Get_refines [OF rel wf] old
    by (intro exI [of _ s']) (simp add: NodeService_Update_def SpecEqual_def Let_def)
qed

lemma Join_absent:
  assumes "repo_rel (nsv_Repo l) (content s) A" and "wf_ID i" and "spec_Get A i = Err (Sentinel RepoErrNotFound)"
  shows "NodeService_Join l None env i node (s, w) =
    andThen (NodeService_Create l None env node (s, w)) (\<lambda>_ st. (Err (Sentinel RepoErrNotFound), st))"
  using Get_refines [OF assms(1,2)] assms(3) by (simp add: NodeService_Join_def)

text \<open>An upgrade request without a uid reaches no node, whatever it selects.\<close>

lemma upgrade_nodes_unreached:
  "\<not> snd_IsNodeConnected (nsv_Sender l) (up_Uid req) st \<Longrightarrow> upgrade_nodes l ctx env req ns st = (Ok (), st)"
  by (induction ns) simp_all

end

text \<open>The server's node service: its sessions publish on the exchange next to the store.\<close>

definition server_nodes ::
  "Node codec \<Rightarrow> libs \<Rightarrow> (mem \<times> (NodeSessionManager \<times> 'w)) bus \<Rightarrow> 'w bus option \<Rightarrow> nat \<Rightarrow> string \<Rightarrow> string
     \<Rightarrow> (mem, updateTxn, NodeSessionManager \<times> 'w) NodeService" where
  "server_nodes cd L b exchange ch f1 f2 = \<lparr>nsv_Repo = NewNodeRepo inmemory cd, nsv_Exchange = b,
     nsv_Manager = sessions_manager exchange f1 f2, nsv_Sender = sessions_sender ch,
     nsv_errs = lib_errs L, nsv_uuid = lib_uuid L\<rparr>"

interpretation srv_nodes: node_service "server_nodes cd L b exchange ch f1 f2" map_of mem_tcontent mem_tinv
  for cd L b exchange ch f1 f2
  using mem_nodes.repository_axioms sess_snd.node_sender_axioms
  by (simp add: node_service_def node_service_axioms_def server_nodes_def sess_mgr.session_manager_axioms)

lemma no_anonymous_session: "sess_run m0 tr m \<Longrightarrow> nsm_sessions m0 = [] \<Longrightarrow> map_of (nsm_sessions m) [] = None"
proof (induction rule: sess_run.induct)
  case (sr_step tr m l m')
  from sr_step.hyps(2) sr_step.IH [OF sr_step.prems] show ?case
  proof (induction rule: sess_step.induct)
    case (st_send p m choice ctx u ev r m')
    from st_send(2) show ?case by (cases rule: send_on_cases) (use st_send in auto)
  next
    case (st_next p m choice ctx r m')
    from st_next(2) show ?case by (cases rule: next_cases) (use st_next in auto)
  qed (auto simp: connect_insert_def close_mark_def close_remove_lookup close_out_def NodeSessionManager_Set_def
         split: option.splits)
qed simp


section \<open>Properties\<close>

text \<open>
  Updating a node stores it, hands the stored node to its session, and then forwards
  a NodeUpdate event when the configuration did \<^emph>\<open>not\<close> change and none when it did; for a
  node without a session the update is stored and the call fails.
\<close>

theorem node_update_announced:
  assumes "node_service l content tcontent tinv" and "codec_roundtrip (repo_codec (nsv_Repo l))"
    and "repo_rel (nsv_Repo l) (content s) A" and "repo_wf A" and "wf_ID i"
    and "spec_Get A i = Ok old" and "node_Meta old = Some em" and "node_Meta node = Some m"
    and "t = node\<lparr>node_Meta := Some (preserve_meta em (sv_t1 env) m)\<rparr>"
    and "proto_Marshal (repo_codec (nsv_Repo l)) t = Ok b"
  shows "\<exists>s'. repo_rel (nsv_Repo l) (content s') (spec_Update A i t) \<and> repo_wf (spec_Update A i t)
    \<and> (case smi_Set (nsv_Manager l) None (meta_Uid em) (Some t) (s', w) of
         (Ok _, st) \<Rightarrow>
           if opt_Equal NodeConfig_Equal (node_Config old) (node_Config node)
           then NodeService_Update l None env i node (s, w) =
                  bus_Forward (nsv_Exchange l) None (NewEvent (sv_event env) NodeUpdate (AnyNode t) []) st
           else NodeService_Update l None env i node (s, w) = (Ok (), st)
       | (Err e, st) \<Rightarrow> NodeService_Update l None env i node (s, w) = (Err e, st) \<and> fst st = s'
       | (Panic x, st) \<Rightarrow> NodeService_Update l None env i node (s, w) = (Panic x, st))"
proof -
  obtain s' where s': "NodeService_Update l None env i node (s, w) =
      andThen (smi_Set (nsv_Manager l) None (meta_Uid em) (Some t) (s', w)) (\<lambda>_ st.
        if opt_Equal NodeConfig_Equal (node_Config old) (node_Config node)
        then bus_Forward (nsv_Exchange l) None (NewEvent (sv_event env) NodeUpdate (AnyNode t) []) st
        else (Ok (), st))"
      "repo_rel (nsv_Repo l) (content s') (spec_Update A i t)" "repo_wf (spec_Update A i t)"
    using node_service.Update_stores_then_sets [OF assms, of w] by blast
  have sm: "session_manager (nsv_Manager l)" using assms(1) by (simp add: node_service_def)
  obtain r st where set: "smi_Set (nsv_Manager l) None (meta_Uid em) (Some t) (s', w) = (r, st)" by (metis surj_pair)
  have "fst st = s'"
    using session_manager.Set_keeps_store [OF sm, of None "meta_Uid em" "Some t" "(s', w)"] set by simp
  with s' set show ?thesis by (intro exI [of _ s']) (cases r, simp_all)
qed

definition mem_rec_bus :: "(mem \<times> (NodeSessionManager \<times> Event list)) bus" where
  "mem_rec_bus = \<lparr>bus_Publish = (\<lambda>_ ev (s, (m, evs)). (Ok (), (s, (m, evs @ [ev])))),
                  bus_Forward = (\<lambda>_ ev (s, (m, evs)). (Ok (), (s, (m, evs @ [ev]))))\<rparr>"

definition beta :: Node where
  "beta = \<lparr>node_Version = ''node/v1'', node_Meta = Some (empty_Meta\<lparr>meta_Name := ''beta''\<rparr>),
     node_Config = Some \<lparr>nc_VolumeDrivers = None\<rparr>, node_Status = None\<rparr>"

definition beta1 :: Node where
  "beta1 = beta\<lparr>node_Meta := Some (empty_Meta\<lparr>meta_Name := ''beta'', meta_Uid := sample_uid, meta_Created := Some 7,
                  meta_Updated := Some 8, meta_ResourceVersion := 1\<rparr>), node_Status := Some empty_NodeStatus\<rparr>"

definition beta2 :: Node where
  "beta2 = beta\<lparr>node_Meta := Some (empty_Meta\<lparr>meta_Name := ''beta'', meta_Uid := sample_uid, meta_Created := Some 7,
                  meta_Updated := Some 7, meta_ResourceVersion := 2, meta_Generation := 1\<rparr>)\<rparr>"

definition beta_codec :: "Node codec" where
  "beta_codec = table_codec [(beta1, ''N1''), (beta2, ''N2'')]"

abbreviation (input) beta_nodes :: "(mem, updateTxn, NodeSessionManager \<times> Event list) NodeService" where
  "beta_nodes \<equiv> server_nodes beta_codec sample_libs mem_rec_bus (Some events_bus) 0 ''f1'' ''f2''"

definition beta_store :: mem where
  "beta_store = [(uid_key (NewNodeRepo inmemory beta_codec) sample_uid, ''N1''),
     (idx_key (NewNodeRepo inmemory beta_codec) ''beta'', uid_value sample_uid),
     (name_key (NewNodeRepo inmemory beta_codec) ''beta'', uid_value sample_uid)]"

definition beta_state :: "Node repo_state" where
  "beta_state = spec_Create empty_repo sample_uid ''beta'' beta1"

definition beta_id :: ID where
  "beta_id = \<lparr>tag = TagName, raw = ''beta''\<rparr>"

lemma beta_codec_facts:
  "codec_roundtrip beta_codec" "proto_Marshal beta_codec beta1 = Ok ''N1''" "proto_Marshal beta_codec beta2 = Ok ''N2''"
proof -
  show "codec_roundtrip beta_codec" unfolding beta_codec_def by (rule table_codec_roundtrip) simp
  have "beta1 \<noteq> beta2" by (simp add: beta1_def beta2_def beta_def)
  then show "proto_Marshal beta_codec beta1 = Ok ''N1''" "proto_Marshal beta_codec beta2 = Ok ''N2''"
    by (simp_all add: beta_codec_def table_codec_def)
qed

lemma beta_nodes_simps [simp]:
  "nsv_Repo (server_nodes cd L b x ch f1 f2) = NewNodeRepo inmemory cd" "nsv_Exchange (server_nodes cd L b x ch f1 f2) = b"
  "nsv_Manager (server_nodes cd L b x ch f1 f2) = sessions_manager x f1 f2"
  "nsv_Sender (server_nodes cd L b x ch f1 f2) = sessions_sender ch" "nsv_uuid (server_nodes cd L b x ch f1 f2) = lib_uuid L"
  by (simp_all add: server_nodes_def)

lemma beta_store_rel: "repo_rel (NewNodeRepo inmemory beta_codec) (map_of beta_store) beta_state" "repo_wf beta_state"
  unfolding beta_store_def beta_state_def
  by (rule single_rel; simp add: new_repo_prefixes Codec_Decode_def beta_codec_def table_codec_def sample_uid_def) (rule single_wf, simp add: sample_uid_def)

theorem node_update_announced_witness:
  "\<exists>s'. NodeService_Update beta_nodes None call_env beta_id beta (beta_store, (NewNodeSessionManager [], []))
     = (Err (Errorf ''node session not found''), (s', (NewNodeSessionManager [], [])))
     \<and> repo_rel (NewNodeRepo inmemory beta_codec) (map_of s') (spec_Update beta_state beta_id beta2)"
proof -
  have get: "spec_Get beta_state beta_id = Ok beta1" "wf_ID beta_id"
    by (simp_all add: spec_Get_def spec_resolve_def beta_state_def spec_Create_def beta_id_def wf_ID_def)
  have t: "beta2 = beta\<lparr>node_Meta := Some (preserve_meta (the (node_Meta beta1)) 7 (empty_Meta\<lparr>meta_Name := ''beta''\<rparr>))\<rparr>"
    by (simp add: beta2_def beta1_def preserve_meta_def empty_Meta_def)
  have m: "node_Meta beta1 = Some (the (node_Meta beta1))" "node_Meta beta = Some (empty_Meta\<lparr>meta_Name := ''beta''\<rparr>)"
    by (simp_all add: beta1_def beta_def)
  have none: "smi_Set (nsv_Manager beta_nodes) None u n (s, (NewNodeSessionManager [], evs))
      = (Err (Errorf ''node session not found''), (s, (NewNodeSessionManager [], evs)))" for u n s and evs :: "Event list"
    by (simp add: sessions_manager_def NodeSessionManager_Set_def NewNodeSessionManager_def)
  show ?thesis
    using node_update_announced [OF srv_nodes.node_service_axioms [of beta_codec sample_libs mem_rec_bus "Some events_bus" 0 "''f1''" "''f2''"],
        of beta_store beta_state beta_id beta1 "the (node_Meta beta1)" beta _ beta2 call_env "''N2''" "(NewNodeSessionManager [], [])"]
      beta_codec_facts beta_store_rel get t m
    by (auto simp: none [simplified])
qed

text \<open>
  A node that joins for the first time is created and announced with NodeCreate, and
  the call still fails with \<^verbatim>\<open>ErrNotFound\<close>.
\<close>

theorem node_join_absent:
  assumes "node_service l content tcontent tinv" and "codec_roundtrip (repo_codec (nsv_Repo l))"
    and "repo_rel (nsv_Repo l) (content s) A" and "repo_wf A" and "uid_unused (nsv_Repo l) (content s) (sv_uuid env)"
    and "node_Meta node = Some m" and "meta_Name m \<noteq> []" and "names A (meta_Name m) = None"
    and "t = created (nsv_Repo l) (nsv_uuid l) (sv_uuid env) (sv_t1 env) (sv_t2 env) m node"
    and "proto_Marshal (repo_codec (nsv_Repo l)) t = Ok b"
    and "wf_ID i" and "spec_Get A i = Err (Sentinel RepoErrNotFound)"
  shows "\<exists>s'. repo_rel (nsv_Repo l) (content s') (spec_Create A (sv_uuid env) (meta_Name m) t)
    \<and> NodeService_Join l None env i node (s, w) =
        andThen (bus_Forward (nsv_Exchange l) None (NewEvent (sv_event env) NodeCreate (AnyNode t) []) (s', w))
          (\<lambda>_ st. (Err (Sentinel RepoErrNotFound), st))"
proof -
  obtain s' where s': "NodeService_Create l None env node (s, w) =
      andThen (bus_Forward (nsv_Exchange l) None (NewEvent (sv_event env) NodeCreate (AnyNode t) []) (s', w)) (\<lambda>_ st. (Ok t, st))"
    "repo_rel (nsv_Repo l) (content s') (spec_Create A (sv_uuid env) (meta_Name m) t)"
    using node_service.Create_stores_and_forwards [OF assms(1-10), of w] by blast
  with node_service.Join_absent [OF assms(1,3,11,12), of env node w] show ?thesis
    by (intro exI [of _ s']) (simp add: andThen_return)
qed

theorem node_join_absent_witness:
  "\<exists>s'. NodeService_Join beta_nodes None call_env beta_id beta ([], (NewNodeSessionManager [], []))
     = (Err (Sentinel RepoErrNotFound), (s', (NewNodeSessionManager [], [NewEvent ''e1'' NodeCreate (AnyNode beta1) []])))
     \<and> repo_rel (NewNodeRepo inmemory beta_codec) (map_of s') (spec_Create empty_repo sample_uid ''beta'' beta1)"
proof -
  have rel: "repo_rel (NewNodeRepo inmemory beta_codec) (map_of []) empty_repo"
    using repo_rel_empty [of "NewNodeRepo inmemory beta_codec"] by (simp add: fun_eq_iff)
  have t: "beta1 = created (NewNodeRepo inmemory beta_codec) sample_uuid sample_uid 7 8 (empty_Meta\<lparr>meta_Name := ''beta''\<rparr>) beta"
    by (simp add: created_def Node_msg_def SpecEqual_def beta1_def beta_def sample_uuid_def node_status_def Let_def empty_Meta_def)
  have m: "node_Meta beta = Some (empty_Meta\<lparr>meta_Name := ''beta''\<rparr>)" "wf_ID beta_id" "lib_uuid sample_libs = sample_uuid"
      "spec_Get empty_repo beta_id = Err (Sentinel RepoErrNotFound)"
    by (simp_all add: beta_def beta_id_def wf_ID_def sample_libs_def spec_Get_def spec_resolve_def)
  show ?thesis
    using node_join_absent [OF srv_nodes.node_service_axioms [of beta_codec sample_libs mem_rec_bus "Some events_bus" 0 "''f1''" "''f2''"],
        of "[]" empty_repo call_env beta "empty_Meta\<lparr>meta_Name := ''beta''\<rparr>" beta1 "''N1''" beta_id "(NewNodeSessionManager [], [])"]
      beta_codec_facts rel t m repo_wf_empty sample_unused [of "NewNodeRepo inmemory beta_codec"]
    by (auto simp: mem_rec_bus_def)
qed

text \<open>
  An upgrade request that selects nodes by label and names no uid reaches nobody: it
  reports success and changes neither a queue nor anything else, since no session can
  belong to the empty uid.
\<close>

theorem node_upgrade_by_selector:
  assumes "sess_run m0 tr m" and "nsm_sessions m0 = []" and "up_Uid req = []"
    and "Repo_List (nsv_Repo (server_nodes cd L b x ch f1 f2)) None 0 s = Ok ns"
  shows "NodeService_Upgrade (server_nodes cd L b x ch f1 f2) None env req (s, (m, w)) = (Ok (), (s, (m, w)))"
proof -
  have "\<not> snd_IsNodeConnected (nsv_Sender (server_nodes cd L b x ch f1 f2)) (up_Uid req) (s, (m, w))"
    using no_anonymous_session [OF assms(1,2)] assms(3)
    by (simp add: sessions_sender_def NodeSessionManager_IsNodeConnected_def)
  from srv_nodes.upgrade_nodes_unreached [OF this] assms(3,4) show ?thesis
    by (simp add: NodeService_Upgrade_def)
qed

definition only_beta :: mem where
  "only_beta = [(uid_key (NewNodeRepo inmemory beta_codec) sample_uid, ''N1'')]"

theorem node_upgrade_by_selector_witness:
  "Repo_List (nsv_Repo beta_nodes) None 0 only_beta = Ok [beta1]
   \<and> Matches (NewCompositeSelectorFromMap [(''env'', [])]) (meta_Labels (getMeta (node_Meta beta1)))
   \<and> NodeService_Upgrade beta_nodes None call_env \<lparr>up_TargetVersion = ''v2'', up_Uid = [], up_Name = [], up_Selector = [(''env'', [])]\<rparr>
       (only_beta, (one_session, [])) = (Ok (), (only_beta, (one_session, [])))"
proof -
  have ls: "Repo_List (nsv_Repo beta_nodes) None 0 only_beta = Ok [beta1]"
    by (simp add: Repo_List_def DB_View_def new_repo_defs inmemory_def viewTxn_List_def only_beta_def
        Codec_Decode_def beta_codec_def table_codec_def)
  moreover have "Matches (NewCompositeSelectorFromMap [(''env'', [])]) (meta_Labels (getMeta (node_Meta beta1)))"
    by (simp add: NewCompositeSelectorFromMap_def Label_Get_def beta1_def empty_Meta_def)
  moreover have "nsm_sessions (NewNodeSessionManager [WithOutboundBuffer 2]) = []"
    by (simp add: NewNodeSessionManager_def WithOutboundBuffer_def)
  ultimately show ?thesis
    using node_upgrade_by_selector [OF one_session_run _ _ ls,
        of "\<lparr>up_TargetVersion = ''v2'', up_Uid = [], up_Name = [], up_Selector = [(''env'', [])]\<rparr>" call_env "[]"]
    by simp
qed

end
