(* ===== verification/VolumeService.thy ===== *)
theory VolumeService
  imports NodeService
begin

text \<open>
  The volume service, internal/app/volume.go. Events are forwarded. \<^verbatim>\<open>Patch\<close> is in theory Patch.
\<close>

section \<open>Operations\<close>

definition apply_volume_path :: "VolStatus option \<Rightarrow> VolStatus option \<Rightarrow> string \<Rightarrow> VolStatus option res" where
  "apply_volume_path dst src p =
     (if p = ''controllers''
      then copy_field (\<lambda>s. nonempty (vs_Controllers s)) (\<lambda>v d. d\<lparr>vs_Controllers := v\<rparr>) dst src
      else Err (unknown_path p))"

definition applyMaskedUpdateVolume :: "VolStatus option \<Rightarrow> VolStatus option \<Rightarrow> string list \<Rightarrow> VolStatus option res" where
  "applyMaskedUpdateVolume dst src paths =
     (if paths = [] then Err (StatusErr InvalidArgument ''update_mask is required'')
      else apply_paths apply_volume_path dst src paths)"

record ('s, 'u, 'w) VolumeService =
  vsv_Repo :: "(Volume, 's, 'u) Repo"
  vsv_Exchange :: "('s \<times> 'w) bus"
  vsv_errs :: ext_errs
  vsv_uuid :: uuid_lib

definition VolumeService_Get :: "('s, 'u, 'w) VolumeService \<Rightarrow> ctx \<Rightarrow> ID \<Rightarrow> 's \<times> 'w \<Rightarrow> Volume res \<times> ('s \<times> 'w)" where
  "VolumeService_Get l ctx i st = reading (Repo_Get (vsv_Repo l) ctx i) st"

definition VolumeService_List :: "('s, 'u, 'w) VolumeService \<Rightarrow> ctx \<Rightarrow> int \<Rightarrow> 's \<times> 'w \<Rightarrow> Volume list res \<times> ('s \<times> 'w)" where
  "VolumeService_List l ctx limit st = reading (Repo_List (vsv_Repo l) ctx limit) st"

definition VolumeService_Create ::
  "('s, 'u, 'w) VolumeService \<Rightarrow> ctx \<Rightarrow> svc_env \<Rightarrow> Volume \<Rightarrow> 's \<times> 'w \<Rightarrow> Volume res \<times> ('s \<times> 'w)"
where
  "VolumeService_Create l ctx env volume st =
     andThen (on_store (Repo_Create (vsv_Repo l) (vsv_uuid l) ctx (sv_uuid env) (sv_t1 env) (sv_t2 env) volume) st)
       (\<lambda>(newVolume, volume) st.
     andThen (bus_Forward (vsv_Exchange l) ctx (NewEvent (sv_event env) VolumeCreate (AnyVolume volume) []) st) (\<lambda>_ st.
     (Ok newVolume, st)))"

definition VolumeService_Delete ::
  "('s, 'u, 'w) VolumeService \<Rightarrow> ctx \<Rightarrow> svc_env \<Rightarrow> ID \<Rightarrow> 's \<times> 'w \<Rightarrow> unit res \<times> ('s \<times> 'w)"
where
  "VolumeService_Delete l ctx env i st =
     andThen (reading (Repo_Get (vsv_Repo l) ctx i) st) (\<lambda>volume st.
     andThen (on_store (Repo_Delete (vsv_Repo l) ctx i) st) (\<lambda>_ st.
     bus_Forward (vsv_Exchange l) ctx (NewEvent (sv_event env) VolumeDelete (AnyVolume volume) []) st))"

definition VolumeService_UpdateStatus ::
  "('s, 'u, 'w) VolumeService \<Rightarrow> ctx \<Rightarrow> svc_env \<Rightarrow> ID \<Rightarrow> VolStatus option \<Rightarrow> string list \<Rightarrow> 's \<times> 'w \<Rightarrow> unit res \<times> ('s \<times> 'w)"
where
  "VolumeService_UpdateStatus l ctx env i stt paths st =
     andThen (reading (Repo_Get (vsv_Repo l) ctx i) st) (\<lambda>existingVolume st.
     (case applyMaskedUpdateVolume (vol_Status existingVolume) stt paths of
        Panic m \<Rightarrow> (Panic m, st)
      | Err e \<Rightarrow> (Err (StatusErr InvalidArgument (''bad mask: '' @ err_text (vsv_errs l) e)), st)
      | Ok base \<Rightarrow>
          andThen (on_store (Repo_Update (vsv_Repo l) ctx (sv_t1 env) i (existingVolume\<lparr>vol_Status := base\<rparr>)) st)
            (\<lambda>_ st. (Ok (), st))))"

text \<open>\<^verbatim>\<open>changed\<close> holds what \<^verbatim>\<open>SpecEqual\<close> returned, which is true when the two are equal.\<close>

definition VolumeService_Update ::
  "('s, 'u, 'w) VolumeService \<Rightarrow> ctx \<Rightarrow> svc_env \<Rightarrow> ID \<Rightarrow> Volume \<Rightarrow> 's \<times> 'w \<Rightarrow> unit res \<times> ('s \<times> 'w)"
where
  "VolumeService_Update l ctx env i volume st =
     andThen (reading (Repo_Get (vsv_Repo l) ctx i) st) (\<lambda>existingVolume st.
     andThen (on_store (Repo_Update (vsv_Repo l) ctx (sv_t1 env) i volume) st) (\<lambda>(updated, volume) st.
     let changed = SpecEqual (opt_Equal VolConfig_Equal) (\<lambda>(_::unit) _. False) None
                     (vol_Config existingVolume) (vol_Config updated)
     in if changed
        then bus_Forward (vsv_Exchange l) ctx (NewEvent (sv_event env) VolumeUpdate (AnyVolume updated) []) st
        else (Ok (), st)))"

definition VolumeService_Condition ::
  "('s, 'u, 'w) VolumeService \<Rightarrow> ctx \<Rightarrow> svc_env \<Rightarrow> ID \<Rightarrow> ConditionRequest \<Rightarrow> 's \<times> 'w \<Rightarrow> unit res \<times> ('s \<times> 'w)"
where
  "VolumeService_Condition l ctx env i req st =
     (let stt = empty_VolStatus\<lparr>vs_Conditions := creq_Conditions req\<rparr> in
      andThen (VolumeService_UpdateStatus l ctx env i (Some stt) [''conditions''] st) (\<lambda>_ st.
      bus_Publish (vsv_Exchange l) ctx
        (NewEvent (sv_event env) ConditionReported (AnyConditionRequest req) []) st))"

section \<open>The service over a repository\<close>

locale volume_service = repository "vsv_Repo l" content tcontent tinv
  for l :: "('s, 'u, 'w) VolumeService" and content tcontent tinv +
  assumes volume_messages: "repo_msg (vsv_Repo l) = Volume_msg"
begin

lemma Update_stores_and_forwards:
  assumes "codec_roundtrip (repo_codec (vsv_Repo l))"
    and rel: "repo_rel (vsv_Repo l) (content s) A" and "repo_wf A" and wf: "wf_ID i"
    and old: "spec_Get A i = Ok old" and om: "vol_Meta old = Some em" and meta: "vol_Meta volume = Some m"
    and t: "t = volume\<lparr>vol_Meta := Some (preserve_meta em (sv_t1 env) m)\<rparr>"
    and mar: "proto_Marshal (repo_codec (vsv_Repo l)) t = Ok b"
  shows "\<exists>s'. VolumeService_Update l None env i volume (s, w) =
      (if opt_Equal VolConfig_Equal (vol_Config old) (vol_Config volume)
       then bus_Forward (vsv_Exchange l) None (NewEvent (sv_event env) VolumeUpdate (AnyVolume t) []) (s', w)
       else (Ok (), (s', w)))
    \<and> repo_rel (vsv_Repo l) (content s') (spec_Update A i t) \<and> repo_wf (spec_Update A i t)"
proof -
  have ms: "msg_Meta (repo_msg (vsv_Repo l)) old = Some em" "msg_Meta (repo_msg (vsv_Repo l)) volume = Some m"
    using om meta by (simp_all add: volume_messages Volume_msg_def)
  have tt: "t = msg_setMeta (repo_msg (vsv_Repo l)) (preserve_meta em (sv_t1 env) m) volume"
    by (simp add: t volume_messages Volume_msg_def)
  have "Codec_Decode (vsv_Repo l) b = Ok t" using assms(1) mar by (simp add: codec_roundtrip_def Codec_Decode_def)
  from Update_refines [OF rel wf old ms tt mar this] obtain s' where
    "Repo_Update (vsv_Repo l) None (sv_t1 env) i volume s = (Ok (t, t), s')" "repo_rel (vsv_Repo l) (content s') (spec_Update A i t)"
    by blast
  moreover have "vol_Config t = vol_Config volume" by (simp add: t)
  ultimately show ?thesis
    using repo_wf_Update [OF assms(3)] Get_refines [OF rel wf] old
    by (intro exI [of _ s']) (simp add: VolumeService_Update_def SpecEqual_def Let_def)
qed

lemma Condition_rejected:
  assumes "repo_rel (vsv_Repo l) (content s) A" and "wf_ID i" and "spec_Get A i = Ok vol"
  shows "VolumeService_Condition l None env i req (s, w) =
    (Err (StatusErr InvalidArgument (''bad mask: '' @ err_text (vsv_errs l) (unknown_path ''conditions''))), (s, w))"
  using Get_refines [OF assms(1,2)] assms(3)
  by (simp add: VolumeService_Condition_def VolumeService_UpdateStatus_def applyMaskedUpdateVolume_def
      apply_volume_path_def Let_def)

end

definition server_volumes :: "Volume codec \<Rightarrow> libs \<Rightarrow> (mem \<times> 'w) bus \<Rightarrow> (mem, updateTxn, 'w) VolumeService" where
  "server_volumes cd L b = \<lparr>vsv_Repo = NewVolumeRepo inmemory cd, vsv_Exchange = b, vsv_errs = lib_errs L, vsv_uuid = lib_uuid L\<rparr>"

interpretation srv_volumes: volume_service "server_volumes cd L b" map_of mem_tcontent mem_tinv
  for cd L b
  using mem_volumes.repository_axioms
  by (simp add: volume_service_def volume_service_axioms_def server_volumes_def)

section \<open>Properties\<close>

text \<open>
  No condition can be reported on a volume: for every stored volume and every request
  the call is refused as a bad mask, and nothing is stored or published.
\<close>

theorem volume_condition_rejected:
  assumes "volume_service l content tcontent tinv"
    and "repo_rel (vsv_Repo l) (content s) A" and "wf_ID i" and "spec_Get A i = Ok vol"
  shows "VolumeService_Condition l None env i req (s, w) =
    (Err (StatusErr InvalidArgument (''bad mask: '' @ err_text (vsv_errs l) (unknown_path ''conditions''))), (s, w))"
  using volume_service.Condition_rejected [OF assms] .

definition data_volume :: Volume where
  "data_volume = \<lparr>vol_Version = ''volume/v1'', vol_Meta = Some (empty_Meta\<lparr>meta_Name := ''data'', meta_Uid := sample_uid\<rparr>),
     vol_Config = None, vol_Status = Some empty_VolStatus\<rparr>"

abbreviation (input) data_repo :: "(Volume, mem, updateTxn) Repo" where
  "data_repo \<equiv> NewVolumeRepo inmemory (table_codec [(data_volume, ''V'')])"

definition data_store :: mem where
  "data_store = [(uid_key data_repo sample_uid, ''V''), (idx_key data_repo ''data'', uid_value sample_uid),
                 (name_key data_repo ''data'', uid_value sample_uid)]"

lemma data_store_rel: "repo_rel data_repo (map_of data_store) (spec_Create empty_repo sample_uid ''data'' data_volume)"
  unfolding data_store_def
  by (rule single_rel; simp add: new_repo_prefixes Codec_Decode_def table_codec_def sample_uid_def)

theorem volume_condition_rejected_witness:
  "VolumeService_Condition (server_volumes (table_codec [(data_volume, ''V'')]) sample_libs recording_bus) None call_env
     \<lparr>tag = TagName, raw = ''data''\<rparr> \<lparr>creq_ResourceVersion = [], creq_TaskId = [], creq_Conditions = []\<rparr>
     (data_store, [])
   = (Err (StatusErr InvalidArgument ''bad mask: error''), (data_store, []))"
proof -
  have get: "wf_ID \<lparr>tag = TagName, raw = ''data''\<rparr>"
      "spec_Get (spec_Create empty_repo sample_uid ''data'' data_volume) \<lparr>tag = TagName, raw = ''data''\<rparr> = Ok data_volume"
    by (simp_all add: wf_ID_def spec_Get_def spec_resolve_def spec_Create_def)
  have rel: "repo_rel (vsv_Repo (server_volumes (table_codec [(data_volume, ''V'')]) sample_libs recording_bus)) (map_of data_store)
      (spec_Create empty_repo sample_uid ''data'' data_volume)"
    using data_store_rel by (simp add: server_volumes_def)
  from volume_condition_rejected [OF srv_volumes.volume_service_axioms rel get] show ?thesis
    by (simp add: server_volumes_def sample_libs_def sample_ext_def)
qed

end
