(* ===== verification/SmallServices.thy ===== *)
theory SmallServices
  imports VolumeService
begin

text \<open>
  The event, lease and log services: internal/app/event.go, lease.go and log.go. The
  lease service's store is the lease manager of LeaseManager, as the server wires it.
\<close>

section \<open>Events\<close>

record ('s, 'u, 'w) EventService =
  esv_Repo :: "(Event, 's, 'u) Repo"
  esv_Exchange :: "('s \<times> 'w) bus"
  esv_Manager :: "('s \<times> 'w) SessionManager"
  esv_uuid :: uuid_lib

definition EventService_Get :: "('s, 'u, 'w) EventService \<Rightarrow> ctx \<Rightarrow> ID \<Rightarrow> 's \<times> 'w \<Rightarrow> Event res \<times> ('s \<times> 'w)" where
  "EventService_Get n ctx i st = reading (Repo_Get (esv_Repo n) ctx i) st"

definition EventService_Create ::
  "('s, 'u, 'w) EventService \<Rightarrow> ctx \<Rightarrow> svc_env \<Rightarrow> Event \<Rightarrow> 's \<times> 'w \<Rightarrow> Event res \<times> ('s \<times> 'w)"
where
  "EventService_Create n ctx env event st =
     andThen (on_store (Repo_Create (esv_Repo n) (esv_uuid n) ctx (sv_uuid env) (sv_t1 env) (sv_t2 env) event) st)
       (\<lambda>(res, _) st. (Ok res, st))"

definition EventService_Delete :: "('s, 'u, 'w) EventService \<Rightarrow> ctx \<Rightarrow> ID \<Rightarrow> 's \<times> 'w \<Rightarrow> unit res \<times> ('s \<times> 'w)" where
  "EventService_Delete n ctx i st = on_store (Repo_Delete (esv_Repo n) ctx i) st"

definition EventService_List :: "('s, 'u, 'w) EventService \<Rightarrow> ctx \<Rightarrow> int \<Rightarrow> 's \<times> 'w \<Rightarrow> Event list res \<times> ('s \<times> 'w)" where
  "EventService_List n ctx limit st = reading (Repo_List (esv_Repo n) ctx limit) st"

definition EventService_Publish ::
  "('s, 'u, 'w) EventService \<Rightarrow> ctx \<Rightarrow> svc_env \<Rightarrow> Event \<Rightarrow> 's \<times> 'w \<Rightarrow> Event res \<times> ('s \<times> 'w)"
where
  "EventService_Publish n ctx env ev st =
     andThen (on_store (Repo_Create (esv_Repo n) (esv_uuid n) ctx (sv_uuid env) (sv_t1 env) (sv_t2 env) ev) st)
       (\<lambda>(res, _) st.
     andThen (bus_Publish (esv_Exchange n) ctx res st) (\<lambda>_ st. (Ok res, st)))"

definition EventService_Subscribe ::
  "('s, 'u, 'w) EventService \<Rightarrow> ctx \<Rightarrow> NodeConnectInput \<Rightarrow> 's \<times> 'w \<Rightarrow> sess_ptr res \<times> ('s \<times> 'w)" where
  "EventService_Subscribe n ctx inp st = smi_Connect (esv_Manager n) ctx None inp st"

section \<open>Leases\<close>

record ('s, 'u, 'w) LeaseService =
  lsv_Exchange :: "('s \<times> 'w) bus"
  lsv_LeaseTTL :: uint32
  lsv_Manager :: "('s, 'u) LeaseManager"
  lsv_libs :: libs

text \<open>\<^verbatim>\<open>time.Duration(l.LeaseTTL)\<close> is that many nanoseconds.\<close>

definition lease_duration :: "('s, 'u, 'w) LeaseService \<Rightarrow> int" where
  "lease_duration l = uint (lsv_LeaseTTL l)"

definition LeaseService_Get :: "('s, 'u, 'w) LeaseService \<Rightarrow> ctx \<Rightarrow> string \<Rightarrow> 's \<times> 'w \<Rightarrow> Lease res \<times> ('s \<times> 'w)" where
  "LeaseService_Get l ctx taskID st = reading (LeaseManager_Get (lsv_Manager l) ctx taskID) st"

definition LeaseService_List :: "('s, 'u, 'w) LeaseService \<Rightarrow> ctx \<Rightarrow> 's \<times> 'w \<Rightarrow> Lease list res \<times> ('s \<times> 'w)" where
  "LeaseService_List l ctx st = reading (LeaseManager_List (lsv_Manager l) ctx) st"

text \<open>An error of the publish is only logged.\<close>

definition LeaseService_Acquire ::
  "('s, 'u, 'w) LeaseService \<Rightarrow> ctx \<Rightarrow> env \<Rightarrow> string \<Rightarrow> string \<Rightarrow> string \<Rightarrow> 's \<times> 'w \<Rightarrow> (Lease \<times> string) res \<times> ('s \<times> 'w)"
where
  "LeaseService_Acquire l ctx env fresh taskID nodeID st =
     andThen (on_store (LeaseManager_Acquire (lsv_libs l) (lsv_Manager l) ctx env taskID nodeID (lease_duration l)) st)
       (\<lambda>(lease, token) st.
     case bus_Publish (lsv_Exchange l) ctx (NewEvent fresh LeaseAcquired (AnyLease lease) []) st of
       (Panic m, st) \<Rightarrow> (Panic m, st)
     | (_, st) \<Rightarrow> (Ok (lease, token), st))"

definition LeaseService_Revoke ::
  "('s, 'u, 'w) LeaseService \<Rightarrow> ctx \<Rightarrow> string \<Rightarrow> string \<Rightarrow> 's \<times> 'w \<Rightarrow> unit res \<times> ('s \<times> 'w)" where
  "LeaseService_Revoke l ctx taskID holderID st =
     on_store (LeaseManager_Revoke (lsv_libs l) (lsv_Manager l) ctx taskID holderID) st"

definition LeaseService_Release ::
  "('s, 'u, 'w) LeaseService \<Rightarrow> ctx \<Rightarrow> string \<Rightarrow> string \<Rightarrow> string \<Rightarrow> 's \<times> 'w \<Rightarrow> unit res \<times> ('s \<times> 'w)" where
  "LeaseService_Release l ctx taskID holderID token st =
     on_store (LeaseManager_Release (lsv_libs l) (lsv_Manager l) ctx taskID holderID token) st"

definition LeaseService_Renew ::
  "('s, 'u, 'w) LeaseService \<Rightarrow> ctx \<Rightarrow> env \<Rightarrow> string \<Rightarrow> string \<Rightarrow> string \<Rightarrow> 's \<times> 'w \<Rightarrow> (Lease \<times> string) res \<times> ('s \<times> 'w)" where
  "LeaseService_Renew l ctx env taskID nodeID token st =
     on_store (LeaseManager_Renew (lsv_libs l) (lsv_Manager l) ctx env taskID nodeID (lease_duration l) token) st"

section \<open>Logs\<close>

record 'x LogService =
  lgs_Sender :: "'x NodeSender"

definition LogService_SendStartLogsCommand :: "'x LogService \<Rightarrow> ctx \<Rightarrow> string \<Rightarrow> TailLogRequest \<Rightarrow> 'x \<Rightarrow> unit res \<times> 'x" where
  "LogService_SendStartLogsCommand s ctx fresh req st =
     snd_SendToNode (lgs_Sender s) ctx (tl_NodeId req) (Some (NewEvent fresh TailLogsStart (AnyTailLog req) [])) st"

definition LogService_SendStopLogsCommand :: "'x LogService \<Rightarrow> ctx \<Rightarrow> string \<Rightarrow> TailLogRequest \<Rightarrow> 'x \<Rightarrow> unit res \<times> 'x" where
  "LogService_SendStopLogsCommand s ctx fresh req st =
     snd_SendToNode (lgs_Sender s) ctx (tl_NodeId req) (Some (NewEvent fresh TailLogsStop (AnyTailLog req) [])) st"

section \<open>Leases over the service\<close>

text \<open>A publish announces a lease exactly when it was granted.\<close>

lemma LeaseService_Acquire_cases:
  assumes "event_bus (lsv_Exchange l)"
    and "LeaseManager_Acquire (lsv_libs l) (lsv_Manager l) ctx env r h (lease_duration l) s = (res, s')"
  shows "LeaseService_Acquire l ctx env fresh r h (s, w) =
    (case res of
       Ok (lease, token) \<Rightarrow>
         andThen (bus_Publish (lsv_Exchange l) ctx (NewEvent fresh LeaseAcquired (AnyLease lease) []) (s', w))
           (\<lambda>_ st. (Ok (lease, token), st))
     | Err e \<Rightarrow> (Err e, (s', w))
     | Panic m \<Rightarrow> (Panic m, (s', w)))"
proof (cases res)
  case (Ok a)
  then obtain lease token where a: "res = Ok (lease, token)" by (cases a) auto
  show ?thesis
    by (rule event_bus.Publish_cases [OF assms(1), of ctx "NewEvent fresh LeaseAcquired (AnyLease lease) []" "(s', w)"])
      (simp_all add: LeaseService_Acquire_def on_store_simps(1) [of _ s res s'] assms(2) a)
qed (simp_all add: LeaseService_Acquire_def on_store_simps(1) [of _ s res s'] assms(2))

end
