(* ===== verification/LogExchange.thy ===== *)
theory LogExchange
  imports Exchange
begin

text \<open>
  The log exchange, pkg/events/log_exchange.go: subscribers of one node, task and session
  get the log lines of that key through buffered channels of a hundred entries. Channels
  live in a heap of their own, since publishers and subscribers share them: a channel is
  its buffer and whether it is closed. Sending on a closed channel panics.
\<close>

record LogKey =
  NodeID :: string
  TaskID :: string
  SessionID :: string

record log_chan =
  buf :: "LogEntry list"
  chan_closed :: bool

record LogExchange =
  log_topics :: "(LogKey, chan_id list) gomap"
  chans :: "(chan_id, log_chan) gomap"
  next_id :: chan_id

definition new_LogExchange :: LogExchange where
  "new_LogExchange = \<lparr>log_topics = [], chans = [], next_id = 0\<rparr>"

definition subs_at :: "LogExchange \<Rightarrow> LogKey \<Rightarrow> chan_id list" where
  "subs_at lx key = (case map_of (log_topics lx) key of None \<Rightarrow> [] | Some subs \<Rightarrow> subs)"

text \<open>\<^verbatim>\<open>remove1\<close> drops the first channel equal to the given one, as the loop with \<^verbatim>\<open>break\<close> does.\<close>

definition LogExchange_Unsubscribe :: "LogKey \<Rightarrow> chan_id \<Rightarrow> LogExchange \<Rightarrow> LogExchange" where
  "LogExchange_Unsubscribe key ch lx =
     (let subs = subs_at lx key;
          tp = (if ch \<in> set subs then AList.update key (remove1 ch subs) (log_topics lx) else log_topics lx);
          left = (case map_of tp key of None \<Rightarrow> [] | Some s \<Rightarrow> s)
      in lx\<lparr>log_topics := (if left = [] then AList.delete key tp else tp)\<rparr>)"

definition chan_close :: "chan_id \<Rightarrow> (chan_id, log_chan) gomap \<Rightarrow> unit res \<times> (chan_id, log_chan) gomap" where
  "chan_close ch h =
     (case map_of h ch of
        None \<Rightarrow> (Panic ''close of nil channel'', h)
      | Some c \<Rightarrow> if chan_closed c then (Panic ''close of closed channel'', h)
                 else (Ok (), AList.update ch (c\<lparr>chan_closed := True\<rparr>) h))"

fun close_all :: "chan_id list \<Rightarrow> (chan_id, log_chan) gomap \<Rightarrow> unit res \<times> (chan_id, log_chan) gomap" where
  "close_all [] h = (Ok (), h)"
| "close_all (ch # chs) h = andThen (chan_close ch h) (\<lambda>_ h. close_all chs h)"

definition LogExchange_CloseKey :: "LogKey \<Rightarrow> LogExchange \<Rightarrow> unit res \<times> LogExchange" where
  "LogExchange_CloseKey key lx =
     (let subs = subs_at lx key;
          lx = (if length subs > 0 then lx\<lparr>log_topics := AList.delete key (log_topics lx)\<rparr> else lx)
      in if length subs = 0 then (Ok (), lx)
         else (case close_all subs (chans lx) of (r, h) \<Rightarrow> (r, lx\<lparr>chans := h\<rparr>)))"

definition LogExchange_Subscribe :: "LogKey \<Rightarrow> LogExchange \<Rightarrow> chan_id \<times> LogExchange" where
  "LogExchange_Subscribe key lx =
     (let ch = next_id lx
      in (ch, lx\<lparr>log_topics := AList.update key (subs_at lx key @ [ch]) (log_topics lx),
                 chans := AList.update ch \<lparr>buf = [], chan_closed = False\<rparr> (chans lx),
                 next_id := ch + 1\<rparr>))"

text \<open>A send in a \<^verbatim>\<open>select\<close> with a default: a full channel drops the entry.\<close>

definition try_send :: "LogEntry \<Rightarrow> chan_id \<Rightarrow> (chan_id, log_chan) gomap \<Rightarrow> unit res \<times> (chan_id, log_chan) gomap" where
  "try_send entry ch h =
     (case map_of h ch of
        None \<Rightarrow> (Ok (), h)
      | Some c \<Rightarrow>
          if chan_closed c then (Panic ''send on closed channel'', h)
          else if length (buf c) < 100 then (Ok (), AList.update ch (c\<lparr>buf := buf c @ [entry]\<rparr>) h)
          else (Ok (), h))"

fun send_all :: "LogEntry \<Rightarrow> chan_id list \<Rightarrow> (chan_id, log_chan) gomap \<Rightarrow> unit res \<times> (chan_id, log_chan) gomap" where
  "send_all entry [] h = (Ok (), h)"
| "send_all entry (ch # chs) h = andThen (try_send entry ch h) (\<lambda>_ h. send_all entry chs h)"

definition entry_key :: "LogEntry \<Rightarrow> LogKey" where
  "entry_key entry = \<lparr>NodeID = le_NodeId entry, TaskID = le_TaskId entry, SessionID = le_SessionId entry\<rparr>"

definition LogExchange_Publish :: "LogEntry \<Rightarrow> LogExchange \<Rightarrow> unit res \<times> LogExchange" where
  "LogExchange_Publish entry lx =
     (case send_all entry (subs_at lx (entry_key entry)) (chans lx) of (r, h) \<Rightarrow> (r, lx\<lparr>chans := h\<rparr>))"

section \<open>Invariant\<close>

text \<open>
  Subscribed channels exist, are open, hold at most a hundred entries, and each is
  subscribed once.
\<close>

definition lx_inv :: "LogExchange \<Rightarrow> bool" where
  "lx_inv lx \<longleftrightarrow>
     (\<forall>key. distinct (subs_at lx key)) \<and>
     (\<forall>key key' ch. ch \<in> set (subs_at lx key) \<longrightarrow> ch \<in> set (subs_at lx key') \<longrightarrow> key = key') \<and>
     (\<forall>key. \<forall>ch \<in> set (subs_at lx key). \<exists>c. map_of (chans lx) ch = Some c \<and> \<not> chan_closed c) \<and>
     (\<forall>ch c. map_of (chans lx) ch = Some c \<longrightarrow> length (buf c) \<le> 100 \<and> ch < next_id lx)"

lemma lx_inv_new: "lx_inv new_LogExchange"
  by (simp add: lx_inv_def new_LogExchange_def subs_at_def)

lemma subs_at_simps [simp]:
  "subs_at (lx\<lparr>chans := h\<rparr>) key = subs_at lx key" "subs_at (lx\<lparr>next_id := n\<rparr>) key = subs_at lx key"
  "subs_at (lx\<lparr>log_topics := AList.update k v tp\<rparr>) key =
     (if key = k then v else subs_at (lx\<lparr>log_topics := tp\<rparr>) key)"
  "subs_at (lx\<lparr>log_topics := AList.delete k tp\<rparr>) key =
     (if key = k then [] else subs_at (lx\<lparr>log_topics := tp\<rparr>) key)"
  by (simp_all add: subs_at_def)

lemma subs_at_Subscribe:
  "subs_at (snd (LogExchange_Subscribe key lx)) k =
     (if k = key then subs_at lx key @ [next_id lx] else subs_at lx k)"
  by (simp add: LogExchange_Subscribe_def Let_def subs_at_def)

lemma lx_inv_subs_bound: "lx_inv lx \<Longrightarrow> ch \<in> set (subs_at lx k) \<Longrightarrow> ch < next_id lx"
  unfolding lx_inv_def by metis

lemma lx_inv_Subscribe:
  assumes inv: "lx_inv lx"
  shows "lx_inv (snd (LogExchange_Subscribe key lx))"
proof -
  have new: "next_id lx \<notin> set (subs_at lx k)" for k
    using lx_inv_subs_bound [OF inv] by blast
  show ?thesis
    unfolding lx_inv_def subs_at_Subscribe
  proof (intro conjI)
    show "\<forall>k. distinct (if k = key then subs_at lx key @ [next_id lx] else subs_at lx k)"
      using inv new by (simp add: lx_inv_def)
    show "\<forall>k k' ch. ch \<in> set (if k = key then subs_at lx key @ [next_id lx] else subs_at lx k) \<longrightarrow>
        ch \<in> set (if k' = key then subs_at lx key @ [next_id lx] else subs_at lx k') \<longrightarrow> k = k'"
      using inv new unfolding lx_inv_def by (auto split: if_splits)
    show "\<forall>k. \<forall>ch \<in> set (if k = key then subs_at lx key @ [next_id lx] else subs_at lx k).
        \<exists>c. map_of (chans (snd (LogExchange_Subscribe key lx))) ch = Some c \<and> \<not> chan_closed c"
      using inv new unfolding lx_inv_def
      by (auto simp: LogExchange_Subscribe_def Let_def split: if_splits)
    show "\<forall>ch c. map_of (chans (snd (LogExchange_Subscribe key lx))) ch = Some c \<longrightarrow>
        length (buf c) \<le> 100 \<and> ch < next_id (snd (LogExchange_Subscribe key lx))"
      using inv unfolding lx_inv_def
      by (auto simp: LogExchange_Subscribe_def Let_def less_Suc_eq split: if_splits)
  qed
qed

lemma subs_at_Unsubscribe:
  "subs_at (LogExchange_Unsubscribe key ch lx) k = (if k = key then remove1 ch (subs_at lx key) else subs_at lx k)"
  by (auto simp: LogExchange_Unsubscribe_def Let_def subs_at_def remove1_idem split: option.splits)

lemma lx_inv_Unsubscribe:
  assumes inv: "lx_inv lx"
  shows "lx_inv (LogExchange_Unsubscribe key ch lx)"
proof -
  have rest: "chans (LogExchange_Unsubscribe key ch lx) = chans lx"
    "next_id (LogExchange_Unsubscribe key ch lx) = next_id lx"
    by (simp_all add: LogExchange_Unsubscribe_def Let_def)
  have sub: "set (subs_at (LogExchange_Unsubscribe key ch lx) k) \<subseteq> set (subs_at lx k)" for k
    using set_remove1_subset [of ch "subs_at lx key"] by (auto simp: subs_at_Unsubscribe)
  have "distinct (subs_at (LogExchange_Unsubscribe key ch lx) k)" for k
    using inv by (simp add: subs_at_Unsubscribe lx_inv_def)
  moreover have "k = k'" if "c \<in> set (subs_at (LogExchange_Unsubscribe key ch lx) k)"
      "c \<in> set (subs_at (LogExchange_Unsubscribe key ch lx) k')" for k k' c
    using that [THEN subsetD [OF sub]] inv unfolding lx_inv_def by blast
  moreover have "\<exists>cs. map_of (chans lx) c = Some cs \<and> \<not> chan_closed cs"
      if "c \<in> set (subs_at (LogExchange_Unsubscribe key ch lx) k)" for k c
    using that [THEN subsetD [OF sub]] inv unfolding lx_inv_def by blast
  ultimately show ?thesis
    using inv unfolding lx_inv_def rest by blast
qed

section \<open>Publishing\<close>

text \<open>One send appends to the channel's buffer, cut at a hundred entries.\<close>

definition deliver :: "LogEntry \<Rightarrow> log_chan \<Rightarrow> log_chan" where
  "deliver entry c = (if length (buf c) < 100 then c\<lparr>buf := buf c @ [entry]\<rparr> else c)"

lemma send_all_open:
  assumes "distinct chs" and "\<forall>ch \<in> set chs. \<exists>c. map_of h ch = Some c \<and> \<not> chan_closed c"
  shows "\<exists>h'. send_all entry chs h = (Ok (), h') \<and>
    (\<forall>ch. map_of h' ch = (if ch \<in> set chs then map_option (deliver entry) (map_of h ch) else map_of h ch))"
  using assms
proof (induction chs arbitrary: h)
  case (Cons a chs)
  then obtain c where c: "map_of h a = Some c" "\<not> chan_closed c" by auto
  define h1 where "h1 = (if length (buf c) < 100 then AList.update a (c\<lparr>buf := buf c @ [entry]\<rparr>) h else h)"
  have snt: "try_send entry a h = (Ok (), h1)"
    using c by (simp add: try_send_def h1_def)
  have h1: "map_of h1 ch = (if ch = a then Some (deliver entry c) else map_of h ch)" for ch
    using c by (simp add: h1_def deliver_def)
  have "\<forall>ch \<in> set chs. \<exists>c. map_of h1 ch = Some c \<and> \<not> chan_closed c"
    using Cons.prems by (auto simp: h1)
  with Cons obtain h' where h': "send_all entry chs h1 = (Ok (), h')"
      "\<forall>ch. map_of h' ch = (if ch \<in> set chs then map_option (deliver entry) (map_of h1 ch) else map_of h1 ch)"
    by (metis distinct.simps(2))
  then show ?case
    using Cons.prems c snt h1 by (intro exI [of _ h']) auto
qed simp

lemma Publish_delivers_log:
  assumes inv: "lx_inv lx"
  shows "\<exists>h'. LogExchange_Publish entry lx = (Ok (), lx\<lparr>chans := h'\<rparr>) \<and>
    (\<forall>ch. map_of h' ch = (if ch \<in> set (subs_at lx (entry_key entry))
                          then map_option (deliver entry) (map_of (chans lx) ch) else map_of (chans lx) ch))"
proof -
  have "distinct (subs_at lx (entry_key entry))"
    "\<forall>ch \<in> set (subs_at lx (entry_key entry)). \<exists>c. map_of (chans lx) ch = Some c \<and> \<not> chan_closed c"
    using inv by (simp_all add: lx_inv_def)
  from send_all_open [OF this, of entry] show ?thesis
    by (auto simp: LogExchange_Publish_def)
qed

lemma deliver_props: "chan_closed (deliver entry c) = chan_closed c" "length (buf c) \<le> 100 \<Longrightarrow> length (buf (deliver entry c)) \<le> 100"
  by (simp_all add: deliver_def)

lemma lx_inv_Publish:
  assumes inv: "lx_inv lx"
  shows "lx_inv (snd (LogExchange_Publish entry lx))"
proof -
  obtain h' where h': "LogExchange_Publish entry lx = (Ok (), lx\<lparr>chans := h'\<rparr>)"
    "\<And>ch. map_of h' ch = (if ch \<in> set (subs_at lx (entry_key entry))
        then map_option (deliver entry) (map_of (chans lx) ch) else map_of (chans lx) ch)"
    using Publish_delivers_log [OF inv] by blast
  show ?thesis
    using inv unfolding lx_inv_def h'(1)
    by (auto simp: h'(2) deliver_props split: if_splits) (metis deliver_props(1))+
qed

section \<open>Closing\<close>

lemma close_all_open:
  assumes "distinct chs" and "\<forall>ch \<in> set chs. \<exists>c. map_of h ch = Some c \<and> \<not> chan_closed c"
  shows "\<exists>h'. close_all chs h = (Ok (), h') \<and>
    (\<forall>ch. map_of h' ch = (if ch \<in> set chs then map_option (\<lambda>c. c\<lparr>chan_closed := True\<rparr>) (map_of h ch) else map_of h ch))"
  using assms
proof (induction chs arbitrary: h)
  case (Cons a chs)
  then obtain c where c: "map_of h a = Some c" "\<not> chan_closed c" by auto
  define h1 where "h1 = AList.update a (c\<lparr>chan_closed := True\<rparr>) h"
  have cl: "chan_close a h = (Ok (), h1)"
    using c by (simp add: chan_close_def h1_def)
  have "\<forall>ch \<in> set chs. \<exists>c. map_of h1 ch = Some c \<and> \<not> chan_closed c"
    using Cons.prems by (auto simp: h1_def)
  with Cons obtain h' where h': "close_all chs h1 = (Ok (), h')"
      "\<forall>ch. map_of h' ch = (if ch \<in> set chs then map_option (\<lambda>c. c\<lparr>chan_closed := True\<rparr>) (map_of h1 ch) else map_of h1 ch)"
    by (metis distinct.simps(2))
  then show ?case
    using Cons.prems c cl by (intro exI [of _ h']) (auto simp: h1_def)
qed simp

lemma CloseKey_ok:
  assumes inv: "lx_inv lx"
  shows "\<exists>lx'. LogExchange_CloseKey key lx = (Ok (), lx') \<and> lx_inv lx' \<and> subs_at lx' key = [] \<and>
    (\<forall>k. k \<noteq> key \<longrightarrow> subs_at lx' k = subs_at lx k) \<and>
    (\<forall>ch \<in> set (subs_at lx key). \<exists>c. map_of (chans lx') ch = Some c \<and> chan_closed c)"
proof (cases "subs_at lx key = []")
  case True
  with inv show ?thesis by (simp add: LogExchange_CloseKey_def)
next
  case False
  have pre: "distinct (subs_at lx key)"
    "\<forall>ch \<in> set (subs_at lx key). \<exists>c. map_of (chans lx) ch = Some c \<and> \<not> chan_closed c"
    using inv by (simp_all add: lx_inv_def)
  obtain h' where h': "close_all (subs_at lx key) (chans lx) = (Ok (), h')"
    "\<And>ch. map_of h' ch = (if ch \<in> set (subs_at lx key)
        then map_option (\<lambda>c. c\<lparr>chan_closed := True\<rparr>) (map_of (chans lx) ch) else map_of (chans lx) ch)"
    using close_all_open [OF pre] by blast
  let ?lx = "lx\<lparr>log_topics := AList.delete key (log_topics lx), chans := h'\<rparr>"
  have subs: "subs_at ?lx k = (if k = key then [] else subs_at lx k)" for k by (simp add: subs_at_def)
  have "lx_inv ?lx"
    unfolding lx_inv_def subs
  proof (intro conjI)
    show "\<forall>k. distinct (if k = key then [] else subs_at lx k)" using inv by (simp add: lx_inv_def)
    show "\<forall>k k' ch. ch \<in> set (if k = key then [] else subs_at lx k) \<longrightarrow>
        ch \<in> set (if k' = key then [] else subs_at lx k') \<longrightarrow> k = k'"
      using inv by (simp add: lx_inv_def)
    show "\<forall>k. \<forall>ch \<in> set (if k = key then [] else subs_at lx k). \<exists>c. map_of (chans ?lx) ch = Some c \<and> \<not> chan_closed c"
      using inv unfolding lx_inv_def by (auto simp: h'(2) split: if_splits)
    show "\<forall>ch c. map_of (chans ?lx) ch = Some c \<longrightarrow> length (buf c) \<le> 100 \<and> ch < next_id ?lx"
      using inv unfolding lx_inv_def by (auto simp: h'(2) split: if_splits)
  qed
  moreover have "LogExchange_CloseKey key lx = (Ok (), ?lx)"
    using False h'(1) by (simp add: LogExchange_CloseKey_def)
  moreover have "\<forall>ch \<in> set (subs_at lx key). \<exists>c. map_of (chans ?lx) ch = Some c \<and> chan_closed c"
    using pre(2) by (auto simp: h'(2))
  ultimately show ?thesis using subs by (intro exI [of _ ?lx]) simp
qed

section \<open>Runs\<close>

text \<open>Any interleaving of subscribers, publishers and closers.\<close>

inductive lx_reach :: "LogExchange \<Rightarrow> bool" where
  lx_start: "lx_reach new_LogExchange"
| lx_subscribe: "lx_reach lx \<Longrightarrow> lx_reach (snd (LogExchange_Subscribe key lx))"
| lx_unsubscribe: "lx_reach lx \<Longrightarrow> lx_reach (LogExchange_Unsubscribe key ch lx)"
| lx_publish: "lx_reach lx \<Longrightarrow> lx_reach (snd (LogExchange_Publish entry lx))"
| lx_close: "lx_reach lx \<Longrightarrow> lx_reach (snd (LogExchange_CloseKey key lx))"

lemma lx_reach_inv: "lx_reach lx \<Longrightarrow> lx_inv lx"
proof (induction rule: lx_reach.induct)
  case (lx_close lx key)
  then show ?case using CloseKey_ok [of lx key] by auto
qed (simp_all add: lx_inv_new lx_inv_Subscribe lx_inv_Unsubscribe lx_inv_Publish)

text \<open>
  In every state of the log exchange a published line reaches exactly the
  subscribers of its node, task and session: their channels get it at the end of the
  buffer, unless a hundred lines wait there already; no other channel changes and the
  publisher never panics.
\<close>

theorem log_publish_isolated:
  assumes "lx_reach lx"
  shows "\<exists>h'. LogExchange_Publish entry lx = (Ok (), lx\<lparr>chans := h'\<rparr>) \<and>
    (\<forall>ch c. map_of (chans lx) ch = Some c \<longrightarrow>
       map_of h' ch = Some (if ch \<in> set (subs_at lx (entry_key entry)) \<and> length (buf c) < 100
                            then c\<lparr>buf := buf c @ [entry]\<rparr> else c))"
proof -
  obtain h' where h': "LogExchange_Publish entry lx = (Ok (), lx\<lparr>chans := h'\<rparr>)"
    "\<forall>ch. map_of h' ch = (if ch \<in> set (subs_at lx (entry_key entry))
       then map_option (deliver entry) (map_of (chans lx) ch) else map_of (chans lx) ch)"
    using Publish_delivers_log [OF lx_reach_inv [OF assms]] by blast
  then show ?thesis by (intro exI [of _ h']) (auto simp: deliver_def)
qed

definition sample_entry :: LogEntry where
  "sample_entry = \<lparr>le_NodeId = ''n'', le_TaskId = ''t'', le_SessionId = ''s'', le_Timestamp = None,
                   le_Line = ''hello'', le_Seq = 1\<rparr>"

theorem log_publish_isolated_witness:
  "\<exists>lx h'. lx = snd (LogExchange_Subscribe (entry_key sample_entry) new_LogExchange) \<and>
     LogExchange_Publish sample_entry lx = (Ok (), lx\<lparr>chans := h'\<rparr>) \<and>
     map_of h' 0 = Some \<lparr>buf = [sample_entry], chan_closed = False\<rparr>"
proof -
  let ?lx = "snd (LogExchange_Subscribe (entry_key sample_entry) new_LogExchange)"
  have ch: "map_of (chans ?lx) 0 = Some \<lparr>buf = [], chan_closed = False\<rparr>" "0 \<in> set (subs_at ?lx (entry_key sample_entry))"
    by (simp_all add: LogExchange_Subscribe_def new_LogExchange_def Let_def subs_at_def)
  from log_publish_isolated [OF lx_subscribe [OF lx_start], of sample_entry "entry_key sample_entry"] ch
  show ?thesis by fastforce
qed

end
