(* ===== verification/Transport.thy ===== *)
theory Transport
  imports SmallServices LogExchange
begin

text \<open>
  The gRPC handlers, internal/transport/grpc: each resolves the identifier of the request,
  calls its service and turns an error into a status. A request is given by its fields and
  a response by the fields it carries; a nil response counts as the empty one, which is
  what is sent for it. The handlers of \<^verbatim>\<open>Patch\<close> are in theory Patch,
  and the streams of \<^verbatim>\<open>Connect\<close> and \<^verbatim>\<open>Subscribe\<close> are in theories NodeStream and Controllers.
\<close>

section \<open>Errors\<close>

definition toStatus :: "ext_errs \<Rightarrow> error option \<Rightarrow> error option" where
  "toStatus x err =
     (if err = None then None
      else (case status_FromError x err of
              Some st \<Rightarrow> status_Err x st
            | None \<Rightarrow>
                if IsNotFound x err then Some (StatusErr NotFound (err_text x (the err)))
                else if IsConflict x err then Some (StatusErr AlreadyExists (err_text x (the err)))
                else if IsPermissionDenied x err then Some (StatusErr PermissionDenied (err_text x (the err)))
                else Some (StatusErr Internal (''internal error: '' @ err_text x (the err)))))"

text \<open>\<^verbatim>\<open>return nil, toStatus(err)\<close>, where \<open>nil\<close> stands for the empty response.\<close>

definition fail_status :: "ext_errs \<Rightarrow> 'r \<Rightarrow> error \<Rightarrow> 'r res" where
  "fail_status x nil e = (case toStatus x (Some e) of None \<Rightarrow> Ok nil | Some e' \<Rightarrow> Err e')"

definition orStatus :: "ext_errs \<Rightarrow> 'r \<Rightarrow> 'a res \<times> 's \<Rightarrow> ('a \<Rightarrow> 's \<Rightarrow> 'r res \<times> 's) \<Rightarrow> 'r res \<times> 's" where
  "orStatus x nil p f = (case p of (Ok a, s) \<Rightarrow> f a s | (Err e, s) \<Rightarrow> (fail_status x nil e, s) | (Panic m, s) \<Rightarrow> (Panic m, s))"

lemma orStatus_simps [simp, outcome_simps]:
  "orStatus x nil (Ok a, s) f = f a s" "orStatus x nil (Err e, s) f = (fail_status x nil e, s)"
  "orStatus x nil (Panic m, s) f = (Panic m, s)"
  by (simp_all add: orStatus_def)

section \<open>Tasks\<close>

definition zero_Task :: Task where
  "zero_Task = \<lparr>task_Version = [], task_Meta = None, task_Config = None, task_Status = None\<rparr>"

definition grpc_Task_Get ::
  "('s, 'u, 'w) TaskService \<Rightarrow> ctx \<Rightarrow> string \<Rightarrow> string \<Rightarrow> 's \<times> 'w \<Rightarrow> Task res \<times> ('s \<times> 'w)" where
  "grpc_Task_Get l ctx uid name st =
     orStatus (tsv_errs l) zero_Task (keys_FromUIDOrName (tsv_uuid l) uid name, st) (\<lambda>i st.
     orStatus (tsv_errs l) zero_Task (TaskService_Get l ctx i st) (\<lambda>task st. (Ok task, st)))"

definition grpc_Task_Create ::
  "('s, 'u, 'w) TaskService \<Rightarrow> ctx \<Rightarrow> svc_env \<Rightarrow> Task \<Rightarrow> 's \<times> 'w \<Rightarrow> Task res \<times> ('s \<times> 'w)" where
  "grpc_Task_Create l ctx env task st =
     orStatus (tsv_errs l) zero_Task (TaskService_Create l ctx env task st) (\<lambda>task st. (Ok task, st))"

definition grpc_Task_Delete ::
  "('s, 'u, 'w) TaskService \<Rightarrow> ctx \<Rightarrow> svc_env \<Rightarrow> string \<Rightarrow> string \<Rightarrow> 's \<times> 'w \<Rightarrow> unit res \<times> ('s \<times> 'w)" where
  "grpc_Task_Delete l ctx env uid name st =
     orStatus (tsv_errs l) () (keys_FromUIDOrName (tsv_uuid l) uid name, st) (\<lambda>i st.
     orStatus (tsv_errs l) () (TaskService_Delete l ctx env i st) (\<lambda>_ st. (Ok (), st)))"

definition grpc_Task_List ::
  "('s, 'u, 'w) TaskService \<Rightarrow> ctx \<Rightarrow> int \<Rightarrow> label \<Rightarrow> 's \<times> 'w \<Rightarrow> Task list res \<times> ('s \<times> 'w)" where
  "grpc_Task_List l ctx limit sel st =
     orStatus (tsv_errs l) [] (TaskService_List l ctx limit st) (\<lambda>tasks st. (Ok tasks, st))"

definition grpc_Task_Update ::
  "('s, 'u, 'w) TaskService \<Rightarrow> ctx \<Rightarrow> svc_env \<Rightarrow> string \<Rightarrow> string \<Rightarrow> Task \<Rightarrow> 's \<times> 'w \<Rightarrow> Task res \<times> ('s \<times> 'w)" where
  "grpc_Task_Update l ctx env uid name task st =
     orStatus (tsv_errs l) zero_Task (keys_FromUIDOrName (tsv_uuid l) uid name, st) (\<lambda>i st.
     orStatus (tsv_errs l) zero_Task (TaskService_Update l ctx env i task st) (\<lambda>_ st.
     orStatus (tsv_errs l) zero_Task (TaskService_Get l ctx i st) (\<lambda>task st. (Ok task, st))))"

definition grpc_Task_UpdateStatus ::
  "('s, 'u, 'w) TaskService \<Rightarrow> ctx \<Rightarrow> svc_env \<Rightarrow> (string, string list) gomap option \<Rightarrow> string \<Rightarrow> string \<Rightarrow> TaskStatus option
     \<Rightarrow> string list \<Rightarrow> 's \<times> 'w \<Rightarrow> string res \<times> ('s \<times> 'w)"
where
  "grpc_Task_UpdateStatus l ctx env md uid name stt paths st =
     orStatus (tsv_errs l) [] (keys_FromUIDOrName (tsv_uuid l) uid name, st) (\<lambda>i st.
     orStatus (tsv_errs l) [] (TaskService_UpdateStatus l ctx env md i stt paths st) (\<lambda>_ st.
     (Ok (ID_UUIDStr (tsv_uuid l) i), st)))"

definition grpc_Task_Condition ::
  "('s, 'u, 'w) TaskService \<Rightarrow> ctx \<Rightarrow> svc_env \<Rightarrow> ConditionRequest \<Rightarrow> 's \<times> 'w \<Rightarrow> unit res \<times> ('s \<times> 'w)" where
  "grpc_Task_Condition l ctx env req st =
     orStatus (tsv_errs l) () (keys_ParseStr (tsv_uuid l) (creq_TaskId req), st) (\<lambda>i st.
     orStatus (tsv_errs l) () (TaskService_Condition l ctx env i req st) (\<lambda>_ st. (Ok (), st)))"

definition grpc_Task_Kill ::
  "('s, 'u, 'w) TaskService \<Rightarrow> ctx \<Rightarrow> svc_env \<Rightarrow> string \<Rightarrow> string \<Rightarrow> 's \<times> 'w \<Rightarrow> unit res \<times> ('s \<times> 'w)" where
  "grpc_Task_Kill l ctx env uid name st =
     orStatus (tsv_errs l) () (keys_FromUIDOrName (tsv_uuid l) uid name, st) (\<lambda>i st.
     orStatus (tsv_errs l) () (TaskService_Kill l ctx env i st) (\<lambda>_ st. (from_err (toStatus (tsv_errs l) None), st)))"

definition grpc_Task_Start ::
  "('s, 'u, 'w) TaskService \<Rightarrow> ctx \<Rightarrow> svc_env \<Rightarrow> string \<Rightarrow> string \<Rightarrow> 's \<times> 'w \<Rightarrow> unit res \<times> ('s \<times> 'w)" where
  "grpc_Task_Start l ctx env uid name st =
     orStatus (tsv_errs l) () (keys_FromUIDOrName (tsv_uuid l) uid name, st) (\<lambda>i st.
     orStatus (tsv_errs l) () (TaskService_Start l ctx env i st) (\<lambda>_ st. (from_err (toStatus (tsv_errs l) None), st)))"

definition grpc_Task_Stop ::
  "('s, 'u, 'w) TaskService \<Rightarrow> ctx \<Rightarrow> svc_env \<Rightarrow> string \<Rightarrow> string \<Rightarrow> 's \<times> 'w \<Rightarrow> unit res \<times> ('s \<times> 'w)" where
  "grpc_Task_Stop l ctx env uid name st =
     orStatus (tsv_errs l) () (keys_FromUIDOrName (tsv_uuid l) uid name, st) (\<lambda>i st.
     orStatus (tsv_errs l) () (TaskService_Stop l ctx env i st) (\<lambda>_ st. (from_err (toStatus (tsv_errs l) None), st)))"

section \<open>Leases\<close>

type_synonym lease_grant = "Lease option \<times> string \<times> uint64"

definition grpc_Lease_Get ::
  "('s, 'u, 'w) LeaseService \<Rightarrow> ctx \<Rightarrow> string \<Rightarrow> 's \<times> 'w \<Rightarrow> Lease option res \<times> ('s \<times> 'w)" where
  "grpc_Lease_Get l ctx uid st =
     orStatus (lib_errs (lsv_libs l)) None (LeaseService_Get l ctx uid st) (\<lambda>lease st. (Ok (Some lease), st))"

definition grpc_Lease_List ::
  "('s, 'u, 'w) LeaseService \<Rightarrow> ctx \<Rightarrow> label \<Rightarrow> 's \<times> 'w \<Rightarrow> Lease list res \<times> ('s \<times> 'w)" where
  "grpc_Lease_List l ctx sel st =
     orStatus (lib_errs (lsv_libs l)) [] (LeaseService_List l ctx st) (\<lambda>leases st. (Ok leases, st))"

definition grpc_Lease_Acquire ::
  "('s, 'u, 'w) LeaseService \<Rightarrow> ctx \<Rightarrow> env \<Rightarrow> string \<Rightarrow> string \<Rightarrow> string \<Rightarrow> 's \<times> 'w \<Rightarrow> lease_grant res \<times> ('s \<times> 'w)"
where
  "grpc_Lease_Acquire l ctx env fresh taskID nodeID st =
     orStatus (lib_errs (lsv_libs l)) (None, [], 0) (LeaseService_Acquire l ctx env fresh taskID nodeID st)
       (\<lambda>(lease, token) st. (Ok (Some lease, token, lc_FencingToken (lease_config lease)), st))"

definition grpc_Lease_Release ::
  "('s, 'u, 'w) LeaseService \<Rightarrow> ctx \<Rightarrow> string \<Rightarrow> string \<Rightarrow> string \<Rightarrow> 's \<times> 'w \<Rightarrow> bool res \<times> ('s \<times> 'w)" where
  "grpc_Lease_Release l ctx taskID nodeID token st =
     orStatus (lib_errs (lsv_libs l)) False (LeaseService_Release l ctx taskID nodeID token st) (\<lambda>_ st. (Ok True, st))"

definition grpc_Lease_Revoke ::
  "('s, 'u, 'w) LeaseService \<Rightarrow> ctx \<Rightarrow> string \<Rightarrow> string \<Rightarrow> 's \<times> 'w \<Rightarrow> bool res \<times> ('s \<times> 'w)" where
  "grpc_Lease_Revoke l ctx taskID nodeID st =
     orStatus (lib_errs (lsv_libs l)) False (LeaseService_Revoke l ctx taskID nodeID st) (\<lambda>_ st. (Ok True, st))"

definition grpc_Lease_Renew ::
  "('s, 'u, 'w) LeaseService \<Rightarrow> ctx \<Rightarrow> env \<Rightarrow> string \<Rightarrow> string \<Rightarrow> string \<Rightarrow> 's \<times> 'w \<Rightarrow> lease_grant res \<times> ('s \<times> 'w)"
where
  "grpc_Lease_Renew l ctx env taskID nodeID token st =
     orStatus (lib_errs (lsv_libs l)) (None, [], 0) (LeaseService_Renew l ctx env taskID nodeID token st)
       (\<lambda>(lease, token) st. (Ok (Some lease, token, lc_FencingToken (lease_config lease)), st))"

section \<open>Nodes\<close>

definition zero_Node :: Node where
  "zero_Node = \<lparr>node_Version = [], node_Meta = None, node_Config = None, node_Status = None\<rparr>"

definition grpc_Node_Get ::
  "('s, 'u, 'w) NodeService \<Rightarrow> ctx \<Rightarrow> string \<Rightarrow> string \<Rightarrow> 's \<times> 'w \<Rightarrow> Node res \<times> ('s \<times> 'w)" where
  "grpc_Node_Get l ctx uid name st =
     orStatus (nsv_errs l) zero_Node (keys_FromUIDOrName (nsv_uuid l) uid name, st) (\<lambda>i st.
     orStatus (nsv_errs l) zero_Node (NodeService_Get l ctx i st) (\<lambda>node st. (Ok node, st)))"

definition grpc_Node_Create ::
  "('s, 'u, 'w) NodeService \<Rightarrow> ctx \<Rightarrow> svc_env \<Rightarrow> Node \<Rightarrow> 's \<times> 'w \<Rightarrow> Node res \<times> ('s \<times> 'w)" where
  "grpc_Node_Create l ctx env node st =
     orStatus (nsv_errs l) zero_Node (NodeService_Create l ctx env node st) (\<lambda>node st. (Ok node, st))"

definition grpc_Node_Delete ::
  "('s, 'u, 'w) NodeService \<Rightarrow> ctx \<Rightarrow> svc_env \<Rightarrow> string \<Rightarrow> string \<Rightarrow> 's \<times> 'w \<Rightarrow> unit res \<times> ('s \<times> 'w)" where
  "grpc_Node_Delete l ctx env uid name st =
     orStatus (nsv_errs l) () (keys_FromUIDOrName (nsv_uuid l) uid name, st) (\<lambda>i st.
     orStatus (nsv_errs l) () (NodeService_Delete l ctx env i st) (\<lambda>_ st. (Ok (), st)))"

definition grpc_Node_List ::
  "('s, 'u, 'w) NodeService \<Rightarrow> ctx \<Rightarrow> int \<Rightarrow> 's \<times> 'w \<Rightarrow> Node list res \<times> ('s \<times> 'w)" where
  "grpc_Node_List l ctx limit st =
     orStatus (nsv_errs l) [] (NodeService_List l ctx limit st) (\<lambda>nodes st. (Ok nodes, st))"

definition grpc_Node_Update ::
  "('s, 'u, 'w) NodeService \<Rightarrow> ctx \<Rightarrow> svc_env \<Rightarrow> string \<Rightarrow> string \<Rightarrow> Node \<Rightarrow> 's \<times> 'w \<Rightarrow> Node res \<times> ('s \<times> 'w)" where
  "grpc_Node_Update l ctx env uid name node st =
     orStatus (nsv_errs l) zero_Node (keys_FromUIDOrName (nsv_uuid l) uid name, st) (\<lambda>i st.
     orStatus (nsv_errs l) zero_Node (NodeService_Update l ctx env i node st) (\<lambda>_ st.
     orStatus (nsv_errs l) zero_Node (NodeService_Get l ctx i st) (\<lambda>node st. (Ok node, st))))"

definition grpc_Node_UpdateStatus ::
  "('s, 'u, 'w) NodeService \<Rightarrow> ctx \<Rightarrow> svc_env \<Rightarrow> string \<Rightarrow> string \<Rightarrow> NodeStatus option \<Rightarrow> string list \<Rightarrow> 's \<times> 'w
     \<Rightarrow> string res \<times> ('s \<times> 'w)"
where
  "grpc_Node_UpdateStatus l ctx env uid name stt paths st =
     orStatus (nsv_errs l) [] (keys_FromUIDOrName (nsv_uuid l) uid name, st) (\<lambda>i st.
     orStatus (nsv_errs l) [] (NodeService_UpdateStatus l ctx env i stt paths st) (\<lambda>_ st.
     (Ok (ID_UUIDStr (nsv_uuid l) i), st)))"

definition grpc_Node_Condition ::
  "('s, 'u, 'w) NodeService \<Rightarrow> ctx \<Rightarrow> svc_env \<Rightarrow> ConditionRequest \<Rightarrow> 's \<times> 'w \<Rightarrow> unit res \<times> ('s \<times> 'w)" where
  "grpc_Node_Condition l ctx env req st =
     orStatus (nsv_errs l) () (keys_ParseStr (nsv_uuid l) (creq_TaskId req), st) (\<lambda>i st.
     orStatus (nsv_errs l) () (NodeService_Condition l ctx env i req st) (\<lambda>_ st. (Ok (), st)))"

definition grpc_Node_Upgrade ::
  "('s, 'u, 'w) NodeService \<Rightarrow> ctx \<Rightarrow> svc_env \<Rightarrow> UpgradeRequest \<Rightarrow> 's \<times> 'w \<Rightarrow> unit res \<times> ('s \<times> 'w)" where
  "grpc_Node_Upgrade l ctx env req st = NodeService_Upgrade l ctx env req st"

definition grpc_Node_Join ::
  "('s, 'u, 'w) NodeService \<Rightarrow> ctx \<Rightarrow> svc_env \<Rightarrow> Node \<Rightarrow> 's \<times> 'w \<Rightarrow> (string \<times> string) res \<times> ('s \<times> 'w)" where
  "grpc_Node_Join l ctx env node st =
     orStatus (nsv_errs l) ([], []) (keys_FromUIDOrName (nsv_uuid l) (meta_Uid (getMeta (node_Meta node)))
         (meta_Name (getMeta (node_Meta node))), st) (\<lambda>i st.
     orStatus (nsv_errs l) ([], []) (NodeService_Join l ctx env i node st) (\<lambda>node st.
     (Ok (meta_Uid (getMeta (node_Meta node)), meta_Name (getMeta (node_Meta node))), st)))"

definition grpc_Node_Forget ::
  "('s, 'u, 'w) NodeService \<Rightarrow> ctx \<Rightarrow> svc_env \<Rightarrow> string \<Rightarrow> string \<Rightarrow> 's \<times> 'w \<Rightarrow> string res \<times> ('s \<times> 'w)" where
  "grpc_Node_Forget l ctx env uid name st =
     orStatus (nsv_errs l) [] (keys_FromUIDOrName (nsv_uuid l) uid name, st) (\<lambda>i st.
     orStatus (nsv_errs l) [] (NodeService_Forget l ctx env i st) (\<lambda>_ st.
     (Ok (ID_UUIDStr (nsv_uuid l) i), st)))"

section \<open>Events\<close>

text \<open>These handlers pass errors on as they are.\<close>

definition grpc_Event_Get ::
  "('s, 'u, 'w) EventService \<Rightarrow> ctx \<Rightarrow> string \<Rightarrow> 's \<times> 'w \<Rightarrow> Event res \<times> ('s \<times> 'w)" where
  "grpc_Event_Get n ctx uid st =
     andThen (keys_FromUIDOrName (esv_uuid n) uid [], st) (\<lambda>i st. EventService_Get n ctx i st)"

definition grpc_Event_Create ::
  "('s, 'u, 'w) EventService \<Rightarrow> ctx \<Rightarrow> svc_env \<Rightarrow> Event \<Rightarrow> 's \<times> 'w \<Rightarrow> Event res \<times> ('s \<times> 'w)" where
  "grpc_Event_Create n ctx env event st = EventService_Create n ctx env event st"

definition grpc_Event_Delete ::
  "('s, 'u, 'w) EventService \<Rightarrow> ctx \<Rightarrow> string \<Rightarrow> 's \<times> 'w \<Rightarrow> string res \<times> ('s \<times> 'w)" where
  "grpc_Event_Delete n ctx uid st =
     andThen (keys_FromUIDOrName (esv_uuid n) uid [], st) (\<lambda>i st.
     andThen (EventService_Delete n ctx i st) (\<lambda>_ st. (Ok (ID_UUIDStr (esv_uuid n) i), st)))"

definition grpc_Event_List ::
  "('s, 'u, 'w) EventService \<Rightarrow> ctx \<Rightarrow> int \<Rightarrow> 's \<times> 'w \<Rightarrow> Event list res \<times> ('s \<times> 'w)" where
  "grpc_Event_List n ctx limit st = EventService_List n ctx limit st"

definition grpc_Event_Forward ::
  "('s, 'u, 'w) EventService \<Rightarrow> ctx \<Rightarrow> svc_env \<Rightarrow> Event \<Rightarrow> 's \<times> 'w \<Rightarrow> unit res \<times> ('s \<times> 'w)" where
  "grpc_Event_Forward n ctx env event st = andThen (EventService_Create n ctx env event st) (\<lambda>_ st. (Ok (), st))"

text \<open>The two service calls each draw a uuid and read the clock.\<close>

definition grpc_Event_Publish ::
  "('s, 'u, 'w) EventService \<Rightarrow> ctx \<Rightarrow> svc_env \<Rightarrow> svc_env \<Rightarrow> Event \<Rightarrow> 's \<times> 'w \<Rightarrow> Event res \<times> ('s \<times> 'w)" where
  "grpc_Event_Publish n ctx env1 env2 event st =
     andThen (EventService_Create n ctx env1 event st) (\<lambda>res st. EventService_Publish n ctx env2 res st)"

section \<open>Statuses\<close>

lemma toStatus_ToStatus: "toStatus = ToStatus"
proof (intro ext)
  show "toStatus x err = ToStatus x err" for x err
    by (cases err; cases "status_FromError x err") (simp_all add: toStatus_def ToStatus_def)
qed

lemma fail_status_documented:
  assumes "grpc_documented x" and "status_FromError x (Some e) = None"
  shows "\<exists>e'. fail_status x nil e = Err e' \<and> toStatus x (Some e) = Some e'"
  using assms by (simp add: fail_status_def toStatus_def)

lemma created_event_name:
  assumes "repo_msg R = Event_msg"
  shows "\<exists>m'. msg_Meta (repo_msg R) (created R ul u t1 t2 m event) = Some m' \<and> meta_Name m' = meta_Name m"
  by (auto simp: assms created_def Let_def Event_msg_def bump_generation_def)

section \<open>Properties\<close>

text \<open>
  Publishing an event over gRPC never reaches the exchange: the handler first creates
  the event and then calls the service's Publish, which creates it once more under the
  same name. Whenever the first create succeeds the second is refused as a duplicate, so
  the caller gets \<^verbatim>\<open>ErrIdxExists\<close>, the event stays stored and no subscriber hears of it.
\<close>

theorem event_publish_rejected:
  assumes "repository (esv_Repo n) content tcontent tinv" and "repo_msg (esv_Repo n) = Event_msg"
    and "codec_roundtrip (repo_codec (esv_Repo n))"
    and "repo_rel (esv_Repo n) (content s) A" and "repo_wf A" and "uid_unused (esv_Repo n) (content s) (sv_uuid env1)"
    and "ev_Meta event = Some m" and "meta_Name m \<noteq> []" and "names A (meta_Name m) = None"
    and "e = created (esv_Repo n) (esv_uuid n) (sv_uuid env1) (sv_t1 env1) (sv_t2 env1) m event"
    and "proto_Marshal (repo_codec (esv_Repo n)) e = Ok b"
  shows "\<exists>s'. grpc_Event_Publish n None env1 env2 event (s, w) = (Err (Sentinel RepoErrIdxExists), (s', w))
    \<and> repo_rel (esv_Repo n) (content s') (spec_Create A (sv_uuid env1) (meta_Name m) e)"
proof -
  let ?A = "spec_Create A (sv_uuid env1) (meta_Name m) e"
  have m: "msg_Meta (repo_msg (esv_Repo n)) event = Some m" using assms(2,7) by (simp add: Event_msg_def)
  note fr = uid_unused_fresh [OF assms(4,6)]
  have "Codec_Decode (esv_Repo n) b = Ok e" using assms(3,11) by (simp add: codec_roundtrip_def Codec_Decode_def)
  from repository.Create_refines [OF assms(1,4) fr m assms(8,9) assms(11) [unfolded assms(10)] this] obtain s' where
    s': "Repo_Create (esv_Repo n) (esv_uuid n) None (sv_uuid env1) (sv_t1 env1) (sv_t2 env1) event s = (Ok (e, e), s')"
      "repo_rel (esv_Repo n) (content s') ?A"
    unfolding assms(10) by blast
  have wf: "repo_wf ?A" by (rule repo_wf_Create [OF assms(5) fr assms(9)])
  obtain m' where m': "msg_Meta (repo_msg (esv_Repo n)) e = Some m'" "meta_Name m' = meta_Name m"
    using created_event_name [OF assms(2)] unfolding assms(10) by blast
  have "names ?A (meta_Name m') = Some (sv_uuid env1)" by (simp add: m' spec_Create_def)
  from repository.Create_exists [OF assms(1) s'(2) wf m'(1) this]
  have "Repo_Create (esv_Repo n) (esv_uuid n) None (sv_uuid env2) (sv_t1 env2) (sv_t2 env2) e s' = (Err (Sentinel RepoErrIdxExists), s')" .
  with s' show ?thesis
    by (intro exI [of _ s']) (simp add: grpc_Event_Publish_def EventService_Create_def EventService_Publish_def)
qed

definition node_gone :: Event where
  "node_gone = NewEvent ''ev9'' NodeForget (AnyNode alpha) []"

definition gone_meta :: Meta where
  "gone_meta = empty_Meta\<lparr>meta_Name := ''ev9''\<rparr>"

definition gone_stored :: Event where
  "gone_stored = node_gone\<lparr>ev_Meta := Some (gone_meta\<lparr>meta_Uid := sample_uid, meta_Created := Some 7, meta_Updated := Some 8,
     meta_ResourceVersion := 1\<rparr>)\<rparr>"

definition gone_codec :: "Event codec" where
  "gone_codec = table_codec [(gone_stored, ''E1'')]"

definition demo_events :: "(mem, updateTxn, Event list) EventService" where
  "demo_events = \<lparr>esv_Repo = NewEventRepo inmemory gone_codec, esv_Exchange = recording_bus,
     esv_Manager = \<lparr>smi_Connect = (\<lambda>ctx node inp st. (Ok 0, st)), smi_Set = (\<lambda>ctx u node st. (Ok (), st))\<rparr>,
     esv_uuid = sample_uuid\<rparr>"

theorem event_publish_rejected_witness:
  "\<exists>s'. grpc_Event_Publish demo_events None call_env call_env node_gone ([], []) = (Err (Sentinel RepoErrIdxExists), (s', []))"
proof -
  have e: "gone_stored = created (NewEventRepo inmemory gone_codec) sample_uuid sample_uid 7 8 gone_meta node_gone"
    by (simp add: created_def Let_def Event_msg_def SpecEqual_def opt_Equal_def gone_stored_def node_gone_def NewEvent_def sample_uuid_def)
  have c: "codec_roundtrip gone_codec" "proto_Marshal gone_codec gone_stored = Ok ''E1''"
    unfolding gone_codec_def by (rule table_codec_roundtrip, simp) (simp add: table_codec_def)
  have rel: "repo_rel (NewEventRepo inmemory gone_codec) (map_of []) empty_repo"
    using repo_rel_empty [of "NewEventRepo inmemory gone_codec"] by (simp add: fun_eq_iff)
  have m: "ev_Meta node_gone = Some gone_meta" by (simp add: node_gone_def NewEvent_def gone_meta_def empty_Meta_def)
  have n: "meta_Name gone_meta = ''ev9''" by (simp add: gone_meta_def)
  show ?thesis
    using event_publish_rejected [of demo_events map_of mem_tcontent mem_tinv "[]" empty_repo call_env node_gone gone_meta
        gone_stored "''E1''" call_env "[]"] e c rel m n mem_events.repository_axioms [of gone_codec]
      sample_unused [of "NewEventRepo inmemory gone_codec"]
    by (auto simp: demo_events_def repo_wf_empty)
qed

end
