(* ===== verification/LogStreams.thy ===== *)
theory LogStreams
  imports Transport
begin

text \<open>
  The log streams of internal/transport/grpc/log.go: \<^verbatim>\<open>PushLogs\<close>, through which a node
  sends its lines, and \<^verbatim>\<open>TailLogs\<close>, through which a client reads them. What a stream
  delivers comes as a list: \<open>None\<close> when it ends before the handler returns, which then
  still waits.
\<close>

section \<open>Pushing\<close>

definition note_key :: "LogKey \<Rightarrow> LogKey list \<Rightarrow> LogKey list" where
  "note_key key seen = (if NodeID key \<noteq> [] \<and> TaskID key \<noteq> [] then (if key \<in> set seen then seen else seen @ [key]) else seen)"

text \<open>How the stream ends: \<open>fin\<close> is what \<^verbatim>\<open>SendAndClose\<close> returns.\<close>

definition push_end :: "ext_errs \<Rightarrow> unit res \<Rightarrow> error \<Rightarrow> unit res" where
  "push_end x fin e =
     (if e = Sentinel IoEOF then fin
      else (case status_FromError x (Some e) of
              Some (c, _) \<Rightarrow> if c = Canceled then Ok () else Err e
            | None \<Rightarrow> Err e))"

text \<open>The loop, with the context as it is after each entry, and the keys seen so far.\<close>

fun push_loop :: "ext_errs \<Rightarrow> unit res \<Rightarrow> (LogEntry res \<times> ctx) list \<Rightarrow> LogKey list \<Rightarrow> LogExchange
    \<Rightarrow> (unit res \<times> LogKey list \<times> LogExchange) option" where
  "push_loop x fin [] seen lx = None"
| "push_loop x fin ((Err e, ctx) # rs) seen lx = Some (push_end x fin e, seen, lx)"
| "push_loop x fin ((Panic m, ctx) # rs) seen lx = Some (Panic m, seen, lx)"
| "push_loop x fin ((Ok entry, ctx) # rs) seen lx =
     (let seen = note_key (entry_key entry) seen in
      case LogExchange_Publish entry lx of
        (Ok _, lx) \<Rightarrow> (case ctx of Some e \<Rightarrow> Some (Err e, seen, lx) | None \<Rightarrow> push_loop x fin rs seen lx)
      | (r, lx) \<Rightarrow> Some (r, seen, lx))"

fun close_keys :: "LogKey list \<Rightarrow> LogExchange \<Rightarrow> unit res \<times> LogExchange" where
  "close_keys [] lx = (Ok (), lx)"
| "close_keys (k # ks) lx = andThen (LogExchange_CloseKey k lx) (\<lambda>_ lx. close_keys ks lx)"

definition grpc_Log_PushLogs ::
  "ext_errs \<Rightarrow> unit res \<Rightarrow> (LogEntry res \<times> ctx) list \<Rightarrow> LogExchange \<Rightarrow> (unit res \<times> LogExchange) option" where
  "grpc_Log_PushLogs x fin rs lx =
     map_option (\<lambda>(r, seen, lx). case close_keys seen lx of (Panic m, lx) \<Rightarrow> (Panic m, lx) | (_, lx) \<Rightarrow> (r, lx))
       (push_loop x fin rs [] lx)"

section \<open>Tailing\<close>

text \<open>
  A request without a session gets a fresh one. The handler subscribes before it asks the
  node to start sending.
\<close>

definition tail_key :: "TailLogRequest \<Rightarrow> LogKey" where
  "tail_key req = \<lparr>NodeID = tl_NodeId req, TaskID = tl_TaskId req, SessionID = tl_SessionId req\<rparr>"

definition with_session :: "string \<Rightarrow> TailLogRequest \<Rightarrow> TailLogRequest" where
  "with_session fresh req = (if length (tl_SessionId req) = 0 then req\<lparr>tl_SessionId := fresh\<rparr> else req)"

definition grpc_Log_tail_open ::
  "'x LogService \<Rightarrow> string \<Rightarrow> string \<Rightarrow> TailLogRequest \<Rightarrow> LogExchange \<times> 'x \<Rightarrow> (TailLogRequest \<times> chan_id) res \<times> (LogExchange \<times> 'x)"
where
  "grpc_Log_tail_open s fresh ev req st =
     (case st of (lx, w) \<Rightarrow>
       (let req = with_session fresh req; key = tail_key req in
        case LogExchange_Subscribe key lx of (ch, lx) \<Rightarrow>
          (case LogService_SendStartLogsCommand s None ev req w of
             (Ok _, w) \<Rightarrow> (Ok (req, ch), (lx, w))
           | (Err e, w) \<Rightarrow> (Err e, (LogExchange_Unsubscribe key ch lx, w))
           | (Panic m, w) \<Rightarrow> (Panic m, (LogExchange_Unsubscribe key ch lx, w)))))"

text \<open>
  One turn of the loop: the alternatives of the select, each with the line to send, if
  any, or the result the handler returns with.
\<close>

definition tail_select :: "ctx \<Rightarrow> chan_id \<Rightarrow> LogExchange \<Rightarrow> ((LogEntry, unit res) sum \<times> LogExchange) list" where
  "tail_select ctx ch lx =
     (case ctx of Some e \<Rightarrow> [(Inr (Err e), lx)] | None \<Rightarrow> []) @
     (case map_of (chans lx) ch of
        None \<Rightarrow> []
      | Some c \<Rightarrow> (case buf c of
                    e # es \<Rightarrow> [(Inl e, lx\<lparr>chans := AList.update ch (c\<lparr>buf := es\<rparr>) (chans lx)\<rparr>)]
                  | [] \<Rightarrow> if chan_closed c then [(Inr (Ok ()), lx)] else []))"

text \<open>The deferred calls: the stop command, whose error is only logged, then the unsubscribe.\<close>

definition grpc_Log_tail_close ::
  "'x LogService \<Rightarrow> string \<Rightarrow> TailLogRequest \<Rightarrow> chan_id \<Rightarrow> LogExchange \<times> 'x \<Rightarrow> unit res \<times> (LogExchange \<times> 'x)"
where
  "grpc_Log_tail_close s ev req ch st =
     (case st of (lx, w) \<Rightarrow>
       (case LogService_SendStopLogsCommand s None ev req w of
          (Panic m, w) \<Rightarrow> (Panic m, (LogExchange_Unsubscribe (tail_key req) ch lx, w))
        | (_, w) \<Rightarrow> (Ok (), (LogExchange_Unsubscribe (tail_key req) ch lx, w))))"

section \<open>Facts on pushing\<close>

text \<open>The exchange after a list of entries.\<close>

fun publish_all :: "LogEntry list \<Rightarrow> LogExchange \<Rightarrow> LogExchange" where
  "publish_all [] lx = lx"
| "publish_all (e # es) lx = publish_all es (snd (LogExchange_Publish e lx))"

definition keyed :: "LogEntry \<Rightarrow> bool" where
  "keyed e \<longleftrightarrow> le_NodeId e \<noteq> [] \<and> le_TaskId e \<noteq> []"

lemma note_key_set: "set (note_key (entry_key e) seen) = (if keyed e then insert (entry_key e) (set seen) else set seen)"
  by (auto simp: note_key_def keyed_def entry_key_def)

lemma publish_ok:
  assumes "lx_inv lx"
  shows "LogExchange_Publish e lx = (Ok (), snd (LogExchange_Publish e lx))"
    and "subs_at (snd (LogExchange_Publish e lx)) k = subs_at lx k"
  using Publish_delivers_log [OF assms, of e] by auto

lemma publish_all_inv: "lx_inv lx \<Longrightarrow> lx_inv (publish_all es lx) \<and> subs_at (publish_all es lx) k = subs_at lx k"
  by (induction es arbitrary: lx) (simp_all add: lx_inv_Publish publish_ok(2))

lemma push_loop_run:
  "lx_inv lx \<Longrightarrow>
   \<exists>seen'. push_loop x fin (map (\<lambda>e. (Ok e, None)) es @ [(Err err, c)]) seen lx = Some (push_end x fin err, seen', publish_all es lx)
     \<and> set seen' = set seen \<union> entry_key ` {e \<in> set es. keyed e}"
proof (induction es arbitrary: seen lx)
  case (Cons e es)
  from publish_ok(1) [OF Cons.prems, of e] obtain lx' where lx': "LogExchange_Publish e lx = (Ok (), lx')" by blast
  from Cons.IH [of lx' "note_key (entry_key e) seen"] lx_inv_Publish [OF Cons.prems, of e] lx'
  obtain seen' where "push_loop x fin (map (\<lambda>e. (Ok e, None)) es @ [(Err err, c)]) (note_key (entry_key e) seen) lx'
      = Some (push_end x fin err, seen', publish_all es lx')"
    and "set seen' = set (note_key (entry_key e) seen) \<union> entry_key ` {e \<in> set es. keyed e}" by auto
  with lx' show ?case by (auto simp: note_key_set Let_def)
qed simp

lemma close_keys_ok:
  "lx_inv lx \<Longrightarrow> \<exists>lx'. close_keys ks lx = (Ok (), lx') \<and> lx_inv lx' \<and>
     (\<forall>k. subs_at lx' k = (if k \<in> set ks then [] else subs_at lx k))"
proof (induction ks arbitrary: lx)
  case (Cons k ks)
  from CloseKey_ok [OF Cons.prems, of k] obtain lx1 where
    lx1: "LogExchange_CloseKey k lx = (Ok (), lx1)" "lx_inv lx1" "subs_at lx1 k = []" "\<forall>k'. k' \<noteq> k \<longrightarrow> subs_at lx1 k' = subs_at lx k'"
    by blast
  from Cons.IH [OF lx1(2)] lx1 show ?case by auto
qed simp

section \<open>Properties\<close>

text \<open>
  A node's log stream is safe to end: from every reachable state of the log exchange, the
  handler publishes the lines in their order, and when the stream ends it closes the
  keys it saw, and no others, without panic, and returns what the end of the stream
  calls for: nothing when the node cancelled.
\<close>

theorem push_logs_ends:
  assumes "lx_reach lx"
  shows "\<exists>seen lx'. grpc_Log_PushLogs x fin (map (\<lambda>e. (Ok e, None)) es @ [(Err err, c)]) lx = Some (push_end x fin err, lx')
    \<and> set seen = entry_key ` {e \<in> set es. keyed e} \<and> close_keys seen (publish_all es lx) = (Ok (), lx')
    \<and> lx_inv lx' \<and> (\<forall>k. subs_at lx' k = (if k \<in> entry_key ` {e \<in> set es. keyed e} then [] else subs_at lx k))"
proof -
  note inv = lx_reach_inv [OF assms]
  obtain seen where seen: "push_loop x fin (map (\<lambda>e. (Ok e, None)) es @ [(Err err, c)]) [] lx
      = Some (push_end x fin err, seen, publish_all es lx)" "set seen = entry_key ` {e \<in> set es. keyed e}"
    using push_loop_run [OF inv, of x fin es err c "[]"] by auto
  from publish_all_inv [OF inv, of es] have "lx_inv (publish_all es lx)" by blast
  from close_keys_ok [OF this, of seen] obtain lx' where
    "close_keys seen (publish_all es lx) = (Ok (), lx')" "lx_inv lx'"
    "\<forall>k. subs_at lx' k = (if k \<in> set seen then [] else subs_at (publish_all es lx) k)" by blast
  with seen publish_all_inv [OF inv, of es] show ?thesis
    by (intro exI [of _ seen] exI [of _ lx']) (auto simp: grpc_Log_PushLogs_def)
qed

theorem push_logs_ends_witness:
  "\<exists>lx'. grpc_Log_PushLogs sample_ext (Ok ()) [(Ok sample_entry, None), (Err (StatusErr Canceled ''bye''), None)]
      (snd (LogExchange_Subscribe (entry_key sample_entry) new_LogExchange)) = Some (Ok (), lx')
    \<and> subs_at lx' (entry_key sample_entry) = []"
proof -
  have "push_end sample_ext (Ok ()) (StatusErr Canceled ''bye'') = Ok ()"
    by (simp add: push_end_def sample_ext_def)
  moreover have "keyed sample_entry" by (simp add: keyed_def sample_entry_def)
  ultimately show ?thesis
    using push_logs_ends [OF lx_subscribe [OF lx_start], of sample_ext "Ok ()" "[sample_entry]" "StatusErr Canceled ''bye''" None
        "entry_key sample_entry"] by auto
qed

end
