(* ===== verification/Util.thy ===== *)
theory Util
  imports Labels
begin

text \<open>
  pkg/util/util.go: decimal text of 64-bit numbers, list copies, label merging and random
  names. The gob serializer, the time parser and the pointer helpers are not part of this
  theory. A random source is a function from a bound to a draw below it.
\<close>

section \<open>Random draws\<close>

definition rand_documented :: "(nat \<Rightarrow> nat) \<Rightarrow> bool" where
  "rand_documented intn \<longleftrightarrow> (\<forall>n. 0 < n \<longrightarrow> intn n < n)"

section \<open>Numbers as text\<close>

definition digit :: "nat \<Rightarrow> char" where
  "digit d = ''0123456789'' ! d"

text \<open>\<^verbatim>\<open>strconv.FormatUint\<close> in base ten, and the value \<^verbatim>\<open>strconv.ParseUint\<close> reads.\<close>

function format_nat :: "nat \<Rightarrow> string" where
  "format_nat n = (if n < 10 then [digit n] else format_nat (n div 10) @ [digit (n mod 10)])"
  by auto
termination by (relation "measure id") auto

declare format_nat.simps [simp del]

definition Uint64ToString :: "uint64 \<Rightarrow> string" where
  "Uint64ToString u = format_nat (unat u)"

definition digit_val :: "char \<Rightarrow> nat option" where
  "digit_val c = (let n = of_char c :: nat in if 48 \<le> n \<and> n \<le> 57 then Some (n - 48) else None)"

fun parse_digits :: "nat \<Rightarrow> string \<Rightarrow> nat option" where
  "parse_digits acc [] = Some acc"
| "parse_digits acc (c # cs) = (case digit_val c of None \<Rightarrow> None | Some d \<Rightarrow> parse_digits (acc * 10 + d) cs)"

text \<open>A syntax error, an empty text and a value of more than 64 bits all give 0.\<close>

definition StringToUint64 :: "string \<Rightarrow> uint64" where
  "StringToUint64 s =
     (if s = [] then 0
      else (case parse_digits 0 s of
              None \<Rightarrow> 0
            | Some n \<Rightarrow> if n < 2 ^ 64 then of_nat n else 0))"

lemma digit_val_digit: "d < 10 \<Longrightarrow> digit_val (digit d) = Some d"
proof -
  assume "d < 10"
  then have "d \<in> set [0, 1, 2, 3, 4, 5, 6, 7, 8, 9]" by auto
  then show ?thesis by (auto simp: digit_def digit_val_def Let_def)
qed

lemma parse_digits_append:
  "parse_digits acc (xs @ ys) = (case parse_digits acc xs of None \<Rightarrow> None | Some n \<Rightarrow> parse_digits n ys)"
  by (induction xs arbitrary: acc) (auto split: option.splits)

lemma parse_format_nat: "parse_digits 0 (format_nat n) = Some n \<and> format_nat n \<noteq> []"
proof (induction n rule: format_nat.induct)
  case (1 n)
  then show ?case
    by (cases "n < 10") (simp_all add: format_nat.simps [of n] parse_digits_append digit_val_digit)
qed

section \<open>Lists, labels and names\<close>

text \<open>A shallow copy of every element; nil stays nil.\<close>

definition CopyList :: "'a option list \<Rightarrow> 'a option list" where
  "CopyList original = map (\<lambda>item. case item of None \<Rightarrow> None | Some x \<Rightarrow> Some x) original"

definition MergeLabels :: "label list \<Rightarrow> label" where
  "MergeLabels ls = foldl (\<lambda>l m. foldl (\<lambda>acc (k, v). AList.update k v acc) l m) [] ls"

definition base36Chars :: string where
  "base36Chars = ''0123456789abcdefghijklmnopqrstuvwxyz''"

text \<open>One draw per position; \<open>draws i\<close> is the i-th.\<close>

definition GenerateBase36 :: "(nat \<Rightarrow> nat \<Rightarrow> nat) \<Rightarrow> nat \<Rightarrow> string" where
  "GenerateBase36 draws len = map (\<lambda>i. base36Chars ! draws i (length base36Chars)) [0..<len]"

lemma CopyList_same [simp]: "CopyList xs = xs"
  by (induction xs) (auto simp: CopyList_def split: option.splits)

lemma MergeLabels_snoc: "MergeLabels (ls @ [m]) = Label_AppendMap (MergeLabels ls) m"
  by (simp add: MergeLabels_def Label_AppendMap_def Label_Set_def)

text \<open>A later label map overrides the earlier ones.\<close>

lemma MergeLabels_last:
  "distinct (map fst m) \<Longrightarrow>
   map_of (MergeLabels (ls @ [m])) k = (case map_of m k of Some v \<Rightarrow> Some v | None \<Rightarrow> map_of (MergeLabels ls) k)"
  by (simp add: MergeLabels_snoc map_of_AppendMap)

lemma GenerateBase36_alphabet:
  assumes "\<forall>i. rand_documented (draws i)"
  shows "length (GenerateBase36 draws n) = n \<and> set (GenerateBase36 draws n) \<subseteq> set base36Chars"
proof -
  have "draws i (length base36Chars) < length base36Chars" for i
    using assms by (simp add: rand_documented_def base36Chars_def)
  then show ?thesis by (auto simp: GenerateBase36_def)
qed

section \<open>Properties\<close>

text \<open>
  Every 64-bit number survives its text: printing it in decimal and reading the text
  gives the number back.
\<close>

theorem uint64_text_roundtrip: "StringToUint64 (Uint64ToString u) = u"
proof -
  have "unat u < 2 ^ 64" using of_nat_less_iff [of "unat u" "2 ^ 64", where ?'a = int] uint_bounded [of u] by simp
  with parse_format_nat [of "unat u"] show ?thesis
    by (simp add: StringToUint64_def Uint64ToString_def)
qed

end
