(* ===== verification/Clients.thy ===== *)
theory Clients
  imports Transport Util
begin

text \<open>
  The clients of the API, pkg/client: task, lease and node client and the identity they
  send along. The generated stubs they call are records of operations on the state of the
  world; a stub method takes the fields of its request and the metadata of the call.
\<close>

type_synonym metadata = "(string, string list) gomap"

section \<open>Identity\<close>

record ClientIdentity =
  id_Name :: string
  id_UID :: string

text \<open>The interceptor of a client: a node that has joined names itself on every call.\<close>

definition IdentityUnaryInterceptor :: "ClientIdentity option \<Rightarrow> metadata \<Rightarrow> metadata" where
  "IdentityUnaryInterceptor ident md =
     (case ident of
        None \<Rightarrow> md
      | Some i \<Rightarrow> if id_UID i \<noteq> []
                 then AList.update ''x-voiyd-node-name'' [id_Name i] (AList.update ''x-voiyd-node-uid'' [id_UID i] md)
                 else md)"

section \<open>Stubs\<close>

record 'x TaskServiceClient =
  tstub_Get :: "ctx \<Rightarrow> string \<Rightarrow> string \<Rightarrow> 'x \<Rightarrow> Task res \<times> 'x"
  tstub_Create :: "ctx \<Rightarrow> Task \<Rightarrow> 'x \<Rightarrow> Task res \<times> 'x"
  tstub_Delete :: "ctx \<Rightarrow> string \<Rightarrow> string \<Rightarrow> 'x \<Rightarrow> unit res \<times> 'x"
  tstub_List :: "ctx \<Rightarrow> label \<Rightarrow> 'x \<Rightarrow> Task list res \<times> 'x"
  tstub_Update :: "ctx \<Rightarrow> string \<Rightarrow> string \<Rightarrow> Task \<Rightarrow> 'x \<Rightarrow> Task res \<times> 'x"
  tstub_UpdateStatus :: "ctx \<Rightarrow> metadata \<Rightarrow> string \<Rightarrow> string \<Rightarrow> TaskStatus option \<Rightarrow> string list \<Rightarrow> 'x \<Rightarrow> string res \<times> 'x"
  tstub_Condition :: "ctx \<Rightarrow> ConditionRequest \<Rightarrow> 'x \<Rightarrow> unit res \<times> 'x"
  tstub_Kill :: "ctx \<Rightarrow> string \<Rightarrow> string \<Rightarrow> 'x \<Rightarrow> unit res \<times> 'x"
  tstub_Start :: "ctx \<Rightarrow> string \<Rightarrow> string \<Rightarrow> 'x \<Rightarrow> unit res \<times> 'x"
  tstub_Stop :: "ctx \<Rightarrow> string \<Rightarrow> string \<Rightarrow> 'x \<Rightarrow> unit res \<times> 'x"

record 'x LeaseServiceClient =
  lstub_Get :: "ctx \<Rightarrow> string \<Rightarrow> 'x \<Rightarrow> Lease option res \<times> 'x"
  lstub_List :: "ctx \<Rightarrow> label \<Rightarrow> 'x \<Rightarrow> Lease list res \<times> 'x"
  lstub_Acquire :: "ctx \<Rightarrow> string \<Rightarrow> string \<Rightarrow> 'x \<Rightarrow> lease_grant res \<times> 'x"
  lstub_Release :: "ctx \<Rightarrow> string \<Rightarrow> string \<Rightarrow> string \<Rightarrow> 'x \<Rightarrow> bool res \<times> 'x"
  lstub_Revoke :: "ctx \<Rightarrow> string \<Rightarrow> string \<Rightarrow> 'x \<Rightarrow> bool res \<times> 'x"
  lstub_Renew :: "ctx \<Rightarrow> string \<Rightarrow> string \<Rightarrow> string \<Rightarrow> 'x \<Rightarrow> lease_grant res \<times> 'x"

record 'x NodeServiceClient =
  nstub_Get :: "ctx \<Rightarrow> string \<Rightarrow> string \<Rightarrow> 'x \<Rightarrow> Node res \<times> 'x"
  nstub_Create :: "ctx \<Rightarrow> Node \<Rightarrow> 'x \<Rightarrow> Node res \<times> 'x"
  nstub_Delete :: "ctx \<Rightarrow> string \<Rightarrow> string \<Rightarrow> 'x \<Rightarrow> unit res \<times> 'x"
  nstub_List :: "ctx \<Rightarrow> 'x \<Rightarrow> Node list res \<times> 'x"
  nstub_Update :: "ctx \<Rightarrow> string \<Rightarrow> string \<Rightarrow> Node \<Rightarrow> 'x \<Rightarrow> Node res \<times> 'x"
  nstub_UpdateStatus :: "ctx \<Rightarrow> string \<Rightarrow> string \<Rightarrow> NodeStatus option \<Rightarrow> string list \<Rightarrow> 'x \<Rightarrow> string res \<times> 'x"
  nstub_Condition :: "ctx \<Rightarrow> ConditionRequest \<Rightarrow> 'x \<Rightarrow> unit res \<times> 'x"
  nstub_Upgrade :: "ctx \<Rightarrow> UpgradeRequest \<Rightarrow> 'x \<Rightarrow> unit res \<times> 'x"
  nstub_Join :: "ctx \<Rightarrow> Node \<Rightarrow> 'x \<Rightarrow> (string \<times> string) res \<times> 'x"
  nstub_Forget :: "ctx \<Rightarrow> string \<Rightarrow> string \<Rightarrow> 'x \<Rightarrow> string res \<times> 'x"

text \<open>An error returned as it is, and any result of a call dropped.\<close>

definition no_value :: "'a res \<times> 'x \<Rightarrow> unit res \<times> 'x" where
  "no_value p = andThen p (\<lambda>_ st. (Ok (), st))"

lemma no_value_simps [simp]: "no_value (Ok a, st) = (Ok (), st)" "no_value (Err e, st) = (Err e, st)" "no_value (Panic m, st) = (Panic m, st)"
  by (simp_all add: no_value_def)

text \<open>A call that addresses a resource by text: the text is parsed into uid and name.\<close>

definition by_text :: "uuid_lib \<Rightarrow> string \<Rightarrow> (string \<Rightarrow> string \<Rightarrow> 'x \<Rightarrow> 'a res \<times> 'x) \<Rightarrow> 'x \<Rightarrow> 'a res \<times> 'x" where
  "by_text ul i call st = andThen (keys_ParseStr ul i, st) (\<lambda>uid st. call (ID_UUIDStr ul uid) (ID_NameStr uid) st)"

section \<open>The task client\<close>

record 'x task_client =
  tc_stub :: "'x TaskServiceClient"
  tc_ident :: "ClientIdentity option"
  tc_uuid :: uuid_lib
  tc_errs :: ext_errs

definition statusV1_Update ::
  "'x task_client \<Rightarrow> ctx \<Rightarrow> string \<Rightarrow> TaskStatus \<Rightarrow> string list \<Rightarrow> 'x \<Rightarrow> unit res \<times> 'x" where
  "statusV1_Update c ctx i status path st =
     no_value (by_text (tc_uuid c) i (\<lambda>uid name.
       tstub_UpdateStatus (tc_stub c) ctx (IdentityUnaryInterceptor (tc_ident c) []) uid name (Some status) path) st)"

definition statusV1_SetID :: "'x task_client \<Rightarrow> ctx \<Rightarrow> string \<Rightarrow> string \<Rightarrow> 'x \<Rightarrow> unit res \<times> 'x" where
  "statusV1_SetID c ctx i v = statusV1_Update c ctx i (empty_TaskStatus\<lparr>ts_Id := Some v\<rparr>) [''id'']"

definition statusV1_SetNode :: "'x task_client \<Rightarrow> ctx \<Rightarrow> string \<Rightarrow> string \<Rightarrow> 'x \<Rightarrow> unit res \<times> 'x" where
  "statusV1_SetNode c ctx i node = statusV1_Update c ctx i (empty_TaskStatus\<lparr>ts_Node := Some node\<rparr>) [''node'']"

definition statusV1_SetPhase :: "'x task_client \<Rightarrow> ctx \<Rightarrow> string \<Rightarrow> string \<Rightarrow> 'x \<Rightarrow> unit res \<times> 'x" where
  "statusV1_SetPhase c ctx i phase = statusV1_Update c ctx i (empty_TaskStatus\<lparr>ts_Phase := Some phase\<rparr>) [''phase'']"

definition statusV1_SetPid :: "'x task_client \<Rightarrow> ctx \<Rightarrow> string \<Rightarrow> uint32 \<Rightarrow> 'x \<Rightarrow> unit res \<times> 'x" where
  "statusV1_SetPid c ctx i pid = statusV1_Update c ctx i (empty_TaskStatus\<lparr>ts_Pid := Some pid\<rparr>) [''pid'']"

definition statusV1_SetReason :: "'x task_client \<Rightarrow> ctx \<Rightarrow> string \<Rightarrow> string \<Rightarrow> 'x \<Rightarrow> unit res \<times> 'x" where
  "statusV1_SetReason c ctx i reason = statusV1_Update c ctx i (empty_TaskStatus\<lparr>ts_Reason := Some reason\<rparr>) [''reason'']"

definition task_Kill :: "'x task_client \<Rightarrow> ctx \<Rightarrow> string \<Rightarrow> 'x \<Rightarrow> unit res \<times> 'x" where
  "task_Kill c ctx i st = by_text (tc_uuid c) i (tstub_Kill (tc_stub c) ctx) st"

definition task_Stop :: "'x task_client \<Rightarrow> ctx \<Rightarrow> string \<Rightarrow> 'x \<Rightarrow> unit res \<times> 'x" where
  "task_Stop c ctx i st = by_text (tc_uuid c) i (tstub_Stop (tc_stub c) ctx) st"

definition task_Start :: "'x task_client \<Rightarrow> ctx \<Rightarrow> string \<Rightarrow> 'x \<Rightarrow> unit res \<times> 'x" where
  "task_Start c ctx i st = by_text (tc_uuid c) i (tstub_Start (tc_stub c) ctx) st"

definition task_Create :: "'x task_client \<Rightarrow> ctx \<Rightarrow> Task \<Rightarrow> 'x \<Rightarrow> unit res \<times> 'x" where
  "task_Create c ctx ctr st =
     (let ctr = (if task_Version ctr = [] then ctr\<lparr>task_Version := ''task/v1''\<rparr> else ctr) in
      case tstub_Create (tc_stub c) ctx ctr st of
        (Ok _, st) \<Rightarrow> (Ok (), st)
      | (Err e, st) \<Rightarrow> (from_err (ToStatus (tc_errs c) (Some e)), st)
      | (Panic m, st) \<Rightarrow> (Panic m, st))"

definition task_Update :: "'x task_client \<Rightarrow> ctx \<Rightarrow> string \<Rightarrow> Task \<Rightarrow> 'x \<Rightarrow> unit res \<times> 'x" where
  "task_Update c ctx i ctr st =
     andThen (keys_ParseStr (tc_uuid c) i, st) (\<lambda>uid st.
     case tstub_Update (tc_stub c) ctx (ID_UUIDStr (tc_uuid c) uid) (ID_NameStr uid) ctr st of
       (Ok _, st) \<Rightarrow> (Ok (), st)
     | (Err e, st) \<Rightarrow> (from_err (ToStatus (tc_errs c) (Some e)), st)
     | (Panic m, st) \<Rightarrow> (Panic m, st))"

definition task_Get :: "'x task_client \<Rightarrow> ctx \<Rightarrow> string \<Rightarrow> 'x \<Rightarrow> Task res \<times> 'x" where
  "task_Get c ctx i st = by_text (tc_uuid c) i (tstub_Get (tc_stub c) ctx) st"

definition task_List :: "'x task_client \<Rightarrow> ctx \<Rightarrow> label list \<Rightarrow> 'x \<Rightarrow> Task list res \<times> 'x" where
  "task_List c ctx ls st = tstub_List (tc_stub c) ctx (MergeLabels ls) st"

definition task_Delete :: "'x task_client \<Rightarrow> ctx \<Rightarrow> string \<Rightarrow> 'x \<Rightarrow> unit res \<times> 'x" where
  "task_Delete c ctx i st = no_value (by_text (tc_uuid c) i (tstub_Delete (tc_stub c) ctx) st)"

definition task_Condition :: "'x task_client \<Rightarrow> ctx \<Rightarrow> string \<Rightarrow> Condition list \<Rightarrow> 'x \<Rightarrow> unit res \<times> 'x" where
  "task_Condition c ctx taskID conditions st =
     no_value (tstub_Condition (tc_stub c) ctx
       \<lparr>creq_ResourceVersion = ''task/v1'', creq_TaskId = taskID, creq_Conditions = conditions\<rparr> st)"

section \<open>The lease client\<close>

definition lease_Acquire :: "'x LeaseServiceClient \<Rightarrow> ctx \<Rightarrow> string \<Rightarrow> string \<Rightarrow> 'x \<Rightarrow> lease_grant res \<times> 'x" where
  "lease_Acquire c ctx taskID nodeID st =
     andThen (lstub_Acquire c ctx taskID nodeID st) (\<lambda>(lease, token, _) st.
     (Ok (lease, token, (case lease of None \<Rightarrow> 0 | Some l \<Rightarrow> lc_FencingToken (lease_config l))), st))"

definition lease_Renew :: "'x LeaseServiceClient \<Rightarrow> ctx \<Rightarrow> string \<Rightarrow> string \<Rightarrow> string \<Rightarrow> 'x \<Rightarrow> lease_grant res \<times> 'x" where
  "lease_Renew c ctx taskID nodeID token st =
     andThen (lstub_Renew c ctx taskID nodeID token st) (\<lambda>(lease, token, fencing) st. (Ok (lease, token, fencing), st))"

definition lease_Release :: "'x LeaseServiceClient \<Rightarrow> ctx \<Rightarrow> string \<Rightarrow> string \<Rightarrow> string \<Rightarrow> 'x \<Rightarrow> unit res \<times> 'x" where
  "lease_Release c ctx taskID nodeID token st = no_value (lstub_Release c ctx taskID nodeID token st)"

definition lease_Revoke :: "'x LeaseServiceClient \<Rightarrow> ctx \<Rightarrow> string \<Rightarrow> string \<Rightarrow> 'x \<Rightarrow> unit res \<times> 'x" where
  "lease_Revoke c ctx taskID nodeID st = no_value (lstub_Revoke c ctx taskID nodeID st)"

definition lease_Get :: "'x LeaseServiceClient \<Rightarrow> ctx \<Rightarrow> string \<Rightarrow> 'x \<Rightarrow> Lease option res \<times> 'x" where
  "lease_Get c ctx i st = lstub_Get c ctx i st"

definition lease_List :: "'x LeaseServiceClient \<Rightarrow> ctx \<Rightarrow> label list \<Rightarrow> 'x \<Rightarrow> Lease list res \<times> 'x" where
  "lease_List c ctx ls st = lstub_List c ctx (MergeLabels ls) st"

section \<open>The node client\<close>

record 'x node_client =
  nc_stub :: "'x NodeServiceClient"
  nc_ident :: "ClientIdentity option"
  nc_uuid :: uuid_lib

definition node_Status_Update ::
  "'x node_client \<Rightarrow> ctx \<Rightarrow> string \<Rightarrow> NodeStatus \<Rightarrow> string list \<Rightarrow> 'x \<Rightarrow> unit res \<times> 'x" where
  "node_Status_Update c ctx i status path st =
     no_value (by_text (nc_uuid c) i (\<lambda>uid name. nstub_UpdateStatus (nc_stub c) ctx uid name (Some status) path) st)"

definition node_Delete :: "'x node_client \<Rightarrow> ctx \<Rightarrow> string \<Rightarrow> 'x \<Rightarrow> unit res \<times> 'x" where
  "node_Delete c ctx i st = no_value (by_text (nc_uuid c) i (nstub_Delete (nc_stub c) ctx) st)"

definition node_Get :: "'x node_client \<Rightarrow> ctx \<Rightarrow> string \<Rightarrow> 'x \<Rightarrow> Node res \<times> 'x" where
  "node_Get c ctx i st = by_text (nc_uuid c) i (nstub_Get (nc_stub c) ctx) st"

definition node_List :: "'x node_client \<Rightarrow> ctx \<Rightarrow> label list \<Rightarrow> 'x \<Rightarrow> Node list res \<times> 'x" where
  "node_List c ctx ls st = nstub_List (nc_stub c) ctx st"

definition node_Update :: "'x node_client \<Rightarrow> ctx \<Rightarrow> string \<Rightarrow> Node \<Rightarrow> 'x \<Rightarrow> unit res \<times> 'x" where
  "node_Update c ctx i node st =
     no_value (by_text (nc_uuid c) i (\<lambda>uid name. nstub_Update (nc_stub c) ctx uid name node) st)"

definition node_Create :: "'x node_client \<Rightarrow> ctx \<Rightarrow> Node \<Rightarrow> 'x \<Rightarrow> unit res \<times> 'x" where
  "node_Create c ctx node st = no_value (nstub_Create (nc_stub c) ctx node st)"

text \<open>A node that joined keeps the identity the server gave it.\<close>

definition node_Join :: "'x node_client \<Rightarrow> ctx \<Rightarrow> Node \<Rightarrow> 'x \<Rightarrow> unit res \<times> ('x node_client \<times> 'x)" where
  "node_Join c ctx node st =
     (case nstub_Join (nc_stub c) ctx node st of
        (Ok (uid, name), st) \<Rightarrow> (Ok (), (c\<lparr>nc_ident := Some \<lparr>id_Name = name, id_UID = uid\<rparr>\<rparr>, st))
      | (Err e, st) \<Rightarrow> (Err e, (c, st))
      | (Panic m, st) \<Rightarrow> (Panic m, (c, st)))"

definition node_Forget :: "'x node_client \<Rightarrow> ctx \<Rightarrow> string \<Rightarrow> 'x \<Rightarrow> unit res \<times> 'x" where
  "node_Forget c ctx n st = no_value (nstub_Forget (nc_stub c) ctx [] n st)"

definition node_Upgrade :: "'x node_client \<Rightarrow> ctx \<Rightarrow> string \<Rightarrow> string \<Rightarrow> 'x \<Rightarrow> unit res \<times> 'x" where
  "node_Upgrade c ctx nodeID version st =
     by_text (nc_uuid c) nodeID (\<lambda>uid name. nstub_Upgrade (nc_stub c) ctx
       \<lparr>up_TargetVersion = version, up_Uid = uid, up_Name = name, up_Selector = []\<rparr>) st"

definition node_UpgradeAll :: "'x node_client \<Rightarrow> ctx \<Rightarrow> label \<Rightarrow> string \<Rightarrow> 'x \<Rightarrow> unit res \<times> 'x" where
  "node_UpgradeAll c ctx selector version st =
     nstub_Upgrade (nc_stub c) ctx \<lparr>up_TargetVersion = version, up_Uid = [], up_Name = [], up_Selector = selector\<rparr> st"

text \<open>The request leaves the node's identifier out.\<close>

definition node_Condition :: "'x node_client \<Rightarrow> ctx \<Rightarrow> string \<Rightarrow> Condition list \<Rightarrow> 'x \<Rightarrow> unit res \<times> 'x" where
  "node_Condition c ctx nodeID conditions st =
     no_value (nstub_Condition (nc_stub c) ctx
       \<lparr>creq_ResourceVersion = ''node/v1'', creq_TaskId = [], creq_Conditions = conditions\<rparr> st)"

definition isRetryableError :: "code \<Rightarrow> bool" where
  "isRetryableError c \<longleftrightarrow> c = Unavailable \<or> c = ResourceExhausted \<or> c = Internal"

text \<open>The names of the codes that are retried.\<close>

fun code_text :: "code \<Rightarrow> string" where
  "code_text Unavailable = ''Unavailable''"
| "code_text ResourceExhausted = ''ResourceExhausted''"
| "code_text Internal = ''Internal''"
| "code_text _ = []"

text \<open>
  What the receive loop of a stream ends with, for each message or error and the context
  at that turn: \<open>None\<close> while it goes on waiting. Messages go to the receiver in order.
\<close>

fun handleStream :: "ext_errs \<Rightarrow> (ctx \<times> (Event, error) sum) list \<Rightarrow> (error \<times> error list \<times> Event list) option" where
  "handleStream x [] = None"
| "handleStream x ((ctx, r) # rs) =
     (if ctx \<noteq> None then Some (Sentinel CtxCanceled, [], [])
      else (case r of
              Inl ev \<Rightarrow> map_option (\<lambda>(e, es, evs). (e, es, ev # evs)) (handleStream x rs)
            | Inr e \<Rightarrow>
                if errors_Is e CtxCanceled then Some (Sentinel CtxCanceled, [], [])
                else if errors_Is e IoEOF then Some (Sentinel IoEOF, [], [])
                else (case status_FromError x (Some e) of
                        Some (c, m) \<Rightarrow>
                          if isRetryableError c
                          then Some (Errorf (''transient stream error '' @ m @ '' '' @ code_text c @ '': '' @ err_text x e), [], [])
                          else Some (e, [e], [])
                      | None \<Rightarrow> Some (e, [e], []))))"

end
