(* ===== verification/Scheduling.thy ===== *)
theory Scheduling
  imports Util Messages
begin

text \<open>
  The horizontal scheduler, pkg/scheduling/horizontal.go: filters over the list of nodes
  and a random pick. The random source is the parameter \<open>intn\<close>.
\<close>

section \<open>Filters\<close>

abbreviation node_name :: "Node \<Rightarrow> string" where
  "node_name n \<equiv> meta_Name (getMeta (node_Meta n))"

abbreviation node_uid :: "Node \<Rightarrow> string" where
  "node_uid n \<equiv> meta_Uid (getMeta (node_Meta n))"

abbreviation node_labels :: "Node \<Rightarrow> label" where
  "node_labels n \<equiv> meta_Labels (getMeta (node_Meta n))"

text \<open>Copies and clones have the value of their original.\<close>

fun excludeByName :: "Node list \<Rightarrow> string \<Rightarrow> Node list" where
  "excludeByName [] nodeName = []"
| "excludeByName (node # rest) nodeName =
     (if nodeName \<noteq> node_name node then node # excludeByName rest nodeName else excludeByName rest nodeName)"

fun filterByNodeSelector :: "Node list \<Rightarrow> label \<Rightarrow> Node list" where
  "filterByNodeSelector [] l = []"
| "filterByNodeSelector (node # rest) l =
     (let sel = NewCompositeSelectorFromMap l
      in if Matches sel (node_labels node) then node # filterByNodeSelector rest l else filterByNodeSelector rest l)"

fun filterByState :: "Node list \<Rightarrow> string \<Rightarrow> Node list" where
  "filterByState [] state = []"
| "filterByState (node # rest) state =
     (if state = GetValue (ns_Phase (node_status node)) then node # filterByState rest state else filterByState rest state)"

definition pickRandomNode :: "(nat \<Rightarrow> nat) \<Rightarrow> Node list \<Rightarrow> Node res" where
  "pickRandomNode intn original =
     (if length original \<le> 0 then Err (Sentinel SchedErrNoNode)
      else (let i = intn (length original)
            in if i < length original then Ok (original ! i) else Panic ''index out of range''))"

fun has_match :: "selector \<Rightarrow> Node list \<Rightarrow> bool" where
  "has_match sel [] \<longleftrightarrow> False"
| "has_match sel (node # nodes) \<longleftrightarrow> (if Matches sel (node_labels node) then True else has_match sel nodes)"

definition hasMatchingNodes :: "Task \<Rightarrow> Node list \<Rightarrow> bool res" where
  "hasMatchingNodes task nodes =
     (let sel = NewCompositeSelectorFromMap (tc_NodeSelector (task_config task)) in Ok (has_match sel nodes))"

section \<open>The scheduler\<close>

definition horizontal_Score :: "Task \<Rightarrow> Node list \<Rightarrow> (string, int) gomap res" where
  "horizontal_Score t nodes = Ok []"

definition horizontal_Schedule :: "(nat \<Rightarrow> nat) \<Rightarrow> Task \<Rightarrow> Node list \<Rightarrow> Node res" where
  "horizontal_Schedule intn t allNodes =
     bindR (hasMatchingNodes t allNodes) (\<lambda>match.
     if \<not> match then Err (Sentinel SchedErrNoMatchingNode)
     else if length allNodes < 1 then Err (Sentinel SchedErrNoNode)
     else pickRandomNode intn (filterByNodeSelector allNodes (tc_NodeSelector (task_config t))))"

section \<open>Lemmas\<close>

definition fits :: "Task \<Rightarrow> Node \<Rightarrow> bool" where
  "fits t n \<longleftrightarrow> (\<forall>(k, v) \<in> set (tc_NodeSelector (task_config t)). Label_Get (node_labels n) k = v)"

lemma excludeByName_filter: "excludeByName nodes s = filter (\<lambda>n. node_name n \<noteq> s) nodes"
  by (induction nodes) auto

lemma filterByState_filter: "filterByState nodes s = filter (\<lambda>n. GetValue (ns_Phase (node_status n)) = s) nodes"
  by (induction nodes) auto

lemma filterByNodeSelector_filter:
  "filterByNodeSelector nodes (tc_NodeSelector (task_config t)) = filter (fits t) nodes"
  by (induction nodes) (auto simp: Matches_FromMap_iff fits_def)

lemma has_match_iff: "has_match (NewCompositeSelectorFromMap (tc_NodeSelector (task_config t))) nodes \<longleftrightarrow> (\<exists>n \<in> set nodes. fits t n)"
  by (induction nodes) (auto simp: Matches_FromMap_iff fits_def)

lemma Schedule_cases:
  "horizontal_Schedule intn t nodes =
     (if \<exists>n \<in> set nodes. fits t n then pickRandomNode intn (filter (fits t) nodes)
      else Err (Sentinel SchedErrNoMatchingNode))"
  unfolding horizontal_Schedule_def hasMatchingNodes_def Let_def bindR_simps has_match_iff filterByNodeSelector_filter
  by (cases nodes) auto

section \<open>Properties\<close>


definition labelled_node :: "string \<Rightarrow> Node" where
  "labelled_node z = \<lparr>node_Version = ''node/v1'', node_Meta = Some (empty_Meta\<lparr>meta_Name := z, meta_Labels := [(''zone'', z)]\<rparr>),
     node_Config = None, node_Status = None\<rparr>"

definition zone_task :: "string \<Rightarrow> Task" where
  "zone_task z = \<lparr>task_Version = ''task/v1'', task_Meta = None, task_Config = Some (empty_TaskConfig\<lparr>tc_NodeSelector := [(''zone'', z)]\<rparr>),
     task_Status = None\<rparr>"


end
