(* ===== verification/Queue.thy ===== *)
theory Queue
  imports Errors
begin

text \<open>
  The task queue and its workers, pkg/queue/queue.go and work.go.

  Items are shared between the queue's maps and the workers, so they live in a heap and
  the maps hold addresses. A handler is an opaque value of type \<open>'h\<close> and its outcome comes
  with the step that runs it. An item's own cancellation is a flag; the state of the
  context it was derived from comes with the call as \<open>pctx\<close>. Which entry \<^verbatim>\<open>Pop\<close> takes is
  open in Go, so it takes the number of the entry.
\<close>

section \<open>The queue\<close>

record ('h, 'p) QueueItem =
  qi_Proto :: 'p
  qi_ResourceName :: string
  qi_ResourceID :: string
  qi_EnqueuedAt :: "instant option"
  qi_RetryCount :: int
  qi_Handler :: 'h
  qi_cancelled :: bool

record QueueMetrics =
  CurrentDepth :: int
  ItemsEnqueued :: int
  ItemsDequeued :: int
  ItemsProcessed :: int
  ItemsFailed :: int
  TotalRetries :: int

type_synonym item_ptr = nat

record ('h, 'p) TaskQueue =
  tq_items :: "(string, item_ptr) gomap"
  tq_popped :: "(string, item_ptr) gomap"
  tq_closed :: bool
  tq_metrics :: QueueMetrics
  tq_heap :: "('h, 'p) QueueItem list"

definition NewTaskQueue :: "('h, 'p) TaskQueue" where
  "NewTaskQueue = \<lparr>tq_items = [], tq_popped = [], tq_closed = False,
     tq_metrics = \<lparr>CurrentDepth = 0, ItemsEnqueued = 0, ItemsDequeued = 0, ItemsProcessed = 0, ItemsFailed = 0, TotalRetries = 0\<rparr>,
     tq_heap = []\<rparr>"

definition upd_item :: "item_ptr \<Rightarrow> (('h, 'p) QueueItem \<Rightarrow> ('h, 'p) QueueItem) \<Rightarrow> ('h, 'p) TaskQueue \<Rightarrow> ('h, 'p) TaskQueue" where
  "upd_item p f q = q\<lparr>tq_heap := (tq_heap q)[p := f (tq_heap q ! p)]\<rparr>"

definition cancel_item :: "item_ptr \<Rightarrow> ('h, 'p) TaskQueue \<Rightarrow> ('h, 'p) TaskQueue" where
  "cancel_item p q = upd_item p (\<lambda>it. it\<lparr>qi_cancelled := True\<rparr>) q"

definition TaskQueue_Len :: "('h, 'p) TaskQueue \<Rightarrow> nat" where
  "TaskQueue_Len q = length (tq_items q)"

text \<open>Any popped item of the same resource is cancelled and dropped.\<close>

definition drop_popped :: "string \<Rightarrow> ('h, 'p) TaskQueue \<Rightarrow> ('h, 'p) TaskQueue" where
  "drop_popped rid q =
     (case map_of (tq_popped q) rid of
        None \<Rightarrow> q
      | Some v \<Rightarrow>
          (let q = cancel_item v q
           in q\<lparr>tq_popped := AList.delete (qi_ResourceID (tq_heap q ! v)) (tq_popped q)\<rparr>))"

definition TaskQueue_Enqueue :: "instant \<Rightarrow> item_ptr \<Rightarrow> ('h, 'p) TaskQueue \<Rightarrow> unit res \<times> ('h, 'p) TaskQueue" where
  "TaskQueue_Enqueue now p q =
     (let item = tq_heap q ! p; rid = qi_ResourceID item in
      if rid = [] \<or> qi_ResourceName item = [] then
        (Err (Errorf ''ResourceID and ResourceName must not be empty''), q)
      else if tq_closed q then
        (Err (Errorf (''queue is closed, cannot enqueue task '' @ qi_ResourceName item)), q)
      else
        (let q = upd_item p (\<lambda>it. if qi_EnqueuedAt it = None then it\<lparr>qi_EnqueuedAt := Some now\<rparr> else it) q;
             q = drop_popped rid q;
             ms = tq_metrics q;
             q = q\<lparr>tq_metrics := ms\<lparr>ItemsEnqueued := ItemsEnqueued ms + 1, CurrentDepth := CurrentDepth ms + 1\<rparr>\<rparr>;
             q = upd_item p (\<lambda>it. it\<lparr>qi_cancelled := False\<rparr>) q
         in (Ok (), q\<lparr>tq_items := AList.update rid p (tq_items q)\<rparr>)))"

definition TaskQueue_Done :: "string \<Rightarrow> ('h, 'p) TaskQueue \<Rightarrow> ('h, 'p) TaskQueue" where
  "TaskQueue_Done uid q =
     (case map_of (tq_items q) uid of
        None \<Rightarrow> q
      | Some p \<Rightarrow> (cancel_item p q)\<lparr>tq_items := AList.delete uid (tq_items q)\<rparr>)"

definition TaskQueue_Pop :: "nat \<Rightarrow> ('h, 'p) TaskQueue \<Rightarrow> item_ptr option \<times> ('h, 'p) TaskQueue" where
  "TaskQueue_Pop choice q =
     (if tq_items q = [] then (None, q)
      else (case tq_items q ! (choice mod length (tq_items q)) of
              (k, v) \<Rightarrow> (Some v, q\<lparr>tq_items := AList.delete k (tq_items q)\<rparr>)))"

text \<open>\<open>None\<close> while the queue is open and empty: the call waits.\<close>

definition TaskQueue_Dequeue :: "nat \<Rightarrow> ('h, 'p) TaskQueue \<Rightarrow> (item_ptr res \<times> ('h, 'p) TaskQueue) option" where
  "TaskQueue_Dequeue choice q =
     (if TaskQueue_Len q = 0 \<and> \<not> tq_closed q then None
      else if tq_closed q \<and> TaskQueue_Len q = 0 then Some (Err (Errorf ''queue is closed and empty''), q)
      else
        (case TaskQueue_Pop choice q of
           (None, q) \<Rightarrow> Some (Err (Errorf ''queue returned nil item''), q)
         | (Some p, q) \<Rightarrow>
             (let ms = tq_metrics q
              in Some (Ok p, q\<lparr>tq_popped := AList.update (qi_ResourceID (tq_heap q ! p)) p (tq_popped q),
                               tq_metrics := ms\<lparr>ItemsDequeued := ItemsDequeued ms + 1,
                                               CurrentDepth := CurrentDepth ms - 1\<rparr>\<rparr>))))"

text \<open>Requeue looks at the item's context before it takes the lock.\<close>

definition item_err :: "error option \<Rightarrow> ('h, 'p) QueueItem \<Rightarrow> error option" where
  "item_err pctx it = (if qi_cancelled it then Some (Sentinel CtxCanceled) else pctx)"

definition requeue_locked :: "instant \<Rightarrow> item_ptr \<Rightarrow> ('h, 'p) TaskQueue \<Rightarrow> unit res \<times> ('h, 'p) TaskQueue" where
  "requeue_locked now p q =
     (if tq_closed q then (Err (Errorf ''queue is closed''), q)
      else
        (let q = upd_item p (\<lambda>it. it\<lparr>qi_RetryCount := qi_RetryCount it + 1, qi_EnqueuedAt := Some now\<rparr>) q;
             ms = tq_metrics q;
             q = q\<lparr>tq_metrics := ms\<lparr>TotalRetries := TotalRetries ms + 1, ItemsEnqueued := ItemsEnqueued ms + 1,
                                    CurrentDepth := CurrentDepth ms + 1\<rparr>\<rparr>
         in (Ok (), q\<lparr>tq_items := AList.update (qi_ResourceID (tq_heap q ! p)) p (tq_items q)\<rparr>)))"

definition TaskQueue_Requeue ::
  "error option \<Rightarrow> instant \<Rightarrow> item_ptr option \<Rightarrow> ('h, 'p) TaskQueue \<Rightarrow> unit res \<times> ('h, 'p) TaskQueue"
where
  "TaskQueue_Requeue pctx now item q =
     (case item of
        None \<Rightarrow> (Err (Errorf ''cannot requeue nil item''), q)
      | Some p \<Rightarrow>
          (case item_err pctx (tq_heap q ! p) of
             Some e \<Rightarrow> (Err (Wrapped ''cannot requeue cancelled task'' e), q)
           | None \<Rightarrow> requeue_locked now p q))"

definition TaskQueue_Close :: "('h, 'p) TaskQueue \<Rightarrow> ('h, 'p) TaskQueue" where
  "TaskQueue_Close q =
     (if tq_closed q then q
      else foldl (\<lambda>q e. cancel_item (snd e) q) (q\<lparr>tq_closed := True\<rparr>) (tq_items q))"

section \<open>Workers\<close>

text \<open>
  A worker is idle, runs the handler of an item, waits out the backoff of an item that
  failed, or has returned.
\<close>

datatype worker = Idle | Running item_ptr | Waiting item_ptr | Exited

record WorkPool =
  wp_minBackoff :: int
  wp_maxBackoff :: int
  wp_maxRetries :: int
  wp_maxWorkers :: int

definition NewPool :: "(WorkPool \<Rightarrow> WorkPool) list \<Rightarrow> WorkPool" where
  "NewPool opts = foldl (\<lambda>w opt. opt w)
     \<lparr>wp_minBackoff = 5 * second, wp_maxBackoff = 60 * second, wp_maxRetries = 100, wp_maxWorkers = 2\<rparr> opts"

definition WithMaxWorkers :: "int \<Rightarrow> WorkPool \<Rightarrow> WorkPool" where
  "WithMaxWorkers n w = w\<lparr>wp_maxWorkers := n\<rparr>"

definition WithMaxRetries :: "int \<Rightarrow> WorkPool \<Rightarrow> WorkPool" where
  "WithMaxRetries n w = w\<lparr>wp_maxRetries := n\<rparr>"

definition WithBackoff :: "int \<Rightarrow> int \<Rightarrow> WorkPool \<Rightarrow> WorkPool" where
  "WithBackoff mn mx w = w\<lparr>wp_minBackoff := mn, wp_maxBackoff := mx\<rparr>"

definition WorkPool_Start :: "WorkPool \<Rightarrow> worker list" where
  "WorkPool_Start w = replicate (nat (wp_maxWorkers w)) Idle"

text \<open>What a worker does once the handler of its item returned.\<close>

definition worker_result :: "WorkPool \<Rightarrow> unit res \<Rightarrow> item_ptr \<Rightarrow> ('h, 'p) TaskQueue \<Rightarrow> worker \<times> ('h, 'p) TaskQueue" where
  "worker_result w r p q =
     (let ms = tq_metrics q in
      if is_Ok r then (Idle, q\<lparr>tq_metrics := ms\<lparr>ItemsProcessed := ItemsProcessed ms + 1\<rparr>\<rparr>)
      else
        (let q = q\<lparr>tq_metrics := ms\<lparr>ItemsFailed := ItemsFailed ms + 1\<rparr>\<rparr>
         in if qi_RetryCount (tq_heap q ! p) \<ge> wp_maxRetries w then (Idle, cancel_item p q)
            else (Waiting p, q)))"

section \<open>Backoff\<close>

text \<open>
  Durations are signed 64-bit nanoseconds, and sums wrap. \<open>f2i\<close> converts a floating-point
  value to an integer: exact truncation within the range, and otherwise whatever the
  platform does. The product of the minimum with a power of two is exact in floating
  point. \<open>jit\<close> gives the random share of the wait.
\<close>

definition wrap64 :: "int \<Rightarrow> int" where
  "wrap64 x = (x + 2 ^ 63) mod 2 ^ 64 - 2 ^ 63"

definition conversion_documented :: "(int \<Rightarrow> int) \<Rightarrow> bool" where
  "conversion_documented f2i \<longleftrightarrow> (\<forall>x. - (2 ^ 63) \<le> x \<and> x < 2 ^ 63 \<longrightarrow> f2i x = x)"

definition jitter_documented :: "(int \<Rightarrow> int) \<Rightarrow> bool" where
  "jitter_documented jit \<longleftrightarrow> (\<forall>x. 0 \<le> x \<longrightarrow> 0 \<le> jit x \<and> jit x \<le> x)"

definition backoff :: "(int \<Rightarrow> int) \<Rightarrow> (int \<Rightarrow> int) \<Rightarrow> int \<Rightarrow> int \<Rightarrow> nat \<Rightarrow> int" where
  "backoff f2i jit mn mx attemptNum =
     (let mult = 2 ^ attemptNum;
          wait = f2i (mn * mult);
          jitter = jit wait;
          wait = wrap64 (wait + jitter)
      in if wait > mx then mx else wait)"

end
