(* ===== verification/QueueProps.thy ===== *)
theory QueueProps
  imports Queue
begin

text \<open>
  The workers of pkg/queue/work.go running over the queue: every interleaving of
  producers and workers as a step relation, its invariant, and the properties of the
  queue. Each call on the queue is one step, as its lock makes it; the context check of
  \<^verbatim>\<open>Requeue\<close>, which runs before the lock, is taken with the call, and the last property
  shows what happens when it is not.
\<close>

section \<open>Interleavings\<close>

record ('h, 'p) pool =
  pq :: "('h, 'p) TaskQueue"
  ws :: "worker list"

text \<open>\<open>Handled p\<close> labels a run of the handler of item \<open>p\<close>.\<close>

datatype pool_label = Handled item_ptr | Internal_step

definition new_item :: "('h, 'p) QueueItem \<Rightarrow> ('h, 'p) TaskQueue \<Rightarrow> ('h, 'p) TaskQueue" where
  "new_item it q = q\<lparr>tq_heap := tq_heap q @ [it]\<rparr>"

text \<open>Steps of workers.\<close>

inductive work_step :: "WorkPool \<Rightarrow> ('h, 'p) pool \<Rightarrow> pool_label \<Rightarrow> ('h, 'p) pool \<Rightarrow> bool" for w where
  wk_dequeue: "i < length (ws s) \<Longrightarrow> ws s ! i = Idle \<Longrightarrow> TaskQueue_Dequeue c (pq s) = Some (Ok p, q) \<Longrightarrow>
     work_step w s Internal_step (s\<lparr>pq := q, ws := (ws s)[i := Running p]\<rparr>)"
| wk_exit: "i < length (ws s) \<Longrightarrow> ws s ! i = Idle \<Longrightarrow> work_step w s Internal_step (s\<lparr>ws := (ws s)[i := Exited]\<rparr>)"
| wk_handle: "i < length (ws s) \<Longrightarrow> ws s ! i = Running p \<Longrightarrow> worker_result w r p (pq s) = (x, q) \<Longrightarrow>
     work_step w s (Handled p) (s\<lparr>pq := q, ws := (ws s)[i := x]\<rparr>)"
| wk_requeue: "i < length (ws s) \<Longrightarrow> ws s ! i = Waiting p \<Longrightarrow> TaskQueue_Requeue pctx now (Some p) (pq s) = (r, q) \<Longrightarrow>
     work_step w s Internal_step (s\<lparr>pq := q, ws := (ws s)[i := Idle]\<rparr>)"
| wk_cancelled: "i < length (ws s) \<Longrightarrow> ws s ! i = Waiting p \<Longrightarrow> item_err pctx (tq_heap (pq s) ! p) \<noteq> None \<Longrightarrow>
     work_step w s Internal_step (s\<lparr>ws := (ws s)[i := Idle]\<rparr>)"

text \<open>Steps of everyone: producers enqueue fresh items, finish or close.\<close>

inductive pool_step :: "WorkPool \<Rightarrow> ('h, 'p) pool \<Rightarrow> pool_label \<Rightarrow> ('h, 'p) pool \<Rightarrow> bool" for w where
  ps_work: "work_step w s l s' \<Longrightarrow> pool_step w s l s'"
| ps_enqueue: "qi_RetryCount it = 0 \<Longrightarrow> TaskQueue_Enqueue now (length (tq_heap (pq s))) (new_item it (pq s)) = (r, q) \<Longrightarrow>
     pool_step w s Internal_step (s\<lparr>pq := q\<rparr>)"
| ps_done: "pool_step w s Internal_step (s\<lparr>pq := TaskQueue_Done uid (pq s)\<rparr>)"
| ps_close: "pool_step w s Internal_step (s\<lparr>pq := TaskQueue_Close (pq s)\<rparr>)"

inductive pool_run :: "WorkPool \<Rightarrow> ('h, 'p) pool \<Rightarrow> pool_label list \<Rightarrow> ('h, 'p) pool \<Rightarrow> bool" for w s0 where
  pr_refl: "pool_run w s0 [] s0"
| pr_step: "pool_run w s0 tr s \<Longrightarrow> pool_step w s l s' \<Longrightarrow> pool_run w s0 (tr @ [l]) s'"

definition start_pool :: "WorkPool \<Rightarrow> ('h, 'p) pool" where
  "start_pool w = \<lparr>pq = NewTaskQueue, ws = WorkPool_Start w\<rparr>"

section \<open>Invariant\<close>

definition holds_item :: "worker \<Rightarrow> item_ptr \<Rightarrow> bool" where
  "holds_item x p \<longleftrightarrow> x = Running p \<or> x = Waiting p"

abbreviation rid_of :: "('h, 'p) TaskQueue \<Rightarrow> item_ptr \<Rightarrow> string" where
  "rid_of q p \<equiv> qi_ResourceID (tq_heap q ! p)"

definition queue_ok :: "('h, 'p) TaskQueue \<Rightarrow> bool" where
  "queue_ok q \<longleftrightarrow> distinct (map fst (tq_items q)) \<and>
     (\<forall>rid p. map_of (tq_items q) rid = Some p \<longrightarrow> p < length (tq_heap q) \<and> rid_of q p = rid) \<and>
     (\<forall>rid p. map_of (tq_popped q) rid = Some p \<longrightarrow> p < length (tq_heap q) \<and> rid_of q p = rid)"

definition worker_ok :: "WorkPool \<Rightarrow> ('h, 'p) TaskQueue \<Rightarrow> worker \<Rightarrow> bool" where
  "worker_ok w q x \<longleftrightarrow>
     (\<forall>p. holds_item x p \<longrightarrow> p < length (tq_heap q) \<and> (\<forall>rid. map_of (tq_items q) rid \<noteq> Some p) \<and>
        (\<not> qi_cancelled (tq_heap q ! p) \<longrightarrow>
           map_of (tq_popped q) (rid_of q p) = Some p \<and> map_of (tq_items q) (rid_of q p) = None)) \<and>
     (\<forall>p. x = Waiting p \<longrightarrow> qi_RetryCount (tq_heap q ! p) < wp_maxRetries w)"

definition pool_ok :: "WorkPool \<Rightarrow> ('h, 'p) pool \<Rightarrow> bool" where
  "pool_ok w s \<longleftrightarrow> queue_ok (pq s) \<and> (\<forall>i < length (ws s). worker_ok w (pq s) (ws s ! i)) \<and>
     (\<forall>i j p. i < length (ws s) \<longrightarrow> j < length (ws s) \<longrightarrow> holds_item (ws s ! i) p \<longrightarrow> holds_item (ws s ! j) p \<longrightarrow> i = j) \<and>
     (\<forall>p < length (tq_heap (pq s)). 0 \<le> qi_RetryCount (tq_heap (pq s) ! p) \<and> qi_RetryCount (tq_heap (pq s) ! p) \<le> wp_maxRetries w)"

lemma holds_simps [simp]:
  "\<not> holds_item Idle p" "\<not> holds_item Exited p" "holds_item (Running q) p \<longleftrightarrow> q = p" "holds_item (Waiting q) p \<longleftrightarrow> q = p"
  by (auto simp: holds_item_def)

lemma upd_item_simps [simp]:
  "tq_items (upd_item p f q) = tq_items q" "tq_popped (upd_item p f q) = tq_popped q"
  "tq_closed (upd_item p f q) = tq_closed q" "tq_metrics (upd_item p f q) = tq_metrics q"
  "length (tq_heap (upd_item p f q)) = length (tq_heap q)"
  "p < length (tq_heap q) \<Longrightarrow> tq_heap (upd_item p f q) ! p' = (if p' = p then f (tq_heap q ! p) else tq_heap q ! p')"
  by (simp_all add: upd_item_def nth_list_update)

lemma cancel_item_simps [simp]:
  "tq_items (cancel_item p q) = tq_items q" "tq_popped (cancel_item p q) = tq_popped q"
  "tq_closed (cancel_item p q) = tq_closed q" "tq_metrics (cancel_item p q) = tq_metrics q"
  "length (tq_heap (cancel_item p q)) = length (tq_heap q)"
  by (simp_all add: cancel_item_def)

text \<open>Cancelling changes one flag of one item, wherever the address points.\<close>

lemma cancel_item_fields:
  "qi_ResourceID (tq_heap (cancel_item p q) ! p') = qi_ResourceID (tq_heap q ! p')"
  "qi_RetryCount (tq_heap (cancel_item p q) ! p') = qi_RetryCount (tq_heap q ! p')"
  "qi_cancelled (tq_heap q ! p') \<Longrightarrow> qi_cancelled (tq_heap (cancel_item p q) ! p')"
  "p < length (tq_heap q) \<Longrightarrow> qi_cancelled (tq_heap (cancel_item p q) ! p)"
  by (cases "p < length (tq_heap q)"; cases "p' = p"; simp add: cancel_item_def upd_item_def list_update_beyond)+


section \<open>What the operations do\<close>

lemma Dequeue_Ok:
  assumes "TaskQueue_Dequeue c q = Some (Ok p, q')" and "distinct (map fst (tq_items q))"
  obtains k where "map_of (tq_items q) k = Some p" "tq_items q' = AList.delete k (tq_items q)"
    "tq_popped q' = AList.update (rid_of q p) p (tq_popped q)" "tq_heap q' = tq_heap q"
proof -
  let ?xs = "tq_items q"
  have ne: "?xs \<noteq> []" using assms(1) by (auto simp: TaskQueue_Dequeue_def TaskQueue_Len_def split: if_splits)
  obtain k v where kv: "?xs ! (c mod length ?xs) = (k, v)" by (cases "?xs ! (c mod length ?xs)")
  with ne have "(k, v) \<in> set ?xs" by (metis length_greater_0_conv mod_less_divisor nth_mem)
  with assms(2) have "map_of ?xs k = Some v" by simp
  moreover have "v = p" "tq_items q' = AList.delete k ?xs" "tq_popped q' = AList.update (rid_of q v) v (tq_popped q)"
      "tq_heap q' = tq_heap q"
    using assms(1) ne kv
    by (auto simp: TaskQueue_Dequeue_def TaskQueue_Len_def TaskQueue_Pop_def Let_def split: if_splits)
  ultimately show ?thesis using that by simp
qed

lemma Requeue_cases:
  assumes "TaskQueue_Requeue pctx now (Some p) q = (r, q')" and "p < length (tq_heap q)"
  obtains (refused) "q' = q"
    | (queued) "\<not> qi_cancelled (tq_heap q ! p)" "tq_items q' = AList.update (rid_of q p) p (tq_items q)" "tq_popped q' = tq_popped q"
        "tq_heap q' = (tq_heap q)[p := (tq_heap q ! p)\<lparr>qi_RetryCount := qi_RetryCount (tq_heap q ! p) + 1, qi_EnqueuedAt := Some now\<rparr>]"
proof (cases "item_err pctx (tq_heap q ! p) = None \<and> \<not> tq_closed q")
  case False
  with assms(1) have "q' = q"
    by (cases "item_err pctx (tq_heap q ! p)") (simp_all add: TaskQueue_Requeue_def requeue_locked_def)
  then show ?thesis by (rule refused)
next
  case True
  then have "\<not> qi_cancelled (tq_heap q ! p)" by (auto simp: item_err_def split: if_splits)
  moreover from True assms(1) have "q' = snd (requeue_locked now p q)" "\<not> tq_closed q"
    by (simp_all add: TaskQueue_Requeue_def)
  ultimately show ?thesis
    using assms(2) by (intro queued) (simp_all add: requeue_locked_def upd_item_def Let_def)
qed

lemma worker_result_cases:
  assumes "worker_result w r p q = (x, q')"
  obtains (idle) "x = Idle" "tq_heap q' = tq_heap q" "tq_items q' = tq_items q" "tq_popped q' = tq_popped q"
    | (given_up) "x = Idle" "tq_heap q' = tq_heap (cancel_item p q)" "tq_items q' = tq_items q" "tq_popped q' = tq_popped q"
    | (retry) "x = Waiting p" "tq_heap q' = tq_heap q" "tq_items q' = tq_items q" "tq_popped q' = tq_popped q"
        "qi_RetryCount (tq_heap q ! p) < wp_maxRetries w"
proof (cases "is_Ok r")
  case True
  with assms idle show ?thesis by (auto simp: worker_result_def Let_def)
next
  case False
  with assms given_up retry show ?thesis
    by (cases "wp_maxRetries w \<le> qi_RetryCount (tq_heap q ! p)")
      (auto simp: worker_result_def cancel_item_def upd_item_def Let_def)
qed

lemma Enqueue_cases:
  assumes "TaskQueue_Enqueue now (length (tq_heap q)) (new_item it q) = (r, q')" and "queue_ok q"
  obtains (refused) "q' = new_item it q" "r \<noteq> Ok ()"
    | (queued) it' where "tq_items q' = AList.update (qi_ResourceID it) (length (tq_heap q)) (tq_items q)"
        "length (tq_heap q') = Suc (length (tq_heap q))" "tq_heap q' ! length (tq_heap q) = it'"
        "qi_ResourceID it' = qi_ResourceID it" "qi_RetryCount it' = qi_RetryCount it"
        "\<forall>p < length (tq_heap q). rid_of q' p = rid_of q p \<and> qi_RetryCount (tq_heap q' ! p) = qi_RetryCount (tq_heap q ! p)
           \<and> (qi_cancelled (tq_heap q ! p) \<longrightarrow> qi_cancelled (tq_heap q' ! p))"
        "map_of (tq_popped q') = (map_of (tq_popped q))(qi_ResourceID it := None)"
        "\<forall>v. map_of (tq_popped q) (qi_ResourceID it) = Some v \<longrightarrow> qi_cancelled (tq_heap q' ! v)"
proof (cases "r = Ok ()")
  case False
  with assms(1) refused show ?thesis
    by (auto simp: TaskQueue_Enqueue_def new_item_def Let_def split: if_splits)
next
  case True
  let ?n = "length (tq_heap q)"
  let ?it = "if qi_EnqueuedAt it = None then it\<lparr>qi_EnqueuedAt := Some now\<rparr> else it"
  have pop: "map_of (tq_popped q) rid = Some v \<Longrightarrow> v < ?n \<and> rid_of q v = rid" for rid v
    using assms(2) unfolding queue_ok_def by blast
  show ?thesis
  proof (cases "map_of (tq_popped q) (qi_ResourceID it)")
    case None
    with True assms(1) show ?thesis
      by (intro queued [of "?it\<lparr>qi_cancelled := False\<rparr>"])
        (auto simp: TaskQueue_Enqueue_def new_item_def drop_popped_def upd_item_def Let_def nth_append fun_eq_iff split: if_splits)
  next
    case (Some v)
    with pop [OF Some] True assms(1) show ?thesis
      by (intro queued [of "?it\<lparr>qi_cancelled := False\<rparr>"])
        (auto simp: TaskQueue_Enqueue_def new_item_def drop_popped_def cancel_item_def upd_item_def Let_def nth_append
          nth_list_update list_update_append fun_eq_iff split: if_splits)
  qed
qed

lemma Close_effect:
  "tq_items (TaskQueue_Close q) = tq_items q" "tq_popped (TaskQueue_Close q) = tq_popped q"
  "length (tq_heap (TaskQueue_Close q)) = length (tq_heap q)"
  "rid_of (TaskQueue_Close q) p = rid_of q p"
  "qi_RetryCount (tq_heap (TaskQueue_Close q) ! p) = qi_RetryCount (tq_heap q ! p)"
  "qi_cancelled (tq_heap q ! p) \<Longrightarrow> qi_cancelled (tq_heap (TaskQueue_Close q) ! p)"
proof -
  have fold: "tq_items (foldl (\<lambda>q e. cancel_item (snd e) q) q' es) = tq_items q'
    \<and> tq_popped (foldl (\<lambda>q e. cancel_item (snd e) q) q' es) = tq_popped q'
    \<and> length (tq_heap (foldl (\<lambda>q e. cancel_item (snd e) q) q' es)) = length (tq_heap q')
    \<and> rid_of (foldl (\<lambda>q e. cancel_item (snd e) q) q' es) p = rid_of q' p
    \<and> qi_RetryCount (tq_heap (foldl (\<lambda>q e. cancel_item (snd e) q) q' es) ! p) = qi_RetryCount (tq_heap q' ! p)
    \<and> (qi_cancelled (tq_heap q' ! p) \<longrightarrow> qi_cancelled (tq_heap (foldl (\<lambda>q e. cancel_item (snd e) q) q' es) ! p))"
    for q' :: "('a, 'b) TaskQueue" and es :: "(string \<times> nat) list"
    by (induction es arbitrary: q') (simp_all add: cancel_item_fields)
  show "tq_items (TaskQueue_Close q) = tq_items q" "tq_popped (TaskQueue_Close q) = tq_popped q"
      "length (tq_heap (TaskQueue_Close q)) = length (tq_heap q)" "rid_of (TaskQueue_Close q) p = rid_of q p"
      "qi_RetryCount (tq_heap (TaskQueue_Close q) ! p) = qi_RetryCount (tq_heap q ! p)"
      "qi_cancelled (tq_heap q ! p) \<Longrightarrow> qi_cancelled (tq_heap (TaskQueue_Close q) ! p)"
    using fold [of "q\<lparr>tq_closed := True\<rparr>" "tq_items q"] by (simp_all add: TaskQueue_Close_def)
qed


section \<open>Every step keeps the invariant\<close>

lemma pool_okD:
  assumes "pool_ok w s"
  shows "queue_ok (pq s)" and "i < length (ws s) \<Longrightarrow> worker_ok w (pq s) (ws s ! i)"
    and "i < length (ws s) \<Longrightarrow> j < length (ws s) \<Longrightarrow> holds_item (ws s ! i) p \<Longrightarrow> holds_item (ws s ! j) p \<Longrightarrow> i = j"
    and "p < length (tq_heap (pq s)) \<Longrightarrow> 0 \<le> qi_RetryCount (tq_heap (pq s) ! p) \<and> qi_RetryCount (tq_heap (pq s) ! p) \<le> wp_maxRetries w"
  using assms unfolding pool_ok_def by blast+

lemma queue_okD:
  assumes "queue_ok q"
  shows "distinct (map fst (tq_items q))" and "map_of (tq_items q) rid = Some p \<Longrightarrow> p < length (tq_heap q) \<and> rid_of q p = rid"
    and "map_of (tq_popped q) rid = Some p \<Longrightarrow> p < length (tq_heap q) \<and> rid_of q p = rid"
  using assms unfolding queue_ok_def by blast+

lemma worker_okD:
  assumes "worker_ok w q x" and "holds_item x p"
  shows "p < length (tq_heap q)" and "map_of (tq_items q) rid \<noteq> Some p"
    and "\<not> qi_cancelled (tq_heap q ! p) \<Longrightarrow> map_of (tq_popped q) (rid_of q p) = Some p \<and> map_of (tq_items q) (rid_of q p) = None"
  using assms unfolding worker_ok_def by blast+

text \<open>A worker that holds nothing needs nothing.\<close>

lemma worker_ok_free [simp]: "worker_ok w q Idle" "worker_ok w q Exited"
  by (simp_all add: worker_ok_def)

text \<open>A worker keeps its part of the invariant when its item does not leave its place.\<close>

lemma worker_ok_keep:
  assumes "worker_ok w q x"
    and "\<And>p. holds_item x p \<Longrightarrow> p < length (tq_heap q) \<Longrightarrow> p < length (tq_heap q')
        \<and> rid_of q' p = rid_of q p \<and> qi_RetryCount (tq_heap q' ! p) = qi_RetryCount (tq_heap q ! p)
        \<and> (\<forall>rid. map_of (tq_items q') rid = Some p \<longrightarrow> map_of (tq_items q) rid = Some p)
        \<and> (qi_cancelled (tq_heap q ! p) \<longrightarrow> qi_cancelled (tq_heap q' ! p))
        \<and> (\<not> qi_cancelled (tq_heap q' ! p) \<longrightarrow> \<not> qi_cancelled (tq_heap q ! p) \<longrightarrow>
             map_of (tq_popped q) (rid_of q p) = Some p \<longrightarrow> map_of (tq_items q) (rid_of q p) = None \<longrightarrow>
             map_of (tq_popped q') (rid_of q p) = Some p \<and> map_of (tq_items q') (rid_of q p) = None)"
  shows "worker_ok w q' x"
proof (cases x)
  case (Running p)
  with assms(2) [of p] worker_okD [OF assms(1), of p] show ?thesis by (auto simp: worker_ok_def)
next
  case (Waiting p)
  moreover have "qi_RetryCount (tq_heap q ! p) < wp_maxRetries w" using assms(1) Waiting by (simp add: worker_ok_def)
  ultimately show ?thesis
    using assms(2) [of p] worker_okD [OF assms(1), of p] by (auto simp: worker_ok_def)
qed simp_all

text \<open>One worker moves on, the others stay as they are.\<close>

lemma pool_ok_move:
  assumes ok: "pool_ok w s" and i: "i < length (ws s)" and "queue_ok q" and "worker_ok w q x"
    and others: "\<And>j. j < length (ws s) \<Longrightarrow> j \<noteq> i \<Longrightarrow> worker_ok w q (ws s ! j)"
    and held: "\<And>p j. holds_item x p \<Longrightarrow> j < length (ws s) \<Longrightarrow> holds_item (ws s ! j) p \<Longrightarrow> j = i"
    and "\<And>p. p < length (tq_heap q) \<Longrightarrow> 0 \<le> qi_RetryCount (tq_heap q ! p) \<and> qi_RetryCount (tq_heap q ! p) \<le> wp_maxRetries w"
  shows "pool_ok w (s\<lparr>pq := q, ws := (ws s)[i := x]\<rparr>)"
proof -
  have "worker_ok w q ((ws s)[i := x] ! j)" if "j < length (ws s)" for j
    using others [OF that] assms(4) i that by (simp add: nth_list_update)
  moreover have "j = j'" if "j < length (ws s)" "j' < length (ws s)" "holds_item ((ws s)[i := x] ! j) p"
      "holds_item ((ws s)[i := x] ! j') p" for j j' p
    using that held pool_okD(3) [OF ok, of j j' p] i by (metis nth_list_update_eq nth_list_update_neq)
  ultimately show ?thesis using assms(3,7) unfolding pool_ok_def by simp
qed

lemma step_dequeue_ok:
  assumes ok: "pool_ok w s" and i: "i < length (ws s)" "ws s ! i = Idle" and d: "TaskQueue_Dequeue c (pq s) = Some (Ok p, q)"
  shows "pool_ok w (s\<lparr>pq := q, ws := (ws s)[i := Running p]\<rparr>)"
proof -
  note q = queue_okD [OF pool_okD(1) [OF ok]]
  from Dequeue_Ok [OF d q(1)] obtain k where k: "map_of (tq_items (pq s)) k = Some p"
    "tq_items q = AList.delete k (tq_items (pq s))" "tq_popped q = AList.update (rid_of (pq s) p) p (tq_popped (pq s))"
    "tq_heap q = tq_heap (pq s)" .
  note p = q(2) [OF k(1)]
  have free: "\<not> holds_item (ws s ! j) p" if "j < length (ws s)" for j
    using worker_okD(2) [OF pool_okD(2) [OF ok that]] k(1) by blast
  have others: "worker_ok w q (ws s ! j)" if j: "j < length (ws s)" for j
  proof (rule worker_ok_keep [OF pool_okD(2) [OF ok j]])
    fix p' assume h: "holds_item (ws s ! j) p'" "p' < length (tq_heap (pq s))"
    with free [OF j] have ne: "p' \<noteq> p" by blast
    have "rid_of (pq s) p' \<noteq> k" if "\<not> qi_cancelled (tq_heap (pq s) ! p')"
      using worker_okD(3) [OF pool_okD(2) [OF ok j] h(1) that] k(1) by auto
    with h ne p k show "p' < length (tq_heap q)
        \<and> rid_of q p' = rid_of (pq s) p' \<and> qi_RetryCount (tq_heap q ! p') = qi_RetryCount (tq_heap (pq s) ! p')
        \<and> (\<forall>rid. map_of (tq_items q) rid = Some p' \<longrightarrow> map_of (tq_items (pq s)) rid = Some p')
        \<and> (qi_cancelled (tq_heap (pq s) ! p') \<longrightarrow> qi_cancelled (tq_heap q ! p'))
        \<and> (\<not> qi_cancelled (tq_heap q ! p') \<longrightarrow> \<not> qi_cancelled (tq_heap (pq s) ! p') \<longrightarrow>
             map_of (tq_popped (pq s)) (rid_of (pq s) p') = Some p' \<longrightarrow> map_of (tq_items (pq s)) (rid_of (pq s) p') = None \<longrightarrow>
             map_of (tq_popped q) (rid_of (pq s) p') = Some p' \<and> map_of (tq_items q) (rid_of (pq s) p') = None)"
      by auto
  qed
  show ?thesis
  proof (rule pool_ok_move [OF ok i(1)])
    show "queue_ok q" using q k p by (auto simp: queue_ok_def distinct_keys_delete)
    show "worker_ok w q (Running p)" using p k q(2) by (auto simp: worker_ok_def)
  qed (use others free pool_okD(4) [OF ok] k(4) in auto)
qed

text \<open>Operations that move no item: flags may be raised, and entries may leave the queue.\<close>

lemma worker_ok_quiet:
  assumes "worker_ok w q x" and "length (tq_heap q') = length (tq_heap q)" and "tq_popped q' = tq_popped q"
    and "\<And>rid p. map_of (tq_items q') rid = Some p \<Longrightarrow> map_of (tq_items q) rid = Some p"
    and "\<And>p. rid_of q' p = rid_of q p \<and> qi_RetryCount (tq_heap q' ! p) = qi_RetryCount (tq_heap q ! p)
        \<and> (qi_cancelled (tq_heap q ! p) \<longrightarrow> qi_cancelled (tq_heap q' ! p))"
  shows "worker_ok w q' x"
proof (rule worker_ok_keep [OF assms(1)], intro conjI impI allI)
  fix p
  assume "map_of (tq_items q) (rid_of q p) = None"
  then show "map_of (tq_items q') (rid_of q p) = None"
    using assms(4) [of "rid_of q p"] by (cases "map_of (tq_items q') (rid_of q p)") auto
qed (use assms in auto)

lemma queue_ok_quiet:
  assumes "queue_ok q" and "length (tq_heap q') = length (tq_heap q)" and "tq_popped q' = tq_popped q"
    and "distinct (map fst (tq_items q'))" and "\<And>rid p. map_of (tq_items q') rid = Some p \<Longrightarrow> map_of (tq_items q) rid = Some p"
    and "\<And>p. rid_of q' p = rid_of q p"
  shows "queue_ok q'"
  using queue_okD [OF assms(1)] assms unfolding queue_ok_def by metis

lemma step_handle_ok:
  assumes ok: "pool_ok w s" and i: "i < length (ws s)" "ws s ! i = Running p" and r: "worker_result w r p (pq s) = (x, q)"
  shows "pool_ok w (s\<lparr>pq := q, ws := (ws s)[i := x]\<rparr>)"
proof -
  have eff: "tq_items q = tq_items (pq s)" "tq_popped q = tq_popped (pq s)" "length (tq_heap q) = length (tq_heap (pq s))"
      "\<And>p'. rid_of q p' = rid_of (pq s) p' \<and> qi_RetryCount (tq_heap q ! p') = qi_RetryCount (tq_heap (pq s) ! p')
        \<and> (qi_cancelled (tq_heap (pq s) ! p') \<longrightarrow> qi_cancelled (tq_heap q ! p'))"
    using r by (cases rule: worker_result_cases; simp add: cancel_item_fields)+
  have x: "holds_item x p' \<Longrightarrow> p' = p" "x = Waiting p' \<Longrightarrow> qi_RetryCount (tq_heap q ! p') < wp_maxRetries w" for p'
    using r by (cases rule: worker_result_cases; simp)+
  note quiet = worker_ok_quiet [OF _ eff(3,2), unfolded eff(1), OF _ _ eff(4)]
  have run: "worker_ok w q (Running p)" using quiet [OF pool_okD(2) [OF ok i(1)]] i(2) by simp
  show ?thesis
  proof (rule pool_ok_move [OF ok i(1)])
    show "queue_ok q" using queue_ok_quiet [OF pool_okD(1) [OF ok]] eff queue_okD(1) [OF pool_okD(1) [OF ok]] by metis
    show "worker_ok w q x" using run x unfolding worker_ok_def by (metis holds_simps(3))
    show "worker_ok w q (ws s ! j)" if "j < length (ws s)" for j
      by (rule quiet [OF pool_okD(2) [OF ok that]])
    show "j = i" if "holds_item x p'" "j < length (ws s)" "holds_item (ws s ! j) p'" for p' j
      using pool_okD(3) [OF ok that(2) i(1), of p] that x(1) i(2) by auto
  qed (use pool_okD(4) [OF ok] eff in auto)
qed


lemma step_requeue_ok:
  assumes ok: "pool_ok w s" and i: "i < length (ws s)" "ws s ! i = Waiting p"
    and r: "TaskQueue_Requeue pctx now (Some p) (pq s) = (r, q)"
  shows "pool_ok w (s\<lparr>pq := q, ws := (ws s)[i := Idle]\<rparr>)"
proof -
  note wk = pool_okD(2) [OF ok i(1), unfolded i(2)]
  have p: "p < length (tq_heap (pq s))" using worker_okD(1) [OF wk, of p] by simp
  from r p show ?thesis
  proof (cases rule: Requeue_cases)
    case refused
    then show ?thesis using pool_ok_move [OF ok i(1) pool_okD(1) [OF ok], of Idle] pool_okD(2,4) [OF ok] by simp
  next
    case queued
    note q = queue_okD [OF pool_okD(1) [OF ok]]
    let ?rid = "rid_of (pq s) p"
    have mine: "map_of (tq_popped (pq s)) ?rid = Some p" "map_of (tq_items (pq s)) ?rid = None"
      using worker_okD(3) [OF wk, of p] queued(1) by simp_all
    have retry: "qi_RetryCount (tq_heap (pq s) ! p) < wp_maxRetries w" using wk by (simp add: worker_ok_def)
    have at: "tq_heap q ! p' = (if p' = p then (tq_heap (pq s) ! p)\<lparr>qi_RetryCount := qi_RetryCount (tq_heap (pq s) ! p) + 1,
        qi_EnqueuedAt := Some now\<rparr> else tq_heap (pq s) ! p')" for p'
      using p queued(4) by (auto simp: nth_list_update)
    have len: "length (tq_heap q) = length (tq_heap (pq s))" using queued(4) by simp
    have rid: "rid_of q p' = rid_of (pq s) p'" for p' by (simp add: at)
    have others: "worker_ok w q (ws s ! j)" if j: "j < length (ws s)" "j \<noteq> i" for j
    proof (rule worker_ok_keep [OF pool_okD(2) [OF ok j(1)]])
      fix p' assume h: "holds_item (ws s ! j) p'" "p' < length (tq_heap (pq s))"
      have ne: "p' \<noteq> p" using pool_okD(3) [OF ok j(1) i(1) h(1)] i(2) j(2) by auto
      have "rid_of (pq s) p' \<noteq> ?rid" if "\<not> qi_cancelled (tq_heap (pq s) ! p')"
        using worker_okD(3) [OF pool_okD(2) [OF ok j(1)] h(1) that] mine(1) ne by auto
      with h ne queued(2,3) at len rid show "p' < length (tq_heap q)
        \<and> rid_of q p' = rid_of (pq s) p' \<and> qi_RetryCount (tq_heap q ! p') = qi_RetryCount (tq_heap (pq s) ! p')
        \<and> (\<forall>rid. map_of (tq_items q) rid = Some p' \<longrightarrow> map_of (tq_items (pq s)) rid = Some p')
        \<and> (qi_cancelled (tq_heap (pq s) ! p') \<longrightarrow> qi_cancelled (tq_heap q ! p'))
        \<and> (\<not> qi_cancelled (tq_heap q ! p') \<longrightarrow> \<not> qi_cancelled (tq_heap (pq s) ! p') \<longrightarrow>
             map_of (tq_popped (pq s)) (rid_of (pq s) p') = Some p' \<longrightarrow> map_of (tq_items (pq s)) (rid_of (pq s) p') = None \<longrightarrow>
             map_of (tq_popped q) (rid_of (pq s) p') = Some p' \<and> map_of (tq_items q) (rid_of (pq s) p') = None)"
        by auto
    qed
    show ?thesis
    proof (rule pool_ok_move [OF ok i(1)])
      show "queue_ok q"
        using q p queued(2,3) rid len by (auto simp: queue_ok_def distinct_keys_update)
    next
      fix p' assume "p' < length (tq_heap q)"
      then show "0 \<le> qi_RetryCount (tq_heap q ! p') \<and> qi_RetryCount (tq_heap q ! p') \<le> wp_maxRetries w"
        using pool_okD(4) [OF ok, of p'] retry len by (cases "p' = p") (simp_all add: at)
    qed (use others in auto)
  qed
qed

lemma pool_ok_queue:
  assumes "pool_ok w s" and "queue_ok q" and "\<And>j. j < length (ws s) \<Longrightarrow> worker_ok w q (ws s ! j)"
    and "\<And>p. p < length (tq_heap q) \<Longrightarrow> 0 \<le> qi_RetryCount (tq_heap q ! p) \<and> qi_RetryCount (tq_heap q ! p) \<le> wp_maxRetries w"
  shows "pool_ok w (s\<lparr>pq := q\<rparr>)"
  using assms pool_okD(3) [OF assms(1)] unfolding pool_ok_def by simp

lemma pool_ok_quiet:
  assumes ok: "pool_ok w s" and eff: "length (tq_heap q) = length (tq_heap (pq s))" "tq_popped q = tq_popped (pq s)"
    "distinct (map fst (tq_items q))" "\<And>rid p. map_of (tq_items q) rid = Some p \<Longrightarrow> map_of (tq_items (pq s)) rid = Some p"
    "\<And>p. rid_of q p = rid_of (pq s) p \<and> qi_RetryCount (tq_heap q ! p) = qi_RetryCount (tq_heap (pq s) ! p)
        \<and> (qi_cancelled (tq_heap (pq s) ! p) \<longrightarrow> qi_cancelled (tq_heap q ! p))"
  shows "pool_ok w (s\<lparr>pq := q\<rparr>)"
proof (rule pool_ok_queue [OF ok])
  show "queue_ok q" using queue_ok_quiet [OF pool_okD(1) [OF ok] eff(1-4)] eff(5) by blast
  show "worker_ok w q (ws s ! j)" if "j < length (ws s)" for j
    by (rule worker_ok_quiet [OF pool_okD(2) [OF ok that] eff(1,2,4,5)])
qed (use pool_okD(4) [OF ok] eff in auto)

lemma step_enqueue_ok:
  assumes ok: "pool_ok w s" and "qi_RetryCount it = 0" and "0 \<le> wp_maxRetries w"
    and e: "TaskQueue_Enqueue now (length (tq_heap (pq s))) (new_item it (pq s)) = (r, q)"
  shows "pool_ok w (s\<lparr>pq := q\<rparr>)"
proof -
  note q = queue_okD [OF pool_okD(1) [OF ok]]
  note wk = worker_okD [OF pool_okD(2) [OF ok]]
  let ?n = "length (tq_heap (pq s))"
  have small: "map_of (tq_items (pq s)) rid \<noteq> Some ?n" for rid using q(2) by blast
  from e pool_okD(1) [OF ok] show ?thesis
  proof (cases rule: Enqueue_cases)
    case refused
    then have at: "p < ?n \<Longrightarrow> tq_heap q ! p = tq_heap (pq s) ! p" "tq_heap q ! ?n = it" "length (tq_heap q) = Suc ?n"
        "tq_items q = tq_items (pq s)" "tq_popped q = tq_popped (pq s)" for p
      by (simp_all add: new_item_def nth_append)
    show ?thesis
    proof (rule pool_ok_queue [OF ok])
      show "queue_ok q" unfolding queue_ok_def using q at by (metis less_SucI)
      show "worker_ok w q (ws s ! j)" if "j < length (ws s)" for j
        by (rule worker_ok_keep [OF pool_okD(2) [OF ok that]]) (simp add: at)
      show "0 \<le> qi_RetryCount (tq_heap q ! p) \<and> qi_RetryCount (tq_heap q ! p) \<le> wp_maxRetries w"
        if "p < length (tq_heap q)" for p
        using that at assms(2,3) pool_okD(4) [OF ok, of p] by (cases "p = ?n") auto
    qed
  next
    case (queued it')
    show ?thesis
    proof (rule pool_ok_queue [OF ok])
      show "queue_ok q"
        using q queued by (auto simp: queue_ok_def distinct_keys_update less_Suc_eq split: if_splits)
    next
      fix j assume j: "j < length (ws s)"
      show "worker_ok w q (ws s ! j)"
      proof (rule worker_ok_keep [OF pool_okD(2) [OF ok j]], intro conjI impI allI)
        fix p assume h: "holds_item (ws s ! j) p" "p < ?n"
        assume live: "\<not> qi_cancelled (tq_heap q ! p)" "map_of (tq_popped (pq s)) (rid_of (pq s) p) = Some p"
          "map_of (tq_items (pq s)) (rid_of (pq s) p) = None"
        then have "rid_of (pq s) p \<noteq> qi_ResourceID it" using queued(8) by auto
        with live queued show "map_of (tq_popped q) (rid_of (pq s) p) = Some p" "map_of (tq_items q) (rid_of (pq s) p) = None"
          by simp_all
      qed (use queued small in \<open>auto split: if_splits\<close>)
    next
      fix p assume "p < length (tq_heap q)"
      then show "0 \<le> qi_RetryCount (tq_heap q ! p) \<and> qi_RetryCount (tq_heap q ! p) \<le> wp_maxRetries w"
        using queued assms(2,3) pool_okD(4) [OF ok, of p] by (cases "p = ?n") auto
    qed
  qed
qed

lemma work_step_ok: "work_step w s l s' \<Longrightarrow> pool_ok w s \<Longrightarrow> pool_ok w s'"
proof (induction rule: work_step.induct)
  case (wk_exit i s)
  then show ?case using pool_ok_move [of w s i "pq s" Exited] pool_okD [OF wk_exit(3)] by simp
next
  case (wk_cancelled i s p pctx)
  then show ?case using pool_ok_move [of w s i "pq s" Idle] pool_okD [OF wk_cancelled(4)] by simp
qed (blast intro: step_dequeue_ok step_handle_ok step_requeue_ok)+

lemma pool_step_ok: "pool_step w s l s' \<Longrightarrow> pool_ok w s \<Longrightarrow> 0 \<le> wp_maxRetries w \<Longrightarrow> pool_ok w s'"
proof (induction rule: pool_step.induct)
  case (ps_done s uid)
  show ?case
  proof (rule pool_ok_quiet [OF ps_done(1)])
    show "distinct (map fst (tq_items (TaskQueue_Done uid (pq s))))"
      using queue_okD(1) [OF pool_okD(1) [OF ps_done(1)]]
      by (auto simp: TaskQueue_Done_def distinct_keys_delete split: option.splits)
  qed (auto simp: TaskQueue_Done_def cancel_item_fields split: option.splits if_splits)
next
  case (ps_close s)
  show ?case
    by (rule pool_ok_quiet [OF ps_close(1)])
      (use queue_okD(1) [OF pool_okD(1) [OF ps_close(1)]] in \<open>auto simp: Close_effect\<close>)
qed (auto intro: work_step_ok step_enqueue_ok)

lemma start_pool_ok: "0 \<le> wp_maxRetries w \<Longrightarrow> pool_ok w (start_pool w)"
  by (simp add: pool_ok_def queue_ok_def start_pool_def NewTaskQueue_def WorkPool_Start_def)

lemma pool_run_ok: "pool_run w (start_pool w) tr s \<Longrightarrow> 0 \<le> wp_maxRetries w \<Longrightarrow> pool_ok w s"
  by (induction rule: pool_run.induct) (auto intro: start_pool_ok pool_step_ok)


section \<open>How often a handler runs\<close>

definition attempts :: "item_ptr \<Rightarrow> pool_label list \<Rightarrow> nat" where
  "attempts p tr = count_list tr (Handled p)"

text \<open>An item that waits for its next run: queued, or taken by a worker.\<close>

definition awaiting :: "('h, 'p) pool \<Rightarrow> item_ptr \<Rightarrow> bool" where
  "awaiting s p \<longleftrightarrow> (\<exists>rid. map_of (tq_items (pq s)) rid = Some p) \<or> Running p \<in> set (ws s)"

abbreviation retries :: "('h, 'p) pool \<Rightarrow> item_ptr \<Rightarrow> int" where
  "retries s p \<equiv> qi_RetryCount (tq_heap (pq s) ! p)"

definition counted :: "('h, 'p) pool \<Rightarrow> pool_label list \<Rightarrow> bool" where
  "counted s tr \<longleftrightarrow>
     (\<forall>p < length (tq_heap (pq s)). int (attempts p tr) \<le> retries s p + (if awaiting s p then 0 else 1)) \<and>
     (\<forall>p \<ge> length (tq_heap (pq s)). attempts p tr = 0)"

lemma attempts_simps [simp]:
  "attempts p [] = 0" "attempts p (tr @ [Internal_step]) = attempts p tr"
  "attempts p (tr @ [Handled p']) = attempts p tr + (if p' = p then 1 else 0)"
  by (simp_all add: attempts_def)

text \<open>A step without a handler run keeps the count: an item starts to await again only with one more retry.\<close>

lemma counted_internal:
  assumes "counted s tr" and "length (tq_heap (pq s)) \<le> length (tq_heap (pq s'))"
    and "\<And>p. p < length (tq_heap (pq s)) \<Longrightarrow>
       retries s' p \<ge> retries s p \<and> (awaiting s' p \<longrightarrow> awaiting s p \<or> retries s' p \<ge> retries s p + 1)"
    and "\<And>p. length (tq_heap (pq s)) \<le> p \<Longrightarrow> p < length (tq_heap (pq s')) \<Longrightarrow> 0 \<le> retries s' p"
  shows "counted s' (tr @ [Internal_step])"
  unfolding counted_def
proof (intro conjI allI impI)
  fix p assume p: "p < length (tq_heap (pq s'))"
  show "int (attempts p (tr @ [Internal_step])) \<le> retries s' p + (if awaiting s' p then 0 else 1)"
  proof (cases "p < length (tq_heap (pq s))")
    case True
    with assms(1) have "int (attempts p tr) \<le> retries s p + (if awaiting s p then 0 else 1)" by (simp add: counted_def)
    with assms(3) [OF True] show ?thesis by (auto split: if_splits)
  next
    case False
    with assms(1) have "attempts p tr = 0" by (simp add: counted_def)
    with assms(4) [of p] False p show ?thesis by simp
  qed
qed (use assms(1,2) in \<open>auto simp: counted_def\<close>)

lemma running_update: "Running p \<in> set (xs[i := x]) \<Longrightarrow> Running p \<in> set xs \<or> x = Running p"
  using set_update_subset_insert [of xs i x] by auto

lemma work_step_counted:
  "work_step w s l s' \<Longrightarrow> pool_ok w s \<Longrightarrow> counted s tr \<Longrightarrow> counted s' (tr @ [l])"
proof (induction rule: work_step.induct)
  case (wk_dequeue i s c p q)
  from Dequeue_Ok [OF wk_dequeue(3) queue_okD(1) [OF pool_okD(1) [OF wk_dequeue(4)]]] obtain k where
    k: "map_of (tq_items (pq s)) k = Some p" "tq_items q = AList.delete k (tq_items (pq s))" "tq_heap q = tq_heap (pq s)" by metis
  show ?case
    by (rule counted_internal [OF wk_dequeue(5)])
      (use k in \<open>auto simp: awaiting_def dest: running_update split: if_splits\<close>)
next
  case (wk_exit i s)
  show ?case by (rule counted_internal [OF wk_exit(4)]) (auto simp: awaiting_def dest: running_update)
next
  case (wk_handle i s p r x q)
  have eff: "tq_items q = tq_items (pq s)" "length (tq_heap q) = length (tq_heap (pq s))"
      "\<And>p'. qi_RetryCount (tq_heap q ! p') = retries s p'" "x \<noteq> Running p'" for p'
    using wk_handle(3) by (cases rule: worker_result_cases; simp add: cancel_item_fields)+
  let ?s = "s\<lparr>pq := q, ws := (ws s)[i := x]\<rparr>"
  have aw: "awaiting ?s p' \<Longrightarrow> awaiting s p'" for p'
    using eff by (auto simp: awaiting_def dest: running_update)
  have "Running p \<notin> set ((ws s)[i := x])"
  proof
    assume "Running p \<in> set ((ws s)[i := x])"
    then obtain j where j: "j < length (ws s)" "(ws s)[i := x] ! j = Running p" by (auto simp: in_set_conv_nth)
    with eff(4) wk_handle(1) have "j \<noteq> i" by auto
    with j pool_okD(3) [OF wk_handle(4) j(1) wk_handle(1), of p] wk_handle(2) show False by simp
  qed
  moreover have "map_of (tq_items (pq s)) rid \<noteq> Some p" for rid
    using worker_okD(2) [OF pool_okD(2) [OF wk_handle(4,1)], of p] wk_handle(2) by simp
  ultimately have over: "\<not> awaiting ?s p" using eff(1) by (simp add: awaiting_def)
  have was: "awaiting s p" using wk_handle(1,2) by (auto simp: awaiting_def in_set_conv_nth)
  have old: "int (attempts p' tr) \<le> retries s p' + (if awaiting s p' then 0 else 1)" if "p' < length (tq_heap q)" for p'
    using wk_handle(5) that eff(2) by (simp add: counted_def)
  have p: "p < length (tq_heap (pq s))" using worker_okD(1) [OF pool_okD(2) [OF wk_handle(4,1)], of p] wk_handle(2) by simp
  have new: "int (attempts p' (tr @ [Handled p])) \<le> retries ?s p' + (if awaiting ?s p' then 0 else 1)"
    if "p' < length (tq_heap q)" for p'
    using old [OF that] aw [of p'] over was eff(3) [of p'] by (cases "p' = p") (auto split: if_splits)
  moreover have "attempts p' (tr @ [Handled p]) = 0" if "length (tq_heap q) \<le> p'" for p'
    using wk_handle(5) that eff(2) p by (auto simp: counted_def)
  ultimately show ?case by (simp add: counted_def)
next
  case (wk_requeue i s p pctx now r q)
  have p: "p < length (tq_heap (pq s))" using worker_okD(1) [OF pool_okD(2) [OF wk_requeue(4,1)], of p] wk_requeue(2) by simp
  show ?case
  proof (rule counted_internal [OF wk_requeue(5)])
    from wk_requeue(3) p show "length (tq_heap (pq s)) \<le> length (tq_heap (pq (s\<lparr>pq := q, ws := (ws s)[i := Idle]\<rparr>)))"
      by (cases rule: Requeue_cases) simp_all
  next
    fix p'
    from wk_requeue(3) p show "retries (s\<lparr>pq := q, ws := (ws s)[i := Idle]\<rparr>) p' \<ge> retries s p' \<and>
        (awaiting (s\<lparr>pq := q, ws := (ws s)[i := Idle]\<rparr>) p' \<longrightarrow> awaiting s p' \<or>
           retries (s\<lparr>pq := q, ws := (ws s)[i := Idle]\<rparr>) p' \<ge> retries s p' + 1)"
      by (cases rule: Requeue_cases)
        (use p in \<open>auto simp: awaiting_def nth_list_update dest: running_update split: if_splits\<close>)
  next
    fix p' assume "length (tq_heap (pq s)) \<le> p'" "p' < length (tq_heap (pq (s\<lparr>pq := q, ws := (ws s)[i := Idle]\<rparr>)))"
    with wk_requeue(3) p have False by (cases rule: Requeue_cases) simp_all
    then show "0 \<le> retries (s\<lparr>pq := q, ws := (ws s)[i := Idle]\<rparr>) p'" ..
  qed
next
  case (wk_cancelled i s p pctx)
  show ?case by (rule counted_internal [OF wk_cancelled(5)]) (auto simp: awaiting_def dest: running_update)
qed

lemma pool_step_counted:
  "pool_step w s l s' \<Longrightarrow> pool_ok w s \<Longrightarrow> counted s tr \<Longrightarrow> counted s' (tr @ [l])"
proof (induction rule: pool_step.induct)
  case (ps_work s l s')
  then show ?case by (rule work_step_counted)
next
  case (ps_enqueue it now s r q)
  from ps_enqueue(2) pool_okD(1) [OF ps_enqueue(3)] show ?case
  proof (cases rule: Enqueue_cases)
    case refused
    show ?thesis
      by (rule counted_internal [OF ps_enqueue(4)])
        (use refused ps_enqueue(1) in \<open>auto simp: awaiting_def new_item_def nth_append\<close>)
  next
    case (queued it')
    show ?thesis
      by (rule counted_internal [OF ps_enqueue(4)])
        (use queued ps_enqueue(1) in \<open>auto simp: awaiting_def le_less_Suc_eq split: if_splits\<close>)
  qed
next
  case (ps_done s uid)
  show ?case
    by (rule counted_internal [OF ps_done(2)])
      (auto simp: awaiting_def TaskQueue_Done_def cancel_item_fields split: option.splits if_splits)
next
  case (ps_close s)
  show ?case by (rule counted_internal [OF ps_close(2)]) (auto simp: awaiting_def Close_effect)
qed

lemma pool_run_counted: "pool_run w (start_pool w) tr s \<Longrightarrow> 0 \<le> wp_maxRetries w \<Longrightarrow> counted s tr"
proof (induction rule: pool_run.induct)
  case pr_refl
  show ?case by (simp add: counted_def start_pool_def NewTaskQueue_def)
next
  case (pr_step tr s l s')
  then show ?case using pool_step_counted pool_run_ok by blast
qed


section \<open>Workers finish\<close>

text \<open>
  A bound on the worker steps that are left: what an item can still cost by the retries it
  has left, and one step for a worker to return.
\<close>

definition left :: "WorkPool \<Rightarrow> ('h, 'p) TaskQueue \<Rightarrow> item_ptr \<Rightarrow> nat" where
  "left w q p = nat (wp_maxRetries w - qi_RetryCount (tq_heap q ! p))"

definition worker_cost :: "WorkPool \<Rightarrow> ('h, 'p) TaskQueue \<Rightarrow> worker \<Rightarrow> nat" where
  "worker_cost w q x =
     (case x of Idle \<Rightarrow> 1 | Running p \<Rightarrow> 4 * left w q p + 4 | Waiting p \<Rightarrow> 4 * left w q p + 3 | Exited \<Rightarrow> 0)"

definition items_cost :: "WorkPool \<Rightarrow> ('h, 'p) TaskQueue \<Rightarrow> nat" where
  "items_cost w q = sum_list (map (\<lambda>e. 4 * left w q (snd e) + 4) (tq_items q))"

definition pool_cost :: "WorkPool \<Rightarrow> ('h, 'p) pool \<Rightarrow> nat" where
  "pool_cost w s = items_cost w (pq s) + sum_list (map (worker_cost w (pq s)) (ws s))"

lemma sum_list_map_update:
  "i < length xs \<Longrightarrow> sum_list (map f (xs[i := x])) + f (xs ! i) = sum_list (map f xs) + (f x :: nat)"
  by (induction xs arbitrary: i) (auto split: nat.splits)

lemma sum_list_delete:
  "distinct (map fst m) \<Longrightarrow> map_of m k = Some v \<Longrightarrow>
   sum_list (map f (AList.delete k m)) + f (k, v) = sum_list (map f m :: nat list)"
proof (induction m)
  case (Cons e m)
  obtain k' v' where e: "e = (k', v')" by (cases e)
  show ?case
  proof (cases "k' = k")
    case True
    with Cons.prems e have "AList.delete k m = m" by (simp add: delete_idem)
    with Cons.prems e True show ?thesis by simp
  next
    case False
    with Cons e show ?thesis by simp
  qed
qed simp

lemma update_absent: "map_of m k = None \<Longrightarrow> AList.update k v m = m @ [(k, v)]"
  by (induction m) (auto split: if_splits)

lemma worker_cost_cong:
  "(\<And>p. holds_item x p \<Longrightarrow> qi_RetryCount (tq_heap q' ! p) = qi_RetryCount (tq_heap q ! p)) \<Longrightarrow> worker_cost w q' x = worker_cost w q x"
  by (cases x) (simp_all add: worker_cost_def left_def)

text \<open>A worker that moves on with the other items left as they are.\<close>

lemma cost_move:
  assumes "i < length (ws s)" and "\<And>j. j < length (ws s) \<Longrightarrow> j \<noteq> i \<Longrightarrow> worker_cost w q (ws s ! j) = worker_cost w (pq s) (ws s ! j)"
    and "items_cost w q + worker_cost w q x < items_cost w (pq s) + worker_cost w (pq s) (ws s ! i)"
  shows "pool_cost w (s\<lparr>pq := q, ws := (ws s)[i := x]\<rparr>) < pool_cost w s"
proof -
  have "map (worker_cost w q) ((ws s)[i := x]) = (map (worker_cost w (pq s)) (ws s))[i := worker_cost w q x]"
    using assms(1,2) by (intro nth_equalityI) (auto simp: nth_list_update)
  moreover have "sum_list ((map (worker_cost w (pq s)) (ws s))[i := worker_cost w q x]) + worker_cost w (pq s) (ws s ! i)
      = sum_list (map (worker_cost w (pq s)) (ws s)) + worker_cost w q x"
    using sum_list_map_update [of i "map (worker_cost w (pq s)) (ws s)" "\<lambda>x. x"] assms(1) by simp
  ultimately show ?thesis using assms(3) by (simp add: pool_cost_def)
qed

lemma items_cost_same:
  "tq_items q' = tq_items q \<Longrightarrow> (\<And>p. qi_RetryCount (tq_heap q' ! p) = qi_RetryCount (tq_heap q ! p)) \<Longrightarrow> items_cost w q' = items_cost w q"
  by (simp add: items_cost_def left_def)

lemma work_step_cost: "work_step w s l s' \<Longrightarrow> pool_ok w s \<Longrightarrow> pool_cost w s' < pool_cost w s"
proof (induction rule: work_step.induct)
  case (wk_dequeue i s c p q)
  note d = queue_okD(1) [OF pool_okD(1) [OF wk_dequeue(4)]]
  from Dequeue_Ok [OF wk_dequeue(3) d] obtain k where
    k: "map_of (tq_items (pq s)) k = Some p" "tq_items q = AList.delete k (tq_items (pq s))" "tq_heap q = tq_heap (pq s)" by metis
  show ?case
    using sum_list_delete [OF d k(1), of "\<lambda>e. 4 * left w (pq s) (snd e) + 4"] k wk_dequeue(1,2)
    by (intro cost_move) (auto simp: items_cost_def worker_cost_def left_def intro: worker_cost_cong split: worker.splits)
next
  case (wk_exit i s)
  then show ?case using cost_move [of i s w "pq s" Exited] by (simp add: worker_cost_def)
next
  case (wk_handle i s p r x q)
  have eff: "tq_items q = tq_items (pq s)" "\<And>p'. qi_RetryCount (tq_heap q ! p') = retries s p'"
    using wk_handle(3) by (cases rule: worker_result_cases; simp add: cancel_item_fields)+
  from wk_handle(3) have "x = Idle \<or> x = Waiting p" by (cases rule: worker_result_cases) simp_all
  with wk_handle(1,2) eff items_cost_same [of q "pq s" w] show ?case
    by (intro cost_move worker_cost_cong) (auto simp: worker_cost_def left_def)
next
  case (wk_requeue i s p pctx now r q)
  note wk = pool_okD(2) [OF wk_requeue(4,1), unfolded wk_requeue(2)]
  have p: "p < length (tq_heap (pq s))" using worker_okD(1) [OF wk, of p] by simp
  have m: "retries s p < wp_maxRetries w" using wk by (simp add: worker_ok_def)
  from wk_requeue(3) p show ?case
  proof (cases rule: Requeue_cases)
    case refused
    with wk_requeue(1,2) show ?thesis by (intro cost_move) (simp_all add: worker_cost_def)
  next
    case queued
    have none: "map_of (tq_items (pq s)) (rid_of (pq s) p) = None" using worker_okD(3) [OF wk, of p] queued(1) by simp
    have lf: "left w q p' = (if p' = p then left w (pq s) p - 1 else left w (pq s) p')" for p'
      using queued(4) p m by (auto simp: left_def nth_list_update)
    have "left w q (snd e) = left w (pq s) (snd e)" if "e \<in> set (tq_items (pq s))" for e
    proof -
      have "map_of (tq_items (pq s)) (fst e) = Some (snd e)"
        using that queue_okD(1) [OF pool_okD(1) [OF wk_requeue(4)]] by simp
      with worker_okD(2) [OF wk, of p "fst e"] show ?thesis by (auto simp: lf)
    qed
    then have "items_cost w q = items_cost w (pq s) + (4 * left w q p + 4)"
      using queued(2) update_absent [OF none] by (simp add: items_cost_def cong: map_cong)
    moreover have "left w (pq s) p > 0" using m by (simp add: left_def)
    moreover have "worker_cost w q (ws s ! j) = worker_cost w (pq s) (ws s ! j)" if "j < length (ws s)" "j \<noteq> i" for j
    proof (rule worker_cost_cong)
      fix p' assume "holds_item (ws s ! j) p'"
      with pool_okD(3) [OF wk_requeue(4) that(1) wk_requeue(1), of p'] wk_requeue(2) that(2) have "p' \<noteq> p" by auto
      with queued(4) p show "qi_RetryCount (tq_heap q ! p') = retries s p'" by (simp add: nth_list_update)
    qed
    ultimately show ?thesis using wk_requeue(1,2) lf by (intro cost_move) (simp_all add: worker_cost_def)
  qed
next
  case (wk_cancelled i s p pctx)
  then show ?case using cost_move [of i s w "pq s" Idle] by (simp add: worker_cost_def)
qed

inductive work_steps :: "WorkPool \<Rightarrow> nat \<Rightarrow> ('h, 'p) pool \<Rightarrow> ('h, 'p) pool \<Rightarrow> bool" for w where
  ws_none: "work_steps w 0 s s"
| ws_more: "work_steps w n s s' \<Longrightarrow> work_step w s' l s'' \<Longrightarrow> work_steps w (Suc n) s s''"

lemma work_steps_cost: "work_steps w n s s' \<Longrightarrow> pool_ok w s \<Longrightarrow> pool_ok w s' \<and> n + pool_cost w s' \<le> pool_cost w s"
proof (induction rule: work_steps.induct)
  case (ws_more n s s' l s'')
  then have "pool_ok w s'" "n + pool_cost w s' \<le> pool_cost w s" by blast+
  with work_step_ok [OF ws_more(2)] work_step_cost [OF ws_more(2)] show ?case by fastforce
qed simp

text \<open>Steps in which no worker returns, and what a state without such a step looks like.\<close>

definition active_step :: "WorkPool \<Rightarrow> ('h, 'p) pool \<Rightarrow> pool_label \<Rightarrow> ('h, 'p) pool \<Rightarrow> bool" where
  "active_step w s l s' \<longleftrightarrow> work_step w s l s' \<and> count_list (ws s') Exited = count_list (ws s) Exited"

inductive active_steps :: "WorkPool \<Rightarrow> nat \<Rightarrow> ('h, 'p) pool \<Rightarrow> ('h, 'p) pool \<Rightarrow> bool" for w where
  as_none: "active_steps w 0 s s"
| as_more: "active_steps w n s s' \<Longrightarrow> active_step w s' l s'' \<Longrightarrow> active_steps w (Suc n) s s''"

definition all_exited :: "('h, 'p) pool \<Rightarrow> bool" where
  "all_exited s \<longleftrightarrow> (\<forall>x \<in> set (ws s). x = Exited)"

lemma active_work_steps: "active_steps w n s s' \<Longrightarrow> work_steps w n s s'"
  by (induction rule: active_steps.induct) (auto simp: active_step_def intro: work_steps.intros)

lemma work_step_length: "work_step w s l s' \<Longrightarrow> length (ws s') = length (ws s)"
  by (induction rule: work_step.induct) simp_all

lemma all_exited_count: "all_exited s \<longleftrightarrow> count_list (ws s) Exited = length (ws s)"
proof -
  have "(\<forall>x \<in> set xs. x = e) \<longleftrightarrow> count_list xs e = length xs" for xs and e :: worker
    by (induction xs) (auto simp: Suc_le_eq le_imp_less_Suc [OF count_le_length] less_imp_neq)
  then show ?thesis by (simp add: all_exited_def)
qed

lemma active_steps_exited: "active_steps w n s s' \<Longrightarrow> all_exited s' = all_exited s"
  by (induction rule: active_steps.induct) (auto simp: active_step_def all_exited_count dest: work_step_length)

lemma count_list_update_same:
  "i < length xs \<Longrightarrow> xs ! i \<noteq> e \<Longrightarrow> x \<noteq> e \<Longrightarrow> count_list (xs[i := x]) e = count_list xs e"
  by (induction xs arbitrary: i) (auto split: nat.splits)

lemma stuck_drained:
  assumes "\<And>l s'. \<not> active_step w s l s'" and "\<not> all_exited s"
  shows "tq_items (pq s) = [] \<and> (\<forall>x \<in> set (ws s). x = Idle \<or> x = Exited)"
proof -
  have no: False if "work_step w s l (s\<lparr>pq := q, ws := (ws s)[i := x]\<rparr>)" "i < length (ws s)" "ws s ! i \<noteq> Exited" "x \<noteq> Exited"
    for l q i x
    using assms(1) [of l "s\<lparr>pq := q, ws := (ws s)[i := x]\<rparr>"] that by (simp add: active_step_def count_list_update_same)
  have rest: "x = Idle \<or> x = Exited" if "x \<in> set (ws s)" for x
  proof -
    from that obtain i where i: "i < length (ws s)" "ws s ! i = x" by (auto simp: in_set_conv_nth)
    show ?thesis
    proof (cases x)
      case (Running p)
      obtain y q where r: "worker_result w (Ok ()) p (pq s) = (y, q)" by fastforce
      then have "y \<noteq> Exited" by (auto simp: worker_result_def Let_def)
      with no [OF wk_handle [OF i(1) i(2) [unfolded Running] r]] i Running show ?thesis by simp
    next
      case (Waiting p)
      obtain r q where "TaskQueue_Requeue None 0 (Some p) (pq s) = (r, q)" by fastforce
      from no [OF wk_requeue [OF i(1) i(2) [unfolded Waiting] this]] i Waiting show ?thesis by simp
    qed simp_all
  qed
  moreover have "tq_items (pq s) = []"
  proof (rule ccontr)
    assume items: "tq_items (pq s) \<noteq> []"
    from assms(2) rest have "Idle \<in> set (ws s)" unfolding all_exited_def by metis
    then obtain i where i: "i < length (ws s)" "ws s ! i = Idle" by (auto simp: in_set_conv_nth)
    obtain p q where "TaskQueue_Dequeue 0 (pq s) = Some (Ok p, q)"
      using items by (cases "tq_items (pq s) ! 0") (simp add: TaskQueue_Dequeue_def TaskQueue_Len_def TaskQueue_Pop_def Let_def)
    from no [OF wk_dequeue [OF i this]] i show False by simp
  qed
  ultimately show ?thesis by blast
qed

section \<open>Properties\<close>


definition job :: "string \<Rightarrow> (unit, unit) QueueItem" where
  "job n = \<lparr>qi_Proto = (), qi_ResourceName = n, qi_ResourceID = n, qi_EnqueuedAt = None, qi_RetryCount = 0, qi_Handler = (),
            qi_cancelled = False\<rparr>"

definition one_worker :: WorkPool where
  "one_worker = NewPool [WithMaxWorkers 1, WithMaxRetries 1]"

text \<open>One item enqueued, taken, and superseded by a newer one.\<close>

definition taken_pool :: "(unit, unit) pool" where
  "taken_pool = \<lparr>pq = snd (the (TaskQueue_Dequeue 0 (snd (TaskQueue_Enqueue 5 0 (new_item (job ''a'') NewTaskQueue))))), ws = [Running 0]\<rparr>"

definition newer_pool :: "(unit, unit) pool" where
  "newer_pool = taken_pool\<lparr>pq := snd (TaskQueue_Enqueue 6 1 (new_item (job ''a'') (pq taken_pool)))\<rparr>"

lemmas queue_defs = job_def TaskQueue_Enqueue_def TaskQueue_Dequeue_def TaskQueue_Pop_def TaskQueue_Len_def new_item_def
  NewTaskQueue_def upd_item_def drop_popped_def cancel_item_def Let_def

lemma taken_pool_queue:
  "tq_heap (pq taken_pool) = [(job ''a'')\<lparr>qi_EnqueuedAt := Some 5\<rparr>]" "tq_items (pq taken_pool) = []"
  "tq_popped (pq taken_pool) = [(''a'', 0)]" "tq_closed (pq taken_pool) = False"
  by (simp_all add: taken_pool_def queue_defs)

lemma newer_pool_queue:
  "tq_heap (pq newer_pool) = [(job ''a'')\<lparr>qi_EnqueuedAt := Some 5, qi_cancelled := True\<rparr>, (job ''a'')\<lparr>qi_EnqueuedAt := Some 6\<rparr>]"
  "tq_items (pq newer_pool) = [(''a'', 1)]" "ws newer_pool = [Running 0]"
  using taken_pool_queue by (simp_all add: newer_pool_def queue_defs taken_pool_def)

lemma taken_pool_run: "pool_run one_worker (start_pool one_worker) [Internal_step, Internal_step] taken_pool"
proof -
  let ?s0 = "start_pool one_worker :: (unit, unit) pool"
  let ?q1 = "snd (TaskQueue_Enqueue 5 0 (new_item (job ''a'') NewTaskQueue))"
  have s0: "?s0 = \<lparr>pq = NewTaskQueue, ws = [Idle]\<rparr>"
    by (simp add: start_pool_def WorkPool_Start_def one_worker_def NewPool_def WithMaxWorkers_def WithMaxRetries_def)
  have "pool_step one_worker ?s0 Internal_step (?s0\<lparr>pq := ?q1\<rparr>)"
    by (rule ps_enqueue [of "job ''a''" 5]) (simp_all add: s0 job_def NewTaskQueue_def prod_eq_iff)
  from pr_step [OF pr_refl this] have r1: "pool_run one_worker ?s0 [Internal_step] (?s0\<lparr>pq := ?q1\<rparr>)" by simp
  have d: "TaskQueue_Dequeue 0 ?q1 = Some (Ok 0, snd (the (TaskQueue_Dequeue 0 ?q1)))" by (simp add: queue_defs)
  have "work_step one_worker (?s0\<lparr>pq := ?q1\<rparr>) Internal_step taken_pool"
    using wk_dequeue [of 0 "?s0\<lparr>pq := ?q1\<rparr>" 0 0 "snd (the (TaskQueue_Dequeue 0 ?q1))" one_worker] d
    by (simp add: s0 taken_pool_def)
  from pr_step [OF r1 ps_work [OF this]] show ?thesis by simp
qed

lemma newer_pool_run: "pool_run one_worker (start_pool one_worker) [Internal_step, Internal_step, Internal_step] newer_pool"
proof -
  have len: "length (tq_heap (pq taken_pool)) = 1" using taken_pool_queue(1) by simp
  have "pool_step one_worker taken_pool Internal_step newer_pool"
    unfolding newer_pool_def
    by (rule ps_enqueue [of "job ''a''" 6]) (simp_all add: len job_def prod_eq_iff)
  from pr_step [OF taken_pool_run this] show ?thesis by simp
qed

lemma one_worker_retries: "wp_maxRetries one_worker = 1"
  by (simp add: one_worker_def NewPool_def WithMaxWorkers_def WithMaxRetries_def)

definition waiting_pool :: "(unit, unit) pool" where
  "waiting_pool = \<lparr>pq = snd (worker_result one_worker (Err (Errorf ''boom'')) 0 (pq taken_pool)), ws = [Waiting 0]\<rparr>"

lemma waiting_pool_queue:
  "tq_heap (pq waiting_pool) = [(job ''a'')\<lparr>qi_EnqueuedAt := Some 5\<rparr>]" "tq_items (pq waiting_pool) = []"
  "tq_popped (pq waiting_pool) = [(''a'', 0)]" "tq_closed (pq waiting_pool) = False" "ws waiting_pool = [Waiting 0]"
  by (simp_all add: waiting_pool_def worker_result_def taken_pool_queue one_worker_retries job_def Let_def)

lemma waiting_pool_step: "work_step one_worker taken_pool (Handled 0) waiting_pool"
proof -
  have r: "worker_result one_worker (Err (Errorf ''boom'')) 0 (pq taken_pool) = (Waiting 0, pq waiting_pool)"
    by (simp add: waiting_pool_def worker_result_def taken_pool_queue one_worker_retries job_def Let_def)
  have "work_step one_worker taken_pool (Handled 0) (taken_pool\<lparr>pq := pq waiting_pool, ws := (ws taken_pool)[0 := Waiting 0]\<rparr>)"
    by (rule wk_handle [OF _ _ r]) (simp_all add: taken_pool_def)
  then show ?thesis by (simp add: taken_pool_def waiting_pool_def)
qed

lemma waiting_pool_run:
  "pool_run one_worker (start_pool one_worker) [Internal_step, Internal_step, Handled 0] waiting_pool"
  using pr_step [OF taken_pool_run ps_work [OF waiting_pool_step]] by simp

text \<open>The same item, handled successfully.\<close>

definition drained_pool :: "(unit, unit) pool" where
  "drained_pool = \<lparr>pq = snd (worker_result one_worker (Ok ()) 0 (pq taken_pool)), ws = [Idle]\<rparr>"

lemma drained_pool_queue:
  "tq_items (pq drained_pool) = []" "tq_closed (pq drained_pool) = False" "ws drained_pool = [Idle]"
  by (simp_all add: drained_pool_def worker_result_def taken_pool_queue Let_def)

lemma drained_pool_step: "work_step one_worker taken_pool (Handled 0) drained_pool"
proof -
  have r: "worker_result one_worker (Ok ()) 0 (pq taken_pool) = (Idle, pq drained_pool)"
    by (simp add: drained_pool_def worker_result_def Let_def)
  have "work_step one_worker taken_pool (Handled 0) (taken_pool\<lparr>pq := pq drained_pool, ws := (ws taken_pool)[0 := Idle]\<rparr>)"
    by (rule wk_handle [OF _ _ r]) (simp_all add: taken_pool_def)
  then show ?thesis by (simp add: taken_pool_def drained_pool_def)
qed


text \<open>
  C22. No item is tried forever: along every run, the handler of one item runs at most one
  time more than the maximal number of retries.
\<close>

theorem queue_attempts_bounded:
  assumes "pool_run w (start_pool w) tr s" and "0 \<le> wp_maxRetries w"
  shows "int (attempts p tr) \<le> wp_maxRetries w + 1"
proof (cases "p < length (tq_heap (pq s))")
  case True
  with pool_run_counted [OF assms] have "int (attempts p tr) \<le> retries s p + (if awaiting s p then 0 else 1)"
    by (simp add: counted_def)
  with pool_okD(4) [OF pool_run_ok [OF assms] True] show ?thesis by (auto split: if_splits)
next
  case False
  with pool_run_counted [OF assms] assms(2) show ?thesis by (simp add: counted_def)
qed

theorem queue_attempts_bounded_witness:
  "attempts 0 [Internal_step, Internal_step, Handled 0] = 1
   \<and> int (attempts 0 [Internal_step, Internal_step, Handled 0]) \<le> wp_maxRetries one_worker + 1"
proof
  show "attempts 0 [Internal_step, Internal_step, Handled 0] = 1" by (simp add: attempts_def)
  have "0 \<le> wp_maxRetries one_worker" by (simp add: one_worker_retries)
  then show "int (attempts 0 [Internal_step, Internal_step, Handled 0]) \<le> wp_maxRetries one_worker + 1"
    by (rule queue_attempts_bounded [OF waiting_pool_run])
qed

text \<open>
  C21. Without new work the workers come to rest: from every reachable state, the number of
  steps that workers can take, retries included, is bounded by the cost of that state,
  whatever the handlers return.
\<close>

theorem queue_workers_terminate:
  assumes "pool_run w (start_pool w) tr s" and "0 \<le> wp_maxRetries w" and "work_steps w n s s'"
  shows "n \<le> pool_cost w s"
  using work_steps_cost [OF assms(3) pool_run_ok [OF assms(1,2)]] by simp

theorem queue_workers_terminate_witness:
  "pool_cost one_worker taken_pool = 8 \<and> Suc 0 \<le> pool_cost one_worker taken_pool"
proof
  show "pool_cost one_worker taken_pool = 8"
    by (simp add: pool_cost_def items_cost_def worker_cost_def left_def taken_pool_queue one_worker_retries
        taken_pool_def [THEN arg_cong [of _ _ ws]] job_def)
  have "0 \<le> wp_maxRetries one_worker" by (simp add: one_worker_retries)
  from queue_workers_terminate [OF taken_pool_run this ws_more [OF ws_none waiting_pool_step]]
  show "Suc 0 \<le> pool_cost one_worker taken_pool" .
qed



text \<open>
  The race left in Requeue: when a newer item of the resource is enqueued after the
  retrying worker has looked at its item's context and before it takes the lock, the old,
  now cancelled item is queued in its place and the newer one is lost.
\<close>

theorem queue_requeue_race:
  assumes "pool_run w (start_pool w) tr s" and "0 \<le> wp_maxRetries w"
    and "i < length (ws s)" and "ws s ! i = Waiting p" and "item_err None (tq_heap (pq s) ! p) = None"
    and "qi_ResourceID it = rid_of (pq s) p" and "qi_RetryCount it = 0"
    and "TaskQueue_Enqueue now (length (tq_heap (pq s))) (new_item it (pq s)) = (Ok (), q)"
    and "requeue_locked now' p q = (Ok (), q')"
  shows "map_of (tq_items q) (qi_ResourceID it) = Some (length (tq_heap (pq s)))
       \<and> map_of (tq_items q') (qi_ResourceID it) = Some p \<and> qi_cancelled (tq_heap q' ! p)"
proof -
  note ok = pool_run_ok [OF assms(1,2)]
  note wk = worker_okD [OF pool_okD(2) [OF ok assms(3)], unfolded assms(4), of p]
  have live: "\<not> qi_cancelled (tq_heap (pq s) ! p)" using assms(5) by (auto simp: item_err_def split: if_splits)
  have p: "p < length (tq_heap (pq s))" "map_of (tq_popped (pq s)) (rid_of (pq s) p) = Some p" using wk live by simp_all
  from assms(8) pool_okD(1) [OF ok] have q: "map_of (tq_items q) (qi_ResourceID it) = Some (length (tq_heap (pq s)))
      \<and> qi_cancelled (tq_heap q ! p) \<and> rid_of q p = rid_of (pq s) p \<and> p < length (tq_heap q)"
  proof (cases rule: Enqueue_cases)
    case refused
    then show ?thesis by simp
  next
    case (queued it')
    with p assms(6) show ?thesis by simp
  qed
  with assms(9) assms(6) show ?thesis
    by (auto simp: requeue_locked_def Let_def split: if_splits)
qed

theorem queue_requeue_race_witness:
  "\<exists>q q'. TaskQueue_Enqueue 6 1 (new_item (job ''a'') (pq waiting_pool)) = (Ok (), q) \<and> requeue_locked 7 0 q = (Ok (), q')
      \<and> map_of (tq_items q) ''a'' = Some 1 \<and> map_of (tq_items q') ''a'' = Some 0"
proof -
  let ?e = "TaskQueue_Enqueue 6 1 (new_item (job ''a'') (pq waiting_pool))"
  let ?r = "requeue_locked 7 0 (snd ?e)"
  have len: "length (tq_heap (pq waiting_pool)) = 1" by (simp add: waiting_pool_queue)
  have e: "?e = (Ok (), snd ?e)" by (simp add: queue_defs waiting_pool_queue prod_eq_iff)
  have "\<not> tq_closed (snd ?e)" by (simp add: queue_defs waiting_pool_queue)
  then have r: "?r = (Ok (), snd ?r)" by (simp add: requeue_locked_def Let_def)
  have c: "0 \<le> wp_maxRetries one_worker" "0 < length (ws waiting_pool)" "ws waiting_pool ! 0 = Waiting 0"
      "item_err None (tq_heap (pq waiting_pool) ! 0) = None" "qi_ResourceID (job ''a'') = rid_of (pq waiting_pool) 0"
      "qi_RetryCount (job ''a'') = 0"
    by (simp_all add: one_worker_retries waiting_pool_queue item_err_def job_def)
  have e': "TaskQueue_Enqueue 6 (length (tq_heap (pq waiting_pool))) (new_item (job ''a'') (pq waiting_pool)) = (Ok (), snd ?e)"
    using e by (simp only: len)
  have "map_of (tq_items (snd ?e)) ''a'' = Some 1" "map_of (tq_items (snd ?r)) ''a'' = Some 0"
    using queue_requeue_race [OF waiting_pool_run c e' r] by (simp_all add: len job_def)
  with e r show ?thesis by blast
qed

text \<open>
  The wait before a retry: while the exponential stays representable with its jitter,
  it lies between the exponential, capped at the maximum, and the maximum. A value the
  conversion does not represent is outside this guarantee.
\<close>

theorem backoff_bounds:
  assumes "conversion_documented f2i" and "jitter_documented jit"
    and "0 < mn" and "mn \<le> mx" and "mn * 2 ^ n < 2 ^ 62"
  shows "min mx (mn * 2 ^ n) \<le> backoff f2i jit mn mx n \<and> backoff f2i jit mn mx n \<le> mx \<and> 0 < backoff f2i jit mn mx n"
proof -
  let ?x = "mn * 2 ^ n"
  have pos: "0 < ?x" using assms(3) by simp
  have x: "f2i ?x = ?x" using assms(1,5) pos by (simp add: conversion_documented_def)
  have j: "0 \<le> jit ?x" "jit ?x \<le> ?x" using assms(2) pos by (simp_all add: jitter_documented_def)
  have "wrap64 (?x + jit ?x) = ?x + jit ?x"
    using pos j assms(5) by (simp add: wrap64_def)
  with x j add_pos_nonneg [OF pos j(1)] assms(3,4) show ?thesis by (simp add: backoff_def Let_def min_def)
qed

theorem backoff_bounds_witness:
  "backoff (\<lambda>x. x) (\<lambda>x. x div 2) (5 * second) (60 * second) 2 = 30 * second
   \<and> 20 * second \<le> backoff (\<lambda>x. x) (\<lambda>x. x div 2) (5 * second) (60 * second) 2"
proof
  show "backoff (\<lambda>x. x) (\<lambda>x. x div 2) (5 * second) (60 * second) 2 = 30 * second"
    by (simp add: backoff_def wrap64_def Let_def)
  have "conversion_documented (\<lambda>x. x)" "jitter_documented (\<lambda>x. x div 2)"
    by (auto simp: conversion_documented_def jitter_documented_def)
  then show "20 * second \<le> backoff (\<lambda>x. x) (\<lambda>x. x div 2) (5 * second) (60 * second) 2"
    using backoff_bounds [of "\<lambda>x. x" "\<lambda>x. x div 2" "5 * second" "60 * second" 2] by simp
qed

end
