(* ===== verification/Scheduler.thy ===== *)
theory Scheduler
  imports Clients Scheduling Conditions QueueProps
begin

text \<open>
  The scheduler controller, pkg/controller/scheduler/scheduler.go. Its event handlers put
  work on the queue; the workers of its pool run \<^verbatim>\<open>scheduleTask\<close>, \<^verbatim>\<open>stopTask\<close>, \<^verbatim>\<open>killTask\<close>
  and \<^verbatim>\<open>updateTask\<close> on it. These act on the cluster through the clients and on nodes
  through their sessions; a report goes to the controller's publisher, and a call is
  \<open>None\<close> when that publisher blocks. A nil task reads like an empty one. Packing a message
  into an \<^verbatim>\<open>Any\<close> does not fail.
\<close>

record 'x Controller =
  sc_tasks :: "'x task_client"
  sc_leases :: "'x LeaseServiceClient"
  sc_nodes :: "'x node_client"
  sc_nodeService :: "'x NodeSender"
  sc_errs :: ext_errs
  sc_intn :: "nat \<Rightarrow> nat"

abbreviation task_uid_of :: "Task \<Rightarrow> string" where
  "task_uid_of t \<equiv> meta_Uid (getMeta (task_Meta t))"

abbreviation task_name_of :: "Task \<Rightarrow> string" where
  "task_name_of t \<equiv> meta_Name (getMeta (task_Meta t))"

abbreviation node_uid_of :: "Node \<Rightarrow> string" where
  "node_uid_of n \<equiv> meta_Uid (getMeta (node_Meta n))"

abbreviation node_name_of :: "Node \<Rightarrow> string" where
  "node_name_of n \<equiv> meta_Name (getMeta (node_Meta n))"

section \<open>Acting on tasks\<close>

definition setTaskAsSchedulingFailed :: "'x Controller \<Rightarrow> ctx \<Rightarrow> Task \<Rightarrow> string \<Rightarrow> 'x \<Rightarrow> unit res \<times> 'x" where
  "setTaskAsSchedulingFailed c ctx task reason =
     statusV1_Update (sc_tasks c) ctx (task_uid_of task)
       (empty_TaskStatus\<lparr>ts_Phase := Some (reason_text ReasonSchedulingFailed), ts_Node := Some [], ts_Reason := Some reason\<rparr>)
       [''phase'', ''node'', ''reason'']"

definition setTaskAsScheduled :: "'x Controller \<Rightarrow> ctx \<Rightarrow> Task \<Rightarrow> string \<Rightarrow> 'x \<Rightarrow> unit res \<times> 'x" where
  "setTaskAsScheduled c ctx task nodeName =
     statusV1_Update (sc_tasks c) ctx (task_uid_of task)
       (empty_TaskStatus\<lparr>ts_Phase := Some (reason_text ReasonScheduled), ts_Node := Some nodeName\<rparr>)
       [''phase'', ''node'']"

definition not_reachable :: "string \<Rightarrow> error" where
  "not_reachable node = Errorf (''target node '' @ node @ '' not connected'')"

text \<open>The request to run a task on a node.\<close>

definition schedule_event :: "string \<Rightarrow> Task \<Rightarrow> Node \<Rightarrow> Event" where
  "schedule_event fresh task n = NewEvent fresh Schedule (AnySchedule (Some (AnyTask task)) (Some (AnyNode n))) []"

text \<open>Releasing the lease of the task: one that is not there is no error.\<close>

definition revoke_if_held :: "'x Controller \<Rightarrow> ctx \<Rightarrow> string \<Rightarrow> string \<Rightarrow> 'x \<Rightarrow> unit res \<times> 'x" where
  "revoke_if_held c ctx taskID nodeUID st =
     (case lease_Revoke (sc_leases c) ctx taskID nodeUID st of
        (Err e, st) \<Rightarrow> if IgnoreNotFound (sc_errs c) (Some e) \<noteq> None then (Err e, st) else (Ok (), st)
      | (r, st) \<Rightarrow> (r, st))"

definition place :: "'x Controller \<Rightarrow> ctx \<Rightarrow> string \<Rightarrow> Task \<Rightarrow> 'x \<Rightarrow> Node res \<times> 'x" where
  "place c ctx fresh task st =
     andThen (node_List (sc_nodes c) ctx [] st) (\<lambda>nodes st.
     andThen (horizontal_Schedule (sc_intn c) task nodes, st) (\<lambda>n st.
     let nodeUID = node_uid_of n in
     if \<not> snd_IsNodeConnected (sc_nodeService c) nodeUID st then (Err (not_reachable (node_name_of n)), st)
     else
     andThen (revoke_if_held c ctx (task_uid_of task) nodeUID st) (\<lambda>_ st.
     andThen (snd_SendToNode (sc_nodeService c) ctx nodeUID (Some (schedule_event fresh task n)) st) (\<lambda>_ st.
     andThen (setTaskAsScheduled c ctx task (node_name_of n) st) (\<lambda>_ st.
     (Ok n, st))))))"

text \<open>The deferred call marks the task when an error is returned; its own error is logged.\<close>

definition Controller_start :: "'x Controller \<Rightarrow> ctx \<Rightarrow> string \<Rightarrow> Task \<Rightarrow> 'x \<Rightarrow> Node res \<times> 'x" where
  "Controller_start c ctx fresh task st =
     (case place c ctx fresh task st of
        (Err e, st) \<Rightarrow>
          (case setTaskAsSchedulingFailed c ctx task (err_text (sc_errs c) e) st of
             (Panic m, st) \<Rightarrow> (Panic m, st)
           | (_, st) \<Rightarrow> (Err e, st))
      | p \<Rightarrow> p)"

definition Controller_scheduleTask :: "'x Controller \<Rightarrow> ctx \<Rightarrow> string \<Rightarrow> Task \<Rightarrow> 'x \<Rightarrow> unit res \<times> 'x" where
  "Controller_scheduleTask c ctx fresh task st = andThen (Controller_start c ctx fresh task st) (\<lambda>_ st. (Ok (), st))"

text \<open>\<open>None\<close> when the selector still matches: nothing to do.\<close>

definition Controller_reschedule :: "'x Controller \<Rightarrow> ctx \<Rightarrow> string \<Rightarrow> Task \<Rightarrow> string \<Rightarrow> 'x \<Rightarrow> Node option res \<times> 'x" where
  "Controller_reschedule c ctx fresh task nodeUID st =
     andThen (node_Get (sc_nodes c) ctx nodeUID st) (\<lambda>node st.
     if Matches (NewCompositeSelectorFromMap (tc_NodeSelector (task_config task))) (meta_Labels (getMeta (node_Meta node)))
     then (Ok None, st)
     else
     andThen (lease_Revoke (sc_leases c) ctx (task_uid_of task) (node_uid_of node) st) (\<lambda>_ st.
     andThen (Controller_start c ctx fresh task st) (\<lambda>newNode st.
     (Ok (Some newNode), st))))"

definition Controller_stop :: "'x Controller \<Rightarrow> ctx \<Rightarrow> string \<Rightarrow> Task \<Rightarrow> string \<Rightarrow> 'x \<Rightarrow> unit res \<times> 'x" where
  "Controller_stop c ctx fresh task nodeUID st =
     (if \<not> snd_IsNodeConnected (sc_nodeService c) nodeUID st then (Err (not_reachable nodeUID), st)
      else snd_SendToNode (sc_nodeService c) ctx nodeUID (Some (NewEvent fresh TaskStop (AnyTask task) [])) st)"

definition Controller_updateTask :: "'x Controller \<Rightarrow> ctx \<Rightarrow> string \<Rightarrow> string \<Rightarrow> Task \<Rightarrow> 'x \<Rightarrow> unit res \<times> 'x" where
  "Controller_updateTask c ctx fresh1 fresh2 task st =
     (case lease_Get (sc_leases c) ctx (task_uid_of task) st of
        (Panic m, st) \<Rightarrow> (Panic m, st)
      | (Err e, st) \<Rightarrow> if IsNotFound (sc_errs c) (Some e) then (Ok (), st) else (Err e, st)
      | (Ok lease, st) \<Rightarrow>
          (let nodeID = (case lease of None \<Rightarrow> [] | Some l \<Rightarrow> lc_NodeId (lease_config l)) in
           case Controller_reschedule c ctx fresh1 task nodeID st of
             (Panic m, st) \<Rightarrow> (Panic m, st)
           | (Ok _, st) \<Rightarrow> (Ok (), st)
           | (Err e, st) \<Rightarrow> andThen (Controller_stop c ctx fresh2 task nodeID st) (\<lambda>_ st. (Err e, st))))"

section \<open>Reports\<close>

definition Controller_Report :: "instant \<Rightarrow> ConditionReport \<Rightarrow> publisher \<Rightarrow> publisher option" where
  "Controller_Report now report p =
     publisher_Report now (crep_ResourceId report) (crep_Status report = CONDITION_STATUS_TRUE) report p"

text \<open>A report, then the error.\<close>

definition report_and_fail :: "instant \<Rightarrow> ConditionReport \<Rightarrow> error \<Rightarrow> publisher \<times> 'x \<Rightarrow> (unit res \<times> (publisher \<times> 'x)) option" where
  "report_and_fail now report e st = map_option (\<lambda>p. (Err e, (p, snd st))) (Controller_Report now report (fst st))"

definition on_world :: "('x \<Rightarrow> 'a res \<times> 'x) \<Rightarrow> publisher \<times> 'x \<Rightarrow> 'a res \<times> (publisher \<times> 'x)" where
  "on_world f st = (case f (snd st) of (r, w) \<Rightarrow> (r, (fst st, w)))"

text \<open>
  What \<^verbatim>\<open>killTask\<close> and \<^verbatim>\<open>stopTask\<close> do for a task with a lease; they differ in the event
  and in the report for a node that is not connected.
\<close>

definition signal_holder ::
  "'x Controller \<Rightarrow> ctx \<Rightarrow> instant \<Rightarrow> EventType \<Rightarrow> string \<Rightarrow> ConditionReport \<Rightarrow> Task \<Rightarrow> Lease \<Rightarrow> publisher \<times> 'x
     \<Rightarrow> (unit res \<times> (publisher \<times> 'x)) option"
where
  "signal_holder c ctx now ty fresh offline task lease st =
     (case on_world (node_Get (sc_nodes c) ctx (lc_NodeId (lease_config lease))) st of
        (Panic m, st) \<Rightarrow> Some (Panic m, st)
      | (Err e, st) \<Rightarrow> Some (Err e, st)
      | (Ok node, st) \<Rightarrow>
          (let nodeUID = node_uid_of node in
           if \<not> snd_IsNodeConnected (sc_nodeService c) nodeUID (snd st)
           then report_and_fail now offline (not_reachable (node_name_of node)) st
           else
           (case on_world (snd_SendToNode (sc_nodeService c) ctx nodeUID (Some (NewEvent fresh ty (AnyTask task) []))) st of
              (Panic m, st) \<Rightarrow> Some (Panic m, st)
            | (Err e, st) \<Rightarrow>
                report_and_fail now (Report_False ReasonStopFailed [err_text (sc_errs c) e] (Report_Type now TaskReady (NewReportFor task))) e st
            | (Ok _, st) \<Rightarrow> Some (on_world (setTaskAsScheduled c ctx task (node_name_of node)) st))))"

definition with_lease ::
  "'x Controller \<Rightarrow> ctx \<Rightarrow> Task \<Rightarrow> (Lease \<Rightarrow> publisher \<times> 'x \<Rightarrow> (unit res \<times> (publisher \<times> 'x)) option) \<Rightarrow> publisher \<times> 'x
     \<Rightarrow> (unit res \<times> (publisher \<times> 'x)) option"
where
  "with_lease c ctx task f st =
     (case on_world (lease_Get (sc_leases c) ctx (task_uid_of task)) st of
        (Panic m, st) \<Rightarrow> Some (Panic m, st)
      | (Err e, st) \<Rightarrow> if IgnoreNotFound (sc_errs c) (Some e) \<noteq> None then Some (Err e, st) else Some (Ok (), st)
      | (Ok None, st) \<Rightarrow> Some (Ok (), st)
      | (Ok (Some lease), st) \<Rightarrow> f lease st)"

definition Controller_killTask ::
  "'x Controller \<Rightarrow> ctx \<Rightarrow> instant \<Rightarrow> string \<Rightarrow> Task \<Rightarrow> publisher \<times> 'x \<Rightarrow> (unit res \<times> (publisher \<times> 'x)) option" where
  "Controller_killTask c ctx now fresh task st =
     with_lease c ctx task (signal_holder c ctx now TaskKill fresh
       (Report_False ReasonSchedulingFailed [''target node not connected''] (Report_Type now TaskScheduled (NewReportFor task))) task) st"

definition Controller_stopTask ::
  "'x Controller \<Rightarrow> ctx \<Rightarrow> instant \<Rightarrow> string \<Rightarrow> Task \<Rightarrow> publisher \<times> 'x \<Rightarrow> (unit res \<times> (publisher \<times> 'x)) option" where
  "Controller_stopTask c ctx now fresh task st =
     with_lease c ctx task (signal_holder c ctx now TaskStop fresh
       (Report_False ReasonStopFailed [''target node not connected''] (Report_Type now TaskReady (NewReportFor task))) task) st"

section \<open>Enqueuing work\<close>

text \<open>An item for a pool, and putting it on the pool's queue.\<close>

definition new_work :: "instant \<Rightarrow> string \<Rightarrow> string \<Rightarrow> 'p \<Rightarrow> 'h \<Rightarrow> ('h, 'p) QueueItem" where
  "new_work now name uid p h = \<lparr>qi_Proto = p, qi_ResourceName = name, qi_ResourceID = uid, qi_EnqueuedAt = Some now,
     qi_RetryCount = 0, qi_Handler = h, qi_cancelled = False\<rparr>"

definition enqueue_item :: "instant \<Rightarrow> ('h, 'p) QueueItem \<Rightarrow> ('h, 'p) TaskQueue \<times> 'x \<Rightarrow> unit res \<times> (('h, 'p) TaskQueue \<times> 'x)" where
  "enqueue_item now it st =
     (case TaskQueue_Enqueue now (length (tq_heap (fst st))) (new_item it (fst st)) of (r, q) \<Rightarrow> (r, (q, snd st)))"

text \<open>The handler an item carries, and the queue the controller's pool works on.\<close>

datatype sched_handler = ScheduleTask | StopTask | KillTask | UpdateTask

type_synonym 'x sched_state = "(sched_handler, Task) TaskQueue \<times> 'x"

definition on_cluster :: "('x \<Rightarrow> 'a res \<times> 'x) \<Rightarrow> 'x sched_state \<Rightarrow> 'a res \<times> 'x sched_state" where
  "on_cluster f st = (case f (snd st) of (r, w) \<Rightarrow> (r, (fst st, w)))"

definition enqueue_task :: "sched_handler \<Rightarrow> 'x Controller \<Rightarrow> ctx \<Rightarrow> instant \<Rightarrow> Task \<Rightarrow> 'x sched_state \<Rightarrow> unit res \<times> 'x sched_state" where
  "enqueue_task h c ctx now task st =
     andThen (on_cluster (task_Get (sc_tasks c) ctx (task_uid_of task)) st) (\<lambda>t st.
     enqueue_item now (new_work now (task_name_of task) (task_uid_of task) t h) st)"

definition Controller_processScheduleTask :: "'x Controller \<Rightarrow> ctx \<Rightarrow> instant \<Rightarrow> Task \<Rightarrow> 'x sched_state \<Rightarrow> unit res \<times> 'x sched_state" where
  "Controller_processScheduleTask = enqueue_task ScheduleTask"

definition Controller_processTaskStop :: "'x Controller \<Rightarrow> ctx \<Rightarrow> instant \<Rightarrow> Task \<Rightarrow> 'x sched_state \<Rightarrow> unit res \<times> 'x sched_state" where
  "Controller_processTaskStop = enqueue_task StopTask"

definition Controller_processTaskKill :: "'x Controller \<Rightarrow> ctx \<Rightarrow> instant \<Rightarrow> Task \<Rightarrow> 'x sched_state \<Rightarrow> unit res \<times> 'x sched_state" where
  "Controller_processTaskKill = enqueue_task KillTask"

definition Controller_processTaskUpdate :: "'x Controller \<Rightarrow> ctx \<Rightarrow> instant \<Rightarrow> Task \<Rightarrow> 'x sched_state \<Rightarrow> unit res \<times> 'x sched_state" where
  "Controller_processTaskUpdate = enqueue_task UpdateTask"

text \<open>A task that is not found goes on as a nil task.\<close>

definition Controller_processLeaseExpired :: "'x Controller \<Rightarrow> ctx \<Rightarrow> instant \<Rightarrow> Lease \<Rightarrow> 'x sched_state \<Rightarrow> unit res \<times> 'x sched_state" where
  "Controller_processLeaseExpired c ctx now lease st =
     (case on_cluster (task_Get (sc_tasks c) ctx (lc_TaskId (lease_config lease))) st of
        (Panic m, st) \<Rightarrow> (Panic m, st)
      | (Err e, st) \<Rightarrow>
          if IgnoreNotFound (sc_errs c) (Some e) \<noteq> None then (Err e, st)
          else enqueue_item now (new_work now (task_name_of zero_Task) (task_uid_of zero_Task) zero_Task ScheduleTask) st
      | (Ok task, st) \<Rightarrow> enqueue_item now (new_work now (task_name_of task) (task_uid_of task) task ScheduleTask) st)"

definition gracePeriod :: int where
  "gracePeriod = 10 * second"

definition Controller_shouldScheduleTask :: "'x Controller \<Rightarrow> ctx \<Rightarrow> instant \<Rightarrow> string \<Rightarrow> 'x \<Rightarrow> bool res \<times> 'x" where
  "Controller_shouldScheduleTask c ctx now taskID st =
     (case lease_Get (sc_leases c) ctx taskID st of
        (Panic m, st) \<Rightarrow> (Panic m, st)
      | (Err e, st) \<Rightarrow> if IsNotFound (sc_errs c) (Some e) then (Ok True, st) else (Err e, st)
      | (Ok lease, st) \<Rightarrow>
          (let expires = (case lease of None \<Rightarrow> None | Some l \<Rightarrow> lc_ExpiresAt (lease_config l))
           in (Ok (now > AsTime expires + gracePeriod), st)))"

text \<open>The loop over the tasks: errors are logged and the next task follows.\<close>

fun enqueue_due :: "'x Controller \<Rightarrow> ctx \<Rightarrow> instant \<Rightarrow> Task list \<Rightarrow> 'x sched_state \<Rightarrow> unit res \<times> 'x sched_state" where
  "enqueue_due c ctx now [] st = (Ok (), st)"
| "enqueue_due c ctx now (task # tasks) st =
     (case on_cluster (Controller_shouldScheduleTask c ctx now (task_uid_of task)) st of
        (Panic m, st) \<Rightarrow> (Panic m, st)
      | (Err e, st) \<Rightarrow> enqueue_due c ctx now tasks st
      | (Ok should, st) \<Rightarrow>
          if should then
            (case Controller_processScheduleTask c ctx now task st of
               (Panic m, st) \<Rightarrow> (Panic m, st)
             | (_, st) \<Rightarrow> enqueue_due c ctx now tasks st)
          else enqueue_due c ctx now tasks st)"

definition Controller_processNode :: "'x Controller \<Rightarrow> ctx \<Rightarrow> instant \<Rightarrow> Node \<Rightarrow> 'x sched_state \<Rightarrow> unit res \<times> 'x sched_state" where
  "Controller_processNode c ctx now node st =
     andThen (on_cluster (task_List (sc_tasks c) ctx []) st) (\<lambda>tasks st. enqueue_due c ctx now tasks st)"

text \<open>The pool a controller is built with, when no option replaces it.\<close>

definition scheduler_pool :: WorkPool where
  "scheduler_pool = NewPool [WithMaxWorkers 2, WithMaxRetries 5, WithBackoff (5 * second) (15 * second)]"

end
