(* ===== verification/Ports.thy ===== *)
theory Ports
  imports Messages Util
begin

text \<open>
  Port mappings of a node's network, pkg/networking/ports.go: their text form, and the
  conversion of the mappings of a task to those of the CNI library and back. A signed
  32-bit number is the word with its bits.
\<close>

section \<open>Numbers and separators\<close>

text \<open>\<^verbatim>\<open>strconv.Atoi\<close>: an optional sign, digits, and the range of 64 bits.\<close>

definition Atoi :: "string \<Rightarrow> int res" where
  "Atoi s =
     (let neg = (s \<noteq> [] \<and> hd s = CHR ''-'');
          ds = (if s \<noteq> [] \<and> (hd s = CHR ''-'' \<or> hd s = CHR ''+'') then tl s else s)
      in if ds = [] then Err (Foreign ''invalid syntax'')
         else (case parse_digits 0 ds of
                 None \<Rightarrow> Err (Foreign ''invalid syntax'')
               | Some n \<Rightarrow>
                   if neg then (if n \<le> 2 ^ 63 then Ok (- int n) else Err (Foreign ''value out of range''))
                   else if n < 2 ^ 63 then Ok (int n) else Err (Foreign ''value out of range'')))"

text \<open>\<^verbatim>\<open>strings.Split\<close> on one character.\<close>

fun split_on :: "char \<Rightarrow> string \<Rightarrow> string list" where
  "split_on c [] = [[]]"
| "split_on c (x # xs) =
     (if x = c then [] # split_on c xs
      else (case split_on c xs of [] \<Rightarrow> [[x]] | y # ys \<Rightarrow> (x # y) # ys))"

text \<open>The text of a signed number.\<close>

definition format_int :: "int \<Rightarrow> string" where
  "format_int i = (if i < 0 then CHR ''-'' # format_nat (nat (- i)) else format_nat (nat i))"

lemma format_nat_digits: "set (format_nat n) \<subseteq> set ''0123456789''"
proof (induction n rule: format_nat.induct)
  case (1 n)
  have "digit d \<in> set ''0123456789''" if "d < 10" for d
    using that unfolding digit_def by (intro nth_mem) simp
  with 1 show ?case by (cases "n < 10") (simp_all add: format_nat.simps [of n])
qed

lemma split_on_single: "c \<notin> set xs \<Longrightarrow> split_on c xs = [xs]"
  by (induction xs) auto

lemma split_on_append: "c \<notin> set xs \<Longrightarrow> split_on c (xs @ c # ys) = xs # split_on c ys"
  by (induction xs) auto

lemma Atoi_format_nat: "n < 2 ^ 63 \<Longrightarrow> Atoi (format_nat n) = Ok (int n)"
proof -
  assume n: "n < 2 ^ 63"
  have "CHR ''-'' \<notin> set (format_nat n)" "CHR ''+'' \<notin> set (format_nat n)"
    using format_nat_digits [of n] by auto
  then have "hd (format_nat n) \<noteq> CHR ''-''" "hd (format_nat n) \<noteq> CHR ''+''"
    using parse_format_nat [of n] by (metis hd_in_set)+
  with n parse_format_nat [of n] show ?thesis by (simp add: Atoi_def)
qed

section \<open>The mappings of the command line\<close>

record net_PortMapping =
  np_Source :: uint32
  np_Destination :: uint32

definition errInvalidPortMapping :: error where
  "errInvalidPortMapping = Errorf ''invalid port mapping''"

definition ParsePorts :: "string \<Rightarrow> net_PortMapping res" where
  "ParsePorts p =
     (case split_on (CHR '':'') p of
        [a, b] \<Rightarrow>
          (case Atoi a of
             Ok src \<Rightarrow>
               (case Atoi b of
                  Ok dst \<Rightarrow> Ok \<lparr>np_Source = word_of_int src, np_Destination = word_of_int dst\<rparr>
                | _ \<Rightarrow> Err errInvalidPortMapping)
           | _ \<Rightarrow> Err errInvalidPortMapping)
      | _ \<Rightarrow> Err errInvalidPortMapping)"

definition PortMapping_String :: "net_PortMapping \<Rightarrow> string" where
  "PortMapping_String p = format_nat (unat (np_Source p)) @ CHR '':'' # format_nat (unat (np_Destination p))"

section \<open>The mappings of CNI\<close>

record cni_PortMapping =
  cni_HostPort :: uint32
  cni_ContainerPort :: uint32
  cni_Protocol :: string
  cni_HostIP :: string

definition ParseCNIPortMapping :: "PortMapping \<Rightarrow> cni_PortMapping" where
  "ParseCNIPortMapping pm = \<lparr>cni_HostPort = pm_HostPort pm, cni_ContainerPort = pm_TargetPort pm,
     cni_Protocol = pm_Protocol pm, cni_HostIP = pm_HostIp pm\<rparr>"

definition default_protocol :: "string \<Rightarrow> string" where
  "default_protocol p = (if p = [] then ''TCP'' else p)"

text \<open>The mappings are shared with the task, whose empty protocols are filled in.\<close>

definition ParseCNIPortMappings :: "PortMapping list \<Rightarrow> cni_PortMapping list \<times> PortMapping list" where
  "ParseCNIPortMappings pm =
     (let pm = map (\<lambda>m. m\<lparr>pm_Protocol := default_protocol (pm_Protocol m)\<rparr>) pm in (map ParseCNIPortMapping pm, pm))"

definition ParsePortMapping :: "cni_PortMapping \<Rightarrow> PortMapping" where
  "ParsePortMapping pm = \<lparr>
     pm_Name = format_int (sint (cni_HostPort pm)) @ CHR '':'' # format_int (sint (cni_ContainerPort pm)),
     pm_HostPort = cni_HostPort pm, pm_TargetPort = cni_ContainerPort pm, pm_Protocol = cni_Protocol pm, pm_HostIp = cni_HostIP pm\<rparr>"

definition ParsePortMappings :: "cni_PortMapping list \<Rightarrow> PortMapping list" where
  "ParsePortMappings pm = map (\<lambda>m. ParsePortMapping (m\<lparr>cni_Protocol := default_protocol (cni_Protocol m)\<rparr>)) pm"

lemma Atoi_word: "Atoi (format_nat (unat (w :: uint32))) = Ok (uint w)"
proof -
  have "uint w < 2 ^ 32" using uint_bounded [of w] by simp
  then have "int (unat w) < int (2 ^ 63)" by simp
  then have "unat w < 2 ^ 63" by (simp only: of_nat_less_iff)
  from Atoi_format_nat [OF this] show ?thesis by simp
qed

section \<open>Properties\<close>

text \<open>
  The text of a port mapping reads back as the mapping; texts without exactly one colon
  between two numbers are rejected. A mapping handed to CNI and read back is the mapping
  of the task but for its name, with TCP where no protocol is given.
\<close>

theorem ports_roundtrip:
  "ParsePorts (PortMapping_String p) = Ok p
   \<and> (ParsePorts s = Err errInvalidPortMapping \<or> length (split_on (CHR '':'') s) = 2)
   \<and> map (\<lambda>m. m\<lparr>pm_Name := []\<rparr>) (ParsePortMappings (fst (ParseCNIPortMappings ms)))
     = map (\<lambda>m. m\<lparr>pm_Name := [], pm_Protocol := default_protocol (pm_Protocol m)\<rparr>) ms"
proof (intro conjI)
  have nc: "CHR '':'' \<notin> set (format_nat n)" for n using format_nat_digits [of n] by auto
  then have sp: "split_on (CHR '':'') (PortMapping_String p) = [format_nat (unat (np_Source p)), format_nat (unat (np_Destination p))]"
    by (simp add: PortMapping_String_def split_on_append split_on_single)
  show "ParsePorts (PortMapping_String p) = Ok p"
    by (simp add: ParsePorts_def sp Atoi_word)
  show "ParsePorts s = Err errInvalidPortMapping \<or> length (split_on (CHR '':'') s) = 2"
    by (auto simp: ParsePorts_def split: list.splits)
next
  show "map (\<lambda>m. m\<lparr>pm_Name := []\<rparr>) (ParsePortMappings (fst (ParseCNIPortMappings ms)))
     = map (\<lambda>m. m\<lparr>pm_Name := [], pm_Protocol := default_protocol (pm_Protocol m)\<rparr>) ms"
    by (simp add: ParsePortMappings_def ParseCNIPortMappings_def ParsePortMapping_def ParseCNIPortMapping_def Let_def default_protocol_def)
qed

text \<open>Numbers that are no ports are accepted, and reduced to 32 bits.\<close>

lemma ports_wrap: "ParsePorts ''-1:4294967376'' = Ok \<lparr>np_Source = - 1, np_Destination = 80\<rparr>"
  by (simp add: ParsePorts_def Atoi_def digit_val_def Let_def)

end
