(* ===== verification/Agent.thy ===== *)
theory Agent
  imports Scheduler Ports
begin

text \<open>
  The node controller, pkg/controller/node: the agent that runs tasks on a node. This
  theory holds what it does with a task (handler_task.go, node.go).

  The container runtime, the network manager, the volume attacher, the token store and
  the publisher are interfaces the controller is built with; the clients are those of
  theory Clients. All act on one world. A task is a message the handlers share and change,
  so it is part of the state, as is the report a handler builds. A call of the publisher
  is seen from its return on.
\<close>

section \<open>Interfaces\<close>

record 'x Runtime =
  rt_List :: "ctx \<Rightarrow> 'x \<Rightarrow> Task list res \<times> 'x"
  rt_Get :: "ctx \<Rightarrow> string \<Rightarrow> 'x \<Rightarrow> Task option res \<times> 'x"
  rt_Delete :: "ctx \<Rightarrow> Task \<Rightarrow> 'x \<Rightarrow> unit res \<times> 'x"
  rt_Kill :: "ctx \<Rightarrow> Task \<Rightarrow> 'x \<Rightarrow> unit res \<times> 'x"
  rt_Stop :: "ctx \<Rightarrow> Task \<Rightarrow> 'x \<Rightarrow> unit res \<times> 'x"
  rt_Run :: "ctx \<Rightarrow> Task \<Rightarrow> label \<Rightarrow> 'x \<Rightarrow> unit res \<times> 'x"
  rt_Cleanup :: "ctx \<Rightarrow> string \<Rightarrow> 'x \<Rightarrow> unit res \<times> 'x"
  rt_Pull :: "ctx \<Rightarrow> Task \<Rightarrow> 'x \<Rightarrow> unit res \<times> 'x"
  rt_Labels :: "ctx \<Rightarrow> string \<Rightarrow> 'x \<Rightarrow> label res \<times> 'x"
  rt_Name :: "ctx \<Rightarrow> string \<Rightarrow> 'x \<Rightarrow> string res \<times> 'x"
  rt_Pid :: "ctx \<Rightarrow> string \<Rightarrow> 'x \<Rightarrow> uint32 res \<times> 'x"

text \<open>The result of attaching a network: addresses and gateways per interface, as text.\<close>

type_synonym cni_Result = "(string, (string \<times> string) list) gomap"

record 'x NetManager =
  nm_Attach :: "ctx \<Rightarrow> string \<Rightarrow> uint32 \<Rightarrow> cni_PortMapping list \<Rightarrow> 'x \<Rightarrow> cni_Result res \<times> 'x"
  nm_Detach :: "ctx \<Rightarrow> string \<Rightarrow> uint32 \<Rightarrow> cni_PortMapping list option \<Rightarrow> 'x \<Rightarrow> unit res \<times> 'x"

text \<open>Preparing the mounts of a task gives the task with its mounts resolved.\<close>

record 'x Attacher =
  at_PrepareMounts :: "ctx \<Rightarrow> Node \<Rightarrow> Task \<Rightarrow> 'x \<Rightarrow> Task res \<times> 'x"
  at_Detach :: "ctx \<Rightarrow> Node \<Rightarrow> Task \<Rightarrow> 'x \<Rightarrow> unit res \<times> 'x"

record 'x Store =
  st_Load :: "string \<Rightarrow> 'x \<Rightarrow> bytes res \<times> 'x"
  st_Save :: "string \<Rightarrow> bytes \<Rightarrow> 'x \<Rightarrow> unit res \<times> 'x"
  st_Delete :: "string \<Rightarrow> 'x \<Rightarrow> unit res \<times> 'x"

record 'x Agent =
  ac_runtime :: "'x Runtime"
  ac_netmanager :: "'x NetManager"
  ac_attacher :: "'x Attacher"
  ac_tokenStore :: "'x Store"
  ac_publisher :: "string \<Rightarrow> bool \<Rightarrow> ConditionReport \<Rightarrow> 'x \<Rightarrow> 'x"
  ac_tasks :: "'x task_client"
  ac_leases :: "'x LeaseServiceClient"
  ac_nodes :: "'x node_client"
  ac_node :: Node
  ac_errs :: ext_errs
  ac_clock :: "'x \<Rightarrow> instant"

record 'x agent_state =
  as_epochs :: "(string, uint64) gomap"
  as_operations :: "(string, Reason) gomap"
  as_task :: Task
  as_report :: ConditionReport
  as_world :: 'x

abbreviation uid_of :: "'x agent_state \<Rightarrow> string" where
  "uid_of st \<equiv> task_uid_of (as_task st)"

section \<open>Control flow\<close>

definition env_call :: "('x \<Rightarrow> 'a res \<times> 'x) \<Rightarrow> 'x agent_state \<Rightarrow> 'a res \<times> 'x agent_state" where
  "env_call f st = (case f (as_world st) of (r, x) \<Rightarrow> (r, st\<lparr>as_world := x\<rparr>))"

text \<open>\<^verbatim>\<open>if errs.IgnoreNotFound(err) != nil { return err }\<close>, an ignored error, and a deferred call.\<close>

definition skipMissing :: "ext_errs \<Rightarrow> 'a res \<times> 's \<Rightarrow> ('s \<Rightarrow> 'r res \<times> 's) \<Rightarrow> 'r res \<times> 's" where
  "skipMissing x p f =
     (case p of
        (Ok _, st) \<Rightarrow> f st
      | (Panic m, st) \<Rightarrow> (Panic m, st)
      | (Err e, st) \<Rightarrow> if IgnoreNotFound x (Some e) \<noteq> None then (Err e, st) else f st)"

definition ignoring :: "'a res \<times> 's \<Rightarrow> ('s \<Rightarrow> 'r res \<times> 's) \<Rightarrow> 'r res \<times> 's" where
  "ignoring p f = (case p of (Panic m, st) \<Rightarrow> (Panic m, st) | (_, st) \<Rightarrow> f st)"

definition deferred :: "'r res \<times> 's \<Rightarrow> ('r res \<Rightarrow> 's \<Rightarrow> unit res \<times> 's) \<Rightarrow> 'r res \<times> 's" where
  "deferred p f = (case p of (r, st) \<Rightarrow> (case f r st of (Panic m, st) \<Rightarrow> (Panic m, st) | (_, st) \<Rightarrow> (r, st)))"

section \<open>Reports\<close>

definition Agent_Report :: "'x Agent \<Rightarrow> 'x agent_state \<Rightarrow> 'x agent_state" where
  "Agent_Report c st =
     st\<lparr>as_world := ac_publisher c (crep_ResourceId (as_report st)) (crep_Status (as_report st) = CONDITION_STATUS_TRUE) (as_report st) (as_world st)\<rparr>"

text \<open>The report of the handler gets a type and the rest of the chain, and is sent.\<close>

definition tell :: "'x Agent \<Rightarrow> CondType \<Rightarrow> (ConditionReport \<Rightarrow> ConditionReport) \<Rightarrow> 'x agent_state \<Rightarrow> 'x agent_state" where
  "tell c t f st = Agent_Report c (st\<lparr>as_report := f (Report_Type (ac_clock c (as_world st)) t (as_report st))\<rparr>)"

text \<open>A failure other than not found is reported before it is returned.\<close>

definition tell_failure ::
  "'x Agent \<Rightarrow> CondType \<Rightarrow> (string \<Rightarrow> ConditionReport \<Rightarrow> ConditionReport) \<Rightarrow> 'a res \<times> 'x agent_state
     \<Rightarrow> ('a \<Rightarrow> 'x agent_state \<Rightarrow> unit res \<times> 'x agent_state) \<Rightarrow> unit res \<times> 'x agent_state"
where
  "tell_failure c t f p k =
     (case p of
        (Ok a, st) \<Rightarrow> k a st
      | (Panic m, st) \<Rightarrow> (Panic m, st)
      | (Err e, st) \<Rightarrow> (Err e, if IsNotFound (ac_errs c) (Some e) then st else tell c t (f (err_text (ac_errs c) e)) st))"

section \<open>The network of a task\<close>

text \<open>The port mappings, of a configuration that must not be nil; protocols are filled in.\<close>

definition task_ports :: "'x agent_state \<Rightarrow> cni_PortMapping list res \<times> 'x agent_state" where
  "task_ports st =
     (case task_Config (as_task st) of
        None \<Rightarrow> (Panic ''nil pointer dereference'', st)
      | Some cfg \<Rightarrow>
          (case ParseCNIPortMappings (tc_PortMappings cfg) of (pm, ms) \<Rightarrow>
             (Ok pm, st\<lparr>as_task := (as_task st)\<lparr>task_Config := Some (cfg\<lparr>tc_PortMappings := ms\<rparr>)\<rparr>\<rparr>)))"

definition Agent_detachNetwork :: "'x Agent \<Rightarrow> ctx \<Rightarrow> 'x agent_state \<Rightarrow> unit res \<times> 'x agent_state" where
  "Agent_detachNetwork c ctx st =
     (let st = tell c NetworkReady (Report_False ReasonDetaching []) st;
          failed = (\<lambda>m. Report_False ReasonDetachFailed [m])
      in tell_failure c NetworkReady failed (env_call (rt_Pid (ac_runtime c) ctx (uid_of st)) st) (\<lambda>pid st.
         tell_failure c NetworkReady failed
           (if pid \<noteq> 0
            then andThen (task_ports st) (\<lambda>pm st. env_call (nm_Detach (ac_netmanager c) ctx (uid_of st) pid (Some pm)) st)
            else (Ok (), st)) (\<lambda>_ st.
         (Ok (), tell c NetworkReady
            (\<lambda>r. Report_True ReasonDetached [] (Report_WithMetadata [(''ip_address'', []), (''gateway'', [])] r)) st))))"

text \<open>The address and gateway of the interface eth1.\<close>

definition eth1_address :: "cni_Result \<Rightarrow> string \<times> string" where
  "eth1_address res = (case map_of res ''eth1'' of Some (a # _) \<Rightarrow> a | _ \<Rightarrow> ([], []))"

definition Agent_attachNetwork :: "'x Agent \<Rightarrow> ctx \<Rightarrow> 'x agent_state \<Rightarrow> unit res \<times> 'x agent_state" where
  "Agent_attachNetwork c ctx st =
     (let st = tell c NetworkReady (Report_False ReasonAttaching []) st;
          failed = (\<lambda>m. Report_False ReasonAttachFailed [m])
      in tell_failure c NetworkReady failed (env_call (rt_Pid (ac_runtime c) ctx (uid_of st)) st) (\<lambda>pid st.
         andThen (task_ports st) (\<lambda>pm st.
         tell_failure c NetworkReady failed (env_call (nm_Attach (ac_netmanager c) ctx (uid_of st) pid pm) st) (\<lambda>res st.
         (Ok (), tell c NetworkReady
            (\<lambda>r. Report_True ReasonAttached [[]]
               (Report_WithMetadata [(''ip_address'', fst (eth1_address res)), (''gateway'', snd (eth1_address res))] r)) st)))))"

section \<open>Mounts, images and containers\<close>

definition Agent_attachMounts :: "'x Agent \<Rightarrow> ctx \<Rightarrow> 'x agent_state \<Rightarrow> unit res \<times> 'x agent_state" where
  "Agent_attachMounts c ctx st =
     (let st = tell c VolumeReady (Report_False ReasonAttaching []) st
      in case env_call (at_PrepareMounts (ac_attacher c) ctx (ac_node c) (as_task st)) st of
           (Panic m, st) \<Rightarrow> (Panic m, st)
         | (Err e, st) \<Rightarrow> (Err e, tell c VolumeReady (Report_False ReasonAttachFailed [err_text (ac_errs c) e]) st)
         | (Ok task, st) \<Rightarrow> (Ok (), tell c VolumeReady (Report_True ReasonAttached [[]]) (st\<lparr>as_task := task\<rparr>)))"

definition Agent_detachMounts :: "'x Agent \<Rightarrow> ctx \<Rightarrow> 'x agent_state \<Rightarrow> unit res \<times> 'x agent_state" where
  "Agent_detachMounts c ctx st =
     (let st = tell c VolumeReady (Report_False ReasonDetaching []) st
      in tell_failure c ImageReady (\<lambda>_. Report_False ReasonPullFailed []) (env_call (at_Detach (ac_attacher c) ctx (ac_node c) (as_task st)) st)
           (\<lambda>_ st. (Ok (), tell c VolumeReady (Report_False ReasonDetached []) st)))"

definition Agent_pullImage :: "'x Agent \<Rightarrow> ctx \<Rightarrow> 'x agent_state \<Rightarrow> unit res \<times> 'x agent_state" where
  "Agent_pullImage c ctx st =
     (let st = tell c ImageReady (Report_False ReasonPulling []) st
      in tell_failure c ImageReady (\<lambda>m. Report_False ReasonPullFailed [m]) (env_call (rt_Pull (ac_runtime c) ctx (as_task st)) st)
           (\<lambda>_ st. (Ok (), tell c ImageReady (Report_True ReasonPulled []) st)))"

definition Agent_deleteTask :: "'x Agent \<Rightarrow> ctx \<Rightarrow> 'x agent_state \<Rightarrow> unit res \<times> 'x agent_state" where
  "Agent_deleteTask c ctx st =
     ignoring (env_call (rt_Cleanup (ac_runtime c) ctx (uid_of st)) st) (\<lambda>st.
     let st = tell c TaskReady (Report_False ReasonDeleting []) st
     in tell_failure c TaskReady (\<lambda>m. Report_False ReasonDeleteFailed [m]) (env_call (rt_Delete (ac_runtime c) ctx (as_task st)) st)
          (\<lambda>_ st.
          let st = tell c TaskScheduled (\<lambda>r. Report_False ReasonStopped [] (Report_WithMetadata [(''node_name'', []), (''node_uid'', [])] r)) st
          in (Ok (), tell c TaskReady (\<lambda>r. Report_False ReasonStopped [] (Report_WithMetadata [(''pid'', []), (''id'', [])] r)) st)))"

section \<open>Leases\<close>

definition Agent_getNode :: "'x Agent \<Rightarrow> ctx \<Rightarrow> 'x agent_state \<Rightarrow> Node res \<times> 'x agent_state" where
  "Agent_getNode c ctx st =
     (let nodeID = (if node_uid_of (ac_node c) \<noteq> [] then node_uid_of (ac_node c) else node_name_of (ac_node c))
      in env_call (node_Get (ac_nodes c) ctx nodeID) st)"

text \<open>Without a token in the store there is nothing to renew, and no error.\<close>

definition Agent_renewLease :: "'x Agent \<Rightarrow> ctx \<Rightarrow> 'x agent_state \<Rightarrow> unit res \<times> 'x agent_state" where
  "Agent_renewLease c ctx st =
     andThen (Agent_getNode c ctx st) (\<lambda>node st.
     (case env_call (st_Load (ac_tokenStore c) (uid_of st)) st of
        (Panic m, st) \<Rightarrow> (Panic m, st)
      | (Err e, st) \<Rightarrow> (Ok (), st)
      | (Ok refreshToken, st) \<Rightarrow>
          andThen (env_call (lease_Renew (ac_leases c) ctx (uid_of st) (node_uid_of node) refreshToken) st) (\<lambda>(_, newToken, fencing) st.
          let st = st\<lparr>as_epochs := AList.update (uid_of st) fencing (as_epochs st)\<rparr>
          in env_call (st_Save (ac_tokenStore c) (uid_of st) newToken) st)))"

text \<open>The deferred release is registered after the last error and never acts.\<close>

definition Agent_acquireLease :: "'x Agent \<Rightarrow> ctx \<Rightarrow> 'x agent_state \<Rightarrow> unit res \<times> 'x agent_state" where
  "Agent_acquireLease c ctx st =
     andThen (Agent_getNode c ctx st) (\<lambda>node st.
     andThen (env_call (lease_Acquire (ac_leases c) ctx (uid_of st) (node_uid_of node)) st) (\<lambda>(lease, token, fencing) st.
     let st = st\<lparr>as_epochs := AList.update (uid_of st) fencing (as_epochs st)\<rparr>
     in env_call (st_Save (ac_tokenStore c) (uid_of st) token) st))"

section \<open>Stopping and starting\<close>

text \<open>What is deferred when a task ends: forget it, release its lease, drop the token.\<close>

definition release_lease :: "'x Agent \<Rightarrow> ctx \<Rightarrow> string \<Rightarrow> string \<Rightarrow> 'x agent_state \<Rightarrow> unit res \<times> 'x agent_state" where
  "release_lease c ctx taskID nodeID st =
     (let st = st\<lparr>as_operations := AList.delete taskID (as_operations st), as_epochs := AList.delete taskID (as_epochs st)\<rparr>
      in case env_call (st_Load (ac_tokenStore c) taskID) st of
           (Panic m, st) \<Rightarrow> (Panic m, st)
         | (Err e, st) \<Rightarrow> (Ok (), st)
         | (Ok refreshToken, st) \<Rightarrow>
             ignoring (env_call (lease_Release (ac_leases c) ctx taskID nodeID refreshToken) st) (\<lambda>st.
             ignoring (env_call (st_Delete (ac_tokenStore c) taskID) st) (\<lambda>st. (Ok (), st))))"

text \<open>
  The bodies of \<^verbatim>\<open>stopTask\<close> and \<^verbatim>\<open>killTask\<close>, which differ in the call \<open>halt\<close> of the runtime. When
  the mounts cannot be detached they return without an error.
\<close>

definition teardown ::
  "'x Agent \<Rightarrow> ctx \<Rightarrow> (ctx \<Rightarrow> Task \<Rightarrow> 'x \<Rightarrow> unit res \<times> 'x) \<Rightarrow> 'x agent_state \<Rightarrow> unit res \<times> 'x agent_state" where
  "teardown c ctx halt st =
     skipMissing (ac_errs c) (Agent_detachNetwork c ctx st) (\<lambda>st.
     (case Agent_detachMounts c ctx st of
        (Panic m, st) \<Rightarrow> (Panic m, st)
      | (r, st) \<Rightarrow>
          if (case r of Err e \<Rightarrow> IgnoreNotFound (ac_errs c) (Some e) \<noteq> None | _ \<Rightarrow> False) then (Ok (), st)
          else
          skipMissing (ac_errs c) (env_call (halt ctx (as_task st)) st) (\<lambda>st.
          skipMissing (ac_errs c) (Agent_deleteTask c ctx st) (\<lambda>st.
          ignoring (env_call (statusV1_SetPhase (ac_tasks c) ctx (uid_of st) (reason_text ReasonStopped)) st) (\<lambda>st.
          ignoring (env_call (statusV1_SetReason (ac_tasks c) ctx (uid_of st) []) st) (\<lambda>st. (Ok (), st)))))))"

definition end_task ::
  "'x Agent \<Rightarrow> ctx \<Rightarrow> (ctx \<Rightarrow> Task \<Rightarrow> 'x \<Rightarrow> unit res \<times> 'x) \<Rightarrow> 'x agent_state \<Rightarrow> unit res \<times> 'x agent_state" where
  "end_task c ctx halt st =
     andThen (Agent_getNode c ctx st) (\<lambda>node st.
     let taskID = uid_of st; nodeID = node_uid_of node;
         st = st\<lparr>as_operations := AList.update taskID ReasonStopping (as_operations st)\<rparr>;
         st = st\<lparr>as_report := Report_As nodeID (NewForResource (ac_clock c (as_world st)) (task_Meta (as_task st)))\<rparr>
     in deferred (teardown c ctx halt st) (\<lambda>_. release_lease c ctx taskID nodeID))"

definition Agent_killTask :: "'x Agent \<Rightarrow> ctx \<Rightarrow> 'x agent_state \<Rightarrow> unit res \<times> 'x agent_state" where
  "Agent_killTask c ctx = end_task c ctx (rt_Kill (ac_runtime c))"

definition Agent_stopTask :: "'x Agent \<Rightarrow> ctx \<Rightarrow> 'x agent_state \<Rightarrow> unit res \<times> 'x agent_state" where
  "Agent_stopTask c ctx = end_task c ctx (rt_Stop (ac_runtime c))"

text \<open>Tasks are compared without status and resource version.\<close>

definition comparable :: "Task \<Rightarrow> Task res" where
  "comparable task =
     (case task_Meta task of
        None \<Rightarrow> Panic ''nil pointer dereference''
      | Some m \<Rightarrow> Ok (task\<lparr>task_Status := None, task_Meta := Some (m\<lparr>meta_ResourceVersion := 0\<rparr>)\<rparr>))"

definition Task_Equal :: "Task \<Rightarrow> Task \<Rightarrow> bool" where
  "Task_Equal a b \<longleftrightarrow> opt_Equal Meta_Equal (task_Meta a) (task_Meta b) \<and> opt_Equal TaskConfig_Equal (task_Config a) (task_Config b)
     \<and> a\<lparr>task_Meta := None, task_Config := None\<rparr> = b\<lparr>task_Meta := None, task_Config := None\<rparr>"

definition unchanged :: "Task option \<Rightarrow> Task \<Rightarrow> bool res" where
  "unchanged t task =
     (case t of
        None \<Rightarrow> Ok False
      | Some t \<Rightarrow> bindR (comparable t) (\<lambda>a. bindR (comparable task) (\<lambda>b. Ok (Task_Equal a b))))"

text \<open>The fencing token of the lease goes to the container as a label.\<close>

definition epoch_labels :: "'x agent_state \<Rightarrow> label" where
  "epoch_labels st =
     (case map_of (as_epochs st) (uid_of st) of None \<Rightarrow> [] | Some epoch \<Rightarrow> [(''voiyd.io/epoch'', Uint64ToString epoch)])"

definition provision :: "'x Agent \<Rightarrow> ctx \<Rightarrow> 'x agent_state \<Rightarrow> unit res \<times> 'x agent_state" where
  "provision c ctx st =
     (let ls = epoch_labels st;
          st = st\<lparr>as_report := Report_As (node_uid_of (ac_node c)) (NewForResource (ac_clock c (as_world st)) (task_Meta (as_task st)))\<rparr>
      in skipMissing (ac_errs c) (Agent_detachNetwork c ctx st) (\<lambda>st.
         skipMissing (ac_errs c) (Agent_deleteTask c ctx st) (\<lambda>st.
         andThen (Agent_attachMounts c ctx st) (\<lambda>_ st.
         andThen (Agent_pullImage c ctx st) (\<lambda>_ st.
         andThen (env_call (rt_Run (ac_runtime c) ctx (as_task st) ls) st) (\<lambda>_ st.
         andThen (Agent_attachNetwork c ctx st) (\<lambda>_ st.
         ignoring (env_call (statusV1_SetPhase (ac_tasks c) ctx (uid_of st) (reason_text ReasonRunning)) st) (\<lambda>st.
         ignoring (env_call (statusV1_SetReason (ac_tasks c) ctx (uid_of st) []) st) (\<lambda>st. (Ok (), st))))))))))"

definition start_body :: "'x Agent \<Rightarrow> ctx \<Rightarrow> 'x agent_state \<Rightarrow> unit res \<times> 'x agent_state" where
  "start_body c ctx st =
     (case env_call (rt_Get (ac_runtime c) ctx (uid_of st)) st of
        (Panic m, st) \<Rightarrow> (Panic m, st)
      | (Err e, st) \<Rightarrow> if IgnoreNotFound (ac_errs c) (Some e) \<noteq> None then (Err e, st) else provision c ctx st
      | (Ok t, st) \<Rightarrow>
          andThen (unchanged t (as_task st), st) (\<lambda>same st. if same then (Ok (), st) else provision c ctx st))"

definition mark_failed :: "'x Agent \<Rightarrow> ctx \<Rightarrow> unit res \<Rightarrow> 'x agent_state \<Rightarrow> unit res \<times> 'x agent_state" where
  "mark_failed c ctx r st =
     (case r of
        Err e \<Rightarrow>
          env_call (statusV1_Update (ac_tasks c) ctx (uid_of st)
            (empty_TaskStatus\<lparr>ts_Phase := Some (reason_text ReasonStartFailed), ts_Reason := Some (err_text (ac_errs c) e)\<rparr>)
            [''phase'', ''reason'']) st
      | _ \<Rightarrow> (Ok (), st))"

definition Agent_startTask :: "'x Agent \<Rightarrow> ctx \<Rightarrow> 'x agent_state \<Rightarrow> unit res \<times> 'x agent_state" where
  "Agent_startTask c ctx st =
     (let taskID = uid_of st;
          st = st\<lparr>as_operations := AList.update taskID ReasonStarting (as_operations st)\<rparr>
      in deferred (deferred (start_body c ctx st) (mark_failed c ctx))
           (\<lambda>_ st. (Ok (), st\<lparr>as_operations := AList.delete taskID (as_operations st)\<rparr>)))"

end
