(* ===== verification/AgentLoop.thy ===== *)
theory AgentLoop
  imports Agent
begin

text \<open>
  The handlers of the node controller: what puts work on its queue, the renewal of leases,
  changes of the node (node.go, handler_task.go) and the events of the container runtime
  (handler_runtime.go).
\<close>

section \<open>Enqueuing work\<close>

datatype agent_handler = AgentStart | AgentStop | AgentKill | AgentNodeUpdate

type_synonym 'x agent_queue = "(agent_handler, any) TaskQueue \<times> 'x agent_state"

definition on_agent :: "('x agent_state \<Rightarrow> 'a res \<times> 'x agent_state) \<Rightarrow> 'x agent_queue \<Rightarrow> 'a res \<times> 'x agent_queue" where
  "on_agent f st = (case f (snd st) of (r, a) \<Rightarrow> (r, (fst st, a)))"

text \<open>
  A task that could not be leased is left to the renewal loop; the item for one that could
  carries the identity of the node.
\<close>

definition Agent_processSchedule :: "'x Agent \<Rightarrow> ctx \<Rightarrow> instant \<Rightarrow> Node \<Rightarrow> 'x agent_queue \<Rightarrow> unit res \<times> 'x agent_queue" where
  "Agent_processSchedule c ctx now node st =
     (case on_agent (Agent_acquireLease c ctx) st of
        (Panic m, st) \<Rightarrow> (Panic m, st)
      | (Err e, st) \<Rightarrow>
          if IsConflict (ac_errs c) (Some e)
          then ignoring (on_agent (Agent_renewLease c ctx) st) (\<lambda>st. (Ok (), st))
          else (Ok (), st)
      | (Ok _, st) \<Rightarrow>
          enqueue_item now (new_work now (node_name_of node) (node_uid_of node) (AnyTask (as_task (snd st))) AgentStart) st)"

definition enqueue_agent_task :: "agent_handler \<Rightarrow> instant \<Rightarrow> 'x agent_queue \<Rightarrow> unit res \<times> 'x agent_queue" where
  "enqueue_agent_task h now st =
     (let task = as_task (snd st)
      in enqueue_item now (new_work now (task_name_of task) (task_uid_of task) (AnyTask task) h) st)"

definition Agent_processTaskStop :: "instant \<Rightarrow> 'x agent_queue \<Rightarrow> unit res \<times> 'x agent_queue" where
  "Agent_processTaskStop = enqueue_agent_task AgentStop"

definition Agent_processTaskKill :: "instant \<Rightarrow> 'x agent_queue \<Rightarrow> unit res \<times> 'x agent_queue" where
  "Agent_processTaskKill = enqueue_agent_task AgentKill"

definition Agent_processNodeUpdate :: "instant \<Rightarrow> Node \<Rightarrow> 'x agent_queue \<Rightarrow> unit res \<times> 'x agent_queue" where
  "Agent_processNodeUpdate now node st =
     enqueue_item now (new_work now (node_name_of node) (node_uid_of node) (AnyNode node) AgentNodeUpdate) st"

section \<open>Loops over the tasks of the runtime\<close>

text \<open>Tasks whose selector no longer matches are stopped; an error is logged.\<close>

fun stop_unmatched :: "'x Agent \<Rightarrow> ctx \<Rightarrow> label \<Rightarrow> Task list \<Rightarrow> 'x agent_state \<Rightarrow> unit res \<times> 'x agent_state" where
  "stop_unmatched c ctx l [] st = (Ok (), st)"
| "stop_unmatched c ctx l (task # tasks) st =
     (if Matches (NewCompositeSelectorFromMap (tc_NodeSelector (task_config task))) l
      then stop_unmatched c ctx l tasks st
      else ignoring (Agent_stopTask c ctx (st\<lparr>as_task := task\<rparr>)) (\<lambda>st. stop_unmatched c ctx l tasks st))"

definition Agent_nodeUpdate :: "'x Agent \<Rightarrow> ctx \<Rightarrow> Node \<Rightarrow> 'x agent_state \<Rightarrow> unit res \<times> 'x agent_state" where
  "Agent_nodeUpdate c ctx node st =
     andThen (env_call (rt_List (ac_runtime c) ctx) st) (\<lambda>tasks st.
     stop_unmatched c ctx (meta_Labels (getMeta (node_Meta node))) tasks st)"

text \<open>
  A container that is older than the lease is stopped: its label is below the fencing token. A
  label that is no number is logged.
\<close>

definition check_epoch :: "'x Agent \<Rightarrow> ctx \<Rightarrow> 'x agent_state \<Rightarrow> unit res \<times> 'x agent_state" where
  "check_epoch c ctx st =
     (case env_call (rt_Labels (ac_runtime c) ctx (uid_of st)) st of
        (Panic m, st) \<Rightarrow> (Panic m, st)
      | (Err e, st) \<Rightarrow> (Ok (), st)
      | (Ok l, st) \<Rightarrow>
          (case map_of l ''voiyd.io/epoch'' of
             None \<Rightarrow> (Ok (), st)
           | Some v \<Rightarrow>
               (case Atoi v of
                  Ok epoch \<Rightarrow>
                    if word_of_int epoch < (case map_of (as_epochs st) (uid_of st) of None \<Rightarrow> 0 | Some e \<Rightarrow> e)
                    then ignoring (Agent_stopTask c ctx st) (\<lambda>st. (Ok (), st))
                    else (Ok (), st)
                | _ \<Rightarrow> (Ok (), st))))"

text \<open>One round: after an acquisition the error is nil, and the next task follows.\<close>

definition renew_one :: "'x Agent \<Rightarrow> ctx \<Rightarrow> 'x agent_state \<Rightarrow> unit res \<times> 'x agent_state" where
  "renew_one c ctx st =
     (case Agent_renewLease c ctx st of
        (Panic m, st) \<Rightarrow> (Panic m, st)
      | (Ok _, st) \<Rightarrow> check_epoch c ctx st
      | (Err e, st) \<Rightarrow>
          if IsConflict (ac_errs c) (Some e) then ignoring (Agent_stopTask c ctx st) (\<lambda>st. (Ok (), st))
          else if IsNotFound (ac_errs c) (Some e) then ignoring (Agent_acquireLease c ctx st) (\<lambda>st. (Ok (), st))
          else if IsPermissionDenied (ac_errs c) (Some e) then ignoring (Agent_stopTask c ctx st) (\<lambda>st. (Ok (), st))
          else (Ok (), st))"

fun renew_each :: "'x Agent \<Rightarrow> ctx \<Rightarrow> Task list \<Rightarrow> 'x agent_state \<Rightarrow> unit res \<times> 'x agent_state" where
  "renew_each c ctx [] st = (Ok (), st)"
| "renew_each c ctx (task # tasks) st =
     andThen (renew_one c ctx (st\<lparr>as_task := task\<rparr>)) (\<lambda>_ st. renew_each c ctx tasks st)"

definition Agent_renewAllLeases :: "'x Agent \<Rightarrow> ctx \<Rightarrow> 'x agent_state \<Rightarrow> unit res \<times> 'x agent_state" where
  "Agent_renewAllLeases c ctx st =
     (case env_call (rt_List (ac_runtime c) ctx) st of
        (Panic m, st) \<Rightarrow> (Panic m, st)
      | (Err e, st) \<Rightarrow> (Ok (), st)
      | (Ok tasks, st) \<Rightarrow> renew_each c ctx tasks st)"

definition Agent_Reconcile :: "'x Agent \<Rightarrow> ctx \<Rightarrow> 'x agent_state \<Rightarrow> unit res \<times> 'x agent_state" where
  "Agent_Reconcile c ctx st = Agent_renewAllLeases c ctx st"

section \<open>Events of the runtime\<close>

text \<open>What containerd's events carry; reading them from the message is not part of this code.\<close>

record cevent =
  ce_ContainerID :: string
  ce_Pid :: uint32
  ce_ExitStatus :: uint32

definition about_task :: "'x Agent \<Rightarrow> ctx \<Rightarrow> string \<Rightarrow> ('x agent_state \<Rightarrow> unit res \<times> 'x agent_state) \<Rightarrow> 'x agent_state
    \<Rightarrow> unit res \<times> 'x agent_state" where
  "about_task c ctx name f st =
     andThen (env_call (task_Get (ac_tasks c) ctx name) st) (\<lambda>task st.
     andThen (Agent_getNode c ctx st) (\<lambda>node st.
     f (st\<lparr>as_task := task, as_report := Report_As (node_uid_of node) (NewForResource (ac_clock c (as_world st)) (task_Meta task))\<rparr>)))"

definition Agent_onRuntimeTaskStart :: "'x Agent \<Rightarrow> ctx \<Rightarrow> cevent res \<Rightarrow> 'x agent_state \<Rightarrow> unit res \<times> 'x agent_state" where
  "Agent_onRuntimeTaskStart c ctx obj st =
     andThen (obj, st) (\<lambda>e st.
     andThen (env_call (rt_Name (ac_runtime c) ctx (ce_ContainerID e)) st) (\<lambda>tname st.
     andThen (env_call (task_Get (ac_tasks c) ctx tname) st) (\<lambda>task st.
     andThen (Agent_getNode c ctx st) (\<lambda>node st.
     let md = [(''pid'', format_nat (unat (ce_Pid e))), (''id'', ce_ContainerID e), (''node_uid'', node_uid_of node), (''node_name'', node_name_of node)];
         st = st\<lparr>as_task := task, as_report := Report_As (node_uid_of node) (NewForResource (ac_clock c (as_world st)) (task_Meta task))\<rparr>;
         st = tell c TaskScheduled (\<lambda>r. Report_True ReasonScheduled [] (Report_WithMetadata md r)) st;
         st = tell c TaskReady (\<lambda>r. Report_True ReasonRunning [] (Report_WithMetadata md r)) st
     in ignoring (env_call (statusV1_SetPid (ac_tasks c) ctx (task_uid_of task) (ce_Pid e)) st) (\<lambda>st.
        ignoring (env_call (statusV1_SetID (ac_tasks c) ctx (task_uid_of task) (ce_ContainerID e)) st) (\<lambda>st. (Ok (), st)))))))"

text \<open>The phase belongs to an operation in progress.\<close>

definition unless_busy :: "'x agent_state \<Rightarrow> ('x agent_state \<Rightarrow> unit res \<times> 'x agent_state) \<Rightarrow> unit res \<times> 'x agent_state" where
  "unless_busy st f = (if map_of (as_operations st) (uid_of st) = None then f st else (Ok (), st))"

definition Agent_onRuntimeTaskExit :: "'x Agent \<Rightarrow> ctx \<Rightarrow> cevent res \<Rightarrow> 'x agent_state \<Rightarrow> unit res \<times> 'x agent_state" where
  "Agent_onRuntimeTaskExit c ctx obj st =
     andThen (obj, st) (\<lambda>e st.
     andThen (env_call (rt_Pid (ac_runtime c) ctx (ce_ContainerID e)) st) (\<lambda>pid st.
     skipMissing (ac_errs c) (env_call (nm_Detach (ac_netmanager c) ctx (ce_ContainerID e) pid None) st) (\<lambda>st.
     about_task c ctx (ce_ContainerID e) (\<lambda>st.
       let exitStatus = ''exit status '' @ format_nat (unat (ce_ExitStatus e));
           st = tell c TaskReady (\<lambda>r. Report_False ReasonStopped [exitStatus] (Report_WithMetadata [(''exit_status'', exitStatus)] r)) st
       in unless_busy st (\<lambda>st.
          ignoring (env_call (statusV1_SetPhase (ac_tasks c) ctx (uid_of st) (reason_text ReasonStopped)) st) (\<lambda>st.
          ignoring (env_call (statusV1_SetReason (ac_tasks c) ctx (uid_of st) exitStatus) st) (\<lambda>st. (Ok (), st))))) st)))"

definition Agent_onRuntimeTaskDelete :: "'x Agent \<Rightarrow> ctx \<Rightarrow> cevent res \<Rightarrow> 'x agent_state \<Rightarrow> unit res \<times> 'x agent_state" where
  "Agent_onRuntimeTaskDelete c ctx obj st =
     andThen (obj, st) (\<lambda>e st.
     about_task c ctx (ce_ContainerID e) (\<lambda>st.
       let st = tell c TaskReady (\<lambda>r. Report_False ReasonStopped [] (Report_WithMetadata [(''id'', []), (''pid'', [])] r)) st
       in unless_busy st (\<lambda>st.
          ignoring (env_call (statusV1_SetPhase (ac_tasks c) ctx (uid_of st) (reason_text ReasonDeleted)) st) (\<lambda>st. (Ok (), st)))) st)"

end
