(* ===== verification/Cluster.thy ===== *)
theory Cluster
  imports Scheduler
begin

text \<open>
  What the scheduler relies on in its clients and in the node sessions, as a locale over
  three observations of the cluster: the lease on a task, the stored task and the events
  queued for a node. The behaviour of the scheduler is proved in it once; theory
  ClusterServer shows that the server's own services meet it.
\<close>

definition gone :: "ext_errs \<Rightarrow> unit res \<Rightarrow> bool" where
  "gone x r \<longleftrightarrow> (case r of Ok _ \<Rightarrow> True | Err e \<Rightarrow> IsNotFound x (Some e) | Panic _ \<Rightarrow> False)"

locale cluster =
  fixes c :: "'x Controller" and inv :: "'x \<Rightarrow> bool"
    and lease_of :: "'x \<Rightarrow> string \<Rightarrow> Lease option" and task_of :: "'x \<Rightarrow> string \<Rightarrow> Task option"
    and queue_of :: "'x \<Rightarrow> string \<Rightarrow> Event list"
  assumes Lease_found: "inv x \<Longrightarrow> t \<noteq> [] \<Longrightarrow> lease_of x t = Some l \<Longrightarrow> lease_Get (sc_leases c) None t x = (Ok (Some l), x)"
    and Lease_missing: "inv x \<Longrightarrow> t \<noteq> [] \<Longrightarrow> lease_of x t = None \<Longrightarrow>
      \<exists>e. lease_Get (sc_leases c) None t x = (Err e, x) \<and> IsNotFound (sc_errs c) (Some e)"
    and Revoke: "inv x \<Longrightarrow> t \<noteq> [] \<Longrightarrow> lease_Revoke (sc_leases c) None t n x = (r, x') \<Longrightarrow>
      inv x' \<and> queue_of x' = queue_of x \<and> task_of x' = task_of x \<and>
      (\<forall>t'. lease_of x' t' = (if t' = t \<and> gone (sc_errs c) r then None else lease_of x t'))"
    and Send: "inv x \<Longrightarrow> snd_SendToNode (sc_nodeService c) None u (Some ev) x = (r, x') \<Longrightarrow>
      inv x' \<and> lease_of x' = lease_of x \<and> task_of x' = task_of x \<and>
      queue_of x' = (if is_Ok r then (queue_of x)(u := queue_of x u @ [ev]) else queue_of x)"
    and Status: "inv x \<Longrightarrow> statusV1_Update (sc_tasks c) None t stt ps x = (r, x') \<Longrightarrow>
      inv x' \<and> lease_of x' = lease_of x \<and> queue_of x' = queue_of x \<and>
      (is_Ok r \<longrightarrow> ps \<noteq> [] \<longrightarrow> (\<forall>p \<in> set ps. p \<in> set status_paths) \<longrightarrow> ts_Phase stt \<noteq> None \<longrightarrow> ''phase'' \<in> set ps \<longrightarrow>
         (\<exists>old d new. task_of x t = Some old \<and> task_Status old = Some d \<and>
            task_of x' t = Some new \<and> task_Status new = Some (masked_status ps stt d)))"
    and Nodes: "inv x \<Longrightarrow> node_List (sc_nodes c) None [] x = (ns, x') \<Longrightarrow> x' = x"
begin

lemma revoke_if_held_cases:
  assumes "inv x" and "t \<noteq> []" and "revoke_if_held c None t n x = (r, x')"
  shows "inv x' \<and> queue_of x' = queue_of x \<and> task_of x' = task_of x \<and>
    (\<forall>t'. t' \<noteq> t \<longrightarrow> lease_of x' t' = lease_of x t') \<and> (is_Ok r \<longrightarrow> lease_of x' t = None)"
proof -
  obtain r0 x0 where r0: "lease_Revoke (sc_leases c) None t n x = (r0, x0)" by fastforce
  from Revoke [OF assms(1,2) this] assms(3) r0 show ?thesis
    by (cases r0) (auto simp: revoke_if_held_def gone_def IgnoreNotFound_def split: if_splits)
qed

text \<open>Placing a task: what holds when a node is returned, and what may have happened when not.\<close>

lemma place_ok:
  assumes x: "inv x" and t: "task_uid_of task \<noteq> []" and p: "place c None fresh task x = (Ok n, x')"
  shows "inv x' \<and> fits task n
    \<and> lease_of x' = (lease_of x)(task_uid_of task := None)
    \<and> queue_of x' = (queue_of x)(node_uid_of n := queue_of x (node_uid_of n) @ [schedule_event fresh task n])
    \<and> (\<exists>k st. task_of x' (task_uid_of task) = Some k \<and> task_Status k = Some st
        \<and> ts_Phase st = Some ''Scheduled'' \<and> ts_Node st = Some (node_name_of n))"
proof -
  from p obtain nodes x1 where l: "node_List (sc_nodes c) None [] x = (Ok nodes, x1)"
      "andThen (horizontal_Schedule (sc_intn c) task nodes, x1) (\<lambda>n st.
         let nodeUID = node_uid_of n in
         if \<not> snd_IsNodeConnected (sc_nodeService c) nodeUID st then (Err (not_reachable (node_name_of n)), st)
         else andThen (revoke_if_held c None (task_uid_of task) nodeUID st) (\<lambda>_ st.
              andThen (snd_SendToNode (sc_nodeService c) None nodeUID (Some (schedule_event fresh task n)) st) (\<lambda>_ st.
              andThen (setTaskAsScheduled c None task (node_name_of n) st) (\<lambda>_ st. (Ok n, st))))) = (Ok n, x')"
    unfolding place_def by (auto simp: andThen_eq_Ok)
  note x1 = Nodes [OF x l(1)]
  from l(2) obtain x2 x3 where s: "horizontal_Schedule (sc_intn c) task nodes = Ok n"
      and rv: "revoke_if_held c None (task_uid_of task) (node_uid_of n) x = (Ok (), x2)"
      and sd: "snd_SendToNode (sc_nodeService c) None (node_uid_of n) (Some (schedule_event fresh task n)) x2 = (Ok (), x3)"
      and st: "setTaskAsScheduled c None task (node_name_of n) x3 = (Ok (), x')"
    unfolding x1 by (auto simp: andThen_eq_Ok Let_def split: if_splits)
  have f: "fits task n"
    using s by (auto simp: Schedule_cases pickRandomNode_def Let_def dest!: nth_mem split: if_splits)
  note r = revoke_if_held_cases [OF x t rv]
  note d = Send [OF r [THEN conjunct1] sd]
  note u = Status [OF d [THEN conjunct1] st [unfolded setTaskAsScheduled_def]]
  have "\<exists>k st. task_of x' (task_uid_of task) = Some k \<and> task_Status k = Some st
      \<and> ts_Phase st = Some ''Scheduled'' \<and> ts_Node st = Some (node_name_of n)"
    using u by (fastforce simp: status_paths_def masked_status_def pick_def)
  with f r d u show ?thesis by (auto simp: fun_eq_iff)
qed

lemma place_any:
  assumes x: "inv x" and t: "task_uid_of task \<noteq> []" and p: "place c None fresh task x = (r, x')"
  shows "inv x' \<and> (\<forall>t'. t' \<noteq> task_uid_of task \<longrightarrow> lease_of x' t' = lease_of x t')
    \<and> (queue_of x' = queue_of x \<or> (\<exists>n. fits task n \<and> lease_of x' (task_uid_of task) = None \<and>
         queue_of x' = (queue_of x)(node_uid_of n := queue_of x (node_uid_of n) @ [schedule_event fresh task n])))"
  using p unfolding place_def
proof (cases rule: andThenE)
  case (ok nodes x1)
  note x1 = Nodes [OF x ok(1)]
  show ?thesis using ok(2) unfolding x1
  proof (cases rule: andThenE)
    case (ok n x2)
    have f: "fits task n"
      using ok(1) by (auto simp: Schedule_cases pickRandomNode_def Let_def dest!: nth_mem split: if_splits)
    have x2: "x2 = x" using ok(1) by simp
    show ?thesis
    proof (cases "snd_IsNodeConnected (sc_nodeService c) (node_uid_of n) x")
      case True
      with ok(2) x2 have rest: "andThen (revoke_if_held c None (task_uid_of task) (node_uid_of n) x) (\<lambda>_ st.
          andThen (snd_SendToNode (sc_nodeService c) None (node_uid_of n) (Some (schedule_event fresh task n)) st) (\<lambda>_ st.
          andThen (setTaskAsScheduled c None task (node_name_of n) st) (\<lambda>_ st. (Ok n, st)))) = (r, x')"
        by (simp add: Let_def)
      then show ?thesis
      proof (cases rule: andThenE)
        case (ok a x3)
        note rv = revoke_if_held_cases [OF x t ok(1)]
        show ?thesis using ok(2)
        proof (cases rule: andThenE)
          case (ok b x4)
          note d = Send [OF rv [THEN conjunct1] ok(1)]
          obtain r5 x5 where s5: "setTaskAsScheduled c None task (node_name_of n) x4 = (r5, x5)" by fastforce
          note u = Status [OF d [THEN conjunct1] s5 [unfolded setTaskAsScheduled_def]]
          have "x5 = x'" using ok(2) s5 by (cases r5) auto
          with f rv d u show ?thesis by auto
        qed (use rv Send [OF rv [THEN conjunct1]] in \<open>auto\<close>)
      qed (use revoke_if_held_cases [OF x t] in \<open>auto\<close>)
    qed (use ok(2) x2 x in \<open>simp add: Let_def\<close>)
  qed (use x in \<open>auto\<close>)
qed (use x Nodes [OF x] in \<open>auto\<close>)

text \<open>Starting a task, success and failure.\<close>

lemma start_any:
  assumes x: "inv x" and t: "task_uid_of task \<noteq> []" and p: "Controller_start c None fresh task x = (r, x')"
  shows "inv x' \<and> (\<forall>t'. t' \<noteq> task_uid_of task \<longrightarrow> lease_of x' t' = lease_of x t')
    \<and> (queue_of x' = queue_of x \<or> (\<exists>n. fits task n \<and> lease_of x' (task_uid_of task) = None \<and>
         queue_of x' = (queue_of x)(node_uid_of n := queue_of x (node_uid_of n) @ [schedule_event fresh task n])))"
proof -
  obtain r0 x0 where r0: "place c None fresh task x = (r0, x0)" by fastforce
  note pl = place_any [OF x t r0]
  show ?thesis
  proof (cases r0)
    case (Err e)
    obtain r1 x1 where r1: "setTaskAsSchedulingFailed c None task (err_text (sc_errs c) e) x0 = (r1, x1)" by fastforce
    note u = Status [OF pl [THEN conjunct1] r1 [unfolded setTaskAsSchedulingFailed_def]]
    have "x1 = x'" using p r0 Err r1 by (cases r1) (auto simp: Controller_start_def)
    with pl u show ?thesis by auto
  qed (use pl p r0 in \<open>auto simp: Controller_start_def\<close>)
qed

lemma start_ok:
  assumes "inv x" and "task_uid_of task \<noteq> []" and p: "Controller_start c None fresh task x = (Ok n, x')"
  shows "inv x' \<and> fits task n
    \<and> lease_of x' = (lease_of x)(task_uid_of task := None)
    \<and> queue_of x' = (queue_of x)(node_uid_of n := queue_of x (node_uid_of n) @ [schedule_event fresh task n])
    \<and> (\<exists>k st. task_of x' (task_uid_of task) = Some k \<and> task_Status k = Some st
        \<and> ts_Phase st = Some ''Scheduled'' \<and> ts_Node st = Some (node_name_of n))"
proof -
  obtain r0 x0 where r0: "place c None fresh task x = (r0, x0)" by fastforce
  with p have "r0 = Ok n" "x0 = x'"
    by (cases r0; auto simp: Controller_start_def split: prod.splits result.splits)+
  with place_ok [OF assms(1,2)] r0 show ?thesis by simp
qed

text \<open>Which tasks are due: those without a lease and those whose lease ran out long enough ago.\<close>

lemma should_schedule:
  assumes "inv x" and "t \<noteq> []"
  shows "Controller_shouldScheduleTask c None now t x =
    (Ok (case lease_of x t of None \<Rightarrow> True | Some l \<Rightarrow> now > AsTime (lc_ExpiresAt (lease_config l)) + gracePeriod), x)"
proof (cases "lease_of x t")
  case None
  with Lease_missing [OF assms] show ?thesis by (auto simp: Controller_shouldScheduleTask_def)
next
  case (Some l)
  with Lease_found [OF assms Some] show ?thesis by (simp add: Controller_shouldScheduleTask_def Let_def)
qed

end

end
