(* ===== verification/ClusterServer.thy ===== *)
theory ClusterServer
  imports Cluster
begin

text \<open>
  The server behind the scheduler's clients: stubs that call the gRPC handlers of theory
  Transport, and the proof that services on one store, with the sessions of the nodes,
  meet the contract of locale \<open>cluster\<close>.

  \<open>wire\<close> is what gRPC makes of an error on its way to the client; \<open>clock\<close> and \<open>lclock\<close>
  give the uuids and readings of the clock at each state.
\<close>

section \<open>Stubs\<close>

definition over_wire :: "(error \<Rightarrow> error) \<Rightarrow> 'a res \<times> 'x \<Rightarrow> 'a res \<times> 'x" where
  "over_wire wire p = (case p of (Err e, st) \<Rightarrow> (Err (wire e), st) | (r, st) \<Rightarrow> (r, st))"

lemma over_wire_simps [simp]:
  "over_wire wire (Ok a, st) = (Ok a, st)" "over_wire wire (Err e, st) = (Err (wire e), st)"
  "over_wire wire (Panic m, st) = (Panic m, st)"
  by (simp_all add: over_wire_def)

definition wire_documented :: "(error \<Rightarrow> error) \<Rightarrow> bool" where
  "wire_documented wire \<longleftrightarrow> (\<forall>c m. c \<noteq> CodeOK \<longrightarrow> wire (StatusErr c m) = StatusErr c m)"

definition server_task_stub ::
  "(error \<Rightarrow> error) \<Rightarrow> ('s \<times> 'w \<Rightarrow> svc_env) \<Rightarrow> ('s, 'u, 'w) TaskService \<Rightarrow> ('s \<times> 'w) TaskServiceClient" where
  "server_task_stub wire clock l = \<lparr>
     tstub_Get = (\<lambda>ctx uid name st. over_wire wire (grpc_Task_Get l ctx uid name st)),
     tstub_Create = (\<lambda>ctx task st. over_wire wire (grpc_Task_Create l ctx (clock st) task st)),
     tstub_Delete = (\<lambda>ctx uid name st. over_wire wire (grpc_Task_Delete l ctx (clock st) uid name st)),
     tstub_List = (\<lambda>ctx sel st. over_wire wire (grpc_Task_List l ctx 0 sel st)),
     tstub_Update = (\<lambda>ctx uid name task st. over_wire wire (grpc_Task_Update l ctx (clock st) uid name task st)),
     tstub_UpdateStatus = (\<lambda>ctx md uid name stt paths st. over_wire wire (grpc_Task_UpdateStatus l ctx (clock st) (Some md) uid name stt paths st)),
     tstub_Condition = (\<lambda>ctx req st. over_wire wire (grpc_Task_Condition l ctx (clock st) req st)),
     tstub_Kill = (\<lambda>ctx uid name st. over_wire wire (grpc_Task_Kill l ctx (clock st) uid name st)),
     tstub_Start = (\<lambda>ctx uid name st. over_wire wire (grpc_Task_Start l ctx (clock st) uid name st)),
     tstub_Stop = (\<lambda>ctx uid name st. over_wire wire (grpc_Task_Stop l ctx (clock st) uid name st))\<rparr>"

definition server_lease_stub ::
  "(error \<Rightarrow> error) \<Rightarrow> ('s \<times> 'w \<Rightarrow> env \<times> string) \<Rightarrow> ('s, 'u, 'w) LeaseService \<Rightarrow> ('s \<times> 'w) LeaseServiceClient" where
  "server_lease_stub wire lclock l = \<lparr>
     lstub_Get = (\<lambda>ctx uid st. over_wire wire (grpc_Lease_Get l ctx uid st)),
     lstub_List = (\<lambda>ctx sel st. over_wire wire (grpc_Lease_List l ctx sel st)),
     lstub_Acquire = (\<lambda>ctx t n st. over_wire wire (grpc_Lease_Acquire l ctx (fst (lclock st)) (snd (lclock st)) t n st)),
     lstub_Release = (\<lambda>ctx t n tok st. over_wire wire (grpc_Lease_Release l ctx t n tok st)),
     lstub_Revoke = (\<lambda>ctx t n st. over_wire wire (grpc_Lease_Revoke l ctx t n st)),
     lstub_Renew = (\<lambda>ctx t n tok st. over_wire wire (grpc_Lease_Renew l ctx (fst (lclock st)) t n tok st))\<rparr>"

definition server_node_stub ::
  "(error \<Rightarrow> error) \<Rightarrow> ('s \<times> 'w \<Rightarrow> svc_env) \<Rightarrow> ('s, 'u, 'w) NodeService \<Rightarrow> ('s \<times> 'w) NodeServiceClient" where
  "server_node_stub wire clock l = \<lparr>
     nstub_Get = (\<lambda>ctx uid name st. over_wire wire (grpc_Node_Get l ctx uid name st)),
     nstub_Create = (\<lambda>ctx node st. over_wire wire (grpc_Node_Create l ctx (clock st) node st)),
     nstub_Delete = (\<lambda>ctx uid name st. over_wire wire (grpc_Node_Delete l ctx (clock st) uid name st)),
     nstub_List = (\<lambda>ctx st. over_wire wire (grpc_Node_List l ctx 0 st)),
     nstub_Update = (\<lambda>ctx uid name node st. over_wire wire (grpc_Node_Update l ctx (clock st) uid name node st)),
     nstub_UpdateStatus = (\<lambda>ctx uid name stt paths st. over_wire wire (grpc_Node_UpdateStatus l ctx (clock st) uid name stt paths st)),
     nstub_Condition = (\<lambda>ctx req st. over_wire wire (grpc_Node_Condition l ctx (clock st) req st)),
     nstub_Upgrade = (\<lambda>ctx req st. over_wire wire (grpc_Node_Upgrade l ctx (clock st) req st)),
     nstub_Join = (\<lambda>ctx node st. over_wire wire (grpc_Node_Join l ctx (clock st) node st)),
     nstub_Forget = (\<lambda>ctx uid name st. over_wire wire (grpc_Node_Forget l ctx (clock st) uid name st))\<rparr>"

text \<open>The controller as the server builds it: its clients have no node identity.\<close>

type_synonym ('s, 'v) server_state = "'s \<times> (NodeSessionManager \<times> 'v)"

definition server_controller ::
  "(error \<Rightarrow> error) \<Rightarrow> (('s, 'v) server_state \<Rightarrow> svc_env) \<Rightarrow> (('s, 'v) server_state \<Rightarrow> env \<times> string) \<Rightarrow> nat \<Rightarrow> (nat \<Rightarrow> nat)
     \<Rightarrow> ('s, 'u, NodeSessionManager \<times> 'v) TaskService \<Rightarrow> ('s, 'u, NodeSessionManager \<times> 'v) LeaseService
     \<Rightarrow> ('s, 'u, NodeSessionManager \<times> 'v) NodeService \<Rightarrow> ('s, 'v) server_state Controller"
where
  "server_controller wire clock lclock ch intn ts ls ns = \<lparr>
     sc_tasks = \<lparr>tc_stub = server_task_stub wire clock ts, tc_ident = None, tc_uuid = tsv_uuid ts, tc_errs = tsv_errs ts\<rparr>,
     sc_leases = server_lease_stub wire lclock ls,
     sc_nodes = \<lparr>nc_stub = server_node_stub wire clock ns, nc_ident = None, nc_uuid = nsv_uuid ns\<rparr>,
     sc_nodeService = sessions_sender ch,
     sc_errs = tsv_errs ts,
     sc_intn = intn\<rparr>"

section \<open>Errors and identifiers on the way\<close>

text \<open>An error stays one, and keeps being a missing resource or not.\<close>

lemma fail_status_wire:
  assumes "grpc_documented x" and "wire_documented wire" and "status_FromError x (Some e) = None"
  shows "\<exists>e'. over_wire wire (fail_status x nil e, st) = (Err e', st) \<and> IsNotFound x (Some e') = IsNotFound x (Some e)"
proof -
  obtain e' where e': "fail_status x nil e = Err e'" "toStatus x (Some e) = Some e'"
    using fail_status_documented [OF assms(1,3), of nil] by blast
  have "ToStatus x (Some e) = Some e'" using e'(2) by (simp add: toStatus_ToStatus)
  from ToStatus_class(1) [OF assms(1,3) this] have nf: "IsNotFound x (Some e') = IsNotFound x (Some e)" .
  have "\<exists>k t. e' = StatusErr k t \<and> k \<noteq> CodeOK"
    using e'(2) assms(3) by (auto simp: toStatus_def split: if_splits)
  with assms(2) have "wire e' = e'" by (auto simp: wire_documented_def)
  with e'(1) nf show ?thesis by simp
qed

lemma fail_status_err:
  assumes "grpc_documented x"
  shows "\<exists>e'. fail_status x nil e = Err e'"
proof (cases "status_FromError x (Some e)")
  case None
  with fail_status_documented [OF assms, of e nil] show ?thesis by blast
next
  case (Some ct)
  then obtain k t where "status_FromError x (Some e) = Some (k, t)" by (cases ct) auto
  moreover from this assms have "k \<noteq> CodeOK" unfolding grpc_documented_def by blast
  with assms have "status_Err x (k, t) = Some (StatusErr k t)" unfolding grpc_documented_def by blast
  ultimately show ?thesis by (simp add: fail_status_def toStatus_def)
qed

lemma parsed_id:
  assumes "uuid_documented ul" and "keys_ParseStr ul s = Ok i"
  shows "wf_ID i" and "keys_FromUIDOrName ul (ID_UUIDStr ul i) (ID_NameStr i) = Ok i"
proof -
  have len: "length u = 16" if "uuid_Parse ul s = Ok u" for u using assms(1) that by (simp add: uuid_documented_def)
  from assms(2) len consider (uid) u where "s \<noteq> []" "uuid_Parse ul s = Ok u" "i = \<lparr>tag = TagUID, raw = u\<rparr>"
    | (name) "s \<noteq> []" "i = \<lparr>tag = TagName, raw = s\<rparr>"
    by (auto simp: keys_ParseStr_def keys_FromUIDOrName_def keys_UUID_def keys_Name_def bindR_def UUIDLen_def split: result.splits if_splits)
  then have "wf_ID i \<and> keys_FromUIDOrName ul (ID_UUIDStr ul i) (ID_NameStr i) = Ok i"
  proof cases
    case (uid u)
    with assms(1) have "length u = 16" "uuid_Parse ul (uuid_String ul u) = Ok u" "uuid_String ul u \<noteq> []"
      by (auto simp: uuid_documented_def)
    with uid show ?thesis
      by (simp add: wf_ID_def UUIDLen_def ID_UUIDStr_def ID_AsUUID_def keys_FromUIDOrName_def keys_UUID_def)
  next
    case name
    then show ?thesis
      by (simp add: wf_ID_def ID_UUIDStr_def ID_NameStr_def keys_FromUIDOrName_def keys_Name_def TagUID_def TagName_def)
  qed
  then show "wf_ID i" "keys_FromUIDOrName ul (ID_UUIDStr ul i) (ID_NameStr i) = Ok i" by simp_all
qed

text \<open>A phase cannot be written into a status that is not there.\<close>

lemma apply_paths_phase:
  "apply_paths apply_task_path None (Some sv) ps = Ok b \<Longrightarrow> ''phase'' \<in> set ps \<Longrightarrow> ts_Phase sv = None"
proof (induction ps)
  case (Cons p ps)
  then show ?case
    by (auto simp: apply_task_path_def copy_field_def split: if_splits option.splits)
qed simp

section \<open>Sessions\<close>

definition events_for :: "NodeSessionManager \<Rightarrow> string \<Rightarrow> Event list" where
  "events_for m u = (case map_of (nsm_sessions m) u of None \<Rightarrow> [] | Some p \<Rightarrow> queued_on p m)"

lemma send_effect:
  assumes ok: "sess_ok m" and s: "NodeSessionManager_SendToNode ch None u (Some ev) m = (r, m')"
  shows "sess_ok m' \<and> events_for m' = (if is_Ok r then (events_for m)(u := events_for m u @ [ev]) else events_for m)"
proof (cases "u = [] \<or> map_of (nsm_sessions m) u = None")
  case True
  with s ok show ?thesis by (auto simp: NodeSessionManager_SendToNode_def split: if_splits)
next
  case False
  then obtain p where p: "u \<noteq> []" "map_of (nsm_sessions m) u = Some p" by auto
  from s p have "send_on ch None u ev p m = (r, m')" by (simp add: NodeSessionManager_SendToNode_def)
  note pk = sess_okD(1) [OF ok p(2)]
  have other: "map_of (nsm_sessions m) u' = Some p \<Longrightarrow> u' = u" for u'
    using sess_okD(1) [OF ok, of u' p] pk by auto
  from \<open>send_on ch None u ev p m = (r, m')\<close> show ?thesis
  proof (cases rule: send_on_cases)
    case refused
    then have "m' = m" by (simp add: set_session_def)
    with refused ok show ?thesis by simp
  next
    case queued
    have "sess_ok m'" unfolding queued(4)
      using pk queued sess_okD(3) [OF ok, of p] by (intro sess_ok_write [OF ok]) auto
    moreover have "events_for m' u' = ((events_for m)(u := events_for m u @ [ev])) u'" for u'
    proof (cases "map_of (nsm_sessions m) u'")
      case (Some p')
      with p pk other [of u'] show ?thesis
        by (cases "p' = p") (auto simp: events_for_def queued(4) queued_on_set_session, simp add: queued_on_def)
    qed (use p in \<open>auto simp: events_for_def queued(4)\<close>)
    ultimately show ?thesis using queued(1) by (simp add: fun_eq_iff)
  qed
qed

section \<open>The server meets the contract\<close>

definition server_inv ::
  "('s, 'u, NodeSessionManager \<times> 'v) TaskService \<Rightarrow> ('s, 'u, NodeSessionManager \<times> 'v) LeaseService \<Rightarrow> ('s \<Rightarrow> bytes \<Rightarrow> bytes option)
     \<Rightarrow> ('s, 'v) server_state \<Rightarrow> bool"
where
  "server_inv ts ls content x \<longleftrightarrow> sess_ok (fst (snd x))
     \<and> (\<exists>A. leases_ok (tsv_uuid ts) (lm_db (lsv_Manager ls)) (content (fst x)) A)
     \<and> repo_inv (tsv_Repo ts) (content (fst x))"

definition server_lease_of :: "('s, 'u, 'w) LeaseService \<Rightarrow> ('s, 'v) server_state \<Rightarrow> string \<Rightarrow> Lease option" where
  "server_lease_of ls x t =
     (if t = [] then None else case LeaseManager_Get (lsv_Manager ls) None t (fst x) of Ok l \<Rightarrow> Some l | _ \<Rightarrow> None)"

definition server_task_of :: "('s, 'u, 'w) TaskService \<Rightarrow> ('s, 'v) server_state \<Rightarrow> string \<Rightarrow> Task option" where
  "server_task_of ts x t =
     (case keys_ParseStr (tsv_uuid ts) t of
        Ok i \<Rightarrow> (case Repo_Get (tsv_Repo ts) None i (fst x) of Ok k \<Rightarrow> Some k | _ \<Rightarrow> None)
      | _ \<Rightarrow> None)"

definition server_queue_of :: "('s, 'v) server_state \<Rightarrow> string \<Rightarrow> Event list" where
  "server_queue_of x = events_for (fst (snd x))"

locale server_cluster = lk: leases_keys "lsv_Manager ls" content tcontent tinv + tk: repository "tsv_Repo ts" content tcontent tinv
  for ts :: "('s, 'u, NodeSessionManager \<times> 'v) TaskService" and ls :: "('s, 'u, NodeSessionManager \<times> 'v) LeaseService"
    and content tcontent tinv +
  fixes wire :: "error \<Rightarrow> error"
  assumes messages: "repo_msg (tsv_Repo ts) = Task_msg"
    and codec: "codec_roundtrip (repo_codec (tsv_Repo ts))"
    and apart: "\<not> (owned (tsv_Repo ts) k \<and> owned (lm_db (lsv_Manager ls)) k)"
    and errs: "grpc_documented (tsv_errs ts)" "lib_errs (lsv_libs ls) = tsv_errs ts"
    and uuids: "uuid_documented (tsv_uuid ts)" "lib_uuid (lsv_libs ls) = tsv_uuid ts"
    and wires: "wire_documented wire"
begin

lemma lease_view:
  assumes "leases_ok (tsv_uuid ts) (lm_db (lsv_Manager ls)) (content s) A"
  shows "server_lease_of ls (s, w) t = (if t = [] then None else lease_at A t)"
proof (cases "t = []")
  case False
  from assms have "repo_rel (lm_db (lsv_Manager ls)) (content s) A" by (simp add: leases_ok_def)
  from lk.Get_lease [OF this False] False show ?thesis
    by (cases "lease_at A t") (simp_all add: server_lease_of_def LeaseManager_Get_def keys_Index_def)
qed (simp add: server_lease_of_def)

lemma task_view:
  assumes "repo_rel (tsv_Repo ts) (content s) B"
  shows "server_task_of ts (s, w) t =
    (case keys_ParseStr (tsv_uuid ts) t of Ok i \<Rightarrow> Option.bind (spec_resolve B i) (recs B) | _ \<Rightarrow> None)"
proof (cases "keys_ParseStr (tsv_uuid ts) t")
  case (Ok i)
  from tk.Get_refines [OF assms parsed_id(1) [OF uuids(1) Ok]] Ok show ?thesis
    by (cases "Option.bind (spec_resolve B i) (recs B)") (simp_all add: server_task_of_def spec_Get_def)
qed (simp_all add: server_task_of_def)

text \<open>A change of one repository's keys leaves the other's resources as they are.\<close>

lemma leases_framed:
  assumes "leases_ok (tsv_uuid ts) (lm_db (lsv_Manager ls)) (content s) A"
    and "\<forall>k. \<not> owned (tsv_Repo ts) k \<longrightarrow> content s' k = content s k"
  shows "leases_ok (tsv_uuid ts) (lm_db (lsv_Manager ls)) (content s') A"
proof -
  have "repo_rel (lm_db (lsv_Manager ls)) (content s') A"
    by (rule repo_rel_cong [of _ "content s"]) (use assms apart in \<open>auto simp: leases_ok_def\<close>)
  with assms(1) show ?thesis by (simp add: leases_ok_def)
qed

lemma tasks_framed:
  assumes "repo_rel (tsv_Repo ts) (content s) B"
    and "\<forall>k. \<not> owned (lm_db (lsv_Manager ls)) k \<longrightarrow> content s' k = content s k"
  shows "repo_rel (tsv_Repo ts) (content s') B"
  by (rule repo_rel_cong [OF assms(1)]) (use assms(2) apart in \<open>auto\<close>)

lemma not_found_wire:
  "\<exists>e. over_wire wire (fail_status (tsv_errs ts) nil (Sentinel RepoErrNotFound), st) = (Err e, st) \<and> IsNotFound (tsv_errs ts) (Some e)"
proof -
  have "status_FromError (tsv_errs ts) (Some (Sentinel RepoErrNotFound)) = None" using errs(1) by (simp add: grpc_documented_def)
  from fail_status_wire [OF errs(1) wires this, of nil st] show ?thesis by auto
qed

lemma invalid_holder_wire:
  "\<exists>e. over_wire wire (fail_status (tsv_errs ts) nil (Sentinel DomErrInvalidHolder), st) = (Err e, st) \<and> \<not> IsNotFound (tsv_errs ts) (Some e)"
proof -
  have "status_FromError (tsv_errs ts) (Some (Sentinel DomErrInvalidHolder)) = None" using errs(1) by (simp add: grpc_documented_def)
  from fail_status_wire [OF errs(1) wires this, of nil st] IsNotFound_sentinel [OF errs(1), of DomErrInvalidHolder] show ?thesis by auto
qed

lemma lease_get_call:
  assumes "server_inv ts ls content x" and "t \<noteq> []"
  shows "lease_Get (server_lease_stub wire lclock ls) None t x =
    (case server_lease_of ls x t of
       Some l \<Rightarrow> (Ok (Some l), x)
     | None \<Rightarrow> over_wire wire (fail_status (tsv_errs ts) None (Sentinel RepoErrNotFound), x))"
proof -
  obtain s w where x: "x = (s, w)" by (cases x)
  obtain A where A: "repo_rel (lm_db (lsv_Manager ls)) (content s) A" using assms(1) by (auto simp: server_inv_def leases_ok_def x)
  from lk.Get_lease [OF A assms(2)] assms(2) show ?thesis
    by (cases "lease_at A t") (simp_all add: x lease_Get_def server_lease_stub_def grpc_Lease_Get_def LeaseService_Get_def
        LeaseManager_Get_def keys_Index_def errs(2) server_lease_of_def)
qed

lemma lease_revoke_call:
  assumes inv: "server_inv ts ls content x" and t: "t \<noteq> []"
    and call: "lease_Revoke (server_lease_stub wire lclock ls) None t n x = (r, x')"
  shows "server_inv ts ls content x' \<and> server_queue_of x' = server_queue_of x \<and> server_task_of ts x' = server_task_of ts x \<and>
    (\<forall>t'. server_lease_of ls x' t' = (if t' = t \<and> gone (tsv_errs ts) r then None else server_lease_of ls x t'))"
proof -
  obtain s m w where x: "x = (s, (m, w))" by (cases x) auto
  obtain A B where A: "leases_ok (tsv_uuid ts) (lm_db (lsv_Manager ls)) (content s) A" and B: "repo_rel (tsv_Repo ts) (content s) B" "repo_wf B"
    using inv by (auto simp: server_inv_def repo_inv_def x)
  have rel: "repo_rel (lm_db (lsv_Manager ls)) (content s) A" using A by (simp add: leases_ok_def)
  have call': "no_value (over_wire wire (orStatus (tsv_errs ts) False
      (on_store (LeaseManager_release (lsv_libs ls) (lsv_Manager ls) None t n [] True) (s, (m, w))) (\<lambda>_ st. (Ok True, st)))) = (r, x')"
    using call by (simp add: x lease_Revoke_def server_lease_stub_def grpc_Lease_Revoke_def LeaseService_Revoke_def LeaseManager_Revoke_def errs(2) on_store_def)
  consider (anonymous) "n = []" | (missing) "n \<noteq> []" "lease_at A t = None" | (held) cur where "n \<noteq> []" "lease_at A t = Some cur" by fastforce
  then show ?thesis
  proof cases
    case anonymous
    then have "LeaseManager_release (lsv_libs ls) (lsv_Manager ls) None t n [] True s = (Err (Sentinel DomErrInvalidHolder), s)"
      using t by (simp add: LeaseManager_release_def)
    with call' invalid_holder_wire [of False "(s, (m, w))"] have "x' = x \<and> \<not> gone (tsv_errs ts) r" by (auto simp: x gone_def)
    with inv show ?thesis by simp
  next
    case missing
    from call' lk.release_missing [OF rel t missing] not_found_wire [of False "(s, (m, w))"] have "x' = x" by (auto simp: x)
    with inv missing lease_view [OF A, of "(m, w)"] show ?thesis by (simp add: x)
  next
    case held
    have A': "leases_ok (lib_uuid (lsv_libs ls)) (lm_db (lsv_Manager ls)) (content s) A" "uuid_documented (lib_uuid (lsv_libs ls))"
      using A uuids by simp_all
    obtain s' A1 where s': "LeaseManager_release (lsv_libs ls) (lsv_Manager ls) None t n [] True s = (Ok (), s')"
        "leases_ok (tsv_uuid ts) (lm_db (lsv_Manager ls)) (content s') A1"
        "\<forall>r'. lease_at A1 r' = (if r' = t then None else lease_at A r')"
        "\<forall>k. \<not> owned (lm_db (lsv_Manager ls)) k \<longrightarrow> content s' k = content s k"
      using lk.release_ok [OF A' t held, of True "[]"] uuids(2) by auto
    from call' s'(1) have r: "x' = (s', (m, w))" "gone (tsv_errs ts) r" by (auto simp: gone_def)
    note B' = tasks_framed [OF B(1) s'(4)]
    have "server_task_of ts x' = server_task_of ts x"
      using task_view [OF B(1), of "(m, w)"] task_view [OF B', of "(m, w)"] by (simp add: r x fun_eq_iff)
    moreover have "\<forall>t'. server_lease_of ls x' t' = (if t' = t then None else server_lease_of ls x t')"
      using s'(3) lease_view [OF A, of "(m, w)"] lease_view [OF s'(2), of "(m, w)"] by (auto simp: r x)
    ultimately show ?thesis
      using inv s'(2) B' B(2) r(2) by (auto simp: server_inv_def server_queue_of_def repo_inv_def r(1) x)
  qed
qed

text \<open>A status is written where the task has one; the lease and the queues are not touched.\<close>

lemma status_call:
  assumes inv: "server_inv ts ls content x" and tc: "tc_stub c = server_task_stub wire clock ts" "tc_ident c = None" "tc_uuid c = tsv_uuid ts"
    and call: "statusV1_Update c None t stt ps x = (r, x')"
  shows "server_inv ts ls content x' \<and> server_lease_of ls x' = server_lease_of ls x \<and> server_queue_of x' = server_queue_of x \<and>
    (is_Ok r \<longrightarrow> ps \<noteq> [] \<longrightarrow> (\<forall>p \<in> set ps. p \<in> set status_paths) \<longrightarrow> ts_Phase stt \<noteq> None \<longrightarrow> ''phase'' \<in> set ps \<longrightarrow>
       (\<exists>old d new. server_task_of ts x t = Some old \<and> task_Status old = Some d \<and>
          server_task_of ts x' t = Some new \<and> task_Status new = Some (masked_status ps stt d)))"
proof (cases "keys_ParseStr (tsv_uuid ts) t")
  case (Ok i)
  obtain s m w where x: "x = (s, (m, w))" by (cases x) auto
  obtain A B where A: "leases_ok (tsv_uuid ts) (lm_db (lsv_Manager ls)) (content s) A" and B: "repo_rel (tsv_Repo ts) (content s) B" "repo_wf B"
    using inv by (auto simp: server_inv_def repo_inv_def x)
  note i = parsed_id [OF uuids(1) Ok]
  have call': "no_value (over_wire wire (orStatus (tsv_errs ts) []
      (TaskService_updateStatus ts None (clock x) i (Some stt) ps (s, (m, w))) (\<lambda>_ st. (Ok (ID_UUIDStr (tsv_uuid ts) i), st)))) = (r, x')"
    using call Ok i(2) by (simp add: x statusV1_Update_def by_text_def tc server_task_stub_def grpc_Task_UpdateStatus_def
        IdentityUnaryInterceptor_def TaskService_UpdateStatus_def caller_node_def)
  obtain r0 x0 where u: "TaskService_updateStatus ts None (clock x) i (Some stt) ps (s, (m, w)) = (r0, x0)" by (metis surj_pair)
  have r0: "x' = x0 \<and> is_Ok r = is_Ok r0"
  proof (cases r0)
    case (Err e)
    obtain e' where "fail_status (tsv_errs ts) ([] :: string) e = Err e'" using fail_status_err [OF errs(1), of "[]" e] by blast
    with call' u Err show ?thesis by auto
  qed (use call' u in auto)
  have get: "Repo_Get (tsv_Repo ts) None i s = spec_Get B i" by (rule tk.Get_refines [OF B(1) i(1)])
  show ?thesis
  proof (cases "\<exists>old base. spec_Get B i = Ok old \<and> applyMaskedStatusUpdate (task_Status old) (Some stt) ps = Ok base")
    case False
    then have "x0 = x \<and> \<not> is_Ok r0"
      using u get by (cases "spec_Get B i") (auto simp: x TaskService_updateStatus_def split: result.splits)
    with r0 inv show ?thesis by simp
  next
    case True
    then obtain old base where old: "spec_Get B i = Ok old" "applyMaskedStatusUpdate (task_Status old) (Some stt) ps = Ok base" by blast
    let ?k = "old\<lparr>task_Status := base\<rparr>"
    have u': "andThen (on_store (Repo_Update (tsv_Repo ts) None (sv_t1 (clock x)) i ?k) (s, (m, w))) (\<lambda>_ st. (Ok (), st)) = (r0, x0)"
      using u get old by (simp add: TaskService_updateStatus_def)
    from B(1) codec i(1) show ?thesis
    proof (cases rule: tk.Update_outcome [of s B i "sv_t1 (clock x)" ?k])
      case failed
      then have "x0 = x \<and> \<not> is_Ok r0"
        using u' by (cases "Repo_Update (tsv_Repo ts) None (sv_t1 (clock x)) i ?k s"; cases "fst (Repo_Update (tsv_Repo ts) None (sv_t1 (clock x)) i ?k s)") (auto simp: x)
      with r0 inv show ?thesis by simp
    next
      case (stored old' em mt s')
      let ?r = "msg_setMeta (repo_msg (tsv_Repo ts)) (preserve_meta em (sv_t1 (clock x)) mt) ?k"
      from u' stored(4) have x0: "x0 = (s', (m, w))" by simp
      note A' = leases_framed [OF A stored(6)]
      have keep: "server_inv ts ls content x0" "server_lease_of ls x0 = server_lease_of ls x" "server_queue_of x0 = server_queue_of x"
        using inv A' stored(5) repo_wf_Update [OF B(2)] lease_view [OF A, of "(m, w)"] lease_view [OF A', of "(m, w)"]
        by (auto simp: server_inv_def repo_inv_def server_queue_of_def x x0)
      have new: "server_task_of ts x0 t = Some ?r" "server_task_of ts x t = Some old" "task_Status ?r = base"
        using task_view [OF stored(5), of "(m, w)"] task_view [OF B(1), of "(m, w)"] Ok old(1)
        by (auto simp: x x0 messages Task_msg_def tk.spec_Get_Ok spec_Update_def)
      have "\<exists>d. task_Status old = Some d \<and> base = Some (masked_status ps stt d)"
        if "ps \<noteq> []" "\<forall>p \<in> set ps. p \<in> set status_paths" "ts_Phase stt \<noteq> None" "''phase'' \<in> set ps"
      proof (cases "task_Status old")
        case None
        with old(2) apply_paths_phase [of stt ps base] that show ?thesis by (simp add: applyMaskedStatusUpdate_def)
      next
        case (Some d)
        have "find (\<lambda>p. p \<notin> set status_paths) ps = None" using that(2) by (simp add: find_None_iff)
        with Some old(2) that(1) show ?thesis by (simp add: applyMaskedStatusUpdate_def apply_paths_masked)
      qed
      with keep new r0 show ?thesis by auto
    qed
  qed
qed (use call inv in \<open>auto simp: statusV1_Update_def by_text_def tc\<close>)

end

sublocale server_cluster \<subseteq> cl: cluster "server_controller wire clock lclock ch intn ts ls ns" "server_inv ts ls content"
    "server_lease_of ls" "server_task_of ts" server_queue_of
  for clock lclock ch intn ns
proof
  fix x :: "('s, 'v) server_state" and t l
  assume "server_inv ts ls content x" "t \<noteq> []" "server_lease_of ls x t = Some l"
  then show "lease_Get (sc_leases (server_controller wire clock lclock ch intn ts ls ns)) None t x = (Ok (Some l), x)"
    using lease_get_call [of x t lclock] by (simp add: server_controller_def)
next
  fix x :: "('s, 'v) server_state" and t
  assume "server_inv ts ls content x" "t \<noteq> []" "server_lease_of ls x t = None"
  then show "\<exists>e. lease_Get (sc_leases (server_controller wire clock lclock ch intn ts ls ns)) None t x = (Err e, x)
      \<and> IsNotFound (sc_errs (server_controller wire clock lclock ch intn ts ls ns)) (Some e)"
    using lease_get_call [of x t lclock] not_found_wire [of None x] by (simp add: server_controller_def)
next
  fix x x' :: "('s, 'v) server_state" and t n r
  assume "server_inv ts ls content x" "t \<noteq> []"
    "lease_Revoke (sc_leases (server_controller wire clock lclock ch intn ts ls ns)) None t n x = (r, x')"
  then show "server_inv ts ls content x' \<and> server_queue_of x' = server_queue_of x \<and> server_task_of ts x' = server_task_of ts x \<and>
      (\<forall>t'. server_lease_of ls x' t' =
         (if t' = t \<and> gone (sc_errs (server_controller wire clock lclock ch intn ts ls ns)) r then None else server_lease_of ls x t'))"
    using lease_revoke_call [of x t lclock n r x'] by (simp add: server_controller_def)
next
  fix x x' :: "('s, 'v) server_state" and u ev r
  assume inv: "server_inv ts ls content x"
    and send: "snd_SendToNode (sc_nodeService (server_controller wire clock lclock ch intn ts ls ns)) None u (Some ev) x = (r, x')"
  obtain s m w where x: "x = (s, (m, w))" by (cases x) auto
  obtain m' where m': "NodeSessionManager_SendToNode ch None u (Some ev) m = (r, m')" "x' = (s, (m', w))"
    using send by (auto simp: x server_controller_def sessions_sender_def split: prod.splits)
  have "sess_ok m" using inv by (simp add: server_inv_def x)
  from send_effect [OF this m'(1)] inv show "server_inv ts ls content x' \<and> server_lease_of ls x' = server_lease_of ls x \<and>
      server_task_of ts x' = server_task_of ts x \<and>
      server_queue_of x' = (if is_Ok r then (server_queue_of x)(u := server_queue_of x u @ [ev]) else server_queue_of x)"
    by (simp add: x m'(2) server_inv_def server_queue_of_def server_lease_of_def server_task_of_def fun_eq_iff split: result.split)
next
  fix x x' :: "('s, 'v) server_state" and t stt ps r
  assume "server_inv ts ls content x"
    and "statusV1_Update (sc_tasks (server_controller wire clock lclock ch intn ts ls ns)) None t stt ps x = (r, x')"
  then show "server_inv ts ls content x' \<and> server_lease_of ls x' = server_lease_of ls x \<and> server_queue_of x' = server_queue_of x \<and>
    (is_Ok r \<longrightarrow> ps \<noteq> [] \<longrightarrow> (\<forall>p \<in> set ps. p \<in> set status_paths) \<longrightarrow> ts_Phase stt \<noteq> None \<longrightarrow> ''phase'' \<in> set ps \<longrightarrow>
       (\<exists>old d new. server_task_of ts x t = Some old \<and> task_Status old = Some d \<and>
          server_task_of ts x' t = Some new \<and> task_Status new = Some (masked_status ps stt d)))"
    by (intro status_call [of x "sc_tasks (server_controller wire clock lclock ch intn ts ls ns)" clock])
       (simp_all add: server_controller_def)
next
  fix x x' :: "('s, 'v) server_state" and nodes
  assume "node_List (sc_nodes (server_controller wire clock lclock ch intn ts ls ns)) None [] x = (nodes, x')"
  then show "x' = x"
    by (cases x; cases "Repo_List (nsv_Repo ns) None 0 (fst x)")
       (auto simp: server_controller_def server_node_stub_def node_List_def grpc_Node_List_def NodeService_List_def over_wire_def split: result.splits)
qed

context server_cluster
begin

lemma is_cluster:
  "cluster (server_controller wire clock lclock ch intn ts ls ns) (server_inv ts ls content) (server_lease_of ls) (server_task_of ts) server_queue_of"
  by (rule cl.cluster_axioms)

end

section \<open>A server\<close>

text \<open>
  Task and lease services on one badger store, with the sessions of the nodes. The task
  \<open>waiting\<close> has a lease on node1; placing it makes it \<open>placed\<close> on node beta.
\<close>

definition waiting :: Task where
  "waiting = created_task\<lparr>task_Meta := Some (sample_meta\<lparr>meta_Uid := task_uid, meta_Created := Some 7, meta_Updated := Some 8, meta_ResourceVersion := 1\<rparr>)\<rparr>"

definition placed :: Task where
  "placed = waiting\<lparr>task_Meta := Some (preserve_meta (getMeta (task_Meta waiting)) 9 (getMeta (task_Meta waiting))),
     task_Status := Some (empty_TaskStatus\<lparr>ts_Phase := Some ''Scheduled'', ts_Node := Some ''beta''\<rparr>)\<rparr>"

definition placed_codec :: "Task codec" where
  "placed_codec = table_codec [(waiting, ''T1''), (placed, ''T2'')]"

definition quiet_bus :: "'x bus" where
  "quiet_bus = \<lparr>bus_Publish = (\<lambda>ctx ev st. (Ok (), st)), bus_Forward = (\<lambda>ctx ev st. (Ok (), st))\<rparr>"

definition placed_tasks :: "(mem, mem \<times> bool, NodeSessionManager \<times> unit) TaskService" where
  "placed_tasks = \<lparr>tsv_Repo = NewTaskRepo (badger_DB sample_badger) placed_codec, tsv_Exchange = quiet_bus,
     tsv_Manager = lease_guard_of sample_libs sample_lm, tsv_errs = sample_ext, tsv_uuid = sample_uuid\<rparr>"

definition placed_leases :: "(mem, mem \<times> bool, NodeSessionManager \<times> unit) LeaseService" where
  "placed_leases = \<lparr>lsv_Exchange = quiet_bus, lsv_LeaseTTL = 60, lsv_Manager = sample_lm, lsv_libs = sample_libs\<rparr>"

definition placed_nodes :: "(mem, mem \<times> bool, NodeSessionManager \<times> unit) NodeService" where
  "placed_nodes = \<lparr>nsv_Repo = NewNodeRepo (badger_DB sample_badger) beta_codec, nsv_Exchange = quiet_bus,
     nsv_Manager = sessions_manager None ''f1'' ''f2'', nsv_Sender = sessions_sender 0, nsv_errs = sample_ext, nsv_uuid = sample_uuid\<rparr>"

lemma placed_codec_roundtrip: "codec_roundtrip placed_codec"
  unfolding placed_codec_def by (rule table_codec_roundtrip) simp

interpretation placed: server_cluster placed_tasks placed_leases map_of "\<lambda>s t. map_of (fst t)" "\<lambda>s t. \<not> snd t \<longrightarrow> fst t = s" id
proof -
  have r: "repository (tsv_Repo placed_tasks) map_of (\<lambda>s t. map_of (fst t)) (\<lambda>s t. \<not> snd t \<longrightarrow> fst t = s)"
    using sbadger.badger_repository_keys [OF new_repo_prefixes(1) repo_db_simps(1), of placed_codec]
    by (simp add: repository_keys_def placed_tasks_def)
  have apart: "\<not> (owned (tsv_Repo placed_tasks) k \<and> owned (lm_db (lsv_Manager placed_leases)) k)" for k
    by (auto simp: owned_def placed_tasks_def placed_leases_def lm_with_def new_repo_defs prefix_def)
  have "leases_keys (lsv_Manager placed_leases) map_of (\<lambda>s t. map_of (fst t)) (\<lambda>s t. \<not> snd t \<longrightarrow> fst t = s)"
    by (simp add: placed_leases_def sample_lm_keys)
  from this r show "server_cluster placed_tasks placed_leases map_of (\<lambda>s t. map_of (fst t)) (\<lambda>s t. \<not> snd t \<longrightarrow> fst t = s) id"
    by (intro server_cluster.intro server_cluster_axioms.intro apart)
       (simp_all add: placed_tasks_def placed_leases_def placed_codec_roundtrip sample_libs_def sample_ext_documented
          sample_uuid_documented wire_documented_def)
qed

text \<open>Its store and sessions: one task, its lease, one node, connected.\<close>

definition placed_store :: mem where
  "placed_store = lease1_store @
     [(uid_key (tsv_Repo placed_tasks) task_uid, ''T1''), (idx_key (tsv_Repo placed_tasks) ''web'', uid_value task_uid),
      (name_key (tsv_Repo placed_tasks) ''web'', uid_value task_uid)] @
     [(uid_key (nsv_Repo placed_nodes) sample_uid, ''N1''), (idx_key (nsv_Repo placed_nodes) ''beta'', uid_value sample_uid),
      (name_key (nsv_Repo placed_nodes) ''beta'', uid_value sample_uid)]"

definition beta_session :: NodeSessionManager where
  "beta_session = connect_insert (Some beta1) \<lparr>in_NodeUID = sample_uid, in_NodeName = ''beta''\<rparr> (NewNodeSessionManager [])"

abbreviation (input) placed_controller :: "(mem, unit) server_state Controller" where
  "placed_controller \<equiv> server_controller id (\<lambda>_. \<lparr>sv_uuid = sample_uid, sv_t1 = 9, sv_t2 = 9, sv_event = ''e''\<rparr>) (\<lambda>_. (sample_env, ''e''))
     0 (\<lambda>_. 0) placed_tasks placed_leases placed_nodes"

definition placed_state :: "(mem, unit) server_state" where
  "placed_state = (placed_store, (beta_session, ()))"

text \<open>The keys of the other repositories do not matter to one.\<close>

lemma map_of_apart:
  "(\<And>k'. k' \<in> fst ` set ys \<Longrightarrow> k' \<noteq> k) \<Longrightarrow> map_of (ys @ xs) k = map_of xs k"
  "(\<And>k'. k' \<in> fst ` set ys \<Longrightarrow> k' \<noteq> k) \<Longrightarrow> map_of (xs @ ys) k = map_of xs k"
proof -
  assume "\<And>k'. k' \<in> fst ` set ys \<Longrightarrow> k' \<noteq> k"
  then have "map_of ys k = None" by (metis map_of_eq_None_iff)
  then show "map_of (ys @ xs) k = map_of xs k" "map_of (xs @ ys) k = map_of xs k"
    by (simp_all add: map_add_def split: option.split)
qed

definition task_entries :: mem where
  "task_entries = [(uid_key (tsv_Repo placed_tasks) task_uid, ''T1''), (idx_key (tsv_Repo placed_tasks) ''web'', uid_value task_uid),
     (name_key (tsv_Repo placed_tasks) ''web'', uid_value task_uid)]"

definition node_entries :: mem where
  "node_entries = [(uid_key (nsv_Repo placed_nodes) sample_uid, ''N1''), (idx_key (nsv_Repo placed_nodes) ''beta'', uid_value sample_uid),
     (name_key (nsv_Repo placed_nodes) ''beta'', uid_value sample_uid)]"

lemma placed_store_entries: "placed_store = lease1_store @ (task_entries @ node_entries)"
  by (simp add: placed_store_def task_entries_def node_entries_def)

lemma entries_owned:
  "k \<in> fst ` set task_entries \<Longrightarrow> owned (tsv_Repo placed_tasks) k"
  "k \<in> fst ` set node_entries \<Longrightarrow> owned (nsv_Repo placed_nodes) k"
  "k \<in> fst ` set lease1_store \<Longrightarrow> owned (lm_db sample_lm) k"
  by (auto simp: task_entries_def node_entries_def lease1_store_def)

lemma placed_apart:
  "\<not> (owned (tsv_Repo placed_tasks) k \<and> owned (lm_db sample_lm) k)"
  "\<not> (owned (nsv_Repo placed_nodes) k \<and> owned (lm_db sample_lm) k)"
  "\<not> (owned (tsv_Repo placed_tasks) k \<and> owned (nsv_Repo placed_nodes) k)"
  by (auto simp: owned_def placed_tasks_def placed_nodes_def lm_with_def new_repo_defs prefix_def)

lemma placed_leases_ok: "leases_ok sample_uuid (lm_db sample_lm) (map_of placed_store) lease1_state"
proof -
  have "owned (lm_db sample_lm) k \<Longrightarrow> map_of placed_store k = map_of lease1_store k" for k
    unfolding placed_store_entries using entries_owned placed_apart
    by (intro map_of_apart(2)) (unfold set_append image_Un, blast)
  with lease1_ok show ?thesis
    using repo_rel_cong [of "lm_db sample_lm" "map_of lease1_store" lease1_state "map_of placed_store"]
    by (simp add: leases_ok_def sample_libs_def)
qed

lemma placed_lease: "server_lease_of placed_leases placed_state task_uid = Some lease1"
proof -
  have "leases_ok (tsv_uuid placed_tasks) (lm_db (lsv_Manager placed_leases)) (map_of placed_store) lease1_state"
    using placed_leases_ok by (simp add: placed_tasks_def placed_leases_def)
  from placed.lease_view [OF this, of "(beta_session, ())" task_uid] lease1_ok(2) show ?thesis by (simp add: placed_state_def task_uid_def)
qed

lemma placed_state_inv: "server_inv placed_tasks placed_leases map_of placed_state"
proof -
  have "repo_rel (tsv_Repo placed_tasks) (map_of task_entries) (spec_Create empty_repo task_uid ''web'' waiting)"
    unfolding task_entries_def
    by (rule single_rel) (simp_all add: placed_tasks_def new_repo_prefixes Codec_Decode_def placed_codec_def table_codec_def task_uid_def)
  moreover have "map_of placed_store k = map_of task_entries k" if "owned (tsv_Repo placed_tasks) k" for k
  proof -
    have "map_of placed_store k = map_of (task_entries @ node_entries) k"
      unfolding placed_store_entries by (rule map_of_apart(1)) (use that entries_owned(3) placed_apart(1) in blast)
    also have "\<dots> = map_of task_entries k"
      by (rule map_of_apart(2)) (use that entries_owned(2) placed_apart(3) in blast)
    finally show ?thesis .
  qed
  ultimately have B: "repo_rel (tsv_Repo placed_tasks) (map_of placed_store) (spec_Create empty_repo task_uid ''web'' waiting)"
    by (rule repo_rel_cong)
  have wf: "repo_wf (spec_Create empty_repo task_uid ''web'' waiting)" by (rule single_wf) (simp add: task_uid_def)
  have s: "sess_ok beta_session"
    unfolding beta_session_def by (rule sess_ok_connect) (simp add: sess_ok_def NewNodeSessionManager_def)
  have "tsv_uuid placed_tasks = sample_uuid" "lsv_Manager placed_leases = sample_lm" by (simp_all add: placed_tasks_def placed_leases_def)
  with placed_leases_ok B wf s show ?thesis by (auto simp: server_inv_def placed_state_def repo_inv_def)
qed

section \<open>Properties\<close>



text \<open>
  Which tasks are due: a task is scheduled again exactly when it has no lease, or when its lease
  ran out more than the grace period of ten seconds ago; asking changes nothing.
\<close>

theorem scheduler_due:
  assumes "server_cluster ts ls content tcontent tinv wire" and "server_inv ts ls content x" and "t \<noteq> []"
  shows "Controller_shouldScheduleTask (server_controller wire clock lclock ch intn ts ls ns) None now t x =
    (Ok (case server_lease_of ls x t of None \<Rightarrow> True | Some l \<Rightarrow> now > expires_at l + 10 * second), x)"
  using cluster.should_schedule [OF server_cluster.is_cluster [OF assms(1)] assms(2,3), of clock lclock ch intn ns now]
  by (simp add: gracePeriod_def split: option.split)

theorem scheduler_due_witness:
  "fst (Controller_shouldScheduleTask placed_controller None (65 * second) task_uid placed_state) = Ok False
   \<and> fst (Controller_shouldScheduleTask placed_controller None (75 * second) task_uid placed_state) = Ok True"
proof -
  have "expires_at lease1 = 100 + 60 * second"
    by (simp add: lease1_def sample_env_def ttl_duration_def lm_with_def)
  moreover have "task_uid \<noteq> []" by (simp add: task_uid_def)
  ultimately show ?thesis
    using placed_lease by (simp add: scheduler_due [OF placed.server_cluster_axioms placed_state_inv])
qed

end
