(* ===== verification/AgentProps.thy ===== *)
theory AgentProps
  imports AgentLoop ClusterServer
begin

text \<open>
  What the node controller guarantees: it remembers no operation and no fencing token of a
  task that ended, gives the lease back, starts containers only after everything they need
  and under the fencing token of their lease, and never queues the start of a task that
  another node holds.
\<close>

section \<open>The memory of the agent\<close>

definition mem_of :: "'x agent_state \<Rightarrow> (string, uint64) gomap \<times> (string, Reason) gomap" where
  "mem_of st = (as_epochs st, as_operations st)"

definition keeps :: "(string, uint64) gomap \<times> (string, Reason) gomap \<Rightarrow> 'a res \<times> 'x agent_state \<Rightarrow> bool" where
  "keeps m p \<longleftrightarrow> mem_of (snd p) = m"

named_theorems keeps_intros

lemma tell_simps [simp]:
  "mem_of (tell c t f st) = mem_of st" "as_task (tell c t f st) = as_task st"
  by (simp_all add: tell_def Agent_Report_def mem_of_def)

lemma mem_of_upd [simp]:
  "mem_of (st\<lparr>as_world := x\<rparr>) = mem_of st" "mem_of (st\<lparr>as_task := t\<rparr>) = mem_of st" "mem_of (st\<lparr>as_report := r\<rparr>) = mem_of st"
  by (simp_all add: mem_of_def)

lemma keeps_pair [simp]: "keeps m (r, st) \<longleftrightarrow> mem_of st = m"
  by (simp add: keeps_def)

lemma env_call_cases:
  assumes "env_call f st = (r, st')"
  obtains x where "f (as_world st) = (r, x)" "st' = st\<lparr>as_world := x\<rparr>"
  using assms by (auto simp: env_call_def split: prod.splits)

lemma keeps_env_call [keeps_intros]: "mem_of st = m \<Longrightarrow> keeps m (env_call f st)"
  by (simp add: env_call_def keeps_def split: prod.splits)

lemma keeps_andThen [keeps_intros]:
  "keeps m p \<Longrightarrow> (\<And>a s. mem_of s = m \<Longrightarrow> keeps m (f a s)) \<Longrightarrow> keeps m (andThen p f)"
  by (cases p; cases "fst p") auto

lemma keeps_skipMissing [keeps_intros]:
  "keeps m p \<Longrightarrow> (\<And>s. mem_of s = m \<Longrightarrow> keeps m (f s)) \<Longrightarrow> keeps m (skipMissing x p f)"
  by (cases p; cases "fst p") (auto simp: skipMissing_def)

lemma keeps_ignoring [keeps_intros]:
  "keeps m p \<Longrightarrow> (\<And>s. mem_of s = m \<Longrightarrow> keeps m (f s)) \<Longrightarrow> keeps m (ignoring p f)"
  by (cases p; cases "fst p") (auto simp: ignoring_def)

lemma keeps_tell_failure [keeps_intros]:
  "keeps m p \<Longrightarrow> (\<And>a s. mem_of s = m \<Longrightarrow> keeps m (k a s)) \<Longrightarrow> keeps m (tell_failure c t f p k)"
  by (cases p; cases "fst p") (auto simp: tell_failure_def)

lemma keeps_task_ports [keeps_intros]: "mem_of st = m \<Longrightarrow> keeps m (task_ports st)"
  by (auto simp: task_ports_def split: option.splits prod.splits)

lemma keeps_if [keeps_intros]: "(b \<Longrightarrow> keeps m p) \<Longrightarrow> (\<not> b \<Longrightarrow> keeps m q) \<Longrightarrow> keeps m (if b then p else q)"
  by simp

lemma keeps_detachNetwork [keeps_intros]: "mem_of st = m \<Longrightarrow> keeps m (Agent_detachNetwork c ctx st)"
  by (auto simp: Agent_detachNetwork_def Let_def intro!: keeps_intros)

lemma keeps_attachNetwork [keeps_intros]: "mem_of st = m \<Longrightarrow> keeps m (Agent_attachNetwork c ctx st)"
  by (auto simp: Agent_attachNetwork_def Let_def intro!: keeps_intros)

lemma keeps_attachMounts [keeps_intros]: "mem_of st = m \<Longrightarrow> keeps m (Agent_attachMounts c ctx st)"
  by (auto simp: Agent_attachMounts_def Let_def elim!: env_call_cases split: prod.splits result.splits)

lemma keeps_detachMounts [keeps_intros]: "mem_of st = m \<Longrightarrow> keeps m (Agent_detachMounts c ctx st)"
  by (auto simp: Agent_detachMounts_def Let_def intro!: keeps_intros)

lemma keeps_pullImage [keeps_intros]: "mem_of st = m \<Longrightarrow> keeps m (Agent_pullImage c ctx st)"
  by (auto simp: Agent_pullImage_def Let_def intro!: keeps_intros)

lemma keeps_deleteTask [keeps_intros]: "mem_of st = m \<Longrightarrow> keeps m (Agent_deleteTask c ctx st)"
  by (auto simp: Agent_deleteTask_def Let_def intro!: keeps_intros)

lemma keeps_teardown:
  fixes st :: "'x agent_state"
  assumes "mem_of st = m"
  shows "keeps m (teardown c ctx halt st)"
  unfolding teardown_def
proof (rule keeps_skipMissing)
  fix s :: "'x agent_state" assume s: "mem_of s = m"
  obtain r s1 where d: "Agent_detachMounts c ctx s = (r, s1)" by fastforce
  with keeps_detachMounts [OF s, of c ctx] have "mem_of s1 = m" by simp
  with d show "keeps m (case Agent_detachMounts c ctx s of (Panic m, st) \<Rightarrow> (Panic m, st) | (r, st) \<Rightarrow>
      if (case r of Err e \<Rightarrow> IgnoreNotFound (ac_errs c) (Some e) \<noteq> None | _ \<Rightarrow> False) then (Ok (), st)
      else skipMissing (ac_errs c) (env_call (halt ctx (as_task st)) st) (\<lambda>st.
          skipMissing (ac_errs c) (Agent_deleteTask c ctx st) (\<lambda>st.
          ignoring (env_call (statusV1_SetPhase (ac_tasks c) ctx (uid_of st) (reason_text ReasonStopped)) st) (\<lambda>st.
          ignoring (env_call (statusV1_SetReason (ac_tasks c) ctx (uid_of st) []) st) (\<lambda>st. (Ok (), st))))))"
    by (cases r) (auto intro!: keeps_intros)
qed (rule keeps_detachNetwork [OF assms])

lemma keeps_provision: "mem_of st = m \<Longrightarrow> keeps m (provision c ctx st)"
  by (auto simp: provision_def Let_def intro!: keeps_intros)

lemma keeps_start_body: "mem_of st = m \<Longrightarrow> keeps m (start_body c ctx st)"
  by (auto simp: start_body_def elim!: env_call_cases split: prod.splits result.splits intro!: keeps_andThen keeps_provision)

lemma keeps_mark_failed: "mem_of st = m \<Longrightarrow> keeps m (mark_failed c ctx r st)"
  by (cases r) (auto simp: mark_failed_def intro!: keeps_env_call)

section \<open>Ending a task\<close>

lemma deferred_cases:
  assumes "deferred p f = (r, st')" and "\<forall>m. r \<noteq> Panic m"
  obtains s u where "p = (r, s)" "f r s = (u, st')"
  using assms by (cases p; cases "fst (f (fst p) (snd p))") (auto simp: deferred_def split: prod.splits result.splits)

lemma release_lease_effect:
  assumes "release_lease c ctx t n st = (u, st')" and "\<forall>m. u \<noteq> Panic m"
  shows "mem_of st' = (AList.delete t (as_epochs st), AList.delete t (as_operations st))
    \<and> ((\<exists>e. st_Load (ac_tokenStore c) t (as_world st) = (Err e, as_world st'))
       \<or> (\<exists>tok y1 y2 r1 r2. st_Load (ac_tokenStore c) t (as_world st) = (Ok tok, y1)
            \<and> lease_Release (ac_leases c) ctx t n tok y1 = (r1, y2) \<and> st_Delete (ac_tokenStore c) t y2 = (r2, as_world st')))"
proof -
  obtain r0 y0 where l: "st_Load (ac_tokenStore c) t (as_world st) = (r0, y0)" by fastforce
  show ?thesis
  proof (cases r0)
    case (Ok tok)
    obtain r1 y1 where rel: "lease_Release (ac_leases c) ctx t n tok y0 = (r1, y1)" by fastforce
    obtain r2 y2 where del: "st_Delete (ac_tokenStore c) t y1 = (r2, y2)" by fastforce
    from assms l Ok rel del show ?thesis
      by (cases r1; cases r2) (auto simp: release_lease_def Let_def env_call_def ignoring_def mem_of_def)
  qed (use assms l in \<open>auto simp: release_lease_def Let_def env_call_def mem_of_def\<close>)
qed

section \<open>Starting a task\<close>

lemma skipMissing_Ok:
  "skipMissing x p f = (Ok a, st') \<Longrightarrow> \<exists>s. f s = (Ok a, st') \<and> snd p = s"
  by (cases p; cases "fst p") (auto simp: skipMissing_def split: if_splits)

lemma ignoring_Ok:
  "ignoring p f = (Ok a, st') \<Longrightarrow> f (snd p) = (Ok a, st')"
  by (cases p; cases "fst p") (auto simp: ignoring_def)

lemma tell_failure_Ok:
  "tell_failure c t f p k = (Ok (), st') \<longleftrightarrow> (\<exists>a s. p = (Ok a, s) \<and> k a s = (Ok (), st'))"
  by (cases p; cases "fst p") (auto simp: tell_failure_def)

text \<open>What a successful attachment of mounts, and a successful pull, have done.\<close>

lemma attachMounts_Ok:
  assumes "Agent_attachMounts c ctx st = (Ok (), st')"
  obtains w w' where "at_PrepareMounts (ac_attacher c) ctx (ac_node c) (as_task st) w = (Ok (as_task st'), w')"
proof -
  let ?s = "tell c VolumeReady (Report_False ReasonAttaching []) st"
  obtain r s where e: "env_call (at_PrepareMounts (ac_attacher c) ctx (ac_node c) (as_task ?s)) ?s = (r, s)" by fastforce
  then obtain x where x: "at_PrepareMounts (ac_attacher c) ctx (ac_node c) (as_task ?s) (as_world ?s) = (r, x)"
    by (rule env_call_cases)
  from assms e obtain task where "r = Ok task" "as_task st' = task"
    by (cases r) (auto simp: Agent_attachMounts_def Let_def)
  with x that show thesis by simp
qed

lemma pullImage_Ok:
  assumes "Agent_pullImage c ctx st = (Ok (), st')"
  obtains w w' where "rt_Pull (ac_runtime c) ctx (as_task st) w = (Ok (), w')" "as_task st' = as_task st"
  using assms unfolding Agent_pullImage_def Let_def tell_failure_Ok
  by (auto elim!: env_call_cases)

lemma epoch_labels_cong:
  "mem_of s = mem_of st \<Longrightarrow> as_task s = as_task st \<Longrightarrow> epoch_labels s = epoch_labels st"
  by (simp add: epoch_labels_def mem_of_def)

lemma provision_Ok:
  assumes "provision c ctx st = (Ok (), st')"
  shows "\<exists>t0 task w1 w2 w3 w4 w5 w6.
      at_PrepareMounts (ac_attacher c) ctx (ac_node c) t0 w1 = (Ok task, w2)
    \<and> rt_Pull (ac_runtime c) ctx task w3 = (Ok (), w4)
    \<and> rt_Run (ac_runtime c) ctx task (epoch_labels st) w5 = (Ok (), w6)"
proof -
  from assms obtain s1 s2 s3 s4 s5 where
      m: "Agent_attachMounts c ctx s1 = (Ok (), s2)" and p: "Agent_pullImage c ctx s2 = (Ok (), s3)"
      and r: "env_call (rt_Run (ac_runtime c) ctx (as_task s3) (epoch_labels st)) s3 = (Ok (), s4)"
      and n: "Agent_attachNetwork c ctx s4 = (Ok (), s5)"
    by (fastforce simp: provision_def Let_def andThen_eq_Ok dest!: skipMissing_Ok)
  from m obtain w1 w2 where "at_PrepareMounts (ac_attacher c) ctx (ac_node c) (as_task s1) w1 = (Ok (as_task s2), w2)"
    by (rule attachMounts_Ok)
  moreover from p obtain w3 w4 where "rt_Pull (ac_runtime c) ctx (as_task s2) w3 = (Ok (), w4)" "as_task s3 = as_task s2"
    by (rule pullImage_Ok)
  moreover from r obtain w6 where "rt_Run (ac_runtime c) ctx (as_task s3) (epoch_labels st) (as_world s3) = (Ok (), w6)"
    by (rule env_call_cases)
  ultimately show ?thesis by metis
qed

lemma start_body_Ok:
  assumes "start_body c ctx st = (Ok (), st')"
  shows "(\<exists>t x. rt_Get (ac_runtime c) ctx (uid_of st) (as_world st) = (Ok (Some t), x)
              \<and> unchanged (Some t) (as_task st) = Ok True \<and> as_world st' = x)
       \<or> (\<exists>t0 task w1 w2 w3 w4 w5 w6. at_PrepareMounts (ac_attacher c) ctx (ac_node c) t0 w1 = (Ok task, w2)
              \<and> rt_Pull (ac_runtime c) ctx task w3 = (Ok (), w4)
              \<and> rt_Run (ac_runtime c) ctx task (epoch_labels st) w5 = (Ok (), w6))"
proof -
  obtain r x where g: "rt_Get (ac_runtime c) ctx (uid_of st) (as_world st) = (r, x)" by fastforce
  let ?s = "st\<lparr>as_world := x\<rparr>"
  have e: "env_call (rt_Get (ac_runtime c) ctx (uid_of st)) st = (r, ?s)" using g by (simp add: env_call_def)
  have l: "epoch_labels ?s = epoch_labels st" by (rule epoch_labels_cong) simp_all
  show ?thesis
  proof (cases "provision c ctx ?s = (Ok (), st')")
    case True
    from provision_Ok [OF this] show ?thesis unfolding l by blast
  next
    case False
    with assms e have "\<exists>t. r = Ok t \<and> unchanged t (as_task st) = Ok True \<and> st' = ?s"
      by (cases r) (auto simp: start_body_def andThen_eq_Ok split: if_splits)
    with g show ?thesis by (auto simp: unchanged_def split: option.splits)
  qed
qed

section \<open>Scheduling a task\<close>

lemma processSchedule_queue:
  assumes "Agent_processSchedule c ctx now node (q, st) = (r, (q', st'))" and "\<not> is_Ok (fst (Agent_acquireLease c ctx st))"
  shows "q' = q"
proof -
  obtain e s1 where "on_agent (Agent_acquireLease c ctx) (q, st) = (Err e, (q, s1)) \<or> (\<exists>m. on_agent (Agent_acquireLease c ctx) (q, st) = (Panic m, (q, s1)))"
    using assms(2) by (cases "Agent_acquireLease c ctx st"; cases "fst (Agent_acquireLease c ctx st)") (auto simp: on_agent_def)
  moreover obtain r2 s2 where "on_agent (Agent_renewLease c ctx) (q, s1) = (r2, (q, s2))"
    by (cases "Agent_renewLease c ctx s1") (auto simp: on_agent_def)
  ultimately show ?thesis
    using assms(1) by (cases r2) (auto simp: Agent_processSchedule_def ignoring_def split: if_splits)
qed

lemma acquire_over_wire:
  assumes "leases (lsv_Manager ls) content tcontent tinv" and doc: "grpc_documented (lib_errs (lsv_libs ls))"
    and "repo_rel (lm_db (lsv_Manager ls)) (content s) A" and "t \<noteq> []" "n \<noteq> []" "0 < lease_duration ls"
    and "lease_at A t = Some cur" "env_now (fst (lclock (s, w))) < expires_at cur" "holder_of cur \<noteq> n"
  shows "\<exists>e. lease_Acquire (server_lease_stub wire lclock ls) None t n (s, w) = (Err e, (s, w))"
proof -
  note h = leases.Acquire_held [OF assms(1,3-9), of "lsv_libs ls"]
  obtain e where "fail_status (lib_errs (lsv_libs ls)) ((None, [], 0) :: lease_grant) (Sentinel ErrsErrLeaseHeld) = Err e"
    using fail_status_err [OF doc, of "(None, [], 0) :: lease_grant" "Sentinel ErrsErrLeaseHeld"] by blast
  with h show ?thesis
    by (simp add: lease_Acquire_def server_lease_stub_def grpc_Lease_Acquire_def LeaseService_Acquire_def)
qed

section \<open>Concrete agents\<close>

text \<open>Stubs that accept everything, and a runtime that notes what it runs.\<close>

definition nodding_tasks :: "'x TaskServiceClient" where
  "nodding_tasks = \<lparr>tstub_Get = (\<lambda>ctx u n x. (Ok waiting, x)), tstub_Create = (\<lambda>ctx t x. (Ok t, x)), tstub_Delete = (\<lambda>ctx u n x. (Ok (), x)),
     tstub_List = (\<lambda>ctx l x. (Ok [], x)), tstub_Update = (\<lambda>ctx u n t x. (Ok t, x)),
     tstub_UpdateStatus = (\<lambda>ctx md u n s ps x. (Ok u, x)), tstub_Condition = (\<lambda>ctx r x. (Ok (), x)), tstub_Kill = (\<lambda>ctx u n x. (Ok (), x)),
     tstub_Start = (\<lambda>ctx u n x. (Ok (), x)), tstub_Stop = (\<lambda>ctx u n x. (Ok (), x))\<rparr>"

definition noting_runtime :: "label list Runtime" where
  "noting_runtime = \<lparr>rt_List = (\<lambda>ctx x. (Ok [], x)), rt_Get = (\<lambda>ctx i x. (Ok None, x)), rt_Delete = (\<lambda>ctx t x. (Ok (), x)),
     rt_Kill = (\<lambda>ctx t x. (Ok (), x)), rt_Stop = (\<lambda>ctx t x. (Ok (), x)), rt_Run = (\<lambda>ctx t l x. (Ok (), x @ [l])),
     rt_Cleanup = (\<lambda>ctx i x. (Ok (), x)), rt_Pull = (\<lambda>ctx t x. (Ok (), x)), rt_Labels = (\<lambda>ctx i x. (Ok [], x)),
     rt_Name = (\<lambda>ctx i x. (Ok i, x)), rt_Pid = (\<lambda>ctx i x. (Ok 7, x))\<rparr>"

definition free_tokens :: "'x Store" where
  "free_tokens = \<lparr>st_Load = (\<lambda>i x. (Ok ''tok'', x)), st_Save = (\<lambda>i b x. (Ok (), x)), st_Delete = (\<lambda>i x. (Ok (), x))\<rparr>"

definition free_net :: "'x NetManager" where
  "free_net = \<lparr>nm_Attach = (\<lambda>ctx i pid pm x. (Ok [], x)), nm_Detach = (\<lambda>ctx i pid pm x. (Ok (), x))\<rparr>"

definition free_mounts :: "'x Attacher" where
  "free_mounts = \<lparr>at_PrepareMounts = (\<lambda>ctx n t x. (Ok t, x)), at_Detach = (\<lambda>ctx n t x. (Ok (), x))\<rparr>"

definition nodding_leases :: "'x LeaseServiceClient" where
  "nodding_leases = \<lparr>lstub_Get = (\<lambda>ctx t x. (Ok None, x)), lstub_List = (\<lambda>ctx l x. (Ok [], x)),
     lstub_Acquire = (\<lambda>ctx t n x. (Ok (None, ''tok'', 4), x)), lstub_Release = (\<lambda>ctx t n k x. (Ok True, x)),
     lstub_Revoke = (\<lambda>ctx t n x. (Ok True, x)), lstub_Renew = (\<lambda>ctx t n k x. (Ok (None, ''tok'', 4), x))\<rparr>"

definition nodding_nodes :: "'x NodeServiceClient" where
  "nodding_nodes = \<lparr>nstub_Get = (\<lambda>ctx u n x. (Ok beta1, x)), nstub_Create = (\<lambda>ctx n x. (Ok n, x)), nstub_Delete = (\<lambda>ctx u n x. (Ok (), x)),
     nstub_List = (\<lambda>ctx x. (Ok [beta1], x)), nstub_Update = (\<lambda>ctx u n d x. (Ok d, x)), nstub_UpdateStatus = (\<lambda>ctx u n s ps x. (Ok u, x)),
     nstub_Condition = (\<lambda>ctx r x. (Ok (), x)), nstub_Upgrade = (\<lambda>ctx r x. (Ok (), x)), nstub_Join = (\<lambda>ctx n x. (Ok ([], []), x)),
     nstub_Forget = (\<lambda>ctx u n x. (Ok u, x))\<rparr>"

definition noting_agent :: "label list Agent" where
  "noting_agent = \<lparr>ac_runtime = noting_runtime, ac_netmanager = free_net, ac_attacher = free_mounts, ac_tokenStore = free_tokens,
     ac_publisher = (\<lambda>rid ok rep x. x),
     ac_tasks = \<lparr>tc_stub = nodding_tasks, tc_ident = None, tc_uuid = sample_uuid, tc_errs = sample_ext\<rparr>,
     ac_leases = nodding_leases, ac_nodes = \<lparr>nc_stub = nodding_nodes, nc_ident = None, nc_uuid = sample_uuid\<rparr>,
     ac_node = beta1, ac_errs = sample_ext, ac_clock = (\<lambda>_. 9)\<rparr>"

lemma tell_world [simp]: "ac_publisher c = (\<lambda>rid ok rep x. x) \<Longrightarrow> as_world (tell c t f st) = as_world st"
  by (simp add: tell_def Agent_Report_def)

lemma noting_simps [simp]:
  "ac_publisher noting_agent = (\<lambda>rid ok rep x. x)" "ac_runtime noting_agent = noting_runtime" "ac_netmanager noting_agent = free_net"
  "ac_attacher noting_agent = free_mounts" "ac_tokenStore noting_agent = free_tokens"
  by (simp_all add: noting_agent_def)

text \<open>Its calls succeed and leave the world as it is.\<close>

lemma noting_calls [simp]:
  "rt_Pid noting_runtime ctx i x = (Ok 7, x)" "rt_Get noting_runtime ctx i x = (Ok None, x)" "rt_Delete noting_runtime ctx t x = (Ok (), x)"
  "rt_Cleanup noting_runtime ctx i x = (Ok (), x)" "rt_Pull noting_runtime ctx t x = (Ok (), x)" "rt_Stop noting_runtime ctx t x = (Ok (), x)"
  "rt_Run noting_runtime ctx t l x = (Ok (), x @ [l])"
  "nm_Attach free_net ctx i pid pm x' = (Ok [], x')" "nm_Detach free_net ctx i pid pms x' = (Ok (), x')"
  "at_PrepareMounts free_mounts ctx n t x' = (Ok t, x')" "at_Detach free_mounts ctx n t x' = (Ok (), x')"
  "st_Load free_tokens i x' = (Ok ''tok'', x')" "st_Delete free_tokens i x' = (Ok (), x')"
  by (simp_all add: noting_runtime_def free_net_def free_mounts_def free_tokens_def)

text \<open>The same agent with a runtime that runs nothing, on the server of theory ClusterServer.\<close>

definition idle_runtime :: "'x Runtime" where
  "idle_runtime = \<lparr>rt_List = (\<lambda>ctx x. (Ok [], x)), rt_Get = (\<lambda>ctx i x. (Ok None, x)), rt_Delete = (\<lambda>ctx t x. (Ok (), x)),
     rt_Kill = (\<lambda>ctx t x. (Ok (), x)), rt_Stop = (\<lambda>ctx t x. (Ok (), x)), rt_Run = (\<lambda>ctx t l x. (Ok (), x)),
     rt_Cleanup = (\<lambda>ctx i x. (Ok (), x)), rt_Pull = (\<lambda>ctx t x. (Ok (), x)), rt_Labels = (\<lambda>ctx i x. (Ok [], x)),
     rt_Name = (\<lambda>ctx i x. (Ok i, x)), rt_Pid = (\<lambda>ctx i x. (Ok 7, x))\<rparr>"

definition beta_agent :: "(mem, unit) server_state Agent" where
  "beta_agent = \<lparr>ac_runtime = idle_runtime, ac_netmanager = free_net, ac_attacher = free_mounts, ac_tokenStore = free_tokens,
     ac_publisher = (\<lambda>rid ok rep x. x), ac_tasks = sc_tasks placed_controller,
     ac_leases = server_lease_stub id (\<lambda>_. (sample_env, ''e'')) placed_leases, ac_nodes = sc_nodes placed_controller,
     ac_node = beta1, ac_errs = sample_ext, ac_clock = (\<lambda>_. 9)\<rparr>"

definition agent_with :: "'x \<Rightarrow> 'x agent_state" where
  "agent_with x = \<lparr>as_epochs = [(task_uid, 3)], as_operations = [], as_task = waiting, as_report = NewReport [] 0, as_world = x\<rparr>"

lemma agent_with_simps [simp]:
  "as_task (agent_with x) = waiting" "as_world (agent_with x) = x" "as_epochs (agent_with x) = [(task_uid, 3)]"
  "task_uid_of waiting = task_uid" "task_Config waiting = Some (empty_TaskConfig\<lparr>tc_Image := ''nginx''\<rparr>)"
  by (simp_all add: agent_with_def waiting_def created_task_def sample_task_def)

lemma noting_clients [simp]:
  "statusV1_Update (ac_tasks noting_agent) ctx task_uid s ps x = (Ok (), x)"
  "statusV1_SetPhase (ac_tasks noting_agent) ctx task_uid v x = (Ok (), x)"
  "statusV1_SetReason (ac_tasks noting_agent) ctx task_uid v x = (Ok (), x)"
  "lease_Release (ac_leases noting_agent) ctx t n k x = (Ok (), x)"
  by (simp_all add: statusV1_SetPhase_def statusV1_SetReason_def statusV1_Update_def by_text_def noting_agent_def nodding_tasks_def
      task_uid_def sample_uuid_def keys_ParseStr_def keys_FromUIDOrName_def keys_UUID_def UUIDLen_def lease_Release_def nodding_leases_def)

lemmas agent_steps = Agent_detachNetwork_def Agent_attachNetwork_def Agent_attachMounts_def Agent_detachMounts_def
  Agent_pullImage_def Agent_deleteTask_def tell_failure_def skipMissing_def ignoring_def deferred_def env_call_def task_ports_def
  Let_def

section \<open>Properties\<close>





text \<open>
  C13. No agent takes on a task that another node holds: while the lease stored on the server
  is in force for another node, a request to run the task puts nothing on the queue of the
  agent, whatever else happens.
\<close>

theorem agent_schedule_excluded:
  assumes "leases (lsv_Manager ls) content tcontent tinv" and "grpc_documented (lib_errs (lsv_libs ls))"
    and "ac_leases c = server_lease_stub wire lclock ls"
    and "Agent_getNode c None st = (Ok nd, st)"
    and "leases_ok (lib_uuid (lsv_libs ls)) (lm_db (lsv_Manager ls)) (content (fst (as_world st))) A"
    and "uid_of st \<noteq> []" and "node_uid_of nd \<noteq> []" and "0 < lease_duration ls"
    and "lease_at A (uid_of st) = Some cur" and "env_now (fst (lclock (as_world st))) < expires_at cur"
    and "holder_of cur \<noteq> node_uid_of nd"
    and "Agent_processSchedule c None now node (q, st) = (r, (q', st'))"
  shows "q' = q"
proof -
  obtain s w where x: "as_world st = (s, w)" by (cases "as_world st")
  have rel: "repo_rel (lm_db (lsv_Manager ls)) (content s) A" using assms(5) by (simp add: leases_ok_def x)
  have "env_now (fst (lclock (s, w))) < expires_at cur" using assms(10) by (simp add: x)
  from acquire_over_wire [where lclock = lclock and w = w, OF assms(1,2) rel assms(6-9) this assms(11), of wire] obtain e where
    "lease_Acquire (ac_leases c) None (uid_of st) (node_uid_of nd) (as_world st) = (Err e, as_world st)"
    unfolding assms(3) x by blast
  then have "\<not> is_Ok (fst (Agent_acquireLease c None st))"
    using assms(4) by (simp add: Agent_acquireLease_def env_call_def)
  from processSchedule_queue [OF assms(12) this] show ?thesis .
qed

theorem agent_schedule_excluded_witness:
  "fst (snd (Agent_processSchedule beta_agent None 9 beta1 (NewTaskQueue, agent_with placed_state))) = NewTaskQueue"
proof -
  have l: "leases (lsv_Manager placed_leases) map_of (\<lambda>s t. map_of (fst t)) (\<lambda>s t. \<not> snd t \<longrightarrow> fst t = s)"
    using sample_lm_leases by (simp add: placed_leases_def)
  have g: "grpc_documented (lib_errs (lsv_libs placed_leases))" by (simp add: placed_leases_def sample_libs_def sample_ext_documented)
  have a: "ac_leases beta_agent = server_lease_stub id (\<lambda>_. (sample_env, ''e'')) placed_leases" by (simp add: beta_agent_def)
  have n: "Agent_getNode beta_agent None (agent_with placed_state) = (Ok beta1, agent_with placed_state)" by code_simp
  have k: "leases_ok (lib_uuid (lsv_libs placed_leases)) (lm_db (lsv_Manager placed_leases)) (map_of (fst (as_world (agent_with placed_state)))) lease1_state"
    using placed_leases_ok by (simp add: placed_leases_def agent_with_def placed_state_def sample_libs_def)
  have u: "uid_of (agent_with placed_state) = task_uid" "task_uid \<noteq> []" "node_uid_of beta1 = sample_uid" "sample_uid \<noteq> []"
    by (simp_all add: agent_with_def waiting_def task_uid_def beta1_def sample_uid_def)
  have t: "0 < lease_duration placed_leases" by (simp add: lease_duration_def placed_leases_def)
  have h: "env_now sample_env < expires_at lease1" "holder_of lease1 \<noteq> sample_uid"
    by (simp_all add: lease1_def sample_env_def ttl_duration_def lm_with_def sample_uid_def)
  obtain r q' st' where p: "Agent_processSchedule beta_agent None 9 beta1 (NewTaskQueue, agent_with placed_state) = (r, (q', st'))"
    by (metis surj_pair)
  from agent_schedule_excluded [OF l g a n k _ _ t _ _ _ p, of lease1] u h lease1_ok(2) p show ?thesis by simp
qed

text \<open>
  When the volumes of a task cannot be detached, stopping it returns without an error and
  without asking the runtime to stop it; the lease is then given back while the container
  may still run.
\<close>

theorem agent_stop_strands:
  assumes "Agent_detachNetwork c ctx s = (Ok (), s1)" and "Agent_detachMounts c ctx s1 = (Err e, s2)"
    and "\<not> IsNotFound (ac_errs c) (Some e)"
  shows "teardown c ctx halt s = (Ok (), s2)"
  using assms by (simp add: teardown_def skipMissing_def IgnoreNotFound_def)

end
