(* ===== verification/LeaseController.thy ===== *)
theory LeaseController
  imports ClusterServer
begin

text \<open>
  The lease controller of the server, pkg/controller/lease/lease.go: one timer per lease,
  which looks at the lease again when it fires and announces it as expired unless it was
  renewed in the meantime.

  A timer is named by its address in a heap; it is armed until it fires or is stopped. It
  keeps the context it was made with, by name (\<open>ctx_ref\<close>), because that context can be cancelled
  before the timer fires. The table of timers is behind a mutex, so an operation on it is
  one step; a timer's function runs in its own goroutine, and its calls of the server, of
  the exchange and of the table are separate steps.
\<close>

section \<open>Timers\<close>

type_synonym ctx_ref = nat

datatype timer = Armed ctx_ref string instant | Idle

record timers =
  tm_table :: "(string, nat) gomap"
  tm_heap :: "timer list"

definition no_timers :: timers where
  "no_timers = \<lparr>tm_table = [], tm_heap = []\<rparr>"

text \<open>\<^verbatim>\<open>time.Until\<close>: a duration is a signed 64-bit number, and the difference saturates.\<close>

definition time_Until :: "instant \<Rightarrow> instant \<Rightarrow> int" where
  "time_Until now t = max (- (2 ^ 63)) (min (2 ^ 63 - 1) (t - now))"

definition timer_Stop :: "nat \<Rightarrow> timers \<Rightarrow> timers" where
  "timer_Stop i t = t\<lparr>tm_heap := (tm_heap t)[i := Idle]\<rparr>"

definition AfterFunc :: "ctx_ref \<Rightarrow> string \<Rightarrow> instant \<Rightarrow> timers \<Rightarrow> nat \<times> timers" where
  "AfterFunc r taskID due t = (length (tm_heap t), t\<lparr>tm_heap := tm_heap t @ [Armed r taskID due]\<rparr>)"

definition trackLease :: "ctx_ref \<Rightarrow> string \<Rightarrow> instant \<Rightarrow> instant \<Rightarrow> timers \<Rightarrow> timers" where
  "trackLease r taskID expiresAt now t =
     (let t = (case map_of (tm_table t) taskID of Some i \<Rightarrow> timer_Stop i t | None \<Rightarrow> t);
          d = time_Until now expiresAt;
          d = (if d < 0 then 0 else d)
      in case AfterFunc r taskID (now + d) t of (i, t) \<Rightarrow> t\<lparr>tm_table := AList.update taskID i (tm_table t)\<rparr>)"

definition stopTracking :: "string \<Rightarrow> timers \<Rightarrow> timers" where
  "stopTracking taskID t =
     (case map_of (tm_table t) taskID of
        Some i \<Rightarrow> (timer_Stop i t)\<lparr>tm_table := AList.delete taskID (tm_table t)\<rparr>
      | None \<Rightarrow> t)"

fun stop_each :: "string list \<Rightarrow> timers \<Rightarrow> timers" where
  "stop_each [] t = t"
| "stop_each (taskID # ids) t = stop_each ids (stopTracking taskID t)"

text \<open>The loop of \<^verbatim>\<open>stopAllTimers\<close> over the keys of the map.\<close>

definition stopAllTimers :: "timers \<Rightarrow> timers" where
  "stopAllTimers t = stop_each (map fst (tm_table t)) t"

section \<open>The controller\<close>

text \<open>
  The lease client, the exchange it forwards on, the clock and a source of event names.
  Its state is the timers and the world \<open>'x\<close> that its clients act on.
\<close>

record 'x LeaseController =
  lct_leases :: "'x LeaseServiceClient"
  lct_exchange :: "'x bus"
  lct_clock :: "'x \<Rightarrow> instant"
  lct_fresh :: "'x \<Rightarrow> string"

definition expiry_of :: "Lease option \<Rightarrow> instant" where
  "expiry_of lease = (case lease of None \<Rightarrow> AsTime None | Some l \<Rightarrow> AsTime (lc_ExpiresAt (lease_config l)))"

definition expired_event :: "'x LeaseController \<Rightarrow> Lease option \<Rightarrow> 'x \<Rightarrow> Event" where
  "expired_event c lease x =
     NewEvent (lct_fresh c x) LeaseExpired
       (AnyLease (case lease of None \<Rightarrow> \<lparr>lease_Version = [], lease_Meta = None, lease_Config = None, lease_Status = None\<rparr> | Some l \<Rightarrow> l)) []"

text \<open>
  \<^verbatim>\<open>onTimerFired\<close>, in the pieces between which other goroutines may run: what is left to do
  after each.
\<close>

datatype firing = Fire ctx_ref string | Rearm ctx_ref string instant | Announce ctx_ref string "Lease option" | Untrack string | Finished

definition timer_look :: "'x LeaseController \<Rightarrow> ctx_ref \<Rightarrow> ctx \<Rightarrow> string \<Rightarrow> 'x \<Rightarrow> firing res \<times> 'x" where
  "timer_look c r ctx taskID x =
     (case lease_Get (lct_leases c) ctx taskID x of
        (Panic m, x) \<Rightarrow> (Panic m, x)
      | (Err e, x) \<Rightarrow> (Ok (Untrack taskID), x)
      | (Ok lease, x) \<Rightarrow>
          if lct_clock c x < expiry_of lease then (Ok (Rearm r taskID (expiry_of lease)), x)
          else (Ok (Announce r taskID lease), x))"

text \<open>The error of \<^verbatim>\<open>Forward\<close> is logged.\<close>

definition timer_announce :: "'x LeaseController \<Rightarrow> ctx \<Rightarrow> string \<Rightarrow> Lease option \<Rightarrow> 'x \<Rightarrow> firing res \<times> 'x" where
  "timer_announce c ctx taskID lease x =
     (case bus_Forward (lct_exchange c) ctx (expired_event c lease x) x of
        (Panic m, x) \<Rightarrow> (Panic m, x)
      | (_, x) \<Rightarrow> (Ok (Untrack taskID), x))"

fun timer_piece :: "'x LeaseController \<Rightarrow> (ctx_ref \<Rightarrow> ctx) \<Rightarrow> firing \<Rightarrow> timers \<times> 'x \<Rightarrow> firing res \<times> (timers \<times> 'x)" where
  "timer_piece c ctx_of (Fire r taskID) (t, x) = (case timer_look c r (ctx_of r) taskID x of (res, x) \<Rightarrow> (res, (t, x)))"
| "timer_piece c ctx_of (Rearm r taskID expiresAt) (t, x) = (Ok Finished, (trackLease r taskID expiresAt (lct_clock c x) t, x))"
| "timer_piece c ctx_of (Announce r taskID lease) (t, x) = (case timer_announce c (ctx_of r) taskID lease x of (res, x) \<Rightarrow> (res, (t, x)))"
| "timer_piece c ctx_of (Untrack taskID) (t, x) = (Ok Finished, (stopTracking taskID t, x))"
| "timer_piece c ctx_of Finished (t, x) = (Ok Finished, (t, x))"

definition onTimerFired :: "'x LeaseController \<Rightarrow> (ctx_ref \<Rightarrow> ctx) \<Rightarrow> ctx_ref \<Rightarrow> string \<Rightarrow> timers \<times> 'x \<Rightarrow> firing res \<times> (timers \<times> 'x)" where
  "onTimerFired c ctx_of r taskID st =
     andThen (timer_piece c ctx_of (Fire r taskID) st) (\<lambda>p st.
     andThen (timer_piece c ctx_of p st) (\<lambda>p st.
     timer_piece c ctx_of p st))"

definition onLeaseAcquired :: "'x LeaseController \<Rightarrow> ctx_ref \<Rightarrow> Lease \<Rightarrow> timers \<times> 'x \<Rightarrow> unit res \<times> (timers \<times> 'x)" where
  "onLeaseAcquired c r lease st =
     (case st of (t, x) \<Rightarrow>
       (Ok (), (trackLease r (lc_TaskId (lease_config lease)) (AsTime (lc_ExpiresAt (lease_config lease))) (lct_clock c x) t, x)))"

definition onTaskDeleted :: "'x LeaseController \<Rightarrow> ctx \<Rightarrow> Task \<Rightarrow> timers \<times> 'x \<Rightarrow> unit res \<times> (timers \<times> 'x)" where
  "onTaskDeleted c ctx task st =
     (case st of (t, x) \<Rightarrow>
       (let taskID = task_name_of task;
            t = stopTracking taskID t
        in case lease_Get (lct_leases c) ctx taskID x of
             (Panic m, x) \<Rightarrow> (Panic m, (t, x))
           | (Err e, x) \<Rightarrow> (Ok (), (t, x))
           | (Ok lease, x) \<Rightarrow>
               (case lease_Revoke (lct_leases c) ctx taskID (case lease of None \<Rightarrow> [] | Some l \<Rightarrow> lc_NodeId (lease_config l)) x of
                  (res, x) \<Rightarrow> (res, (t, x)))))"

fun track_each :: "'x LeaseController \<Rightarrow> ctx_ref \<Rightarrow> Lease list \<Rightarrow> timers \<times> 'x \<Rightarrow> timers \<times> 'x" where
  "track_each c r [] st = st"
| "track_each c r (lease # rest) (t, x) =
     track_each c r rest
       (trackLease r (lc_TaskId (lease_config lease)) (AsTime (lc_ExpiresAt (lease_config lease))) (lct_clock c x) t, x)"

definition recoverTimers :: "'x LeaseController \<Rightarrow> ctx_ref \<Rightarrow> ctx \<Rightarrow> timers \<times> 'x \<Rightarrow> unit res \<times> (timers \<times> 'x)" where
  "recoverTimers c r ctx st =
     (case st of (t, x) \<Rightarrow>
       (case lease_List (lct_leases c) ctx [] x of
          (Panic m, x) \<Rightarrow> (Panic m, (t, x))
        | (Err e, x) \<Rightarrow> (Ok (), (t, x))
        | (Ok listed, x) \<Rightarrow> (Ok (), track_each c r listed (t, x))))"

section \<open>Interleaving\<close>

text \<open>
  The controller with the timer functions that are running: a due timer fires, a running
  function does its next piece under whatever its context has become, an event arrives, the
  timers are recovered or all stopped, or the world changes.
\<close>

inductive lct_step :: "'x LeaseController \<Rightarrow> timers \<times> 'x \<times> firing list \<Rightarrow> timers \<times> 'x \<times> firing list \<Rightarrow> bool" for c where
  fires: "i < length (tm_heap t) \<Longrightarrow> tm_heap t ! i = Armed r taskID due \<Longrightarrow> due \<le> lct_clock c x
    \<Longrightarrow> lct_step c (t, x, ps) (timer_Stop i t, x, ps @ [Fire r taskID])"
| piece: "k < length ps \<Longrightarrow> timer_piece c ctx_of (ps ! k) (t, x) = (Ok p, (t', x')) \<Longrightarrow> lct_step c (t, x, ps) (t', x', ps[k := p])"
| acquired: "onLeaseAcquired c r lease (t, x) = (res, (t', x')) \<Longrightarrow> lct_step c (t, x, ps) (t', x', ps)"
| deleted: "onTaskDeleted c ctx task (t, x) = (res, (t', x')) \<Longrightarrow> lct_step c (t, x, ps) (t', x', ps)"
| recovered: "recoverTimers c r ctx (t, x) = (res, (t', x')) \<Longrightarrow> lct_step c (t, x, ps) (t', x', ps)"
| shutdown: "lct_step c (t, x, ps) (stopAllTimers t, x, ps)"
| world: "lct_step c (t, x, ps) (t, x', ps)"

inductive_cases lct_stepE: "lct_step c s s'"

text \<open>
  The table is in order: it has at most one timer per task, and every armed timer is the one the
  table has for its task.
\<close>

definition timers_ok :: "timers \<Rightarrow> bool" where
  "timers_ok t \<longleftrightarrow> distinct (map fst (tm_table t))
     \<and> (\<forall>taskID i. map_of (tm_table t) taskID = Some i \<longrightarrow> i < length (tm_heap t) \<and> (\<forall>r tid due. tm_heap t ! i = Armed r tid due \<longrightarrow> tid = taskID))
     \<and> (\<forall>i r taskID due. i < length (tm_heap t) \<longrightarrow> tm_heap t ! i = Armed r taskID due \<longrightarrow> map_of (tm_table t) taskID = Some i)"

text \<open>When the timer of a task is due, if it is armed.\<close>

definition due_of :: "timers \<Rightarrow> string \<Rightarrow> instant option" where
  "due_of t taskID = (case map_of (tm_table t) taskID of
     None \<Rightarrow> None | Some i \<Rightarrow> (case tm_heap t ! i of Armed _ _ due \<Rightarrow> Some due | Idle \<Rightarrow> None))"

lemma timer_Stop_simps [simp]:
  "tm_table (timer_Stop i t) = tm_table t" "length (tm_heap (timer_Stop i t)) = length (tm_heap t)"
  "j < length (tm_heap t) \<Longrightarrow> tm_heap (timer_Stop i t) ! j = (if i = j then Idle else tm_heap t ! j)"
  by (simp_all add: timer_Stop_def nth_list_update)

lemma timers_ok_none [simp]: "timers_ok no_timers"
  by (simp add: timers_ok_def no_timers_def)

lemma timers_ok_Stop: "timers_ok t \<Longrightarrow> timers_ok (timer_Stop i t)"
  by (auto simp: timers_ok_def split: if_splits)

text \<open>Two entries of a table in order have different timers unless neither is armed.\<close>

lemma timers_ok_other:
  assumes "timers_ok t" "map_of (tm_table t) a = Some i" "map_of (tm_table t) b = Some i" "tm_heap t ! i = Armed r tid d"
  shows "a = b"
  using assms unfolding timers_ok_def by metis

lemma timers_okD:
  assumes "timers_ok t"
  shows "distinct (map fst (tm_table t))"
    and "map_of (tm_table t) taskID = Some i \<Longrightarrow> i < length (tm_heap t)"
    and "map_of (tm_table t) taskID = Some i \<Longrightarrow> tm_heap t ! i = Armed r tid due \<Longrightarrow> tid = taskID"
    and "i < length (tm_heap t) \<Longrightarrow> tm_heap t ! i = Armed r taskID due \<Longrightarrow> map_of (tm_table t) taskID = Some i"
  using assms unfolding timers_ok_def by blast+

lemma timers_okI:
  assumes "distinct (map fst (tm_table t))"
    and "\<And>taskID i. map_of (tm_table t) taskID = Some i \<Longrightarrow> i < length (tm_heap t)"
    and "\<And>taskID i r tid due. map_of (tm_table t) taskID = Some i \<Longrightarrow> tm_heap t ! i = Armed r tid due \<Longrightarrow> tid = taskID"
    and "\<And>i r taskID due. i < length (tm_heap t) \<Longrightarrow> tm_heap t ! i = Armed r taskID due \<Longrightarrow> map_of (tm_table t) taskID = Some i"
  shows "timers_ok t"
  using assms unfolding timers_ok_def by blast

lemma stopTracking_ok:
  assumes ok: "timers_ok t"
  shows "timers_ok (stopTracking taskID t)"
proof (cases "map_of (tm_table t) taskID")
  case (Some i)
  let ?t = "timer_Stop i t"
  have t': "timers_ok ?t" by (rule timers_ok_Stop [OF ok])
  have idle: "tm_heap ?t ! j \<noteq> Armed r taskID due" if "j < length (tm_heap t)" for j r due
  proof
    assume h: "tm_heap ?t ! j = Armed r taskID due"
    from timers_okD(4) [OF t' _ h] that Some have "i = j" by simp
    with h that show False by simp
  qed
  have e: "stopTracking taskID t = ?t\<lparr>tm_table := AList.delete taskID (tm_table t)\<rparr>" using Some by (simp add: stopTracking_def)
  let ?u = "?t\<lparr>tm_table := AList.delete taskID (tm_table t)\<rparr>"
  have "timers_ok ?u"
  proof (rule timers_okI)
    show "distinct (map fst (tm_table ?u))" using distinct_keys_delete [OF timers_okD(1) [OF ok]] by simp
    fix a j assume "map_of (tm_table ?u) a = Some j"
    then have a: "map_of (tm_table ?t) a = Some j" by (simp split: if_splits)
    from timers_okD(2) [OF t' a] show "j < length (tm_heap ?u)" by simp
    fix r tid due assume "tm_heap ?u ! j = Armed r tid due"
    with timers_okD(3) [OF t' a] show "tid = a" by simp
  next
    fix j r a due assume "j < length (tm_heap ?u)" "tm_heap ?u ! j = Armed r a due"
    then have j: "j < length (tm_heap ?t)" and h: "tm_heap ?t ! j = Armed r a due" by simp_all
    from j h idle [of j r due] timers_okD(4) [OF t' j h] show "map_of (tm_table ?u) a = Some j" by auto
  qed
  then show ?thesis unfolding e .
qed (simp add: stopTracking_def ok)

lemma stopTracking_table: "map_of (tm_table (stopTracking taskID t)) = (map_of (tm_table t))(taskID := None)"
  by (cases "map_of (tm_table t) taskID") (auto simp: stopTracking_def delete_conv')

lemma due_of_stopTracking:
  assumes ok: "timers_ok t"
  shows "due_of (stopTracking taskID t) tid = (if tid = taskID then None else due_of t tid)"
proof (cases "map_of (tm_table t) taskID")
  case (Some i)
  have "due_of (stopTracking taskID t) tid = due_of t tid" if "tid \<noteq> taskID"
  proof (cases "map_of (tm_table t) tid")
    case (Some j)
    from ok Some have j: "j < length (tm_heap t)" by (simp add: timers_ok_def)
    show ?thesis
    proof (cases "tm_heap t ! j")
      case (Armed r k d)
      with timers_ok_other [OF ok Some _ Armed, of taskID] that \<open>map_of (tm_table t) taskID = Some i\<close> have "i \<noteq> j" by auto
      then show ?thesis using Some \<open>map_of (tm_table t) taskID = Some i\<close> that j by (simp add: due_of_def stopTracking_def)
    qed (use Some \<open>map_of (tm_table t) taskID = Some i\<close> that j in \<open>simp add: due_of_def stopTracking_def\<close>)
  qed (use Some that in \<open>simp add: due_of_def stopTracking_def\<close>)
  then show ?thesis by (simp add: due_of_def stopTracking_table)
qed (auto simp: stopTracking_def due_of_def)

text \<open>Tracking a task forgets its old timer and arms a new one.\<close>

lemma trackLease_unfold:
  "trackLease r taskID expiresAt now t =
     (let t1 = (case map_of (tm_table t) taskID of Some i \<Rightarrow> timer_Stop i t | None \<Rightarrow> t)
      in \<lparr>tm_table = AList.update taskID (length (tm_heap t)) (tm_table t),
          tm_heap = tm_heap t1 @ [Armed r taskID (now + max 0 (time_Until now expiresAt))]\<rparr>)"
  by (auto simp: trackLease_def Let_def AfterFunc_def max_def split: option.splits)

lemma trackLease_ok:
  assumes ok: "timers_ok t"
  shows "timers_ok (trackLease r taskID expiresAt now t)"
proof -
  define u where "u = stopTracking taskID t"
  have u: "timers_ok u" "length (tm_heap u) = length (tm_heap t)" "map_of (tm_table u) = (map_of (tm_table t))(taskID := None)"
    by (simp_all add: u_def stopTracking_ok ok stopTracking_table) (simp add: stopTracking_def split: option.split)
  have e: "trackLease r taskID expiresAt now t = \<lparr>tm_table = AList.update taskID (length (tm_heap t)) (tm_table t),
      tm_heap = tm_heap u @ [Armed r taskID (now + max 0 (time_Until now expiresAt))]\<rparr>"
    by (simp add: trackLease_unfold Let_def u_def stopTracking_def split: option.split)
  have entry: "i < length (tm_heap t)" "tm_heap u ! i = Armed r' b d \<Longrightarrow> b = a"
    if "map_of (tm_table t) a = Some i" "a \<noteq> taskID" for a i r' b d
    using timers_okD(2,3) [OF u(1), of a i] u(2,3) that by auto
  show ?thesis unfolding e
  proof (rule timers_okI; simp)
    show "distinct (map fst (AList.update taskID (length (tm_heap t)) (tm_table t)))" by (rule distinct_keys_update [OF timers_okD(1) [OF ok]])
    fix a i assume "(if a = taskID then Some (length (tm_heap t)) else map_of (tm_table t) a) = Some i"
    with entry show "i < Suc (length (tm_heap u))"
      and "\<And>r' b d. (tm_heap u @ [Armed r taskID (now + max 0 (time_Until now expiresAt))]) ! i = Armed r' b d \<Longrightarrow> b = a"
      by (fastforce simp: u(2) nth_append split: if_splits)+
  next
    fix i r' a d assume "i < Suc (length (tm_heap u))"
      and "(tm_heap u @ [Armed r taskID (now + max 0 (time_Until now expiresAt))]) ! i = Armed r' a d"
    with timers_okD(4) [OF u(1), of i r' a d] u(2,3)
    show "(a = taskID \<longrightarrow> length (tm_heap t) = i) \<and> (a \<noteq> taskID \<longrightarrow> map_of (tm_table t) a = Some i)"
      by (auto simp: nth_append less_Suc_eq split: if_splits)
  qed
qed

lemma due_of_trackLease:
  assumes ok: "timers_ok t"
  shows "due_of (trackLease r taskID expiresAt now t) tid =
    (if tid = taskID then Some (now + max 0 (time_Until now expiresAt)) else due_of t tid)"
proof (cases "tid = taskID")
  case True
  have "length (tm_heap (case map_of (tm_table t) taskID of Some i \<Rightarrow> timer_Stop i t | None \<Rightarrow> t)) = length (tm_heap t)"
    by (simp split: option.split)
  with True show ?thesis by (simp add: due_of_def trackLease_unfold Let_def nth_append)
next
  case False
  have "due_of (trackLease r taskID expiresAt now t) tid = due_of (stopTracking taskID t) tid"
  proof (cases "map_of (tm_table t) tid")
    case (Some j)
    from ok Some have "j < length (tm_heap t)" by (simp add: timers_ok_def)
    with Some False show ?thesis
      by (simp add: due_of_def trackLease_unfold Let_def nth_append stopTracking_def split: option.split)
  qed (use False in \<open>simp add: due_of_def trackLease_unfold Let_def stopTracking_def split: option.split\<close>)
  with due_of_stopTracking [OF ok, of taskID tid] False show ?thesis by simp
qed

lemma stop_each_ok: "timers_ok t \<Longrightarrow> timers_ok (stop_each ids t)"
  by (induction ids arbitrary: t) (simp_all add: stopTracking_ok)

lemma track_each_ok: "timers_ok t \<Longrightarrow> timers_ok (fst (track_each c r ls (t, x)))"
  by (induction ls arbitrary: t) (simp_all add: trackLease_ok)

lemma stop_each_table: "map_of (tm_table (stop_each ids t)) k = (if k \<in> set ids then None else map_of (tm_table t) k)"
  by (induction ids arbitrary: t) (simp_all add: stopTracking_table)

lemma stopAllTimers_empty: "map_of (tm_table (stopAllTimers t)) = Map.empty"
proof
  fix k
  show "map_of (tm_table (stopAllTimers t)) k = None"
    by (cases "k \<in> fst ` set (tm_table t)") (simp_all add: stopAllTimers_def stop_each_table map_of_eq_None_iff)
qed

lemma timer_piece_ok:
  assumes "timers_ok t" and "timer_piece c ctx_of p (t, x) = (res, (t', x'))"
  shows "timers_ok t'"
  using assms by (cases p) (auto simp: stopTracking_ok trackLease_ok split: prod.splits)

lemma lct_step_ok:
  assumes "lct_step c s s'" and "timers_ok (fst s)"
  shows "timers_ok (fst s')"
  using assms
proof cases
  case (piece k ps ctx_of t x p t' x')
  with assms timer_piece_ok [OF _ piece(4)] show ?thesis by simp
next
  case (recovered r ctx t x res t' x' ps)
  with assms track_each_ok [of t c r] show ?thesis
    by (auto simp: recoverTimers_def split: prod.splits result.splits) (metis fst_conv)+
next
  case (deleted ctx task t x res t' x' ps)
  with assms stopTracking_ok [of t "task_name_of task"] show ?thesis
    by (auto simp: onTaskDeleted_def Let_def split: prod.splits result.splits)
qed (use assms in \<open>auto simp: timers_ok_Stop onLeaseAcquired_def trackLease_ok stopAllTimers_def stop_each_ok\<close>)

lemma lct_steps_ok: "(lct_step c)\<^sup>*\<^sup>* s s' \<Longrightarrow> timers_ok (fst s) \<Longrightarrow> timers_ok (fst s')"
  by (induction rule: rtranclp_induct) (simp_all add: lct_step_ok)

lemma stopAllTimers_idle:
  assumes "timers_ok t" and "i < length (tm_heap (stopAllTimers t))"
  shows "tm_heap (stopAllTimers t) ! i = Idle"
proof (cases "tm_heap (stopAllTimers t) ! i")
  case (Armed r taskID due)
  have "timers_ok (stopAllTimers t)" using assms(1) by (simp add: stopAllTimers_def stop_each_ok)
  from timers_okD(4) [OF this assms(2) Armed] show ?thesis by (simp add: stopAllTimers_empty)
qed

lemma time_Until_ahead: "now < e \<Longrightarrow> now < now + max 0 (time_Until now e) \<and> now + max 0 (time_Until now e) \<le> e"
  by (auto simp: time_Until_def max_def min_def)

section \<open>Properties\<close>

text \<open>A controller over the sample server, with its clock at \<open>now\<close>.\<close>

definition placed_tracker :: "instant \<Rightarrow> (mem, unit) server_state LeaseController" where
  "placed_tracker now = \<lparr>lct_leases = server_lease_stub id (\<lambda>_. (sample_env, ''e'')) placed_leases, lct_exchange = quiet_bus,
     lct_clock = (\<lambda>_. now), lct_fresh = (\<lambda>_. ''e'')\<rparr>"



text \<open>
  The lazy check of a timer is right: when the timer of a task fires, with its context
  still live, and the server has no lease for the task, the task is no longer tracked; if
  the lease was renewed the timer is armed again, to fire later and at the latest when
  the lease runs out; if it ran out, exactly the event that says so is forwarded, with the stored lease, and the
  task is no longer tracked. The timers of other tasks stay as they are.
\<close>

theorem lease_timer_checks:
  assumes "server_cluster ts ls content tcontent tinv wire" and "server_inv ts ls content x" and "taskID \<noteq> []"
    and "lct_leases c = server_lease_stub wire lclock ls" and "timers_ok t" and "ctx_of r = None"
    and "\<And>ev m y. bus_Forward (lct_exchange c) None ev x \<noteq> (Panic m, y)"
  shows "\<exists>t' x'. onTimerFired c ctx_of r taskID (t, x) = (Ok Finished, (t', x'))
    \<and> (case server_lease_of ls x taskID of
         None \<Rightarrow> x' = x \<and> due_of t' taskID = None
       | Some l \<Rightarrow>
           if lct_clock c x < expires_at l
           then x' = x \<and> (\<exists>d. due_of t' taskID = Some d \<and> lct_clock c x < d \<and> d \<le> expires_at l)
           else x' = snd (bus_Forward (lct_exchange c) None (NewEvent (lct_fresh c x) LeaseExpired (AnyLease l) []) x) \<and> due_of t' taskID = None)
    \<and> (\<forall>other. other \<noteq> taskID \<longrightarrow> due_of t' other = due_of t other)"
proof (cases "server_lease_of ls x taskID")
  case None
  from server_cluster.not_found_wire [OF assms(1), of None x] obtain e where
    "over_wire wire (fail_status (tsv_errs ts) (None :: Lease option) (Sentinel RepoErrNotFound), x) = (Err e, x)" by blast
  with server_cluster.lease_get_call [OF assms(1-3), of lclock] None
  have "onTimerFired c ctx_of r taskID (t, x) = (Ok Finished, (stopTracking taskID t, x))"
    by (simp add: onTimerFired_def timer_look_def assms(4,6))
  with None due_of_stopTracking [OF assms(5)] show ?thesis by simp
next
  case (Some l)
  from server_cluster.lease_get_call [OF assms(1-3), of lclock] Some
  have g: "lease_Get (lct_leases c) None taskID x = (Ok (Some l), x)" by (simp add: assms(4))
  show ?thesis
  proof (cases "lct_clock c x < expires_at l")
    case True
    with g have "onTimerFired c ctx_of r taskID (t, x) = (Ok Finished, (trackLease r taskID (expires_at l) (lct_clock c x) t, x))"
      by (simp add: onTimerFired_def timer_look_def assms(6) expiry_of_def)
    with Some True due_of_trackLease [OF assms(5)] time_Until_ahead [OF True] show ?thesis by simp
  next
    case False
    let ?ev = "NewEvent (lct_fresh c x) LeaseExpired (AnyLease l) []"
    obtain res x' where f: "bus_Forward (lct_exchange c) None ?ev x = (res, x')" by (metis surj_pair)
    have "\<forall>m. res \<noteq> Panic m" using assms(7) [of ?ev _ x'] f by auto
    with f g False have "onTimerFired c ctx_of r taskID (t, x) = (Ok Finished, (stopTracking taskID t, x'))"
      by (cases res) (simp_all add: onTimerFired_def timer_look_def timer_announce_def expired_event_def assms(6) expiry_of_def)
    with Some False f due_of_stopTracking [OF assms(5)] show ?thesis by simp
  qed
qed

theorem lease_timer_checks_witness:
  "(\<exists>t' x'. onTimerFired (placed_tracker 50) (\<lambda>_. None) 0 task_uid (no_timers, placed_state) = (Ok Finished, (t', x')) \<and> (\<exists>d. due_of t' task_uid = Some d \<and> 50 < d))
   \<and> (\<exists>t' x'. onTimerFired (placed_tracker (61 * second)) (\<lambda>_. None) 0 task_uid (no_timers, placed_state) = (Ok Finished, (t', x')) \<and> due_of t' task_uid = None)"
proof -
  have u: "task_uid \<noteq> []" by (simp add: task_uid_def)
  have c: "lct_leases (placed_tracker now) = server_lease_stub id (\<lambda>_. (sample_env, ''e'')) placed_leases"
    "\<And>ev m y. bus_Forward (lct_exchange (placed_tracker now)) None ev placed_state \<noteq> (Panic m, y)" "lct_clock (placed_tracker now) y = now" for now y
    by (simp_all add: placed_tracker_def quiet_bus_def)
  have l: "expires_at lease1 = 60 * second + 100"
    by (simp add: lease1_def sample_env_def ttl_duration_def lm_with_def)
  note fired = lease_timer_checks [OF placed.server_cluster_axioms placed_state_inv u c(1) timers_ok_none _ c(2), of "\<lambda>_. None" 0]
  show ?thesis
    using fired [of 50] fired [of "61 * second"] by (auto simp: placed_lease l c(3))
qed

text \<open>
  The context of the timer is that of the request that acquired the lease. When the lookup
  fails because that request has ended and its context is cancelled, the lease is taken for
  gone: the timer is dropped and nothing is forwarded.
\<close>

theorem lease_timer_cancelled:
  assumes "lease_Get (lct_leases c) (ctx_of r) taskID x = (Err e, x')"
  shows "onTimerFired c ctx_of r taskID (t, x) = (Ok Finished, (stopTracking taskID t, x'))"
  using assms by (simp add: onTimerFired_def timer_look_def)

text \<open>
  A lease acquired after a timer function has read the old one as expired and before it untracks
  the task is not tracked in the end.
\<close>

theorem lease_timer_race:
  assumes "timers_ok t" and "k < length ps" and "ps ! k = Untrack (lc_TaskId (lease_config lease))"
  shows "\<exists>t1 t2. lct_step c (t, x, ps) (t1, x, ps) \<and> due_of t1 (lc_TaskId (lease_config lease)) \<noteq> None
    \<and> lct_step c (t1, x, ps) (t2, x, ps[k := Finished]) \<and> due_of t2 (lc_TaskId (lease_config lease)) = None"
proof -
  let ?id = "lc_TaskId (lease_config lease)"
  let ?t1 = "trackLease 0 ?id (AsTime (lc_ExpiresAt (lease_config lease))) (lct_clock c x) t"
  have "lct_step c (t, x, ps) (?t1, x, ps)"
    by (rule lct_step.acquired [where r = 0 and lease = lease and res = "Ok ()"]) (simp add: onLeaseAcquired_def)
  moreover have "lct_step c (?t1, x, ps) (stopTracking ?id ?t1, x, ps[k := Finished])"
    by (rule lct_step.piece [OF assms(2), where ctx_of = "\<lambda>_. None"]) (simp add: assms(3))
  ultimately show ?thesis
    using due_of_trackLease [OF assms(1)] due_of_stopTracking [OF trackLease_ok [OF assms(1)]] by (metis option.distinct(1))
qed

end
