(* ===== verification/Files.thy ===== *)
theory Files
  imports Ports
begin

text \<open>
  What the node uses of Go's packages path and os: the lexical path functions and a tree
  of files and directories.

  A tree maps the components of an absolute path to a directory or to the bytes of a file. Links,
  owners and permission bits are not part of it; what they and the hardware can make fail is
  the function \<open>fs_fault\<close>, which may answer any call on any path with an error. A failed write
  leaves a part of the data behind, as much as \<open>fs_short\<close> says.
\<close>

section \<open>Paths\<close>

text \<open>\<^verbatim>\<open>path.Clean\<close> on the elements between slashes; \<open>acc\<close> holds the result so far in reverse.\<close>

fun clean_parts :: "bool \<Rightarrow> string list \<Rightarrow> string list \<Rightarrow> string list" where
  "clean_parts rooted acc [] = rev acc"
| "clean_parts rooted acc (p # ps) =
     (if p = [] \<or> p = ''.'' then clean_parts rooted acc ps
      else if p = ''..'' then
        (case acc of
           [] \<Rightarrow> clean_parts rooted (if rooted then [] else [p]) ps
         | q # qs \<Rightarrow> clean_parts rooted (if q = ''..'' then p # acc else qs) ps)
      else clean_parts rooted (p # acc) ps)"

fun join_on :: "char \<Rightarrow> string list \<Rightarrow> string" where
  "join_on c [] = []"
| "join_on c [x] = x"
| "join_on c (x # y # ys) = x @ c # join_on c (y # ys)"

abbreviation slash :: char where
  "slash \<equiv> CHR ''/''"

definition rooted :: "string \<Rightarrow> bool" where
  "rooted p \<longleftrightarrow> (p \<noteq> [] \<and> hd p = slash)"

definition path_Clean :: "string \<Rightarrow> string" where
  "path_Clean p =
     (let parts = clean_parts (rooted p) [] (split_on slash p)
      in if rooted p then slash # join_on slash parts else if parts = [] then ''.'' else join_on slash parts)"

definition path_Join :: "string list \<Rightarrow> string" where
  "path_Join elems =
     (let es = filter (\<lambda>e. e \<noteq> []) elems in if es = [] then [] else path_Clean (join_on slash es))"

section \<open>The tree\<close>

type_synonym fpath = "string list"

datatype fnode = Dir | File bytes

datatype fop = OpStat | OpMkdir | OpRemove | OpOpen | OpRead | OpWrite | OpRename | OpChmod

record files =
  fs_nodes :: "(fpath, fnode) gomap"
  fs_cwd :: fpath
  fs_fault :: "fop \<Rightarrow> fpath \<Rightarrow> error option"
  fs_short :: "fpath \<Rightarrow> nat"
  fs_dirsize :: "fpath \<Rightarrow> int"

definition node_at :: "files \<Rightarrow> fpath \<Rightarrow> fnode option" where
  "node_at fs q = (if q = [] then Some Dir else map_of (fs_nodes fs) q)"

text \<open>Where a path leads.\<close>

definition locate :: "files \<Rightarrow> string \<Rightarrow> fpath" where
  "locate fs p = clean_parts True (if rooted p then [] else rev (fs_cwd fs)) (split_on slash p)"

text \<open>The errors of package os name the path; \<^verbatim>\<open>os.IsNotExist\<close> looks below such an error, and no other.\<close>

definition not_exist :: "string \<Rightarrow> error" where
  "not_exist p = Wrapped p (Sentinel OsErrNotExist)"

definition not_dir :: "string \<Rightarrow> error" where
  "not_dir p = Wrapped p (Foreign ''not a directory'')"

definition is_dir :: "string \<Rightarrow> error" where
  "is_dir p = Wrapped p (Foreign ''is a directory'')"

definition os_IsNotExist :: "error \<Rightarrow> bool" where
  "os_IsNotExist e \<longleftrightarrow> (e = Sentinel OsErrNotExist \<or> (\<exists>p. e = Wrapped p (Sentinel OsErrNotExist)))"

lemma os_IsNotExist_code [code, simp]:
  "os_IsNotExist (Sentinel s) \<longleftrightarrow> s = OsErrNotExist" "os_IsNotExist (Wrapped p e) \<longleftrightarrow> e = Sentinel OsErrNotExist"
  "os_IsNotExist (Errorf m) \<longleftrightarrow> False" "os_IsNotExist (StatusErr c m) \<longleftrightarrow> False" "os_IsNotExist (Foreign m) \<longleftrightarrow> False"
  by (auto simp: os_IsNotExist_def)

text \<open>Walking from \<open>d\<close> down the components: every step must be in a directory.\<close>

fun walk :: "files \<Rightarrow> string \<Rightarrow> fpath \<Rightarrow> fpath \<Rightarrow> fnode res" where
  "walk fs p d [] = (case node_at fs d of None \<Rightarrow> Err (not_exist p) | Some n \<Rightarrow> Ok n)"
| "walk fs p d (c # cs) =
     (case node_at fs d of
        None \<Rightarrow> Err (not_exist p)
      | Some (File _) \<Rightarrow> Err (not_dir p)
      | Some Dir \<Rightarrow> walk fs p (d @ [c]) cs)"

definition find_node :: "files \<Rightarrow> string \<Rightarrow> fnode res" where
  "find_node fs p = (if p = [] then Err (not_exist p) else walk fs p [] (locate fs p))"

definition fault :: "files \<Rightarrow> fop \<Rightarrow> fpath \<Rightarrow> 'a res \<Rightarrow> 'a res" where
  "fault fs f q r = (case fs_fault fs f q of Some e \<Rightarrow> Err e | None \<Rightarrow> r)"

definition set_node :: "fpath \<Rightarrow> fnode \<Rightarrow> files \<Rightarrow> files" where
  "set_node q n fs = fs\<lparr>fs_nodes := AList.update q n (fs_nodes fs)\<rparr>"

section \<open>Calls\<close>

record FileInfo =
  fi_Name :: string
  fi_Size :: int
  fi_IsDir :: bool

definition base_name :: "fpath \<Rightarrow> string" where
  "base_name q = (if q = [] then ''/'' else last q)"

definition os_Stat :: "string \<Rightarrow> files \<Rightarrow> FileInfo res" where
  "os_Stat p fs =
     bindR (fault fs OpStat (locate fs p) (find_node fs p)) (\<lambda>n.
     Ok (case n of
           Dir \<Rightarrow> \<lparr>fi_Name = base_name (locate fs p), fi_Size = fs_dirsize fs (locate fs p), fi_IsDir = True\<rparr>
         | File b \<Rightarrow> \<lparr>fi_Name = base_name (locate fs p), fi_Size = int (length b), fi_IsDir = False\<rparr>))"

text \<open>\<^verbatim>\<open>os.MkdirAll\<close> makes the missing directories one by one.\<close>

fun mkdirs :: "string \<Rightarrow> fpath \<Rightarrow> fpath \<Rightarrow> files \<Rightarrow> unit res \<times> files" where
  "mkdirs p d [] fs = (Ok (), fs)"
| "mkdirs p d (c # cs) fs =
     (case node_at fs (d @ [c]) of
        Some Dir \<Rightarrow> mkdirs p (d @ [c]) cs fs
      | Some (File _) \<Rightarrow> (Err (not_dir p), fs)
      | None \<Rightarrow> andThen (fault fs OpMkdir (d @ [c]) (Ok ()), fs) (\<lambda>_ fs. mkdirs p (d @ [c]) cs (set_node (d @ [c]) Dir fs)))"

definition os_MkdirAll :: "string \<Rightarrow> files \<Rightarrow> unit res \<times> files" where
  "os_MkdirAll p fs = (if p = [] then (Err (not_exist p), fs) else mkdirs p [] (locate fs p) fs)"

text \<open>
  \<^verbatim>\<open>os.RemoveAll\<close> removes what it can below the path and answers with the first error; what
  cannot be removed keeps its directories. A missing path is no error.
\<close>

definition below :: "fpath \<Rightarrow> fpath \<Rightarrow> bool" where
  "below q r \<longleftrightarrow> take (length q) r = q"

definition stuck :: "files \<Rightarrow> fpath \<Rightarrow> bool" where
  "stuck fs q \<longleftrightarrow> list_ex (\<lambda>(r, _). below q r \<and> fs_fault fs OpRemove r \<noteq> None) (fs_nodes fs)"

definition os_RemoveAll :: "string \<Rightarrow> files \<Rightarrow> unit res \<times> files" where
  "os_RemoveAll p fs =
     (if p = [] then (Ok (), fs)
      else
        (let q = locate fs p;
             es = List.map_filter (\<lambda>(r, _). if below q r then fs_fault fs OpRemove r else None) (fs_nodes fs)
         in (case es of [] \<Rightarrow> Ok () | e # _ \<Rightarrow> Err e,
             fs\<lparr>fs_nodes := filter (\<lambda>(r, _). below q r \<longrightarrow> stuck fs r) (fs_nodes fs)\<rparr>)))"

text \<open>The names in a directory come in order.\<close>

fun str_le :: "string \<Rightarrow> string \<Rightarrow> bool" where
  "str_le [] y = True"
| "str_le (a # x) [] = False"
| "str_le (a # x) (b # y) = (if a = b then str_le x y else (of_char a :: nat) < of_char b)"

fun insert_entry :: "string \<times> bool \<Rightarrow> (string \<times> bool) list \<Rightarrow> (string \<times> bool) list" where
  "insert_entry e [] = [e]"
| "insert_entry e (f # fs) = (if str_le (fst e) (fst f) then e # f # fs else f # insert_entry e fs)"

definition os_ReadDir :: "string \<Rightarrow> files \<Rightarrow> (string \<times> bool) list res" where
  "os_ReadDir p fs =
     bindR (fault fs OpRead (locate fs p) (find_node fs p)) (\<lambda>n.
     case n of
       File _ \<Rightarrow> Err (not_dir p)
     | Dir \<Rightarrow>
         (let q = locate fs p
          in Ok (foldr insert_entry
                   (List.map_filter (\<lambda>(r, m). if r \<noteq> [] \<and> butlast r = q then Some (last r, m = Dir) else None) (fs_nodes fs)) [])))"

definition os_ReadFile :: "string \<Rightarrow> files \<Rightarrow> bytes res" where
  "os_ReadFile p fs =
     bindR (fault fs OpRead (locate fs p) (find_node fs p)) (\<lambda>n.
     case n of Dir \<Rightarrow> Err (is_dir p) | File b \<Rightarrow> Ok b)"

text \<open>Opening for writing, with \<^verbatim>\<open>O_CREATE\<close> and \<^verbatim>\<open>O_TRUNC\<close>: the file is there and empty.\<close>

definition os_Create :: "string \<Rightarrow> files \<Rightarrow> unit res \<times> files" where
  "os_Create p fs =
     (let q = locate fs p in
      if p = [] then (Err (not_exist p), fs)
      else if q = [] then (Err (is_dir p), fs)
      else andThen (walk fs p [] (butlast q), fs) (\<lambda>n fs.
        case n of
          File _ \<Rightarrow> (Err (not_dir p), fs)
        | Dir \<Rightarrow>
            if node_at fs q = Some Dir then (Err (is_dir p), fs)
            else andThen (fault fs OpOpen q (Ok ()), fs) (\<lambda>_ fs. (Ok (), set_node q (File []) fs))))"

text \<open>Writing all of the data to an open, empty file.\<close>

definition file_write :: "string \<Rightarrow> bytes \<Rightarrow> files \<Rightarrow> unit res \<times> files" where
  "file_write p b fs =
     (let q = locate fs p in
      case fs_fault fs OpWrite q of
        Some e \<Rightarrow> (Err e, set_node q (File (take (fs_short fs q) b)) fs)
      | None \<Rightarrow> (Ok (), set_node q (File b) fs))"

definition os_WriteFile :: "string \<Rightarrow> bytes \<Rightarrow> files \<Rightarrow> unit res \<times> files" where
  "os_WriteFile p b fs = andThen (os_Create p fs) (\<lambda>_ fs. file_write p b fs)"

definition os_Remove :: "string \<Rightarrow> files \<Rightarrow> unit res \<times> files" where
  "os_Remove p fs =
     (let q = locate fs p in
      andThen (find_node fs p, fs) (\<lambda>n fs.
      if n = Dir \<and> (q = [] \<or> list_ex (\<lambda>(r, _). r \<noteq> q \<and> below q r) (fs_nodes fs)) then (Err (Wrapped p (Foreign ''directory not empty'')), fs)
      else andThen (fault fs OpRemove q (Ok ()), fs) (\<lambda>_ fs. (Ok (), fs\<lparr>fs_nodes := AList.delete q (fs_nodes fs)\<rparr>))))"

text \<open>\<^verbatim>\<open>os.Rename\<close> of a file onto a path that is free or a file.\<close>

definition rename_file :: "string \<Rightarrow> string \<Rightarrow> files \<Rightarrow> unit res \<times> files" where
  "rename_file src dst fs =
     (let q = locate fs src; q' = locate fs dst in
      andThen (find_node fs src, fs) (\<lambda>n fs.
      if dst = [] then (Err (not_exist dst), fs)
      else if q' = [] \<or> node_at fs q' = Some Dir \<or> n = Dir then (Err (Wrapped src (Foreign ''file exists'')), fs)
      else andThen (walk fs dst [] (butlast q'), fs) (\<lambda>m fs.
        case m of
          File _ \<Rightarrow> (Err (not_dir dst), fs)
        | Dir \<Rightarrow>
            andThen (fault fs OpRename q (Ok ()), fs) (\<lambda>_ fs.
            (Ok (), if q = q' then fs else set_node q' n (fs\<lparr>fs_nodes := AList.delete q (fs_nodes fs)\<rparr>)))))) "

definition os_Chmod :: "string \<Rightarrow> files \<Rightarrow> unit res" where
  "os_Chmod p fs = bindR (fault fs OpChmod (locate fs p) (find_node fs p)) (\<lambda>_. Ok ())"

section \<open>Paths below a directory\<close>

text \<open>A plain name is one element of a path: what the server's validation lets pass as the name of a resource.\<close>

definition plain :: "string \<Rightarrow> bool" where
  "plain e \<longleftrightarrow> e \<noteq> [] \<and> e \<noteq> ''.'' \<and> e \<noteq> ''..'' \<and> slash \<notin> set e"

lemma split_on_not_Nil [simp]: "split_on c xs \<noteq> []"
  by (induction xs) (auto split: list.split)

lemma split_on_free: "p \<in> set (split_on c xs) \<Longrightarrow> c \<notin> set p"
  by (induction xs arbitrary: p) (auto split: if_splits list.splits)

lemma split_on_append_any: "split_on c (xs @ c # ys) = split_on c xs @ split_on c ys"
proof (induction xs)
  case (Cons x xs)
  then show ?case by (cases "split_on c xs") auto
qed simp

lemma split_on_join: "(\<And>p. p \<in> set ps \<Longrightarrow> c \<notin> set p) \<Longrightarrow> ps \<noteq> [] \<Longrightarrow> split_on c (join_on c ps) = ps"
proof (induction c ps rule: join_on.induct)
  case (2 c x)
  then show ?case by (simp add: split_on_single)
next
  case (3 c x y ys)
  then show ?case by (simp add: split_on_append)
qed simp

lemma clean_parts_append: "clean_parts r acc (ps @ qs) = clean_parts r (rev (clean_parts r acc ps)) qs"
  by (induction r acc ps rule: clean_parts.induct) (auto split: list.split)

lemma clean_parts_plain: "(\<And>p. p \<in> set ps \<Longrightarrow> p \<noteq> [] \<and> p \<noteq> ''.'' \<and> p \<noteq> ''..'') \<Longrightarrow> clean_parts r acc ps = rev acc @ ps"
  by (induction r acc ps rule: clean_parts.induct) auto

text \<open>Cleaning is idempotent on where a path leads.\<close>

lemma clean_rooted_plain:
  assumes "list_all plain acc" and "\<forall>p\<in>set ps. slash \<notin> set p"
  shows "list_all plain (clean_parts True acc ps)"
  using assms
proof (induction ps arbitrary: acc)
  case (Cons p ps)
  then show ?case by (cases acc) (auto simp: plain_def list_all_rev)
qed (simp add: list_all_rev)

lemma locate_Clean_rooted:
  assumes "rooted p"
  shows "rooted (path_Clean p) \<and> locate fs (path_Clean p) = locate fs p \<and> path_Clean p \<noteq> []"
proof -
  let ?q = "clean_parts True [] (split_on slash p)"
  have plain: "plain e" if "e \<in> set ?q" for e
    using clean_rooted_plain [of "[]" "split_on slash p"] split_on_free that by (auto simp: list_all_iff)
  have c: "path_Clean p = slash # join_on slash ?q" using assms by (simp add: path_Clean_def Let_def)
  have "clean_parts True [] (split_on slash (slash # join_on slash ?q)) = ?q"
  proof (cases "?q = []")
    case False
    with split_on_join [of ?q slash] plain have "split_on slash (join_on slash ?q) = ?q" by (auto simp: plain_def)
    with clean_parts_plain [of ?q True "[]"] plain show ?thesis by (auto simp: plain_def)
  qed simp
  with assms show ?thesis by (simp add: c locate_def rooted_def)
qed

lemma split_on_rooted: "rooted r \<Longrightarrow> r \<noteq> []"
  by (simp add: rooted_def)

text \<open>Joining an element to a rooted directory leads to the element cleaned below the directory.\<close>

lemma locate_Join:
  assumes "rooted root" and "e \<noteq> []"
  shows "path_Join [root, e] \<noteq> [] \<and> rooted (path_Join [root, e])
    \<and> locate fs (path_Join [root, e]) = clean_parts True (rev (locate fs root)) (split_on slash e)"
proof -
  have r: "rooted (root @ slash # e)" using assms(1) by (cases root) (auto simp: rooted_def)
  have "path_Join [root, e] = path_Clean (root @ slash # e)"
    using assms split_on_rooted [OF assms(1)] by (simp add: path_Join_def Let_def)
  with locate_Clean_rooted [OF r, of fs] r assms(1) show ?thesis
    by (auto simp: locate_def split_on_append_any clean_parts_append)
qed

lemma locate_Join_plain:
  assumes "rooted root" and "plain e"
  shows "locate fs (path_Join [root, e]) = locate fs root @ [e]"
proof -
  have "split_on slash e = [e]" using assms(2) by (simp add: plain_def split_on_single)
  with locate_Join [OF assms(1), of e fs] assms(2) show ?thesis by (simp add: plain_def)
qed

section \<open>Trees in order\<close>

text \<open>Every entry of a tree in order is in a directory.\<close>

definition tree_ok :: "files \<Rightarrow> bool" where
  "tree_ok fs \<longleftrightarrow> distinct (map fst (fs_nodes fs))
     \<and> (\<forall>q n. map_of (fs_nodes fs) q = Some n \<longrightarrow> q \<noteq> [] \<and> node_at fs (butlast q) = Some Dir)"

lemma node_at_set [simp]:
  "q \<noteq> [] \<Longrightarrow> node_at (set_node q n fs) r = (if r = q then Some n else node_at fs r)"
  by (simp add: node_at_def set_node_def)

lemma set_node_simps [simp]:
  "fs_cwd (set_node q n fs) = fs_cwd fs" "fs_fault (set_node q n fs) = fs_fault fs" "fs_short (set_node q n fs) = fs_short fs"
  "fs_dirsize (set_node q n fs) = fs_dirsize fs"
  by (simp_all add: set_node_def)

text \<open>What calls leave as it is.\<close>

definition fs_env :: "files \<Rightarrow> fpath \<times> (fop \<Rightarrow> fpath \<Rightarrow> error option) \<times> (fpath \<Rightarrow> nat) \<times> (fpath \<Rightarrow> int)" where
  "fs_env fs = (fs_cwd fs, fs_fault fs, fs_short fs, fs_dirsize fs)"

lemma fs_env_simps [simp]: "fs_env (set_node q n fs) = fs_env fs" "fs_env (fs\<lparr>fs_nodes := ns\<rparr>) = fs_env fs"
  by (simp_all add: fs_env_def)

lemma fs_envD:
  assumes "fs_env fs' = fs_env fs"
  shows "locate fs' p = locate fs p" "fs_fault fs' = fs_fault fs" "fs_short fs' = fs_short fs" "fs_dirsize fs' = fs_dirsize fs"
  using assms by (simp_all add: fs_env_def locate_def)

lemma tree_okD: "tree_ok fs \<Longrightarrow> node_at fs (d @ [c]) = Some n \<Longrightarrow> node_at fs d = Some Dir"
  unfolding tree_ok_def node_at_def by (metis butlast_snoc snoc_eq_iff_butlast)

lemma tree_okI:
  assumes "distinct (map fst (fs_nodes fs))"
    and "\<And>q n. map_of (fs_nodes fs) q = Some n \<Longrightarrow> q \<noteq> [] \<and> node_at fs (butlast q) = Some Dir"
  shows "tree_ok fs"
  using assms unfolding tree_ok_def by blast

lemma tree_ok_set:
  assumes "tree_ok fs" "q \<noteq> []" "node_at fs (butlast q) = Some Dir" "node_at fs q \<noteq> Some Dir \<or> n = Dir"
  shows "tree_ok (set_node q n fs)"
proof -
  have "distinct (map fst (fs_nodes (set_node q n fs)))"
    using assms(1) by (simp add: tree_ok_def set_node_def distinct_keys_update)
  moreover have "r \<noteq> [] \<and> node_at (set_node q n fs) (butlast r) = Some Dir" if "map_of (fs_nodes (set_node q n fs)) r = Some m" for r m
  proof (cases "r = q")
    case True
    with assms(2,3) show ?thesis by (cases q rule: rev_cases) simp_all
  next
    case False
    with that have "map_of (fs_nodes fs) r = Some m" by (simp add: set_node_def)
    with assms(1) have "r \<noteq> []" "node_at fs (butlast r) = Some Dir" by (simp_all add: tree_ok_def)
    with assms(2,4) show ?thesis by auto
  qed
  ultimately show ?thesis unfolding tree_ok_def by blast
qed

text \<open>In a tree in order, a path exists exactly if its entry does.\<close>

lemma walk_node:
  assumes "tree_ok fs"
  shows "walk fs p d cs = Ok n \<longleftrightarrow> node_at fs (d @ cs) = Some n"
proof (induction cs arbitrary: d)
  case Nil
  then show ?case by (simp split: option.split)
next
  case (Cons c cs)
  have "node_at fs d = Some Dir" if "node_at fs (d @ c # cs) = Some n"
    using that
  proof (induction cs arbitrary: n rule: rev_induct)
    case Nil
    with tree_okD [OF assms] show ?case by blast
  next
    case (snoc x xs)
    with tree_okD [OF assms, of "d @ c # xs" x n] show ?case by simp
  qed
  with Cons [of "d @ [c]"] show ?case by (auto split: option.split fnode.split)
qed

lemma walk_no_panic: "walk fs p d cs \<noteq> Panic m"
  by (induction fs p d cs rule: walk.induct) (auto split: option.split fnode.split)

lemma find_node_iff: "tree_ok fs \<Longrightarrow> find_node fs p = Ok n \<longleftrightarrow> p \<noteq> [] \<and> node_at fs (locate fs p) = Some n"
  by (simp add: find_node_def walk_node)

lemma mkdirs_ok:
  assumes "tree_ok fs" and "node_at fs d = Some Dir" and "mkdirs p d cs fs = (r, fs')"
  shows "tree_ok fs' \<and> fs_env fs' = fs_env fs
    \<and> (\<forall>q. node_at fs' q = node_at fs q \<or> node_at fs q = None \<and> node_at fs' q = Some Dir \<and> below q (d @ cs))
    \<and> (r = Ok () \<longrightarrow> node_at fs' (d @ cs) = Some Dir)"
  using assms
proof (induction cs arbitrary: d fs)
  case (Cons c cs)
  show ?case
  proof (cases "node_at fs (d @ [c])")
    case None
    show ?thesis
    proof (cases "fs_fault fs OpMkdir (d @ [c])")
      case (Some e)
      with Cons.prems None show ?thesis by (auto simp: fault_def)
    next
      case N: None
      let ?f = "set_node (d @ [c]) Dir fs"
      from Cons.prems None N have m: "mkdirs p (d @ [c]) cs ?f = (r, fs')" by (simp add: fault_def)
      have t: "tree_ok ?f" using Cons.prems by (simp add: tree_ok_set)
      from Cons.IH [OF t _ m]
      have ih: "tree_ok fs'" "fs_env fs' = fs_env fs" "r = Ok () \<longrightarrow> node_at fs' (d @ c # cs) = Some Dir"
        and q: "\<And>q. node_at fs' q = node_at ?f q \<or> node_at ?f q = None \<and> node_at fs' q = Some Dir \<and> below q (d @ c # cs)"
        by simp_all
      have "node_at fs' q = node_at fs q \<or> node_at fs q = None \<and> node_at fs' q = Some Dir \<and> below q (d @ c # cs)" for q
      proof (cases "q = d @ [c]")
        case True
        with q [of q] None show ?thesis by (auto simp: below_def)
      next
        case False
        with q [of q] show ?thesis by auto
      qed
      with ih show ?thesis by blast
    qed
  next
    case (Some n)
    then show ?thesis
    proof (cases n)
      case Dir
      with Cons.prems Some have m: "mkdirs p (d @ [c]) cs fs = (r, fs')" by simp
      from Cons.IH [OF Cons.prems(1) _ m] Some Dir show ?thesis by simp
    next
      case (File b)
      with Cons.prems Some show ?thesis by auto
    qed
  qed
qed auto

lemma below_simps [simp]: "below q q" "below q (q @ r)" "below [] r"
  by (simp_all add: below_def)

lemma below_iff: "below q r \<longleftrightarrow> (\<exists>s. r = q @ s)"
  unfolding below_def by (metis append_take_drop_id append_eq_conv_conj)

lemma below_snoc: "below q (d @ [c]) \<longleftrightarrow> q = d @ [c] \<or> below q d"
proof -
  have "(\<exists>s. d @ [c] = q @ s) \<longleftrightarrow> q = d @ [c] \<or> (\<exists>s. d = q @ s)"
  proof
    assume "\<exists>s. d @ [c] = q @ s"
    then obtain s where "d @ [c] = q @ s" by blast
    then show "q = d @ [c] \<or> (\<exists>s. d = q @ s)" by (cases s rule: rev_cases) auto
  qed auto
  then show ?thesis by (simp add: below_iff)
qed

lemma MkdirAll_ok:
  assumes "tree_ok fs" and "os_MkdirAll p fs = (r, fs')"
  shows "tree_ok fs'" "fs_env fs' = fs_env fs"
    "node_at fs' q = node_at fs q \<or> node_at fs q = None \<and> node_at fs' q = Some Dir \<and> below q (locate fs p)"
    "r = Ok () \<Longrightarrow> p \<noteq> [] \<and> node_at fs' (locate fs p) = Some Dir"
  using mkdirs_ok [OF assms(1), of "[]" p "locate fs p" r fs'] assms
  by (auto simp: os_MkdirAll_def node_at_def split: if_splits)

lemma map_filter_none: "List.map_filter f xs = [] \<longleftrightarrow> (\<forall>x\<in>set xs. f x = None)"
  by (auto simp: List.map_filter_def filter_empty_conv)

lemma map_of_filter_keys: "map_of (filter (\<lambda>(r, _). P r) xs) q = (if P q then map_of xs q else None)"
  by (induction xs) auto

lemma below_trans: "below p q \<Longrightarrow> below q r \<Longrightarrow> below p r"
  by (auto simp: below_iff)

lemma stuck_iff: "stuck fs q \<longleftrightarrow> (\<exists>r. r \<in> fst ` set (fs_nodes fs) \<and> below q r \<and> fs_fault fs OpRemove r \<noteq> None)"
  by (force simp: stuck_def list_ex_iff)

lemma RemoveAll_ok:
  assumes ok: "tree_ok fs" and rm: "os_RemoveAll p fs = (r, fs')"
  shows "tree_ok fs'" "fs_env fs' = fs_env fs"
    "\<not> below (locate fs p) q \<Longrightarrow> node_at fs' q = node_at fs q"
    "r = Ok () \<Longrightarrow> p \<noteq> [] \<Longrightarrow> q \<noteq> [] \<Longrightarrow> below (locate fs p) q \<Longrightarrow> node_at fs' q = None"
proof -
  let ?keep = "\<lambda>k. below (locate fs p) k \<longrightarrow> stuck fs k"
  let ?fs = "fs\<lparr>fs_nodes := filter (\<lambda>(k, _). ?keep k) (fs_nodes fs)\<rparr>"
  have at: "node_at ?fs k = (if k = [] \<or> ?keep k then node_at fs k else None)" for k
    by (simp add: node_at_def map_of_filter_keys)
  have up: "?keep (butlast k)" if k: "?keep k" for k
  proof
    assume b: "below (locate fs p) (butlast k)"
    have bk: "below (butlast k) k" by (cases k rule: rev_cases) simp_all
    from below_trans [OF b bk] k obtain s where "s \<in> fst ` set (fs_nodes fs)" "below k s" "fs_fault fs OpRemove s \<noteq> None"
      by (auto simp: stuck_iff)
    with below_trans [OF bk] show "stuck fs (butlast k)" unfolding stuck_iff by blast
  qed
  have tree: "tree_ok ?fs"
  proof (rule tree_okI)
    show "distinct (map fst (fs_nodes ?fs))"
      using ok by (simp add: tree_ok_def distinct_map inj_on_def)
    fix k n assume "map_of (fs_nodes ?fs) k = Some n"
    then have k: "?keep k" "map_of (fs_nodes fs) k = Some n" by (simp_all add: map_of_filter_keys split: if_splits)
    with ok up [OF k(1)] show "k \<noteq> [] \<and> node_at ?fs (butlast k) = Some Dir" unfolding at by (simp add: tree_ok_def)
  qed
  have cases: "p = [] \<and> fs' = fs \<or> p \<noteq> [] \<and> fs' = ?fs" using rm by (auto simp: os_RemoveAll_def Let_def split: if_splits)
  from cases show "tree_ok fs'" by (elim disjE conjE) (simp_all only: tree ok)
  from cases show "fs_env fs' = fs_env fs" by (elim disjE conjE) simp_all
  show "node_at fs' q = node_at fs q" if "\<not> below (locate fs p) q" using cases that at [of q] by auto
  show "node_at fs' q = None" if h: "r = Ok ()" "p \<noteq> []" "q \<noteq> []" "below (locate fs p) q"
  proof -
    from rm h(1,2) have "List.map_filter (\<lambda>(k, _). if below (locate fs p) k then fs_fault fs OpRemove k else None) (fs_nodes fs) = []"
      by (auto simp: os_RemoveAll_def Let_def split: list.splits)
    then have "fs_fault fs OpRemove k = None" if "(k, n) \<in> set (fs_nodes fs)" "below (locate fs p) k" for k n
      using that unfolding map_filter_none by (metis (mono_tags, lifting) case_prod_conv)
    with below_trans [OF h(4)] have "\<not> stuck fs q" unfolding stuck_iff by fastforce
    with cases h at [of q] show ?thesis by auto
  qed
qed

text \<open>A call that writes a file changes nothing else.\<close>

definition writes_file :: "fpath \<Rightarrow> files \<Rightarrow> files \<Rightarrow> bool" where
  "writes_file q fs fs' \<longleftrightarrow> tree_ok fs' \<and> fs_env fs' = fs_env fs \<and> node_at fs q \<noteq> Some Dir
     \<and> (\<exists>b. node_at fs' q = Some (File b)) \<and> (\<forall>k. k \<noteq> q \<longrightarrow> node_at fs' k = node_at fs k)"

lemma Create_ok:
  assumes "tree_ok fs" and "os_Create p fs = (r, fs')"
  shows "r = Ok () \<and> p \<noteq> [] \<and> locate fs p \<noteq> [] \<and> node_at fs (butlast (locate fs p)) = Some Dir \<and> writes_file (locate fs p) fs fs' \<or> (\<exists>e. r = Err e) \<and> fs' = fs"
proof (cases "p = [] \<or> locate fs p = []")
  case True
  with assms(2) show ?thesis by (auto simp: os_Create_def Let_def split: if_splits)
next
  case False
  let ?q = "locate fs p"
  show ?thesis
  proof (cases "walk fs p [] (butlast ?q)")
    case (Ok n)
    with assms(1) have n: "node_at fs (butlast ?q) = Some n" by (simp add: walk_node)
    show ?thesis
    proof (cases "n = File [] \<or> (\<exists>b. n = File b) \<or> node_at fs ?q = Some Dir \<or> fs_fault fs OpOpen ?q \<noteq> None")
      case True
      with assms(2) False Ok show ?thesis by (auto simp: os_Create_def Let_def fault_def split: fnode.splits if_splits)
    next
      case F: False
      then have "n = Dir" by (cases n) simp_all
      with F assms(2) False Ok have "r = Ok ()" "fs' = set_node ?q (File []) fs" by (auto simp: os_Create_def Let_def fault_def)
      with assms(1) False F n \<open>n = Dir\<close> show ?thesis by (simp add: writes_file_def tree_ok_set)
    qed
  qed (use assms(2) False walk_no_panic in \<open>auto simp: os_Create_def Let_def\<close>)
qed

lemma file_write_ok:
  assumes "tree_ok fs" "node_at fs (locate fs p) = Some (File b0)" "locate fs p \<noteq> []" "node_at fs (butlast (locate fs p)) = Some Dir"
    and "file_write p b fs = (r, fs')"
  shows "writes_file (locate fs p) fs fs' \<and> (r = Ok () \<longrightarrow> node_at fs' (locate fs p) = Some (File b)) \<and> (\<forall>m. r \<noteq> Panic m)"
  using assms by (auto simp: file_write_def Let_def writes_file_def tree_ok_set split: option.splits)

lemma writes_trans: "writes_file q fs fs1 \<Longrightarrow> tree_ok fs2 \<and> fs_env fs2 = fs_env fs1 \<and> (\<exists>b. node_at fs2 q = Some (File b)) \<and> (\<forall>k. k \<noteq> q \<longrightarrow> node_at fs2 k = node_at fs1 k)
    \<Longrightarrow> writes_file q fs fs2"
  by (auto simp: writes_file_def)

text \<open>Creating a file and writing its data, as \<^verbatim>\<open>os.WriteFile\<close> and the stores do it.\<close>

lemma WriteFile_ok:
  assumes "tree_ok fs" and "os_WriteFile p b fs = (r, fs')"
  shows "(r = Ok () \<and> writes_file (locate fs p) fs fs' \<and> p \<noteq> [] \<and> node_at fs' (locate fs p) = Some (File b))
    \<or> (\<exists>e. r = Err e \<and> (fs' = fs \<or> writes_file (locate fs p) fs fs'))"
proof -
  obtain r1 fs1 where c: "os_Create p fs = (r1, fs1)" by (metis surj_pair)
  from Create_ok [OF assms(1) c] show ?thesis
  proof (elim disjE conjE exE)
    fix e assume "r1 = Err e" "fs1 = fs"
    with assms(2) c have "r = Err e" "fs' = fs" by (simp_all add: os_WriteFile_def)
    then show ?thesis by simp
  next
    let ?q = "locate fs p"
    assume h: "r1 = Ok ()" "p \<noteq> []" "?q \<noteq> []" "node_at fs (butlast ?q) = Some Dir" and w: "writes_file ?q fs fs1"
    from w have env: "fs_env fs1 = fs_env fs" and t: "tree_ok fs1" by (simp_all add: writes_file_def)
    note loc = fs_envD(1) [OF env]
    from w obtain b0 where b0: "node_at fs1 ?q = Some (File b0)" by (auto simp: writes_file_def)
    have par: "node_at fs1 (butlast ?q) = Some Dir"
      using w h(3,4) by (cases ?q rule: rev_cases) (simp_all add: writes_file_def)
    from assms(2) c h(1) have "file_write p b fs1 = (r, fs')" by (simp add: os_WriteFile_def)
    from file_write_ok [OF t _ _ _ this] b0 par h(3) loc have
      "writes_file ?q fs1 fs'" "r = Ok () \<longrightarrow> node_at fs' ?q = Some (File b)" "\<forall>m. r \<noteq> Panic m" by auto
    with w h(2) show ?thesis by (cases r) (auto simp: writes_file_def)
  qed
qed

lemma Remove_ok:
  assumes "tree_ok fs" and "os_Remove p fs = (r, fs')"
  shows "tree_ok fs' \<and> fs_env fs' = fs_env fs \<and> (\<forall>k. k \<noteq> locate fs p \<longrightarrow> node_at fs' k = node_at fs k)
    \<and> (if r = Ok () then locate fs p \<noteq> [] \<and> node_at fs' (locate fs p) = None \<and> node_at fs (locate fs p) \<noteq> None else fs' = fs)"
proof (cases "find_node fs p")
  case (Ok n)
  let ?q = "locate fs p"
  from Ok assms(1) have n: "node_at fs ?q = Some n" by (simp add: find_node_iff)
  show ?thesis
  proof (cases "n = Dir \<and> (?q = [] \<or> list_ex (\<lambda>(r, _). r \<noteq> ?q \<and> below ?q r) (fs_nodes fs)) \<or> fs_fault fs OpRemove ?q \<noteq> None")
    case True
    with assms Ok show ?thesis by (auto simp: os_Remove_def Let_def fault_def split: if_splits option.splits)
  next
    case False
    with assms(2) Ok have r: "r = Ok ()" "fs' = fs\<lparr>fs_nodes := AList.delete ?q (fs_nodes fs)\<rparr>"
      by (auto simp: os_Remove_def Let_def fault_def)
    have ne: "?q \<noteq> []" using False n by (auto simp: node_at_def)
    have at: "node_at fs' k = (if k = ?q then None else node_at fs k)" for k using r ne by (simp add: node_at_def)
    have "butlast k \<noteq> ?q" if k: "map_of (fs_nodes fs) k = Some m" "k \<noteq> ?q" for k m
    proof
      assume b: "butlast k = ?q"
      from assms(1) k(1) have "k \<noteq> []" "node_at fs (butlast k) = Some Dir" by (simp_all add: tree_ok_def)
      with b n have "n = Dir" "below ?q k" by (simp, metis append_butlast_last_id below_simps(2))
      moreover from k(1) have "(k, m) \<in> set (fs_nodes fs)" by (rule map_of_SomeD)
      ultimately show False using False k(2) by (auto simp: list_ex_iff)
    qed
    note apart = this
    have "tree_ok fs'"
    proof (rule tree_okI)
      show "distinct (map fst (fs_nodes fs'))" using assms(1) by (simp add: tree_ok_def r(2) distinct_keys_delete)
      fix k m assume "map_of (fs_nodes fs') k = Some m"
      then have k: "map_of (fs_nodes fs) k = Some m" "k \<noteq> ?q" by (simp_all add: r(2) split: if_splits)
      with assms(1) apart [OF k] show "k \<noteq> [] \<and> node_at fs' (butlast k) = Some Dir" by (simp add: tree_ok_def at)
    qed
    with r ne at n show ?thesis by simp
  qed
qed (use assms in \<open>auto simp: os_Remove_def Let_def find_node_def\<close>)

lemma ReadFile_iff:
  assumes "tree_ok fs"
  shows "os_ReadFile p fs = Ok b \<longleftrightarrow> p \<noteq> [] \<and> fs_fault fs OpRead (locate fs p) = None \<and> node_at fs (locate fs p) = Some (File b)"
proof (cases "fs_fault fs OpRead (locate fs p)")
  case None
  show ?thesis
  proof (cases "find_node fs p")
    case (Ok n)
    with None find_node_iff [OF assms, of p n] show ?thesis by (cases n) (auto simp: os_ReadFile_def fault_def)
  qed (use None find_node_iff [OF assms, of p "File b"] in \<open>auto simp: os_ReadFile_def fault_def\<close>)
qed (simp add: os_ReadFile_def fault_def)

lemma ReadFile_no_panic: "os_ReadFile p fs \<noteq> Panic m"
proof (cases "find_node fs p")
  case (Ok n)
  then show ?thesis by (cases n) (auto simp: os_ReadFile_def fault_def split: option.split)
next
  case (Panic m')
  then show ?thesis using walk_no_panic by (auto simp: find_node_def split: if_splits)
qed (auto simp: os_ReadFile_def fault_def split: option.split)

lemma Stat_iff:
  assumes "tree_ok fs"
  shows "(\<exists>i. os_Stat p fs = Ok i) \<longleftrightarrow> p \<noteq> [] \<and> fs_fault fs OpStat (locate fs p) = None \<and> node_at fs (locate fs p) \<noteq> None"
proof (cases "fs_fault fs OpStat (locate fs p)")
  case None
  then show ?thesis
    using find_node_iff [OF assms, of p] by (cases "find_node fs p") (auto simp: os_Stat_def fault_def)
qed (simp add: os_Stat_def fault_def)

lemma Stat_IsDir:
  assumes "tree_ok fs" and "os_Stat p fs = Ok i"
  shows "fi_IsDir i \<longleftrightarrow> node_at fs (locate fs p) = Some Dir"
proof -
  from assms(2) obtain n where n: "find_node fs p = Ok n" and i: "fi_IsDir i \<longleftrightarrow> n = Dir"
    by (cases "find_node fs p") (auto simp: os_Stat_def fault_def split: option.splits fnode.splits)
  from n find_node_iff [OF assms(1), of p n] i show ?thesis by auto
qed

lemma Stat_no_panic: "os_Stat p fs \<noteq> Panic m"
proof (cases "find_node fs p")
  case (Panic m')
  then show ?thesis using walk_no_panic by (auto simp: find_node_def split: if_splits)
qed (auto simp: os_Stat_def fault_def split: option.split)

lemma node_at_delete: "q \<noteq> [] \<Longrightarrow> node_at (fs\<lparr>fs_nodes := AList.delete q (fs_nodes fs)\<rparr>) k = (if k = q then None else node_at fs k)"
  by (simp add: node_at_def)

lemma file_path: "node_at fs q = Some (File b) \<Longrightarrow> q \<noteq> []"
  by (auto simp: node_at_def)

lemma tree_ok_delete_file:
  assumes "tree_ok fs" and "node_at fs q = Some (File b)"
  shows "tree_ok (fs\<lparr>fs_nodes := AList.delete q (fs_nodes fs)\<rparr>)" (is "tree_ok ?fs")
proof (rule tree_okI)
  show "distinct (map fst (fs_nodes ?fs))" using assms(1) by (simp add: tree_ok_def distinct_keys_delete)
  fix k m assume "map_of (fs_nodes ?fs) k = Some m"
  then have "map_of (fs_nodes fs) k = Some m" by (simp split: if_splits)
  with assms(1) have k: "k \<noteq> []" "node_at fs (butlast k) = Some Dir" unfolding tree_ok_def by blast+
  with assms(2) have "butlast k \<noteq> q" by auto
  with k file_path [OF assms(2)] show "k \<noteq> [] \<and> node_at ?fs (butlast k) = Some Dir" by (simp add: node_at_delete)
qed

lemma rename_ok:
  assumes t: "tree_ok fs" and s: "node_at fs (locate fs src) = Some (File b)" and "rename_file src dst fs = (r, fs')"
    and ne: "locate fs src \<noteq> locate fs dst"
  shows "(r = Ok () \<and> tree_ok fs' \<and> fs_env fs' = fs_env fs
      \<and> (\<forall>k. node_at fs' k = (if k = locate fs dst then Some (File b) else if k = locate fs src then None else node_at fs k)))
    \<or> (\<exists>e. r = Err e) \<and> fs' = fs"
proof -
  let ?q = "locate fs src" and ?d = "locate fs dst"
  let ?g = "fs\<lparr>fs_nodes := AList.delete ?q (fs_nodes fs)\<rparr>"
  show ?thesis
  proof (cases "find_node fs src = Ok (File b) \<and> dst \<noteq> [] \<and> ?d \<noteq> [] \<and> node_at fs ?d \<noteq> Some Dir \<and> walk fs dst [] (butlast ?d) = Ok Dir \<and> fs_fault fs OpRename ?q = None")
    case True
    then have p: "node_at fs (butlast ?d) = Some Dir" using walk_node [OF t] by simp
    from True assms(3) ne have r: "r = Ok ()" "fs' = set_node ?d (File b) ?g" by (simp_all add: rename_file_def Let_def fault_def)
    have q: "?q \<noteq> []" "butlast ?d \<noteq> ?q" using s p file_path [OF s] by auto
    have "tree_ok fs'" unfolding r(2)
      by (rule tree_ok_set [OF tree_ok_delete_file [OF t s]]) (use True p q in \<open>simp_all add: node_at_delete\<close>)
    with r q True show ?thesis by (simp add: node_at_delete)
  next
    case False
    have n: "find_node fs src = Ok n \<Longrightarrow> n = File b" for n using s find_node_iff [OF t, of src n] by simp
    have "(\<exists>e. r = Err e) \<and> fs' = fs"
    proof (cases "find_node fs src")
      case (Ok n)
      with n have f: "find_node fs src = Ok (File b)" by blast
      show ?thesis
      proof (cases "walk fs dst [] (butlast ?d)")
        case (Ok m)
        with False f assms(3) show ?thesis
          by (cases m) (auto simp: rename_file_def Let_def fault_def split: if_splits option.splits)
      next
        case (Err e)
        with f assms(3) show ?thesis by (auto simp: rename_file_def Let_def split: if_splits)
      qed (use walk_no_panic in auto)
    next
      case (Panic m)
      then show ?thesis using walk_no_panic by (auto simp: find_node_def split: if_splits)
    qed (use assms(3) in \<open>auto simp: rename_file_def Let_def\<close>)
    then show ?thesis by blast
  qed
qed

end
