(* ===== verification/Stores.thy ===== *)
theory Stores
  imports Files Agent
begin

text \<open>
  The stores of a node, pkg/store: bytes or messages kept under a name, in a directory or in
  memory. What they promise is locale \<open>key_store\<close>: they behave like a map from names to values.
\<close>

section \<open>The byte store\<close>

definition fsStore_Delete :: "string \<Rightarrow> string \<Rightarrow> files \<Rightarrow> unit res \<times> files" where
  "fsStore_Delete rootDir i fs = os_Remove (path_Join [rootDir, i]) fs"

definition fsStore_Load :: "string \<Rightarrow> string \<Rightarrow> files \<Rightarrow> bytes res" where
  "fsStore_Load rootDir i fs = os_ReadFile (path_Join [rootDir, i]) fs"

definition fsStore_Save :: "string \<Rightarrow> string \<Rightarrow> bytes \<Rightarrow> files \<Rightarrow> unit res \<times> files" where
  "fsStore_Save rootDir i data fs =
     (let fName = path_Join [rootDir, i]
      in andThen (os_Create fName fs) (\<lambda>_ fs. file_write fName data fs))"

definition NewFSStore :: "string \<Rightarrow> files \<Rightarrow> string res \<times> files" where
  "NewFSStore dir fs = andThen (os_MkdirAll dir fs) (\<lambda>_ fs. (Ok dir, fs))"

text \<open>The store as the node controller uses it, beside the rest of the world.\<close>

definition fs_token_store :: "string \<Rightarrow> (files \<times> 'y) Store" where
  "fs_token_store dir = \<lparr>
     st_Load = (\<lambda>i (fs, y). (fsStore_Load dir i fs, (fs, y))),
     st_Save = (\<lambda>i data (fs, y). case fsStore_Save dir i data fs of (r, fs) \<Rightarrow> (r, (fs, y))),
     st_Delete = (\<lambda>i (fs, y). case fsStore_Delete dir i fs of (r, fs) \<Rightarrow> (r, (fs, y)))\<rparr>"

section \<open>The message stores\<close>

text \<open>Saving a message that cannot be marshalled returns no error and writes nothing.\<close>

definition fsProtoStore_Save :: "'m codec \<Rightarrow> string \<Rightarrow> string \<Rightarrow> 'm \<Rightarrow> files \<Rightarrow> unit res \<times> files" where
  "fsProtoStore_Save cd rootDir i m fs =
     (case proto_Marshal cd m of
        Ok b \<Rightarrow> (let fName = path_Join [rootDir, i] in andThen (os_Create fName fs) (\<lambda>_ fs. file_write fName b fs))
      | Err e \<Rightarrow> (Ok (), fs)
      | Panic msg \<Rightarrow> (Panic msg, fs))"

definition fsProtoStore_Load :: "'m codec \<Rightarrow> string \<Rightarrow> string \<Rightarrow> files \<Rightarrow> 'm res" where
  "fsProtoStore_Load cd rootDir i fs =
     bindR (os_ReadFile (path_Join [rootDir, i]) fs) (\<lambda>b. proto_Unmarshal cd b)"

definition fsProtoStore_Delete :: "string \<Rightarrow> string \<Rightarrow> files \<Rightarrow> unit res \<times> files" where
  "fsProtoStore_Delete rootDir i fs = os_Remove (path_Join [rootDir, i]) fs"

definition NewFSProtoStore :: "string \<Rightarrow> files \<Rightarrow> string res \<times> files" where
  "NewFSProtoStore dir fs = andThen (os_MkdirAll dir fs) (\<lambda>_ fs. (Ok dir, fs))"

type_synonym 'm ephemeral = "(string, 'm) gomap"

definition ephemeral_Delete :: "string \<Rightarrow> 'm ephemeral \<Rightarrow> unit res \<times> 'm ephemeral" where
  "ephemeral_Delete i items = (Ok (), AList.delete i items)"

definition ephemeral_Load :: "'m codec \<Rightarrow> string \<Rightarrow> 'm ephemeral \<Rightarrow> 'm res" where
  "ephemeral_Load cd i items =
     (case map_of items i of
        None \<Rightarrow> Err (Sentinel OsErrNotExist)
      | Some v \<Rightarrow> bindR (proto_Marshal cd v) (\<lambda>b. proto_Unmarshal cd b))"

definition ephemeral_Save :: "string \<Rightarrow> 'm \<Rightarrow> 'm ephemeral \<Rightarrow> unit res \<times> 'm ephemeral" where
  "ephemeral_Save i m items = (Ok (), AList.update i m items)"

definition NewEphemeralProtoStore :: "'m ephemeral" where
  "NewEphemeralProtoStore = []"

section \<open>What a store promises\<close>

datatype 'v store_op = SaveOp string 'v | DeleteOp string

fun op_fits :: "(string \<Rightarrow> bool) \<Rightarrow> ('v \<Rightarrow> bool) \<Rightarrow> 'v store_op \<Rightarrow> bool" where
  "op_fits gd ft (SaveOp i v) \<longleftrightarrow> gd i \<and> ft v"
| "op_fits gd ft (DeleteOp i) \<longleftrightarrow> gd i"

text \<open>The specification: a map from names to values.\<close>

fun replay :: "'v store_op list \<Rightarrow> (string \<Rightarrow> 'v option) \<Rightarrow> string \<Rightarrow> 'v option" where
  "replay [] m = m"
| "replay (SaveOp i v # ops) m = replay ops (m(i := Some v))"
| "replay (DeleteOp i # ops) m = replay ops (m(i := None))"

lemma replay_cong: "m j = m' j \<Longrightarrow> replay ops m j = replay ops m' j"
proof (induction ops arbitrary: m m')
  case (Cons op ops)
  from Cons.prems show ?case by (cases op) (simp_all, (rule Cons.IH, simp)+)
qed simp

text \<open>Running operations one after the other, as long as they succeed.\<close>

fun run_ops :: "(string \<Rightarrow> 'v \<Rightarrow> 's \<Rightarrow> unit res \<times> 's) \<Rightarrow> (string \<Rightarrow> 's \<Rightarrow> unit res \<times> 's) \<Rightarrow> 'v store_op list \<Rightarrow> 's \<Rightarrow> unit res \<times> 's" where
  "run_ops sv dl [] s = (Ok (), s)"
| "run_ops sv dl (SaveOp i v # ops) s = andThen (sv i v s) (\<lambda>_ s. run_ops sv dl ops s)"
| "run_ops sv dl (DeleteOp i # ops) s = andThen (dl i s) (\<lambda>_ s. run_ops sv dl ops s)"

text \<open>
  The laws, for the names that are \<open>good\<close> for the store and the values that \<open>fits\<close> its
  encoding: saving and deleting change one name, if they succeed as a map would; a value that loads is
  the one that is kept, and nothing loads where nothing is kept.
\<close>

locale key_store =
  fixes load :: "string \<Rightarrow> 's \<Rightarrow> 'v res"
    and save :: "string \<Rightarrow> 'v \<Rightarrow> 's \<Rightarrow> unit res \<times> 's"
    and del :: "string \<Rightarrow> 's \<Rightarrow> unit res \<times> 's"
    and good :: "string \<Rightarrow> bool"
    and fits :: "'v \<Rightarrow> bool"
    and inv :: "'s \<Rightarrow> bool"
    and view :: "'s \<Rightarrow> string \<Rightarrow> 'v option"
  assumes save_law: "inv s \<Longrightarrow> good i \<Longrightarrow> fits v \<Longrightarrow> save i v s = (r, s') \<Longrightarrow>
      inv s' \<and> (\<forall>j. good j \<longrightarrow> j \<noteq> i \<longrightarrow> view s' j = view s j) \<and> (r = Ok () \<longrightarrow> view s' i = Some v)"
    and del_law: "inv s \<Longrightarrow> good i \<Longrightarrow> del i s = (r, s') \<Longrightarrow>
      inv s' \<and> (\<forall>j. good j \<longrightarrow> j \<noteq> i \<longrightarrow> view s' j = view s j) \<and> (r = Ok () \<longrightarrow> view s' i = None)"
    and load_law: "inv s \<Longrightarrow> good i \<Longrightarrow> load i s = Ok v \<Longrightarrow> view s i = Some v"
    and load_missing: "inv s \<Longrightarrow> good i \<Longrightarrow> view s i = None \<Longrightarrow> \<exists>e. load i s = Err e"
begin

lemma run_replays:
  assumes "inv s" and "\<forall>op\<in>set ops. op_fits good fits op" and "run_ops save del ops s = (Ok (), s')"
  shows "inv s' \<and> (\<forall>j. good j \<longrightarrow> view s' j = replay ops (view s) j)"
  using assms
proof (induction ops arbitrary: s)
  case (Cons op ops)
  show ?case
  proof (cases op)
    case (SaveOp i v)
    with Cons.prems obtain s1 where s1: "save i v s = (Ok (), s1)" "run_ops save del ops s1 = (Ok (), s')"
      by (auto elim: andThenE)
    from Cons.prems(2) SaveOp have g: "good i" "fits v" by simp_all
    from save_law [OF Cons.prems(1) g s1(1)] have v: "inv s1" "\<And>j. good j \<Longrightarrow> view s1 j = ((view s)(i := Some v)) j" by simp_all
    have "replay ops (view s1) j = replay ops ((view s)(i := Some v)) j" if "good j" for j by (rule replay_cong) (rule v(2) [OF that])
    with Cons.IH [OF v(1) _ s1(2)] Cons.prems(2) show ?thesis by (simp add: SaveOp)
  next
    case (DeleteOp i)
    with Cons.prems obtain s1 where s1: "del i s = (Ok (), s1)" "run_ops save del ops s1 = (Ok (), s')"
      by (auto elim: andThenE)
    from Cons.prems(2) DeleteOp have g: "good i" by simp
    from del_law [OF Cons.prems(1) g s1(1)] have v: "inv s1" "\<And>j. good j \<Longrightarrow> view s1 j = ((view s)(i := None)) j" by simp_all
    have "replay ops (view s1) j = replay ops ((view s)(i := None)) j" if "good j" for j by (rule replay_cong) (rule v(2) [OF that])
    with Cons.IH [OF v(1) _ s1(2)] Cons.prems(2) show ?thesis by (simp add: DeleteOp)
  qed
qed simp

text \<open>Clients rely on this: what loads is what was saved last.\<close>

lemma load_replays:
  assumes "inv s" and "\<forall>op\<in>set ops. op_fits good fits op" and "run_ops save del ops s = (Ok (), s')" and "good i"
  shows "(\<forall>v. load i s' = Ok v \<longrightarrow> replay ops (view s) i = Some v) \<and> (replay ops (view s) i = None \<longrightarrow> (\<exists>e. load i s' = Err e))"
  using run_replays [OF assms(1-3)] load_law [of s' i] load_missing [of s' i] assms(4) by auto

end

section \<open>The stores keep it\<close>

text \<open>What a directory keeps under a name.\<close>

definition dir_view :: "string \<Rightarrow> files \<Rightarrow> string \<Rightarrow> bytes option" where
  "dir_view dir fs i = (case node_at fs (locate fs dir @ [i]) of Some (File b) \<Rightarrow> Some b | _ \<Rightarrow> None)"

definition dir_inv :: "string \<Rightarrow> files \<Rightarrow> bool" where
  "dir_inv dir fs \<longleftrightarrow> rooted dir \<and> tree_ok fs \<and> node_at fs (locate fs dir) = Some Dir"

lemma fsStore_Save_WriteFile: "fsStore_Save dir i data = os_WriteFile (path_Join [dir, i]) data"
  by (simp add: fsStore_Save_def os_WriteFile_def Let_def fun_eq_iff)

lemma dir_writes:
  assumes "dir_inv dir fs" and "plain i" and "fs' = fs \<or> writes_file (locate fs (path_Join [dir, i])) fs fs'"
  shows "dir_inv dir fs' \<and> (\<forall>j. j \<noteq> i \<longrightarrow> dir_view dir fs' j = dir_view dir fs j)"
proof (cases "fs' = fs")
  case False
  from assms(1,2) have q: "locate fs (path_Join [dir, i]) = locate fs dir @ [i]" by (simp add: dir_inv_def locate_Join_plain)
  with assms(3) False have w: "writes_file (locate fs dir @ [i]) fs fs'" by simp
  then have env: "fs_env fs' = fs_env fs" by (simp add: writes_file_def)
  note loc = fs_envD(1) [OF env]
  from w assms(1) show ?thesis by (simp add: dir_inv_def dir_view_def writes_file_def loc)
qed (use assms(1) in simp)

lemma dir_Save:
  assumes "dir_inv dir fs" and "plain i" and "fsStore_Save dir i data fs = (r, fs')"
  shows "dir_inv dir fs' \<and> (\<forall>j. j \<noteq> i \<longrightarrow> dir_view dir fs' j = dir_view dir fs j) \<and> (r = Ok () \<longrightarrow> dir_view dir fs' i = Some data)"
proof -
  from assms(1) have t: "tree_ok fs" and r: "rooted dir" by (simp_all add: dir_inv_def)
  have q: "locate fs (path_Join [dir, i]) = locate fs dir @ [i]" by (rule locate_Join_plain [OF r assms(2)])
  have w: "os_WriteFile (path_Join [dir, i]) data fs = (r, fs')" using assms(3) by (simp add: fsStore_Save_WriteFile)
  from WriteFile_ok [OF t w] have d: "fs' = fs \<or> writes_file (locate fs (path_Join [dir, i])) fs fs'" by auto
  have "dir_view dir fs' i = Some data" if "r = Ok ()"
  proof -
    from WriteFile_ok [OF t w] that have n: "node_at fs' (locate fs dir @ [i]) = Some (File data)" and e: "fs_env fs' = fs_env fs"
      by (auto simp: q writes_file_def)
    show ?thesis by (simp add: dir_view_def fs_envD(1) [OF e] n)
  qed
  with dir_writes [OF assms(1,2) d] show ?thesis by blast
qed

lemma dir_Delete:
  assumes "dir_inv dir fs" and "plain i" and "fsStore_Delete dir i fs = (r, fs')"
  shows "dir_inv dir fs' \<and> (\<forall>j. j \<noteq> i \<longrightarrow> dir_view dir fs' j = dir_view dir fs j) \<and> (r = Ok () \<longrightarrow> dir_view dir fs' i = None)"
proof -
  from assms(1) have t: "tree_ok fs" and ro: "rooted dir" by (simp_all add: dir_inv_def)
  have q: "locate fs (path_Join [dir, i]) = locate fs dir @ [i]" by (rule locate_Join_plain [OF ro assms(2)])
  from assms(3) have rm: "os_Remove (path_Join [dir, i]) fs = (r, fs')" by (simp add: fsStore_Delete_def)
  from Remove_ok [OF t rm] have s: "tree_ok fs'" "fs_env fs' = fs_env fs" "\<And>k. k \<noteq> locate fs dir @ [i] \<Longrightarrow> node_at fs' k = node_at fs k"
    "r = Ok () \<Longrightarrow> node_at fs' (locate fs dir @ [i]) = None"
    by (simp_all add: q split: if_splits)
  then show ?thesis using assms(1) by (simp add: dir_inv_def dir_view_def fs_envD(1) [OF s(2)])
qed

lemma dir_ReadFile:
  assumes "dir_inv dir fs" and "plain i"
  shows "os_ReadFile (path_Join [dir, i]) fs = Ok b \<longleftrightarrow> fs_fault fs OpRead (locate fs dir @ [i]) = None \<and> dir_view dir fs i = Some b"
proof -
  from assms(1) have t: "tree_ok fs" and ro: "rooted dir" by (simp_all add: dir_inv_def)
  have q: "locate fs (path_Join [dir, i]) = locate fs dir @ [i]" "path_Join [dir, i] \<noteq> []"
    using locate_Join_plain [OF ro assms(2)] locate_Join [OF ro, of i] assms(2) by (auto simp: plain_def)
  show ?thesis using ReadFile_iff [OF t, of "path_Join [dir, i]" b] q by (auto simp: dir_view_def split: option.split fnode.split)
qed

lemma ReadFile_fails: "(\<And>b. os_ReadFile p fs \<noteq> Ok b) \<Longrightarrow> \<exists>e. os_ReadFile p fs = Err e"
  using ReadFile_no_panic [of p fs] by (cases "os_ReadFile p fs") auto

interpretation fs_store: key_store "fsStore_Load dir" "fsStore_Save dir" "fsStore_Delete dir" plain "\<lambda>_. True" "dir_inv dir" "dir_view dir" for dir
proof
  fix s i v r s' assume h: "dir_inv dir s" "plain i"
  show "dir_inv dir s' \<and> (\<forall>j. plain j \<longrightarrow> j \<noteq> i \<longrightarrow> dir_view dir s' j = dir_view dir s j) \<and> (r = Ok () \<longrightarrow> dir_view dir s' i = Some v)"
    if "fsStore_Save dir i v s = (r, s')" using dir_Save [OF h that] by blast
  show "dir_inv dir s' \<and> (\<forall>j. plain j \<longrightarrow> j \<noteq> i \<longrightarrow> dir_view dir s' j = dir_view dir s j) \<and> (r = Ok () \<longrightarrow> dir_view dir s' i = None)"
    if "fsStore_Delete dir i s = (r, s')" using dir_Delete [OF h that] by blast
  show "dir_view dir s i = Some v" if "fsStore_Load dir i s = Ok v"
    using that dir_ReadFile [OF h] by (simp add: fsStore_Load_def)
  show "\<exists>e. fsStore_Load dir i s = Err e" if "dir_view dir s i = None"
    unfolding fsStore_Load_def by (rule ReadFile_fails) (simp add: dir_ReadFile [OF h] that)
qed

text \<open>Messages are kept by their bytes; the decoding inverts the encoding.\<close>

definition msg_view :: "'m codec \<Rightarrow> string \<Rightarrow> files \<Rightarrow> string \<Rightarrow> 'm option" where
  "msg_view cd dir fs i = (case dir_view dir fs i of Some b \<Rightarrow> (case proto_Unmarshal cd b of Ok m \<Rightarrow> Some m | _ \<Rightarrow> None) | None \<Rightarrow> None)"

lemma msg_view_iff: "msg_view cd dir fs i = Some m \<longleftrightarrow> (\<exists>b. dir_view dir fs i = Some b \<and> proto_Unmarshal cd b = Ok m)"
  by (auto simp: msg_view_def split: option.split result.split)

definition marshals :: "'m codec \<Rightarrow> 'm \<Rightarrow> bool" where
  "marshals cd m \<longleftrightarrow> (\<exists>b. proto_Marshal cd m = Ok b)"

text \<open>The library's decoder returns, with a message or an error.\<close>

definition decodes :: "'m codec \<Rightarrow> bool" where
  "decodes cd \<longleftrightarrow> (\<forall>b m. proto_Unmarshal cd b \<noteq> Panic m)"

lemma fs_proto_store:
  assumes "codec_roundtrip cd" and "decodes cd"
  shows "key_store (fsProtoStore_Load cd dir) (fsProtoStore_Save cd dir) (fsProtoStore_Delete dir) plain (marshals cd) (dir_inv dir) (msg_view cd dir)"
proof
  fix s i v r s' assume h: "dir_inv dir s" "plain i"
  show "dir_inv dir s' \<and> (\<forall>j. plain j \<longrightarrow> j \<noteq> i \<longrightarrow> msg_view cd dir s' j = msg_view cd dir s j) \<and> (r = Ok () \<longrightarrow> msg_view cd dir s' i = Some v)"
    if f: "marshals cd v" and "fsProtoStore_Save cd dir i v s = (r, s')"
  proof -
    from f obtain b where b: "proto_Marshal cd v = Ok b" by (auto simp: marshals_def)
    with that have "fsStore_Save dir i b s = (r, s')" by (simp add: fsProtoStore_Save_def fsStore_Save_def)
    from dir_Save [OF h this] assms(1) b show ?thesis by (auto simp: msg_view_def codec_roundtrip_def)
  qed
  show "dir_inv dir s' \<and> (\<forall>j. plain j \<longrightarrow> j \<noteq> i \<longrightarrow> msg_view cd dir s' j = msg_view cd dir s j) \<and> (r = Ok () \<longrightarrow> msg_view cd dir s' i = None)"
    if "fsProtoStore_Delete dir i s = (r, s')"
  proof -
    from that have "fsStore_Delete dir i s = (r, s')" by (simp add: fsProtoStore_Delete_def fsStore_Delete_def)
    from dir_Delete [OF h this] show ?thesis by (auto simp: msg_view_def)
  qed
  show "msg_view cd dir s i = Some v" if "fsProtoStore_Load cd dir i s = Ok v"
    using that dir_ReadFile [OF h] by (auto simp: fsProtoStore_Load_def bindR_eq_Ok msg_view_def)
  show "\<exists>e. fsProtoStore_Load cd dir i s = Err e" if v: "msg_view cd dir s i = None"
  proof (cases "os_ReadFile (path_Join [dir, i]) s")
    case (Ok b)
    with dir_ReadFile [OF h, of b] have "dir_view dir s i = Some b" by simp
    with v assms(2) Ok show ?thesis
      by (cases "proto_Unmarshal cd b") (auto simp: fsProtoStore_Load_def msg_view_def decodes_def)
  next
    case (Panic m)
    with ReadFile_no_panic show ?thesis by blast
  qed (simp add: fsProtoStore_Load_def)
qed

lemma ephemeral_store:
  assumes "codec_roundtrip cd"
  shows "key_store (ephemeral_Load cd) ephemeral_Save ephemeral_Delete (\<lambda>_. True) (\<lambda>_. True) (\<lambda>_. True) map_of"
proof
  fix s i v
  show "map_of s i = Some v" if "ephemeral_Load cd i s = Ok v"
    using that assms by (auto simp: ephemeral_Load_def bindR_eq_Ok codec_roundtrip_def split: option.splits)
qed (auto simp: ephemeral_Save_def ephemeral_Delete_def ephemeral_Load_def)

lemma replay_saved: "replay ops m i = Some v \<Longrightarrow> m i = Some v \<or> SaveOp i v \<in> set ops"
  by (induction ops m rule: replay.induct) (auto split: if_splits)

lemma NewFSStore_inv:
  assumes "tree_ok fs" and "rooted dir" and "NewFSStore dir fs = (Ok d, fs')"
  shows "dir_inv dir fs'"
proof -
  from assms(3) have m: "os_MkdirAll dir fs = (Ok (), fs')" by (auto simp: NewFSStore_def elim: andThenE)
  note ok = MkdirAll_ok [OF assms(1) m]
  show ?thesis using ok(1) ok(4) assms(2) by (simp add: dir_inv_def fs_envD(1) [OF ok(2)])
qed

section \<open>Properties\<close>

text \<open>
  C26. The token store is a map on disk. A store opened on a directory, after any operations
  that succeeded, loads for each name the bytes saved last, also those an earlier run of the
  program left, and reports an error where there are none or they were deleted.
\<close>

theorem token_store_refines:
  assumes "tree_ok fs0" and "rooted dir" and "NewFSStore dir fs0 = (Ok d, fs)"
    and "run_ops (fsStore_Save dir) (fsStore_Delete dir) ops fs = (Ok (), fs')"
    and "\<forall>op\<in>set ops. op_fits plain (\<lambda>_. True) op" and "plain i" and "fs_fault fs' OpRead (locate fs' dir @ [i]) = None"
  shows "case replay ops (dir_view dir fs) i of
      Some b \<Rightarrow> fsStore_Load dir i fs' = Ok b
    | None \<Rightarrow> \<exists>e. fsStore_Load dir i fs' = Err e"
proof -
  have inv: "dir_inv dir fs" by (rule NewFSStore_inv [OF assms(1-3)])
  from fs_store.run_replays [OF inv assms(5,4)] have r: "dir_inv dir fs'" "dir_view dir fs' i = replay ops (dir_view dir fs) i"
    using assms(6) by simp_all
  show ?thesis
  proof (cases "replay ops (dir_view dir fs) i")
    case None
    with fs_store.load_missing [OF r(1) assms(6)] r(2) show ?thesis by simp
  next
    case (Some b)
    with dir_ReadFile [OF r(1) assms(6), of b] r(2) assms(7) show ?thesis by (simp add: fsStore_Load_def)
  qed
qed

definition no_files :: files where
  "no_files = \<lparr>fs_nodes = [], fs_cwd = [], fs_fault = (\<lambda>_ _. None), fs_short = (\<lambda>_. 0), fs_dirsize = (\<lambda>_. 4096)\<rparr>"

lemma no_files_ok [simp]: "tree_ok no_files"
  by (simp add: tree_ok_def no_files_def)

theorem token_store_refines_witness:
  "fsStore_Load ''/run/t'' ''a'' (snd (run_ops (fsStore_Save ''/run/t'') (fsStore_Delete ''/run/t'')
     [SaveOp ''a'' ''x'', SaveOp ''b'' ''y'', SaveOp ''a'' ''z'', DeleteOp ''b''] (snd (NewFSStore ''/run/t'' no_files)))) = Ok ''z''"
proof -
  let ?d = "''/run/t''" and ?ops = "[SaveOp ''a'' ''x'', SaveOp ''b'' ''y'', SaveOp ''a'' ''z'', DeleteOp ''b'']"
  have "fst (NewFSStore ?d no_files) = Ok ?d" by code_simp
  then have n: "NewFSStore ?d no_files = (Ok ?d, snd (NewFSStore ?d no_files))" by (metis prod.collapse)
  have "fst (run_ops (fsStore_Save ?d) (fsStore_Delete ?d) ?ops (snd (NewFSStore ?d no_files))) = Ok ()" by code_simp
  then have r: "run_ops (fsStore_Save ?d) (fsStore_Delete ?d) ?ops (snd (NewFSStore ?d no_files))
      = (Ok (), snd (run_ops (fsStore_Save ?d) (fsStore_Delete ?d) ?ops (snd (NewFSStore ?d no_files))))" by (metis prod.collapse)
  have f: "fs_fault (snd (run_ops (fsStore_Save ?d) (fsStore_Delete ?d) ?ops (snd (NewFSStore ?d no_files)))) OpRead q = None" for q
    by code_simp
  have "rooted ?d" "\<forall>op\<in>set ?ops. op_fits plain (\<lambda>_. True) op" "plain ''a''" by (simp_all add: rooted_def plain_def)
  from token_store_refines [OF no_files_ok this(1) n r this(2,3) f] show ?thesis by simp
qed

text \<open>
  The two message stores are interchangeable: after the same operations, all of which
  succeeded, on messages that can be encoded, the store on disk and the one in memory load the same
  messages.
\<close>

theorem message_stores_agree:
  assumes "codec_roundtrip cd" and "decodes cd" and "dir_inv dir fs" and "\<forall>j. dir_view dir fs j = None"
    and "\<forall>op\<in>set ops. op_fits plain (marshals cd) op"
    and "run_ops (fsProtoStore_Save cd dir) (fsProtoStore_Delete dir) ops fs = (Ok (), fs')"
    and "run_ops ephemeral_Save ephemeral_Delete ops NewEphemeralProtoStore = (Ok (), items)"
    and "plain i" and "fs_fault fs' OpRead (locate fs' dir @ [i]) = None"
  shows "fsProtoStore_Load cd dir i fs' = Ok m \<longleftrightarrow> ephemeral_Load cd i items = Ok m"
proof -
  let ?r = "replay ops (\<lambda>_. None) i"
  have v0: "msg_view cd dir fs = (\<lambda>_. None)" using assms(4) by (simp add: msg_view_def fun_eq_iff)
  note disk = key_store.run_replays [OF fs_proto_store [OF assms(1,2), of dir] assms(3,5,6)]
  then have inv: "dir_inv dir fs'" and d: "msg_view cd dir fs' i = ?r" using assms(8) by (simp_all add: v0)
  have "\<forall>op\<in>set ops. op_fits (\<lambda>_. True) (\<lambda>_. True) op"
    using assms(5) by (metis op_fits.elims(3) op_fits.simps)
  from key_store.run_replays [OF ephemeral_store [OF assms(1)] _ this assms(7)]
  have e: "map_of items i = ?r" by (simp add: NewEphemeralProtoStore_def fun_upd_def)
  have "fsProtoStore_Load cd dir i fs' = Ok m \<longleftrightarrow> ?r = Some m"
    using dir_ReadFile [OF inv assms(8)] assms(9) by (simp add: d [symmetric] fsProtoStore_Load_def bindR_eq_Ok msg_view_iff)
  moreover have "ephemeral_Load cd i items = Ok m \<longleftrightarrow> ?r = Some m"
  proof (cases ?r)
    case (Some v)
    with replay_saved [OF Some] assms(5) have "marshals cd v" by auto
    with Some e assms(1) show ?thesis by (auto simp: ephemeral_Load_def marshals_def codec_roundtrip_def)
  qed (simp add: ephemeral_Load_def e)
  ultimately show ?thesis by simp
qed

definition note_codec :: "string codec" where
  "note_codec = table_codec [(''m'', ''1'')]"

theorem message_stores_agree_witness:
  "fsProtoStore_Load note_codec ''/s'' ''a'' (snd (run_ops (fsProtoStore_Save note_codec ''/s'') (fsProtoStore_Delete ''/s'') [SaveOp ''a'' ''m'']
      (snd (NewFSProtoStore ''/s'' no_files)))) = Ok ''m''"
proof -
  let ?fs = "snd (NewFSProtoStore ''/s'' no_files)" and ?ops = "[SaveOp ''a'' ''m'']"
  let ?run = "run_ops (fsProtoStore_Save note_codec ''/s'') (fsProtoStore_Delete ''/s'') ?ops ?fs"
  have c: "codec_roundtrip note_codec" unfolding note_codec_def by (rule table_codec_roundtrip) simp
  have d: "decodes note_codec" by (simp add: decodes_def note_codec_def table_codec_def)
  have n: "NewFSStore ''/s'' no_files = (Ok ''/s'', ?fs)"
    by (simp add: NewFSStore_def NewFSProtoStore_def os_MkdirAll_def locate_def rooted_def node_at_def no_files_def fault_def)
  have inv: "dir_inv ''/s'' ?fs" by (rule NewFSStore_inv [OF no_files_ok _ n]) (simp add: rooted_def)
  have v: "\<forall>j. dir_view ''/s'' ?fs j = None"
    by (simp add: dir_view_def NewFSProtoStore_def os_MkdirAll_def locate_def rooted_def node_at_def no_files_def fault_def set_node_def)
  have o: "\<forall>op\<in>set ?ops. op_fits plain (marshals note_codec) op" by (simp add: plain_def marshals_def note_codec_def table_codec_def)
  have "fst ?run = Ok ()" by code_simp
  then have r: "?run = (Ok (), snd ?run)" by (metis prod.collapse)
  have e: "run_ops ephemeral_Save ephemeral_Delete ?ops NewEphemeralProtoStore = (Ok (), [(''a'', ''m'')])" by code_simp
  have f: "fs_fault (snd ?run) OpRead q = None" for q by code_simp
  have "ephemeral_Load note_codec ''a'' [(''a'', ''m'')] = Ok ''m''" by code_simp
  with message_stores_agree [OF c d inv v o r e _ f] show ?thesis by (simp add: plain_def)
qed

end
