(* ===== verification/VolumeDrivers.thy ===== *)
theory VolumeDrivers
  imports Stores
begin

text \<open>
  Volumes on a node: the volume client (pkg/client/volume/v1/volume.go), the drivers
  (pkg/volume/volume.go, hostlocal.go, template.go) and the attacher that resolves the mounts of a task
  (attacher.go).

  The world is the file tree of the node and the rest \<open>'y\<close> that the clients act on. Closing a
  file never fails.
\<close>

section \<open>The volume client\<close>

record 'y VolumeServiceClient =
  vstub_Get :: "ctx \<Rightarrow> string \<Rightarrow> string \<Rightarrow> 'y \<Rightarrow> Volume res \<times> 'y"
  vstub_Create :: "ctx \<Rightarrow> Volume \<Rightarrow> 'y \<Rightarrow> Volume res \<times> 'y"
  vstub_Delete :: "ctx \<Rightarrow> string \<Rightarrow> string \<Rightarrow> 'y \<Rightarrow> unit res \<times> 'y"
  vstub_List :: "ctx \<Rightarrow> label \<Rightarrow> 'y \<Rightarrow> Volume list res \<times> 'y"
  vstub_Update :: "ctx \<Rightarrow> string \<Rightarrow> string \<Rightarrow> Volume \<Rightarrow> 'y \<Rightarrow> Volume res \<times> 'y"
  vstub_UpdateStatus :: "ctx \<Rightarrow> string \<Rightarrow> string \<Rightarrow> VolStatus option \<Rightarrow> string list \<Rightarrow> 'y \<Rightarrow> string res \<times> 'y"

record 'y volume_client =
  vlc_stub :: "'y VolumeServiceClient"
  vlc_uuid :: uuid_lib

definition volume_Status_Update :: "'y volume_client \<Rightarrow> ctx \<Rightarrow> string \<Rightarrow> VolStatus \<Rightarrow> string list \<Rightarrow> 'y \<Rightarrow> unit res \<times> 'y" where
  "volume_Status_Update c ctx i status path st =
     no_value (by_text (vlc_uuid c) i (\<lambda>uid name. vstub_UpdateStatus (vlc_stub c) ctx uid name (Some status) path) st)"

definition volume_Create :: "'y volume_client \<Rightarrow> ctx \<Rightarrow> Volume \<Rightarrow> 'y \<Rightarrow> unit res \<times> 'y" where
  "volume_Create c ctx vol st = no_value (vstub_Create (vlc_stub c) ctx vol st)"

definition volume_Update :: "'y volume_client \<Rightarrow> ctx \<Rightarrow> string \<Rightarrow> Volume \<Rightarrow> 'y \<Rightarrow> unit res \<times> 'y" where
  "volume_Update c ctx i vol st =
     no_value (by_text (vlc_uuid c) i (\<lambda>uid name. vstub_Update (vlc_stub c) ctx uid name vol) st)"

definition volume_Get :: "'y volume_client \<Rightarrow> ctx \<Rightarrow> string \<Rightarrow> 'y \<Rightarrow> Volume res \<times> 'y" where
  "volume_Get c ctx i st = by_text (vlc_uuid c) i (vstub_Get (vlc_stub c) ctx) st"

definition volume_List :: "'y volume_client \<Rightarrow> ctx \<Rightarrow> label list \<Rightarrow> 'y \<Rightarrow> Volume list res \<times> 'y" where
  "volume_List c ctx ls st = vstub_List (vlc_stub c) ctx (MergeLabels ls) st"

definition volume_Delete :: "'y volume_client \<Rightarrow> ctx \<Rightarrow> string \<Rightarrow> 'y \<Rightarrow> unit res \<times> 'y" where
  "volume_Delete c ctx i st = no_value (by_text (vlc_uuid c) i (vstub_Delete (vlc_stub c) ctx) st)"

section \<open>Drivers\<close>

definition on_files :: "(files \<Rightarrow> 'a res \<times> files) \<Rightarrow> files \<times> 'y \<Rightarrow> 'a res \<times> (files \<times> 'y)" where
  "on_files f st = (case st of (fs, y) \<Rightarrow> (case f fs of (r, fs) \<Rightarrow> (r, (fs, y))))"

definition on_server :: "('y \<Rightarrow> 'a res \<times> 'y) \<Rightarrow> files \<times> 'y \<Rightarrow> 'a res \<times> (files \<times> 'y)" where
  "on_server f st = (case st of (fs, y) \<Rightarrow> (case f y of (r, y) \<Rightarrow> (r, (fs, y))))"

record FSVolume =
  fv_id :: string
  fv_size :: int
  fv_location :: string

text \<open>A driver. \<^verbatim>\<open>List\<close> may block, which is \<open>None\<close>.\<close>

record 'y Driver =
  drv_Create :: "ctx \<Rightarrow> string \<Rightarrow> files \<times> 'y \<Rightarrow> FSVolume res \<times> (files \<times> 'y)"
  drv_Get :: "ctx \<Rightarrow> string \<Rightarrow> files \<times> 'y \<Rightarrow> FSVolume res \<times> (files \<times> 'y)"
  drv_Delete :: "ctx \<Rightarrow> string \<Rightarrow> files \<times> 'y \<Rightarrow> unit res \<times> (files \<times> 'y)"
  drv_List :: "ctx \<Rightarrow> files \<times> 'y \<Rightarrow> (FSVolume list res \<times> (files \<times> 'y)) option"

datatype DriverType = DriverTypeUnspecified | DriverTypeHostLocal | DriverTypeTemplate

fun DriverType_String :: "DriverType \<Rightarrow> string" where
  "DriverType_String DriverTypeUnspecified = ''unspecified''"
| "DriverType_String DriverTypeHostLocal = ''host-local''"
| "DriverType_String DriverTypeTemplate = ''template''"

definition vol_config :: "Volume \<Rightarrow> VolConfig" where
  "vol_config v = (case vol_Config v of None \<Rightarrow> \<lparr>vc_HostLocal = None, vc_Template = None, vc_NodeSelector = []\<rparr> | Some c \<Rightarrow> c)"

definition vol_name_of :: "Volume \<Rightarrow> string" where
  "vol_name_of v = meta_Name (getMeta (vol_Meta v))"

definition GetDriverType :: "Volume \<Rightarrow> DriverType" where
  "GetDriverType vol =
     (if vc_HostLocal (vol_config vol) \<noteq> None then DriverTypeHostLocal
      else if vc_Template (vol_config vol) \<noteq> None then DriverTypeTemplate
      else DriverTypeUnspecified)"

subsection \<open>Host-local volumes\<close>

definition hostLocal_Create :: "string \<Rightarrow> string \<Rightarrow> files \<Rightarrow> FSVolume res \<times> files" where
  "hostLocal_Create rootPath name fs =
     (let p = path_Join [rootPath, name] in
      andThen (os_MkdirAll p fs) (\<lambda>_ fs.
      andThen (os_Stat p fs, fs) (\<lambda>stat fs.
      (Ok \<lparr>fv_id = name, fv_size = fi_Size stat, fv_location = p\<rparr>, fs))))"

definition hostLocal_Delete :: "string \<Rightarrow> string \<Rightarrow> files \<Rightarrow> unit res \<times> files" where
  "hostLocal_Delete rootPath name fs = os_RemoveAll (path_Join [rootPath, name]) fs"

definition hostLocal_Get :: "string \<Rightarrow> string \<Rightarrow> files \<Rightarrow> FSVolume res \<times> files" where
  "hostLocal_Get rootPath name fs =
     (let p = path_Join [rootPath, name] in
      andThen (os_Stat p fs, fs) (\<lambda>fstat fs.
      if \<not> fi_IsDir fstat then (Err (Errorf (''volume location '' @ p @ '' is not a directory'')), fs)
      else (Ok \<lparr>fv_id = fi_Name fstat, fv_size = fi_Size fstat, fv_location = p\<rparr>, fs)))"

text \<open>
  \<^verbatim>\<open>List\<close> holds the driver's mutex and calls \<^verbatim>\<open>Get\<close> for the first directory it finds, which waits
  for the same mutex.
\<close>

definition hostLocal_List :: "string \<Rightarrow> files \<Rightarrow> (FSVolume list res \<times> files) option" where
  "hostLocal_List rootPath fs =
     (case os_ReadDir rootPath fs of
        Err e \<Rightarrow> Some (Err e, fs)
      | Panic m \<Rightarrow> Some (Panic m, fs)
      | Ok dirs \<Rightarrow> if list_ex snd dirs then None else Some (Ok [], fs))"

definition NewHostLocalManager :: "string \<Rightarrow> 'y Driver" where
  "NewHostLocalManager rootPath = \<lparr>
     drv_Create = (\<lambda>_ name. on_files (hostLocal_Create rootPath name)),
     drv_Get = (\<lambda>_ name. on_files (hostLocal_Get rootPath name)),
     drv_Delete = (\<lambda>_ name. on_files (hostLocal_Delete rootPath name)),
     drv_List = (\<lambda>_ (fs, y). map_option (\<lambda>(r, fs). (r, (fs, y))) (hostLocal_List rootPath fs))\<rparr>"

subsection \<open>Template volumes\<close>

definition template_of :: "Volume \<Rightarrow> Template" where
  "template_of vol = (case vc_Template (vol_config vol) of None \<Rightarrow> \<lparr>tpl_Name = [], tpl_Data = []\<rparr> | Some t \<Rightarrow> t)"

text \<open>The file is opened twice, by \<^verbatim>\<open>Create\<close> and by \<^verbatim>\<open>WriteFile\<close>.\<close>

definition template_Create :: "'y volume_client \<Rightarrow> string \<Rightarrow> ctx \<Rightarrow> string \<Rightarrow> files \<times> 'y \<Rightarrow> FSVolume res \<times> (files \<times> 'y)" where
  "template_Create c rootPath ctx name st =
     andThen (on_server (volume_Get c ctx name) st) (\<lambda>vol st.
     let p = path_Join [rootPath, vol_name_of vol];
         fpath = path_Join [p, tpl_Name (template_of vol)]
     in andThen (on_files (os_MkdirAll p) st) (\<lambda>_ st.
        andThen (on_files (os_Create fpath) st) (\<lambda>_ st.
        andThen (on_files (os_WriteFile fpath (tpl_Data (template_of vol))) st) (\<lambda>_ st.
        andThen (os_Stat fpath (fst st), st) (\<lambda>stat st.
        (Ok \<lparr>fv_id = name, fv_size = fi_Size stat, fv_location = fpath\<rparr>, st))))))"

definition template_Delete :: "'y volume_client \<Rightarrow> string \<Rightarrow> ctx \<Rightarrow> string \<Rightarrow> files \<times> 'y \<Rightarrow> unit res \<times> (files \<times> 'y)" where
  "template_Delete c rootPath ctx name st =
     andThen (on_server (volume_Get c ctx name) st) (\<lambda>vol st.
     on_files (os_RemoveAll (path_Join [rootPath, vol_name_of vol])) st)"

definition template_Get :: "'y volume_client \<Rightarrow> string \<Rightarrow> ctx \<Rightarrow> string \<Rightarrow> files \<times> 'y \<Rightarrow> FSVolume res \<times> (files \<times> 'y)" where
  "template_Get c rootPath ctx name st =
     andThen (on_server (volume_Get c ctx name) st) (\<lambda>vol st.
     let p = path_Join [rootPath, vol_name_of vol];
         fpath = path_Join [p, tpl_Name (template_of vol)]
     in andThen (os_Stat fpath (fst st), st) (\<lambda>stat st.
        (Ok \<lparr>fv_id = vol_name_of vol, fv_size = fi_Size stat, fv_location = fpath\<rparr>, st)))"

definition template_List :: "'y volume_client \<Rightarrow> string \<Rightarrow> ctx \<Rightarrow> files \<times> 'y \<Rightarrow> FSVolume list res \<times> (files \<times> 'y)" where
  "template_List c rootPath ctx st =
     andThen (on_server (volume_List c ctx []) st) (\<lambda>vols st.
     (Ok (map (\<lambda>vol. \<lparr>fv_id = vol_name_of vol, fv_size = 0, fv_location = path_Join [rootPath, vol_name_of vol]\<rparr>)
            (filter (\<lambda>vol. GetDriverType vol = DriverTypeTemplate) vols)), st))"

definition NewTemplateDriver :: "'y volume_client \<Rightarrow> string \<Rightarrow> 'y Driver" where
  "NewTemplateDriver c rootPath = \<lparr>
     drv_Create = template_Create c rootPath,
     drv_Get = template_Get c rootPath,
     drv_Delete = template_Delete c rootPath,
     drv_List = (\<lambda>ctx st. Some (template_List c rootPath ctx st))\<rparr>"

definition NodeVolumeDrivers :: "'y volume_client \<Rightarrow> Node \<Rightarrow> (DriverType, 'y Driver) gomap" where
  "NodeVolumeDrivers c n =
     (case Option.bind (node_Config n) nc_VolumeDrivers of
        None \<Rightarrow> []
      | Some drivers \<Rightarrow>
          (case vdc_HostLocal drivers of None \<Rightarrow> [] | Some h \<Rightarrow> [(DriverTypeHostLocal, NewHostLocalManager (vdh_RootDir h))])
        @ (case vdc_Template drivers of None \<Rightarrow> [] | Some t \<Rightarrow> [(DriverTypeTemplate, NewTemplateDriver c (vdt_RootDir t))]))"

section \<open>The attacher\<close>

definition ctl_status :: "string \<Rightarrow> Reason \<Rightarrow> string option \<Rightarrow> bool \<Rightarrow> VolStatus" where
  "ctl_status nodeName reason loc ready =
     empty_VolStatus\<lparr>vs_Controllers := [(nodeName, \<lparr>cs_Phase = Some (reason_text reason), cs_Location = loc, cs_Ready = Some ready\<rparr>)]\<rparr>"

definition ensureLocalVolume :: "'y Driver \<Rightarrow> ctx \<Rightarrow> string \<Rightarrow> files \<times> 'y \<Rightarrow> FSVolume res \<times> (files \<times> 'y)" where
  "ensureLocalVolume d ctx volName st =
     (case drv_Get d ctx volName st of
        (Err e, st) \<Rightarrow> if os_IsNotExist e then drv_Create d ctx volName st else (Err e, st)
      | (r, st) \<Rightarrow> (r, st))"

definition no_driver :: "DriverType \<Rightarrow> string \<Rightarrow> error" where
  "no_driver t nodeName = Errorf (''driver '' @ DriverType_String t @ '' not configured for node '' @ nodeName)"

text \<open>One mount of \<^verbatim>\<open>PrepareMounts\<close>: errors of the calls are wrapped, a failed status update is ignored.\<close>

definition wrap_err :: "string \<Rightarrow> 'a res \<times> 'x \<Rightarrow> 'a res \<times> 'x" where
  "wrap_err msg p = (case p of (Err e, st) \<Rightarrow> (Err (Wrapped msg e), st) | (r, st) \<Rightarrow> (r, st))"

definition resolve_mount ::
  "'y volume_client \<Rightarrow> (DriverType, 'y Driver) gomap \<Rightarrow> ctx \<Rightarrow> string \<Rightarrow> Mount \<Rightarrow> files \<times> 'y \<Rightarrow> Mount res \<times> (files \<times> 'y)" where
  "resolve_mount c drivers ctx nodeName m st =
     (if mnt_Volume m = [] then (Ok m, st)
      else andThen (wrap_err ''get volume'' (on_server (volume_Get c ctx (mnt_Volume m)) st)) (\<lambda>v st.
        case map_of drivers (GetDriverType v) of
          None \<Rightarrow> (Err (no_driver (GetDriverType v) nodeName), st)
        | Some driver \<Rightarrow>
            andThen (wrap_err ''prepare volume'' (ensureLocalVolume driver ctx (mnt_Volume m) st)) (\<lambda>localVol st.
            ignoring (on_server (volume_Status_Update c ctx (mnt_Volume m)
                (ctl_status nodeName ReasonAttached (Some (fv_location localVol)) True) [''controllers'']) st) (\<lambda>st.
            (Ok (m\<lparr>mnt_Source := fv_location localVol\<rparr>), st)))))"

fun resolve_each ::
  "'y volume_client \<Rightarrow> (DriverType, 'y Driver) gomap \<Rightarrow> ctx \<Rightarrow> string \<Rightarrow> Mount list \<Rightarrow> files \<times> 'y \<Rightarrow> Mount list res \<times> (files \<times> 'y)" where
  "resolve_each c drivers ctx nodeName [] st = (Ok [], st)"
| "resolve_each c drivers ctx nodeName (m # ms) st =
     andThen (resolve_mount c drivers ctx nodeName m st) (\<lambda>nm st.
     andThen (resolve_each c drivers ctx nodeName ms st) (\<lambda>resolved st. (Ok (nm # resolved), st)))"

definition DefaultAttacher_PrepareMounts :: "'y volume_client \<Rightarrow> ctx \<Rightarrow> Node \<Rightarrow> Task \<Rightarrow> files \<times> 'y \<Rightarrow> Task res \<times> (files \<times> 'y)" where
  "DefaultAttacher_PrepareMounts c ctx n ctr st =
     (let mounts = tc_Mounts (task_config ctr) in
      if mounts = [] then (Ok ctr, st)
      else andThen (resolve_each c (NodeVolumeDrivers c n) ctx (node_name_of n) mounts st) (\<lambda>resolved st.
        (Ok (ctr\<lparr>task_Config := Some (task_config ctr\<lparr>tc_Mounts := resolved\<rparr>)\<rparr>), st)))"

fun detach_each :: "'y volume_client \<Rightarrow> ctx \<Rightarrow> string \<Rightarrow> Mount list \<Rightarrow> files \<times> 'y \<Rightarrow> unit res \<times> (files \<times> 'y)" where
  "detach_each c ctx nodeName [] st = (Ok (), st)"
| "detach_each c ctx nodeName (m # ms) st =
     (if mnt_Volume m = [] then detach_each c ctx nodeName ms st
      else ignoring (on_server (volume_Status_Update c ctx (mnt_Volume m) (ctl_status nodeName ReasonDetached None False) [''controllers'']) st)
             (\<lambda>st. detach_each c ctx nodeName ms st))"

definition DefaultAttacher_Detach :: "'y volume_client \<Rightarrow> ctx \<Rightarrow> Node \<Rightarrow> Task \<Rightarrow> files \<times> 'y \<Rightarrow> unit res \<times> (files \<times> 'y)" where
  "DefaultAttacher_Detach c ctx n ctr st = detach_each c ctx (node_name_of n) (tc_Mounts (task_config ctr)) st"

fun reclaim_each ::
  "'y volume_client \<Rightarrow> (DriverType, 'y Driver) gomap \<Rightarrow> ctx \<Rightarrow> string \<Rightarrow> Mount list \<Rightarrow> files \<times> 'y \<Rightarrow> unit res \<times> (files \<times> 'y)" where
  "reclaim_each c drivers ctx nodeName [] st = (Ok (), st)"
| "reclaim_each c drivers ctx nodeName (m # ms) st =
     (if mnt_Volume m = [] then reclaim_each c drivers ctx nodeName ms st
      else andThen (on_server (volume_Get c ctx (mnt_Volume m)) st) (\<lambda>v st.
        case map_of drivers (GetDriverType v) of
          None \<Rightarrow> (Err (no_driver (GetDriverType v) nodeName), st)
        | Some driver \<Rightarrow>
            andThen (drv_Delete driver ctx (mnt_Volume m) st) (\<lambda>_ st.
            ignoring (on_server (volume_Status_Update c ctx (mnt_Volume m) (ctl_status nodeName ReasonDetached None False) [''controllers'']) st)
              (\<lambda>st. reclaim_each c drivers ctx nodeName ms st))))"

definition DefaultAttacher_Reclaim :: "'y volume_client \<Rightarrow> ctx \<Rightarrow> Node \<Rightarrow> Task \<Rightarrow> files \<times> 'y \<Rightarrow> unit res \<times> (files \<times> 'y)" where
  "DefaultAttacher_Reclaim c ctx n ctr st =
     reclaim_each c (NodeVolumeDrivers c n) ctx (node_name_of n) (tc_Mounts (task_config ctr)) st"

text \<open>The attacher as the node controller uses it.\<close>

definition NewDefaultAttacher :: "'y volume_client \<Rightarrow> (files \<times> 'y) Attacher" where
  "NewDefaultAttacher c = \<lparr>at_PrepareMounts = DefaultAttacher_PrepareMounts c, at_Detach = DefaultAttacher_Detach c\<rparr>"

section \<open>What a driver promises\<close>

definition exists_at :: "files \<Rightarrow> string \<Rightarrow> bool" where
  "exists_at fs p \<longleftrightarrow> p \<noteq> [] \<and> node_at fs (locate fs p) \<noteq> None"

text \<open>A call that only adds to the tree.\<close>

definition grows :: "files \<Rightarrow> files \<Rightarrow> bool" where
  "grows fs fs' \<longleftrightarrow> (tree_ok fs \<longrightarrow> tree_ok fs') \<and> fs_env fs' = fs_env fs \<and> (\<forall>q. node_at fs q \<noteq> None \<longrightarrow> node_at fs' q \<noteq> None)"

lemma grows_refl [simp]: "grows fs fs"
  by (simp add: grows_def)

lemma grows_trans: "grows a b \<Longrightarrow> grows b c \<Longrightarrow> grows a c"
  by (simp add: grows_def)

lemma exists_grows: "exists_at fs p \<Longrightarrow> grows fs fs' \<Longrightarrow> exists_at fs' p"
  using fs_envD(1) [of fs' fs p] by (auto simp: exists_at_def grows_def)

text \<open>Drivers only add to the tree when they provide a volume, and its location is there.\<close>

locale provider =
  fixes d :: "'y Driver"
  assumes get_files: "tree_ok (fst x) \<Longrightarrow> drv_Get d ctx n x = (r, x') \<Longrightarrow> fst x' = fst x \<and> (\<forall>v. r = Ok v \<longrightarrow> exists_at (fst x) (fv_location v))"
    and create_grows: "tree_ok (fst x) \<Longrightarrow> drv_Create d ctx n x = (r, x') \<Longrightarrow> grows (fst x) (fst x') \<and> (\<forall>v. r = Ok v \<longrightarrow> exists_at (fst x') (fv_location v))"
begin

lemma ensure_exists:
  assumes "tree_ok (fst x)" and "ensureLocalVolume d ctx n x = (r, x')"
  shows "grows (fst x) (fst x') \<and> (\<forall>v. r = Ok v \<longrightarrow> exists_at (fst x') (fv_location v))"
proof -
  obtain r1 x1 where g: "drv_Get d ctx n x = (r1, x1)" by (metis surj_pair)
  note g' = get_files [OF assms(1) g]
  show ?thesis
  proof (cases "\<exists>e. r1 = Err e \<and> os_IsNotExist e")
    case True
    with assms(2) g have "drv_Create d ctx n x1 = (r, x')" by (auto simp: ensureLocalVolume_def)
    with create_grows [of x1] g' assms(1) show ?thesis by simp
  next
    case False
    with assms(2) g have "r = r1" "x' = x1" by (auto simp: ensureLocalVolume_def split: result.splits if_splits)
    with g' show ?thesis by simp
  qed
qed

end

text \<open>
  For the volumes that are \<open>ok\<close>, looking one up changes nothing, a volume just made is found in its
  place, and one just deleted is not found.
\<close>

locale volume_driver = provider d for d :: "'y Driver" +
  fixes ok :: "string \<Rightarrow> files \<times> 'y \<Rightarrow> bool"
  assumes get_same: "tree_ok (fst x) \<Longrightarrow> ok n x \<Longrightarrow> drv_Get d ctx n x = (r, x') \<Longrightarrow> x' = x"
    and create_get: "tree_ok (fst x) \<Longrightarrow> ok n x \<Longrightarrow> drv_Create d ctx n x = (Ok v, x') \<Longrightarrow>
      ok n x' \<and> (\<exists>v'. drv_Get d ctx n x' = (Ok v', x') \<and> fv_location v' = fv_location v)"
    and delete_get: "tree_ok (fst x) \<Longrightarrow> ok n x \<Longrightarrow> drv_Delete d ctx n x = (Ok (), x') \<Longrightarrow>
      tree_ok (fst x') \<and> ok n x' \<and> (\<exists>e. drv_Get d ctx n x' = (Err e, x'))"
begin

text \<open>Ensuring a volume twice gives the same place and changes nothing the second time.\<close>

lemma ensure_again:
  assumes "tree_ok (fst x)" "ok n x" and "ensureLocalVolume d ctx n x = (Ok v, x')"
  shows "\<exists>v'. ensureLocalVolume d ctx n x' = (Ok v', x') \<and> fv_location v' = fv_location v"
proof -
  obtain r1 x1 where g: "drv_Get d ctx n x = (r1, x1)" by (metis surj_pair)
  from get_same [OF assms(1,2) g] have x1: "x1 = x" .
  show ?thesis
  proof (cases r1)
    case (Ok w)
    with g x1 assms(3) show ?thesis by (auto simp: ensureLocalVolume_def)
  next
    case (Err e)
    with g x1 assms(3) have "drv_Create d ctx n x = (Ok v, x')" by (auto simp: ensureLocalVolume_def split: if_splits)
    from create_get [OF assms(1,2) this] show ?thesis by (auto simp: ensureLocalVolume_def)
  qed (use g assms(3) in \<open>simp add: ensureLocalVolume_def\<close>)
qed

end

section \<open>The drivers keep it\<close>

lemma MkdirAll_grows: "tree_ok fs \<Longrightarrow> os_MkdirAll p fs = (r, fs') \<Longrightarrow> grows fs fs'"
  using MkdirAll_ok [of fs p r fs'] unfolding grows_def by (metis option.distinct(1))

lemma writes_grows: "writes_file q fs fs' \<Longrightarrow> grows fs fs'"
  unfolding writes_file_def grows_def by (metis option.distinct(1))

lemma Create_grows: "tree_ok fs \<Longrightarrow> os_Create p fs = (r, fs') \<Longrightarrow> grows fs fs'"
  using Create_ok [of fs p r fs'] writes_grows by auto

lemma WriteFile_grows: "tree_ok fs \<Longrightarrow> os_WriteFile p b fs = (r, fs') \<Longrightarrow> grows fs fs'"
  using WriteFile_ok [of fs p b r fs'] writes_grows by auto

lemma grows_tree: "grows fs fs' \<Longrightarrow> tree_ok fs \<Longrightarrow> tree_ok fs'"
  by (simp add: grows_def)

lemma Stat_exists: "tree_ok fs \<Longrightarrow> os_Stat p fs = Ok i \<Longrightarrow> exists_at fs p"
  using Stat_iff [of fs p] by (auto simp: exists_at_def)

lemma on_files_eq: "on_files f x = (r, x') \<longleftrightarrow> f (fst x) = (r, fst x') \<and> snd x' = snd x"
  by (cases x; cases x') (auto simp: on_files_def split: prod.split)

lemma on_server_eq: "on_server f x = (r, x') \<longleftrightarrow> f (snd x) = (r, snd x') \<and> fst x' = fst x"
  by (cases x; cases x') (auto simp: on_server_def split: prod.split)

lemma hostLocal_Get_cases:
  "hostLocal_Get root n fs = (r, fs') \<Longrightarrow> fs' = fs \<and> (\<forall>v. r = Ok v \<longrightarrow> fv_location v = path_Join [root, n] \<and> (\<exists>i. os_Stat (path_Join [root, n]) fs = Ok i))"
  by (cases "os_Stat (path_Join [root, n]) fs") (auto simp: hostLocal_Get_def Let_def split: if_splits)

lemma hostLocal_Create_cases:
  assumes "tree_ok fs" and "hostLocal_Create root n fs = (r, fs')"
  shows "grows fs fs' \<and> (\<forall>v. r = Ok v \<longrightarrow> fv_location v = path_Join [root, n] \<and> node_at fs' (locate fs' (path_Join [root, n])) = Some Dir
    \<and> (\<exists>i. os_Stat (path_Join [root, n]) fs' = Ok i))"
proof -
  let ?p = "path_Join [root, n]"
  obtain r1 fs1 where m: "os_MkdirAll ?p fs = (r1, fs1)" by (metis surj_pair)
  note ok = MkdirAll_ok [OF assms(1) m]
  have d: "node_at fs1 (locate fs1 ?p) = Some Dir" if "r1 = Ok ()" using ok(4) [OF that] fs_envD(1) [OF ok(2)] by simp
  have "fs' = fs1" using assms(2) m by (cases r1; cases "os_Stat ?p fs1") (auto simp: hostLocal_Create_def Let_def)
  moreover have "fv_location v = ?p \<and> r1 = Ok () \<and> (\<exists>i. os_Stat ?p fs1 = Ok i)" if "r = Ok v" for v
    using assms(2) m that by (cases r1; cases "os_Stat ?p fs1") (auto simp: hostLocal_Create_def Let_def)
  ultimately show ?thesis using MkdirAll_grows [OF assms(1) m] d by blast
qed

interpretation host_local: volume_driver "NewHostLocalManager root" "\<lambda>n x. rooted root \<and> plain n" for root
proof
  fix x :: "files \<times> 'y" and ctx n r x'
  assume t: "tree_ok (fst x)"
  show "fst x' = fst x \<and> (\<forall>v. r = Ok v \<longrightarrow> exists_at (fst x) (fv_location v))" if "drv_Get (NewHostLocalManager root) ctx n x = (r, x')"
    using that hostLocal_Get_cases [of root n "fst x" r "fst x'"] Stat_exists [OF t] by (auto simp: NewHostLocalManager_def on_files_eq)
  show "grows (fst x) (fst x') \<and> (\<forall>v. r = Ok v \<longrightarrow> exists_at (fst x') (fv_location v))" if "drv_Create (NewHostLocalManager root) ctx n x = (r, x')"
    using that hostLocal_Create_cases [OF t, of root n r "fst x'"] Stat_exists [OF grows_tree [OF _ t]]
    by (fastforce simp: NewHostLocalManager_def on_files_eq)
next
  fix x :: "files \<times> 'y" and ctx n r x'
  assume "drv_Get (NewHostLocalManager root) ctx n x = (r, x')"
  then have "hostLocal_Get root n (fst x) = (r, fst x')" "snd x' = snd x" by (simp_all add: NewHostLocalManager_def on_files_eq)
  with hostLocal_Get_cases [of root n "fst x" r "fst x'"] show "x' = x" by (simp add: prod_eq_iff)
next
  fix x :: "files \<times> 'y" and ctx n v x'
  assume t: "tree_ok (fst x)" and "rooted root \<and> plain n" and "drv_Create (NewHostLocalManager root) ctx n x = (Ok v, x')"
  then have "hostLocal_Create root n (fst x) = (Ok v, fst x')" by (simp add: NewHostLocalManager_def on_files_eq)
  from hostLocal_Create_cases [OF t this] obtain i where g: "grows (fst x) (fst x')" and l: "fv_location v = path_Join [root, n]"
    and d: "node_at (fst x') (locate (fst x') (path_Join [root, n])) = Some Dir" and s: "os_Stat (path_Join [root, n]) (fst x') = Ok i" by auto
  from Stat_IsDir [OF grows_tree [OF g t] s] d have "fi_IsDir i" by simp
  with s l have "hostLocal_Get root n (fst x') = (Ok \<lparr>fv_id = fi_Name i, fv_size = fi_Size i, fv_location = fv_location v\<rparr>, fst x')"
    by (simp add: hostLocal_Get_def)
  with \<open>rooted root \<and> plain n\<close> show "(rooted root \<and> plain n) \<and> (\<exists>v'. drv_Get (NewHostLocalManager root) ctx n x' = (Ok v', x') \<and> fv_location v' = fv_location v)"
    by (auto simp: NewHostLocalManager_def on_files_eq)
next
  fix x :: "files \<times> 'y" and ctx n x'
  assume t: "tree_ok (fst x)" and ok: "rooted root \<and> plain n" and "drv_Delete (NewHostLocalManager root) ctx n x = (Ok (), x')"
  then have "os_RemoveAll (path_Join [root, n]) (fst x) = (Ok (), fst x')" by (simp add: NewHostLocalManager_def on_files_eq hostLocal_Delete_def)
  note rm = RemoveAll_ok [OF t this]
  have q: "locate (fst x) (path_Join [root, n]) = locate (fst x) root @ [n]" "path_Join [root, n] \<noteq> []"
    using locate_Join_plain [of root n] locate_Join [of root n] ok by (auto simp: plain_def)
  have "node_at (fst x') (locate (fst x') (path_Join [root, n])) = None"
    using rm(4) [of "locate (fst x) root @ [n]"] q by (simp add: fs_envD(1) [OF rm(2)])
  then have "\<not> (\<exists>i. os_Stat (path_Join [root, n]) (fst x') = Ok i)" using Stat_iff [OF rm(1)] by simp
  then obtain e where "os_Stat (path_Join [root, n]) (fst x') = Err e"
    using Stat_no_panic by (cases "os_Stat (path_Join [root, n]) (fst x')") auto
  then have "drv_Get (NewHostLocalManager root) ctx n x' = (Err e, x')" by (simp add: NewHostLocalManager_def on_files_eq hostLocal_Get_def)
  with rm(1) ok show "tree_ok (fst x') \<and> (rooted root \<and> plain n) \<and> (\<exists>e. drv_Get (NewHostLocalManager root) ctx n x' = (Err e, x'))" by blast
qed

lemma template_Get_cases:
  assumes "template_Get c root ctx n x = (r, x')"
  shows "fst x' = fst x \<and> (\<forall>v. r = Ok v \<longrightarrow> (\<exists>i. os_Stat (fv_location v) (fst x) = Ok i))"
proof -
  obtain r1 x1 where g: "on_server (volume_Get c ctx n) x = (r1, x1)" by (metis surj_pair)
  then have f: "fst x1 = fst x" by (simp add: on_server_eq)
  show ?thesis
  proof (cases r1)
    case (Ok vol)
    let ?p = "path_Join [path_Join [root, vol_name_of vol], tpl_Name (template_of vol)]"
    from Ok assms g f show ?thesis by (cases "os_Stat ?p (fst x1)") (auto simp: template_Get_def Let_def)
  qed (use assms g f in \<open>auto simp: template_Get_def\<close>)
qed

text \<open>A sequence of calls that only add to the tree only adds to it.\<close>

definition adds :: "files \<Rightarrow> 'a res \<times> (files \<times> 'y) \<Rightarrow> bool" where
  "adds fs p \<longleftrightarrow> grows fs (fst (snd p))"

lemma adds_andThen: "adds fs p \<Longrightarrow> (\<And>a s. grows fs (fst s) \<Longrightarrow> adds fs (f a s)) \<Longrightarrow> adds fs (andThen p f)"
  by (cases p; cases "fst p") (auto simp: adds_def)

lemma adds_on_files:
  "(\<And>r fs'. f (fst x) = (r, fs') \<Longrightarrow> grows (fst x) fs') \<Longrightarrow> grows fs (fst x) \<Longrightarrow> adds fs (on_files f x)"
  by (cases x; cases "f (fst x)") (auto simp: adds_def on_files_def elim: grows_trans)

lemma adds_on_server: "grows fs (fst x) \<Longrightarrow> adds fs (on_server f x)"
  by (cases x) (simp add: adds_def on_server_def split: prod.split)

lemma template_Create_cases:
  assumes t: "tree_ok (fst x)" and c: "template_Create c root ctx n x = (r, x')"
  shows "grows (fst x) (fst x') \<and> (\<forall>v. r = Ok v \<longrightarrow> exists_at (fst x') (fv_location v))"
proof -
  have "adds (fst x) (template_Create c root ctx n x)"
    unfolding template_Create_def Let_def
    by (intro adds_andThen adds_on_server adds_on_files grows_refl)
       (auto simp: adds_def intro: MkdirAll_grows Create_grows WriteFile_grows grows_tree [OF _ t])
  then have g: "grows (fst x) (fst x')" by (simp add: adds_def c)
  have "exists_at (fst x') (fv_location v)" if "r = Ok v" for v
  proof -
    from c that obtain p i where "os_Stat p (fst x') = Ok i" "fv_location v = p"
      by (auto simp: template_Create_def Let_def andThen_eq_Ok)
    with Stat_exists [OF grows_tree [OF g t]] show ?thesis by simp
  qed
  with g show ?thesis by blast
qed

interpretation template: provider "NewTemplateDriver c root" for c :: "'y volume_client" and root
proof
  fix x :: "files \<times> 'y" and ctx n r x'
  assume t: "tree_ok (fst x)"
  show "fst x' = fst x \<and> (\<forall>v. r = Ok v \<longrightarrow> exists_at (fst x) (fv_location v))" if "drv_Get (NewTemplateDriver c root) ctx n x = (r, x')"
    using that template_Get_cases [of c root ctx n x r x'] Stat_exists [OF t] by (auto simp: NewTemplateDriver_def)
  show "grows (fst x) (fst x') \<and> (\<forall>v. r = Ok v \<longrightarrow> exists_at (fst x') (fv_location v))" if "drv_Create (NewTemplateDriver c root) ctx n x = (r, x')"
    using that template_Create_cases [OF t] by (auto simp: NewTemplateDriver_def)
qed

lemma node_drivers: "map_of (NodeVolumeDrivers c n) dt = Some d \<Longrightarrow> provider d"
  by (auto simp: NodeVolumeDrivers_def map_add_def host_local.provider_axioms template.provider_axioms split: option.splits if_splits)

section \<open>Resolving mounts\<close>

definition resolved_in :: "files \<Rightarrow> Mount \<Rightarrow> Mount \<Rightarrow> bool" where
  "resolved_in fs m m' \<longleftrightarrow> (if mnt_Volume m = [] then m' = m else m' = m\<lparr>mnt_Source := mnt_Source m'\<rparr> \<and> exists_at fs (mnt_Source m'))"

lemma resolved_grows: "resolved_in fs m m' \<Longrightarrow> grows fs fs' \<Longrightarrow> resolved_in fs' m m'"
  by (auto simp: resolved_in_def exists_grows split: if_splits)

lemma wrap_err_Ok: "wrap_err msg p = (Ok v, x) \<longleftrightarrow> p = (Ok v, x)"
  by (cases p; cases "fst p") (auto simp: wrap_err_def)

lemma adds_wrap_err: "adds fs p \<Longrightarrow> adds fs (wrap_err msg p)"
  by (cases p; cases "fst p") (auto simp: wrap_err_def adds_def)

lemma adds_ignoring: "adds fs p \<Longrightarrow> (\<And>s. grows fs (fst s) \<Longrightarrow> adds fs (f s)) \<Longrightarrow> adds fs (ignoring p f)"
  by (cases p; cases "fst p") (auto simp: ignoring_def adds_def)

lemma ignoring_return: "ignoring p (\<lambda>st. (Ok b, st)) = (Ok b', x') \<Longrightarrow> x' = snd p \<and> b' = b"
  by (cases p; cases "fst p") (auto simp: ignoring_def)

lemma on_server_files: "fst (snd (on_server f x)) = fst x"
  by (cases x) (simp add: on_server_def split: prod.split)

lemma resolve_mount_grows:
  assumes ps: "\<forall>dt d. map_of drivers dt = Some d \<longrightarrow> provider d" and t: "tree_ok (fst x)"
    and res: "resolve_mount c drivers ctx nodeName m x = (r, x')"
  shows "grows (fst x) (fst x') \<and> (\<forall>m'. r = Ok m' \<longrightarrow> resolved_in (fst x') m m')"
proof -
  have ens: "adds (fst x) (ensureLocalVolume d ctx n s)" if "map_of drivers dt = Some d" "grows (fst x) (fst s)" for dt d n s
  proof -
    obtain r2 s2 where e: "ensureLocalVolume d ctx n s = (r2, s2)" by (metis surj_pair)
    from ps that(1) have p: "provider d" by blast
    from provider.ensure_exists [OF p grows_tree [OF that(2) t] e] grows_trans [OF that(2)] show ?thesis by (simp add: adds_def e)
  qed
  have ret: "adds (fst x) (r, s)" if "grows (fst x) (fst s)" for r :: "Mount res" and s :: "files \<times> 'a"
    using that by (simp add: adds_def)
  have "adds (fst x) (resolve_mount c drivers ctx nodeName m x)"
  proof (cases "mnt_Volume m = []")
    case False
    then show ?thesis unfolding resolve_mount_def
      by (simp only: if_False) (intro adds_andThen adds_wrap_err adds_on_server grows_refl,
          auto split: option.split intro!: adds_andThen adds_wrap_err adds_ignoring adds_on_server ret dest: ens)
  qed (simp add: resolve_mount_def adds_def)
  then have g: "grows (fst x) (fst x')" by (simp add: adds_def res)
  have "resolved_in (fst x') m m'" if "r = Ok m'" for m'
  proof (cases "mnt_Volume m = []")
    case False
    with res that obtain v x1 where s1: "on_server (volume_Get c ctx (mnt_Volume m)) x = (Ok v, x1)"
      and k: "(case map_of drivers (GetDriverType v) of None \<Rightarrow> (Err (no_driver (GetDriverType v) nodeName), x1)
        | Some driver \<Rightarrow> andThen (wrap_err ''prepare volume'' (ensureLocalVolume driver ctx (mnt_Volume m) x1)) (\<lambda>localVol st.
            ignoring (on_server (volume_Status_Update c ctx (mnt_Volume m)
                (ctl_status nodeName ReasonAttached (Some (fv_location localVol)) True) [''controllers'']) st) (\<lambda>st.
            (Ok (m\<lparr>mnt_Source := fv_location localVol\<rparr>), st)))) = (Ok m', x')"
      by (auto simp: resolve_mount_def andThen_eq_Ok wrap_err_Ok)
    then obtain d where d: "map_of drivers (GetDriverType v) = Some d" by (cases "map_of drivers (GetDriverType v)") simp_all
    with k obtain w x2 where e: "ensureLocalVolume d ctx (mnt_Volume m) x1 = (Ok w, x2)"
      and m': "m' = m\<lparr>mnt_Source := fv_location w\<rparr>" and f: "fst x' = fst x2"
      by (auto simp: andThen_eq_Ok wrap_err_Ok on_server_files dest!: ignoring_return)
    from s1 t have "tree_ok (fst x1)" by (simp add: on_server_eq)
    with provider.ensure_exists [OF _ _ e] ps d have "exists_at (fst x2) (fv_location w)" by blast
    with False m' f show ?thesis by (simp add: resolved_in_def)
  qed (use res that in \<open>auto simp: resolve_mount_def resolved_in_def\<close>)
  with g show ?thesis by blast
qed

lemma resolve_each_grows:
  assumes ps: "\<forall>dt d. map_of drivers dt = Some d \<longrightarrow> provider d" and "tree_ok (fst x)"
    and "resolve_each c drivers ctx nodeName ms x = (r, x')"
  shows "grows (fst x) (fst x') \<and> (\<forall>ms'. r = Ok ms' \<longrightarrow> list_all2 (resolved_in (fst x')) ms ms')"
  using assms(2,3)
proof (induction ms arbitrary: x r x')
  case (Cons m ms)
  obtain r1 x1 where s1: "resolve_mount c drivers ctx nodeName m x = (r1, x1)" by (metis surj_pair)
  note g1 = resolve_mount_grows [OF ps Cons.prems(1) s1]
  show ?case
  proof (cases r1)
    case (Ok nm)
    obtain r2 x2 where s2: "resolve_each c drivers ctx nodeName ms x1 = (r2, x2)" by (metis surj_pair)
    from g1 have "tree_ok (fst x1)" using Cons.prems(1) grows_tree by blast
    from Cons.IH [OF this s2] have
      g2: "grows (fst x1) (fst x2)" "\<And>ms'. r2 = Ok ms' \<Longrightarrow> list_all2 (resolved_in (fst x2)) ms ms'" by blast+
    from g1 Ok have r: "grows (fst x) (fst x2)" "resolved_in (fst x2) m nm"
      using grows_trans [OF _ g2(1)] resolved_grows [OF _ g2(1)] by simp_all
    from Cons.prems(2) s1 s2 Ok have "x' = x2" "\<And>ms'. r = Ok ms' \<Longrightarrow> \<exists>ms2. r2 = Ok ms2 \<and> ms' = nm # ms2" by (cases r2; simp)+
    with r g2(2) show ?thesis by fastforce
  qed (use Cons.prems(2) s1 g1 in auto)
qed auto

section \<open>Properties\<close>

text \<open>
  C27. A task whose mounts are prepared can be mounted: it has the same mounts in the same order,
  those without a volume as they were and the others changed in their source only, and every such
  source is there on the node, whatever driver provided it and also after the later mounts were
  prepared. Preparing removes nothing from the tree of files, whether it succeeds or not.
\<close>

theorem attach_resolves:
  assumes "tree_ok (fst x)" and "DefaultAttacher_PrepareMounts c ctx n ctr x = (r, x')"
  shows "tree_ok (fst x') \<and> (\<forall>q. node_at (fst x) q \<noteq> None \<longrightarrow> node_at (fst x') q \<noteq> None)
    \<and> (\<forall>ctr'. r = Ok ctr' \<longrightarrow>
         list_all2 (resolved_in (fst x'))
           (tc_Mounts (task_config ctr)) (tc_Mounts (task_config ctr'))
         \<and> task_Meta ctr' = task_Meta ctr \<and> task_Status ctr' = task_Status ctr)"
proof (cases "tc_Mounts (task_config ctr) = []")
  case True
  with assms show ?thesis by (auto simp: DefaultAttacher_PrepareMounts_def)
next
  case False
  let ?ms = "tc_Mounts (task_config ctr)"
  obtain r1 x1 where s: "resolve_each c (NodeVolumeDrivers c n) ctx (node_name_of n) ?ms x = (r1, x1)" by (metis surj_pair)
  have "\<forall>dt d. map_of (NodeVolumeDrivers c n) dt = Some d \<longrightarrow> provider d" using node_drivers by blast
  from resolve_each_grows [OF this assms(1) s] have g: "grows (fst x) (fst x1)"
    and l: "\<And>ms'. r1 = Ok ms' \<Longrightarrow> list_all2 (resolved_in (fst x1)) ?ms ms'" by blast+
  have x': "x' = x1" and r: "\<And>ctr'. r = Ok ctr' \<Longrightarrow> \<exists>ms'. r1 = Ok ms' \<and> ctr' = ctr\<lparr>task_Config := Some (task_config ctr\<lparr>tc_Mounts := ms'\<rparr>)\<rparr>"
    using assms(2) s False by (cases r1; simp add: DefaultAttacher_PrepareMounts_def Let_def)+
  have "list_all2 (resolved_in (fst x1)) ?ms (tc_Mounts (task_config ctr')) \<and> task_Meta ctr' = task_Meta ctr \<and> task_Status ctr' = task_Status ctr"
    if "r = Ok ctr'" for ctr'
    using r [OF that] l by (auto simp: task_config_def)
  with g assms(1) show ?thesis unfolding x' by (simp add: grows_def)
qed

definition host_volume :: Volume where
  "host_volume = \<lparr>vol_Version = ''volume/v1'', vol_Meta = Some (empty_Meta\<lparr>meta_Name := ''data''\<rparr>),
     vol_Config = Some \<lparr>vc_HostLocal = Some (), vc_Template = None, vc_NodeSelector = []\<rparr>, vol_Status = None\<rparr>"

definition data_client :: "unit volume_client" where
  "data_client = \<lparr>vlc_stub = \<lparr>vstub_Get = (\<lambda>_ _ _ y. (Ok host_volume, y)), vstub_Create = (\<lambda>_ v y. (Ok v, y)), vstub_Delete = (\<lambda>_ _ _ y. (Ok (), y)),
     vstub_List = (\<lambda>_ _ y. (Ok [host_volume], y)), vstub_Update = (\<lambda>_ _ _ v y. (Ok v, y)), vstub_UpdateStatus = (\<lambda>_ _ _ _ _ y. (Ok [], y))\<rparr>,
     vlc_uuid = sample_uuid\<rparr>"

definition volume_node :: Node where
  "volume_node = \<lparr>node_Version = [], node_Meta = Some (empty_Meta\<lparr>meta_Name := ''beta''\<rparr>),
     node_Config = Some \<lparr>nc_VolumeDrivers = Some \<lparr>vdc_HostLocal = Some \<lparr>vdh_RootDir = ''/v''\<rparr>, vdc_Template = None\<rparr>\<rparr>, node_Status = None\<rparr>"

definition mounting :: Task where
  "mounting = zero_Task\<lparr>task_Config := Some (empty_TaskConfig\<lparr>tc_Mounts :=
     [\<lparr>mnt_Name = ''d'', mnt_Destination = ''/data'', mnt_Type = ''bind'', mnt_Volume = ''data'', mnt_Source = [], mnt_Options = []\<rparr>]\<rparr>)\<rparr>"

theorem attach_resolves_witness:
  "\<exists>ctr' x'. DefaultAttacher_PrepareMounts data_client None volume_node mounting (no_files, ()) = (Ok ctr', x')
     \<and> map mnt_Source (tc_Mounts (task_config ctr')) = [''/v/data''] \<and> node_at (fst x') [''v'', ''data''] \<noteq> None"
proof -
  let ?p = "DefaultAttacher_PrepareMounts data_client None volume_node mounting (no_files, ())"
  have r: "(case fst ?p of Ok t \<Rightarrow> map mnt_Source (tc_Mounts (task_config t)) = [''/v/data''] | _ \<Rightarrow> False)" by code_simp
  then obtain ctr' x' where p: "?p = (Ok ctr', x')" by (cases ?p; cases "fst ?p") auto
  have m: "\<exists>m. tc_Mounts (task_config mounting) = [m] \<and> mnt_Volume m \<noteq> []" by (simp add: mounting_def task_config_def)
  have loc: "locate fs ''/v/data'' = [''v'', ''data'']" for fs by (simp add: locate_def rooted_def)
  have t: "tree_ok (fst (no_files, ()))" by simp
  from attach_resolves [OF t p] m have
    "list_all2 (resolved_in (fst x')) (tc_Mounts (task_config mounting)) (tc_Mounts (task_config ctr'))" by blast
  with m r p loc show ?thesis by (auto simp: list_all2_Cons1 resolved_in_def exists_at_def)
qed

text \<open>
  Host-local volumes do not get in each other's way. For a root path and a name as the
  validation of the server admits it, creating a volume makes its directory and nothing but directories on the way to it,
  and it is then found there; deleting it removes what is below its directory and nothing
  else, and it is then not found.
\<close>

theorem host_volume_isolated:
  assumes "tree_ok fs" and "rooted root" and "plain n"
  shows "(\<forall>v fs'. hostLocal_Create root n fs = (Ok v, fs') \<longrightarrow>
      tree_ok fs' \<and> (\<forall>q. node_at fs' q = node_at fs q \<or> node_at fs q = None \<and> node_at fs' q = Some Dir \<and> below q (locate fs root @ [n]))
      \<and> (\<exists>v'. hostLocal_Get root n fs' = (Ok v', fs') \<and> fv_location v' = fv_location v))
    \<and> (\<forall>fs'. hostLocal_Delete root n fs = (Ok (), fs') \<longrightarrow>
      tree_ok fs' \<and> (\<forall>q. node_at fs' q = (if below (locate fs root @ [n]) q then None else node_at fs q))
      \<and> (\<exists>e. hostLocal_Get root n fs' = (Err e, fs')))"
proof (intro conjI allI impI)
  let ?d = "NewHostLocalManager root :: unit Driver"
  have ok: "rooted root \<and> plain n" using assms by simp
  have q: "locate fs (path_Join [root, n]) = locate fs root @ [n]" "path_Join [root, n] \<noteq> []"
    using locate_Join_plain [OF assms(2,3)] locate_Join [OF assms(2), of n] assms(3) by (auto simp: plain_def)
  {
    fix v fs' assume h: "hostLocal_Create root n fs = (Ok v, fs')"
    then obtain i where m: "os_MkdirAll (path_Join [root, n]) fs = (Ok (), fs')"
      by (auto simp: hostLocal_Create_def Let_def andThen_eq_Ok)
    note mk = MkdirAll_ok [OF assms(1) m]
    show "tree_ok fs'" by (rule mk(1))
    show "node_at fs' k = node_at fs k \<or> node_at fs k = None \<and> node_at fs' k = Some Dir \<and> below k (locate fs root @ [n])" for k
      using mk(3) [of k] by (simp add: q(1))
    have "drv_Create ?d None n (fs, ()) = (Ok v, (fs', ()))" using h by (simp add: NewHostLocalManager_def on_files_eq)
    from host_local.create_get [OF _ ok this] assms(1)
    show "\<exists>v'. hostLocal_Get root n fs' = (Ok v', fs') \<and> fv_location v' = fv_location v"
      by (auto simp: NewHostLocalManager_def on_files_eq)
  next
    fix fs' assume h: "hostLocal_Delete root n fs = (Ok (), fs')"
    then have rm: "os_RemoveAll (path_Join [root, n]) fs = (Ok (), fs')" by (simp add: hostLocal_Delete_def)
    note rmk = RemoveAll_ok [OF assms(1) rm]
    show "tree_ok fs'" by (rule rmk(1))
    show "node_at fs' k = (if below (locate fs root @ [n]) k then None else node_at fs k)" for k
      using rmk(3) [of k] rmk(4) [of k] q by (auto simp: below_iff)
    have "drv_Delete ?d None n (fs, ()) = (Ok (), (fs', ()))" using h by (simp add: NewHostLocalManager_def on_files_eq)
    from host_local.delete_get [OF _ ok this] assms(1)
    show "\<exists>e. hostLocal_Get root n fs' = (Err e, fs')" by (auto simp: NewHostLocalManager_def on_files_eq)
  }
qed

theorem host_volume_isolated_witness:
  "\<exists>fs'. hostLocal_Delete ''/v'' ''a'' (no_files\<lparr>fs_nodes := [([''v''], Dir), ([''v'', ''a''], Dir), ([''v'', ''b''], File ''x'')]\<rparr>) = (Ok (), fs')
     \<and> node_at fs' [''v'', ''a''] = None \<and> node_at fs' [''v'', ''b''] = Some (File ''x'')"
proof -
  let ?fs = "no_files\<lparr>fs_nodes := [([''v''], Dir), ([''v'', ''a''], Dir), ([''v'', ''b''], File ''x'')]\<rparr>"
  have t: "tree_ok ?fs" by (rule tree_okI) (auto simp: node_at_def split: if_splits)
  have p: "rooted ''/v''" "plain ''a''" by (simp_all add: rooted_def plain_def)
  have "fst (hostLocal_Delete ''/v'' ''a'' ?fs) = Ok ()" by code_simp
  then obtain fs' where d: "hostLocal_Delete ''/v'' ''a'' ?fs = (Ok (), fs')" by (metis prod.collapse)
  have loc: "locate ?fs ''/v'' = [''v'']" by (simp add: locate_def rooted_def)
  from host_volume_isolated [OF t p] d have
    n: "node_at fs' q = (if below [''v'', ''a''] q then None else node_at ?fs q)" for q by (simp add: loc)
  have "node_at fs' [''v'', ''a''] = None" "node_at fs' [''v'', ''b''] = Some (File ''x'')"
    unfolding n by (simp_all add: below_def node_at_def)
  with d show ?thesis by blast
qed

text \<open>Listing host-local volumes never returns when there is one.\<close>

theorem host_list_blocks:
  assumes "os_ReadDir root fs = Ok entries" and "(n, True) \<in> set entries"
  shows "hostLocal_List root fs = None"
  using assms by (force simp: hostLocal_List_def list_ex_iff)

text \<open>The name of a template is not checked: the file it is written to can lie outside the root path.\<close>

theorem template_escapes:
  "path_Join [path_Join [''/var/volumes'', ''web''], tpl_Name \<lparr>tpl_Name = ''../../../etc/passwd'', tpl_Data = []\<rparr>] = ''/etc/passwd''"
  by code_simp

end
