(* ===== verification/VolumeController.thy ===== *)
theory VolumeController
  imports VolumeDrivers
begin

text \<open>
  The volume controller of a node, pkg/controller/volume/volume.go: it makes and removes the
  volumes of the server with the drivers of its node and reports their state.
\<close>

record 'y VolumeController =
  vct_node :: Node
  vct_nodes :: "'y node_client"
  vct_volumes :: "'y volume_client"
  vct_drivers :: "(DriverType, 'y Driver) gomap"

type_synonym 'y volume_handler = "ctx \<Rightarrow> Volume \<Rightarrow> files \<times> 'y \<Rightarrow> unit res \<times> (files \<times> 'y)"

definition isNodeSelected :: "'y VolumeController \<Rightarrow> ctx \<Rightarrow> string \<Rightarrow> Volume \<Rightarrow> files \<times> 'y \<Rightarrow> bool res \<times> (files \<times> 'y)" where
  "isNodeSelected c ctx nodeID volume st =
     (case on_server (node_Get (vct_nodes c) ctx nodeID) st of
        (Panic m, st) \<Rightarrow> (Panic m, st)
      | (Err e, st) \<Rightarrow> (Ok False, st)
      | (Ok node, st) \<Rightarrow> (Ok (Matches (NewCompositeSelectorFromMap (vc_NodeSelector (vol_config volume))) (meta_Labels (getMeta (node_Meta node)))), st))"

definition handleNodeSelector :: "'y VolumeController \<Rightarrow> 'y volume_handler \<Rightarrow> 'y volume_handler" where
  "handleNodeSelector c h ctx volume st =
     andThen (isNodeSelected c ctx (node_name_of (vct_node c)) volume st) (\<lambda>selected st.
     if \<not> selected then (Ok (), st) else h ctx volume st)"

text \<open>The status is set and the given error passed on; a failure to set it is logged.\<close>

definition setControllerStatus :: "'y VolumeController \<Rightarrow> ctx \<Rightarrow> string \<Rightarrow> Reason \<Rightarrow> error \<Rightarrow> files \<times> 'y \<Rightarrow> unit res \<times> (files \<times> 'y)" where
  "setControllerStatus c ctx volumeID reason err st =
     ignoring (on_server (volume_Status_Update (vct_volumes c) ctx volumeID
         (ctl_status (node_name_of (vct_node c)) reason None False) [''controllers'']) st) (\<lambda>st. (Err err, st))"

definition getVolumeDriver :: "'y VolumeController \<Rightarrow> Volume \<Rightarrow> 'y Driver res" where
  "getVolumeDriver c vol =
     (let lookup_driver = (\<lambda>t. case map_of (vct_drivers c) t of None \<Rightarrow> Err (Sentinel VolErrDriverNotFound) | Some d \<Rightarrow> Ok d)
      in if vc_HostLocal (vol_config vol) \<noteq> None then lookup_driver DriverTypeHostLocal
         else if vc_Template (vol_config vol) \<noteq> None then lookup_driver DriverTypeTemplate
         else Err (Sentinel VolErrDriverNotFound))"

text \<open>A step whose error is reported on the volume and returned.\<close>

definition or_status :: "'y VolumeController \<Rightarrow> ctx \<Rightarrow> string \<Rightarrow> Reason \<Rightarrow> 'a res \<times> (files \<times> 'y) \<Rightarrow> ('a \<Rightarrow> files \<times> 'y \<Rightarrow> unit res \<times> (files \<times> 'y)) \<Rightarrow> unit res \<times> (files \<times> 'y)" where
  "or_status c ctx i reason p f =
     (case p of
        (Panic m, st) \<Rightarrow> (Panic m, st)
      | (Err e, st) \<Rightarrow> setControllerStatus c ctx i reason e st
      | (Ok a, st) \<Rightarrow> f a st)"

fun join_each :: "'y VolumeController \<Rightarrow> ctx \<Rightarrow> Volume list \<Rightarrow> files \<times> 'y \<Rightarrow> unit res \<times> (files \<times> 'y)" where
  "join_each c ctx [] st = (Ok (), st)"
| "join_each c ctx (vol # vols) st =
     (let i = vol_name_of vol in
      or_status c ctx i ReasonAttachFailed (getVolumeDriver c vol, st) (\<lambda>volDriver st.
      or_status c ctx i ReasonAttachFailed (drv_Create volDriver ctx i st) (\<lambda>_ st.
      join_each c ctx vols st)))"

definition onNodeJoin :: "'y VolumeController \<Rightarrow> ctx \<Rightarrow> Node \<Rightarrow> files \<times> 'y \<Rightarrow> unit res \<times> (files \<times> 'y)" where
  "onNodeJoin c ctx nodeSpec st =
     andThen (on_server (volume_List (vct_volumes c) ctx []) st) (\<lambda>volumes st. join_each c ctx volumes st)"

text \<open>A volume that was made is reported with the phase AttachFailed, and ready.\<close>

definition onVolumeCreate :: "'y VolumeController \<Rightarrow> 'y volume_handler" where
  "onVolumeCreate c ctx volume st =
     (let i = vol_name_of volume in
      or_status c ctx i ReasonAttachFailed (getVolumeDriver c volume, st) (\<lambda>volDriver st.
      or_status c ctx i ReasonAttachFailed (drv_Create volDriver ctx i st) (\<lambda>vol st.
      on_server (volume_Status_Update (vct_volumes c) ctx (fv_id vol)
        (ctl_status (node_name_of (vct_node c)) ReasonAttachFailed (Some (fv_location vol)) True) [''controllers'']) st)))"

definition onVolumeDelete :: "'y VolumeController \<Rightarrow> 'y volume_handler" where
  "onVolumeDelete c ctx volume st =
     (let i = vol_name_of volume in
      or_status c ctx i ReasonDeleteFailed (getVolumeDriver c volume, st) (\<lambda>volDriver st.
      or_status c ctx i ReasonDeleteFailed (drv_Get volDriver ctx i st) (\<lambda>localVol st.
      or_status c ctx i ReasonDeleteFailed (drv_Delete volDriver ctx i st) (\<lambda>_ st.
      on_server (volume_Status_Update (vct_volumes c) ctx i
        (empty_VolStatus\<lparr>vs_Controllers := [(node_name_of (vct_node c), \<lparr>cs_Phase = None, cs_Location = None, cs_Ready = None\<rparr>)]\<rparr>) [''controllers'']) st))))"

text \<open>Template volumes are left to the start of tasks.\<close>

fun reconcile_each :: "'y VolumeController \<Rightarrow> ctx \<Rightarrow> Volume list \<Rightarrow> files \<times> 'y \<Rightarrow> unit res \<times> (files \<times> 'y)" where
  "reconcile_each c ctx [] st = (Ok (), st)"
| "reconcile_each c ctx (vol # vols) st =
     (let i = vol_name_of vol in
      if GetDriverType vol = DriverTypeHostLocal then
        or_status c ctx i ReasonAttachFailed (getVolumeDriver c vol, st) (\<lambda>driver st.
        or_status c ctx i ReasonAttachFailed (drv_Create driver ctx i st) (\<lambda>driverVol st.
        ignoring (on_server (volume_Status_Update (vct_volumes c) ctx (fv_id driverVol)
            (ctl_status (node_name_of (vct_node c)) ReasonAttached (Some (fv_location driverVol)) True) [''controllers'']) st) (\<lambda>st.
        reconcile_each c ctx vols st)))
      else reconcile_each c ctx vols st)"

definition VolumeController_Reconcile :: "'y VolumeController \<Rightarrow> ctx \<Rightarrow> files \<times> 'y \<Rightarrow> unit res \<times> (files \<times> 'y)" where
  "VolumeController_Reconcile c ctx st =
     andThen (on_server (volume_List (vct_volumes c) ctx []) st) (\<lambda>vlist st. reconcile_each c ctx vlist st)"

section \<open>Reconciling\<close>

definition extends :: "files \<Rightarrow> files \<Rightarrow> bool" where
  "extends fs fs' \<longleftrightarrow> tree_ok fs' \<and> fs_env fs' = fs_env fs \<and> (\<forall>q n. node_at fs q = Some n \<longrightarrow> node_at fs' q = Some n)"

lemma extends_trans: "extends a b \<Longrightarrow> extends b c \<Longrightarrow> extends a c"
  by (simp add: extends_def)

lemma hostLocal_extends:
  assumes "tree_ok fs" and "hostLocal_Create root n fs = (r, fs')"
  shows "extends fs fs'"
proof -
  obtain r1 fs1 where m: "os_MkdirAll (path_Join [root, n]) fs = (r1, fs1)" by (metis surj_pair)
  have "fs' = fs1" using assms(2) m
    by (cases r1; cases "os_Stat (path_Join [root, n]) fs1") (auto simp: hostLocal_Create_def Let_def)
  with MkdirAll_ok(1,2,3) [OF assms(1) m] show ?thesis unfolding extends_def by (metis option.distinct(1))
qed

lemma setControllerStatus_fails: "setControllerStatus c ctx i reason e st \<noteq> (Ok (), st')"
  by (cases "on_server (volume_Status_Update (vct_volumes c) ctx i (ctl_status (node_name_of (vct_node c)) reason None False) [''controllers'']) st";
      cases "fst (on_server (volume_Status_Update (vct_volumes c) ctx i (ctl_status (node_name_of (vct_node c)) reason None False) [''controllers'']) st)")
     (auto simp: setControllerStatus_def ignoring_def)

lemma or_status_Ok: "or_status c ctx i reason p f = (Ok (), st') \<longleftrightarrow> (\<exists>a st. p = (Ok a, st) \<and> f a st = (Ok (), st'))"
proof (cases "fst p")
  case (Err e)
  then show ?thesis using setControllerStatus_fails [of c ctx i reason e "snd p" st'] by (cases p) (simp add: or_status_def)
qed (cases p; simp add: or_status_def)+

lemma on_server_snd: "snd (on_server f x) = (fst x, snd (f (snd x)))"
  by (cases x) (simp add: on_server_def split: prod.split)

lemma ignoring_then: "ignoring p f = (Ok a, st') \<Longrightarrow> f (snd p) = (Ok a, st')"
  by (cases p; cases "fst p") (auto simp: ignoring_def)

lemma reconcile_each_provides:
  assumes d: "map_of (vct_drivers c) DriverTypeHostLocal = Some (NewHostLocalManager root)" and r: "rooted root"
    and "tree_ok (fst x)" and "\<forall>v\<in>set vols. plain (vol_name_of v)" and "reconcile_each c ctx vols x = (Ok (), x')"
  shows "extends (fst x) (fst x') \<and> (\<forall>v\<in>set vols. GetDriverType v = DriverTypeHostLocal \<longrightarrow> node_at (fst x') (locate (fst x') root @ [vol_name_of v]) = Some Dir)"
  using assms(3-5)
proof (induction vols arbitrary: x)
  case (Cons v vols)
  show ?case
  proof (cases "GetDriverType v = DriverTypeHostLocal")
    case True
    then have g: "getVolumeDriver c v = Ok (NewHostLocalManager root)" using d by (auto simp: GetDriverType_def getVolumeDriver_def split: if_splits)
    from Cons.prems(3) True obtain w x1 x2 where
      cr: "drv_Create (NewHostLocalManager root) ctx (vol_name_of v) x = (Ok w, x1)" and f: "fst x2 = fst x1"
      and rest: "reconcile_each c ctx vols x2 = (Ok (), x')"
      by (auto simp: or_status_Ok g Let_def on_server_snd dest!: ignoring_then)
    from cr have h: "hostLocal_Create root (vol_name_of v) (fst x) = (Ok w, fst x1)" by (simp add: NewHostLocalManager_def on_files_eq)
    have e1: "extends (fst x) (fst x2)" unfolding f by (rule hostLocal_extends [OF Cons.prems(1) h])
    have "node_at (fst x1) (locate (fst x1) (path_Join [root, vol_name_of v])) = Some Dir"
      using hostLocal_Create_cases [OF Cons.prems(1) h] by simp
    then have n: "node_at (fst x2) (locate (fst x2) root @ [vol_name_of v]) = Some Dir"
      using locate_Join_plain [OF r] Cons.prems(2) by (simp add: f)
    from Cons.IH [OF _ _ rest] e1 Cons.prems(2) have
      e2: "extends (fst x2) (fst x')" "\<forall>v\<in>set vols. GetDriverType v = DriverTypeHostLocal \<longrightarrow> node_at (fst x') (locate (fst x') root @ [vol_name_of v]) = Some Dir"
      by (simp_all add: extends_def)
    have "locate (fst x') root = locate (fst x2) root" by (rule fs_envD(1)) (use e2(1) in \<open>simp add: extends_def\<close>)
    with n e2 extends_trans [OF e1 e2(1)] show ?thesis by (simp add: extends_def)
  next
    case False
    with Cons show ?thesis by simp
  qed
qed (simp add: extends_def)

section \<open>Properties\<close>

text \<open>
  C28. A volume controller that has reconciled provides what the server asks for: every
  host-local volume the server listed has its directory below the root path of the node, and everything
  that was in the tree of files before is still there.
\<close>

theorem volumes_reconciled:
  assumes "tree_ok (fst x)" and "map_of (vct_drivers c) DriverTypeHostLocal = Some (NewHostLocalManager root)" and "rooted root"
    and "volume_List (vct_volumes c) ctx [] (snd x) = (Ok vols, y)" and "\<forall>v\<in>set vols. plain (vol_name_of v)"
    and "VolumeController_Reconcile c ctx x = (Ok (), x')"
  shows "(\<forall>v\<in>set vols. GetDriverType v = DriverTypeHostLocal \<longrightarrow> node_at (fst x') (locate (fst x') root @ [vol_name_of v]) = Some Dir)
    \<and> tree_ok (fst x') \<and> (\<forall>q n. node_at (fst x) q = Some n \<longrightarrow> node_at (fst x') q = Some n)"
proof -
  have l: "on_server (volume_List (vct_volumes c) ctx []) x = (Ok vols, (fst x, y))" using assms(4) by (simp add: on_server_eq)
  with assms(6) have "reconcile_each c ctx vols (fst x, y) = (Ok (), x')" by (simp add: VolumeController_Reconcile_def)
  from reconcile_each_provides [OF assms(2,3) _ assms(5) this] assms(1) show ?thesis by (simp add: extends_def)
qed

definition volume_keeper :: "unit VolumeController" where
  "volume_keeper = \<lparr>vct_node = volume_node,
     vct_nodes = \<lparr>nc_stub = \<lparr>nstub_Get = (\<lambda>_ _ _ y. (Ok volume_node, y)), nstub_Create = (\<lambda>_ n y. (Ok n, y)), nstub_Delete = (\<lambda>_ _ _ y. (Ok (), y)),
       nstub_List = (\<lambda>_ y. (Ok [], y)), nstub_Update = (\<lambda>_ _ _ n y. (Ok n, y)), nstub_UpdateStatus = (\<lambda>_ _ _ _ _ y. (Ok [], y)),
       nstub_Condition = (\<lambda>_ _ y. (Ok (), y)), nstub_Upgrade = (\<lambda>_ _ y. (Ok (), y)), nstub_Join = (\<lambda>_ _ y. (Ok ([], []), y)), nstub_Forget = (\<lambda>_ _ _ y. (Ok [], y))\<rparr>,
       nc_ident = None, nc_uuid = sample_uuid\<rparr>,
     vct_volumes = data_client, vct_drivers = [(DriverTypeHostLocal, NewHostLocalManager ''/v'')]\<rparr>"

theorem volumes_reconciled_witness:
  "node_at (fst (snd (VolumeController_Reconcile volume_keeper None (no_files, ())))) [''v'', ''data''] = Some Dir"
proof -
  let ?p = "VolumeController_Reconcile volume_keeper None (no_files, ())"
  have "fst ?p = Ok ()" by code_simp
  then obtain x' where p: "?p = (Ok (), x')" by (metis prod.collapse)
  have l: "volume_List (vct_volumes volume_keeper) None [] (snd (no_files, ())) = (Ok [host_volume], ())"
    by (simp add: volume_keeper_def data_client_def volume_List_def)
  have d: "map_of (vct_drivers volume_keeper) DriverTypeHostLocal = Some (NewHostLocalManager ''/v'')" by (simp add: volume_keeper_def)
  have v: "vol_name_of host_volume = ''data''" "GetDriverType host_volume = DriverTypeHostLocal"
    by (simp_all add: vol_name_of_def host_volume_def GetDriverType_def vol_config_def)
  have "locate fs ''/v'' = [''v'']" for fs by (simp add: locate_def rooted_def)
  with volumes_reconciled [OF _ d _ l _ p] v p show ?thesis by (simp add: rooted_def plain_def)
qed

end
