(* ===== verification/NodeUpgrade.thy ===== *)
theory NodeUpgrade
  imports VolumeDrivers
begin

text \<open>
  The upgrade controller of a node, pkg/controller/nodeupgrade/nodeupgrade.go, and the parsing of
  versions it uses (pkg/cmdutil/version.go): a release is looked up, its binary is downloaded and put
  in the place of the running one, and the program ends.

  HTTP servers, the JSON decoder and package semver are parameters; a body is the bytes that
  arrive and the error that ends them, if any. Letters and blanks are those of ASCII.
\<close>

section \<open>Releases\<close>

record http_response =
  hr_StatusCode :: int
  hr_Status :: string
  hr_Body :: "bytes \<times> error option"

type_synonym 'y http_get = "string \<Rightarrow> 'y \<Rightarrow> http_response res \<times> 'y"

record apiResponse =
  ar_TagName :: string
  ar_Assets :: "(string \<times> string) list option"

definition read_all :: "bytes \<times> error option \<Rightarrow> bytes res" where
  "read_all body = (case snd body of None \<Rightarrow> Ok (fst body) | Some e \<Rightarrow> Err e)"

definition TrimSpace :: "string \<Rightarrow> string" where
  "TrimSpace s = (let blank = (\<lambda>c. c \<in> {CHR '' '', CHR 0x09, CHR 0x0A, CHR 0x0B, CHR 0x0C, CHR 0x0D})
                  in rev (dropWhile blank (rev (dropWhile blank s))))"

definition lower :: "char \<Rightarrow> char" where
  "lower c = (let n = of_char c :: nat in if 65 \<le> n \<and> n \<le> 90 then char_of (n + 32) else c)"

definition releases :: string where
  "releases = ''https://api.github.com/repos/amimof/voiyd/releases/''"

definition ParseVersion :: "'y http_get \<Rightarrow> (string \<Rightarrow> bool) \<Rightarrow> (bytes \<Rightarrow> apiResponse res) \<Rightarrow> string \<Rightarrow> 'y \<Rightarrow> string res \<times> 'y" where
  "ParseVersion http semver json input y =
     (let v = map lower (TrimSpace input);
          v = (if v = ''head'' then ''latest'' else v);
          url = (if v = ''latest'' then releases @ v else []);
          url = (if semver v then releases @ ''tags/'' @ v else url)
      in if url = [] then (Err (Errorf (''invalid version '' @ v)), y)
         else andThen (http url y) (\<lambda>resp y.
              andThen (read_all (hr_Body resp), y) (\<lambda>b y.
              if hr_StatusCode resp \<noteq> 200 then (Err (Errorf (''unexpected response from server: '' @ hr_Status resp)), y)
              else andThen (json b, y) (\<lambda>ar y. (Ok (ar_TagName ar), y)))))"

definition getDownloadURL :: "apiResponse \<Rightarrow> string \<Rightarrow> string res" where
  "getDownloadURL ar arch =
     (case ar_Assets ar of
        None \<Rightarrow> Err (Errorf ''no assets in api response'')
      | Some assets \<Rightarrow>
          if arch \<notin> {''arm'', ''arm64'', ''amd64''} then Err (Errorf (''unsupported architecture '' @ arch))
          else
            (let match = ''voiyd-node-linux-'' @ arch;
                 res = (case find (\<lambda>(name, _). name = match) assets of None \<Rightarrow> [] | Some (_, url) \<Rightarrow> url)
             in if res = [] then Err (Errorf (''couldn't find a release for '' @ match)) else Ok res))"

section \<open>Replacing the binary\<close>

definition replaceBinary :: "string \<Rightarrow> string \<Rightarrow> files \<Rightarrow> unit res \<times> files" where
  "replaceBinary src dst fs =
     (if src = [] then (Err (Errorf ''source file cannot be empty''), fs)
      else if dst = [] then (Err (Errorf ''destination file cannot be empty''), fs)
      else
        (let backupPath = dst @ ''_backup'' in
         andThen (os_Create backupPath fs) (\<lambda>_ fs.
         andThen (os_ReadFile dst fs, fs) (\<lambda>b fs.
         andThen (file_write backupPath b fs) (\<lambda>_ fs.
         andThen (rename_file src dst fs) (\<lambda>_ fs.
         (os_Chmod dst fs, fs)))))))"

section \<open>The controller\<close>

record 'y NodeUpgrade =
  nu_node :: Node
  nu_nodes :: "'y node_client"
  nu_tmpPath :: string
  nu_binPath :: string
  nu_http :: "'y http_get"
  nu_default_http :: "'y http_get"
  nu_json :: "bytes \<Rightarrow> apiResponse res"
  nu_semver :: "string \<Rightarrow> bool"
  nu_arch :: string
  nu_publisher :: "string \<Rightarrow> bool \<Rightarrow> ConditionReport \<Rightarrow> 'y \<Rightarrow> 'y"
  nu_clock :: "'y \<Rightarrow> instant"
  nu_rand :: "'y \<Rightarrow> string"
  nu_errs :: ext_errs

definition NodeUpgrade_Report :: "'y NodeUpgrade \<Rightarrow> ConditionReport \<Rightarrow> files \<times> 'y \<Rightarrow> files \<times> 'y" where
  "NodeUpgrade_Report c report st =
     (fst st, nu_publisher c (crep_ResourceId report) (crep_Status report = CONDITION_STATUS_TRUE) report (snd st))"

definition node_report :: "'y NodeUpgrade \<Rightarrow> Node \<Rightarrow> files \<times> 'y \<Rightarrow> ConditionReport" where
  "node_report c node st = Report_Type (nu_clock c (snd st)) NodeReady (NewForResource (nu_clock c (snd st)) (node_Meta node))"

definition failUpgrade :: "'y NodeUpgrade \<Rightarrow> ctx \<Rightarrow> error \<Rightarrow> files \<times> 'y \<Rightarrow> unit res \<times> (files \<times> 'y)" where
  "failUpgrade c ctx upgradeErr st =
     (case on_server (node_Get (nu_nodes c) ctx (node_name_of (nu_node c))) st of
        (Panic m, st) \<Rightarrow> (Panic m, st)
      | (Err e, st) \<Rightarrow> (Ok (), st)
      | (Ok node, st) \<Rightarrow>
          (Ok (), NodeUpgrade_Report c (Report_False ReasonUpgradeFailed [err_text (nu_errs c) upgradeErr] (node_report c node st)) st))"

text \<open>A step whose failure is reported and returned.\<close>

definition or_fail :: "'y NodeUpgrade \<Rightarrow> ctx \<Rightarrow> 'a res \<times> (files \<times> 'y) \<Rightarrow> ('a \<Rightarrow> files \<times> 'y \<Rightarrow> 'b res \<times> (files \<times> 'y)) \<Rightarrow> 'b res \<times> (files \<times> 'y)" where
  "or_fail c ctx p f =
     (case p of
        (Ok a, st) \<Rightarrow> f a st
      | (Panic m, st) \<Rightarrow> (Panic m, st)
      | (Err e, st) \<Rightarrow> andThen (failUpgrade c ctx e st) (\<lambda>_ st. (Err e, st)))"

text \<open>A file of a fresh name in a directory given with its slash.\<close>

definition CreateTemp :: "string \<Rightarrow> string \<Rightarrow> string \<Rightarrow> files \<Rightarrow> string res \<times> files" where
  "CreateTemp dir pattern rnd fs = andThen (os_Create (dir @ pattern @ rnd) fs) (\<lambda>_ fs. (Ok (dir @ pattern @ rnd), fs))"

text \<open>\<^verbatim>\<open>io.Copy\<close> from a body to a file just made.\<close>

definition copy_body :: "string \<Rightarrow> bytes \<times> error option \<Rightarrow> files \<Rightarrow> unit res \<times> files" where
  "copy_body p body fs = andThen (file_write p (fst body) fs) (\<lambda>_ fs. (from_err (snd body), fs))"

definition downloadBinary :: "'y NodeUpgrade \<Rightarrow> ctx \<Rightarrow> string \<Rightarrow> string \<Rightarrow> files \<times> 'y \<Rightarrow> string res \<times> (files \<times> 'y)" where
  "downloadBinary c ctx ver arch st =
     or_fail c ctx (on_files (CreateTemp (nu_tmpPath c) ''voiyd-node-'' (nu_rand c (snd st))) st) (\<lambda>tmpFile st.
     or_fail c ctx (on_server (nu_http c (releases @ ''tags/'' @ ver)) st) (\<lambda>resp st.
     or_fail c ctx (if hr_StatusCode resp \<noteq> 200 then Err (Errorf (''unexpected response from server: '' @ hr_Status resp)) else Ok (), st) (\<lambda>_ st.
     or_fail c ctx (read_all (hr_Body resp), st) (\<lambda>b st.
     or_fail c ctx (nu_json c b, st) (\<lambda>ar st.
     or_fail c ctx (getDownloadURL ar arch, st) (\<lambda>assetURL st.
     or_fail c ctx (on_server (node_Get (nu_nodes c) ctx (node_name_of (nu_node c))) st) (\<lambda>node st.
     let st = NodeUpgrade_Report c (Report_False ReasonUpgrading [] (node_report c node st)) st in
     or_fail c ctx (on_server (nu_http c assetURL) st) (\<lambda>binResp st.
     or_fail c ctx (on_files (copy_body tmpFile (hr_Body binResp)) st) (\<lambda>_ st.
     (Ok tmpFile, st))))))))))"

text \<open>Ending well is ending the program.\<close>

datatype upgrade_end = Exited

definition upgradeNode :: "'y NodeUpgrade \<Rightarrow> ctx \<Rightarrow> Event \<Rightarrow> files \<times> 'y \<Rightarrow> upgrade_end res \<times> (files \<times> 'y)" where
  "upgradeNode c ctx e st =
     andThen (as_Upgrade (ev_Object e), st) (\<lambda>req st.
     or_fail c ctx (on_server (node_Get (nu_nodes c) ctx (up_Uid req)) st) (\<lambda>node st.
     let reporter = Report_False ReasonUpgrading [] (node_report c node st);
         st = NodeUpgrade_Report c reporter st
     in or_fail c ctx (on_server (ParseVersion (nu_default_http c) (nu_semver c) (nu_json c) (up_TargetVersion req)) st) (\<lambda>ver st.
        andThen (downloadBinary c ctx ver (nu_arch c) st) (\<lambda>downloadPath st.
        or_fail c ctx (on_files (replaceBinary downloadPath (nu_binPath c)) st) (\<lambda>_ st.
        let st = NodeUpgrade_Report c (Report_True ReasonUpgraded []
                   (Report_WithMetadata [(''upgraded_to'', ver)] (Report_Type (nu_clock c (snd st)) NodeReady reporter))) st
        in (Ok Exited, st))))))"

definition processNodeUpgrade ::
  "'y NodeUpgrade \<Rightarrow> ctx \<Rightarrow> instant \<Rightarrow> Event \<Rightarrow> (unit, Event) TaskQueue \<times> (files \<times> 'y) \<Rightarrow> unit res \<times> ((unit, Event) TaskQueue \<times> (files \<times> 'y))" where
  "processNodeUpgrade c ctx now e st =
     andThen (as_Upgrade (ev_Object e), st) (\<lambda>req st.
     case on_server (node_Get (nu_nodes c) ctx (up_Uid req)) (snd st) of
       (Ok node, x) \<Rightarrow> enqueue_item now (new_work now (node_name_of node) (node_uid_of node) e ()) (fst st, x)
     | (Err err, x) \<Rightarrow> (Err err, (fst st, x))
     | (Panic m, x) \<Rightarrow> (Panic m, (fst st, x)))"

section \<open>Properties\<close>

text \<open>
  C29. Whatever goes wrong, a node has a whole binary: after replacing it, the file in its place holds all of
  the old binary or all of the downloaded one. When replacing succeeds it is the
  downloaded one, the download is gone, and the backup holds the old one.
\<close>

theorem upgrade_binary_whole:
  assumes "tree_ok fs" and "node_at fs (locate fs dst) = Some (File old)" and "node_at fs (locate fs src) = Some (File new)"
    and "distinct [locate fs src, locate fs dst, locate fs (dst @ ''_backup'')]" and "replaceBinary src dst fs = (r, fs')"
  shows "tree_ok fs' \<and> (node_at fs' (locate fs dst) = Some (File old) \<or> node_at fs' (locate fs dst) = Some (File new))
    \<and> (r = Ok () \<longrightarrow> node_at fs' (locate fs dst) = Some (File new) \<and> node_at fs' (locate fs (dst @ ''_backup'')) = Some (File old)
        \<and> node_at fs' (locate fs src) = None)"
proof -
  let ?b = "dst @ ''_backup''" and ?d = "locate fs dst" and ?s = "locate fs src" and ?k = "locate fs (dst @ ''_backup'')"
  obtain r1 fs1 where c1: "os_Create ?b fs = (r1, fs1)" by (metis surj_pair)
  show ?thesis
  proof (cases "src = [] \<or> dst = [] \<or> (\<exists>e. r1 = Err e)")
    case True
    with assms(1,2,5) c1 Create_ok [OF assms(1) c1] show ?thesis by (auto simp: replaceBinary_def split: if_splits)
  next
    case False
    with Create_ok [OF assms(1) c1] have r1: "r1 = Ok ()" and w1: "writes_file ?k fs fs1" and par: "?k \<noteq> []" "node_at fs (butlast ?k) = Some Dir" by auto
    then have t1: "tree_ok fs1" and env1: "fs_env fs1 = fs_env fs" and n1: "\<And>q. q \<noteq> ?k \<Longrightarrow> node_at fs1 q = node_at fs q" by (simp_all add: writes_file_def)
    note loc1 = fs_envD(1) [OF env1]
    have d1: "node_at fs1 ?d = Some (File old)" "node_at fs1 ?s = Some (File new)" using n1 assms(2-4) by auto
    show ?thesis
    proof (cases "os_ReadFile dst fs1")
      case (Ok b)
      then have b: "b = old" using ReadFile_iff [OF t1, of dst b] d1 loc1 by simp
      obtain r2 fs2 where c2: "file_write ?b old fs1 = (r2, fs2)" by (metis surj_pair)
      from w1 obtain b0 where b0: "node_at fs1 ?k = Some (File b0)" by (auto simp: writes_file_def)
      have "butlast ?k \<noteq> ?k" using par(1) by (metis append_butlast_last_id not_Cons_self2 self_append_conv)
      with par(2) n1 have par1: "node_at fs1 (butlast ?k) = Some Dir" by simp
      from file_write_ok [OF t1 _ _ _ c2] b0 par(1) par1 loc1 have w2: "writes_file ?k fs1 fs2" "r2 = Ok () \<longrightarrow> node_at fs2 ?k = Some (File old)" "\<forall>m. r2 \<noteq> Panic m"
        by auto
      then have t2: "tree_ok fs2" and env2: "fs_env fs2 = fs_env fs" and d2: "node_at fs2 ?d = Some (File old)" "node_at fs2 ?s = Some (File new)"
        using env1 d1 assms(4) by (auto simp: writes_file_def)
      note loc2 = fs_envD(1) [OF env2]
      show ?thesis
      proof (cases r2)
        case R2: (Ok u)
        obtain r3 fs3 where c3: "rename_file src dst fs2 = (r3, fs3)" by (metis surj_pair)
        from rename_ok [OF t2 _ c3] d2 loc2 assms(4) consider
          (moved) "r3 = Ok ()" "tree_ok fs3" "\<And>q. node_at fs3 q = (if q = ?d then Some (File new) else if q = ?s then None else node_at fs2 q)"
          | (kept) e where "r3 = Err e" "fs3 = fs2" by auto
        then show ?thesis
        proof cases
          case moved
          with assms(5) False c1 r1 Ok b c2 R2 c3 have "r = os_Chmod dst fs3" "fs' = fs3" by (auto simp: replaceBinary_def Let_def)
          with moved w2(2) R2 assms(4) show ?thesis by auto
        next
          case kept
          with assms(5) False c1 r1 Ok b c2 R2 c3 have "r = Err e" "fs' = fs2" by (auto simp: replaceBinary_def Let_def)
          with t2 d2 show ?thesis by simp
        qed
      qed (use assms(5) False c1 r1 Ok b c2 t2 d2 w2(3) in \<open>auto simp: replaceBinary_def Let_def\<close>)
    qed (use assms(5) False c1 r1 t1 d1 ReadFile_no_panic in \<open>auto simp: replaceBinary_def Let_def\<close>)
  qed
qed

definition two_binaries :: files where
  "two_binaries = no_files\<lparr>fs_nodes := [([''bin''], Dir), ([''tmp''], Dir), ([''bin'', ''node''], File ''old''), ([''tmp'', ''v''], File ''new'')]\<rparr>"

theorem upgrade_binary_whole_witness:
  "\<exists>fs'. replaceBinary ''/tmp/v'' ''/bin/node'' two_binaries = (Ok (), fs')
     \<and> node_at fs' [''bin'', ''node''] = Some (File ''new'') \<and> node_at fs' [''bin'', ''node_backup''] = Some (File ''old'')"
proof -
  have t: "tree_ok two_binaries" by (rule tree_okI) (auto simp: node_at_def two_binaries_def split: if_splits)
  have "fst (replaceBinary ''/tmp/v'' ''/bin/node'' two_binaries) = Ok ()" by code_simp
  then obtain fs' where r: "replaceBinary ''/tmp/v'' ''/bin/node'' two_binaries = (Ok (), fs')" by (metis prod.collapse)
  have l: "locate two_binaries ''/tmp/v'' = [''tmp'', ''v'']" "locate two_binaries ''/bin/node'' = [''bin'', ''node'']"
    "locate two_binaries (''/bin/node'' @ ''_backup'') = [''bin'', ''node_backup'']" by code_simp+
  have n: "node_at two_binaries [''bin'', ''node''] = Some (File ''old'')" "node_at two_binaries [''tmp'', ''v''] = Some (File ''new'')"
    by (simp_all add: node_at_def two_binaries_def)
  from upgrade_binary_whole [OF t _ _ _ r] l n r show ?thesis by simp
qed

text \<open>
  The status of the response that carries the binary is not looked at: a page that says that
  there is no such file is stored as the binary.
\<close>

definition broken_release :: "unit NodeUpgrade" where
  "broken_release = \<lparr>nu_node = volume_node,
     nu_nodes = \<lparr>nc_stub = \<lparr>nstub_Get = (\<lambda>_ _ _ y. (Ok volume_node, y)), nstub_Create = (\<lambda>_ n y. (Ok n, y)), nstub_Delete = (\<lambda>_ _ _ y. (Ok (), y)),
       nstub_List = (\<lambda>_ y. (Ok [], y)), nstub_Update = (\<lambda>_ _ _ n y. (Ok n, y)), nstub_UpdateStatus = (\<lambda>_ _ _ _ _ y. (Ok [], y)),
       nstub_Condition = (\<lambda>_ _ y. (Ok (), y)), nstub_Upgrade = (\<lambda>_ _ y. (Ok (), y)), nstub_Join = (\<lambda>_ _ y. (Ok ([], []), y)), nstub_Forget = (\<lambda>_ _ _ y. (Ok [], y))\<rparr>,
       nc_ident = None, nc_uuid = sample_uuid\<rparr>,
     nu_tmpPath = ''/tmp/'', nu_binPath = ''/bin/node'',
     nu_http = (\<lambda>url y. (Ok (if url = ''u'' then \<lparr>hr_StatusCode = 404, hr_Status = ''404 Not Found'', hr_Body = (''no such file'', None)\<rparr>
                             else \<lparr>hr_StatusCode = 200, hr_Status = ''200 OK'', hr_Body = ([], None)\<rparr>), y)),
     nu_default_http = (\<lambda>url y. (Err (Foreign ''offline''), y)),
     nu_json = (\<lambda>_. Ok \<lparr>ar_TagName = ''v1'', ar_Assets = Some [(''voiyd-node-linux-arm'', ''u'')]\<rparr>),
     nu_semver = (\<lambda>_. False), nu_arch = ''arm'', nu_publisher = (\<lambda>_ _ _ y. y), nu_clock = (\<lambda>_. 0), nu_rand = (\<lambda>_. ''1''), nu_errs = sample_ext\<rparr>"

theorem upgrade_unchecked:
  "(case downloadBinary broken_release None ''v1'' ''arm'' (two_binaries, ()) of
      (r, x) \<Rightarrow> r = Ok ''/tmp/voiyd-node-1'' \<and> node_at (fst x) [''tmp'', ''voiyd-node-1''] = Some (File ''no such file''))"
  by code_simp

end
