(* ===== verification/LogTail.thy ===== *)
theory LogTail
  imports AgentLoop LogExchange
begin

text \<open>
  The log streams of a node, pkg/controller/node/handler_log.go: the handlers that start and stop a
  stream, the goroutine that reads the lines of a task and the one that sends them to the server.

  What reading gives is a list of outcomes, a text and an error each; both goroutines and the
  context they share are steps of a relation. A send on a closed channel ends the program.
\<close>

section \<open>Starting and stopping\<close>

text \<open>The streams that are active, with the stream whose context their entry cancels; \<open>next\<close> names a new one.\<close>

record log_streams =
  ls_active :: "(LogKey, nat) gomap"
  ls_next :: nat
  ls_cancelled :: "nat list"

fun as_TailLog :: "any option \<Rightarrow> TailLogRequest res" where
  "as_TailLog (Some (AnyTailLog t)) = Ok t"
| "as_TailLog _ = Err (Foreign ''mismatched message type'')"

definition stream_key :: "TailLogRequest \<Rightarrow> LogKey" where
  "stream_key s = \<lparr>NodeID = tl_NodeId s, TaskID = tl_TaskId s, SessionID = tl_SessionId s\<rparr>"

text \<open>\<open>task_io\<close> opens the output of a task and \<open>open_stream\<close> the stream to the server. The result says which stream was started, if any.\<close>

definition Agent_onLogStart ::
  "'x Agent \<Rightarrow> (ctx \<Rightarrow> string \<Rightarrow> 'x \<Rightarrow> unit res \<times> 'x) \<Rightarrow> (ctx \<Rightarrow> 'x \<Rightarrow> unit res \<times> 'x) \<Rightarrow> ctx \<Rightarrow> Event
     \<Rightarrow> log_streams \<times> 'x agent_state \<Rightarrow> nat option res \<times> (log_streams \<times> 'x agent_state)"
where
  "Agent_onLogStart c task_io open_stream ctx obj st =
     andThen (as_TailLog (ev_Object obj), st) (\<lambda>s (ls, a).
     case Agent_getNode c ctx a of
       (Panic m, a) \<Rightarrow> (Panic m, (ls, a))
     | (Err e, a) \<Rightarrow> (Err e, (ls, a))
     | (Ok node, a) \<Rightarrow>
         if tl_NodeId s \<noteq> node_uid_of node then (Ok None, (ls, a))
         else if map_of (ls_active ls) (stream_key s) \<noteq> None then (Ok None, (ls, a))
         else (case andThen (env_call (task_io ctx (tl_TaskId s)) a) (\<lambda>_ a. env_call (open_stream ctx) a) of
                 (Panic m, a) \<Rightarrow> (Panic m, (ls, a))
               | (Err e, a) \<Rightarrow> (Err e, (ls, a))
               | (Ok _, a) \<Rightarrow>
                   (Ok (Some (ls_next ls)),
                    (ls\<lparr>ls_active := AList.update (stream_key s) (ls_next ls) (ls_active ls), ls_next := ls_next ls + 1\<rparr>, a))))"

definition Agent_onLogStop :: "'x Agent \<Rightarrow> ctx \<Rightarrow> Event \<Rightarrow> log_streams \<times> 'x agent_state \<Rightarrow> unit res \<times> (log_streams \<times> 'x agent_state)" where
  "Agent_onLogStop c ctx obj st =
     andThen (as_TailLog (ev_Object obj), st) (\<lambda>s (ls, a).
     case Agent_getNode c ctx a of
       (Panic m, a) \<Rightarrow> (Panic m, (ls, a))
     | (Err e, a) \<Rightarrow> (Err e, (ls, a))
     | (Ok node, a) \<Rightarrow>
         if tl_NodeId s \<noteq> node_uid_of node then (Ok (), (ls, a))
         else (Ok (), ((case map_of (ls_active ls) (stream_key s) of
                          None \<Rightarrow> ls
                        | Some n \<Rightarrow> ls\<lparr>ls_cancelled := n # ls_cancelled ls\<rparr>), a)))"

section \<open>One stream\<close>

definition TrimSuffix :: "string \<Rightarrow> char \<Rightarrow> string" where
  "TrimSuffix line c = (if line \<noteq> [] \<and> last line = c then butlast line else line)"

definition trim_line :: "string \<Rightarrow> string" where
  "trim_line line = TrimSuffix (TrimSuffix line (CHR 0x0A)) (CHR 0x0D)"

text \<open>
  Where the reading goroutine (\<^verbatim>\<open>tail\<close>) and the sending one are. The sender's deferred calls close the
  channel of lines first and then cancel the context.
\<close>

datatype tail_phase = Checking | Offering string "error option" | Pausing | TailGone | TailPanic

datatype send_phase = Selecting | Sending string | Closing | Cleaning | SendGone

record log_run =
  lr_reads :: "(string \<times> error option) list"
  lr_tail :: tail_phase
  lr_send :: send_phase
  lr_open :: bool
  lr_cancelled :: bool
  lr_seq :: uint64
  lr_sent :: "LogEntry list"
  lr_registered :: bool

definition start_run :: "(string \<times> error option) list \<Rightarrow> log_run" where
  "start_run reads = \<lparr>lr_reads = reads, lr_tail = Checking, lr_send = Selecting, lr_open = True, lr_cancelled = False,
     lr_seq = 0, lr_sent = [], lr_registered = True\<rparr>"

definition after_read :: "error option \<Rightarrow> tail_phase" where
  "after_read err = (case err of None \<Rightarrow> Checking | Some e \<Rightarrow> if e = Sentinel IoEOF then Pausing else TailGone)"

definition log_entry :: "TailLogRequest \<Rightarrow> instant \<Rightarrow> string \<Rightarrow> uint64 \<Rightarrow> LogEntry" where
  "log_entry s now line sq = \<lparr>le_NodeId = tl_NodeId s, le_TaskId = tl_TaskId s, le_SessionId = tl_SessionId s,
     le_Timestamp = Some now, le_Line = line, le_Seq = sq\<rparr>"

inductive log_step :: "TailLogRequest \<Rightarrow> log_run \<Rightarrow> log_run \<Rightarrow> bool" for s where
  tail_stop: "lr_tail r \<in> {Checking, Pausing} \<or> (\<exists>l e. lr_tail r = Offering l e) \<Longrightarrow> lr_cancelled r \<Longrightarrow> log_step s r (r\<lparr>lr_tail := TailGone\<rparr>)"
| tail_read: "lr_tail r = Checking \<Longrightarrow> \<not> lr_cancelled r \<Longrightarrow> lr_reads r = (line, err) # rest
    \<Longrightarrow> log_step s r (r\<lparr>lr_reads := rest, lr_tail := if line = [] then after_read err else Offering (trim_line line) err\<rparr>)"
| tail_pause: "lr_tail r = Pausing \<Longrightarrow> log_step s r (r\<lparr>lr_tail := Checking\<rparr>)"
| handover: "lr_tail r = Offering line err \<Longrightarrow> lr_open r \<Longrightarrow> lr_send r = Selecting
    \<Longrightarrow> log_step s r (r\<lparr>lr_send := Sending line, lr_tail := after_read err\<rparr>)"
| send_closed: "lr_tail r = Offering line err \<Longrightarrow> \<not> lr_open r \<Longrightarrow> log_step s r (r\<lparr>lr_tail := TailPanic\<rparr>)"
| stop_sending: "lr_tail r \<noteq> TailPanic \<Longrightarrow> lr_send r = Selecting \<Longrightarrow> log_step s r (r\<lparr>lr_send := Closing\<rparr>)"
| sent: "lr_tail r \<noteq> TailPanic \<Longrightarrow> lr_send r = Sending line
    \<Longrightarrow> log_step s r (r\<lparr>lr_sent := lr_sent r @ [log_entry s now line (lr_seq r)], lr_seq := lr_seq r + 1, lr_send := Selecting\<rparr>)"
| send_failed: "lr_tail r \<noteq> TailPanic \<Longrightarrow> lr_send r = Sending line \<Longrightarrow> log_step s r (r\<lparr>lr_send := Closing\<rparr>)"
| close_lines: "lr_tail r \<noteq> TailPanic \<Longrightarrow> lr_send r = Closing \<Longrightarrow> log_step s r (r\<lparr>lr_open := False, lr_send := Cleaning\<rparr>)"
| cleanup: "lr_tail r \<noteq> TailPanic \<Longrightarrow> lr_send r = Cleaning
    \<Longrightarrow> log_step s r (r\<lparr>lr_registered := False, lr_cancelled := True, lr_send := SendGone\<rparr>)"
| cancelled: "lr_tail r \<noteq> TailPanic \<Longrightarrow> log_step s r (r\<lparr>lr_cancelled := True\<rparr>)"

inductive_cases log_stepE: "log_step s r r'"

section \<open>Order\<close>

definition read_lines :: "(string \<times> error option) list \<Rightarrow> string list" where
  "read_lines reads = map (\<lambda>(line, _). trim_line line) (filter (\<lambda>(line, _). line \<noteq> []) reads)"

definition sending :: "log_run \<Rightarrow> string list" where
  "sending r = (case lr_send r of Sending l \<Rightarrow> [l] | _ \<Rightarrow> [])"

definition offering :: "log_run \<Rightarrow> string list" where
  "offering r = (case lr_tail r of Offering l _ \<Rightarrow> [l] | _ \<Rightarrow> [])"

definition flowing :: "log_run \<Rightarrow> bool" where
  "flowing r \<longleftrightarrow> lr_tail r \<noteq> TailGone \<and> lr_tail r \<noteq> TailPanic \<and> (lr_send r = Selecting \<or> (\<exists>l. lr_send r = Sending l))"

definition numbered :: "TailLogRequest \<Rightarrow> LogEntry list \<Rightarrow> bool" where
  "numbered s es \<longleftrightarrow> (\<forall>i < length es. le_Seq (es ! i) = of_nat i \<and> le_NodeId (es ! i) = tl_NodeId s
     \<and> le_TaskId (es ! i) = tl_TaskId s \<and> le_SessionId (es ! i) = tl_SessionId s)"

definition log_ok :: "TailLogRequest \<Rightarrow> string list \<Rightarrow> log_run \<Rightarrow> bool" where
  "log_ok s ls r \<longleftrightarrow> numbered s (lr_sent r) \<and> lr_seq r = of_nat (length (lr_sent r))
     \<and> (\<exists>rest. ls = map le_Line (lr_sent r) @ sending r @ rest \<and> (flowing r \<longrightarrow> rest = offering r @ read_lines (lr_reads r)))
     \<and> (lr_open r \<longleftrightarrow> lr_send r \<noteq> Cleaning \<and> lr_send r \<noteq> SendGone)
     \<and> (lr_registered r \<longleftrightarrow> lr_send r \<noteq> SendGone)"

lemma numbered_snoc: "numbered s es \<Longrightarrow> numbered s (es @ [log_entry s now line (of_nat (length es))])"
  by (auto simp: numbered_def nth_append log_entry_def less_Suc_eq)

lemma read_lines_simps [simp]:
  "read_lines [] = []" "read_lines ((line, err) # rest) = (if line = [] then [] else [trim_line line]) @ read_lines rest"
  by (simp_all add: read_lines_def)

lemma after_read_cases: "after_read err = Checking \<or> after_read err = Pausing \<or> after_read err = TailGone"
  by (simp add: after_read_def split: option.split)

lemma start_run_ok: "log_ok s (read_lines reads) (start_run reads)"
  by (simp add: log_ok_def start_run_def numbered_def sending_def offering_def)

lemmas log_parts = log_ok_def sending_def offering_def flowing_def

lemma log_step_ok:
  assumes "log_step s r r'" and "log_ok s ls r"
  shows "log_ok s ls r'"
  using assms
proof cases
  case (tail_read line err rest)
  with assms(2) after_read_cases [of err] show ?thesis by (auto simp: log_parts)
next
  case (handover line err)
  with assms(2) after_read_cases [of err] show ?thesis by (auto simp: log_parts)
next
  case (sent line now)
  with assms(2) numbered_snoc [of s "lr_sent r" now line] show ?thesis by (auto simp: log_parts log_entry_def)
qed (use assms(2) in \<open>auto simp: log_parts\<close>)

lemma log_steps_ok: "(log_step s)\<^sup>*\<^sup>* r r' \<Longrightarrow> log_ok s ls r \<Longrightarrow> log_ok s ls r'"
  by (induction rule: rtranclp_induct) (simp_all add: log_step_ok)

section \<open>Properties\<close>


definition web_logs :: TailLogRequest where
  "web_logs = \<lparr>tl_NodeId = ''n'', tl_TaskId = ''t'', tl_SessionId = ''s'', tl_Watch = True\<rparr>"

definition two_lines :: "(string \<times> error option) list" where
  "two_lines = [([CHR ''a'', CHR 0x0D, CHR 0x0A], None), ([CHR ''b'', CHR 0x0A], None)]"

lemma two_lines_read: "read_lines two_lines = [''a'', ''b'']"
  by (simp add: two_lines_def trim_line_def TrimSuffix_def)

lemma two_lines_run:
  "(log_step web_logs)\<^sup>*\<^sup>* (start_run two_lines) ((start_run [])\<lparr>lr_tail := Offering ''b'' None, lr_sent := [log_entry web_logs 7 ''a'' 0], lr_seq := 1\<rparr>)"
proof -
  let ?r0 = "start_run two_lines"
  let ?r1 = "?r0\<lparr>lr_reads := tl two_lines, lr_tail := Offering ''a'' None\<rparr>"
  let ?r2 = "?r1\<lparr>lr_send := Sending ''a'', lr_tail := Checking\<rparr>"
  let ?r3 = "?r2\<lparr>lr_sent := [log_entry web_logs 7 ''a'' 0], lr_seq := 1, lr_send := Selecting\<rparr>"
  let ?r4 = "?r3\<lparr>lr_reads := [], lr_tail := Offering ''b'' None\<rparr>"
  have "log_step web_logs ?r0 ?r1"
    using log_step.tail_read [of ?r0 "[CHR ''a'', CHR 0x0D, CHR 0x0A]" None "tl two_lines" web_logs]
    by (simp add: start_run_def two_lines_def trim_line_def TrimSuffix_def)
  moreover have "log_step web_logs ?r1 ?r2"
    using log_step.handover [of ?r1 "''a''" None web_logs] by (simp add: start_run_def after_read_def)
  moreover have "log_step web_logs ?r2 ?r3"
    using log_step.sent [of ?r2 "''a''" web_logs 7] by (simp add: start_run_def)
  moreover have "log_step web_logs ?r3 ?r4"
    using log_step.tail_read [of ?r3 "[CHR ''b'', CHR 0x0A]" None "[]" web_logs]
    by (simp add: start_run_def two_lines_def trim_line_def TrimSuffix_def)
  ultimately have "(log_step web_logs)\<^sup>*\<^sup>* ?r0 ?r4" by (meson r_into_rtranclp rtranclp_trans)
  then show ?thesis by (simp add: start_run_def)
qed


text \<open>
  A failed send while the reader has another line brings the program down: the sender closes the channel of lines
  before it cancels the context, and the reader sends on the closed channel.
\<close>

theorem log_stream_crash:
  assumes "lr_tail r = Offering line err" and "lr_send r = Sending l" and "lr_open r"
  shows "\<exists>r'. (log_step s)\<^sup>*\<^sup>* r r' \<and> lr_tail r' = TailPanic"
proof -
  let ?r1 = "r\<lparr>lr_send := Closing\<rparr>"
  let ?r2 = "?r1\<lparr>lr_open := False, lr_send := Cleaning\<rparr>"
  have "log_step s r ?r1" using assms by (intro log_step.send_failed) simp_all
  moreover have "log_step s ?r1 ?r2" using assms by (intro log_step.close_lines) simp_all
  moreover have "log_step s ?r2 (?r2\<lparr>lr_tail := TailPanic\<rparr>)" using assms by (intro log_step.send_closed [where line = line and err = err]) simp_all
  ultimately have "(log_step s)\<^sup>*\<^sup>* r (?r2\<lparr>lr_tail := TailPanic\<rparr>)" by (meson r_into_rtranclp rtranclp_trans)
  moreover have "lr_tail (?r2\<lparr>lr_tail := TailPanic\<rparr>) = TailPanic" by simp
  ultimately show ?thesis by blast
qed

end
