(* ===== verification/Containerd.thy ===== *)
theory Containerd
  imports VolumeDrivers
begin

text \<open>
  The container runtime of a node, pkg/runtime/containerd.go, on the client library of
  containerd and the local store of tasks.

  containerd is a service of its own: its client is the record \<open>containerd\<close> of functions on the state
  \<open>'d\<close> outside the program. A container is named by its id and its task by the container; each
  call is made in the namespace of the runtime. \<open>containerd_documented\<close> says what is relied on.
\<close>

section \<open>The client library\<close>

record spec_mount =
  sm_Destination :: string
  sm_Type :: string
  sm_Source :: string
  sm_Options :: "string list"

datatype spec_opt =
    WithDefaultSpec | WithDefaultUnixDevices | WithImageConfig string | WithHostname string
  | WithAddedCapabilities "string list" | WithDroppedCapabilities "string list"
  | WithEnv "string list" | WithMounts "spec_mount list" | WithPrivileged
  | WithUser string | ResetAdditionalGIDs | WithAdditionalGIDs string | WithProcessArgs "string list"

record new_container =
  nc_Image :: string
  nc_Snapshot :: string
  nc_Spec :: "spec_opt list"
  nc_Labels :: label

text \<open>What ends the wait for a task: the context, its exit with an error or none, or the time.\<close>

datatype wait_end = WaitDone error | WaitExit "error option" | WaitTimeout

datatype signal = SIGTERM | SIGKILL

record 'd containerd =
  cd_Version :: "ctx \<Rightarrow> 'd \<Rightarrow> string res \<times> 'd"
  cd_Containers :: "string \<Rightarrow> ctx \<Rightarrow> string list \<Rightarrow> 'd \<Rightarrow> string list res \<times> 'd"
  cd_LoadContainer :: "string \<Rightarrow> ctx \<Rightarrow> string \<Rightarrow> 'd \<Rightarrow> unit res \<times> 'd"
  cd_NewContainer :: "string \<Rightarrow> ctx \<Rightarrow> string \<Rightarrow> new_container \<Rightarrow> 'd \<Rightarrow> unit res \<times> 'd"
  cd_Pull :: "string \<Rightarrow> ctx \<Rightarrow> string \<Rightarrow> 'd \<Rightarrow> unit res \<times> 'd"
  cd_GetImage :: "string \<Rightarrow> ctx \<Rightarrow> string \<Rightarrow> 'd \<Rightarrow> string res \<times> 'd"
  ctr_Labels :: "string \<Rightarrow> ctx \<Rightarrow> string \<Rightarrow> 'd \<Rightarrow> label res \<times> 'd"
  ctr_Delete :: "string \<Rightarrow> ctx \<Rightarrow> string \<Rightarrow> 'd \<Rightarrow> unit res \<times> 'd"
  ctr_Task :: "string \<Rightarrow> ctx \<Rightarrow> string \<Rightarrow> 'd \<Rightarrow> uint32 res \<times> 'd"
  ctr_NewTask :: "string \<Rightarrow> ctx \<Rightarrow> string \<Rightarrow> string \<Rightarrow> 'd \<Rightarrow> unit res \<times> 'd"
  tsk_Start :: "string \<Rightarrow> ctx \<Rightarrow> string \<Rightarrow> 'd \<Rightarrow> unit res \<times> 'd"
  tsk_Wait :: "string \<Rightarrow> ctx \<Rightarrow> string \<Rightarrow> 'd \<Rightarrow> unit res \<times> 'd"
  tsk_Kill :: "string \<Rightarrow> ctx \<Rightarrow> string \<Rightarrow> signal \<Rightarrow> 'd \<Rightarrow> unit res \<times> 'd"
  tsk_Delete :: "string \<Rightarrow> ctx \<Rightarrow> string \<Rightarrow> 'd \<Rightarrow> unit res \<times> 'd"
  tsk_await :: "string \<Rightarrow> ctx \<Rightarrow> string \<Rightarrow> 'd \<Rightarrow> wait_end res \<times> 'd"

section \<open>The runtime\<close>

record TaskIO =
  io_Stdout :: "string option"
  io_Stderr :: "string option"

record rt_state =
  rs_containerIOs :: "(string, TaskIO) gomap"
  rs_appendLabels :: label

type_synonym 'd rt_world = "files \<times> (rt_state \<times> 'd)"

record 'x ProtoStore =
  ps_Load :: "string \<Rightarrow> 'x \<Rightarrow> Task res \<times> 'x"
  ps_Save :: "string \<Rightarrow> Task \<Rightarrow> 'x \<Rightarrow> unit res \<times> 'x"
  ps_Delete :: "string \<Rightarrow> 'x \<Rightarrow> unit res \<times> 'x"

definition fs_task_store :: "Task codec \<Rightarrow> string \<Rightarrow> (files \<times> 'y) ProtoStore" where
  "fs_task_store cdc dir = \<lparr>
     ps_Load = (\<lambda>i. on_files (\<lambda>fs. (fsProtoStore_Load cdc dir i fs, fs))),
     ps_Save = (\<lambda>i t. on_files (fsProtoStore_Save cdc dir i t)),
     ps_Delete = (\<lambda>i. on_files (fsProtoStore_Delete dir i))\<rparr>"

text \<open>\<^verbatim>\<open>errdefs.ErrNotFound\<close>, the JSON text of port mappings and the text of a timestamp are parameters.\<close>

record 'd ContainerdRuntime =
  rc_client :: "'d containerd"
  rc_ns :: string
  rc_logDirFmt :: string
  rc_store :: "'d rt_world ProtoStore"
  rc_errs :: ext_errs
  rc_ErrNotFound :: error
  rc_json_Marshal :: "cni_PortMapping list \<Rightarrow> string"
  rc_json_Unmarshal :: "string \<Rightarrow> cni_PortMapping list res"
  rc_time_text :: "instant option \<Rightarrow> string"

definition on_daemon :: "('d \<Rightarrow> 'a res \<times> 'd) \<Rightarrow> 'd rt_world \<Rightarrow> 'a res \<times> 'd rt_world" where
  "on_daemon f x = (case x of (fs, s, d) \<Rightarrow> (case f d of (r, d) \<Rightarrow> (r, (fs, s, d))))"

text \<open>\<^verbatim>\<open>fmt.Sprintf\<close> with one \<^verbatim>\<open>%s\<close>.\<close>

fun Sprintf_s :: "string \<Rightarrow> string \<Rightarrow> string" where
  "Sprintf_s [] v = []"
| "Sprintf_s [c] v = [c]"
| "Sprintf_s (c # d # cs) v = (if c = CHR ''%'' \<and> d = CHR ''s'' then v @ cs else c # Sprintf_s (d # cs) v)"

definition logFileName :: string where
  "logFileName = ''stdout.log''"

definition log_file :: "'d ContainerdRuntime \<Rightarrow> string \<Rightarrow> string" where
  "log_file c i = path_Join [Sprintf_s (rc_logDirFmt c) i, logFileName]"

section \<open>The specification of a container\<close>

definition withMounts :: "Mount list \<Rightarrow> spec_opt" where
  "withMounts m = WithMounts (map (\<lambda>mount.
     \<lparr>sm_Destination = mnt_Destination mount,
      sm_Type = (if mnt_Type mount = [] then ''bind'' else mnt_Type mount),
      sm_Source = mnt_Source mount,
      sm_Options = (if mnt_Options mount = [] then [''rbind'', ''rw''] else mnt_Options mount)\<rparr>) m)"

definition withEnvVars :: "EnvVar list \<Rightarrow> spec_opt" where
  "withEnvVars envs = WithEnv (map (\<lambda>env. env_Name env @ CHR ''='' # env_Value env) envs)"

definition withUser :: "string \<Rightarrow> spec_opt list" where
  "withUser user = (if user \<noteq> [] then [WithUser user, ResetAdditionalGIDs, WithAdditionalGIDs user] else [])"

definition getCapabilities :: "Capabilities option \<Rightarrow> Capabilities" where
  "getCapabilities c = (case c of None \<Rightarrow> \<lparr>cap_Add = [], cap_Drop = []\<rparr> | Some c \<Rightarrow> c)"

definition spec_opts :: "Task \<Rightarrow> string \<Rightarrow> spec_opt list" where
  "spec_opts t img =
     (let cfg = task_config t;
          opts = [WithDefaultSpec, WithDefaultUnixDevices, WithImageConfig img, WithHostname (task_name_of t),
                  WithAddedCapabilities (cap_Add (getCapabilities (tc_Capabilities cfg))),
                  WithDroppedCapabilities (cap_Drop (getCapabilities (tc_Capabilities cfg))),
                  withEnvVars (tc_Envvars cfg), withMounts (tc_Mounts cfg)];
          opts = (if tc_Privileged cfg then opts @ [WithPrivileged] else opts);
          opts = opts @ withUser (tc_User cfg)
      in if tc_Args cfg \<noteq> [] then opts @ [WithProcessArgs (tc_Args cfg)] else opts)"

text \<open>The labels of a container; the mappings of the task get their default protocol.\<close>

definition with_protocols :: "Task \<Rightarrow> Task" where
  "with_protocols t = t\<lparr>task_Config := map_option (\<lambda>c. c\<lparr>tc_PortMappings := snd (ParseCNIPortMappings (tc_PortMappings c))\<rparr>) (task_Config t)\<rparr>"

definition withContainerLabels :: "'d ContainerdRuntime \<Rightarrow> label \<Rightarrow> Task \<Rightarrow> label" where
  "withContainerLabels c l t =
     (let cniPorts = fst (ParseCNIPortMappings (tc_PortMappings (task_config t)));
          m = getMeta (task_Meta t);
          l = Label_Set l ''voiyd/revision'' (Uint64ToString (meta_Generation m));
          l = Label_Set l ''voiyd/created'' (rc_time_text c (meta_Created m));
          l = Label_Set l ''voiyd/updated'' (rc_time_text c (meta_Updated m));
          l = Label_Set l ''voiyd/uid'' (meta_Uid m);
          l = Label_Set l ''voiyd/name'' (meta_Name m);
          l = Label_Set l ''voiyd/namespace'' ''voiyd''
      in Label_Set l ''voiyd/ports'' (rc_json_Marshal c cniPorts))"

definition run_labels :: "label \<Rightarrow> Task \<Rightarrow> label" where
  "run_labels app t =
     Label_AppendMap (Label_Set (Label_Set [] ''voiyd.io/name'' (task_name_of t)) ''voiyd.io/uid'' (task_uid_of t)) app"

section \<open>Operations\<close>

definition Runtime_Namespace :: "'d ContainerdRuntime \<Rightarrow> string" where
  "Runtime_Namespace c = rc_ns c"

definition Runtime_Version :: "'d ContainerdRuntime \<Rightarrow> ctx \<Rightarrow> 'd rt_world \<Rightarrow> string res \<times> 'd rt_world" where
  "Runtime_Version c ctx x =
     andThen (on_daemon (cd_Version (rc_client c) ctx) x) (\<lambda>ver x. (Ok (''containerd/'' @ ver), x))"

text \<open>A container that is gone takes its entry in the store with it.\<close>

definition Runtime_get :: "'d ContainerdRuntime \<Rightarrow> ctx \<Rightarrow> string \<Rightarrow> 'd rt_world \<Rightarrow> unit res \<times> 'd rt_world" where
  "Runtime_get c ctx taskUID x =
     (case on_daemon (cd_LoadContainer (rc_client c) (rc_ns c) ctx taskUID) x of
        (Err e, x) \<Rightarrow>
          if errdefs_IsNotFound (rc_errs c) (Some e)
          then skipMissing (rc_errs c) (ps_Delete (rc_store c) taskUID x) (\<lambda>x. (Err (rc_ErrNotFound c), x))
          else (Err e, x)
      | p \<Rightarrow> p)"

definition Runtime_Cleanup :: "'d ContainerdRuntime \<Rightarrow> ctx \<Rightarrow> string \<Rightarrow> 'd rt_world \<Rightarrow> unit res \<times> 'd rt_world" where
  "Runtime_Cleanup c ctx i x =
     andThen (Runtime_get c ctx i x) (\<lambda>_ x.
     andThen (on_daemon (ctr_Task (rc_client c) (rc_ns c) ctx i) x) (\<lambda>_ x.
     andThen (on_daemon (ctr_Labels (rc_client c) (rc_ns c) ctx i) x) (\<lambda>ctrLabels x.
     andThen (rc_json_Unmarshal c (Label_Get ctrLabels ''voiyd/ports''), x) (\<lambda>_ x.
     on_files (os_WriteFile (log_file c i) []) x))))"

text \<open>The result has one entry for each container, nil where the label is missing.\<close>

fun load_tasks :: "'d ContainerdRuntime \<Rightarrow> ctx \<Rightarrow> string list \<Rightarrow> 'd rt_world \<Rightarrow> Task option list res \<times> 'd rt_world" where
  "load_tasks c ctx [] x = (Ok [], x)"
| "load_tasks c ctx (ctr # ctrs) x =
     andThen (on_daemon (ctr_Labels (rc_client c) (rc_ns c) ctx ctr) x) (\<lambda>cl x.
     case map_of cl ''voiyd.io/uid'' of
       None \<Rightarrow> andThen (load_tasks c ctx ctrs x) (\<lambda>ts x. (Ok (None # ts), x))
     | Some taskName \<Rightarrow>
         andThen (ps_Load (rc_store c) taskName x) (\<lambda>t x.
         andThen (load_tasks c ctx ctrs x) (\<lambda>ts x. (Ok (Some t # ts), x))))"

definition uid_filter :: string where
  "uid_filter = ''labels.'' @ [CHR 0x22] @ ''voiyd.io/uid'' @ [CHR 0x22]"

definition Runtime_List :: "'d ContainerdRuntime \<Rightarrow> ctx \<Rightarrow> string list \<Rightarrow> 'd rt_world \<Rightarrow> Task option list res \<times> 'd rt_world" where
  "Runtime_List c ctx flt x =
     andThen (on_daemon (cd_Containers (rc_client c) (rc_ns c) ctx (uid_filter # flt)) x) (\<lambda>ctrs x. load_tasks c ctx ctrs x)"

definition Runtime_Get :: "'d ContainerdRuntime \<Rightarrow> ctx \<Rightarrow> string \<Rightarrow> 'd rt_world \<Rightarrow> Task res \<times> 'd rt_world" where
  "Runtime_Get c ctx taskUID x =
     andThen (Runtime_get c ctx taskUID x) (\<lambda>_ x. ps_Load (rc_store c) taskUID x)"

definition Runtime_Pull :: "'d ContainerdRuntime \<Rightarrow> ctx \<Rightarrow> Task \<Rightarrow> 'd rt_world \<Rightarrow> unit res \<times> 'd rt_world" where
  "Runtime_Pull c ctx t x =
     (case task_Config t of
        None \<Rightarrow> (Panic ''nil pointer dereference'', x)
      | Some cfg \<Rightarrow> on_daemon (cd_Pull (rc_client c) (rc_ns c) ctx (tc_Image cfg)) x)"

text \<open>Errors that say not found end a step early or are passed over.\<close>

definition when_missing :: "'d ContainerdRuntime \<Rightarrow> 'a res \<times> 's \<Rightarrow> ('s \<Rightarrow> 'r res \<times> 's) \<Rightarrow> ('a \<Rightarrow> 's \<Rightarrow> 'r res \<times> 's) \<Rightarrow> 'r res \<times> 's" where
  "when_missing c p f g =
     (case p of
        (Err e, x) \<Rightarrow> if errdefs_IsNotFound (rc_errs c) (Some e) then f x else (Err e, x)
      | (Panic m, x) \<Rightarrow> (Panic m, x)
      | (Ok a, x) \<Rightarrow> g a x)"

definition exit_result :: "error option \<Rightarrow> unit res" where
  "exit_result err = (case err of None \<Rightarrow> Ok () | Some e \<Rightarrow> Err (Wrapped ''failed to get exit status from task'' e))"

definition Runtime_Kill :: "'d ContainerdRuntime \<Rightarrow> ctx \<Rightarrow> Task \<Rightarrow> 'd rt_world \<Rightarrow> unit res \<times> 'd rt_world" where
  "Runtime_Kill c ctx t x =
     (let uid = task_uid_of t; cl = rc_client c; ns = rc_ns c; nothing = (\<lambda>x. (Ok (), x)) in
      when_missing c (Runtime_get c ctx uid x) nothing (\<lambda>_ x.
      when_missing c (on_daemon (ctr_Task cl ns ctx uid) x) nothing (\<lambda>_ x.
      let wait = (\<lambda>x.
            andThen (on_daemon (tsk_Wait cl ns ctx uid) x) (\<lambda>_ x.
            andThen (on_daemon (tsk_await cl ns ctx uid) x) (\<lambda>w x.
            (case w of
               WaitDone e \<Rightarrow> Err e
             | WaitExit err \<Rightarrow> exit_result err
             | WaitTimeout \<Rightarrow> Err (Sentinel OsErrDeadlineExceeded), x))))
      in when_missing c (on_daemon (tsk_Kill cl ns ctx uid SIGKILL) x) wait (\<lambda>_. wait))))"

definition Runtime_Stop :: "'d ContainerdRuntime \<Rightarrow> ctx \<Rightarrow> Task \<Rightarrow> 'd rt_world \<Rightarrow> unit res \<times> 'd rt_world" where
  "Runtime_Stop c ctx t x =
     (let uid = task_uid_of t; cl = rc_client c; ns = rc_ns c in
      andThen (Runtime_get c ctx uid x) (\<lambda>_ x.
      andThen (on_daemon (ctr_Task cl ns ctx uid) x) (\<lambda>_ x.
      andThen (on_daemon (tsk_Wait cl ns ctx uid) x) (\<lambda>_ x.
      andThen (wrap_err ''failed to send SIGTERM'' (on_daemon (tsk_Kill cl ns ctx uid SIGTERM) x)) (\<lambda>_ x.
      andThen (on_daemon (tsk_await cl ns ctx uid) x) (\<lambda>w x.
      (case w of
         WaitDone e \<Rightarrow> Err e
       | WaitExit err \<Rightarrow> exit_result err
       | WaitTimeout \<Rightarrow> Err (Errorf ''timed out waiting for task to stop''), x)))))))"

definition close_ios :: "string \<Rightarrow> 'd rt_world \<Rightarrow> 'd rt_world" where
  "close_ios uid x = (case x of (fs, s, d) \<Rightarrow> (fs, s\<lparr>rs_containerIOs := AList.delete uid (rs_containerIOs s)\<rparr>, d))"

text \<open>Once its task is stopped, a container and then its entry in the store are removed.\<close>

definition remove_container :: "'d ContainerdRuntime \<Rightarrow> ctx \<Rightarrow> string \<Rightarrow> bool \<Rightarrow> 'd rt_world \<Rightarrow> unit res \<times> 'd rt_world" where
  "remove_container c ctx uid has_task x =
     (let x = close_ios uid x; cl = rc_client c; ns = rc_ns c in
      andThen (if has_task then on_daemon (tsk_Delete cl ns ctx uid) x else (Ok (), x)) (\<lambda>_ x.
      case on_daemon (ctr_Delete cl ns ctx uid) x of
        (Err e, x) \<Rightarrow> (Err (Errorf (''error deleting container and its tasks: '' @ err_text (rc_errs c) e)), x)
      | (Panic m, x) \<Rightarrow> (Panic m, x)
      | (Ok _, x) \<Rightarrow> ps_Delete (rc_store c) uid x))"

definition Runtime_Delete :: "'d ContainerdRuntime \<Rightarrow> ctx \<Rightarrow> Task \<Rightarrow> 'd rt_world \<Rightarrow> unit res \<times> 'd rt_world" where
  "Runtime_Delete c ctx t x =
     (let uid = task_uid_of t in
      when_missing c (Runtime_get c ctx uid x) (\<lambda>x. (Ok (), x)) (\<lambda>_ x.
      when_missing c (on_daemon (ctr_Task (rc_client c) (rc_ns c) ctx uid) x)
        (\<lambda>x. remove_container c ctx uid False x) (\<lambda>_ x.
      when_missing c (Runtime_Kill c ctx t x)
        (\<lambda>x. remove_container c ctx uid True x) (\<lambda>_ x. remove_container c ctx uid True x))))"

datatype RuntimeOption = WithContainerdLabels label

fun apply_option :: "RuntimeOption \<Rightarrow> rt_state \<Rightarrow> rt_state" where
  "apply_option (WithContainerdLabels l) s = s\<lparr>rs_appendLabels := l\<rparr>"

definition Runtime_Run :: "'d ContainerdRuntime \<Rightarrow> ctx \<Rightarrow> Task \<Rightarrow> RuntimeOption list \<Rightarrow> 'd rt_world \<Rightarrow> unit res \<times> 'd rt_world" where
  "Runtime_Run c ctx t ro x =
     (let cl = rc_client c; ns = rc_ns c; uid = task_uid_of t;
          x = (case x of (fs, s, d) \<Rightarrow> (fs, fold apply_option ro s, d));
          app = rs_appendLabels (fst (snd x))
      in andThen (on_daemon (cd_GetImage cl ns ctx (tc_Image (task_config t))) x) (\<lambda>img x.
         andThen (on_daemon (cd_NewContainer cl ns ctx uid
             \<lparr>nc_Image = img, nc_Snapshot = uid @ ''-snapshot'', nc_Spec = spec_opts t img,
              nc_Labels = withContainerLabels c (run_labels app t) t\<rparr>) x) (\<lambda>_ x.
         andThen (on_daemon (ctr_NewTask cl ns ctx uid (log_file c uid)) x) (\<lambda>_ x.
         andThen (ps_Save (rc_store c) uid (with_protocols t) x) (\<lambda>_ x.
         on_daemon (tsk_Start cl ns ctx uid) x)))))"

definition Runtime_Labels :: "'d ContainerdRuntime \<Rightarrow> ctx \<Rightarrow> string \<Rightarrow> 'd rt_world \<Rightarrow> label res \<times> 'd rt_world" where
  "Runtime_Labels c ctx i x =
     andThen (Runtime_get c ctx i x) (\<lambda>_ x.
     andThen (on_daemon (ctr_Labels (rc_client c) (rc_ns c) ctx i) x) (\<lambda>cl x. (Ok (Label_AppendMap [] cl), x)))"

definition os_Open :: "string \<Rightarrow> files \<Rightarrow> unit res" where
  "os_Open p fs = bindR (fault fs OpOpen (locate fs p) (find_node fs p)) (\<lambda>_. Ok ())"

definition Runtime_IO :: "'d ContainerdRuntime \<Rightarrow> ctx \<Rightarrow> string \<Rightarrow> 'd rt_world \<Rightarrow> TaskIO res \<times> 'd rt_world" where
  "Runtime_IO c ctx i x =
     andThen (on_files (\<lambda>fs. (os_Open (log_file c i) fs, fs)) x) (\<lambda>_ x.
     (Ok \<lparr>io_Stdout = Some (log_file c i), io_Stderr = None\<rparr>, x))"

definition Runtime_ID :: "'d ContainerdRuntime \<Rightarrow> ctx \<Rightarrow> string \<Rightarrow> 'd rt_world \<Rightarrow> string res \<times> 'd rt_world" where
  "Runtime_ID c ctx i x = andThen (Runtime_get c ctx i x) (\<lambda>_ x. (Ok i, x))"

definition Runtime_Name :: "'d ContainerdRuntime \<Rightarrow> ctx \<Rightarrow> string \<Rightarrow> 'd rt_world \<Rightarrow> string res \<times> 'd rt_world" where
  "Runtime_Name c ctx i x =
     andThen (Runtime_get c ctx i x) (\<lambda>_ x.
     andThen (on_daemon (ctr_Labels (rc_client c) (rc_ns c) ctx i) x) (\<lambda>l x.
     (case map_of l ''voiyd.io/uid'' of None \<Rightarrow> Err (rc_ErrNotFound c) | Some cName \<Rightarrow> Ok cName, x)))"

definition Runtime_Pid :: "'d ContainerdRuntime \<Rightarrow> ctx \<Rightarrow> string \<Rightarrow> 'd rt_world \<Rightarrow> uint32 res \<times> 'd rt_world" where
  "Runtime_Pid c ctx i x =
     andThen (Runtime_get c ctx i x) (\<lambda>_ x. on_daemon (ctr_Task (rc_client c) (rc_ns c) ctx i) x)"

text \<open>The runtime as the node controller uses it; it reads a nil task as an empty one.\<close>

definition nil_task :: "Task option \<Rightarrow> Task" where
  "nil_task t = (case t of Some t \<Rightarrow> t | None \<Rightarrow> \<lparr>task_Version = [], task_Meta = None, task_Config = None, task_Status = None\<rparr>)"

definition containerd_Runtime :: "'d ContainerdRuntime \<Rightarrow> 'd rt_world Runtime" where
  "containerd_Runtime c = \<lparr>
     rt_List = (\<lambda>ctx x. andThen (Runtime_List c ctx [] x) (\<lambda>ts x. (Ok (map nil_task ts), x))),
     rt_Get = (\<lambda>ctx i x. andThen (Runtime_Get c ctx i x) (\<lambda>t x. (Ok (Some t), x))),
     rt_Delete = Runtime_Delete c, rt_Kill = Runtime_Kill c, rt_Stop = Runtime_Stop c,
     rt_Run = (\<lambda>ctx t l. Runtime_Run c ctx t [WithContainerdLabels l]),
     rt_Cleanup = Runtime_Cleanup c, rt_Pull = Runtime_Pull c, rt_Labels = Runtime_Labels c,
     rt_Name = Runtime_Name c, rt_Pid = Runtime_Pid c\<rparr>"

section \<open>What containerd promises\<close>

text \<open>
  \<open>ctrs\<close> reads the containers, with their labels, off the state of containerd. Only creating and deleting a
  container change them; a container is loaded if it is there, and reported missing only if it is not.
\<close>

type_synonym 'd containers = "'d \<Rightarrow> string \<Rightarrow> string \<Rightarrow> label option"

definition leaves :: "('d \<Rightarrow> 'c) \<Rightarrow> ('d \<Rightarrow> 'a res \<times> 'd) \<Rightarrow> bool" where
  "leaves v f \<longleftrightarrow> (\<forall>d. v (snd (f d)) = v d)"

definition quiet_calls :: "'d containerd \<Rightarrow> 'd containers \<Rightarrow> bool" where
  "quiet_calls cl ctrs \<longleftrightarrow>
     (\<forall>ctx. leaves ctrs (cd_Version cl ctx)) \<and>
     (\<forall>ns ctx flt. leaves ctrs (cd_Containers cl ns ctx flt)) \<and>
     (\<forall>ns ctx i. leaves ctrs (cd_LoadContainer cl ns ctx i)) \<and>
     (\<forall>ns ctx i. leaves ctrs (cd_Pull cl ns ctx i)) \<and>
     (\<forall>ns ctx i. leaves ctrs (cd_GetImage cl ns ctx i)) \<and>
     (\<forall>ns ctx i. leaves ctrs (ctr_Labels cl ns ctx i)) \<and>
     (\<forall>ns ctx i. leaves ctrs (ctr_Task cl ns ctx i)) \<and>
     (\<forall>ns ctx i f. leaves ctrs (ctr_NewTask cl ns ctx i f)) \<and>
     (\<forall>ns ctx i. leaves ctrs (tsk_Start cl ns ctx i)) \<and>
     (\<forall>ns ctx i. leaves ctrs (tsk_Wait cl ns ctx i)) \<and>
     (\<forall>ns ctx i s. leaves ctrs (tsk_Kill cl ns ctx i s)) \<and>
     (\<forall>ns ctx i. leaves ctrs (tsk_Delete cl ns ctx i)) \<and>
     (\<forall>ns ctx i. leaves ctrs (tsk_await cl ns ctx i))"

definition containerd_documented :: "ext_errs \<Rightarrow> error \<Rightarrow> 'd containerd \<Rightarrow> 'd containers \<Rightarrow> bool" where
  "containerd_documented x nf cl ctrs \<longleftrightarrow> errdefs_IsNotFound x (Some nf) \<and> quiet_calls cl ctrs \<and>
     (\<forall>ns ctx i d m. fst (cd_LoadContainer cl ns ctx i d) \<noteq> Panic m) \<and>
     (\<forall>ns ctx i d. fst (cd_LoadContainer cl ns ctx i d) = Ok () \<longrightarrow> ctrs d ns i \<noteq> None) \<and>
     (\<forall>ns ctx i d e. fst (cd_LoadContainer cl ns ctx i d) = Err e \<longrightarrow> errdefs_IsNotFound x (Some e) \<longrightarrow> ctrs d ns i = None) \<and>
     (\<forall>ns ctx i d l. fst (ctr_Labels cl ns ctx i d) = Ok l \<longrightarrow> ctrs d ns i = Some l) \<and>
     (\<forall>ns ctx i n d. fst (cd_NewContainer cl ns ctx i n d) = Ok () \<longrightarrow>
        ctrs d ns i = None \<and> ctrs (snd (cd_NewContainer cl ns ctx i n d)) = (ctrs d)(ns := (ctrs d ns)(i \<mapsto> nc_Labels n))) \<and>
     (\<forall>ns ctx i d. fst (ctr_Delete cl ns ctx i d) = Ok () \<longrightarrow>
        ctrs (snd (ctr_Delete cl ns ctx i d)) = (ctrs d)(ns := (ctrs d ns)(i := None)))"

text \<open>A runtime whose tasks are stored in the directory \<open>dir\<close>, and what a step on the task \<open>uid\<close> leaves alone.\<close>

definition fs_runtime :: "'d ContainerdRuntime \<Rightarrow> 'd containers \<Rightarrow> Task codec \<Rightarrow> string \<Rightarrow> bool" where
  "fs_runtime c ctrs cdc dir \<longleftrightarrow> containerd_documented (rc_errs c) (rc_ErrNotFound c) (rc_client c) ctrs
     \<and> rc_store c = fs_task_store cdc dir \<and> codec_roundtrip cdc \<and> decodes cdc"

abbreviation ctrs_of :: "'d ContainerdRuntime \<Rightarrow> 'd containers \<Rightarrow> 'd rt_world \<Rightarrow> string \<Rightarrow> label option" where
  "ctrs_of c ctrs x \<equiv> ctrs (snd (snd x)) (rc_ns c)"

definition stores_kept :: "Task codec \<Rightarrow> string \<Rightarrow> string \<Rightarrow> 'd rt_world \<Rightarrow> 'd rt_world \<Rightarrow> bool" where
  "stores_kept cdc dir uid x x' \<longleftrightarrow> (dir_inv dir (fst x) \<longrightarrow>
     dir_inv dir (fst x') \<and> (\<forall>j. plain j \<longrightarrow> j \<noteq> uid \<longrightarrow> msg_view cdc dir (fst x') j = msg_view cdc dir (fst x) j))"

definition quiet :: "'d containers \<Rightarrow> Task codec \<Rightarrow> string \<Rightarrow> string \<Rightarrow> 'd rt_world \<Rightarrow> 'd rt_world \<Rightarrow> bool" where
  "quiet ctrs cdc dir uid x x' \<longleftrightarrow> ctrs (snd (snd x')) = ctrs (snd (snd x)) \<and> stores_kept cdc dir uid x x'"

lemma stores_kept_trans: "stores_kept cdc dir uid x y \<Longrightarrow> stores_kept cdc dir uid y z \<Longrightarrow> stores_kept cdc dir uid x z"
  by (simp add: stores_kept_def)

lemma quiet_refl [simp]: "quiet ctrs cdc dir uid x x"
  by (simp add: quiet_def stores_kept_def)

lemma quiet_trans: "quiet ctrs cdc dir uid x y \<Longrightarrow> quiet ctrs cdc dir uid y z \<Longrightarrow> quiet ctrs cdc dir uid x z"
  by (auto simp: quiet_def intro: stores_kept_trans)

lemma on_daemon_eq: "on_daemon f x = (fst (f (snd (snd x))), (fst x, fst (snd x), snd (f (snd (snd x)))))"
  by (simp add: on_daemon_def split: prod.split)

lemma on_daemon_quiet: "leaves ctrs f \<Longrightarrow> quiet ctrs cdc dir uid x (snd (on_daemon f x))"
  by (simp add: on_daemon_eq leaves_def quiet_def stores_kept_def)

lemma andThen_quiet:
  assumes "quiet ctrs cdc dir uid x (snd p)" and "\<And>a y. quiet ctrs cdc dir uid y (snd (f a y))"
  shows "quiet ctrs cdc dir uid x (snd (andThen p f))"
  using andThen_state [where P = "quiet ctrs cdc dir uid x" and p = p and f = f] assms quiet_trans by blast

lemma when_missing_quiet:
  assumes "quiet ctrs cdc dir uid x (snd p)" and "\<And>y. quiet ctrs cdc dir uid y (snd (f y))" and "\<And>a y. quiet ctrs cdc dir uid y (snd (g a y))"
  shows "quiet ctrs cdc dir uid x (snd (when_missing c p f g))"
  using assms(1) quiet_trans [OF _ assms(2)] quiet_trans [OF _ assms(3)]
  by (cases p; cases "fst p") (auto simp: when_missing_def)

lemma fs_runtime_store:
  assumes "fs_runtime c ctrs cdc dir"
  shows "rc_store c = fs_task_store cdc dir"
    and "key_store (fsProtoStore_Load cdc dir) (fsProtoStore_Save cdc dir) (fsProtoStore_Delete dir) plain (marshals cdc) (dir_inv dir) (msg_view cdc dir)"
  using assms fs_proto_store by (auto simp: fs_runtime_def)

lemma store_Delete:
  assumes "fs_runtime c ctrs cdc dir" and "plain uid"
  shows "quiet ctrs cdc dir uid x (snd (ps_Delete (rc_store c) uid x))"
proof -
  obtain r fs' where d: "fsProtoStore_Delete dir uid (fst x) = (r, fs')" by (metis surj_pair)
  have "snd (ps_Delete (rc_store c) uid x) = (fs', snd x)"
    using d by (cases x) (simp add: fs_runtime_store(1) [OF assms(1)] fs_task_store_def on_files_def)
  with key_store.del_law [OF fs_runtime_store(2) [OF assms(1)] _ assms(2) d] show ?thesis by (simp add: quiet_def stores_kept_def)
qed

lemma store_Save:
  assumes "fs_runtime c ctrs cdc dir" and "plain uid" and "marshals cdc t" and "ps_Save (rc_store c) uid t x = (r, x')"
  shows "quiet ctrs cdc dir uid x x' \<and> (dir_inv dir (fst x) \<longrightarrow> r = Ok () \<longrightarrow> msg_view cdc dir (fst x') uid = Some t)"
proof -
  have d: "fsProtoStore_Save cdc dir uid t (fst x) = (r, fst x')" and s: "snd x' = snd x"
    using assms(4) by (simp_all add: fs_runtime_store(1) [OF assms(1)] fs_task_store_def on_files_eq)
  from key_store.save_law [OF fs_runtime_store(2) [OF assms(1)] _ assms(2,3) d] s show ?thesis by (simp add: quiet_def stores_kept_def)
qed

lemma store_Load:
  assumes "fs_runtime c ctrs cdc dir"
  shows "ps_Load (rc_store c) uid x = (fsProtoStore_Load cdc dir uid (fst x), x)"
  by (cases x) (simp add: fs_runtime_store(1) [OF assms] fs_task_store_def on_files_def)

lemma documented:
  assumes "fs_runtime c ctrs cdc dir"
  shows "quiet_calls (rc_client c) ctrs" and "errdefs_IsNotFound (rc_errs c) (Some (rc_ErrNotFound c))"
    and "fst (cd_LoadContainer (rc_client c) ns ctx i d) = Ok () \<Longrightarrow> ctrs d ns i \<noteq> None"
    and "fst (cd_LoadContainer (rc_client c) ns ctx i d) = Err e \<Longrightarrow> errdefs_IsNotFound (rc_errs c) (Some e) \<Longrightarrow> ctrs d ns i = None"
    and "fst (cd_NewContainer (rc_client c) ns ctx i n d) = Ok () \<Longrightarrow>
        ctrs d ns i = None \<and> ctrs (snd (cd_NewContainer (rc_client c) ns ctx i n d)) = (ctrs d)(ns := (ctrs d ns)(i \<mapsto> nc_Labels n))"
    and "fst (ctr_Delete (rc_client c) ns ctx i d) = Ok () \<Longrightarrow>
        ctrs (snd (ctr_Delete (rc_client c) ns ctx i d)) = (ctrs d)(ns := (ctrs d ns)(i := None))"
    and "fst (cd_LoadContainer (rc_client c) ns ctx i d) \<noteq> Panic m"
  using assms by (simp_all add: fs_runtime_def containerd_documented_def)

lemma quiet_on:
  assumes "fs_runtime c ctrs cdc dir"
  shows "quiet ctrs cdc dir uid x (snd (on_daemon (ctr_Task (rc_client c) ns ctx i) x))"
    and "quiet ctrs cdc dir uid x (snd (on_daemon (cd_LoadContainer (rc_client c) ns ctx i) x))"
    and "quiet ctrs cdc dir uid x (snd (on_daemon (cd_GetImage (rc_client c) ns ctx i) x))"
    and "quiet ctrs cdc dir uid x (snd (on_daemon (ctr_NewTask (rc_client c) ns ctx i f) x))"
    and "quiet ctrs cdc dir uid x (snd (on_daemon (tsk_Start (rc_client c) ns ctx i) x))"
    and "quiet ctrs cdc dir uid x (snd (on_daemon (tsk_Wait (rc_client c) ns ctx i) x))"
    and "quiet ctrs cdc dir uid x (snd (on_daemon (tsk_Kill (rc_client c) ns ctx i sg) x))"
    and "quiet ctrs cdc dir uid x (snd (on_daemon (tsk_Delete (rc_client c) ns ctx i) x))"
    and "quiet ctrs cdc dir uid x (snd (on_daemon (tsk_await (rc_client c) ns ctx i) x))"
  using documented(1) [OF assms] unfolding quiet_calls_def by (auto intro: on_daemon_quiet)

lemma get_quiet:
  assumes "fs_runtime c ctrs cdc dir" and "plain uid"
  shows "quiet ctrs cdc dir uid x (snd (Runtime_get c ctx uid x))"
proof -
  obtain r y where l: "on_daemon (cd_LoadContainer (rc_client c) (rc_ns c) ctx uid) x = (r, y)" by (metis surj_pair)
  have q: "quiet ctrs cdc dir uid x y" using quiet_on(2) [OF assms(1), of uid x "rc_ns c" ctx uid] l by simp
  show ?thesis
  proof (cases "\<exists>e. r = Err e \<and> errdefs_IsNotFound (rc_errs c) (Some e)")
    case True
    obtain r2 z where d: "ps_Delete (rc_store c) uid y = (r2, z)" by (metis surj_pair)
    from store_Delete [OF assms, of y] d have "quiet ctrs cdc dir uid y z" by simp
    from quiet_trans [OF q this] True l d show ?thesis by (cases r2) (auto simp: Runtime_get_def skipMissing_def)
  next
    case False
    with l q show ?thesis by (cases r) (auto simp: Runtime_get_def)
  qed
qed

lemma Kill_quiet:
  assumes "fs_runtime c ctrs cdc dir" and "plain (task_uid_of t)"
  shows "quiet ctrs cdc dir (task_uid_of t) x (snd (Runtime_Kill c ctx t x))"
  unfolding Runtime_Kill_def Let_def
  by (intro when_missing_quiet andThen_quiet get_quiet [OF assms] quiet_on [OF assms(1)]) (simp_all split: wait_end.split)

text \<open>A container that is reported missing is, and one that was found is there.\<close>

lemma get_result:
  assumes "fs_runtime c ctrs cdc dir" and "Runtime_get c ctx uid x = (r, x')"
  shows "(r = Ok () \<longrightarrow> ctrs_of c ctrs x uid \<noteq> None) \<and> (\<forall>e. r = Err e \<longrightarrow> errdefs_IsNotFound (rc_errs c) (Some e) \<longrightarrow> ctrs_of c ctrs x uid = None)"
proof -
  obtain r1 y where l: "on_daemon (cd_LoadContainer (rc_client c) (rc_ns c) ctx uid) x = (r1, y)" by (metis surj_pair)
  then have f: "fst (cd_LoadContainer (rc_client c) (rc_ns c) ctx uid (snd (snd x))) = r1" by (simp add: on_daemon_eq)
  show ?thesis
  proof (cases r1)
    case (Err e)
    show ?thesis
    proof (cases "errdefs_IsNotFound (rc_errs c) (Some e)")
      case True
      have "r \<noteq> Ok ()" using assms(2) l Err True
        by (cases "ps_Delete (rc_store c) uid y"; cases "fst (ps_Delete (rc_store c) uid y)") (auto simp: Runtime_get_def skipMissing_def split: if_splits)
      with documented(4) [OF assms(1) f [unfolded Err] True] show ?thesis by simp
    next
      case False
      with assms(2) l Err show ?thesis by (auto simp: Runtime_get_def)
    qed
  qed (use assms(2) l f documented(3) [OF assms(1)] in \<open>auto simp: Runtime_get_def\<close>)
qed

lemma remove_container_ok:
  assumes "fs_runtime c ctrs cdc dir" and "plain uid" and "remove_container c ctx uid b x = (Ok (), x')"
  shows "ctrs (snd (snd x')) = (ctrs (snd (snd x)))(rc_ns c := (ctrs_of c ctrs x)(uid := None)) \<and> stores_kept cdc dir uid x x'"
proof -
  let ?x = "close_ios uid x"
  have io: "snd (snd ?x) = snd (snd x)" "fst ?x = fst x" by (cases x; simp add: close_ios_def)+
  let ?p = "if b then on_daemon (tsk_Delete (rc_client c) (rc_ns c) ctx uid) ?x else (Ok (), ?x)"
  let ?del = "ctr_Delete (rc_client c) (rc_ns c) ctx uid"
  from assms(3) obtain y where y: "?p = (Ok (), y)"
    and z: "(case on_daemon ?del y of
        (Err e, z) \<Rightarrow> (Err (Errorf (''error deleting container and its tasks: '' @ err_text (rc_errs c) e)), z)
      | (Panic m, z) \<Rightarrow> (Panic m, z) | (Ok _, z) \<Rightarrow> ps_Delete (rc_store c) uid z) = (Ok (), x')"
    by (auto simp: remove_container_def Let_def andThen_eq_Ok)
  have q: "quiet ctrs cdc dir uid ?x y"
    using quiet_on(8) [OF assms(1), of uid ?x "rc_ns c" ctx uid] y by (cases b) auto
  from z have ok: "fst (?del (snd (snd y))) = Ok ()" and l: "ps_Delete (rc_store c) uid (snd (on_daemon ?del y)) = (Ok (), x')"
    by (auto simp: on_daemon_eq split: result.splits)
  from store_Delete [OF assms(1,2), of "snd (on_daemon ?del y)"] l have d: "quiet ctrs cdc dir uid (snd (on_daemon ?del y)) x'" by simp
  with documented(6) [OF assms(1) ok] q io have "ctrs (snd (snd x')) = (ctrs (snd (snd x)))(rc_ns c := (ctrs_of c ctrs x)(uid := None))"
    by (simp add: quiet_def on_daemon_eq)
  moreover have "stores_kept cdc dir uid x x'"
    using q d io by (simp add: quiet_def stores_kept_def on_daemon_eq)
  ultimately show ?thesis ..
qed

lemma when_missing_Ok:
  assumes "when_missing c p f g = (Ok v, s')"
  obtains (missing) e s where "p = (Err e, s)" "errdefs_IsNotFound (rc_errs c) (Some e)" "f s = (Ok v, s')"
    | (there) a s where "p = (Ok a, s)" "g a s = (Ok v, s')"
  using assms by (cases p; cases "fst p") (auto simp: when_missing_def split: if_splits)

lemma Delete_ok:
  assumes "fs_runtime c ctrs cdc dir" and "plain (task_uid_of t)" and "Runtime_Delete c ctx t x = (Ok (), x')"
  shows "ctrs (snd (snd x')) = (ctrs (snd (snd x)))(rc_ns c := (ctrs_of c ctrs x)(task_uid_of t := None)) \<and> stores_kept cdc dir (task_uid_of t) x x'"
proof -
  let ?uid = "task_uid_of t"
  let ?q = "quiet ctrs cdc dir ?uid"
  have removed: ?thesis if "?q x y" "remove_container c ctx ?uid b y = (Ok (), x')" for y b
    using remove_container_ok [OF assms(1,2) that(2)] that(1) stores_kept_trans [of cdc dir ?uid x y x'] by (simp add: quiet_def)
  from assms(3) [unfolded Runtime_Delete_def Let_def] show ?thesis
  proof (cases rule: when_missing_Ok)
    case (missing e s)
    with get_quiet [OF assms(1,2), of x ctx] get_result [OF assms(1) missing(1)] show ?thesis by (auto simp: quiet_def fun_eq_iff)
  next
    case (there a x1)
    have q1: "?q x x1" using get_quiet [OF assms(1,2), of x ctx] there(1) by simp
    from there(2) show ?thesis
    proof (cases rule: when_missing_Ok)
      case (missing e x2)
      with quiet_on(1) [OF assms(1), of ?uid x1 "rc_ns c" ctx ?uid] quiet_trans [OF q1] have "?q x x2" by simp
      from removed [OF this missing(3)] show ?thesis .
    next
      case (there p x2)
      with quiet_on(1) [OF assms(1), of ?uid x1 "rc_ns c" ctx ?uid] quiet_trans [OF q1] have q2: "?q x x2" by simp
      have q3: "?q x x3" if "Runtime_Kill c ctx t x2 = (r, x3)" for r x3
        using Kill_quiet [OF assms(1,2), of x2 ctx] that quiet_trans [OF q2] by simp
      from there(2) show ?thesis by (cases rule: when_missing_Ok) (rule removed, erule q3, assumption)+
    qed
  qed
qed

lemma Get_missing:
  assumes "fs_runtime c ctrs cdc dir" and "ctrs_of c ctrs x uid = None"
  shows "fst (Runtime_Get c ctx uid x) \<noteq> Ok t"
proof -
  obtain r x1 where g: "Runtime_get c ctx uid x = (r, x1)" by (metis surj_pair)
  with get_result [OF assms(1) g] assms(2) show ?thesis by (cases r) (auto simp: Runtime_Get_def)
qed

lemma Get_there:
  assumes "fs_runtime c ctrs cdc dir" and "dir_inv dir (fst x)" and "plain uid" and "ctrs_of c ctrs x uid \<noteq> None"
    and "msg_view cdc dir (fst x) uid = Some t" and "fs_fault (fst x) OpRead (locate (fst x) dir @ [uid]) = None" and "Runtime_Get c ctx uid x = (r, x')"
  shows "r = Ok t \<or> (\<exists>e. r = Err e \<and> \<not> errdefs_IsNotFound (rc_errs c) (Some e))"
proof -
  let ?load = "on_daemon (cd_LoadContainer (rc_client c) (rc_ns c) ctx uid) x"
  obtain r1 y where l: "?load = (r1, y)" by (metis surj_pair)
  then have f: "fst (cd_LoadContainer (rc_client c) (rc_ns c) ctx uid (snd (snd x))) = r1" and y: "fst y = fst x" by (auto simp: on_daemon_eq)
  from assms(5) obtain b where b: "dir_view dir (fst x) uid = Some b" "proto_Unmarshal cdc b = Ok t" by (auto simp: msg_view_iff)
  with dir_ReadFile [OF assms(2,3), of b] assms(6) have "os_ReadFile (path_Join [dir, uid]) (fst x) = Ok b" by simp
  with b have ld: "fsProtoStore_Load cdc dir uid (fst x) = Ok t" by (simp add: fsProtoStore_Load_def)
  show ?thesis
  proof (cases r1)
    case (Err e)
    with documented(4) [OF assms(1), of "rc_ns c" ctx uid "snd (snd x)" e] f assms(4) have "\<not> errdefs_IsNotFound (rc_errs c) (Some e)" by auto
    with Err l assms(7) show ?thesis by (auto simp: Runtime_Get_def Runtime_get_def)
  qed (use assms(7) l ld y f documented(7) [OF assms(1)] in \<open>auto simp: Runtime_Get_def Runtime_get_def store_Load [OF assms(1)]\<close>)
qed

text \<open>The labels given to a run come through unless they are the program's own.\<close>

lemma container_labels:
  assumes "distinct (map fst ls)" and "take 6 k \<noteq> ''voiyd/''"
  shows "map_of (withContainerLabels c (run_labels ls t) t) k =
    (case map_of ls k of Some v \<Rightarrow> Some v
     | None \<Rightarrow> if k = ''voiyd.io/uid'' then Some (task_uid_of t) else if k = ''voiyd.io/name'' then Some (task_name_of t) else None)"
proof -
  have "k \<noteq> ''voiyd/revision''" "k \<noteq> ''voiyd/created''" "k \<noteq> ''voiyd/updated''" "k \<noteq> ''voiyd/uid''"
    "k \<noteq> ''voiyd/name''" "k \<noteq> ''voiyd/namespace''" "k \<noteq> ''voiyd/ports''" using assms(2) by force+
  then have "map_of (withContainerLabels c (run_labels ls t) t) k = map_of (run_labels ls t) k"
    by (simp add: withContainerLabels_def Let_def Label_Set_def)
  then show ?thesis using assms(1) by (simp add: run_labels_def map_of_AppendMap Label_Set_def split: option.split)
qed

text \<open>The steps of a run that succeeded, and what they leave alone.\<close>

lemma Run_steps:
  assumes "fs_runtime c ctrs cdc dir" and "Runtime_Run c ctx t [WithContainerdLabels ls] x = (Ok (), x')"
  obtains x1 x2 x3 x4 where "quiet ctrs cdc dir (task_uid_of t) x x1" "fst x2 = fst x1" "ctrs_of c ctrs x1 (task_uid_of t) = None"
    "ctrs (snd (snd x2)) = (ctrs (snd (snd x1)))(rc_ns c := (ctrs_of c ctrs x1)(task_uid_of t \<mapsto> withContainerLabels c (run_labels ls t) t))"
    "quiet ctrs cdc dir (task_uid_of t) x2 x3" "ps_Save (rc_store c) (task_uid_of t) (with_protocols t) x3 = (Ok (), x4)"
    "snd x4 = snd x3" "quiet ctrs cdc dir (task_uid_of t) x4 x'" "fst x' = fst x4"
proof -
  let ?uid = "task_uid_of t" and ?cl = "rc_client c" and ?ns = "rc_ns c"
  let ?q = "quiet ctrs cdc dir ?uid"
  let ?x = "(fst x, (fst (snd x))\<lparr>rs_appendLabels := ls\<rparr>, snd (snd x))"
  let ?new = "\<lambda>img. cd_NewContainer ?cl ?ns ctx ?uid \<lparr>nc_Image = img, nc_Snapshot = ?uid @ ''-snapshot'', nc_Spec = spec_opts t img,
      nc_Labels = withContainerLabels c (run_labels ls t) t\<rparr>"
  from assms(2) obtain img x1 x2 x3 x4 where
    s: "on_daemon (cd_GetImage ?cl ?ns ctx (tc_Image (task_config t))) ?x = (Ok img, x1)" "on_daemon (?new img) x1 = (Ok (), x2)"
      "on_daemon (ctr_NewTask ?cl ?ns ctx ?uid (log_file c ?uid)) x2 = (Ok (), x3)"
      "ps_Save (rc_store c) ?uid (with_protocols t) x3 = (Ok (), x4)" "on_daemon (tsk_Start ?cl ?ns ctx ?uid) x4 = (Ok (), x')"
    by (cases x) (auto simp: Runtime_Run_def Let_def andThen_eq_Ok)
  have "?q ?x x1" using quiet_on(3) [OF assms(1), of ?uid ?x ?ns ctx "tc_Image (task_config t)"] s(1) by simp
  then have q1: "?q x x1" by (simp add: quiet_def stores_kept_def)
  have q3: "?q x2 x3" using quiet_on(4) [OF assms(1), of ?uid x2 ?ns ctx ?uid "log_file c ?uid"] s(3) by simp
  have q5: "?q x4 x'" using quiet_on(5) [OF assms(1), of ?uid x4 ?ns ctx ?uid] s(5) by simp
  from s(2) have new: "fst (?new img (snd (snd x1))) = Ok ()" and x2: "x2 = (fst x1, fst (snd x1), snd (?new img (snd (snd x1))))" by (simp_all add: on_daemon_eq)
  from documented(5) [OF assms(1) new] have n: "ctrs_of c ctrs x1 ?uid = None"
    "ctrs (snd (snd x2)) = (ctrs (snd (snd x1)))(?ns := (ctrs_of c ctrs x1)(?uid \<mapsto> withContainerLabels c (run_labels ls t) t))"
    by (simp_all add: x2)
  have f: "fst x2 = fst x1" "fst x' = fst x4" using s(5) by (auto simp: x2 on_daemon_eq)
  have "snd x4 = snd x3" using s(4) by (simp add: fs_runtime_store(1) [OF assms(1)] fs_task_store_def on_files_eq)
  from that [OF q1 f(1) n q3 s(4) this q5 f(2)] show thesis .
qed

lemma Run_ctrs:
  assumes "fs_runtime c ctrs cdc dir" and "Runtime_Run c ctx t [WithContainerdLabels ls] x = (Ok (), x')"
  shows "ctrs_of c ctrs x (task_uid_of t) = None
    \<and> ctrs (snd (snd x')) = (ctrs (snd (snd x)))(rc_ns c := (ctrs_of c ctrs x)(task_uid_of t \<mapsto> withContainerLabels c (run_labels ls t) t))"
  by (rule Run_steps [OF assms]) (simp add: quiet_def)

lemma Run_store:
  assumes "fs_runtime c ctrs cdc dir" and "plain (task_uid_of t)" and "marshals cdc (with_protocols t)"
    and "Runtime_Run c ctx t [WithContainerdLabels ls] x = (Ok (), x')"
  shows "stores_kept cdc dir (task_uid_of t) x x' \<and> (dir_inv dir (fst x) \<longrightarrow> msg_view cdc dir (fst x') (task_uid_of t) = Some (with_protocols t))"
  by (rule Run_steps [OF assms(1,4)], drule store_Save [OF assms(1-3)]) (simp add: quiet_def stores_kept_def)

section \<open>Properties\<close>


text \<open>A containerd that keeps containers in a table; creating a task fails if \<open>broken\<close>.\<close>

type_synonym daemon = "(string \<times> string, label) gomap"

definition no_container :: error where
  "no_container = Foreign ''errdefs: not found''"

definition sample_client :: "bool \<Rightarrow> daemon containerd" where
  "sample_client broken = \<lparr>
     cd_Version = (\<lambda>_ d. (Ok ''2.0'', d)),
     cd_Containers = (\<lambda>ns _ _ d. (Ok (map (snd \<circ> fst) (filter (\<lambda>k. fst (fst k) = ns) d)), d)),
     cd_LoadContainer = (\<lambda>ns _ i d. (case map_of d (ns, i) of None \<Rightarrow> Err no_container | Some _ \<Rightarrow> Ok (), d)),
     cd_NewContainer = (\<lambda>ns _ i n d. case map_of d (ns, i) of Some _ \<Rightarrow> (Err (Foreign ''already exists''), d) | None \<Rightarrow> (Ok (), AList.update (ns, i) (nc_Labels n) d)),
     cd_Pull = (\<lambda>_ _ _ d. (Ok (), d)), cd_GetImage = (\<lambda>_ _ i d. (Ok i, d)),
     ctr_Labels = (\<lambda>ns _ i d. (case map_of d (ns, i) of None \<Rightarrow> Err no_container | Some l \<Rightarrow> Ok l, d)),
     ctr_Delete = (\<lambda>ns _ i d. (Ok (), AList.delete (ns, i) d)),
     ctr_Task = (\<lambda>_ _ _ d. (Ok 7, d)),
     ctr_NewTask = (\<lambda>_ _ _ _ d. (if broken then Err (Foreign ''no shim'') else Ok (), d)),
     tsk_Start = (\<lambda>_ _ _ d. (Ok (), d)), tsk_Wait = (\<lambda>_ _ _ d. (Ok (), d)), tsk_Kill = (\<lambda>_ _ _ _ d. (Ok (), d)),
     tsk_Delete = (\<lambda>_ _ _ d. (Ok (), d)), tsk_await = (\<lambda>_ _ _ d. (Ok (WaitExit None), d))\<rparr>"

definition sample_ctrs :: "daemon containers" where
  "sample_ctrs d ns i = map_of d (ns, i)"

definition ran_task :: Task where
  "ran_task = \<lparr>task_Version = ''task/v1'', task_Meta = Some (empty_Meta\<lparr>meta_Name := ''web'', meta_Uid := ''u1''\<rparr>),
     task_Config = Some (empty_TaskConfig\<lparr>tc_Image := ''nginx''\<rparr>), task_Status = None\<rparr>"

definition run_codec :: "Task codec" where
  "run_codec = table_codec [(ran_task, ''T'')]"

definition sample_runtime :: "bool \<Rightarrow> daemon ContainerdRuntime" where
  "sample_runtime broken = \<lparr>rc_client = sample_client broken, rc_ns = ''voiyd'', rc_logDirFmt = ''/log/%s/log'',
     rc_store = fs_task_store run_codec ''/s'', rc_errs = sample_ext, rc_ErrNotFound = no_container,
     rc_json_Marshal = (\<lambda>_. ''[]''), rc_json_Unmarshal = (\<lambda>_. Ok []), rc_time_text = (\<lambda>_. [])\<rparr>"

definition node_start :: "daemon rt_world" where
  "node_start = (no_files\<lparr>fs_nodes := [([''s''], Dir)]\<rparr>, \<lparr>rs_containerIOs = [], rs_appendLabels = []\<rparr>, [])"

lemma sample_documented: "fs_runtime (sample_runtime b) sample_ctrs run_codec ''/s''"
proof -
  have q: "quiet_calls (sample_client b) sample_ctrs" by (simp add: quiet_calls_def leaves_def sample_client_def)
  have "containerd_documented sample_ext no_container (sample_client b) sample_ctrs"
    unfolding containerd_documented_def
    by (intro conjI q) (auto simp: sample_client_def sample_ctrs_def no_container_def sample_ext_def fun_eq_iff delete_conv' split: option.splits)
  moreover have "codec_roundtrip run_codec" unfolding run_codec_def by (rule table_codec_roundtrip) simp
  ultimately show ?thesis by (simp add: fs_runtime_def sample_runtime_def decodes_def run_codec_def table_codec_def split: option.split)
qed

lemma node_start_store: "dir_inv ''/s'' (fst node_start)"
proof -
  have "tree_ok (no_files\<lparr>fs_nodes := [([''s''], Dir)]\<rparr>)" by (rule tree_okI) (auto simp: node_at_def split: if_splits)
  moreover have "locate (no_files\<lparr>fs_nodes := [([''s''], Dir)]\<rparr>) ''/s'' = [''s'']" by (simp add: locate_def rooted_def)
  ultimately show ?thesis by (simp add: dir_inv_def node_start_def rooted_def node_at_def)
qed

lemma ran_task_simps: "task_uid_of ran_task = ''u1''" "with_protocols ran_task = ran_task" "plain ''u1''" "marshals run_codec ran_task"
  by (simp_all add: ran_task_def getMeta_def with_protocols_def ParseCNIPortMappings_def empty_TaskConfig_def plain_def
        marshals_def run_codec_def table_codec_def)

definition web_ran :: "unit res \<times> daemon rt_world" where
  "web_ran = Runtime_Run (sample_runtime False) None ran_task [WithContainerdLabels [(''voiyd.io/epoch'', ''3'')]] node_start"

lemma web_ran_ok: "fst web_ran = Ok ()"
  by code_simp


text \<open>
  Deleting a task removes it. After a successful delete there is no container of the task, whether there was one
  before or not, looking it up gives no task, and every other container and stored task is as it was.
\<close>

theorem runtime_delete_removes:
  assumes "fs_runtime c ctrs cdc dir" and "dir_inv dir (fst x)" and "plain (task_uid_of t)"
    and "Runtime_Delete c ctx t x = (Ok (), x')"
  shows "ctrs_of c ctrs x' (task_uid_of t) = None \<and> (\<forall>ctx' t'. fst (Runtime_Get c ctx' (task_uid_of t) x') \<noteq> Ok t')
    \<and> (\<forall>j. j \<noteq> task_uid_of t \<longrightarrow> ctrs_of c ctrs x' j = ctrs_of c ctrs x j)
    \<and> (\<forall>j. plain j \<longrightarrow> j \<noteq> task_uid_of t \<longrightarrow> msg_view cdc dir (fst x') j = msg_view cdc dir (fst x) j)"
proof -
  note D = Delete_ok [OF assms(1,3,4)]
  then have "ctrs_of c ctrs x' (task_uid_of t) = None" by simp
  with Get_missing [OF assms(1)] D assms(2) show ?thesis by (simp add: stores_kept_def)
qed

theorem runtime_delete_removes_witness:
  "\<exists>x'. Runtime_Delete (sample_runtime False) None ran_task (snd web_ran) = (Ok (), x') \<and> sample_ctrs (snd (snd x')) ''voiyd'' ''u1'' = None"
proof -
  have "fst (Runtime_Delete (sample_runtime False) None ran_task (snd web_ran)) = Ok ()" by code_simp
  then obtain x' where d: "Runtime_Delete (sample_runtime False) None ran_task (snd web_ran) = (Ok (), x')" by (metis prod.collapse)
  have u: "plain (task_uid_of ran_task)" "marshals run_codec (with_protocols ran_task)" by (simp_all add: ran_task_simps)
  have "dir_inv ''/s'' (fst (snd web_ran))"
    using Run_store [OF sample_documented u, of False None _ node_start "snd web_ran"] web_ran_ok node_start_store
    unfolding web_ran_def stores_kept_def by (metis prod.collapse)
  from runtime_delete_removes [OF sample_documented this u(1) d] d show ?thesis by (auto simp: ran_task_simps sample_runtime_def)
qed

text \<open>
  A run that fails after it created the container leaves it behind without a stored task. From then on listing fails for all
  tasks of the node, and with it the renewal of their leases.
\<close>

theorem runtime_half_started:
  "(case Runtime_Run (sample_runtime True) None ran_task [] node_start of
      (r, x) \<Rightarrow> r = Err (Foreign ''no shim'') \<and> fst (Runtime_List (sample_runtime True) None [] x) = Err (not_exist ''/s/u1''))"
  by code_simp

end
