(* ===== verification/CNI.thy ===== *)
theory CNI
  imports Containerd
begin

text \<open>
  The network manager of a node, pkg/networking/cni.go, on the go-cni library. The library is the record
  \<open>gocni\<close> of functions on the state outside the program; its options are values.
\<close>

section \<open>The manager\<close>

datatype cni_opt =
    WithMinNetworkCount nat | WithPluginConfDir string | WithPluginDir "string list" | WithInterfacePrefix string
  | WithLoNetwork | WithConfListBytes bytes | OtherOpt string

type_synonym cni_ns_opt = "cni_PortMapping list option"

record 'd gocni =
  gocni_New :: "cni_opt list \<Rightarrow> 'd \<Rightarrow> unit res \<times> 'd"
  gocni_Load :: "cni_opt list \<Rightarrow> 'd \<Rightarrow> unit res \<times> 'd"
  gocni_Setup :: "ctx \<Rightarrow> string \<Rightarrow> string \<Rightarrow> cni_ns_opt \<Rightarrow> 'd \<Rightarrow> cni_Result res \<times> 'd"
  gocni_Remove :: "ctx \<Rightarrow> string \<Rightarrow> string \<Rightarrow> cni_ns_opt \<Rightarrow> 'd \<Rightarrow> unit res \<times> 'd"
  gocni_Check :: "ctx \<Rightarrow> string \<Rightarrow> string \<Rightarrow> cni_ns_opt \<Rightarrow> 'd \<Rightarrow> unit res \<times> 'd"

record CNIManager =
  cm_cniOpts :: "cni_opt list"
  cm_cniNsOpts :: "cni_ns_opt list"
  cm_CNIBinDir :: string
  cm_CNIConfDir :: string
  cm_NetNSPathFmt :: string
  cm_CNIDataDir :: string
  cm_DefaultCNIConfFilename :: string
  cm_DefaultNetworkName :: string
  cm_DefaultBridgeName :: string
  cm_DefaultSubnet :: string
  cm_DefaultSubnetGw :: string
  cm_DefaultIfPrefix :: string
  cm_DefaultCNIConf :: string

datatype CNIManagerOpts =
    WithNamespaceOpts "cni_ns_opt list" | WithCNIOpt "cni_opt list" | WithCNIBinDir string | WithCNIConfDir string
  | WithNetNSPathFmt string | WithCNIDataDir string | WithDefaultCNIConfFilename string | WithDefaultNetworkName string
  | WithDefaultBridgeName string | WithDefaultSubnet string | WithDefaultIfPrefix string | WithDefaultCNIConf string

fun apply_cni_opt :: "CNIManagerOpts \<Rightarrow> CNIManager \<Rightarrow> CNIManager" where
  "apply_cni_opt (WithNamespaceOpts opts) m = m\<lparr>cm_cniNsOpts := cm_cniNsOpts m @ opts\<rparr>"
| "apply_cni_opt (WithCNIOpt opt) m = m\<lparr>cm_cniOpts := cm_cniOpts m @ opt\<rparr>"
| "apply_cni_opt (WithCNIBinDir s) m = m\<lparr>cm_CNIBinDir := s\<rparr>"
| "apply_cni_opt (WithCNIConfDir s) m = m\<lparr>cm_CNIConfDir := s\<rparr>"
| "apply_cni_opt (WithNetNSPathFmt s) m = m\<lparr>cm_NetNSPathFmt := s\<rparr>"
| "apply_cni_opt (WithCNIDataDir s) m = m\<lparr>cm_CNIDataDir := s\<rparr>"
| "apply_cni_opt (WithDefaultCNIConfFilename s) m = m\<lparr>cm_DefaultCNIConfFilename := s\<rparr>"
| "apply_cni_opt (WithDefaultNetworkName s) m = m\<lparr>cm_DefaultNetworkName := s\<rparr>"
| "apply_cni_opt (WithDefaultBridgeName s) m = m\<lparr>cm_DefaultBridgeName := s\<rparr>"
| "apply_cni_opt (WithDefaultSubnet s) m = m\<lparr>cm_DefaultSubnet := s\<rparr>"
| "apply_cni_opt (WithDefaultIfPrefix s) m = m\<lparr>cm_DefaultIfPrefix := s\<rparr>"
| "apply_cni_opt (WithDefaultCNIConf s) m = m\<lparr>cm_DefaultCNIConf := s\<rparr>"

text \<open>\<^verbatim>\<open>fmt.Sprintf\<close> with one \<^verbatim>\<open>%d\<close>.\<close>

fun Sprintf_d :: "string \<Rightarrow> nat \<Rightarrow> string" where
  "Sprintf_d [] n = []"
| "Sprintf_d [c] n = [c]"
| "Sprintf_d (c # d # cs) n = (if c = CHR ''%'' \<and> d = CHR ''d'' then format_nat n @ cs else c # Sprintf_d (d # cs) n)"

definition netNamespace :: "CNIManager \<Rightarrow> uint32 \<Rightarrow> string" where
  "netNamespace m pid = Sprintf_d (cm_NetNSPathFmt m) (unat pid)"

definition CNIManager_Attach :: "'d gocni \<Rightarrow> CNIManager \<Rightarrow> ctx \<Rightarrow> string \<Rightarrow> uint32 \<Rightarrow> cni_ns_opt \<Rightarrow> 'd \<Rightarrow> cni_Result res \<times> 'd" where
  "CNIManager_Attach g m ctx i pid opts d = gocni_Setup g ctx i (netNamespace m pid) opts d"

definition CNIManager_Check :: "'d gocni \<Rightarrow> CNIManager \<Rightarrow> ctx \<Rightarrow> string \<Rightarrow> uint32 \<Rightarrow> cni_ns_opt \<Rightarrow> 'd \<Rightarrow> unit res \<times> 'd" where
  "CNIManager_Check g m ctx i pid opts d = gocni_Check g ctx i (netNamespace m pid) opts d"

definition CNIManager_Detach :: "'d gocni \<Rightarrow> CNIManager \<Rightarrow> ctx \<Rightarrow> string \<Rightarrow> uint32 \<Rightarrow> cni_ns_opt \<Rightarrow> 'd \<Rightarrow> unit res \<times> 'd" where
  "CNIManager_Detach g m ctx i pid opts d = gocni_Remove g ctx i (netNamespace m pid) opts d"

text \<open>The manager as the node controller uses it.\<close>

definition cni_NetManager :: "'d gocni \<Rightarrow> CNIManager \<Rightarrow> 'd rt_world NetManager" where
  "cni_NetManager g m = \<lparr>
     nm_Attach = (\<lambda>ctx i pid ports. on_daemon (CNIManager_Attach g m ctx i pid (Some ports))),
     nm_Detach = (\<lambda>ctx i pid ports. on_daemon (CNIManager_Detach g m ctx i pid ports))\<rparr>"

section \<open>Setting it up\<close>

abbreviation sq :: "string \<Rightarrow> string" where
  "sq s \<equiv> CHR 0x27 # s @ [CHR 0x27]"

abbreviation dq :: string where
  "dq \<equiv> [CHR 0x22]"

abbreviation nl :: string where
  "nl \<equiv> [CHR 0x0A]"

definition default_conf :: "string \<Rightarrow> string \<Rightarrow> string \<Rightarrow> string \<Rightarrow> string \<Rightarrow> string" where
  "default_conf name bridge dataDir subnet gateway = concat [
     nl,
     ''{'', nl,
     ''  '', dq, ''cniVersion'', dq, '': '', dq, ''1.0.0'', dq, '','', nl,
     ''  '', dq, ''name'', dq, '': '', dq, name, dq, '','', nl,
     ''  '', dq, ''plugins'', dq, '': ['', nl,
     ''    {'', nl,
     ''      '', dq, ''type'', dq, '': '', dq, ''bridge'', dq, '','', nl,
     ''      '', dq, ''bridge'', dq, '': '', dq, bridge, dq, '','', nl,
     ''      '', dq, ''isGateway'', dq, '': true,'', nl,
     ''      '', dq, ''ipMasq'', dq, '': true,'', nl,
     ''      '', dq, ''hairpinMode'', dq, '': true,'', nl,
     ''      '', dq, ''ipam'', dq, '': {'', nl,
     ''        '', dq, ''dataDir'', dq, '': '', dq, dataDir, dq, '','', nl,
     ''        '', dq, ''ranges'', dq, '': ['', nl,
     ''          ['', nl,
     ''            {'', nl,
     ''              '', dq, ''subnet'', dq, '': '', dq, subnet, dq, '','', nl,
     ''              '', dq, ''gateway'', dq, '': '', dq, gateway, dq, nl,
     ''            }'', nl,
     ''          ]'', nl,
     ''        ],'', nl,
     ''        '', dq, ''routes'', dq, '': ['', nl,
     ''          {'', nl,
     ''            '', dq, ''dst'', dq, '': '', dq, ''0.0.0.0/0'', dq, nl,
     ''          }'', nl,
     ''        ],'', nl,
     ''        '', dq, ''type'', dq, '': '', dq, ''host-local'', dq, nl,
     ''      }'', nl,
     ''    },'', nl,
     ''    {'', nl,
     ''      '', dq, ''type'', dq, '': '', dq, ''portmap'', dq, '','', nl,
     ''      '', dq, ''capabilities'', dq, '': {'', nl,
     ''        '', dq, ''portMappings'', dq, '': true'', nl,
     ''      }'', nl,
     ''    },'', nl,
     ''    {'', nl,
     ''      '', dq, ''type'', dq, '': '', dq, ''firewall'', dq, '','', nl,
     ''      '', dq, ''ingressPolicy'', dq, '': '', dq, ''same-bridge'', dq, nl,
     ''    },'', nl,
     ''    {'', nl,
     ''      '', dq, ''type'', dq, '': '', dq, ''tuning'', dq, nl,
     ''    }'', nl,
     ''  ]'', nl,
     ''}'', nl]"

definition default_manager :: CNIManager where
  "default_manager = \<lparr>cm_cniOpts = [], cm_cniNsOpts = [], cm_CNIBinDir = ''/opt/cni/bin'', cm_CNIConfDir = ''/etc/cni/net.d'',
     cm_NetNSPathFmt = ''/proc/%d/ns/net'', cm_CNIDataDir = ''/var/lib/cni/'', cm_DefaultCNIConfFilename = ''10-voiyd.conflist'',
     cm_DefaultNetworkName = ''bridge'', cm_DefaultBridgeName = ''voiyd0'', cm_DefaultSubnet = ''10.69.0.0/16'',
     cm_DefaultSubnetGw = ''10.69.0.1'', cm_DefaultIfPrefix = ''eth'',
     cm_DefaultCNIConf = default_conf ''bridge'' ''voiyd0'' ''/var/lib/cni/'' ''10.69.0.0/16'' ''10.69.0.1''\<rparr>"

definition ensure_conf_dir :: "string \<Rightarrow> files \<Rightarrow> unit res \<times> files" where
  "ensure_conf_dir dir fs =
     (case os_Stat dir fs of
        Panic m \<Rightarrow> (Panic m, fs)
      | Err e \<Rightarrow> if \<not> os_IsNotExist e then wrap_err (''cannot create directory: '' @ sq dir @ ''. error'') (os_MkdirAll dir fs) else (Ok (), fs)
      | Ok _ \<Rightarrow> wrap_err (''cannot create directory: '' @ sq dir @ ''. error'') (os_MkdirAll dir fs))"

definition NewCNIManager :: "'d gocni \<Rightarrow> CNIManagerOpts list \<Rightarrow> 'd rt_world \<Rightarrow> CNIManager res \<times> 'd rt_world" where
  "NewCNIManager g opts x =
     (let m = fold apply_cni_opt opts default_manager;
          newOpts = [WithMinNetworkCount 2, WithPluginConfDir (cm_CNIConfDir m), WithPluginDir [cm_CNIBinDir m],
                     WithInterfacePrefix (cm_DefaultIfPrefix m)] @ cm_cniOpts m;
          netconfig = path_Join [cm_CNIConfDir m, cm_DefaultCNIConfFilename m]
      in andThen (on_files (ensure_conf_dir (cm_CNIConfDir m)) x) (\<lambda>_ x.
         andThen (wrap_err (''cannot write network config: '' @ sq (cm_DefaultCNIConfFilename m) @ ''. error'') (on_files (os_WriteFile netconfig (cm_DefaultCNIConf m)) x)) (\<lambda>_ x.
         andThen (wrap_err ''error initializing cni'' (on_daemon (gocni_New g newOpts) x)) (\<lambda>_ x.
         andThen (wrap_err ''failed to load cni configuration''
             (on_daemon (gocni_Load g [WithLoNetwork, WithConfListBytes (cm_DefaultCNIConf m)]) x)) (\<lambda>_ x.
         (Ok m, x))))))"

section \<open>What setting up does\<close>

text \<open>The options that name the network, its bridge, its subnet or its data do not reach the configuration.\<close>

fun names_network :: "CNIManagerOpts \<Rightarrow> bool" where
  "names_network (WithDefaultNetworkName s) = True"
| "names_network (WithDefaultBridgeName s) = True"
| "names_network (WithDefaultSubnet s) = True"
| "names_network (WithCNIDataDir s) = True"
| "names_network _ = False"

theorem cni_options_ignored:
  assumes "\<forall>opt \<in> set opts. names_network opt"
  shows "cm_DefaultCNIConf (fold apply_cni_opt opts default_manager) = cm_DefaultCNIConf default_manager"
proof -
  have "cm_DefaultCNIConf (fold apply_cni_opt opts m) = cm_DefaultCNIConf m" for m
    using assms
  proof (induction opts arbitrary: m)
    case (Cons opt opts)
    then show ?case by (cases opt) simp_all
  qed simp
  then show ?thesis .
qed

text \<open>
  The directory of the configuration is made only if it is there: where it is missing, the manager cannot be set up.
\<close>

theorem cni_missing_dir:
  assumes "tree_ok (fst x)" and "m = fold apply_cni_opt opts default_manager" and "rooted (cm_CNIConfDir m)" and "plain (cm_DefaultCNIConfFilename m)"
    and "node_at (fst x) (locate (fst x) (cm_CNIConfDir m)) = None" and "os_Stat (cm_CNIConfDir m) (fst x) = Err e0" and "os_IsNotExist e0"
  shows "\<exists>e. NewCNIManager g opts x = (Err e, x)"
proof -
  let ?p = "path_Join [cm_CNIConfDir m, cm_DefaultCNIConfFilename m]"
  have "locate (fst x) ?p = locate (fst x) (cm_CNIConfDir m) @ [cm_DefaultCNIConfFilename m]" by (rule locate_Join_plain [OF assms(3,4)])
  with assms(5) have d: "node_at (fst x) (butlast (locate (fst x) ?p)) \<noteq> Some Dir" by simp
  obtain r fs' where c: "os_Create ?p (fst x) = (r, fs')" by (metis surj_pair)
  from Create_ok [OF assms(1) c] d obtain e where "r = Err e" "fs' = fst x" by auto
  with c have "on_files (os_WriteFile ?p (cm_DefaultCNIConf m)) x = (Err e, x)" by (cases x) (simp add: on_files_def os_WriteFile_def)
  moreover have "on_files (ensure_conf_dir (cm_CNIConfDir m)) x = (Ok (), x)" using assms(6,7) by (cases x) (simp add: on_files_def ensure_conf_dir_def)
  ultimately show ?thesis using assms(2) by (auto simp: NewCNIManager_def Let_def wrap_err_def)
qed

text \<open>Where it succeeds, the configuration is on disk and the library was set up with it.\<close>

theorem cni_config_written:
  assumes "tree_ok (fst x)" and "NewCNIManager g opts x = (Ok m, x')" and "p = path_Join [cm_CNIConfDir m, cm_DefaultCNIConfFilename m]"
  shows "m = fold apply_cni_opt opts default_manager \<and> node_at (fst x') (locate (fst x') p) = Some (File (cm_DefaultCNIConf m))"
proof -
  let ?m = "fold apply_cni_opt opts default_manager"
  let ?p = "path_Join [cm_CNIConfDir ?m, cm_DefaultCNIConfFilename ?m]"
  from assms(2) obtain x1 x2 x3 where s: "on_files (ensure_conf_dir (cm_CNIConfDir ?m)) x = (Ok (), x1)"
      "on_files (os_WriteFile ?p (cm_DefaultCNIConf ?m)) x1 = (Ok (), x2)" "fst x3 = fst x2" "fst x' = fst x3" and m: "m = ?m"
    by (auto simp: NewCNIManager_def Let_def andThen_eq_Ok wrap_err_Ok on_daemon_eq)
  from s(1) have "ensure_conf_dir (cm_CNIConfDir ?m) (fst x) = (Ok (), fst x1)" by (simp add: on_files_eq)
  then have t: "tree_ok (fst x1)" using assms(1) MkdirAll_ok [OF assms(1)]
    by (auto simp: ensure_conf_dir_def wrap_err_Ok split: result.splits if_splits)
  from s(2) have "os_WriteFile ?p (cm_DefaultCNIConf ?m) (fst x1) = (Ok (), fst x2)" by (simp add: on_files_eq)
  from WriteFile_ok [OF t this] have n: "node_at (fst x2) (locate (fst x1) ?p) = Some (File (cm_DefaultCNIConf ?m))"
    and e: "fs_env (fst x2) = fs_env (fst x1)" by (simp_all add: writes_file_def)
  from n s(3,4) show ?thesis unfolding assms(3) m fs_envD(1) [OF e, symmetric] by simp
qed

end
