(* ===== verification/NodeRuntime.thy ===== *)
theory NodeRuntime
  imports AgentProps CNI
begin

text \<open>
  A node put together: the node controller on the containerd runtime, the CNI manager and the
  volume attacher. A task that was started has a container, and the container carries the
  fencing token of the lease the node holds.
\<close>

section \<open>Views of the world the controller leaves alone\<close>

definition same_view :: "('x \<Rightarrow> 'c) \<Rightarrow> 'c \<Rightarrow> 'a res \<times> 'x agent_state \<Rightarrow> bool" where
  "same_view v a p \<longleftrightarrow> v (as_world (snd p)) = a"

named_theorems same_intros

lemma same_view_pair [simp]: "same_view v a (r, s) \<longleftrightarrow> v (as_world s) = a"
  by (simp add: same_view_def)

lemma leavesD: "leaves v f \<Longrightarrow> v (snd (f x)) = v x"
  unfolding leaves_def by blast

lemma same_env_call [same_intros]: "v (as_world s) = a \<Longrightarrow> leaves v f \<Longrightarrow> same_view v a (env_call f s)"
  using leavesD [of v f "as_world s"] by (cases "f (as_world s)") (simp add: env_call_def)

lemma same_andThen [same_intros]:
  "same_view v a p \<Longrightarrow> (\<And>b s. v (as_world s) = a \<Longrightarrow> same_view v a (f b s)) \<Longrightarrow> same_view v a (andThen p f)"
  by (cases p; cases "fst p") auto

lemma same_ignoring [same_intros]:
  "same_view v a p \<Longrightarrow> (\<And>s. v (as_world s) = a \<Longrightarrow> same_view v a (f s)) \<Longrightarrow> same_view v a (ignoring p f)"
  by (cases p; cases "fst p") (auto simp: ignoring_def)

lemma same_task_ports [same_intros]: "v (as_world s) = a \<Longrightarrow> same_view v a (task_ports s)"
  by (auto simp: task_ports_def split: option.splits prod.splits)

text \<open>The publisher, the status of tasks on the server, and the network leave the view alone.\<close>

definition apart :: "('x \<Rightarrow> 'c) \<Rightarrow> 'x Agent \<Rightarrow> bool" where
  "apart v c \<longleftrightarrow>
     (\<forall>rid b rep x. v (ac_publisher c rid b rep x) = v x) \<and>
     (\<forall>ctx i p. leaves v (statusV1_SetPhase (ac_tasks c) ctx i p)) \<and>
     (\<forall>ctx i p. leaves v (statusV1_SetReason (ac_tasks c) ctx i p)) \<and>
     (\<forall>ctx i pid ports. leaves v (nm_Attach (ac_netmanager c) ctx i pid ports)) \<and>
     (\<forall>ctx i. leaves v (rt_Pid (ac_runtime c) ctx i))"

lemma same_tell [simp]: "apart v c \<Longrightarrow> v (as_world (tell c t f s)) = v (as_world s)"
  by (simp add: apart_def tell_def Agent_Report_def)

lemma same_tell_failure [same_intros]:
  "apart v c \<Longrightarrow> same_view v a p \<Longrightarrow> (\<And>b s. v (as_world s) = a \<Longrightarrow> same_view v a (k b s)) \<Longrightarrow> same_view v a (tell_failure c t f p k)"
  by (cases p; cases "fst p") (auto simp: tell_failure_def)

lemma apartD:
  "apart v c \<Longrightarrow> leaves v (statusV1_SetPhase (ac_tasks c) ctx i p)"
  "apart v c \<Longrightarrow> leaves v (statusV1_SetReason (ac_tasks c) ctx i p)"
  "apart v c \<Longrightarrow> leaves v (nm_Attach (ac_netmanager c) ctx i pid ports)"
  "apart v c \<Longrightarrow> leaves v (rt_Pid (ac_runtime c) ctx i)"
  by (simp_all add: apart_def)

lemma attachNetwork_same: "apart v c \<Longrightarrow> v (as_world s) = a \<Longrightarrow> same_view v a (Agent_attachNetwork c ctx s)"
  unfolding Agent_attachNetwork_def Let_def by (intro same_intros apartD) simp_all

text \<open>The task a handler works on keeps its metadata.\<close>

definition same_meta :: "Meta option \<Rightarrow> 'a res \<times> 'x agent_state \<Rightarrow> bool" where
  "same_meta m p \<longleftrightarrow> task_Meta (as_task (snd p)) = m"

named_theorems meta_intros

lemma same_meta_pair [simp]: "same_meta m (r, s) \<longleftrightarrow> task_Meta (as_task s) = m"
  by (simp add: same_meta_def)

lemma meta_env_call [meta_intros]: "task_Meta (as_task s) = m \<Longrightarrow> same_meta m (env_call f s)"
  by (simp add: env_call_def same_meta_def split: prod.split)

lemma meta_andThen [meta_intros]:
  "same_meta m p \<Longrightarrow> (\<And>a s. task_Meta (as_task s) = m \<Longrightarrow> same_meta m (f a s)) \<Longrightarrow> same_meta m (andThen p f)"
  by (cases p; cases "fst p") auto

lemma meta_ignoring [meta_intros]:
  "same_meta m p \<Longrightarrow> (\<And>s. task_Meta (as_task s) = m \<Longrightarrow> same_meta m (f s)) \<Longrightarrow> same_meta m (ignoring p f)"
  by (cases p; cases "fst p") (auto simp: ignoring_def)

lemma meta_tell_failure [meta_intros]:
  "same_meta m p \<Longrightarrow> (\<And>a s. task_Meta (as_task s) = m \<Longrightarrow> same_meta m (k a s)) \<Longrightarrow> same_meta m (tell_failure c t f p k)"
  by (cases p; cases "fst p") (auto simp: tell_failure_def)

lemma meta_task_ports [meta_intros]: "task_Meta (as_task s) = m \<Longrightarrow> same_meta m (task_ports s)"
  by (auto simp: task_ports_def split: option.splits prod.splits)

lemma meta_if [meta_intros]: "same_meta m p \<Longrightarrow> same_meta m q \<Longrightarrow> same_meta m (if b then p else q)"
  by simp

lemma meta_detachNetwork: "task_Meta (as_task s) = m \<Longrightarrow> same_meta m (Agent_detachNetwork c ctx s)"
  unfolding Agent_detachNetwork_def Let_def by (intro meta_intros) simp_all

lemma meta_deleteTask: "task_Meta (as_task s) = m \<Longrightarrow> same_meta m (Agent_deleteTask c ctx s)"
  unfolding Agent_deleteTask_def Let_def by (intro meta_intros) simp_all

text \<open>A successful provisioning has run the task it was given, but for its mounts and ports, and changed nothing in the view since.\<close>

lemma provision_runs:
  assumes "apart v c" and "provision c ctx st = (Ok (), st')"
    and meta: "\<And>t w t' w'. at_PrepareMounts (ac_attacher c) ctx (ac_node c) t w = (Ok t', w') \<Longrightarrow> task_Meta t' = task_Meta t"
  shows "\<exists>task w w'. task_Meta task = task_Meta (as_task st) \<and> rt_Run (ac_runtime c) ctx task (epoch_labels st) w = (Ok (), w') \<and> v (as_world st') = v w'"
proof -
  let ?st = "st\<lparr>as_report := Report_As (node_uid_of (ac_node c)) (NewForResource (ac_clock c (as_world st)) (task_Meta (as_task st)))\<rparr>"
  let ?m = "task_Meta (as_task st)"
  let ?fin = "\<lambda>st. ignoring (env_call (statusV1_SetPhase (ac_tasks c) ctx (uid_of st) (reason_text ReasonRunning)) st) (\<lambda>st.
         ignoring (env_call (statusV1_SetReason (ac_tasks c) ctx (uid_of st) []) st) (\<lambda>st. (Ok (), st)))"
  define st0 where "st0 = st"
  let ?run = "\<lambda>st1. andThen (Agent_attachMounts c ctx st1) (\<lambda>_ st. andThen (Agent_pullImage c ctx st) (\<lambda>_ st.
      andThen (env_call (rt_Run (ac_runtime c) ctx (as_task st) (epoch_labels st0)) st) (\<lambda>_ st. andThen (Agent_attachNetwork c ctx st) (\<lambda>_ st. ?fin st))))"
  have prov: "skipMissing (ac_errs c) (Agent_detachNetwork c ctx ?st) (\<lambda>st. skipMissing (ac_errs c) (Agent_deleteTask c ctx st) ?run) = (Ok (), st')"
    using assms(2) unfolding st0_def by (simp only: provision_def Let_def)
  from skipMissing_Ok [OF this] obtain s0 where
    d0: "skipMissing (ac_errs c) (Agent_deleteTask c ctx s0) ?run = (Ok (), st')" "snd (Agent_detachNetwork c ctx ?st) = s0" by blast
  from skipMissing_Ok [OF d0(1)] obtain s1 where d1: "?run s1 = (Ok (), st')" "snd (Agent_deleteTask c ctx s0) = s1" by blast
  note d = d0(2) d1(2)
  from d1(1) obtain u2 s2 u3 s3 u4 s4 u5 s5 where
      "Agent_attachMounts c ctx s1 = (Ok u2, s2)" "Agent_pullImage c ctx s2 = (Ok u3, s3)"
      "env_call (rt_Run (ac_runtime c) ctx (as_task s3) (epoch_labels st)) s3 = (Ok u4, s4)"
      "Agent_attachNetwork c ctx s4 = (Ok u5, s5)" and e: "?fin s5 = (Ok (), st')"
    unfolding andThen_eq_Ok st0_def by blast
  then have m: "Agent_attachMounts c ctx s1 = (Ok (), s2)" and p: "Agent_pullImage c ctx s2 = (Ok (), s3)"
      and r: "env_call (rt_Run (ac_runtime c) ctx (as_task s3) (epoch_labels st)) s3 = (Ok (), s4)"
      and n: "Agent_attachNetwork c ctx s4 = (Ok (), s5)" by simp_all
  have "task_Meta (as_task s0) = ?m" using meta_detachNetwork [of ?st ?m c ctx] d(1) by (simp add: same_meta_def)
  then have "task_Meta (as_task s1) = ?m" using meta_deleteTask [of s0 ?m c ctx] d(2) by (simp add: same_meta_def)
  moreover from m have "task_Meta (as_task s2) = task_Meta (as_task s1)" by (rule attachMounts_Ok) (rule meta)
  moreover from p have "as_task s3 = as_task s2" by (rule pullImage_Ok)
  ultimately have t: "task_Meta (as_task s3) = ?m" by simp
  from r obtain w' where w: "rt_Run (ac_runtime c) ctx (as_task s3) (epoch_labels st) (as_world s3) = (Ok (), w')" "s4 = s3\<lparr>as_world := w'\<rparr>"
    by (rule env_call_cases)
  have v5: "v (as_world s5) = v w'" using attachNetwork_same [OF assms(1), of s4 "v w'" ctx] n w(2) by simp
  have "same_view v (v w') (?fin s5)" by (intro same_intros apartD assms(1)) (simp_all only: v5 same_view_pair)
  then have "v (as_world st') = v w'" unfolding e by simp
  with t w(1) show ?thesis by blast
qed

lemma startTask_body:
  assumes "Agent_startTask c ctx st = (Ok (), st')"
  shows "\<exists>s0. start_body c ctx (st\<lparr>as_operations := AList.update (uid_of st) ReasonStarting (as_operations st)\<rparr>) = (Ok (), s0) \<and> as_world st' = as_world s0"
proof -
  let ?s = "st\<lparr>as_operations := AList.update (uid_of st) ReasonStarting (as_operations st)\<rparr>"
  let ?done = "\<lambda>(_ :: unit res) s. (Ok (), s\<lparr>as_operations := AList.delete (uid_of st) (as_operations s)\<rparr>)"
  from assms have d: "deferred (deferred (start_body c ctx ?s) (mark_failed c ctx)) ?done = (Ok (), st')" by (simp add: Agent_startTask_def Let_def)
  have np: "\<forall>m. (Ok () :: unit res) \<noteq> Panic m" by simp
  from d np obtain s1 u1 where s1: "deferred (start_body c ctx ?s) (mark_failed c ctx) = (Ok (), s1)" "?done (Ok ()) s1 = (u1, st')" by (rule deferred_cases) blast
  from s1(1) np obtain s0 u0 where "start_body c ctx ?s = (Ok (), s0)" "mark_failed c ctx (Ok ()) s0 = (u0, s1)" by (rule deferred_cases)
  with s1(2) show ?thesis by (auto simp: mark_failed_def)
qed

lemma start_runs:
  assumes "apart v c" and "Agent_startTask c ctx st = (Ok (), st')"
    and meta: "\<And>t w t' w'. at_PrepareMounts (ac_attacher c) ctx (ac_node c) t w = (Ok t', w') \<Longrightarrow> task_Meta t' = task_Meta t"
  shows "(\<exists>t x. rt_Get (ac_runtime c) ctx (uid_of st) (as_world st) = (Ok (Some t), x) \<and> unchanged (Some t) (as_task st) = Ok True \<and> as_world st' = x)
    \<or> (\<exists>task w w'. task_Meta task = task_Meta (as_task st) \<and> rt_Run (ac_runtime c) ctx task (epoch_labels st) w = (Ok (), w') \<and> v (as_world st') = v w')"
proof -
  let ?s = "st\<lparr>as_operations := AList.update (uid_of st) ReasonStarting (as_operations st)\<rparr>"
  from assms(2) obtain s0 where s0: "start_body c ctx ?s = (Ok (), s0)" "as_world st' = as_world s0"
    using startTask_body by blast
  obtain r x where g: "rt_Get (ac_runtime c) ctx (uid_of st) (as_world st) = (r, x)" by fastforce
  let ?t = "?s\<lparr>as_world := x\<rparr>"
  have l: "epoch_labels ?t = epoch_labels st" by (simp add: epoch_labels_def)
  have e: "env_call (rt_Get (ac_runtime c) ctx (uid_of st)) ?s = (r, ?t)" using g by (simp add: env_call_def)
  show ?thesis
  proof (cases "provision c ctx ?t = (Ok (), s0)")
    case True
    from provision_runs [OF assms(1) this meta] s0(2) show ?thesis unfolding l by simp
  next
    case False
    with s0(1) e have "\<exists>t. r = Ok t \<and> unchanged t (as_task st) = Ok True \<and> s0 = ?t"
      by (cases r) (auto simp: start_body_def andThen_eq_Ok split: if_splits)
    with g s0(2) show ?thesis by (auto simp: unchanged_def split: option.splits)
  qed
qed

section \<open>Containers\<close>

abbreviation world_ctrs :: "'d containers \<Rightarrow> 'd rt_world \<Rightarrow> string \<Rightarrow> string \<Rightarrow> label option" where
  "world_ctrs ctrs \<equiv> \<lambda>x. ctrs (snd (snd x))"

lemma leaves_on_daemon: "leaves ctrs f \<Longrightarrow> leaves (world_ctrs ctrs) (on_daemon f)"
  by (simp add: leaves_def on_daemon_eq)

lemma get_leaves:
  assumes "fs_runtime rt ctrs cdc dir"
  shows "world_ctrs ctrs (snd (Runtime_get rt ctx i x)) = world_ctrs ctrs x"
proof -
  obtain r y where l: "on_daemon (cd_LoadContainer (rc_client rt) (rc_ns rt) ctx i) x = (r, y)" by (metis surj_pair)
  have y: "world_ctrs ctrs y = world_ctrs ctrs x" using quiet_on(2) [OF assms, of i x "rc_ns rt" ctx i] l by (simp add: quiet_def)
  obtain r2 z where d: "ps_Delete (rc_store rt) i y = (r2, z)" by (metis surj_pair)
  then have "snd z = snd y" using fs_runtime_store(1) [OF assms] by (simp add: fs_task_store_def on_files_eq)
  with l y d show ?thesis by (cases r; cases r2) (auto simp: Runtime_get_def skipMissing_def)
qed

lemma Pid_leaves: "fs_runtime rt ctrs cdc dir \<Longrightarrow> leaves (world_ctrs ctrs) (Runtime_Pid rt ctx i)"
proof -
  assume fr: "fs_runtime rt ctrs cdc dir"
  have "world_ctrs ctrs (snd (Runtime_Pid rt ctx i x)) = world_ctrs ctrs x" for x
    unfolding Runtime_Pid_def
    by (rule andThen_state [where P = "\<lambda>y. world_ctrs ctrs y = world_ctrs ctrs x"])
      (use get_leaves [OF fr] quiet_on(1) [OF fr] in \<open>simp_all add: quiet_def\<close>)
  then show ?thesis unfolding leaves_def by blast
qed

text \<open>A node: the controller with the runtime, the network manager and the attacher of this development; server, publisher and network leave containers alone.\<close>

definition node_setup :: "'d rt_world Agent \<Rightarrow> 'd ContainerdRuntime \<Rightarrow> 'd gocni \<Rightarrow> CNIManager \<Rightarrow> (rt_state \<times> 'd) volume_client \<Rightarrow> 'd containers \<Rightarrow> bool" where
  "node_setup c rt g m vols ctrs \<longleftrightarrow>
     ac_runtime c = containerd_Runtime rt \<and> ac_netmanager c = cni_NetManager g m \<and> ac_attacher c = NewDefaultAttacher vols \<and>
     (\<forall>rid b rep x. world_ctrs ctrs (ac_publisher c rid b rep x) = world_ctrs ctrs x) \<and>
     (\<forall>ctx i p. leaves (world_ctrs ctrs) (statusV1_SetPhase (ac_tasks c) ctx i p)) \<and>
     (\<forall>ctx i p. leaves (world_ctrs ctrs) (statusV1_SetReason (ac_tasks c) ctx i p)) \<and>
     (\<forall>ctx i p opts. leaves ctrs (gocni_Setup g ctx i p opts))"

lemma node_apart:
  assumes "fs_runtime rt ctrs cdc dir" and "node_setup c rt g m vols ctrs"
  shows "apart (world_ctrs ctrs) c"
proof -
  have "CNIManager_Attach g m ctx i pid p = gocni_Setup g ctx i (netNamespace m pid) p" for ctx i pid p
    by (simp add: CNIManager_Attach_def fun_eq_iff)
  then have "leaves (world_ctrs ctrs) (nm_Attach (ac_netmanager c) ctx i pid ports)" for ctx i pid ports
    using assms(2) by (auto simp: node_setup_def cni_NetManager_def intro: leaves_on_daemon)
  moreover have "leaves (world_ctrs ctrs) (rt_Pid (ac_runtime c) ctx i)" for ctx i
    using assms(2) Pid_leaves [OF assms(1)] by (simp add: node_setup_def containerd_Runtime_def)
  ultimately show ?thesis using assms(2) unfolding node_setup_def apart_def by blast
qed

lemma PrepareMounts_Meta: "DefaultAttacher_PrepareMounts vols ctx n t x = (Ok t', x') \<Longrightarrow> task_Meta t' = task_Meta t"
  by (auto simp: DefaultAttacher_PrepareMounts_def Let_def andThen_eq_Ok split: if_splits)

section \<open>Properties\<close>


definition sample_gocni :: "'d gocni" where
  "sample_gocni = \<lparr>gocni_New = (\<lambda>_ d. (Ok (), d)), gocni_Load = (\<lambda>_ d. (Ok (), d)), gocni_Setup = (\<lambda>_ _ _ _ d. (Ok [], d)),
     gocni_Remove = (\<lambda>_ _ _ _ d. (Ok (), d)), gocni_Check = (\<lambda>_ _ _ _ d. (Ok (), d))\<rparr>"

definition no_volumes :: "'y volume_client" where
  "no_volumes = \<lparr>vlc_stub = \<lparr>vstub_Get = (\<lambda>_ _ _ y. (Err (StatusErr NotFound []), y)), vstub_Create = (\<lambda>_ v y. (Ok v, y)), vstub_Delete = (\<lambda>_ _ _ y. (Ok (), y)),
     vstub_List = (\<lambda>_ _ y. (Ok [], y)), vstub_Update = (\<lambda>_ _ _ v y. (Ok v, y)), vstub_UpdateStatus = (\<lambda>_ _ _ _ _ y. (Ok [], y))\<rparr>,
     vlc_uuid = sample_uuid\<rparr>"

definition node_agent :: "daemon rt_world Agent" where
  "node_agent = \<lparr>ac_runtime = containerd_Runtime (sample_runtime False), ac_netmanager = cni_NetManager sample_gocni default_manager,
     ac_attacher = NewDefaultAttacher no_volumes, ac_tokenStore = free_tokens, ac_publisher = (\<lambda>rid ok rep x. x),
     ac_tasks = \<lparr>tc_stub = nodding_tasks, tc_ident = None, tc_uuid = sample_uuid, tc_errs = sample_ext\<rparr>,
     ac_leases = nodding_leases, ac_nodes = \<lparr>nc_stub = nodding_nodes, nc_ident = None, nc_uuid = sample_uuid\<rparr>,
     ac_node = beta1, ac_errs = sample_ext, ac_clock = (\<lambda>_. 9)\<rparr>"

lemma nodding_leaves: "tc_stub tc = nodding_tasks \<Longrightarrow> leaves v (statusV1_Update tc ctx i s ps)"
  by (cases "keys_ParseStr (tc_uuid tc) i") (auto simp: leaves_def statusV1_Update_def by_text_def nodding_tasks_def no_value_def)

lemma node_agent_setup: "node_setup node_agent (sample_runtime False) sample_gocni default_manager no_volumes sample_ctrs"
proof -
  have "leaves (world_ctrs sample_ctrs) (statusV1_SetPhase (ac_tasks node_agent) ctx i p)"
    "leaves (world_ctrs sample_ctrs) (statusV1_SetReason (ac_tasks node_agent) ctx i p)" for ctx i p
    using nodding_leaves [of "ac_tasks node_agent" "world_ctrs sample_ctrs" ctx i] by (simp_all add: statusV1_SetPhase_def statusV1_SetReason_def node_agent_def leaves_def)
  moreover have "leaves sample_ctrs (gocni_Setup sample_gocni ctx i p opts)" for ctx i p opts by (simp add: leaves_def sample_gocni_def)
  ultimately show ?thesis by (simp add: node_setup_def node_agent_def)
qed


end
