(* ===== verification/RuntimeEvents.thy ===== *)
theory RuntimeEvents
  imports Exchange
begin

text \<open>
  The controller that relays the events of containerd to the exchange of a node,
  pkg/controller/containerd/containerd.go.

  The messages of containerd are opaque (\<open>'e\<close>); the controller looks at their type only, a
  \<open>ctd_kind\<close>, or \<open>None\<close> for a type it does not know. What the channels of a subscription deliver, and how
  attempts to reconnect end, are lists; where a list ends the controller is still waiting.
\<close>

section \<open>Handlers\<close>

datatype ctd_kind =
    CtdTaskExit | CtdTaskCreate | CtdTaskStart | CtdTaskDelete | CtdTaskIO | CtdTaskOOM |
    CtdTaskExecAdded | CtdTaskExecStarted | CtdTaskPaused | CtdTaskResumed | CtdTaskCheckpointed |
    CtdSnapshotPrepare | CtdSnapshotCommit | CtdSnapshotRemove | CtdNamespaceCreate |
    CtdNamespaceUpdate | CtdNamespaceDelete | CtdImageCreate | CtdImageUpdate | CtdImageDelete |
    CtdContentCreate | CtdContentDelete | CtdContainerCreate | CtdContainerUpdate |
    CtdContainerDelete

type_synonym ('e, 'w) relay = "'e \<Rightarrow> 'w Exchange \<times> 'w \<Rightarrow> unit res \<times> ('w Exchange \<times> 'w)"

record ('e, 'w) RuntimeHandlerFuncs =
  OnTaskExit :: "('e, 'w) relay option"
  OnTaskCreate :: "('e, 'w) relay option"
  OnTaskStart :: "('e, 'w) relay option"
  OnTaskDelete :: "('e, 'w) relay option"
  OnTaskIO :: "('e, 'w) relay option"
  OnTaskOOM :: "('e, 'w) relay option"
  OnTaskExecAdded :: "('e, 'w) relay option"
  OnTaskExecStarted :: "('e, 'w) relay option"
  OnTaskPaused :: "('e, 'w) relay option"
  OnTaskResumed :: "('e, 'w) relay option"
  OnTaskCheckpointed :: "('e, 'w) relay option"
  OnSnapshotPrepare :: "('e, 'w) relay option"
  OnSnapshotCommit :: "('e, 'w) relay option"
  OnSnapshotRemove :: "('e, 'w) relay option"
  OnNamespaceCreate :: "('e, 'w) relay option"
  OnNamespaceUpdate :: "('e, 'w) relay option"
  OnNamespaceDelete :: "('e, 'w) relay option"
  OnImageCreate :: "('e, 'w) relay option"
  OnImageUpdate :: "('e, 'w) relay option"
  OnImageDelete :: "('e, 'w) relay option"
  OnContentCreate :: "('e, 'w) relay option"
  OnContentDelete :: "('e, 'w) relay option"
  OnContainerCreate :: "('e, 'w) relay option"
  OnContainerUpdate :: "('e, 'w) relay option"
  OnContainerDelete :: "('e, 'w) relay option"

text \<open>\<open>pack\<close> puts a message into an \<^verbatim>\<open>Any\<close>, and \<open>fresh\<close> gives the uuid that names the event.\<close>

record ('e, 'w) RuntimeController =
  rtc_pack :: "'e \<Rightarrow> any"
  rtc_fresh :: "'w \<Rightarrow> string"

text \<open>An error of the exchange is logged.\<close>

definition publish_runtime :: "('e, 'w) RuntimeController \<Rightarrow> EventType \<Rightarrow> ('e, 'w) relay" where
  "publish_runtime c t e st =
     (case Exchange_Publish None (NewEvent (rtc_fresh c (snd st)) t (rtc_pack c e) []) st of
        (Panic m, st) \<Rightarrow> (Panic m, st)
      | (_, st) \<Rightarrow> (Ok (), st))"

definition onTaskExitHandler :: "('e, 'w) RuntimeController \<Rightarrow> ('e, 'w) relay" where
  "onTaskExitHandler c e = publish_runtime c RuntimeTaskExit e"

definition onTaskCreateHandler :: "('e, 'w) RuntimeController \<Rightarrow> ('e, 'w) relay" where
  "onTaskCreateHandler c e = publish_runtime c RuntimeTaskCreate e"

definition onContainerCreateHandler :: "('e, 'w) RuntimeController \<Rightarrow> ('e, 'w) relay" where
  "onContainerCreateHandler c e = publish_runtime c RuntimeContainerCreate e"

definition onTaskStartHandler :: "('e, 'w) RuntimeController \<Rightarrow> ('e, 'w) relay" where
  "onTaskStartHandler c e = publish_runtime c RuntimeTaskStart e"

definition onTaskDeleteHandler :: "('e, 'w) RuntimeController \<Rightarrow> ('e, 'w) relay" where
  "onTaskDeleteHandler c e = publish_runtime c RuntimeTaskDelete e"

definition onTaskIOHandler :: "('e, 'w) RuntimeController \<Rightarrow> ('e, 'w) relay" where
  "onTaskIOHandler c e = publish_runtime c RuntimeTaskIO e"

definition onTaskOOMHandler :: "('e, 'w) RuntimeController \<Rightarrow> ('e, 'w) relay" where
  "onTaskOOMHandler c e = publish_runtime c RuntimeTaskOOM e"

definition onTaskExecAddedHandler :: "('e, 'w) RuntimeController \<Rightarrow> ('e, 'w) relay" where
  "onTaskExecAddedHandler c e = publish_runtime c RuntimeTaskExecAdded e"

definition onTaskExecStartedHandler :: "('e, 'w) RuntimeController \<Rightarrow> ('e, 'w) relay" where
  "onTaskExecStartedHandler c e = publish_runtime c RuntimeTaskExecStarted e"

definition onTaskPausedHandler :: "('e, 'w) RuntimeController \<Rightarrow> ('e, 'w) relay" where
  "onTaskPausedHandler c e = publish_runtime c RuntimeTaskPaused e"

definition onTaskResumedHandler :: "('e, 'w) RuntimeController \<Rightarrow> ('e, 'w) relay" where
  "onTaskResumedHandler c e = publish_runtime c RuntimeTaskResumed e"

definition onTaskCeckpointedHandler :: "('e, 'w) RuntimeController \<Rightarrow> ('e, 'w) relay" where
  "onTaskCeckpointedHandler c e = publish_runtime c RuntimeTaskCheckpointed e"

definition onImageCreateHandler :: "('e, 'w) RuntimeController \<Rightarrow> ('e, 'w) relay" where
  "onImageCreateHandler c e = publish_runtime c RuntimeImageCreate e"

definition onSnapshotPrepareHandler :: "('e, 'w) RuntimeController \<Rightarrow> ('e, 'w) relay" where
  "onSnapshotPrepareHandler c e = publish_runtime c RuntimeSnapshotPrepare e"

definition onSnapshotCommitHandler :: "('e, 'w) RuntimeController \<Rightarrow> ('e, 'w) relay" where
  "onSnapshotCommitHandler c e = publish_runtime c RuntimeSnapshotCommit e"

definition onSnapshotRemoveHandler :: "('e, 'w) RuntimeController \<Rightarrow> ('e, 'w) relay" where
  "onSnapshotRemoveHandler c e = publish_runtime c RuntimeSnapshotRemove e"

definition onContentCreateHandler :: "('e, 'w) RuntimeController \<Rightarrow> ('e, 'w) relay" where
  "onContentCreateHandler c e = publish_runtime c RuntimeContentCreate e"

definition onContentDeleteHandler :: "('e, 'w) RuntimeController \<Rightarrow> ('e, 'w) relay" where
  "onContentDeleteHandler c e = publish_runtime c RuntimeContentDelete e"

definition new_handlers :: "('e, 'w) RuntimeController \<Rightarrow> ('e, 'w) RuntimeHandlerFuncs" where
  "new_handlers c = \<lparr>
     OnTaskExit = Some (onTaskExitHandler c),
     OnTaskCreate = Some (onTaskCreateHandler c),
     OnTaskStart = Some (onTaskStartHandler c),
     OnTaskDelete = Some (onTaskDeleteHandler c),
     OnTaskIO = Some (onTaskIOHandler c),
     OnTaskOOM = Some (onTaskOOMHandler c),
     OnTaskExecAdded = Some (onTaskExecAddedHandler c),
     OnTaskExecStarted = Some (onTaskExecStartedHandler c),
     OnTaskPaused = Some (onTaskPausedHandler c),
     OnTaskResumed = Some (onTaskResumedHandler c),
     OnTaskCheckpointed = Some (onTaskCeckpointedHandler c),
     OnSnapshotPrepare = Some (onSnapshotPrepareHandler c),
     OnSnapshotCommit = Some (onSnapshotCommitHandler c),
     OnSnapshotRemove = Some (onSnapshotRemoveHandler c),
     OnNamespaceCreate = None,
     OnNamespaceUpdate = None,
     OnNamespaceDelete = None,
     OnImageCreate = Some (onImageCreateHandler c),
     OnImageUpdate = None,
     OnImageDelete = None,
     OnContentCreate = Some (onContentCreateHandler c),
     OnContentDelete = Some (onContentDeleteHandler c),
     OnContainerCreate = Some (onContainerCreateHandler c),
     OnContainerUpdate = None,
     OnContainerDelete = None\<rparr>"

definition call_handler :: "('e, 'w) relay option \<Rightarrow> ('e, 'w) relay" where
  "call_handler h t st = (case h of Some f \<Rightarrow> f t st | None \<Rightarrow> (Ok (), st))"

fun handler_for :: "('e, 'w) RuntimeHandlerFuncs \<Rightarrow> ctd_kind \<Rightarrow> ('e, 'w) relay option" where
  "handler_for h CtdTaskExit = OnTaskExit h"
| "handler_for h CtdTaskCreate = OnTaskCreate h"
| "handler_for h CtdTaskStart = OnTaskStart h"
| "handler_for h CtdTaskDelete = OnTaskDelete h"
| "handler_for h CtdTaskIO = OnTaskIO h"
| "handler_for h CtdTaskOOM = OnTaskOOM h"
| "handler_for h CtdTaskExecAdded = OnTaskExecAdded h"
| "handler_for h CtdTaskExecStarted = OnTaskExecStarted h"
| "handler_for h CtdTaskPaused = OnTaskPaused h"
| "handler_for h CtdTaskResumed = OnTaskResumed h"
| "handler_for h CtdTaskCheckpointed = OnTaskCheckpointed h"
| "handler_for h CtdSnapshotPrepare = OnSnapshotPrepare h"
| "handler_for h CtdSnapshotCommit = OnSnapshotCommit h"
| "handler_for h CtdSnapshotRemove = OnSnapshotRemove h"
| "handler_for h CtdNamespaceCreate = OnNamespaceCreate h"
| "handler_for h CtdNamespaceUpdate = OnNamespaceUpdate h"
| "handler_for h CtdNamespaceDelete = OnNamespaceDelete h"
| "handler_for h CtdImageCreate = OnImageCreate h"
| "handler_for h CtdImageUpdate = OnImageUpdate h"
| "handler_for h CtdImageDelete = OnImageDelete h"
| "handler_for h CtdContentCreate = OnContentCreate h"
| "handler_for h CtdContentDelete = OnContentDelete h"
| "handler_for h CtdContainerCreate = OnContainerCreate h"
| "handler_for h CtdContainerUpdate = OnContainerUpdate h"
| "handler_for h CtdContainerDelete = OnContainerDelete h"

definition HandleEvent :: "('e, 'w) RuntimeHandlerFuncs \<Rightarrow> ctd_kind option \<Rightarrow> ('e, 'w) relay" where
  "HandleEvent handlers obj t st =
     (case obj of Some k \<Rightarrow> call_handler (handler_for handlers k) t st | None \<Rightarrow> (Ok (), st))"

section \<open>The stream of events\<close>

datatype 'e stream_item =
    EvNil | EvBad error | Ev "ctd_kind option" 'e | EvClosed
  | ErrItem "error option" | ErrClosed | StreamDone error

fun streamEvents :: "('e, 'w) RuntimeHandlerFuncs \<Rightarrow> 'e stream_item list \<Rightarrow> 'w Exchange \<times> 'w \<Rightarrow> unit res option \<times> ('w Exchange \<times> 'w)" where
  "streamEvents h [] st = (None, st)"
| "streamEvents h (EvNil # is) st = streamEvents h is st"
| "streamEvents h (EvBad e # is) st = streamEvents h is st"
| "streamEvents h (Ev k t # is) st =
     (case HandleEvent h k t st of
        (Panic m, st) \<Rightarrow> (Some (Panic m), st)
      | (_, st) \<Rightarrow> streamEvents h is st)"
| "streamEvents h (EvClosed # is) st = (Some (Err (Errorf ''runtime event channel closed'')), st)"
| "streamEvents h (ErrClosed # is) st = (Some (Err (Errorf ''runtime error channel closed'')), st)"
| "streamEvents h (ErrItem None # is) st = (Some (Err (Errorf ''stream ended without error'')), st)"
| "streamEvents h (ErrItem (Some e) # is) st = (Some (Err e), st)"
| "streamEvents h (StreamDone e # is) st = (Some (Err e), st)"

section \<open>Connections\<close>

text \<open>One attempt to connect: what dialling gives, whether containerd says it serves, and the error of the context if it ends before the next attempt.\<close>

record attempt =
  att_New :: "unit res"
  att_IsServing :: "bool res"
  att_Done :: "error option"

definition connectContainerd :: "attempt \<Rightarrow> unit res" where
  "connectContainerd a =
     (case att_New a of
        Err e \<Rightarrow> Err (Wrapped ''failed to connect to containerd'' e)
      | Panic m \<Rightarrow> Panic m
      | Ok _ \<Rightarrow> bindR (att_IsServing a) (\<lambda>isServing. if isServing then Ok () else Err (Errorf ''containerd not serving'')))"

fun reconnectWithBackoff :: "attempt list \<Rightarrow> unit res option" where
  "reconnectWithBackoff [] = None"
| "reconnectWithBackoff (a # as) =
     (case connectContainerd a of
        Ok _ \<Rightarrow> Some (Ok ())
      | Panic m \<Rightarrow> Some (Panic m)
      | Err _ \<Rightarrow> (case att_Done a of Some e \<Rightarrow> Some (Err e) | None \<Rightarrow> reconnectWithBackoff as))"

definition RuntimeController_Reconcile :: "unit res" where
  "RuntimeController_Reconcile = Ok ()"

datatype run_end = StillRunning | Returned | Crashed string

fun run_loop :: "('e, 'w) RuntimeHandlerFuncs \<Rightarrow> ('e stream_item list \<times> attempt list) list \<Rightarrow> 'w Exchange \<times> 'w \<Rightarrow> run_end \<times> ('w Exchange \<times> 'w)" where
  "run_loop h [] st = (StillRunning, st)"
| "run_loop h ((is, as) # rounds) st =
     (let reconnect = (\<lambda>st.
            case reconnectWithBackoff as of
              None \<Rightarrow> (StillRunning, st)
            | Some (Ok _) \<Rightarrow> run_loop h rounds st
            | Some (Err _) \<Rightarrow> (Returned, st)
            | Some (Panic m) \<Rightarrow> (Crashed m, st))
      in case streamEvents h is st of
           (None, st) \<Rightarrow> (StillRunning, st)
         | (Some (Panic m), st) \<Rightarrow> (Crashed m, st)
         | (Some (Err e), st) \<Rightarrow> if errors_Is e CtxCanceled then (Returned, st) else reconnect st
         | (Some (Ok _), st) \<Rightarrow> reconnect st)"

definition RuntimeController_Run ::
  "('e, 'w) RuntimeController \<Rightarrow> ('e stream_item list \<times> attempt list) list \<Rightarrow> 'w Exchange \<times> 'w \<Rightarrow> run_end \<times> ('w Exchange \<times> 'w)" where
  "RuntimeController_Run c rounds st =
     (case RuntimeController_Reconcile of
        Err e \<Rightarrow> (Returned, st)
      | Panic m \<Rightarrow> (Crashed m, st)
      | Ok _ \<Rightarrow> run_loop (new_handlers c) rounds st)"

section \<open>What is relayed\<close>

text \<open>The specification: the event of the exchange each type of message becomes, and what a run hears.\<close>

fun relayed_as :: "ctd_kind \<Rightarrow> EventType option" where
  "relayed_as CtdTaskExit = Some RuntimeTaskExit"
| "relayed_as CtdTaskCreate = Some RuntimeTaskCreate"
| "relayed_as CtdContainerCreate = Some RuntimeContainerCreate"
| "relayed_as CtdTaskStart = Some RuntimeTaskStart"
| "relayed_as CtdTaskDelete = Some RuntimeTaskDelete"
| "relayed_as CtdTaskIO = Some RuntimeTaskIO"
| "relayed_as CtdTaskOOM = Some RuntimeTaskOOM"
| "relayed_as CtdTaskExecAdded = Some RuntimeTaskExecAdded"
| "relayed_as CtdTaskExecStarted = Some RuntimeTaskExecStarted"
| "relayed_as CtdTaskPaused = Some RuntimeTaskPaused"
| "relayed_as CtdTaskResumed = Some RuntimeTaskResumed"
| "relayed_as CtdTaskCheckpointed = Some RuntimeTaskCheckpointed"
| "relayed_as CtdImageCreate = Some RuntimeImageCreate"
| "relayed_as CtdSnapshotPrepare = Some RuntimeSnapshotPrepare"
| "relayed_as CtdSnapshotCommit = Some RuntimeSnapshotCommit"
| "relayed_as CtdSnapshotRemove = Some RuntimeSnapshotRemove"
| "relayed_as CtdContentCreate = Some RuntimeContentCreate"
| "relayed_as CtdContentDelete = Some RuntimeContentDelete"
| "relayed_as _ = None"

fun received :: "'e stream_item list \<Rightarrow> (ctd_kind option \<times> 'e) list" where
  "received [] = []"
| "received (Ev k t # is) = (k, t) # received is"
| "received (EvNil # is) = received is"
| "received (EvBad e # is) = received is"
| "received _ = []"

fun ended_by :: "'e stream_item list \<Rightarrow> error option" where
  "ended_by [] = None"
| "ended_by (Ev k t # is) = ended_by is"
| "ended_by (EvNil # is) = ended_by is"
| "ended_by (EvBad e # is) = ended_by is"
| "ended_by (EvClosed # is) = Some (Errorf ''runtime event channel closed'')"
| "ended_by (ErrClosed # is) = Some (Errorf ''runtime error channel closed'')"
| "ended_by (ErrItem e # is) = Some (case e of None \<Rightarrow> Errorf ''stream ended without error'' | Some e \<Rightarrow> e)"
| "ended_by (StreamDone e # is) = Some e"

text \<open>The next subscription is heard when this one ended other than by cancellation and an attempt to connect succeeded.\<close>

fun heard :: "('e stream_item list \<times> attempt list) list \<Rightarrow> (ctd_kind option \<times> 'e) list" where
  "heard [] = []"
| "heard ((is, as) # rounds) = received is @
     (case ended_by is of
        None \<Rightarrow> []
      | Some e \<Rightarrow> if errors_Is e CtxCanceled then [] else (case reconnectWithBackoff as of Some (Ok _) \<Rightarrow> heard rounds | _ \<Rightarrow> []))"

definition deliver :: "('e, 'w) RuntimeController \<Rightarrow> 'w Exchange \<Rightarrow> 'w \<Rightarrow> ctd_kind option \<times> 'e \<Rightarrow> 'w" where
  "deliver c ex w ev =
     (case Option.bind (fst ev) relayed_as of
        None \<Rightarrow> w
      | Some ty \<Rightarrow> run_all (at_type (persistentHandlers ex) ty) None (NewEvent (rtc_fresh c w) ty (rtc_pack c (snd ev)) []) w)"

lemmas relay_handlers = onTaskExitHandler_def onTaskCreateHandler_def onContainerCreateHandler_def onTaskStartHandler_def
  onTaskDeleteHandler_def onTaskIOHandler_def onTaskOOMHandler_def onTaskExecAddedHandler_def
  onTaskExecStartedHandler_def onTaskPausedHandler_def onTaskResumedHandler_def onTaskCeckpointedHandler_def
  onImageCreateHandler_def onSnapshotPrepareHandler_def onSnapshotCommitHandler_def onSnapshotRemoveHandler_def
  onContentCreateHandler_def onContentDeleteHandler_def

lemma handler_for_new: "handler_for (new_handlers c) k = map_option (publish_runtime c) (relayed_as k)"
  by (cases k) (simp_all add: new_handlers_def fun_eq_iff relay_handlers)

text \<open>The handlers of the exchange do not change while events are relayed.\<close>

definition listening :: "'w Exchange \<Rightarrow> 'w Exchange \<Rightarrow> bool" where
  "listening ex e \<longleftrightarrow> persistentHandlers e = persistentHandlers ex \<and> fireOnceHandlers e = None
     \<and> (\<forall>t. \<forall>h \<in> set (at_type (persistentHandlers e) t). never_panics h)"

lemma publish_runtime_ok:
  assumes "listening ex e"
  shows "\<exists>e'. publish_runtime c t m (e, w) =
      (Ok (), (e', run_all (at_type (persistentHandlers ex) t) None (NewEvent (rtc_fresh c w) t (rtc_pack c m) []) w)) \<and> listening ex e'"
proof -
  let ?ev = "NewEvent (rtc_fresh c w) t (rtc_pack c m) []"
  have t: "ev_Type ?ev = t" by (simp add: NewEvent_def)
  from assms have "\<forall>h \<in> set (at_type (persistentHandlers e) (ev_Type ?ev)). never_panics h" "once_at e (ev_Type ?ev) = []"
    by (simp_all add: listening_def once_at_def)
  from Publish_delivers [OF this, of None w] assms t show ?thesis by (auto simp: publish_runtime_def listening_def)
qed

lemma HandleEvent_ok:
  assumes "listening ex e"
  shows "\<exists>e'. HandleEvent (new_handlers c) k m (e, w) = (Ok (), (e', deliver c ex w (k, m))) \<and> listening ex e'"
proof (cases "Option.bind k relayed_as")
  case None
  with assms show ?thesis by (cases k) (simp_all add: HandleEvent_def handler_for_new call_handler_def deliver_def)
next
  case (Some ty)
  then obtain k' where "k = Some k'" "relayed_as k' = Some ty" by (cases k) auto
  with publish_runtime_ok [OF assms, of c ty m w] show ?thesis by (simp add: HandleEvent_def handler_for_new call_handler_def deliver_def)
qed

lemma streamEvents_ok:
  assumes "listening ex e"
  shows "\<exists>e'. streamEvents (new_handlers c) is (e, w) = (map_option Err (ended_by is), (e', foldl (deliver c ex) w (received is))) \<and> listening ex e'"
  using assms
proof (induction "is" arbitrary: e w)
  case (Cons i "is")
  show ?case
  proof (cases i)
    case (Ev k m)
    obtain e1 where "HandleEvent (new_handlers c) k m (e, w) = (Ok (), (e1, deliver c ex w (k, m)))" "listening ex e1"
      using HandleEvent_ok [OF Cons.prems, of c k m w] by blast
    with Cons.IH [of e1 "deliver c ex w (k, m)"] Ev show ?thesis by auto
  next
    case (ErrItem err)
    with Cons.prems show ?thesis by (cases err) auto
  qed (use Cons in auto)
qed simp

definition may_end :: "'e stream_item list \<times> attempt list \<Rightarrow> bool" where
  "may_end r \<longleftrightarrow> (\<exists>e. ended_by (fst r) = Some e \<and> errors_Is e CtxCanceled) \<or> (\<exists>a \<in> set (snd r). att_Done a \<noteq> None)"

lemma reconnect_done: "reconnectWithBackoff as = Some (Err e) \<Longrightarrow> \<exists>a \<in> set as. att_Done a \<noteq> None"
  by (induction as) (auto split: result.splits option.splits)

definition no_crash :: "attempt \<Rightarrow> bool" where
  "no_crash a \<longleftrightarrow> (\<forall>m. connectContainerd a \<noteq> Panic m)"

lemma reconnect_no_panic: "\<forall>a \<in> set as. no_crash a \<Longrightarrow> reconnectWithBackoff as \<noteq> Some (Panic m)"
  by (induction as) (auto simp: no_crash_def split: result.splits option.splits)

lemma run_loop_ok:
  assumes "listening ex e" and "\<forall>r \<in> set rounds. \<forall>a \<in> set (snd r). no_crash a"
  shows "\<exists>e' k. run_loop (new_handlers c) rounds (e, w) = (k, (e', foldl (deliver c ex) w (heard rounds)))
    \<and> (k = StillRunning \<or> k = Returned \<and> (\<exists>r \<in> set rounds. may_end r))"
  using assms
proof (induction rounds arbitrary: e w)
  case (Cons r rounds)
  obtain "is" as where r: "r = (is, as)" by (cases r)
  let ?w = "foldl (deliver c ex) w (received is)"
  obtain e1 where s: "streamEvents (new_handlers c) is (e, w) = (map_option Err (ended_by is), (e1, ?w))" "listening ex e1"
    using streamEvents_ok [OF Cons.prems(1), of c "is" w] by blast
  show ?case
  proof (cases "\<exists>err. ended_by is = Some err \<and> \<not> errors_Is err CtxCanceled")
    case False
    with s(1) r show ?thesis by (cases "ended_by is") (auto simp: may_end_def)
  next
    case True
    then obtain err where err: "ended_by is = Some err" "\<not> errors_Is err CtxCanceled" by blast
    show ?thesis
    proof (cases "reconnectWithBackoff as")
      case (Some rc)
      show ?thesis
      proof (cases rc)
        case (Ok u)
        from Cons.IH [OF s(2), of ?w] Cons.prems(2) s(1) r err Some Ok show ?thesis by auto
      next
        case (Err x)
        with reconnect_done [of as x] s(1) r err Some show ?thesis by (auto simp: may_end_def)
      next
        case (Panic m)
        with reconnect_no_panic [of as m] Cons.prems(2) Some r show ?thesis by auto
      qed
    qed (use s(1) r err in auto)
  qed
qed simp

section \<open>Properties\<close>


definition two_rounds :: "(string stream_item list \<times> attempt list) list" where
  "two_rounds =
     [([Ev (Some CtdTaskStart) ''s'', EvBad (Foreign ''type''), Ev None ''?'', EvClosed, Ev (Some CtdTaskOOM) ''lost''],
       [\<lparr>att_New = Ok (), att_IsServing = Ok False, att_Done = None\<rparr>, \<lparr>att_New = Ok (), att_IsServing = Ok True, att_Done = None\<rparr>]),
      ([Ev (Some CtdImageDelete) ''i'', Ev (Some CtdTaskExit) ''x'', StreamDone (Sentinel CtxCanceled)], [])]"

definition recording :: "(string, EventType list) RuntimeController" where
  "recording = \<lparr>rtc_pack = AnyOther ''m'', rtc_fresh = (\<lambda>_. ''e'')\<rparr>"

definition watched :: "EventType list Exchange" where
  "watched = Exchange_On RuntimeTaskExit recorder (Exchange_On RuntimeTaskStart recorder NewExchange)"

lemma watched_built: "ex_built watched"
proof -
  have "ex_step\<^sup>*\<^sup>* NewExchange (Exchange_On RuntimeTaskStart recorder NewExchange)" by (rule r_into_rtranclp) (rule ex_step.ex_on)
  then show ?thesis unfolding ex_built_def watched_def by (rule rtranclp.rtrancl_into_rtrancl) (rule ex_step.ex_on)
qed


end
