(* ===== verification/ProtoReflect.thy ===== *)
theory ProtoReflect
  imports ProtoUtils Files
begin

text \<open>
  Comparing, masking and merging messages by reflection, pkg/protoutils/protoutils.go.

  A message is what reflection shows of it: one entry for each field of its descriptor, in order,
  which is absent or holds a value. A scalar of proto3 that is zero is absent; a wrapper
  (\<^verbatim>\<open>StringValue\<close> and the like) may be present with the zero value, which is the empty text here. Elements of lists
  and maps are scalars, compared by value, or messages, compared by their address: of two messages that were decoded
  apart, no two elements are the same.
\<close>

section \<open>Messages\<close>

datatype item = IScalar string | IMsg string

datatype fval = FScalar string | FWrap string | FList "item list" | FMap "(string, item) gomap" | FSub "fval option list"

type_synonym fmsg = "fval option list"

text \<open>Lists and maps say whether their elements are messages.\<close>

datatype fkind = FkScalar | FkWrapper | FkList bool | FkMap bool | FkMsg desc
  and desc = DNil | DField string fkind desc

primrec zeros :: "desc \<Rightarrow> fmsg" where
  "zeros DNil = []"
| "zeros (DField name k d) = None # zeros d"

text \<open>Reading an absent field gives its empty value.\<close>

fun sub_of :: "desc \<Rightarrow> fval option \<Rightarrow> fmsg" where
  "sub_of d (Some (FSub m)) = m"
| "sub_of d _ = zeros d"

fun list_of :: "fval option \<Rightarrow> item list" where
  "list_of (Some (FList xs)) = xs"
| "list_of _ = []"

fun fmap_of :: "fval option \<Rightarrow> (string, item) gomap" where
  "fmap_of (Some (FMap m)) = m"
| "fmap_of _ = []"

fun wrap_of :: "fval option \<Rightarrow> string" where
  "wrap_of (Some (FWrap s)) = s"
| "wrap_of _ = []"

section \<open>Comparing\<close>

fun item_eq :: "item \<Rightarrow> item \<Rightarrow> bool" where
  "item_eq (IScalar a) (IScalar b) \<longleftrightarrow> a = b"
| "item_eq _ _ \<longleftrightarrow> False"

definition listEqual :: "item list \<Rightarrow> item list \<Rightarrow> bool" where
  "listEqual a b \<longleftrightarrow> length a = length b \<and> list_all2 item_eq a b"

definition mapEqual :: "(string, item) gomap \<Rightarrow> (string, item) gomap \<Rightarrow> bool" where
  "mapEqual a b \<longleftrightarrow> length a = length b
     \<and> list_all (\<lambda>(k, v). case map_of b k of Some w \<Rightarrow> item_eq v w | None \<Rightarrow> False) a"

definition child :: "string \<Rightarrow> string \<Rightarrow> string" where
  "child pre name = (if pre \<noteq> [] then pre @ CHR ''.'' # name else name)"

text \<open>The paths of everything present in a message, down to lists, maps, wrappers and scalars.\<close>

primrec collectPresentLeafPaths :: "desc \<Rightarrow> fmsg \<Rightarrow> string \<Rightarrow> string list"
  and collect_field :: "fkind \<Rightarrow> fval option \<Rightarrow> string \<Rightarrow> string list" where
  "collectPresentLeafPaths DNil m pre = []"
| "collectPresentLeafPaths (DField name k d) m pre =
     (if hd m = None then [] else collect_field k (hd m) (pre @ CHR ''.'' # name)) @ collectPresentLeafPaths d (tl m) pre"
| "collect_field FkScalar v p = [p]"
| "collect_field FkWrapper v p = [p]"
| "collect_field (FkList b) v p = [p]"
| "collect_field (FkMap b) v p = [p]"
| "collect_field (FkMsg d) v p = collectPresentLeafPaths d (sub_of d v) p"

primrec compareMessages :: "desc \<Rightarrow> fmsg \<Rightarrow> fmsg \<Rightarrow> string \<Rightarrow> string list"
  and compare_field :: "fkind \<Rightarrow> fval option \<Rightarrow> fval option \<Rightarrow> string \<Rightarrow> string list" where
  "compareMessages DNil orig upd pre = []"
| "compareMessages (DField name k d) orig upd pre =
     compare_field k (hd orig) (hd upd) (child pre name) @ compareMessages d (tl orig) (tl upd) pre"
| "compare_field (FkList b) ov uv p = (if \<not> listEqual (list_of ov) (list_of uv) then [p] else [])"
| "compare_field (FkMap b) ov uv p = (if \<not> mapEqual (fmap_of ov) (fmap_of uv) then [p] else [])"
| "compare_field FkWrapper ov uv p =
     (if (ov \<noteq> None) \<noteq> (uv \<noteq> None) then [p] else if wrap_of ov \<noteq> wrap_of uv then [p] else [])"
| "compare_field (FkMsg d) ov uv p =
     (if ov = None \<and> uv = None then []
      else if ov = None then collectPresentLeafPaths d (sub_of d uv) p
      else compareMessages d (sub_of d ov) (sub_of d uv) p)"
| "compare_field FkScalar ov uv p =
     (if (ov \<noteq> None) \<noteq> (uv \<noteq> None) then [p] else if uv \<noteq> None \<and> ov \<noteq> uv then [p] else [])"

text \<open>Both messages are there and of one type, as the services call it.\<close>

definition GenerateFieldMask :: "desc \<Rightarrow> fmsg \<Rightarrow> fmsg \<Rightarrow> string list" where
  "GenerateFieldMask d original updated = compareMessages d original updated []"

section \<open>Masking\<close>

definition not_a_message :: "string \<Rightarrow> error" where
  "not_a_message name = Errorf (''field '' @ quoted name @ '' is not a message type'')"

definition field_not_found :: "string \<Rightarrow> error" where
  "field_not_found name = Errorf (''field '' @ quoted name @ '' not found in target message'')"

fun ApplyNestedField :: "desc \<Rightarrow> fmsg \<Rightarrow> fmsg \<Rightarrow> string list \<Rightarrow> fmsg res"
  and apply_field :: "string \<Rightarrow> fkind \<Rightarrow> fval option \<Rightarrow> fval option \<Rightarrow> string list \<Rightarrow> fval option res" where
  "ApplyNestedField d target source [] = Ok target"
| "ApplyNestedField DNil target source (n # rest) = Err (field_not_found n)"
| "ApplyNestedField (DField name k d) target source (n # rest) =
     (if n = name then bindR (apply_field name k (hd target) (hd source) rest) (\<lambda>v. Ok (v # tl target))
      else bindR (ApplyNestedField d (tl target) (tl source) (n # rest)) (\<lambda>ts. Ok (hd target # ts)))"
| "apply_field name k t s [] = Ok (if s \<noteq> None then s else t)"
| "apply_field name FkScalar t s (n # rest) = Err (not_a_message name)"
| "apply_field name (FkList b) t s (n # rest) = (if b then Panic ''type mismatch: cannot convert list to message'' else Err (not_a_message name))"
| "apply_field name (FkMap b) t s (n # rest) = Panic ''type mismatch: cannot convert map to message''"
| "apply_field name FkWrapper t s (n # rest) =
     (if n \<noteq> ''value'' then Err (field_not_found n)
      else if rest \<noteq> [] then Err (not_a_message n)
      else Ok (Some (FWrap (if wrap_of s \<noteq> [] then wrap_of s else wrap_of t))))"
| "apply_field name (FkMsg d) t s (n # rest) =
     bindR (ApplyNestedField d (sub_of d t) (sub_of d s) (n # rest)) (\<lambda>m. Ok (Some (FSub m)))"

fun apply_masks :: "desc \<Rightarrow> fmsg \<Rightarrow> fmsg \<Rightarrow> string list list \<Rightarrow> fmsg res" where
  "apply_masks d target source [] = Ok target"
| "apply_masks d target source (p # ps) = bindR (ApplyNestedField d target source p) (\<lambda>t. apply_masks d t source ps)"

text \<open>\<open>None\<close> is the nil mask.\<close>

definition ApplyFieldMaskToNewMessage :: "desc \<Rightarrow> fmsg \<Rightarrow> string list option \<Rightarrow> fmsg res" where
  "ApplyFieldMaskToNewMessage d source fieldMask =
     (case fieldMask of
        None \<Rightarrow> Ok source
      | Some paths \<Rightarrow> apply_masks d (zeros d) source (map (split_on (CHR ''.'')) paths))"

section \<open>Merging\<close>

primrec ClearRepeatedFields :: "desc \<Rightarrow> fmsg \<Rightarrow> fmsg"
  and clear_field :: "fkind \<Rightarrow> fval option \<Rightarrow> fval option" where
  "ClearRepeatedFields DNil m = []"
| "ClearRepeatedFields (DField name k d) m = clear_field k (hd m) # ClearRepeatedFields d (tl m)"
| "clear_field FkScalar v = v"
| "clear_field FkWrapper v = v"
| "clear_field (FkList b) v = None"
| "clear_field (FkMap b) v = v"
| "clear_field (FkMsg d) v = (if v = None then None else Some (FSub (ClearRepeatedFields d (sub_of d v))))"

text \<open>
  \<^verbatim>\<open>proto.Merge\<close>: scalars that are present are copied, lists are appended, maps are merged by key, and
  messages, wrappers among them, are merged in turn.
\<close>

definition merge_maps :: "(string, item) gomap \<Rightarrow> (string, item) gomap \<Rightarrow> (string, item) gomap" where
  "merge_maps a b = foldl (\<lambda>m (k, v). AList.update k v m) a b"

primrec proto_Merge :: "desc \<Rightarrow> fmsg \<Rightarrow> fmsg \<Rightarrow> fmsg"
  and merge_field :: "fkind \<Rightarrow> fval option \<Rightarrow> fval option \<Rightarrow> fval option" where
  "proto_Merge DNil dst src = []"
| "proto_Merge (DField name k d) dst src = merge_field k (hd dst) (hd src) # proto_Merge d (tl dst) (tl src)"
| "merge_field FkScalar t s = (if s \<noteq> None then s else t)"
| "merge_field FkWrapper t s = (if s \<noteq> None then Some (FWrap (if wrap_of s \<noteq> [] then wrap_of s else wrap_of t)) else t)"
| "merge_field (FkList b) t s = (if list_of s \<noteq> [] then Some (FList (list_of t @ list_of s)) else t)"
| "merge_field (FkMap b) t s = (if fmap_of s \<noteq> [] then Some (FMap (merge_maps (fmap_of t) (fmap_of s))) else t)"
| "merge_field (FkMsg d) t s = (if s \<noteq> None then Some (FSub (proto_Merge d (sub_of d t) (sub_of d s))) else t)"

text \<open>
  Setting up a field, if it is a message and absent, and clearing all fields. Of a field with message elements only its
  empty container is made, which does not count as present; no message is returned unless there is no such message
  field.
\<close>

fun ensure_field :: "fkind \<Rightarrow> fval option \<Rightarrow> fval option" where
  "ensure_field FkWrapper None = Some (FWrap [])"
| "ensure_field (FkMsg d) None = Some (FSub (zeros d))"
| "ensure_field _ v = v"

fun message_kind :: "fkind \<Rightarrow> bool" where
  "message_kind FkScalar \<longleftrightarrow> False"
| "message_kind (FkList b) \<longleftrightarrow> b"
| "message_kind _ \<longleftrightarrow> True"

fun EnsureMessageField :: "desc \<Rightarrow> fmsg \<Rightarrow> string \<Rightarrow> bool \<times> fmsg" where
  "EnsureMessageField DNil m fieldName = (True, m)"
| "EnsureMessageField (DField name k d) m fieldName =
     (if name = fieldName then (\<not> message_kind k, ensure_field k (hd m) # tl m)
      else (case EnsureMessageField d (tl m) fieldName of (given, ms) \<Rightarrow> (given, hd m # ms)))"

definition ClearProto :: "desc \<Rightarrow> fmsg \<Rightarrow> fmsg" where
  "ClearProto d m = zeros d"

text \<open>
  What a message type gives to reflection: its descriptor, the fields of a message, and the message of given fields.
  A masked update stays a list of fields until a merge function takes it as a message.
\<close>

record 'm reflection =
  rf_desc :: desc
  rf_to :: "'m \<Rightarrow> fmsg"
  rf_of :: "fmsg \<Rightarrow> 'm"

primrec run_merges :: "('m \<Rightarrow> 'm \<Rightarrow> 'm res) list \<Rightarrow> 'm \<Rightarrow> 'm \<Rightarrow> 'm res" where
  "run_merges [] tmp patch = Ok tmp"
| "run_merges (mergeFunc # mergeFuncs) tmp patch = bindR (mergeFunc tmp patch) (\<lambda>tmp. run_merges mergeFuncs tmp patch)"

definition StrategicMerge :: "'m reflection \<Rightarrow> 'm \<Rightarrow> fmsg \<Rightarrow> ('m \<Rightarrow> 'm \<Rightarrow> 'm res) list \<Rightarrow> 'm res" where
  "StrategicMerge rf base patch mergeFuncs =
     (let patchClone = ClearRepeatedFields (rf_desc rf) patch;
          tmp = rf_of rf (proto_Merge (rf_desc rf) (rf_to rf base) patchClone)
      in run_merges mergeFuncs tmp (rf_of rf patch))"

text \<open>What the services do with a patch.\<close>

definition masked_update :: "'m reflection \<Rightarrow> 'm \<Rightarrow> 'm \<Rightarrow> fmsg res" where
  "masked_update rf existing patch =
     (let genFieldMask = GenerateFieldMask (rf_desc rf) (rf_to rf existing) (rf_to rf patch)
      in ApplyFieldMaskToNewMessage (rf_desc rf) (rf_to rf patch) (Some genFieldMask))"

definition patch_message :: "'m reflection \<Rightarrow> 'm \<Rightarrow> 'm \<Rightarrow> ('m \<Rightarrow> 'm \<Rightarrow> 'm res) list \<Rightarrow> 'm res" where
  "patch_message rf existing patch mergeFuncs =
     bindR (masked_update rf existing patch) (\<lambda>updated. StrategicMerge rf existing updated mergeFuncs)"

section \<open>Paths as lists of names\<close>

primrec leaf_paths :: "desc \<Rightarrow> fmsg \<Rightarrow> string list list"
  and leaf_field :: "fkind \<Rightarrow> fval option \<Rightarrow> string list list" where
  "leaf_paths DNil m = []"
| "leaf_paths (DField name k d) m = map (Cons name) (if hd m = None then [] else leaf_field k (hd m)) @ leaf_paths d (tl m)"
| "leaf_field FkScalar v = [[]]"
| "leaf_field FkWrapper v = [[]]"
| "leaf_field (FkList b) v = [[]]"
| "leaf_field (FkMap b) v = [[]]"
| "leaf_field (FkMsg d) v = leaf_paths d (sub_of d v)"

primrec diff_paths :: "desc \<Rightarrow> fmsg \<Rightarrow> fmsg \<Rightarrow> string list list"
  and diff_field :: "fkind \<Rightarrow> fval option \<Rightarrow> fval option \<Rightarrow> string list list" where
  "diff_paths DNil x y = []"
| "diff_paths (DField name k d) x y = map (Cons name) (diff_field k (hd x) (hd y)) @ diff_paths d (tl x) (tl y)"
| "diff_field (FkList b) x y = (if \<not> listEqual (list_of x) (list_of y) then [[]] else [])"
| "diff_field (FkMap b) x y = (if \<not> mapEqual (fmap_of x) (fmap_of y) then [[]] else [])"
| "diff_field FkWrapper x y = (if (x \<noteq> None) \<noteq> (y \<noteq> None) then [[]] else if wrap_of x \<noteq> wrap_of y then [[]] else [])"
| "diff_field (FkMsg d) x y =
     (if x = None \<and> y = None then [] else if x = None then leaf_paths d (sub_of d y) else diff_paths d (sub_of d x) (sub_of d y))"
| "diff_field FkScalar x y = (if (x \<noteq> None) \<noteq> (y \<noteq> None) then [[]] else if y \<noteq> None \<and> x \<noteq> y then [[]] else [])"

primrec field_names :: "desc \<Rightarrow> string set" where
  "field_names DNil = {}"
| "field_names (DField name k d) = insert name (field_names d)"

text \<open>The names of a message type are distinct and have no dots.\<close>

primrec names_ok :: "desc \<Rightarrow> bool" and kind_ok :: "fkind \<Rightarrow> bool" where
  "names_ok DNil \<longleftrightarrow> True"
| "names_ok (DField name k d) \<longleftrightarrow> name \<noteq> [] \<and> CHR ''.'' \<notin> set name \<and> name \<notin> field_names d \<and> kind_ok k \<and> names_ok d"
| "kind_ok FkScalar \<longleftrightarrow> True"
| "kind_ok FkWrapper \<longleftrightarrow> True"
| "kind_ok (FkList b) \<longleftrightarrow> True"
| "kind_ok (FkMap b) \<longleftrightarrow> True"
| "kind_ok (FkMsg d) \<longleftrightarrow> names_ok d"

definition dotted :: "string list \<Rightarrow> string" where
  "dotted ps = join_on (CHR ''.'') ps"

definition good_path :: "string list \<Rightarrow> bool" where
  "good_path ps \<longleftrightarrow> (\<forall>n \<in> set ps. n \<noteq> [] \<and> CHR ''.'' \<notin> set n)"

lemma dotted_snoc: "ps \<noteq> [] \<Longrightarrow> dotted (ps @ [n]) = dotted ps @ CHR ''.'' # n"
proof (induction ps)
  case (Cons p ps)
  then show ?case by (cases ps) (simp_all add: dotted_def)
qed simp

lemma dotted_Nil_iff: "good_path ps \<Longrightarrow> dotted ps = [] \<longleftrightarrow> ps = []"
proof (cases ps)
  case (Cons p qs)
  then show "good_path ps \<Longrightarrow> ?thesis" by (cases qs) (simp_all add: dotted_def good_path_def)
qed (simp add: dotted_def)

lemma child_dotted: "good_path ps \<Longrightarrow> child (dotted ps) n = dotted (ps @ [n])"
  by (cases "ps = []") (simp_all add: child_def dotted_Nil_iff dotted_snoc, simp add: dotted_def)

lemma split_dotted: "good_path ps \<Longrightarrow> ps \<noteq> [] \<Longrightarrow> split_on (CHR ''.'') (dotted ps) = ps"
  unfolding dotted_def good_path_def by (rule split_on_join) auto

lemma good_path_simps [simp]: "good_path []" "good_path (xs @ ys) \<longleftrightarrow> good_path xs \<and> good_path ys"
  "good_path (n # ys) \<longleftrightarrow> n \<noteq> [] \<and> CHR ''.'' \<notin> set n \<and> good_path ys"
  by (auto simp: good_path_def)

text \<open>The texts of the program are the paths with dots.\<close>

lemma collect_dotted:
  "names_ok d \<Longrightarrow> good_path q \<Longrightarrow> q \<noteq> [] \<Longrightarrow> collectPresentLeafPaths d m (dotted q) = map (\<lambda>p. dotted (q @ p)) (leaf_paths d m)"
  "kind_ok k \<Longrightarrow> good_path q \<Longrightarrow> q \<noteq> [] \<Longrightarrow> collect_field k v (dotted q) = map (\<lambda>p. dotted (q @ p)) (leaf_field k v)"
proof (induction d and k arbitrary: m q and v q)
  case (DField name k d)
  have "dotted q @ CHR ''.'' # name = dotted (q @ [name])" using DField.prems dotted_snoc by metis
  with DField.IH(1) [of "q @ [name]"] DField.IH(2) [of q] DField.prems show ?case by simp
qed simp_all

lemma compare_dotted:
  "names_ok d \<Longrightarrow> good_path q \<Longrightarrow> compareMessages d x y (dotted q) = map (\<lambda>p. dotted (q @ p)) (diff_paths d x y)"
  "kind_ok k \<Longrightarrow> good_path q \<Longrightarrow> q \<noteq> [] \<Longrightarrow> compare_field k v w (dotted q) = map (\<lambda>p. dotted (q @ p)) (diff_field k v w)"
proof (induction d and k arbitrary: x y q and v w q)
  case (DField name k d)
  with child_dotted [of q name] DField.IH(1) [of "q @ [name]"] DField.IH(2) [of q] show ?case by simp
qed (auto simp: collect_dotted)

lemma paths_good:
  "names_ok d \<Longrightarrow> \<forall>p \<in> set (leaf_paths d m). good_path p \<and> p \<noteq> [] \<and> hd p \<in> field_names d"
  "kind_ok k \<Longrightarrow> \<forall>p \<in> set (leaf_field k v). good_path p"
  by (induction d and k arbitrary: m and v) auto

lemma diff_good:
  "names_ok d \<Longrightarrow> \<forall>p \<in> set (diff_paths d x y). good_path p \<and> p \<noteq> [] \<and> hd p \<in> field_names d"
  "kind_ok k \<Longrightarrow> \<forall>p \<in> set (diff_field k v w). good_path p"
  using paths_good by (induction d and k arbitrary: x y and v w) (auto, blast+)

lemma mask_paths:
  assumes "names_ok d"
  shows "map (split_on (CHR ''.'')) (GenerateFieldMask d x y) = diff_paths d x y"
proof -
  have "GenerateFieldMask d x y = map dotted (diff_paths d x y)"
    using compare_dotted(1) [OF assms, of "[]" x y] by (simp add: GenerateFieldMask_def dotted_def)
  then show ?thesis using diff_good(1) [OF assms, of x y] by (auto simp: split_dotted intro: map_idI)
qed

section \<open>What a patch means\<close>

text \<open>
  The specification, without paths. A field of the patch that is there replaces the one of the message, but a wrapper
  with the zero value does not; maps are merged by key; lists stay as they are; messages are
  patched in turn. A message that was absent comes with what the patch has in it, if that is anything.
\<close>

primrec prune :: "desc \<Rightarrow> fmsg \<Rightarrow> fmsg" and prune_field :: "fkind \<Rightarrow> fval option \<Rightarrow> fval option" where
  "prune DNil m = []"
| "prune (DField name k d) m = prune_field k (hd m) # prune d (tl m)"
| "prune_field FkScalar v = v"
| "prune_field FkWrapper v = v"
| "prune_field (FkList b) v = v"
| "prune_field (FkMap b) v = v"
| "prune_field (FkMsg d) v =
     (if v = None \<or> leaf_paths d (sub_of d v) = [] then None else Some (FSub (prune d (sub_of d v))))"

primrec overlay :: "desc \<Rightarrow> fmsg \<Rightarrow> fmsg \<Rightarrow> fmsg" and overlay_field :: "fkind \<Rightarrow> fval option \<Rightarrow> fval option \<Rightarrow> fval option" where
  "overlay DNil x y = []"
| "overlay (DField name k d) x y = overlay_field k (hd x) (hd y) # overlay d (tl x) (tl y)"
| "overlay_field FkScalar x y = (if y \<noteq> None then y else x)"
| "overlay_field FkWrapper x y = (if y \<noteq> None then Some (FWrap (if wrap_of y \<noteq> [] then wrap_of y else wrap_of x)) else x)"
| "overlay_field (FkList b) x y = x"
| "overlay_field (FkMap b) x y = (if fmap_of y \<noteq> [] then Some (FMap (merge_maps (fmap_of x) (fmap_of y))) else x)"
| "overlay_field (FkMsg d) x y =
     (if x \<noteq> None then Some (FSub (overlay d (sub_of d x) (sub_of d y)))
      else clear_field (FkMsg d) (prune_field (FkMsg d) y))"

text \<open>Messages that fit their descriptor: no list or map is present and empty.\<close>

primrec typed :: "desc \<Rightarrow> fmsg \<Rightarrow> bool" and typed_field :: "fkind \<Rightarrow> fval option \<Rightarrow> bool" where
  "typed DNil m \<longleftrightarrow> m = []"
| "typed (DField name k d) m \<longleftrightarrow> m \<noteq> [] \<and> typed_field k (hd m) \<and> typed d (tl m)"
| "typed_field FkScalar v \<longleftrightarrow> v = None \<or> (\<exists>s. v = Some (FScalar s))"
| "typed_field FkWrapper v \<longleftrightarrow> v = None \<or> (\<exists>s. v = Some (FWrap s))"
| "typed_field (FkList b) v \<longleftrightarrow> v = None \<or> (\<exists>xs. v = Some (FList xs) \<and> xs \<noteq> [])"
| "typed_field (FkMap b) v \<longleftrightarrow> v = None \<or> (\<exists>m. v = Some (FMap m) \<and> m \<noteq> [] \<and> distinct (map fst m))"
| "typed_field (FkMsg d) v \<longleftrightarrow> v = None \<or> v = Some (FSub (sub_of d v)) \<and> typed d (sub_of d v)"

lemma typed_zeros [simp]: "typed d (zeros d)" and typed_absent [simp]: "typed_field k None"
  by (induction d and k) simp_all

lemma typed_sub: "typed_field (FkMsg d) v \<Longrightarrow> typed d (sub_of d v)"
  by (cases v) auto

section \<open>Masking and merging step by step\<close>

fun apply_fold :: "string \<Rightarrow> fkind \<Rightarrow> fval option \<Rightarrow> fval option \<Rightarrow> string list list \<Rightarrow> fval option res" where
  "apply_fold name k t s [] = Ok t"
| "apply_fold name k t s (p # ps) = bindR (apply_field name k t s p) (\<lambda>t. apply_fold name k t s ps)"

lemma apply_masks_tail:
  assumes "\<forall>p \<in> set P. p \<noteq> [] \<and> hd p \<noteq> name"
  shows "apply_masks (DField name k d) (t # ts) (s # ss) P = bindR (apply_masks d ts ss P) (\<lambda>ts. Ok (t # ts))"
  using assms
proof (induction P arbitrary: ts)
  case (Cons p P)
  then obtain n rest where "p = n # rest" "n \<noteq> name" by (cases p) auto
  with Cons show ?case by (cases "ApplyNestedField d ts ss p") auto
qed simp

lemma apply_masks_head:
  assumes "\<forall>p \<in> set P. p \<noteq> [] \<and> hd p \<noteq> name"
  shows "apply_masks (DField name k d) (t # ts) (s # ss) (map (Cons name) Q @ P) =
    bindR (apply_fold name k t s Q) (\<lambda>v. bindR (apply_masks d ts ss P) (\<lambda>ts. Ok (v # ts)))"
proof (induction Q arbitrary: t)
  case Nil
  show ?case using apply_masks_tail [OF assms] by simp
next
  case (Cons q Q)
  show ?case by (cases "apply_field name k t s q") (simp_all add: Cons.IH)
qed

lemma apply_fold_msg:
  assumes "\<forall>p \<in> set P. p \<noteq> []"
  shows "apply_fold name (FkMsg d) t s P =
    (if P = [] then Ok t else bindR (apply_masks d (sub_of d t) (sub_of d s) P) (\<lambda>m. Ok (Some (FSub m))))"
  using assms
proof (induction P arbitrary: t)
  case (Cons p P)
  then obtain n rest where p: "p = n # rest" by (cases p) auto
  show ?case
  proof (cases "ApplyNestedField d (sub_of d t) (sub_of d s) p")
    case (Ok m)
    with Cons p show ?thesis by (cases "P = []") simp_all
  qed (use p in simp_all)
qed simp

text \<open>Applying all leaf paths keeps what a message has, but for empty messages in it.\<close>

lemma apply_leaves:
  "names_ok d \<Longrightarrow> typed d m \<Longrightarrow> apply_masks d (zeros d) m (leaf_paths d m) = Ok (prune d m)"
  "kind_ok k \<Longrightarrow> typed_field k v \<Longrightarrow> apply_fold name k None v (if v = None then [] else leaf_field k v) = Ok (prune_field k v)"
proof (induction d and k arbitrary: m and v name)
  case (DField name k d)
  let ?Q = "if hd m = None then [] else leaf_field k (hd m)"
  from DField.prems(2) obtain v ms where m: "m = v # ms" by (cases m) auto
  have "\<forall>p \<in> set (leaf_paths d ms). p \<noteq> [] \<and> hd p \<noteq> name" using paths_good(1) [of d ms] DField.prems(1) by auto
  from apply_masks_head [OF this, of k d None "zeros d" v ms "if v = None then [] else leaf_field k v"]
    DField.IH(1) [of v name] DField.IH(2) [of ms] DField.prems show ?case by (cases v) (simp_all add: m)
next
  case (FkMsg d)
  have "\<forall>p \<in> set (if v = None then [] else leaf_field (FkMsg d) v). p \<noteq> []" using paths_good(1) [of d] FkMsg.prems(1) by auto
  from apply_fold_msg [OF this, of name d None v] FkMsg.IH [of "sub_of d v"] FkMsg.prems show ?case
    by (cases "v = None") (auto simp: typed_sub)
qed auto

text \<open>Merging into an empty message copies it.\<close>

lemma merge_maps_Nil: "distinct (map fst m) \<Longrightarrow> merge_maps [] m = m"
proof (induction m rule: rev_induct)
  case (snoc kv m)
  then have "fst kv \<notin> set (map fst m)" by simp
  then have "AList.update (fst kv) (snd kv) m = m @ [kv]" by (induction m) auto
  with snoc show ?case by (simp add: merge_maps_def case_prod_unfold)
qed (simp add: merge_maps_def)

lemma merge_into_zeros:
  "typed d m \<Longrightarrow> proto_Merge d (zeros d) (ClearRepeatedFields d m) = ClearRepeatedFields d m"
  "typed_field k v \<Longrightarrow> merge_field k None (clear_field k v) = clear_field k v"
  by (induction d and k arbitrary: m and v) (auto simp: merge_maps_Nil)

lemma prune_typed: "typed d m \<Longrightarrow> typed d (prune d m)" "typed_field k v \<Longrightarrow> typed_field k (prune_field k v)"
  by (induction d and k arbitrary: m and v) (auto simp: typed_sub)

lemma item_eq_same: "item_eq a b \<Longrightarrow> a = b"
  by (cases a; cases b) simp_all

lemma merge_maps_triv: "(\<And>k v. (k, v) \<in> set b \<Longrightarrow> map_of a k = Some v) \<Longrightarrow> merge_maps a b = a"
  unfolding merge_maps_def
proof (induction b)
  case (Cons kv b)
  then have "AList.update (fst kv) (snd kv) a = a" by (intro update_triv) auto
  with Cons show ?case by (simp add: case_prod_unfold)
qed simp

lemma merge_maps_same:
  assumes "mapEqual a b" and "distinct (map fst a)" and "distinct (map fst b)"
  shows "merge_maps a b = a"
proof (rule merge_maps_triv)
  fix k w assume kw: "(k, w) \<in> set b"
  from assms(1) have len: "length a = length b"
    and eq: "\<And>k v. (k, v) \<in> set a \<Longrightarrow> \<exists>w. map_of b k = Some w \<and> v = w"
    by (auto simp: mapEqual_def list_all_iff dest!: item_eq_same split: option.splits)
  have "set (map fst a) \<subseteq> set (map fst b)" using eq by (force dest: map_of_SomeD)
  moreover have "card (set (map fst a)) = card (set (map fst b))" using len assms(2,3) by (simp add: distinct_card del: set_map)
  ultimately have "set (map fst a) = set (map fst b)" by (metis card_subset_eq List.finite_set)
  with kw obtain v where v: "(k, v) \<in> set a" by force
  from eq [OF this] kw assms(3) have "v = w" by auto
  with v assms(2) show "map_of a k = Some w" by simp
qed

lemma merge_zeros: "typed d x \<Longrightarrow> proto_Merge d x (ClearRepeatedFields d (zeros d)) = x"
  "merge_field k v (clear_field k None) = v"
proof (induction d and k arbitrary: x and v)
  case (DField name k d)
  then show ?case by (cases x) simp_all
qed simp_all

lemma diff_overlay:
  "names_ok d \<Longrightarrow> typed d x \<Longrightarrow> typed d y \<Longrightarrow>
    \<exists>m. apply_masks d (zeros d) y (diff_paths d x y) = Ok m \<and> proto_Merge d x (ClearRepeatedFields d m) = overlay d x y"
  "kind_ok k \<Longrightarrow> typed_field k v \<Longrightarrow> typed_field k w \<Longrightarrow>
    \<exists>m. apply_fold name k None w (diff_field k v w) = Ok m \<and> merge_field k v (clear_field k m) = overlay_field k v w"
proof (induction d and k arbitrary: x y and v w name)
  case (DField name k d)
  from DField.prems obtain v xs w ys where m: "x = v # xs" "y = w # ys" by (cases x; cases y) auto
  have P: "\<forall>p \<in> set (diff_paths d xs ys). p \<noteq> [] \<and> hd p \<noteq> name" using diff_good(1) [of d xs ys] DField.prems(1) by auto
  from DField.IH(1) [of v w name] DField.IH(2) [of xs ys] DField.prems obtain m1 m2 where
    "apply_fold name k None w (diff_field k v w) = Ok m1" "merge_field k v (clear_field k m1) = overlay_field k v w"
    "apply_masks d (zeros d) ys (diff_paths d xs ys) = Ok m2" "proto_Merge d xs (ClearRepeatedFields d m2) = overlay d xs ys"
    by (auto simp: m)
  with apply_masks_head [OF P, of k d None "zeros d" w ys "diff_field k v w"] show ?case by (simp add: m)
next
  case (FkMsg d)
  then have ok: "names_ok d" by simp
  note ty = typed_sub [OF FkMsg.prems(2)] typed_sub [OF FkMsg.prems(3)]
  show ?case
  proof (cases "v = None")
    case True
    have P: "\<forall>p \<in> set (if w = None then [] else leaf_paths d (sub_of d w)). p \<noteq> []" using paths_good(1) [OF ok] by auto
    from True apply_fold_msg [OF P, of name d None w] apply_leaves(1) [OF ok ty(2)] merge_into_zeros(1) [OF prune_typed(1) [OF ty(2)]] show ?thesis by auto
  next
    case False
    let ?P = "diff_paths d (sub_of d v) (sub_of d w)"
    have P: "\<forall>p \<in> set ?P. p \<noteq> []" using diff_good(1) [OF ok] by auto
    from FkMsg.IH [OF ok ty] obtain m where m: "apply_masks d (zeros d) (sub_of d w) ?P = Ok m"
      "proto_Merge d (sub_of d v) (ClearRepeatedFields d m) = overlay d (sub_of d v) (sub_of d w)" by blast
    from False FkMsg.prems(2) have v: "v = Some (FSub (sub_of d v))" by auto
    show ?thesis
    proof (cases "?P = []")
      case True
      with m merge_zeros(1) [OF ty(1)] have "overlay d (sub_of d v) (sub_of d w) = sub_of d v" by simp
      moreover from v obtain sv where "v = Some (FSub sv)" by blast
      ultimately show ?thesis using True by simp
    next
      case nonempty: False
      from v obtain sv where "v = Some (FSub sv)" by blast
      with nonempty m apply_fold_msg [OF P, of name d None w] show ?thesis by simp
    qed
  qed
next
  case (FkMap b)
  then show ?case by (cases v; cases w) (auto simp: merge_maps_same, auto simp: mapEqual_def)
qed auto

text \<open>A message and a patch that fit their descriptor.\<close>

definition patchable :: "'m reflection \<Rightarrow> 'm \<Rightarrow> 'm \<Rightarrow> bool" where
  "patchable rf existing patch \<longleftrightarrow>
     names_ok (rf_desc rf) \<and> typed (rf_desc rf) (rf_to rf existing) \<and> typed (rf_desc rf) (rf_to rf patch)"

definition patched :: "'m reflection \<Rightarrow> 'm \<Rightarrow> 'm \<Rightarrow> 'm" where
  "patched rf existing patch = rf_of rf (overlay (rf_desc rf) (rf_to rf existing) (rf_to rf patch))"

lemma patch_message_runs:
  assumes "patchable rf existing patch"
  shows "\<exists>m. masked_update rf existing patch = Ok m
    \<and> patch_message rf existing patch fs = run_merges fs (patched rf existing patch) (rf_of rf m)"
proof -
  note ok = assms [unfolded patchable_def, THEN conjunct1]
  from diff_overlay(1) [of "rf_desc rf" "rf_to rf existing" "rf_to rf patch"] assms obtain m where
    "apply_masks (rf_desc rf) (zeros (rf_desc rf)) (rf_to rf patch) (diff_paths (rf_desc rf) (rf_to rf existing) (rf_to rf patch)) = Ok m"
    "proto_Merge (rf_desc rf) (rf_to rf existing) (ClearRepeatedFields (rf_desc rf) m) = overlay (rf_desc rf) (rf_to rf existing) (rf_to rf patch)"
    by (auto simp: patchable_def)
  then show ?thesis
    by (simp add: patch_message_def masked_update_def ApplyFieldMaskToNewMessage_def mask_paths [OF ok] StrategicMerge_def patched_def Let_def)
qed

lemma patch_message_plain: "patchable rf existing patch \<Longrightarrow> patch_message rf existing patch [] = Ok (patched rf existing patch)"
  using patch_message_runs [of rf existing patch "[]"] by auto

section \<open>Properties\<close>

text \<open>
  C34. A patch overlays a message. Comparing, masking and merging, as the services do for a patch, succeeds and
  gives what the specification says field by field, whatever paths were compared: present fields of the patch win,
  maps are merged by key, lists are left for the given functions to merge, and nothing of the message is lost.
\<close>

theorem patch_overlays:
  assumes "names_ok (rf_desc rf)" and "typed (rf_desc rf) (rf_to rf existing)" and "typed (rf_desc rf) (rf_to rf patch)"
  shows "patch_message rf existing patch [] = Ok (rf_of rf (overlay (rf_desc rf) (rf_to rf existing) (rf_to rf patch)))"
  using assms patch_message_plain [of rf existing patch] by (simp add: patchable_def patched_def)

definition small_rf :: "fmsg reflection" where
  "small_rf = \<lparr>rf_desc = DField ''meta'' (FkMsg (DField ''name'' FkScalar (DField ''labels'' (FkMap False) DNil)))
     (DField ''config'' (FkMsg (DField ''image'' FkScalar (DField ''args'' (FkList False) DNil))) (DField ''reason'' FkWrapper DNil)),
     rf_to = (\<lambda>m. m), rf_of = (\<lambda>m. m)\<rparr>"

theorem patch_overlays_witness:
  "patch_message small_rf
     [Some (FSub [Some (FScalar ''web''), Some (FMap [(''a'', IScalar ''1'')])]), None, Some (FWrap ''old'')]
     [Some (FSub [None, Some (FMap [(''b'', IScalar ''2'')])]), Some (FSub [Some (FScalar ''nginx''), Some (FList [IScalar ''x''])]), Some (FWrap [])] []
   = Ok [Some (FSub [Some (FScalar ''web''), Some (FMap [(''a'', IScalar ''1''), (''b'', IScalar ''2'')])]),
         Some (FSub [Some (FScalar ''nginx''), None]), Some (FWrap ''old'')]"
proof -
  let ?o = "[Some (FSub [Some (FScalar ''web''), Some (FMap [(''a'', IScalar ''1'')])]), None, Some (FWrap ''old'')]"
  let ?p = "[Some (FSub [None, Some (FMap [(''b'', IScalar ''2'')])]), Some (FSub [Some (FScalar ''nginx''), Some (FList [IScalar ''x''])]), Some (FWrap [])]"
  have "names_ok (rf_desc small_rf)" "typed (rf_desc small_rf) (rf_to small_rf ?o)" "typed (rf_desc small_rf) (rf_to small_rf ?p)"
    by (simp_all add: small_rf_def)
  from patch_overlays [OF this] show ?thesis by (simp add: small_rf_def merge_maps_def)
qed

text \<open>A wrapper cannot be patched back to its zero value.\<close>

theorem patch_keeps_wrapper: "overlay_field FkWrapper (Some (FWrap s)) (Some (FWrap [])) = Some (FWrap s)"
  by simp

end
