(* ===== verification/Patch.thy ===== *)
theory Patch
  imports ProtoReflect VolumeService Clients
begin

text \<open>
  Patching resources: the \<^verbatim>\<open>Patch\<close> operations of the services of internal/app, their gRPC handlers and the client of
  tasks. What reflection shows of a message type is a parameter (\<open>reflection\<close>). As in the updates, \<^verbatim>\<open>changed\<close> holds
  what \<^verbatim>\<open>SpecEqual\<close> returned; here it compares the message that is stored with what was stored.
\<close>

section \<open>Lists of a task\<close>

definition merge_env :: "EnvVar \<Rightarrow> EnvVar \<Rightarrow> EnvVar" where
  "merge_env b p = (if env_Value p \<noteq> [] then b\<lparr>env_Value := env_Value p\<rparr> else b)"

definition merge_port :: "PortMapping \<Rightarrow> PortMapping \<Rightarrow> PortMapping" where
  "merge_port b p = (if pm_TargetPort p \<noteq> 0 then p else b)"

definition merge_arg :: "string \<Rightarrow> string \<Rightarrow> string" where
  "merge_arg b p = (if p \<noteq> [] then p else b)"

text \<open>One merge function: nothing to do without a configuration in the patch; a base without one is dereferenced.\<close>

definition on_config :: "(TaskConfig \<Rightarrow> TaskConfig \<Rightarrow> TaskConfig) \<Rightarrow> Task \<Rightarrow> Task \<Rightarrow> Task res" where
  "on_config f b p =
     (case task_Config p of
        None \<Rightarrow> Ok b
      | Some pc \<Rightarrow>
          (case task_Config b of
             None \<Rightarrow> Panic ''nil pointer dereference''
           | Some bc \<Rightarrow> Ok (b\<lparr>task_Config := Some (f bc pc)\<rparr>)))"

definition merge_funcs :: "(Task \<Rightarrow> Task \<Rightarrow> Task res) list" where
  "merge_funcs = [
     on_config (\<lambda>b p. b\<lparr>tc_Envvars := MergeSlices (tc_Envvars b) (tc_Envvars p) env_Name merge_env\<rparr>),
     on_config (\<lambda>b p. b\<lparr>tc_PortMappings := MergeSlices (tc_PortMappings b) (tc_PortMappings p) pm_Name merge_port\<rparr>),
     on_config (\<lambda>b p. b\<lparr>tc_Mounts := MergeSlices (tc_Mounts b) (tc_Mounts p) mnt_Name (\<lambda>_ p. p)\<rparr>),
     on_config (\<lambda>b p. b\<lparr>tc_Args := MergeSlices (tc_Args b) (tc_Args p) (\<lambda>e. e) merge_arg\<rparr>)]"

definition merge_task :: "Task reflection \<Rightarrow> Task \<Rightarrow> fmsg \<Rightarrow> Task res" where
  "merge_task rf base patch = StrategicMerge rf base patch merge_funcs"

section \<open>The services\<close>

definition TaskService_Patch ::
  "Task reflection \<Rightarrow> ('s, 'u, 'w) TaskService \<Rightarrow> ctx \<Rightarrow> svc_env \<Rightarrow> ID \<Rightarrow> Task \<Rightarrow> 's \<times> 'w \<Rightarrow> unit res \<times> ('s \<times> 'w)"
where
  "TaskService_Patch rf l ctx env i patch st =
     andThen (reading (Repo_Get (tsv_Repo l) ctx i) st) (\<lambda>existing st.
     andThen (masked_update rf existing patch, st) (\<lambda>updated st.
     andThen (merge_task rf existing updated, st) (\<lambda>existing st.
     andThen (on_store (Repo_Update (tsv_Repo l) ctx (sv_t1 env) i existing) st) (\<lambda>(task, existing) st.
     let changed = SpecEqual (opt_Equal TaskConfig_Equal) (\<lambda>(_::unit) _. False) None (task_Config existing) (task_Config task)
     in if changed
        then bus_Publish (tsv_Exchange l) ctx (NewEvent (sv_event env) TaskPatch (AnyTask task) []) st
        else (Ok (), st)))))"

definition NodeService_Patch ::
  "Node reflection \<Rightarrow> ('s, 'u, 'w) NodeService \<Rightarrow> ctx \<Rightarrow> svc_env \<Rightarrow> ID \<Rightarrow> Node \<Rightarrow> 's \<times> 'w \<Rightarrow> unit res \<times> ('s \<times> 'w)"
where
  "NodeService_Patch rf l ctx env i patch st =
     andThen (reading (Repo_Get (nsv_Repo l) ctx i) st) (\<lambda>existing st.
     andThen (masked_update rf existing patch, st) (\<lambda>updated st.
     andThen (StrategicMerge rf existing updated [], st) (\<lambda>existing st.
     andThen (on_store (Repo_Update (nsv_Repo l) ctx (sv_t1 env) i existing) st) (\<lambda>(node, existing) st.
     let changed = SpecEqual (opt_Equal NodeConfig_Equal) (\<lambda>(_::unit) _. False) None (node_Config existing) (node_Config node)
     in if changed
        then bus_Forward (nsv_Exchange l) ctx (NewEvent (sv_event env) NodePatch (AnyNode node) []) st
        else (Ok (), st)))))"

definition VolumeService_Patch ::
  "Volume reflection \<Rightarrow> ('s, 'u, 'w) VolumeService \<Rightarrow> ctx \<Rightarrow> svc_env \<Rightarrow> ID \<Rightarrow> Volume \<Rightarrow> 's \<times> 'w \<Rightarrow> unit res \<times> ('s \<times> 'w)"
where
  "VolumeService_Patch rf l ctx env i patch st =
     andThen (reading (Repo_Get (vsv_Repo l) ctx i) st) (\<lambda>existing st.
     andThen (masked_update rf existing patch, st) (\<lambda>updated st.
     andThen (StrategicMerge rf existing updated [], st) (\<lambda>existing st.
     andThen (on_store (Repo_Update (vsv_Repo l) ctx (sv_t1 env) i existing) st) (\<lambda>(volume, existing) st.
     let changed = SpecEqual (opt_Equal VolConfig_Equal) (\<lambda>(_::unit) _. False) None (vol_Config existing) (vol_Config volume)
     in if changed
        then bus_Forward (vsv_Exchange l) ctx (NewEvent (sv_event env) VolumePatch (AnyVolume volume) []) st
        else (Ok (), st)))))"

section \<open>Handlers and client\<close>

definition grpc_Task_Patch ::
  "Task reflection \<Rightarrow> ('s, 'u, 'w) TaskService \<Rightarrow> ctx \<Rightarrow> svc_env \<Rightarrow> string \<Rightarrow> string \<Rightarrow> Task \<Rightarrow> 's \<times> 'w \<Rightarrow> Task res \<times> ('s \<times> 'w)" where
  "grpc_Task_Patch rf l ctx env uid name task st =
     orStatus (tsv_errs l) zero_Task (keys_FromUIDOrName (tsv_uuid l) uid name, st) (\<lambda>i st.
     orStatus (tsv_errs l) zero_Task (TaskService_Patch rf l ctx env i task st) (\<lambda>_ st.
     orStatus (tsv_errs l) zero_Task (TaskService_Get l ctx i st) (\<lambda>task st. (Ok task, st))))"

definition grpc_Node_Patch ::
  "Node reflection \<Rightarrow> ('s, 'u, 'w) NodeService \<Rightarrow> ctx \<Rightarrow> svc_env \<Rightarrow> string \<Rightarrow> string \<Rightarrow> Node \<Rightarrow> 's \<times> 'w \<Rightarrow> Node res \<times> ('s \<times> 'w)" where
  "grpc_Node_Patch rf l ctx env uid name node st =
     orStatus (nsv_errs l) zero_Node (keys_FromUIDOrName (nsv_uuid l) uid name, st) (\<lambda>i st.
     orStatus (nsv_errs l) zero_Node (NodeService_Patch rf l ctx env i node st) (\<lambda>_ st.
     orStatus (nsv_errs l) zero_Node (NodeService_Get l ctx i st) (\<lambda>node st. (Ok node, st))))"

text \<open>The stub's \<^verbatim>\<open>Patch\<close> is the first argument.\<close>

definition taskClient_Patch ::
  "(ctx \<Rightarrow> string \<Rightarrow> string \<Rightarrow> Task \<Rightarrow> 'x \<Rightarrow> Task res \<times> 'x) \<Rightarrow> uuid_lib \<Rightarrow> ctx \<Rightarrow> string \<Rightarrow> Task \<Rightarrow> 'x \<Rightarrow> unit res \<times> 'x" where
  "taskClient_Patch stub ul ctx i ctr st = no_value (by_text ul i (\<lambda>uid name. stub ctx uid name ctr) st)"

section \<open>What is stored\<close>

lemma opt_Equal_same [simp]: "(\<And>c. eq c c) \<Longrightarrow> opt_Equal eq a a"
  by (cases a) (simp_all add: opt_Equal_def)

lemma configs_same [simp]: "NodeConfig_Equal c c" "VolConfig_Equal d d" "TaskConfig_Equal e e"
  by (simp_all add: NodeConfig_Equal_def VolConfig_Equal_def TaskConfig_Equal_def map_eq_iff)

lemma masked_merged: "andThen (masked_update rf x p, st) (\<lambda>u st. andThen (StrategicMerge rf x u fs, st) f) =
  andThen (patch_message rf x p fs, st) f"
  by (cases "masked_update rf x p") (simp_all add: patch_message_def)

lemma merge_funcs_run:
  assumes "task_Config b = Some c" and "task_Config p = Some q"
  shows "run_merges merge_funcs b p = Ok (b\<lparr>task_Config := Some (c\<lparr>
      tc_Envvars := MergeSlices (tc_Envvars c) (tc_Envvars q) env_Name merge_env,
      tc_PortMappings := MergeSlices (tc_PortMappings c) (tc_PortMappings q) pm_Name merge_port,
      tc_Mounts := MergeSlices (tc_Mounts c) (tc_Mounts q) mnt_Name (\<lambda>_ p. p),
      tc_Args := MergeSlices (tc_Args c) (tc_Args q) (\<lambda>e. e) merge_arg\<rparr>)\<rparr>)"
  using assms by (simp add: merge_funcs_def on_config_def)

context volume_service
begin

lemma Patch_stores_and_forwards:
  assumes "codec_roundtrip (repo_codec (vsv_Repo l))"
    and rel: "repo_rel (vsv_Repo l) (content s) A" and "repo_wf A" and wf: "wf_ID i"
    and old: "spec_Get A i = Ok old" and om: "vol_Meta old = Some em" and ok: "patchable rf old p"
    and meta: "vol_Meta (patched rf old p) = Some m"
    and t: "t = (patched rf old p)\<lparr>vol_Meta := Some (preserve_meta em (sv_t1 env) m)\<rparr>"
    and mar: "proto_Marshal (repo_codec (vsv_Repo l)) t = Ok b"
  shows "\<exists>s'. VolumeService_Patch rf l None env i p (s, w) =
      bus_Forward (vsv_Exchange l) None (NewEvent (sv_event env) VolumePatch (AnyVolume t) []) (s', w)
    \<and> repo_rel (vsv_Repo l) (content s') (spec_Update A i t) \<and> repo_wf (spec_Update A i t)"
proof -
  have ms: "msg_Meta (repo_msg (vsv_Repo l)) old = Some em" "msg_Meta (repo_msg (vsv_Repo l)) (patched rf old p) = Some m"
    using om meta by (simp_all add: volume_messages Volume_msg_def)
  have tt: "t = msg_setMeta (repo_msg (vsv_Repo l)) (preserve_meta em (sv_t1 env) m) (patched rf old p)"
    by (simp add: t volume_messages Volume_msg_def)
  have "Codec_Decode (vsv_Repo l) b = Ok t" using assms(1) mar by (simp add: codec_roundtrip_def Codec_Decode_def)
  from Update_refines [OF rel wf old ms tt mar this] obtain s' where
    "Repo_Update (vsv_Repo l) None (sv_t1 env) i (patched rf old p) s = (Ok (t, t), s')" "repo_rel (vsv_Repo l) (content s') (spec_Update A i t)"
    by blast
  then show ?thesis
    using repo_wf_Update [OF assms(3)] Get_refines [OF rel wf] old
    by (intro exI [of _ s']) (simp add: VolumeService_Patch_def SpecEqual_def Let_def masked_merged patch_message_plain [OF ok])
qed

end

context node_service
begin

lemma Patch_stores_and_forwards:
  assumes "codec_roundtrip (repo_codec (nsv_Repo l))"
    and rel: "repo_rel (nsv_Repo l) (content s) A" and "repo_wf A" and wf: "wf_ID i"
    and old: "spec_Get A i = Ok old" and om: "node_Meta old = Some em" and ok: "patchable rf old p"
    and meta: "node_Meta (patched rf old p) = Some m"
    and t: "t = (patched rf old p)\<lparr>node_Meta := Some (preserve_meta em (sv_t1 env) m)\<rparr>"
    and mar: "proto_Marshal (repo_codec (nsv_Repo l)) t = Ok b"
  shows "\<exists>s'. NodeService_Patch rf l None env i p (s, w) =
      bus_Forward (nsv_Exchange l) None (NewEvent (sv_event env) NodePatch (AnyNode t) []) (s', w)
    \<and> repo_rel (nsv_Repo l) (content s') (spec_Update A i t) \<and> repo_wf (spec_Update A i t)"
proof -
  have ms: "msg_Meta (repo_msg (nsv_Repo l)) old = Some em" "msg_Meta (repo_msg (nsv_Repo l)) (patched rf old p) = Some m"
    using om meta by (simp_all add: node_messages Node_msg_def)
  have tt: "t = msg_setMeta (repo_msg (nsv_Repo l)) (preserve_meta em (sv_t1 env) m) (patched rf old p)"
    by (simp add: t node_messages Node_msg_def)
  have "Codec_Decode (nsv_Repo l) b = Ok t" using assms(1) mar by (simp add: codec_roundtrip_def Codec_Decode_def)
  from Update_refines [OF rel wf old ms tt mar this] obtain s' where
    "Repo_Update (nsv_Repo l) None (sv_t1 env) i (patched rf old p) s = (Ok (t, t), s')" "repo_rel (nsv_Repo l) (content s') (spec_Update A i t)"
    by blast
  then show ?thesis
    using repo_wf_Update [OF assms(3)] Get_refines [OF rel wf] old
    by (intro exI [of _ s']) (simp add: NodeService_Patch_def SpecEqual_def Let_def masked_merged patch_message_plain [OF ok])
qed

end

section \<open>Properties\<close>

text \<open>
  Patching a node: what is stored is the old node overlaid with the patch, with the identity of the old one and its
  generation advanced; whether or not the configuration changed, a NodePatch event with the stored node is
  forwarded.
\<close>

theorem node_patch_stored:
  assumes "node_service l content tcontent tinv" and "codec_roundtrip (repo_codec (nsv_Repo l))"
    and "repo_rel (nsv_Repo l) (content s) A" and "repo_wf A" and "wf_ID i"
    and "spec_Get A i = Ok old" and "node_Meta old = Some em" and "patchable rf old p"
    and "node_Meta (patched rf old p) = Some m"
    and "t = (patched rf old p)\<lparr>node_Meta := Some (preserve_meta em (sv_t1 env) m)\<rparr>"
    and "proto_Marshal (repo_codec (nsv_Repo l)) t = Ok b"
  shows "\<exists>s'. NodeService_Patch rf l None env i p (s, w) =
      bus_Forward (nsv_Exchange l) None (NewEvent (sv_event env) NodePatch (AnyNode t) []) (s', w)
    \<and> repo_rel (nsv_Repo l) (content s') (spec_Update A i t) \<and> repo_wf (spec_Update A i t)"
  using node_service.Patch_stores_and_forwards [OF assms] .

text \<open>A node with labels, seen through its version, name and labels.\<close>

definition label_rf :: "Node reflection" where
  "label_rf = \<lparr>
     rf_desc = DField ''version'' FkScalar (DField ''meta'' (FkMsg (DField ''name'' FkScalar (DField ''labels'' (FkMap False) DNil))) DNil),
     rf_to = (\<lambda>n. [if node_Version n = [] then None else Some (FScalar (node_Version n)),
        map_option (\<lambda>m. FSub [if meta_Name m = [] then None else Some (FScalar (meta_Name m)),
          if meta_Labels m = [] then None else Some (FMap (map (\<lambda>(k, v). (k, IScalar v)) (meta_Labels m)))]) (node_Meta n)]),
     rf_of = (\<lambda>f. \<lparr>node_Version = (case f ! 0 of Some (FScalar v) \<Rightarrow> v | _ \<Rightarrow> []),
        node_Meta = (case f ! 1 of Some (FSub [n, ls]) \<Rightarrow>
          Some (empty_Meta\<lparr>meta_Name := (case n of Some (FScalar v) \<Rightarrow> v | _ \<Rightarrow> []),
            meta_Labels := map (\<lambda>(k, v). (k, case v of IScalar x \<Rightarrow> x | _ \<Rightarrow> [])) (fmap_of ls)\<rparr>) | _ \<Rightarrow> None),
        node_Config = None, node_Status = None\<rparr>)\<rparr>"

definition gamma :: "label \<Rightarrow> Meta \<Rightarrow> Node" where
  "gamma ls m = \<lparr>node_Version = ''node/v1'', node_Meta = Some (m\<lparr>meta_Name := ''gamma'', meta_Labels := ls\<rparr>), node_Config = None, node_Status = None\<rparr>"

definition gamma_old :: Node where
  "gamma_old = gamma [(''zone'', ''a'')] (empty_Meta\<lparr>meta_Uid := sample_uid\<rparr>)"

definition gamma_new :: Node where
  "gamma_new = gamma [(''zone'', ''a''), (''env'', ''prod'')]
     (empty_Meta\<lparr>meta_Uid := sample_uid, meta_Updated := Some 7, meta_ResourceVersion := 1, meta_Generation := 1\<rparr>)"

definition gamma_patch :: Node where
  "gamma_patch = \<lparr>node_Version = [], node_Meta = Some (empty_Meta\<lparr>meta_Labels := [(''env'', ''prod'')]\<rparr>), node_Config = None, node_Status = None\<rparr>"

definition gamma_codec :: "Node codec" where
  "gamma_codec = table_codec [(gamma_old, ''G1''), (gamma_new, ''G2'')]"

definition gamma_id :: ID where
  "gamma_id = \<lparr>tag = TagName, raw = ''gamma''\<rparr>"

definition gamma_store :: mem where
  "gamma_store = [(uid_key (NewNodeRepo inmemory gamma_codec) sample_uid, ''G1''),
     (idx_key (NewNodeRepo inmemory gamma_codec) ''gamma'', uid_value sample_uid),
     (name_key (NewNodeRepo inmemory gamma_codec) ''gamma'', uid_value sample_uid)]"

definition gamma_state :: "Node repo_state" where
  "gamma_state = spec_Create empty_repo sample_uid ''gamma'' gamma_old"

abbreviation (input) gamma_nodes :: "(mem, updateTxn, NodeSessionManager \<times> Event list) NodeService" where
  "gamma_nodes \<equiv> server_nodes gamma_codec sample_libs mem_rec_bus (Some events_bus) 0 ''f1'' ''f2''"

lemma gamma_facts:
  "codec_roundtrip gamma_codec" "proto_Marshal gamma_codec gamma_new = Ok ''G2''"
  "repo_rel (NewNodeRepo inmemory gamma_codec) (map_of gamma_store) gamma_state" "repo_wf gamma_state"
  "spec_Get gamma_state gamma_id = Ok gamma_old" "wf_ID gamma_id"
proof -
  show "codec_roundtrip gamma_codec" unfolding gamma_codec_def by (rule table_codec_roundtrip) simp
  have "gamma_old \<noteq> gamma_new" by (simp add: gamma_old_def gamma_new_def gamma_def empty_Meta_def)
  then show "proto_Marshal gamma_codec gamma_new = Ok ''G2''" by (simp add: gamma_codec_def table_codec_def)
  show "repo_rel (NewNodeRepo inmemory gamma_codec) (map_of gamma_store) gamma_state" "repo_wf gamma_state"
    unfolding gamma_store_def gamma_state_def
    by (rule single_rel; simp add: new_repo_prefixes Codec_Decode_def gamma_codec_def table_codec_def sample_uid_def) (rule single_wf, simp add: sample_uid_def)
  show "spec_Get gamma_state gamma_id = Ok gamma_old" "wf_ID gamma_id"
    by (simp_all add: spec_Get_def spec_resolve_def gamma_state_def spec_Create_def gamma_id_def wf_ID_def)
qed

theorem node_patch_stored_witness:
  "\<exists>s'. NodeService_Patch label_rf gamma_nodes None call_env gamma_id gamma_patch (gamma_store, (NewNodeSessionManager [], []))
     = (Ok (), (s', (NewNodeSessionManager [], [NewEvent (sv_event call_env) NodePatch (AnyNode gamma_new) []])))
     \<and> repo_rel (NewNodeRepo inmemory gamma_codec) (map_of s') (spec_Update gamma_state gamma_id gamma_new)"
proof -
  let ?m = "empty_Meta\<lparr>meta_Name := ''gamma'', meta_Labels := [(''zone'', ''a''), (''env'', ''prod'')]\<rparr>"
  have ok: "patchable label_rf gamma_old gamma_patch"
    by (simp add: patchable_def label_rf_def gamma_old_def gamma_def gamma_patch_def empty_Meta_def)
  have pa: "patched label_rf gamma_old gamma_patch = gamma [(''zone'', ''a''), (''env'', ''prod'')] empty_Meta"
    by (simp add: patched_def label_rf_def gamma_old_def gamma_def gamma_patch_def empty_Meta_def merge_maps_def)
  have m: "node_Meta gamma_old = Some (the (node_Meta gamma_old))" "node_Meta (patched label_rf gamma_old gamma_patch) = Some ?m"
    by (simp_all add: pa, simp_all add: gamma_old_def gamma_def)
  have t: "gamma_new = (patched label_rf gamma_old gamma_patch)\<lparr>node_Meta := Some (preserve_meta (the (node_Meta gamma_old)) (sv_t1 call_env) ?m)\<rparr>"
    unfolding pa by (simp add: gamma_new_def gamma_old_def gamma_def preserve_meta_def empty_Meta_def call_env_def)
  show ?thesis
    using node_patch_stored [OF srv_nodes.node_service_axioms [of gamma_codec sample_libs mem_rec_bus "Some events_bus" 0 "''f1''" "''f2''"],
        of gamma_store gamma_state gamma_id gamma_old _ label_rf gamma_patch _ gamma_new call_env "''G2''" "(NewNodeSessionManager [], [])", OF _ _ _ _ _ m(1) ok m(2) t]
      gamma_facts
    by (auto simp: mem_rec_bus_def)
qed

end
