(* ===== verification/ClientConfig.thy ===== *)
theory ClientConfig
  imports Stores
begin

text \<open>
  The configuration of the command line client: pkg/client/config.go, the part of pkg/client/clientset.go that reads it,
  and the commands of cmd/voiydctl/config that write it. Reading a configuration (viper) and writing it (yaml) are
  parameters, and so are the functions of crypto/x509 and crypto/tls. A command that ends with \<^verbatim>\<open>logrus.Fatal\<close>
  returns the error.
\<close>

section \<open>Configurations\<close>

record TLSConfig =
  tls_CA :: string
  tls_Certificate :: string
  tls_Key :: string
  tls_Insecure :: bool

record Server =
  srv_Name :: string
  srv_Address :: string
  srv_TLSConfig :: "TLSConfig option"

record Config =
  cfg_Version :: string
  cfg_Servers :: "Server list"
  cfg_Current :: string

fun getServer :: "Server list \<Rightarrow> string \<Rightarrow> Server res" where
  "getServer [] name = Err (Sentinel CfgErrServerNotFound)"
| "getServer (server # servers) name = (if srv_Name server = name then Ok server else getServer servers name)"

definition Config_GetServer :: "Config \<Rightarrow> string \<Rightarrow> Server res" where
  "Config_GetServer c name = getServer (cfg_Servers c) name"

definition TLSConfig_Validate :: "TLSConfig option \<Rightarrow> unit res" where
  "TLSConfig_Validate t =
     (case t of
        None \<Rightarrow> Ok ()
      | Some t \<Rightarrow>
          if \<not> tls_Insecure t then
            if tls_CA t = [] then Err (Errorf ''tls.ca cannot be empty when insecure=false'')
            else if (tls_Certificate t = []) \<noteq> (tls_Key t = [])
            then Err (Errorf ''tls.certificate and tls.key must both be set or both empty'')
            else Ok ()
          else Ok ())"

definition Server_Validate :: "Server \<Rightarrow> unit res" where
  "Server_Validate s =
     (if srv_Name s = [] then Err (Errorf ''name cannot be empty'')
      else if srv_Address s = [] then Err (Errorf ''address cannot be empty'')
      else TLSConfig_Validate (srv_TLSConfig s))"

definition Config_AddServer :: "Server \<Rightarrow> Config \<Rightarrow> unit res \<times> Config" where
  "Config_AddServer srv c =
     andThen (Server_Validate srv, c) (\<lambda>_ c.
     if is_Ok (getServer (cfg_Servers c) (srv_Name srv))
     then (Err (Errorf (''server '' @ srv_Name srv @ '' already exists'')), c)
     else (Ok (), c\<lparr>cfg_Servers := cfg_Servers c @ [srv]\<rparr>))"

fun validate_servers :: "(error \<Rightarrow> string) \<Rightarrow> Server list \<Rightarrow> unit res" where
  "validate_servers txt [] = Ok ()"
| "validate_servers txt (s # ss) =
     (case Server_Validate s of
        Err e \<Rightarrow> Err (Errorf (''server validation failed: '' @ txt e))
      | Panic m \<Rightarrow> Panic m
      | Ok _ \<Rightarrow> validate_servers txt ss)"

text \<open>
  The lookup of the current server gives an error with no server, or a server with no error; the test asks for no error
  and no server and never holds.
\<close>

definition Config_Validate :: "(error \<Rightarrow> string) \<Rightarrow> Config \<Rightarrow> unit res" where
  "Config_Validate txt c =
     (if cfg_Current c = [] then Err (Errorf ''current cannot be empty'')
      else if cfg_Servers c = [] then Err (Errorf ''no servers are configured'')
      else validate_servers txt (cfg_Servers c))"

text \<open>\<open>None\<close> is the nil pointer.\<close>

definition Config_CurrentServer :: "Config option \<Rightarrow> Server res" where
  "Config_CurrentServer c =
     (case c of
        None \<Rightarrow> Err (Errorf ''config is nil'')
      | Some c \<Rightarrow>
          if cfg_Current c = [] then Err (Sentinel CfgErrCurrentNotSet)
          else getServer (cfg_Servers c) (cfg_Current c))"

section \<open>TLS for a connection\<close>

text \<open>Appending certificates to an empty pool and loading a pair of certificate and key, from their texts.\<close>

record ('p, 'k) x509_lib =
  x5_AppendCertsFromPEM :: "string \<Rightarrow> 'p option"
  x5_X509KeyPair :: "string \<Rightarrow> string \<Rightarrow> 'k res"

record ('p, 'k) tls_Config =
  tlc_InsecureSkipVerify :: bool
  tlc_RootCAs :: "'p option"
  tlc_Certificates :: "'k list"

definition getTLSConfig :: "('p, 'k) x509_lib \<Rightarrow> (error \<Rightarrow> string) \<Rightarrow> string \<Rightarrow> string \<Rightarrow> string \<Rightarrow> bool \<Rightarrow> ('p, 'k) tls_Config res" where
  "getTLSConfig lib txt cert key ca insecure =
     (let tlsConfig = \<lparr>tlc_InsecureSkipVerify = insecure, tlc_RootCAs = None, tlc_Certificates = []\<rparr> in
      bindR (if ca \<noteq> []
             then (case x5_AppendCertsFromPEM lib ca of
                     None \<Rightarrow> Err (Errorf ''error appending CA certitifacte to pool'')
                   | Some pool \<Rightarrow> Ok (tlsConfig\<lparr>tlc_RootCAs := Some pool\<rparr>))
             else Ok tlsConfig) (\<lambda>tlsConfig.
      if cert \<noteq> [] \<and> key \<noteq> []
      then (case x5_X509KeyPair lib cert key of
              Err e \<Rightarrow> Err (Errorf (''error loading x509 cert key pair: '' @ txt e))
            | Panic m \<Rightarrow> Panic m
            | Ok certificate \<Rightarrow> Ok (tlsConfig\<lparr>tlc_Certificates := [certificate]\<rparr>))
      else Ok tlsConfig))"

definition WithTLSConfigFromCfg ::
  "('p, 'k) x509_lib \<Rightarrow> (error \<Rightarrow> string) \<Rightarrow> Config \<Rightarrow> ('p, 'k) tls_Config \<Rightarrow> ('p, 'k) tls_Config res" where
  "WithTLSConfigFromCfg lib txt cfg tc =
     bindR (Config_Validate txt cfg) (\<lambda>_.
     bindR (Config_CurrentServer (Some cfg)) (\<lambda>current.
     case srv_TLSConfig current of
       None \<Rightarrow> Ok tc
     | Some t \<Rightarrow> getTLSConfig lib txt (tls_Certificate t) (tls_Key t) (tls_CA t) (tls_Insecure t)))"

section \<open>Commands\<close>

text \<open>
  Encoding, decoding, and the text that decoding finds under the key \<^verbatim>\<open>current\<close> when the flag of that name was given: the
  commands bind their flags to the keys of the configuration, and a flag that was given goes first.
\<close>

record cfg_codec =
  cc_Marshal :: "Config \<Rightarrow> bytes res"
  cc_Read :: "bytes \<Rightarrow> Config res"
  cc_flag :: "bool \<Rightarrow> string"

definition cfg_roundtrip :: "cfg_codec \<Rightarrow> bool" where
  "cfg_roundtrip cd \<longleftrightarrow> (\<forall>c b. cc_Marshal cd c = Ok b \<longrightarrow> cc_Read cd b = Ok c)"

text \<open>The flags of the commands. The flag \<^verbatim>\<open>current\<close> is true when it is not given.\<close>

record cfg_flags =
  fl_tls :: bool
  fl_insecure :: bool
  fl_current :: "bool option"
  fl_caFile :: string
  fl_certFile :: string
  fl_keyFile :: string
  fl_address :: string

definition read_config :: "cfg_codec \<Rightarrow> bool option \<Rightarrow> string \<Rightarrow> files \<Rightarrow> Config res" where
  "read_config cd cur p fs =
     bindR (os_ReadFile p fs) (\<lambda>b. bindR (cc_Read cd b) (\<lambda>c.
     Ok (case cur of None \<Rightarrow> c | Some v \<Rightarrow> c\<lparr>cfg_Current := cc_flag cd v\<rparr>)))"

definition set_current :: "cfg_flags \<Rightarrow> bool" where
  "set_current fl \<longleftrightarrow> fl_current fl \<noteq> Some False"

definition write_config :: "cfg_codec \<Rightarrow> string \<Rightarrow> Config \<Rightarrow> files \<Rightarrow> unit res \<times> files" where
  "write_config cd p cfg fs = andThen (cc_Marshal cd cfg, fs) (\<lambda>b fs. os_WriteFile p b fs)"

definition configExists :: "string \<Rightarrow> files \<Rightarrow> bool" where
  "configExists p fs \<longleftrightarrow> (case os_Stat p fs of Err e \<Rightarrow> \<not> errors_Is e OsErrNotExist | _ \<Rightarrow> True)"

text \<open>\<open>dir\<close> is \<^verbatim>\<open>path.Dir\<close> of the path.\<close>

definition config_init :: "cfg_codec \<Rightarrow> string \<Rightarrow> string \<Rightarrow> files \<Rightarrow> unit res \<times> files" where
  "config_init cd dir p fs =
     (if configExists p fs then (Err (Errorf (''config already exists at '' @ p)), fs)
      else
        (let cfg = \<lparr>cfg_Version = ''config/v1'', cfg_Servers = [], cfg_Current = []\<rparr> in
         andThen (cc_Marshal cd cfg, fs) (\<lambda>b fs.
         andThen (os_MkdirAll dir fs) (\<lambda>_ fs.
         andThen (os_WriteFile p b fs) (\<lambda>_ fs.
         andThen (read_config cd None p fs, fs) (\<lambda>_ fs. (Ok (), fs)))))))"

definition read_if :: "string \<Rightarrow> files \<Rightarrow> string res" where
  "read_if p fs = (if p \<noteq> [] then os_ReadFile p fs else Ok [])"

definition new_server :: "cfg_flags \<Rightarrow> string \<Rightarrow> files \<Rightarrow> Server res" where
  "new_server fl name fs =
     (if fl_tls fl
      then bindR (read_if (fl_caFile fl) fs) (\<lambda>ca.
           bindR (read_if (fl_certFile fl) fs) (\<lambda>cert.
           bindR (read_if (fl_keyFile fl) fs) (\<lambda>key.
           Ok \<lparr>srv_Name = name, srv_Address = fl_address fl,
               srv_TLSConfig = Some \<lparr>tls_CA = ca, tls_Certificate = cert, tls_Key = key, tls_Insecure = fl_insecure fl\<rparr>\<rparr>)))
      else Ok \<lparr>srv_Name = name, srv_Address = fl_address fl, srv_TLSConfig = None\<rparr>)"

definition config_create_server :: "cfg_codec \<Rightarrow> string \<Rightarrow> cfg_flags \<Rightarrow> string \<Rightarrow> files \<Rightarrow> unit res \<times> files" where
  "config_create_server cd p fl name fs =
     andThen (read_config cd (fl_current fl) p fs, fs) (\<lambda>cfg fs.
     andThen (new_server fl name fs, fs) (\<lambda>newServer fs.
     let cfg = (if set_current fl then cfg\<lparr>cfg_Current := srv_Name newServer\<rparr> else cfg) in
     (case Config_AddServer newServer cfg of
        (Ok _, cfg) \<Rightarrow> write_config cd p cfg fs
      | (Err e, cfg) \<Rightarrow> (Err e, fs)
      | (Panic m, cfg) \<Rightarrow> (Panic m, fs))))"

text \<open>
  Without an argument a finder asks for one of the names; \<open>finder\<close> is what it gives: \<open>None\<close> when nothing is chosen, and then
  the current server stays.
\<close>

definition config_use :: "cfg_codec \<Rightarrow> (error \<Rightarrow> string) \<Rightarrow> (string list \<Rightarrow> string option res) \<Rightarrow> string \<Rightarrow> bool option \<Rightarrow> string option \<Rightarrow> files \<Rightarrow> unit res \<times> files" where
  "config_use cd txt finder p cur arg fs =
     andThen (read_config cd cur p fs, fs) (\<lambda>cfg fs.
     andThen (Config_Validate txt cfg, fs) (\<lambda>_ fs.
     andThen (case arg of
                None \<Rightarrow> bindR (finder (map srv_Name (cfg_Servers cfg))) (\<lambda>s. Ok (case s of None \<Rightarrow> cfg_Current cfg | Some n \<Rightarrow> n))
              | Some name \<Rightarrow> bindR (Config_GetServer cfg name) (\<lambda>s. Ok (srv_Name s)), fs) (\<lambda>serverName fs.
     write_config cd p (cfg\<lparr>cfg_Current := serverName\<rparr>) fs)))"

definition config_view :: "cfg_codec \<Rightarrow> (error \<Rightarrow> string) \<Rightarrow> string \<Rightarrow> bool option \<Rightarrow> files \<Rightarrow> bytes res \<times> files" where
  "config_view cd txt p cur fs =
     andThen (read_config cd cur p fs, fs) (\<lambda>cfg fs.
     andThen (Config_Validate txt cfg, fs) (\<lambda>_ fs.
     andThen (cc_Marshal cd cfg, fs) (\<lambda>b fs.
     andThen (os_WriteFile p b fs) (\<lambda>_ fs. (Ok b, fs)))))"

text \<open>The rows that are printed: name, whether it is current, address and whether it has TLS.\<close>

definition config_list_servers :: "cfg_codec \<Rightarrow> (error \<Rightarrow> string) \<Rightarrow> string \<Rightarrow> bool option \<Rightarrow> files \<Rightarrow> (string \<times> bool \<times> string \<times> bool) list res" where
  "config_list_servers cd txt p cur fs =
     bindR (read_config cd cur p fs) (\<lambda>cfg.
     bindR (Config_Validate txt cfg) (\<lambda>_.
     bindR (Config_CurrentServer (Some cfg)) (\<lambda>curr.
     Ok (map (\<lambda>s. (srv_Name s, srv_Name curr = srv_Name s, srv_Address s, srv_TLSConfig s \<noteq> None)) (cfg_Servers cfg)))))"

section \<open>Well-formed configurations\<close>

lemma getServer_Ok: "getServer ss n = Ok s \<Longrightarrow> s \<in> set ss \<and> srv_Name s = n"
  by (induction ss) (auto split: if_splits)

lemma getServer_found: "is_Ok (getServer ss n) \<longleftrightarrow> n \<in> srv_Name ` set ss"
  by (induction ss) auto

lemma getServer_unique: "distinct (map srv_Name ss) \<Longrightarrow> s \<in> set ss \<Longrightarrow> getServer ss (srv_Name s) = Ok s"
  by (induction ss) (auto simp: image_iff)

lemma getServer_missing: "\<not> is_Ok (getServer ss n) \<Longrightarrow> getServer ss n = Err (Sentinel CfgErrServerNotFound)"
  by (induction ss) (auto split: if_splits)

lemma getServer_append: "getServer (ss @ ts) n = (if is_Ok (getServer ss n) then getServer ss n else getServer ts n)"
  by (induction ss) auto

lemma validate_no_panic [simp]: "TLSConfig_Validate t \<noteq> Panic m" "Server_Validate s \<noteq> Panic m"
  by (auto simp: TLSConfig_Validate_def Server_Validate_def split: option.splits if_splits)

lemma validate_servers_Ok: "validate_servers txt ss = Ok u \<longleftrightarrow> (\<forall>s \<in> set ss. is_Ok (Server_Validate s))"
  by (induction ss) (auto split: result.splits)

definition config_ok :: "Config \<Rightarrow> bool" where
  "config_ok c \<longleftrightarrow> distinct (map srv_Name (cfg_Servers c)) \<and> list_all (\<lambda>s. is_Ok (Server_Validate s)) (cfg_Servers c)
     \<and> (cfg_Current c = [] \<or> cfg_Current c \<in> srv_Name ` set (cfg_Servers c))"

text \<open>The server added is found, the others are found as before.\<close>

lemma AddServer_Ok:
  assumes "Config_AddServer srv c = (Ok u, c')"
  shows "c' = c\<lparr>cfg_Servers := cfg_Servers c @ [srv]\<rparr>" "is_Ok (Server_Validate srv)" "srv_Name srv \<notin> srv_Name ` set (cfg_Servers c)"
    "Config_GetServer c' n = (if n = srv_Name srv then Ok srv else Config_GetServer c n)"
proof -
  from assms have v: "is_Ok (Server_Validate srv)" and n: "\<not> is_Ok (getServer (cfg_Servers c) (srv_Name srv))"
    and c': "c' = c\<lparr>cfg_Servers := cfg_Servers c @ [srv]\<rparr>"
    by (cases "Server_Validate srv"; simp add: Config_AddServer_def split: if_splits)+
  show "is_Ok (Server_Validate srv)" "srv_Name srv \<notin> srv_Name ` set (cfg_Servers c)" "c' = c\<lparr>cfg_Servers := cfg_Servers c @ [srv]\<rparr>"
    using v n c' by (simp_all add: getServer_found)
  show "Config_GetServer c' n = (if n = srv_Name srv then Ok srv else Config_GetServer c n)"
    using n getServer_missing [of "cfg_Servers c" n] by (auto simp: c' Config_GetServer_def getServer_append)
qed

lemma AddServer_ok:
  assumes "Config_AddServer srv (c\<lparr>cfg_Current := srv_Name srv\<rparr>) = (Ok u, c')" and "config_ok (c\<lparr>cfg_Current := cur\<rparr>)"
  shows "config_ok c'"
  using AddServer_Ok(1-3) [OF assms(1)] assms(2) by (auto simp: config_ok_def)

lemma CurrentServer_found:
  assumes "config_ok c" and "cfg_Current c \<noteq> []"
  shows "\<exists>s. Config_CurrentServer (Some c) = Ok s \<and> srv_Name s = cfg_Current c \<and> is_Ok (Server_Validate s)"
proof -
  have "is_Ok (getServer (cfg_Servers c) (cfg_Current c))" using assms by (auto simp: config_ok_def getServer_found)
  then obtain s where s: "getServer (cfg_Servers c) (cfg_Current c) = Ok s" by (auto simp: is_Ok_iff)
  with getServer_Ok [OF s] assms show ?thesis by (auto simp: Config_CurrentServer_def config_ok_def list_all_iff)
qed

section \<open>Sequences of commands\<close>

datatype cfg_cmd = CInit string | CCreateServer cfg_flags string | CUse "bool option" "string option" | CView "bool option"

fun run_cmd :: "cfg_codec \<Rightarrow> (error \<Rightarrow> string) \<Rightarrow> (string list \<Rightarrow> string option res) \<Rightarrow> string \<Rightarrow> cfg_cmd \<Rightarrow> files \<Rightarrow> unit res \<times> files" where
  "run_cmd cd txt finder p (CInit dir) fs = config_init cd dir p fs"
| "run_cmd cd txt finder p (CCreateServer fl name) fs = config_create_server cd p fl name fs"
| "run_cmd cd txt finder p (CUse cur arg) fs = config_use cd txt finder p cur arg fs"
| "run_cmd cd txt finder p (CView cur) fs = andThen (config_view cd txt p cur fs) (\<lambda>_ fs. (Ok (), fs))"

fun run_cmds :: "cfg_codec \<Rightarrow> (error \<Rightarrow> string) \<Rightarrow> (string list \<Rightarrow> string option res) \<Rightarrow> string \<Rightarrow> cfg_cmd list \<Rightarrow> files \<Rightarrow> unit res \<times> files" where
  "run_cmds cd txt finder p [] fs = (Ok (), fs)"
| "run_cmds cd txt finder p (c # cs) fs = andThen (run_cmd cd txt finder p c fs) (\<lambda>_ fs. run_cmds cd txt finder p cs fs)"

text \<open>The finder gives one of the names it was shown.\<close>

definition finder_documented :: "(string list \<Rightarrow> string option res) \<Rightarrow> bool" where
  "finder_documented finder \<longleftrightarrow> (\<forall>names n. finder names = Ok (Some n) \<longrightarrow> n \<in> set names)"

text \<open>No command is given the flag \<^verbatim>\<open>current\<close>, but a new server may be given it as true.\<close>

fun flags_plain :: "cfg_cmd \<Rightarrow> bool" where
  "flags_plain (CInit dir) \<longleftrightarrow> True"
| "flags_plain (CCreateServer fl name) \<longleftrightarrow> fl_current fl \<noteq> Some False"
| "flags_plain (CUse cur arg) \<longleftrightarrow> cur = None"
| "flags_plain (CView cur) \<longleftrightarrow> cur = None"

definition stored_ok :: "cfg_codec \<Rightarrow> string \<Rightarrow> files \<Rightarrow> bool" where
  "stored_ok cd p fs \<longleftrightarrow> tree_ok fs
     \<and> (\<forall>b. node_at fs (locate fs p) = Some (File b) \<longrightarrow> (\<exists>c. cc_Read cd b = Ok c \<and> config_ok c))"

lemma read_config_ok:
  assumes "stored_ok cd p fs" and "read_config cd None p fs = Ok c"
  shows "config_ok c"
proof -
  from assms(2) obtain b where "os_ReadFile p fs = Ok b" "cc_Read cd b = Ok c" by (auto simp: read_config_def bindR_eq_Ok)
  with assms(1) ReadFile_iff [of fs p b] show ?thesis by (auto simp: stored_ok_def)
qed

lemma written_ok:
  assumes "cfg_roundtrip cd" and "tree_ok fs" and "cc_Marshal cd c = Ok b" and "os_WriteFile p b fs = (Ok u, fs')" and "config_ok c"
  shows "stored_ok cd p fs'"
proof -
  from WriteFile_ok [OF assms(2,4)] have w: "writes_file (locate fs p) fs fs'" "node_at fs' (locate fs p) = Some (File b)" by auto
  then have "locate fs' p = locate fs p" "tree_ok fs'" by (auto simp: writes_file_def dest: fs_envD)
  with w assms(1,3,5) show ?thesis by (auto simp: stored_ok_def cfg_roundtrip_def)
qed

lemma write_config_ok:
  assumes "cfg_roundtrip cd" and "tree_ok fs" and "write_config cd p c fs = (Ok u, fs')" and "config_ok c"
  shows "stored_ok cd p fs'"
  using assms(3) written_ok [OF assms(1,2) _ _ assms(4)] by (auto simp: write_config_def andThen_eq_Ok)

lemma stored_tree: "stored_ok cd p fs \<Longrightarrow> tree_ok fs"
  by (simp add: stored_ok_def)

lemma config_init_ok:
  assumes "cfg_roundtrip cd" and "stored_ok cd p fs" and "config_init cd dir p fs = (Ok u, fs')"
  shows "stored_ok cd p fs'"
proof -
  from assms(3) obtain b fs1 where b: "cc_Marshal cd \<lparr>cfg_Version = ''config/v1'', cfg_Servers = [], cfg_Current = []\<rparr> = Ok b"
      "os_MkdirAll dir fs = (Ok (), fs1)" "os_WriteFile p b fs1 = (Ok (), fs')"
    by (auto simp: config_init_def andThen_eq_Ok Let_def split: if_splits)
  from written_ok [OF assms(1) MkdirAll_ok(1) [OF stored_tree [OF assms(2)] b(2)] b(1,3)] show ?thesis
    by (simp add: config_ok_def)
qed

lemma config_create_server_ok:
  assumes "cfg_roundtrip cd" and "stored_ok cd p fs" and "config_create_server cd p fl name fs = (Ok u, fs')" and "fl_current fl \<noteq> Some False"
  shows "stored_ok cd p fs'"
proof -
  from assms(3,4) obtain c srv where c: "read_config cd (fl_current fl) p fs = Ok c"
      "(case Config_AddServer srv (c\<lparr>cfg_Current := srv_Name srv\<rparr>) of
        (Ok _, cfg) \<Rightarrow> write_config cd p cfg fs | (Err e, cfg) \<Rightarrow> (Err e, fs) | (Panic m, cfg) \<Rightarrow> (Panic m, fs)) = (Ok u, fs')"
    by (auto simp: config_create_server_def set_current_def andThen_eq_Ok Let_def)
  from c(2) obtain c' where c': "Config_AddServer srv (c\<lparr>cfg_Current := srv_Name srv\<rparr>) = (Ok (), c')" "write_config cd p c' fs = (Ok u, fs')"
    by (auto split: prod.splits result.splits)
  from c(1) obtain c0 where "read_config cd None p fs = Ok c0" "c\<lparr>cfg_Current := cfg_Current c0\<rparr> = c0"
    by (cases "fl_current fl") (auto simp: read_config_def bindR_eq_Ok)
  with read_config_ok [OF assms(2)] have "config_ok (c\<lparr>cfg_Current := cfg_Current c0\<rparr>)" by simp
  from write_config_ok [OF assms(1) stored_tree [OF assms(2)] c'(2) AddServer_ok [OF c'(1) this]] show ?thesis .
qed

lemma config_use_ok:
  assumes "cfg_roundtrip cd" and "finder_documented finder" and "stored_ok cd p fs" and "config_use cd txt finder p None arg fs = (Ok u, fs')"
  shows "stored_ok cd p fs'"
proof -
  from assms(4) obtain c n where c: "read_config cd None p fs = Ok c" "write_config cd p (c\<lparr>cfg_Current := n\<rparr>) fs = (Ok u, fs')"
      and n: "(case arg of
                None \<Rightarrow> bindR (finder (map srv_Name (cfg_Servers c))) (\<lambda>s. Ok (case s of None \<Rightarrow> cfg_Current c | Some n \<Rightarrow> n))
              | Some name \<Rightarrow> bindR (Config_GetServer c name) (\<lambda>s. Ok (srv_Name s))) = Ok n"
    by (auto simp: config_use_def andThen_eq_Ok)
  have ok: "config_ok c" using read_config_ok [OF assms(3) c(1)] .
  have "n = cfg_Current c \<or> n \<in> srv_Name ` set (cfg_Servers c)"
  proof (cases arg)
    case None
    with n obtain s where "finder (map srv_Name (cfg_Servers c)) = Ok s" "n = (case s of None \<Rightarrow> cfg_Current c | Some n \<Rightarrow> n)"
      by (auto simp: bindR_eq_Ok)
    with assms(2) show ?thesis unfolding finder_documented_def by (cases s) fastforce+
  next
    case (Some name)
    with n show ?thesis by (auto simp: bindR_eq_Ok Config_GetServer_def dest: getServer_Ok)
  qed
  with ok have "config_ok (c\<lparr>cfg_Current := n\<rparr>)" by (auto simp: config_ok_def)
  from write_config_ok [OF assms(1) stored_tree [OF assms(3)] c(2) this] show ?thesis .
qed

lemma config_view_ok:
  assumes "cfg_roundtrip cd" and "stored_ok cd p fs" and "config_view cd txt p None fs = (Ok u, fs')"
  shows "stored_ok cd p fs'"
  using assms(3) written_ok [OF assms(1) stored_tree [OF assms(2)]] read_config_ok [OF assms(2)]
  by (auto simp: config_view_def andThen_eq_Ok)

lemma run_cmds_ok:
  assumes "cfg_roundtrip cd" and "finder_documented finder"
  shows "stored_ok cd p fs \<Longrightarrow> list_all flags_plain cs \<Longrightarrow> run_cmds cd txt finder p cs fs = (Ok u, fs') \<Longrightarrow> stored_ok cd p fs'"
proof (induction cs arbitrary: fs)
  case (Cons c cs)
  then obtain u fs1 where c: "run_cmd cd txt finder p c fs = (Ok u, fs1)" "run_cmds cd txt finder p cs fs1 = (Ok (), fs')"
    by (auto simp: andThen_eq_Ok)
  note one = config_init_ok config_create_server_ok config_view_ok
  have "stored_ok cd p fs1"
    using c(1) one [OF assms(1) Cons.prems(1)] config_use_ok [OF assms Cons.prems(1)] Cons.prems(2) by (cases c) (auto simp: andThen_eq_Ok)
  with Cons.IH c(2) Cons.prems(2) show ?case by simp
qed simp

section \<open>Properties\<close>


definition config_table :: "(Config \<times> bytes) list \<Rightarrow> cfg_codec" where
  "config_table kvs = \<lparr>cc_Marshal = (\<lambda>c. case map_of kvs c of Some b \<Rightarrow> Ok b | None \<Rightarrow> Err (Foreign ''yaml'')),
     cc_Read = (\<lambda>b. case map_of (map (\<lambda>(c, b). (b, c)) kvs) b of Some c \<Rightarrow> Ok c | None \<Rightarrow> Err (Foreign ''viper'')), cc_flag = (\<lambda>b. if b then ''1'' else ''0'')\<rparr>"

lemma config_table_roundtrip:
  assumes "distinct (map snd kvs)"
  shows "cfg_roundtrip (config_table kvs)"
proof -
  have "distinct (map fst (map (\<lambda>(c, b). (b, c)) kvs))" using assms by (simp add: comp_def case_prod_beta)
  then have "map_of kvs c = Some b \<Longrightarrow> map_of (map (\<lambda>(c, b). (b, c)) kvs) b = Some c" for c b
    by (auto intro!: map_of_is_SomeI dest: map_of_SomeD)
  then show ?thesis by (auto simp: cfg_roundtrip_def config_table_def split: option.splits)
qed

definition dev_config :: Config where
  "dev_config = \<lparr>cfg_Version = ''config/v1'', cfg_Servers = [\<lparr>srv_Name = ''dev'', srv_Address = ''localhost:5743'', srv_TLSConfig = None\<rparr>], cfg_Current = ''dev''\<rparr>"

definition dev_codec :: cfg_codec where
  "dev_codec = config_table [(\<lparr>cfg_Version = ''config/v1'', cfg_Servers = [], cfg_Current = []\<rparr>, ''0''), (dev_config, ''1'')]"

definition dev_flags :: cfg_flags where
  "dev_flags = \<lparr>fl_tls = False, fl_insecure = False, fl_current = None, fl_caFile = [], fl_certFile = [], fl_keyFile = [], fl_address = ''localhost:5743''\<rparr>"

definition dev_files :: "bytes \<Rightarrow> files" where
  "dev_files b = no_files\<lparr>fs_nodes := [([''home''], Dir), ([''home'', ''c''], File b)]\<rparr>"

definition first_name :: "string list \<Rightarrow> string option res" where
  "first_name ns = Ok (case ns of [] \<Rightarrow> None | n # _ \<Rightarrow> Some n)"

definition dev_home :: files where
  "dev_home = no_files\<lparr>fs_nodes := [([''home''], Dir)]\<rparr>"

lemmas dev_fs_defs = dev_files_def dev_home_def no_files_def locate_def rooted_def node_at_def fault_def set_node_def find_node_def

lemma dev_fs:
  "configExists ''/home/c'' no_files = False"
  "os_MkdirAll ''/home'' no_files = (Ok (), dev_home)"
  "os_WriteFile ''/home/c'' b dev_home = (Ok (), dev_files b)"
  "os_WriteFile ''/home/c'' b (dev_files a) = (Ok (), dev_files b)"
  "os_ReadFile ''/home/c'' (dev_files b) = Ok b"
  subgoal by (simp add: dev_fs_defs configExists_def os_Stat_def not_exist_def)
  subgoal by (simp add: dev_fs_defs os_MkdirAll_def)
  subgoal by (simp add: dev_fs_defs os_WriteFile_def os_Create_def file_write_def)
  subgoal by (simp add: dev_fs_defs os_WriteFile_def os_Create_def file_write_def)
  subgoal by (simp add: dev_fs_defs os_ReadFile_def)
  done

lemma dev_codec_simps:
  "cc_Marshal dev_codec \<lparr>cfg_Version = ''config/v1'', cfg_Servers = [], cfg_Current = []\<rparr> = Ok ''0''"
  "cc_Read dev_codec ''0'' = Ok \<lparr>cfg_Version = ''config/v1'', cfg_Servers = [], cfg_Current = []\<rparr>"
  "cc_Marshal dev_codec dev_config = Ok ''1''" "cc_Read dev_codec ''1'' = Ok dev_config"
  by (simp_all add: dev_codec_def config_table_def dev_config_def)

lemma dev_run:
  "config_init dev_codec ''/home'' ''/home/c'' no_files = (Ok (), dev_files ''0'')"
  "config_create_server dev_codec ''/home/c'' dev_flags ''dev'' (dev_files ''0'') = (Ok (), dev_files ''1'')"
  "config_use dev_codec txt first_name ''/home/c'' None None (dev_files ''1'') = (Ok (), dev_files ''1'')"
  subgoal by (simp add: config_init_def dev_fs dev_codec_simps read_config_def)
  subgoal by (simp add: config_create_server_def dev_fs dev_codec_simps read_config_def set_current_def new_server_def dev_flags_def Config_AddServer_def
    Server_Validate_def TLSConfig_Validate_def write_config_def dev_codec_simps(3) [unfolded dev_config_def])
  subgoal by (simp add: config_use_def dev_fs dev_codec_simps read_config_def write_config_def Config_Validate_def Server_Validate_def
    TLSConfig_Validate_def first_name_def dev_config_def dev_codec_simps(3) [unfolded dev_config_def])
  done


text \<open>A configuration whose current server is not there is accepted, and connecting with it fails.\<close>

theorem config_validate_blind:
  assumes "cfg_Current c \<noteq> []" and "s \<in> set (cfg_Servers c)" and "list_all (\<lambda>s. is_Ok (Server_Validate s)) (cfg_Servers c)"
    and "cfg_Current c \<notin> srv_Name ` set (cfg_Servers c)"
  shows "Config_Validate txt c = Ok () \<and> WithTLSConfigFromCfg lib txt c tc = Err (Sentinel CfgErrServerNotFound)"
proof -
  have v: "Config_Validate txt c = Ok ()" using assms(1-3) by (auto simp: Config_Validate_def validate_servers_Ok list_all_iff)
  with assms(1,4) getServer_missing [of "cfg_Servers c" "cfg_Current c"] show ?thesis
    by (simp add: WithTLSConfigFromCfg_def Config_CurrentServer_def getServer_found)
qed

text \<open>With the flag \<^verbatim>\<open>current\<close> given as false, a new server leaves a current server that is not there.\<close>

theorem config_flag_misread:
  assumes "os_ReadFile p fs = Ok b" and "cc_Read cd b = Ok c" and "fl_current fl = Some False" and "new_server fl name fs = Ok srv"
    and "is_Ok (Server_Validate srv)" and "srv_Name srv \<notin> srv_Name ` set (cfg_Servers c)"
    and "cc_Marshal cd (c\<lparr>cfg_Current := cc_flag cd False, cfg_Servers := cfg_Servers c @ [srv]\<rparr>) = Ok b'"
  shows "config_create_server cd p fl name fs = os_WriteFile p b' fs"
proof -
  have "\<not> is_Ok (getServer (cfg_Servers c) (srv_Name srv))" using assms(6) by (simp add: getServer_found)
  moreover obtain u where "Server_Validate srv = Ok u" using assms(5) by (auto simp: is_Ok_iff)
  ultimately show ?thesis using assms
    by (simp add: config_create_server_def read_config_def set_current_def Config_AddServer_def write_config_def)
qed

end
