(* ===== verification/NodeStream.thy ===== *)
theory NodeStream
  imports Clients Conditions
begin

text \<open>
  The stream between the server and a node: \<^verbatim>\<open>Connect\<close> of internal/transport/grpc/node.go with its reader and its
  writer, \<^verbatim>\<open>Connect\<close> of pkg/client/node/v1/node.go, and the loop of the node controller that publishes what
  arrives. Goroutines interleave: each turn of a loop is a step. The stream itself is a queue of messages in either
  direction, which may fail at any time; gRPC delivers the messages of a stream in order.
\<close>

section \<open>Identity of a stream\<close>

text \<open>What \<^verbatim>\<open>Join\<close> stored last; nothing before the first.\<close>

definition AtomicIdentity_Set :: "ClientIdentity \<Rightarrow> ClientIdentity option \<Rightarrow> ClientIdentity option" where
  "AtomicIdentity_Set i a = Some i"

definition AtomicIdentity_Get :: "ClientIdentity option \<Rightarrow> ClientIdentity \<times> bool" where
  "AtomicIdentity_Get a = (case a of None \<Rightarrow> (\<lparr>id_Name = [], id_UID = []\<rparr>, False) | Some i \<Rightarrow> (i, True))"

definition IdentityStreamInterceptor :: "ClientIdentity option \<Rightarrow> metadata \<Rightarrow> metadata" where
  "IdentityStreamInterceptor a md =
     (case AtomicIdentity_Get a of (i, ok) \<Rightarrow>
        if ok \<and> id_UID i \<noteq> []
        then AList.update ''x-voiyd-node-name'' [id_Name i] (AList.update ''x-voiyd-node-uid'' [id_UID i] md)
        else md)"

definition md_first :: "metadata option \<Rightarrow> string \<Rightarrow> string" where
  "md_first md k = (case md of None \<Rightarrow> [] | Some m \<Rightarrow> (case map_of m k of Some (v # vs) \<Rightarrow> v | _ \<Rightarrow> []))"

definition stream_input :: "metadata option \<Rightarrow> NodeConnectInput" where
  "stream_input md = \<lparr>in_NodeUID = md_first md ''x-voiyd-node-uid'', in_NodeName = md_first md ''x-voiyd-node-name''\<rparr>"

section \<open>Opening and closing on the server\<close>

definition grpc_Connect_open ::
  "('s, 'u, 'w) NodeService \<Rightarrow> ctx \<Rightarrow> metadata option \<Rightarrow> 's \<times> 'w \<Rightarrow> sess_ptr res \<times> ('s \<times> 'w)" where
  "grpc_Connect_open l ctx md st = NodeService_Connect l ctx (stream_input md) st"

text \<open>The phase that the handler reports when the node is connected and when the session ends; its errors are dropped.\<close>

definition set_connected ::
  "('s, 'u, 'w) NodeService \<Rightarrow> svc_env \<Rightarrow> NodeConnectInput \<Rightarrow> string \<Rightarrow> 's \<times> 'w \<Rightarrow> unit res \<times> ('s \<times> 'w)" where
  "set_connected l env inp phase st =
     (case keys_FromUIDOrName (nsv_uuid l) (in_NodeUID inp) (in_NodeName inp) of
        Ok i \<Rightarrow>
          (case NodeService_UpdateStatus l None env i (Some (empty_NodeStatus\<lparr>ns_Phase := Some phase\<rparr>)) [''phase''] st of
             (Panic m, st) \<Rightarrow> (Panic m, st)
           | (_, st) \<Rightarrow> (Ok (), st))
      | Err e \<Rightarrow> (Ok (), st)
      | Panic m \<Rightarrow> (Panic m, st))"

definition grpc_Connect_close ::
  "('s, 'u, NodeSessionManager \<times> 'w) NodeService \<Rightarrow> 'w bus option \<Rightarrow> string \<Rightarrow> svc_env \<Rightarrow> NodeConnectInput \<Rightarrow> sess_ptr
     \<Rightarrow> 's \<times> (NodeSessionManager \<times> 'w) \<Rightarrow> unit res \<times> ('s \<times> (NodeSessionManager \<times> 'w))" where
  "grpc_Connect_close l exchange fresh env inp p st =
     (case nodeSession_Close exchange fresh p (snd st) of
        (Panic m, mw) \<Rightarrow> (Panic m, (fst st, mw))
      | (_, mw) \<Rightarrow> set_connected l env inp (reason_text ReasonDisconnected) (fst st, mw))"

section \<open>The client\<close>

definition startStream :: "ext_errs \<Rightarrow> ('t, error) sum \<Rightarrow> ('t, error) sum" where
  "startStream x r =
     (case r of Inl stream \<Rightarrow> Inl stream | Inr e \<Rightarrow> Inr (Errorf (''failed to create stream: '' @ err_text x e)))"

text \<open>
  The loop that connects: for every attempt the context at its start and what the call of the server gave, an error or
  a stream, that is what its turns receive. The result is \<open>None\<close> while it goes on: the error it returns, the
  errors for the channel of errors and the events for the receiver.
\<close>

fun node_Connect ::
  "ext_errs \<Rightarrow> (ctx \<times> ((ctx \<times> (Event, error) sum) list, error) sum) list \<Rightarrow> (error \<times> error list \<times> Event list) option" where
  "node_Connect x [] = None"
| "node_Connect x ((ctx, r) # rs) =
     (case ctx of
        Some e \<Rightarrow> Some (e, [], [])
      | None \<Rightarrow>
          (case startStream x r of
             Inr e \<Rightarrow> node_Connect x rs
           | Inl stream \<Rightarrow>
               (case handleStream x stream of
                  None \<Rightarrow> None
                | Some (streamErr, es, evs) \<Rightarrow>
                    if errors_Is streamErr CtxCanceled then Some (streamErr, es, evs)
                    else map_option (\<lambda>(e, es', evs'). (e, es @ es', evs @ evs')) (node_Connect x rs))))"

text \<open>No connection is kept in the client, so there is no stream to send on.\<close>

definition node_SendMessage :: "('t \<Rightarrow> Event \<Rightarrow> unit res) \<Rightarrow> 't option \<Rightarrow> Event \<Rightarrow> unit res \<times> 't option" where
  "node_SendMessage send stream msg =
     (case stream of
        None \<Rightarrow> (Panic ''nil pointer dereference'', None)
      | Some s \<Rightarrow> (case send s msg of Err e \<Rightarrow> (Err e, None) | r \<Rightarrow> (r, stream)))"

section \<open>One connection\<close>

datatype writer = WNext | WSend Event | WDone "Event option"

datatype reader = RRecv | RDone

datatype receiver = CRecv | CPut Event | CDone error

text \<open>
  The sessions of the server and the world of its exchange; the two goroutines of the handler and the channel of their
  errors; the stream, down to the node and up to the server; the receive loop of the client and its errors; the event the
  node is publishing and its world.
\<close>

record ('w, 'y) conn =
  cn_sessions :: NodeSessionManager
  cn_world :: 'w
  cn_writer :: writer
  cn_reader :: reader
  cn_errCh :: "error list"
  cn_down :: "Event list"
  cn_up :: "Event option list"
  cn_client :: receiver
  cn_errChan :: "error list"
  cn_busy :: "Event option"
  cn_node :: 'y

text \<open>The writer: the next event of the session, and sending it.\<close>

definition writer_next :: "Event res \<Rightarrow> NodeSessionManager \<Rightarrow> ('w, 'y) conn \<Rightarrow> ('w, 'y) conn" where
  "writer_next r m c =
     (case r of
        Ok out \<Rightarrow> c\<lparr>cn_sessions := m, cn_writer := WSend out\<rparr>
      | Err e \<Rightarrow> c\<lparr>cn_sessions := m, cn_writer := WDone None, cn_errCh := cn_errCh c @ [e]\<rparr>
      | Panic x \<Rightarrow> c\<lparr>cn_sessions := m\<rparr>)"

definition writer_send :: "(unit, error) sum \<Rightarrow> Event \<Rightarrow> ('w, 'y) conn \<Rightarrow> ('w, 'y) conn" where
  "writer_send r out c =
     (case r of
        Inl _ \<Rightarrow> c\<lparr>cn_writer := WNext, cn_down := cn_down c @ [out]\<rparr>
      | Inr e \<Rightarrow> c\<lparr>cn_writer := WDone (Some out), cn_errCh := cn_errCh c @ [e]\<rparr>)"

text \<open>The reader: an error of the stream, or an event that the session publishes on the exchange of the server.\<close>

definition reader_fail :: "error \<Rightarrow> ('w, 'y) conn \<Rightarrow> ('w, 'y) conn" where
  "reader_fail e c = c\<lparr>cn_reader := RDone, cn_errCh := cn_errCh c @ [e]\<rparr>"

definition reader_handle :: "'w bus option \<Rightarrow> ctx \<Rightarrow> Event option \<Rightarrow> ('w, 'y) conn \<Rightarrow> ('w, 'y) conn" where
  "reader_handle exchange ctx ev c =
     (case nodeSession_Handle exchange ctx ev (cn_sessions c, cn_world c) of
        (Err e, (m, w)) \<Rightarrow> reader_fail e (c\<lparr>cn_sessions := m, cn_world := w\<rparr>)
      | (_, (m, w)) \<Rightarrow> c\<lparr>cn_sessions := m, cn_world := w\<rparr>)"

text \<open>The client: one turn of its receive loop, and handing the event to the node, which takes it when it is idle.\<close>

definition client_recv :: "ext_errs \<Rightarrow> ctx \<Rightarrow> (Event, error) sum \<Rightarrow> ('w, 'y) conn \<Rightarrow> ('w, 'y) conn" where
  "client_recv x ctx r c =
     (case handleStream x [(ctx, r)] of
        None \<Rightarrow> (case r of Inl ev \<Rightarrow> c\<lparr>cn_client := CPut ev\<rparr> | Inr e \<Rightarrow> c)
      | Some (e, es, evs) \<Rightarrow> c\<lparr>cn_client := CDone e, cn_errChan := cn_errChan c @ es\<rparr>)"

definition node_publish :: "'y bus \<Rightarrow> ctx \<Rightarrow> Event \<Rightarrow> ('w, 'y) conn \<Rightarrow> ('w, 'y) conn" where
  "node_publish b ctx ev c = (case bus_Publish b ctx ev (cn_node c) of (r, y) \<Rightarrow> c\<lparr>cn_busy := None, cn_node := y\<rparr>)"

datatype conn_label = OnServer label_of_step | Published Event | Inside

text \<open>
  The steps around the session \<open>p\<close>. Anything else that happens to the sessions is a step of theory Sessions; only the
  writer of the connection receives from its session.
\<close>

inductive conn_step ::
  "ext_errs \<Rightarrow> 'w bus option \<Rightarrow> 'y bus \<Rightarrow> sess_ptr \<Rightarrow> ('w, 'y) conn \<Rightarrow> conn_label \<Rightarrow> ('w, 'y) conn \<Rightarrow> bool"
  for x exchange b p where
  cs_server: "sess_step (cn_sessions c) l m \<Longrightarrow> \<forall>ev. l \<noteq> Received p ev \<Longrightarrow>
     conn_step x exchange b p c (OnServer l) (c\<lparr>cn_sessions := m, cn_world := w\<rparr>)"
| cs_next: "cn_writer c = WNext \<Longrightarrow> p < length (nsm_heap (cn_sessions c)) \<Longrightarrow>
     nodeSession_Next choice ctx p (cn_sessions c) = Some (r, m) \<Longrightarrow>
     conn_step x exchange b p c (OnServer (next_label p r)) (writer_next r m c)"
| cs_send: "cn_writer c = WSend out \<Longrightarrow> conn_step x exchange b p c Inside (writer_send r out c)"
| cs_read: "cn_reader c = RRecv \<Longrightarrow> cn_up c = ev # evs \<Longrightarrow>
     conn_step x exchange b p c Inside (reader_handle exchange ctx ev (c\<lparr>cn_up := evs\<rparr>))"
| cs_read_fail: "cn_reader c = RRecv \<Longrightarrow> conn_step x exchange b p c Inside (reader_fail e c)"
| cs_recv: "cn_client c = CRecv \<Longrightarrow> cn_down c = ev # evs \<Longrightarrow>
     conn_step x exchange b p c Inside (client_recv x None (Inl ev) (c\<lparr>cn_down := evs\<rparr>))"
| cs_recv_fail: "cn_client c = CRecv \<Longrightarrow> ctx \<noteq> None \<or> r = Inr e \<Longrightarrow>
     conn_step x exchange b p c Inside (client_recv x ctx r c)"
| cs_put: "cn_client c = CPut ev \<Longrightarrow> cn_busy c = None \<Longrightarrow>
     conn_step x exchange b p c Inside (c\<lparr>cn_client := CRecv, cn_busy := Some ev\<rparr>)"
| cs_publish: "cn_busy c = Some ev \<Longrightarrow> conn_step x exchange b p c (Published ev) (node_publish b ctx ev c)"

inductive conn_run for x exchange b p c0 where
  cr_refl: "conn_run x exchange b p c0 [] c0"
| cr_step: "conn_run x exchange b p c0 tr c \<Longrightarrow> conn_step x exchange b p c l c' \<Longrightarrow> conn_run x exchange b p c0 (tr @ [l]) c'"

inductive_cases conn_stepE: "conn_step x exchange b p c l c'"

section \<open>Between the session and the node\<close>

definition server_part :: "conn_label list \<Rightarrow> label_of_step list" where
  "server_part tr = concat (map (\<lambda>l. case l of OnServer l \<Rightarrow> [l] | _ \<Rightarrow> []) tr)"

definition published_in :: "conn_label list \<Rightarrow> Event list" where
  "published_in tr = concat (map (\<lambda>l. case l of Published ev \<Rightarrow> [ev] | _ \<Rightarrow> []) tr)"

lemma conn_trace_simps [simp]:
  "server_part [] = []" "published_in [] = []"
  "server_part (tr @ [OnServer l]) = server_part tr @ [l]" "server_part (tr @ [Published ev]) = server_part tr"
  "server_part (tr @ [Inside]) = server_part tr"
  "published_in (tr @ [OnServer l]) = published_in tr" "published_in (tr @ [Published ev]) = published_in tr @ [ev]"
  "published_in (tr @ [Inside]) = published_in tr"
  by (simp_all add: server_part_def published_in_def)

fun held_by_writer :: "writer \<Rightarrow> Event list" where
  "held_by_writer (WSend ev) = [ev]"
| "held_by_writer (WDone (Some ev)) = [ev]"
| "held_by_writer _ = []"

fun held_by_client :: "receiver \<Rightarrow> Event list" where
  "held_by_client (CPut ev) = [ev]"
| "held_by_client _ = []"

text \<open>What is under way, the oldest first.\<close>

definition under_way :: "('w, 'y) conn \<Rightarrow> Event list" where
  "under_way c = (case cn_busy c of None \<Rightarrow> [] | Some ev \<Rightarrow> [ev]) @ held_by_client (cn_client c) @ cn_down c @ held_by_writer (cn_writer c)"

lemmas conn_ops = writer_next_def writer_send_def reader_fail_def client_recv_def node_publish_def under_way_def

lemma reader_handle_keeps:
  "under_way (reader_handle exchange ctx ev c) = under_way c" "cn_sessions (reader_handle exchange ctx ev c) = cn_sessions c"
  "cn_writer (reader_handle exchange ctx ev c) = cn_writer c"
  by (auto simp: reader_handle_def nodeSession_Handle_def reader_fail_def under_way_def split: option.splits prod.splits result.splits)

lemma under_way_up [simp]: "under_way (c\<lparr>cn_up := u\<rparr>) = under_way c"
  by (simp add: under_way_def)

lemma client_recv_fails:
  assumes "cn_client c = CRecv" and "ctx \<noteq> None \<or> r = Inr e"
  shows "under_way (client_recv x ctx r c) = under_way c \<and> cn_sessions (client_recv x ctx r c) = cn_sessions c"
proof -
  from assms(2) have "\<exists>t. handleStream x [(ctx, r)] = Some t" by (auto split: option.split)
  with assms(1) show ?thesis by (auto simp: client_recv_def under_way_def simp del: handleStream.simps)
qed

lemma received_quiet: "\<forall>ev. l \<noteq> Received p ev \<Longrightarrow> received_on p (tr @ [l]) = received_on p tr"
  by (cases l) auto

text \<open>Every step moves events along and loses none.\<close>

lemma conn_step_relay:
  assumes "conn_step x exchange b p c l c'" and "received_on p (server_part tr) = published_in tr @ under_way c"
  shows "received_on p (server_part (tr @ [l])) = published_in (tr @ [l]) @ under_way c'"
  using assms
proof cases
  case (cs_server l m w)
  with assms(2) show ?thesis by (simp add: received_quiet under_way_def)
next
  case (cs_next choice ctx r m)
  with assms(2) show ?thesis by (cases r) (simp_all add: conn_ops next_label_def)
next
  case (cs_read ev evs ctx)
  with assms(2) show ?thesis by (simp add: reader_handle_keeps)
next
  case (cs_recv_fail ctx r e)
  with client_recv_fails [OF cs_recv_fail(3,4), of x] assms(2) show ?thesis by simp
qed (auto simp: conn_ops reader_handle_keeps split: sum.splits prod.splits option.splits)

lemma conn_step_sessions:
  assumes "conn_step x exchange b p c l c'"
  shows "(\<exists>k. l = OnServer k \<and> sess_step (cn_sessions c) k (cn_sessions c'))
    \<or> (\<forall>k. l \<noteq> OnServer k) \<and> cn_sessions c' = cn_sessions c"
  using assms
proof cases
  case (cs_next choice ctx r m)
  with st_next [OF cs_next(4,5)] show ?thesis by (cases r) (auto simp: writer_next_def)
next
  case (cs_recv_fail ctx r e)
  with client_recv_fails [OF cs_recv_fail(3,4), of x] show ?thesis by simp
qed (auto simp: conn_ops reader_handle_keeps split: sum.splits prod.splits option.splits)

lemma conn_run_sessions:
  "conn_run x exchange b p c0 tr c \<Longrightarrow> sess_run (cn_sessions c0) (server_part tr) (cn_sessions c)"
proof (induction rule: conn_run.induct)
  case (cr_step tr c l c')
  from conn_step_sessions [OF cr_step.hyps(2)] cr_step.IH show ?case
    by (cases l) (auto intro: sr_step)
qed (simp add: sr_refl)

lemma run_fifo: "sess_run m0 tr m \<Longrightarrow> nsm_heap m0 = [] \<Longrightarrow> sent_on p tr = received_on p tr @ queued_on p m"
proof (induction rule: sess_run.induct)
  case sr_refl
  then show ?case by (simp add: queued_on_def)
next
  case (sr_step tr m l m')
  from step_fifo [OF sr_step.hyps(2) sr_step.IH [OF sr_step.prems]] show ?case .
qed

text \<open>Each goroutine of the handler leaves one error at most, so the channel of two never blocks.\<close>

definition errs_ok :: "('w, 'y) conn \<Rightarrow> bool" where
  "errs_ok c \<longleftrightarrow> length (cn_errCh c) = (case cn_writer c of WDone _ \<Rightarrow> 1 | _ \<Rightarrow> 0) + (case cn_reader c of RDone \<Rightarrow> 1 | _ \<Rightarrow> 0)"

lemma reader_handle_errs: "cn_reader c = RRecv \<Longrightarrow> errs_ok c \<Longrightarrow> errs_ok (reader_handle exchange ctx ev c)"
  by (auto simp: reader_handle_def reader_fail_def errs_ok_def split: prod.splits result.splits)

lemma client_recv_errs: "errs_ok (client_recv x ctx r c) = errs_ok c"
  by (auto simp: client_recv_def errs_ok_def simp del: handleStream.simps split: option.splits prod.splits sum.splits)

lemma conn_step_errs:
  assumes "conn_step x exchange b p c l c'" and "errs_ok c"
  shows "errs_ok c'"
  using assms
proof cases
  case (cs_next choice ctx r m)
  with assms(2) show ?thesis by (cases r) (simp_all add: errs_ok_def writer_next_def)
next
  case (cs_send out r)
  with assms(2) show ?thesis by (cases r) (simp_all add: errs_ok_def writer_send_def)
next
  case (cs_read ev evs ctx)
  with assms(2) reader_handle_errs [of "c\<lparr>cn_up := evs\<rparr>"] show ?thesis by (simp add: errs_ok_def)
next
  case (cs_publish ev ctx)
  with assms(2) show ?thesis by (simp add: errs_ok_def node_publish_def split: prod.split)
qed (use assms(2) in \<open>simp_all add: client_recv_errs, simp_all add: errs_ok_def reader_fail_def\<close>)

text \<open>A connection begins with its goroutines at their loops and an empty stream down.\<close>

definition conn_start :: "NodeSessionManager \<Rightarrow> 'w \<Rightarrow> Event option list \<Rightarrow> 'y \<Rightarrow> ('w, 'y) conn" where
  "conn_start m w up y = \<lparr>cn_sessions = m, cn_world = w, cn_writer = WNext, cn_reader = RRecv, cn_errCh = [], cn_down = [],
     cn_up = up, cn_client = CRecv, cn_errChan = [], cn_busy = None, cn_node = y\<rparr>"

lemma conn_start_simps [simp]:
  "under_way (conn_start m w up y) = []" "errs_ok (conn_start m w up y)" "cn_sessions (conn_start m w up y) = m"
  by (simp_all add: conn_start_def under_way_def errs_ok_def)

section \<open>Properties\<close>

text \<open>
  C35. From the server to the handlers of a node: along every interleaving of sends, closes, reconnects and of the
  goroutines of both ends, the events published on the exchange of the node, followed by those under way, one of which
  is stuck with the writer if the stream failed under it, and by those still queued in the session, are exactly the events
  that were accepted for the session, in order: none is doubled or overtaken. The channel of errors of
  the handler, of capacity two, never blocks.
\<close>

theorem node_events_delivered:
  assumes "conn_run x exchange b p (conn_start m w up y) tr c" and "nsm_heap m = []"
  shows "sent_on p (server_part tr) = published_in tr @ under_way c @ queued_on p (cn_sessions c) \<and> length (cn_errCh c) \<le> 2"
proof -
  from assms(1) have "received_on p (server_part tr) = published_in tr @ under_way c \<and> errs_ok c"
  proof induction
    case (cr_step tr c l c')
    with conn_step_relay [OF cr_step.hyps(2)] conn_step_errs [OF cr_step.hyps(2)] show ?case by blast
  qed simp
  with run_fifo [OF conn_run_sessions [OF assms(1)], of p] assms(2) show ?thesis
    by (auto simp: errs_ok_def split: writer.splits reader.splits)
qed

text \<open>A node connects, an event is sent to it, and its handlers see it.\<close>

definition relayed :: "Event \<Rightarrow> conn_label list" where
  "relayed ev = [OnServer Quiet, OnServer (Sent 0 ev), OnServer (Received 0 ev), Inside, Inside, Inside]"

definition relay_state :: "NodeSessionManager \<Rightarrow> writer \<Rightarrow> Event list \<Rightarrow> receiver \<Rightarrow> Event option \<Rightarrow> 'y \<Rightarrow> (unit, 'y) conn" where
  "relay_state m wr down cl busy y = \<lparr>cn_sessions = m, cn_world = (), cn_writer = wr, cn_reader = RRecv, cn_errCh = [], cn_down = down,
     cn_up = [], cn_client = cl, cn_errChan = [], cn_busy = busy, cn_node = y\<rparr>"

lemma relayed_run:
  "conn_run x None b 0 (conn_start (NewNodeSessionManager [WithOutboundBuffer 2]) () [] y) (relayed ev)
     (relay_state one_session WNext [] CRecv (Some ev) y)"
proof -
  let ?S = "conn_step x None b 0" and ?m0 = "NewNodeSessionManager [WithOutboundBuffer 2]"
  let ?st = "\<lambda>m wr down cl busy. relay_state m wr down cl busy y"
  let ?m2 = "set_session 0 ((new_session None node_in)\<lparr>sess_out := [ev]\<rparr>) one_session"
  have 1: "?S (?st ?m0 WNext [] CRecv None) (OnServer Quiet) (?st one_session WNext [] CRecv None)"
    using cs_server [of "?st ?m0 WNext [] CRecv None" Quiet one_session 0 x None b "()"] st_connect [of node_in ?m0 None]
    by (simp add: relay_state_def one_session_def node_in_def)
  have "send_on 0 None ''n1'' ev 0 one_session = (Ok (), ?m2)"
    by (simp add: send_on_def one_session_eq select_send_def new_session_def)
  from st_send [OF _ this] have "sess_step one_session (Sent 0 ev) ?m2" by (simp add: one_session_eq send_label_def)
  then have 2: "?S (?st one_session WNext [] CRecv None) (OnServer (Sent 0 ev)) (?st ?m2 WNext [] CRecv None)"
    using cs_server [of "?st one_session WNext [] CRecv None" "Sent 0 ev" ?m2 0 x None b "()"] by (simp add: relay_state_def)
  have "nodeSession_Next 0 None 0 ?m2 = Some (Ok ev, one_session)"
    by (simp add: nodeSession_Next_def select_next_def one_session_eq set_session_def new_session_def)
  then have 3: "?S (?st ?m2 WNext [] CRecv None) (OnServer (Received 0 ev)) (?st one_session (WSend ev) [] CRecv None)"
    using cs_next [of "?st ?m2 WNext [] CRecv None" 0 0 None "Ok ev" one_session x None b]
    by (simp add: relay_state_def writer_next_def next_label_def one_session_eq)
  have 4: "?S (?st one_session (WSend ev) [] CRecv None) Inside (?st one_session WNext [ev] CRecv None)"
    using cs_send [of "?st one_session (WSend ev) [] CRecv None" ev x None b 0 "Inl ()"] by (simp add: relay_state_def writer_send_def)
  have 5: "?S (?st one_session WNext [ev] CRecv None) Inside (?st one_session WNext [] (CPut ev) None)"
    using cs_recv [of "?st one_session WNext [ev] CRecv None" ev "[]" x None b 0] by (simp add: relay_state_def client_recv_def)
  have 6: "?S (?st one_session WNext [] (CPut ev) None) Inside (?st one_session WNext [] CRecv (Some ev))"
    using cs_put [of "?st one_session WNext [] (CPut ev) None" ev x None b 0] by (simp add: relay_state_def)
  have start: "conn_start ?m0 () [] y = ?st ?m0 WNext [] CRecv None" by (simp add: conn_start_def relay_state_def)
  from cr_step [OF cr_step [OF cr_step [OF cr_step [OF cr_step [OF cr_step [OF cr_refl 1] 2] 3] 4] 5] 6]
  show ?thesis unfolding start relayed_def by simp
qed

theorem node_events_delivered_witness:
  "sent_on 0 (server_part (relayed stop_event @ [Published stop_event])) = [stop_event]
   \<and> published_in (relayed stop_event @ [Published stop_event]) = [stop_event]"
proof -
  let ?c = "relay_state one_session WNext [] CRecv (Some stop_event) ((), [])"
  have p: "cn_busy ?c = Some stop_event" by (simp add: relay_state_def)
  from node_events_delivered [OF cr_step [OF relayed_run cs_publish [OF p, of sample_ext None recording_bus 0 None]]] show ?thesis
    by (simp add: NewNodeSessionManager_def WithOutboundBuffer_def)
      (simp add: relayed_def sent_on_def server_part_def published_in_def relay_state_def under_way_def node_publish_def recording_bus_def queued_on_def one_session_eq new_session_def)
qed

section \<open>Reconnecting\<close>

text \<open>
  The client gives up only when its context is cancelled; an error that is not retryable is reported and
  retried as well.
\<close>

theorem node_Connect_returns:
  assumes "node_Connect x rs = Some (e, es, evs)" and "\<forall>c \<in> fst ` set rs. case c of None \<Rightarrow> True | Some e \<Rightarrow> errors_Is e CtxCanceled"
  shows "errors_Is e CtxCanceled"
  using assms
proof (induction x rs arbitrary: es evs rule: node_Connect.induct)
  case (2 x ctx r rs)
  show ?case
  proof (cases ctx)
    case None
    with 2 show ?thesis by (fastforce split: sum.splits option.splits if_splits)
  next
    case (Some c)
    with 2 show ?thesis by simp
  qed
qed simp

text \<open>Nothing received is lost over reconnects: the events of the streams follow each other.\<close>

theorem node_Connect_streams:
  assumes "handleStream x rs = Some (e, es, evs)" and "\<not> errors_Is e CtxCanceled"
    and "node_Connect x rest = Some (e', es', evs')"
  shows "node_Connect x ((None, Inl rs) # rest) = Some (e', es @ es', evs @ evs')"
  using assms by (simp add: startStream_def)

text \<open>A message cannot be sent: the field it would be sent on is never set.\<close>

theorem node_SendMessage_panics: "fst (node_SendMessage send None msg) = Panic ''nil pointer dereference''"
  by (simp add: node_SendMessage_def)

end
