(* ===== verification/NodeRun.thy ===== *)
theory NodeRun
  imports NodeStream LogTail AgentProps
begin

text \<open>
  The start of the node controller, \<^verbatim>\<open>Run\<close> in pkg/controller/node/node.go: the handlers it registers on the exchange of
  the node and the status it reports. With theory NodeStream this leads an event from the server to
  the queue of the node.
\<close>

section \<open>Handlers\<close>

text \<open>The world of the handlers: the log streams, the queue and the controller.\<close>

type_synonym 'x node_world = "log_streams \<times> 'x agent_queue"

definition on_queue :: "('x agent_queue \<Rightarrow> 'a res \<times> 'x agent_queue) \<Rightarrow> 'x node_world \<Rightarrow> 'a res \<times> 'x node_world" where
  "on_queue f w = (case f (snd w) of (r, q) \<Rightarrow> (r, (fst w, q)))"

definition on_logs ::
  "(log_streams \<times> 'x agent_state \<Rightarrow> 'a res \<times> (log_streams \<times> 'x agent_state)) \<Rightarrow> 'x node_world \<Rightarrow> 'a res \<times> 'x node_world" where
  "on_logs f w = (case f (fst w, snd (snd w)) of (r, (ls, a)) \<Rightarrow> (r, (ls, (fst (snd w), a))))"

definition for_task :: "Task \<Rightarrow> 'x node_world \<Rightarrow> 'x node_world" where
  "for_task task w = (fst w, (fst (snd w), (snd (snd w))\<lparr>as_task := task\<rparr>))"

definition time_of :: "'x Agent \<Rightarrow> 'x node_world \<Rightarrow> instant" where
  "time_of c w = ac_clock c (as_world (snd (snd w)))"

text \<open>What opens the output of a task and the stream of its lines, the version of the runtime, and what reads the message of
  a runtime event.\<close>

record 'x node_io =
  io_task :: "ctx \<Rightarrow> string \<Rightarrow> 'x \<Rightarrow> unit res \<times> 'x"
  io_stream :: "ctx \<Rightarrow> 'x \<Rightarrow> unit res \<times> 'x"
  io_version :: "ctx \<Rightarrow> 'x \<Rightarrow> string res \<times> 'x"
  io_event :: "any option \<Rightarrow> cevent res"

definition stop_handler :: "'x Agent \<Rightarrow> 'x node_world handler" where
  "stop_handler c = HandleTask (\<lambda>ctx task w. on_queue (Agent_processTaskStop (time_of c w)) (for_task task w))"

definition node_handlers :: "'x Agent \<Rightarrow> 'x node_io \<Rightarrow> (EventType \<times> 'x node_world handler) list" where
  "node_handlers c io = [
     (Schedule, HandleScheduling (\<lambda>ctx task node w. on_queue (Agent_processSchedule c ctx (time_of c w) node) (for_task task w))),
     (TaskDelete, stop_handler c),
     (TaskStop, stop_handler c),
     (TaskKill, HandleTask (\<lambda>ctx task w. on_queue (Agent_processTaskKill (time_of c w)) (for_task task w))),
     (NodeUpdate, HandleNode (\<lambda>ctx node w. on_queue (Agent_processNodeUpdate (time_of c w) node) w)),
     (RuntimeTaskExit, \<lambda>ctx ev w. on_queue (on_agent (Agent_onRuntimeTaskExit c ctx (io_event io (ev_Object ev)))) w),
     (RuntimeTaskStart, \<lambda>ctx ev w. on_queue (on_agent (Agent_onRuntimeTaskStart c ctx (io_event io (ev_Object ev)))) w),
     (RuntimeTaskDelete, \<lambda>ctx ev w. on_queue (on_agent (Agent_onRuntimeTaskDelete c ctx (io_event io (ev_Object ev)))) w),
     (TailLogsStart, \<lambda>ctx ev w. andThen (on_logs (Agent_onLogStart c (io_task io) (io_stream io) ctx ev) w) (\<lambda>_ w. (Ok (), w))),
     (TailLogsStop, \<lambda>ctx ev w. on_logs (Agent_onLogStop c ctx ev) w)]"

definition register :: "(EventType \<times> 'w handler) list \<Rightarrow> 'w Exchange \<Rightarrow> 'w Exchange" where
  "register hs e = foldl (\<lambda>e (t, h). Exchange_On t (HandleErrors h) e) e hs"

section \<open>The status of the node\<close>

text \<open>An error in finding the version or the host name is logged, and the text is then empty.\<close>

definition Agent_announce :: "'x Agent \<Rightarrow> 'x node_io \<Rightarrow> ctx \<Rightarrow> string res \<Rightarrow> 'x agent_state \<Rightarrow> unit res \<times> 'x agent_state" where
  "Agent_announce c io ctx hostname st =
     (let host = (case hostname of Ok h \<Rightarrow> h | _ \<Rightarrow> []) in
      case env_call (io_version io ctx) st of
        (Panic m, st) \<Rightarrow> (Panic m, st)
      | (ver, st) \<Rightarrow>
          (let runtimeVer = (case ver of Ok v \<Rightarrow> v | _ \<Rightarrow> []) in
           case env_call (node_Get (ac_nodes c) ctx (node_name_of (ac_node c))) st of
             (Panic m, st) \<Rightarrow> (Panic m, st)
           | (Err e, st) \<Rightarrow> (Ok (), st)
           | (Ok node, st) \<Rightarrow>
               ignoring (env_call (node_Status_Update (ac_nodes c) ctx (node_uid_of node)
                  (empty_NodeStatus\<lparr>ns_Phase := Some (reason_text ReasonReady), ns_Runtime := Some runtimeVer, ns_Hostname := Some host\<rparr>)
                  [''phase'', ''runtime'', ''hostname'']) st) (\<lambda>st. (Ok (), st))))"

section \<open>Dispatch\<close>

lemma register_at:
  "at_type (persistentHandlers (register hs e)) t =
     at_type (persistentHandlers e) t @ map (\<lambda>(_, h). HandleErrors h) (filter (\<lambda>(t', _). t' = t) hs)"
proof (induction hs arbitrary: e)
  case (Cons th hs)
  obtain t' h where th: "th = (t', h)" by (cases th) auto
  have "register (th # hs) e = register hs (Exchange_On t' (HandleErrors h) e)" by (simp add: register_def th)
  with Cons.IH [of "Exchange_On t' (HandleErrors h) e"] show ?case
    by (simp add: th Exchange_On_def at_type_def)
qed (simp add: register_def)

text \<open>An exchange without handlers to fire once keeps its handlers; the only handler of a type acts on the world.\<close>

lemma publish_keeps:
  assumes "Exchange_Publish ctx ev (e, w) = (r, (e', w'))" and "fireOnceHandlers e = None"
  shows "persistentHandlers e' = persistentHandlers e \<and> fireOnceHandlers e' = None"
proof -
  obtain r1 es w1 where p: "run_persistent (at_type (persistentHandlers e) (ev_Type ev)) ctx ev w = ((r1, es), w1)" by (metis surj_pair)
  with assms show ?thesis by (cases r1) (auto simp: Exchange_Publish_def Exchange_publish_def Let_def once_at_def)
qed

lemma publish_one:
  assumes "at_type (persistentHandlers e) (ev_Type ev) = [h]" and "fireOnceHandlers e = None"
  shows "snd (snd (Exchange_Publish ctx ev (e, w))) = snd (h ctx ev w)"
proof -
  obtain r w1 where h: "h ctx ev w = (r, w1)" by (metis surj_pair)
  with assms show ?thesis by (cases r) (simp_all add: Exchange_Publish_def Exchange_publish_def Let_def once_at_def)
qed

definition wired :: "'x Agent \<Rightarrow> 'x node_io \<Rightarrow> 'x node_world Exchange \<Rightarrow> bool" where
  "wired c io e \<longleftrightarrow> persistentHandlers e = persistentHandlers (register (node_handlers c io) NewExchange) \<and> fireOnceHandlers e = None"

lemma register_once: "fireOnceHandlers (register hs e) = fireOnceHandlers e"
  by (induction hs arbitrary: e) (auto simp: register_def Exchange_On_def)

lemma wired_start: "wired c io (register (node_handlers c io) NewExchange)"
  by (simp add: wired_def register_once NewExchange_def)

lemma wired_stop:
  assumes "wired c io e" and "t = TaskStop \<or> t = TaskDelete"
  shows "at_type (persistentHandlers e) t = [HandleErrors (stop_handler c)]"
  using assms register_at [of "node_handlers c io" NewExchange t] by (auto simp: wired_def node_handlers_def NewExchange_def at_type_def)

lemma conn_step_wired:
  assumes "conn_step x exchange exchange_bus p k l k'" and "wired c io (fst (cn_node k))"
  shows "wired c io (fst (cn_node k'))"
  using assms
proof cases
  case (cs_next choice ctx r m)
  with assms(2) show ?thesis by (cases r) (simp_all add: writer_next_def)
next
  case (cs_send out r)
  with assms(2) show ?thesis by (cases r) (simp_all add: writer_send_def)
next
  case (cs_publish ev ctx)
  obtain e w r e' w' where k: "cn_node k = (e, w)" "Exchange_Publish ctx ev (e, w) = (r, (e', w'))" by (metis surj_pair)
  from publish_keeps [OF k(2)] assms(2) k(1) have "wired c io e'" by (simp add: wired_def)
  with cs_publish k show ?thesis by (simp add: node_publish_def exchange_bus_def)
qed (use assms(2) in \<open>auto simp: reader_handle_def reader_fail_def client_recv_def simp del: handleStream.simps split: prod.splits result.splits option.splits sum.splits\<close>)

lemma conn_run_wired:
  assumes "conn_run x exchange exchange_bus p k0 tr k" and "wired c io (fst (cn_node k0))"
  shows "wired c io (fst (cn_node k))"
  using assms by induction (auto dest: conn_step_wired)

text \<open>What a stop puts on the queue.\<close>

lemma nth_update_any: "xs[i := x] ! j = (if i = j \<and> j < length xs then x else xs ! j)"
  by (cases "i < length xs") (auto simp: nth_list_update list_update_beyond not_less)

lemma enqueue_new:
  assumes "\<not> tq_closed q" and "name \<noteq> []" and "uid \<noteq> []"
  shows "\<exists>q' i. enqueue_item now (new_work now name uid pl h) (q, a) = (Ok (), (q', a))
    \<and> map_of (tq_items q') uid = Some i \<and> qi_Handler (tq_heap q' ! i) = h \<and> qi_Proto (tq_heap q' ! i) = pl
    \<and> \<not> qi_cancelled (tq_heap q' ! i)"
  using assms
  by (auto simp: enqueue_item_def new_work_def TaskQueue_Enqueue_def new_item_def Let_def upd_item_def drop_popped_def cancel_item_def
      nth_append nth_update_any split: option.splits)

section \<open>Properties\<close>

text \<open>
  C36. A stop reaches the queue of the node: however the connection got there, when the node publishes an event that stops
  or deletes a task, received from the server, its open queue then holds a live item for the task under its uid, which
  stops it.
\<close>

theorem node_stop_reaches_queue:
  assumes "conn_run x exchange exchange_bus p (conn_start m w up (register (node_handlers c io) NewExchange, nw)) tr k"
    and "cn_busy k = Some ev" and "ev_Type ev = TaskStop \<or> ev_Type ev = TaskDelete" and "ev_Object ev = Some (AnyTask t)"
    and "task_uid_of t \<noteq> []" and "task_name_of t \<noteq> []" and "\<not> tq_closed (fst (snd (snd (cn_node k))))"
    and "q = fst (snd (snd (cn_node (node_publish exchange_bus ctx ev k))))"
  shows "\<exists>i. map_of (tq_items q) (task_uid_of t) = Some i \<and> qi_Handler (tq_heap q ! i) = AgentStop
    \<and> qi_Proto (tq_heap q ! i) = AnyTask t \<and> \<not> qi_cancelled (tq_heap q ! i)"
proof -
  obtain e ls q0 a where k: "cn_node k = (e, (ls, (q0, a)))" by (metis surj_pair)
  have wi: "wired c io e" using conn_run_wired [OF assms(1), of c io] wired_start [of c io] k by (simp add: conn_start_def)
  note h = wired_stop [OF wi assms(3)] wi [unfolded wired_def, THEN conjunct2]
  let ?w = "(ls, (q0, a))" and ?a = "a\<lparr>as_task := t\<rparr>"
  have "\<not> tq_closed q0" using assms(7) k by simp
  from enqueue_new [OF this assms(6,5), where now = "time_of c ?w" and pl = "AnyTask t" and h = AgentStop and a = ?a] obtain q' i where
    q': "enqueue_item (time_of c ?w) (new_work (time_of c ?w) (task_name_of t) (task_uid_of t) (AnyTask t) AgentStop) (q0, ?a) = (Ok (), (q', ?a))"
      "map_of (tq_items q') (task_uid_of t) = Some i" "qi_Handler (tq_heap q' ! i) = AgentStop" "qi_Proto (tq_heap q' ! i) = AnyTask t"
      "\<not> qi_cancelled (tq_heap q' ! i)" by blast
  have s: "stop_handler c ctx ev ?w = (Ok (), (ls, (q', ?a)))"
    using q'(1) assms(4)
    by (simp add: stop_handler_def HandleTask_def on_queue_def for_task_def Agent_processTaskStop_def enqueue_agent_task_def Let_def)
  have "snd (snd (Exchange_Publish ctx ev (e, ?w))) = (ls, (q', ?a))" using publish_one [OF h, of ctx ?w] s by (simp add: HandleErrors_def)
  then have "q = q'" using assms(8) k by (auto simp: node_publish_def exchange_bus_def split: prod.splits)
  with q' show ?thesis by blast
qed

definition quiet_io :: "label list node_io" where
  "quiet_io = \<lparr>io_task = (\<lambda>ctx i x. (Ok (), x)), io_stream = (\<lambda>ctx x. (Ok (), x)), io_version = (\<lambda>ctx x. (Ok ''v1'', x)),
     io_event = (\<lambda>_. Err (Foreign ''mismatched message type''))\<rparr>"

definition stop_waiting :: Event where
  "stop_waiting = NewEvent ''e'' TaskStop (AnyTask waiting) []"

definition idle_node :: "label list node_world" where
  "idle_node = (\<lparr>ls_active = [], ls_next = 0, ls_cancelled = []\<rparr>, (NewTaskQueue, agent_with []))"

definition stopped_queue :: "(agent_handler, any) TaskQueue" where
  "stopped_queue = fst (snd (snd (cn_node (node_publish exchange_bus None stop_waiting
     (relay_state one_session WNext [] CRecv (Some stop_waiting) (register (node_handlers noting_agent quiet_io) NewExchange, idle_node))))))"

theorem node_stop_reaches_queue_witness:
  "\<exists>i. map_of (tq_items stopped_queue) task_uid = Some i \<and> qi_Handler (tq_heap stopped_queue ! i) = AgentStop
    \<and> qi_Proto (tq_heap stopped_queue ! i) = AnyTask waiting \<and> \<not> qi_cancelled (tq_heap stopped_queue ! i)"
proof -
  have "task_uid \<noteq> []" "task_name_of waiting \<noteq> []" by (simp_all add: task_uid_def waiting_def created_task_def sample_task_def sample_meta_def)
  then show ?thesis
    using node_stop_reaches_queue [OF relayed_run [of sample_ext exchange_bus "(register (node_handlers noting_agent quiet_io) NewExchange, idle_node)" stop_waiting],
        of stop_waiting waiting stopped_queue None]
    by (simp add: relay_state_def stop_waiting_def NewEvent_def idle_node_def NewTaskQueue_def stopped_queue_def)
qed

end
