(* ===== verification/EventClient.thy ===== *)
theory EventClient
  imports NodeStream
begin

text \<open>
  The event client, pkg/client/event/v1/event.go: its calls, its handlers and the stream that feeds them. The client keeps an
  exchange of its own; the stream of all events of the server is published there, whatever topics were
  subscribed. Also the small clients of logs and container sets.
\<close>

section \<open>Calls\<close>

record 'x EventServiceClient =
  estub_Get :: "ctx \<Rightarrow> string \<Rightarrow> 'x \<Rightarrow> Event res \<times> 'x"
  estub_List :: "ctx \<Rightarrow> label \<Rightarrow> 'x \<Rightarrow> Event list res \<times> 'x"
  estub_Create :: "ctx \<Rightarrow> Event \<Rightarrow> 'x \<Rightarrow> Event res \<times> 'x"
  estub_Publish :: "ctx \<Rightarrow> Event \<Rightarrow> 'x \<Rightarrow> Event res \<times> 'x"

definition event_Get :: "'x EventServiceClient \<Rightarrow> uuid_lib \<Rightarrow> ctx \<Rightarrow> string \<Rightarrow> 'x \<Rightarrow> Event res \<times> 'x" where
  "event_Get c ul ctx i st = by_text ul i (\<lambda>uid name. estub_Get c ctx uid) st"

definition event_List :: "'x EventServiceClient \<Rightarrow> ctx \<Rightarrow> label list \<Rightarrow> 'x \<Rightarrow> Event list res \<times> 'x" where
  "event_List c ctx ls st = estub_List c ctx (MergeLabels ls) st"

definition event_Create :: "'x EventServiceClient \<Rightarrow> ctx \<Rightarrow> Event \<Rightarrow> 'x \<Rightarrow> Event res \<times> 'x" where
  "event_Create c ctx e st = estub_Create c ctx e st"

definition NewRequest :: "string \<Rightarrow> EventType \<Rightarrow> any \<Rightarrow> label list \<Rightarrow> Event" where
  "NewRequest fresh evType obj ls = NewEvent fresh evType obj ls"

definition event_Publish :: "'x EventServiceClient \<Rightarrow> ctx \<Rightarrow> string \<Rightarrow> any \<Rightarrow> EventType \<Rightarrow> 'x \<Rightarrow> unit res \<times> 'x" where
  "event_Publish c ctx fresh obj evt st = no_value (estub_Publish c ctx (NewRequest fresh evt obj []) st)"

definition event_On :: "EventType \<Rightarrow> 'w handler \<Rightarrow> 'w Exchange \<Rightarrow> 'w Exchange" where
  "event_On ev f e = Exchange_On ev f e"

definition event_Once :: "EventType \<Rightarrow> 'w handler \<Rightarrow> 'w Exchange \<Rightarrow> unit res \<times> 'w Exchange" where
  "event_Once ev f e = Exchange_Once ev f e"

section \<open>The stream\<close>

text \<open>
  One stream: for each turn the context and what was received. The result is \<open>None\<close> while the loop goes on, or the
  error it returns with the errors it put on the channel; a panic of a handler ends the program.
\<close>

fun event_handleStream ::
  "ext_errs \<Rightarrow> 'w bus \<Rightarrow> (ctx \<times> (Event, error) sum) list \<Rightarrow> 'w \<Rightarrow> (error \<times> error list) res option \<times> 'w" where
  "event_handleStream x b [] w = (None, w)"
| "event_handleStream x b ((ctx, r) # rs) w =
     (if ctx \<noteq> None then (Some (Ok (Sentinel CtxCanceled, [])), w)
      else (case r of
              Inr e \<Rightarrow>
                if errors_Is e IoEOF then (Some (Ok (Sentinel IoEOF, [])), w)
                else (case status_FromError x (Some e) of
                        Some (c, m) \<Rightarrow>
                          if isRetryableError c
                          then (Some (Ok (Errorf (''transient stream error '' @ m @ '' '' @ code_text c @ '': '' @ err_text x e), [])), w)
                          else (Some (Ok (e, [e])), w)
                      | None \<Rightarrow> (Some (Ok (e, [e])), w))
            | Inl ev \<Rightarrow>
                (case bus_Publish b ctx ev w of
                   (Panic m, w) \<Rightarrow> (Some (Panic m), w)
                 | (Err e, w) \<Rightarrow>
                     (case event_handleStream x b rs w of
                        (Some (Ok (e', es)), w) \<Rightarrow> (Some (Ok (e', e # es)), w)
                      | p \<Rightarrow> p)
                 | (Ok _, w) \<Rightarrow> event_handleStream x b rs w)))"

text \<open>
  The loop that is started once, with the context of the first subscriber: the errors it leaves on its channel when it
  ends, which closes the channel.
\<close>

fun event_stream_loop ::
  "ext_errs \<Rightarrow> 'w bus \<Rightarrow> (ctx \<times> ((ctx \<times> (Event, error) sum) list, error) sum) list \<Rightarrow> 'w \<Rightarrow> error list res option \<times> 'w" where
  "event_stream_loop x b [] w = (None, w)"
| "event_stream_loop x b ((ctx, r) # rs) w =
     (case ctx of
        Some e \<Rightarrow> (Some (Ok [e]), w)
      | None \<Rightarrow>
          (case startStream x r of
             Inr e \<Rightarrow> event_stream_loop x b rs w
           | Inl stream \<Rightarrow>
               (case event_handleStream x b stream w of
                  (None, w) \<Rightarrow> (None, w)
                | (Some (Err e), w) \<Rightarrow> (Some (Err e), w)
                | (Some (Panic m), w) \<Rightarrow> (Some (Panic m), w)
                | (Some (Ok (streamErr, es)), w) \<Rightarrow>
                    if errors_Is streamErr CtxCanceled then (Some (Ok (es @ [streamErr])), w)
                    else (case event_stream_loop x b rs w of
                            (Some (Ok es'), w) \<Rightarrow> (Some (Ok (es @ es')), w)
                          | p \<Rightarrow> p))))"

text \<open>Subscribing: a channel on the exchange of the client, and the loop if it was not started. \<open>started\<close> is the context it runs with.\<close>

definition event_Subscribe :: "ctx \<Rightarrow> EventType list \<Rightarrow> 'w Exchange \<times> ctx option \<Rightarrow> chan_id \<times> ('w Exchange \<times> ctx option)" where
  "event_Subscribe ctx ts st =
     (case Exchange_Subscribe ts (fst st) of (bus, e) \<Rightarrow> (bus, (e, case snd st of None \<Rightarrow> Some ctx | Some c \<Rightarrow> Some c)))"

section \<open>What the handlers see\<close>

text \<open>The events that the turns of a stream, and of all streams, publish.\<close>

fun turn_events :: "(ctx \<times> (Event, error) sum) list \<Rightarrow> Event list" where
  "turn_events ((None, Inl ev) # rs) = ev # turn_events rs"
| "turn_events _ = []"

fun ends :: "ext_errs \<Rightarrow> (ctx \<times> (Event, error) sum) list \<Rightarrow> bool" where
  "ends x [] \<longleftrightarrow> False"
| "ends x ((ctx, r) # rs) \<longleftrightarrow> ctx \<noteq> None \<or> (case r of Inl ev \<Rightarrow> ends x rs | Inr e \<Rightarrow> True)"

fun cancelled :: "ext_errs \<Rightarrow> (ctx \<times> (Event, error) sum) list \<Rightarrow> bool" where
  "cancelled x [] \<longleftrightarrow> False"
| "cancelled x ((ctx, r) # rs) \<longleftrightarrow>
     ctx \<noteq> None \<or> (case r of Inl ev \<Rightarrow> cancelled x rs
       | Inr e \<Rightarrow> errors_Is e CtxCanceled \<and> \<not> errors_Is e IoEOF
           \<and> (case status_FromError x (Some e) of Some (c, m) \<Rightarrow> \<not> isRetryableError c | None \<Rightarrow> True))"

fun loop_events :: "ext_errs \<Rightarrow> (ctx \<times> ((ctx \<times> (Event, error) sum) list, error) sum) list \<Rightarrow> Event list" where
  "loop_events x ((None, Inl s) # rs) = turn_events s @ (if ends x s \<and> \<not> cancelled x s then loop_events x rs else [])"
| "loop_events x ((None, Inr e) # rs) = loop_events x rs"
| "loop_events x _ = []"

definition publish_all :: "'w bus \<Rightarrow> Event list \<Rightarrow> 'w \<Rightarrow> 'w" where
  "publish_all b evs w = foldl (\<lambda>w ev. snd (bus_Publish b None ev w)) w evs"

lemma publish_all_simps [simp]:
  "publish_all b [] w = w" "publish_all b (ev # evs) w = publish_all b evs (snd (bus_Publish b None ev w))"
  "publish_all b (evs @ evs') w = publish_all b evs' (publish_all b evs w)"
  by (simp_all add: publish_all_def)

text \<open>An invariant of the bus: from a state where it holds, publishing keeps it and does not panic.\<close>

definition bus_keeps :: "'w bus \<Rightarrow> ('w \<Rightarrow> bool) \<Rightarrow> bool" where
  "bus_keeps b I \<longleftrightarrow> (\<forall>ctx ev w. I w \<longrightarrow> I (snd (bus_Publish b ctx ev w)) \<and> (\<forall>m. fst (bus_Publish b ctx ev w) \<noteq> Panic m))"

lemma bus_keepsD:
  assumes "bus_keeps b I" and "I w" and "bus_Publish b ctx ev w = (r, w')"
  shows "I w'" "r \<noteq> Panic m"
  using assms unfolding bus_keeps_def by (metis snd_conv, metis fst_conv)

lemma bus_keeps_all: "bus_keeps b I \<Longrightarrow> I w \<Longrightarrow> I (publish_all b evs w)"
  by (induction evs arbitrary: w) (auto simp: bus_keeps_def)

lemma handleStream_publishes:
  assumes "bus_keeps b I" and "I w"
  shows "snd (event_handleStream x b rs w) = publish_all b (turn_events rs) w
    \<and> (case fst (event_handleStream x b rs w) of
         None \<Rightarrow> \<not> ends x rs
       | Some r \<Rightarrow> ends x rs \<and> (\<exists>e es. r = Ok (e, es) \<and> (errors_Is e CtxCanceled \<longleftrightarrow> cancelled x rs)))"
  using assms(2)
proof (induction rs arbitrary: w)
  case (Cons t rs)
  obtain ctx r where t: "t = (ctx, r)" by (cases t)
  show ?case
  proof (cases "ctx = None")
    case True
    show ?thesis
    proof (cases r)
      case (Inl ev)
      obtain p w' where p: "bus_Publish b None ev w = (p, w')" by (metis surj_pair)
      note kept = bus_keepsD [OF assms(1) Cons.prems p]
      with Cons.IH [OF kept(1)] p True Inl t show ?thesis
        by (cases p; cases "event_handleStream x b rs w'"; cases "fst (event_handleStream x b rs w')") (auto split: result.splits)
    next
      case (Inr e)
      with t True show ?thesis by (auto split: option.splits)
    qed
  next
    case False
    with t show ?thesis by (cases r) auto
  qed
qed simp

text \<open>
  Over reconnects, every event of the server that is received is published on the exchange of the client, in the order
  in which it came and once.
\<close>

theorem event_stream_relays:
  assumes "bus_keeps b I" and "I w"
  shows "snd (event_stream_loop x b rs w) = publish_all b (loop_events x rs) w"
  using assms(2)
proof (induction rs arbitrary: w)
  case (Cons t rs)
  obtain ctx r where t: "t = (ctx, r)" by (cases t)
  show ?case
  proof (cases "ctx = None")
    case True
    show ?thesis
    proof (cases r)
      case (Inl s)
      obtain o' w' where h: "event_handleStream x b s w = (o', w')" by (metis surj_pair)
      note pub = handleStream_publishes [OF assms(1) Cons.prems, of x s]
      with h have "I w'" using bus_keeps_all [OF assms(1) Cons.prems] by simp
      from pub h Cons.IH [OF this] True Inl t show ?thesis
        by (cases o') (auto simp: startStream_def split: prod.splits option.splits result.splits)
    next
      case (Inr e)
      with Cons.IH [OF Cons.prems] True t show ?thesis by (simp add: startStream_def)
    qed
  qed (use t in \<open>cases ctx; cases r; auto\<close>)
qed simp

text \<open>
  The loop belongs to the first subscriber: whoever subscribes later shares it, and when the context of the first is
  cancelled it ends for all.
\<close>

theorem event_stream_shared:
  "snd (snd (event_Subscribe ctx2 ts2 (snd (event_Subscribe ctx1 ts1 (e, None))))) = Some ctx1"
  "event_stream_loop x b ((Some err, r) # rs) w = (Some (Ok [err]), w)"
  by (simp_all add: event_Subscribe_def split: prod.splits)

section \<open>Logs\<close>

record ('s, 'x) LogServiceClient =
  lgs_PushLogs :: "ctx \<Rightarrow> 'x \<Rightarrow> 's res \<times> 'x"
  lgs_TailLogs :: "ctx \<Rightarrow> TailLogRequest \<Rightarrow> 'x \<Rightarrow> 's res \<times> 'x"

definition log_Stream :: "('s, 'x) LogServiceClient \<Rightarrow> ctx \<Rightarrow> 'x \<Rightarrow> 's res \<times> 'x" where
  "log_Stream c ctx st = lgs_PushLogs c ctx st"

definition log_TailLogs :: "('s, 'x) LogServiceClient \<Rightarrow> ctx \<Rightarrow> string \<Rightarrow> string \<Rightarrow> 'x \<Rightarrow> 's res \<times> 'x" where
  "log_TailLogs c ctx taskUID nodeUID st =
     lgs_TailLogs c ctx \<lparr>tl_NodeId = nodeUID, tl_TaskId = taskUID, tl_SessionId = [], tl_Watch = True\<rparr> st"

end
