(* ===== verification/Controllers.thy ===== *)
theory Controllers
  imports NodeRun EventClient LeaseController VolumeController NodeUpgrade
begin

text \<open>
  The start of the controllers: \<^verbatim>\<open>Run\<close> of the scheduler, lease, volume and upgrade controllers registers handlers, on the
  exchange of the server, of the node or of the event client. For the scheduler this is put together with the stream of the
  event client, down to the queue of its workers. Also the handler of that stream on the server, \<^verbatim>\<open>Subscribe\<close> in
  internal/transport/grpc/event.go. What follows the registration waits for the end of the context and logs errors.
\<close>

section \<open>Controllers of the server\<close>

text \<open>The topics of the subscription are those of its channel, which is not read; \<open>clk\<close> is the clock.\<close>

definition sched_topics :: "EventType list" where
  "sched_topics = [TaskCreate, TaskUpdate, NodeConnect, NodeUpdate, NodePatch, LeaseExpired]"

definition sched_handlers :: "('x \<Rightarrow> instant) \<Rightarrow> 'x Controller \<Rightarrow> (EventType \<times> 'x sched_state handler) list" where
  "sched_handlers clk c = [
     (TaskCreate, HandleTask (\<lambda>ctx t w. Controller_processScheduleTask c ctx (clk (snd w)) t w)),
     (TaskStart, HandleTask (\<lambda>ctx t w. Controller_processScheduleTask c ctx (clk (snd w)) t w)),
     (TaskUpdate, HandleTask (\<lambda>ctx t w. Controller_processTaskUpdate c ctx (clk (snd w)) t w)),
     (TaskKill, HandleTask (\<lambda>ctx t w. Controller_processTaskKill c ctx (clk (snd w)) t w)),
     (TaskStop, HandleTask (\<lambda>ctx t w. Controller_processTaskStop c ctx (clk (snd w)) t w)),
     (NodeConnect, HandleNode (\<lambda>ctx n w. Controller_processNode c ctx (clk (snd w)) n w)),
     (NodeUpdate, HandleNode (\<lambda>ctx n w. Controller_processNode c ctx (clk (snd w)) n w)),
     (NodePatch, HandleNode (\<lambda>ctx n w. Controller_processNode c ctx (clk (snd w)) n w)),
     (NodeDelete, HandleNode (\<lambda>ctx n w. Controller_processNode c ctx (clk (snd w)) n w)),
     (LeaseExpired, HandleLease (\<lambda>ctx l w. Controller_processLeaseExpired c ctx (clk (snd w)) l w))]"

definition Controller_Run ::
  "('x \<Rightarrow> instant) \<Rightarrow> 'x Controller \<Rightarrow> ctx \<Rightarrow> 'x sched_state Exchange \<times> ctx option \<Rightarrow> 'x sched_state Exchange \<times> ctx option" where
  "Controller_Run clk c ctx st =
     (case event_Subscribe ctx sched_topics st of (ch, (e, started)) \<Rightarrow> (register (sched_handlers clk c) e, started))"

definition Controller_Reconcile :: "ctx \<Rightarrow> unit res" where
  "Controller_Reconcile ctx = Ok ()"

text \<open>\<open>ref\<close> names the context that a handler is called with, \<open>r\<close> the one of \<^verbatim>\<open>Run\<close>.\<close>

definition lease_handlers :: "(timers \<times> 'x \<Rightarrow> ctx_ref) \<Rightarrow> 'x LeaseController \<Rightarrow> (EventType \<times> (timers \<times> 'x) handler) list" where
  "lease_handlers ref c = [
     (LeaseAcquired, HandleLease (\<lambda>ctx lease st. onLeaseAcquired c (ref st) lease st)),
     (TaskDelete, HandleTask (\<lambda>ctx task st. onTaskDeleted c ctx task st))]"

definition LeaseController_Run ::
  "(timers \<times> 'x \<Rightarrow> ctx_ref) \<Rightarrow> 'x LeaseController \<Rightarrow> ctx_ref \<Rightarrow> ctx \<Rightarrow> (timers \<times> 'x) Exchange \<times> (timers \<times> 'x)
     \<Rightarrow> unit res \<times> ((timers \<times> 'x) Exchange \<times> (timers \<times> 'x))" where
  "LeaseController_Run ref c r ctx st =
     (case recoverTimers c r ctx (snd st) of (res, w) \<Rightarrow> (res, (register (lease_handlers ref c) (fst st), w)))"

section \<open>Controllers of a node\<close>

definition volume_topics :: "EventType list" where
  "volume_topics = [VolumeCreate, VolumeDelete, VolumeUpdate, NodeJoin]"

definition volume_handlers :: "'y VolumeController \<Rightarrow> (EventType \<times> (files \<times> 'y) handler) list" where
  "volume_handlers c = [
     (VolumeCreate, HandleVolume (handleNodeSelector c (onVolumeCreate c))),
     (VolumeDelete, HandleVolume (onVolumeDelete c)),
     (NodeJoin, HandleNode (onNodeJoin c))]"

text \<open>When reconciling fails, the controller ends before it subscribes.\<close>

definition VolumeController_Run ::
  "'y VolumeController \<Rightarrow> ctx \<Rightarrow> ((files \<times> 'y) Exchange \<times> ctx option) \<times> (files \<times> 'y)
     \<Rightarrow> unit res \<times> (((files \<times> 'y) Exchange \<times> ctx option) \<times> (files \<times> 'y))" where
  "VolumeController_Run c ctx st =
     (case VolumeController_Reconcile c ctx (snd st) of
        (Ok _, w) \<Rightarrow>
          (case event_Subscribe ctx volume_topics (fst st) of (ch, (e, started)) \<Rightarrow>
             (Ok (), ((register (volume_handlers c) e, started), w)))
      | (Err e, w) \<Rightarrow> (Err e, (fst st, w))
      | (Panic m, w) \<Rightarrow> (Panic m, (fst st, w)))"

definition upgrade_handlers ::
  "'y NodeUpgrade \<Rightarrow> (EventType \<times> ((unit, Event) TaskQueue \<times> (files \<times> 'y)) handler) list" where
  "upgrade_handlers c =
     [(EventType.NodeUpgrade, events_Handle (\<lambda>ctx ev st. processNodeUpgrade c ctx (nu_clock c (snd (snd st))) ev st))]"

text \<open>\<open>ver\<close> is the version the binary was built with.\<close>

definition NodeUpgrade_announce :: "'y NodeUpgrade \<Rightarrow> string \<Rightarrow> ctx \<Rightarrow> files \<times> 'y \<Rightarrow> unit res \<times> (files \<times> 'y)" where
  "NodeUpgrade_announce c ver ctx st =
     (case on_server (node_Get (nu_nodes c) ctx (node_name_of (nu_node c))) st of
        (Panic m, st) \<Rightarrow> (Panic m, st)
      | (Err e, st) \<Rightarrow> (Ok (), st)
      | (Ok node, st) \<Rightarrow>
          (Ok (), NodeUpgrade_Report c (Report_True ReasonConnected [] (Report_WithMetadata [(''node_version'', ver)] (node_report c node st))) st))"

definition NodeUpgrade_Run ::
  "'y NodeUpgrade \<Rightarrow> string \<Rightarrow> ctx \<Rightarrow> ((unit, Event) TaskQueue \<times> (files \<times> 'y)) Exchange \<times> (files \<times> 'y)
     \<Rightarrow> unit res \<times> (((unit, Event) TaskQueue \<times> (files \<times> 'y)) Exchange \<times> (files \<times> 'y))" where
  "NodeUpgrade_Run c ver ctx st =
     (case NodeUpgrade_announce c ver ctx (snd st) of (r, w) \<Rightarrow> (r, (register (upgrade_handlers c) (fst st), w)))"

section \<open>The stream of events on the server\<close>

definition grpc_Subscribe_open ::
  "('s, 'u, 'w) EventService \<Rightarrow> ctx \<Rightarrow> metadata option \<Rightarrow> 's \<times> 'w \<Rightarrow> sess_ptr res \<times> ('s \<times> 'w)" where
  "grpc_Subscribe_open n ctx md st = EventService_Subscribe n ctx (stream_input md) st"

text \<open>What ends the relay: nothing so far, an error of the stream, or the context, after which a node is announced as gone.\<close>

definition announce_gone ::
  "('s, 'u, 'w) EventService \<Rightarrow> ctx \<Rightarrow> metadata option \<Rightarrow> string \<Rightarrow> svc_env \<Rightarrow> svc_env \<Rightarrow> 's \<times> 'w \<Rightarrow> error list res \<times> ('s \<times> 'w)" where
  "announce_gone n ctx md fresh env1 env2 st =
     (case md of
        None \<Rightarrow> (Ok [], st)
      | Some m \<Rightarrow>
          (case map_of m ''x-voiyd-node-name'' of
             Some (nodeName # _) \<Rightarrow>
               (case grpc_Event_Publish n ctx env1 env2 (NewEvent fresh NodeForget
                       (AnyNode \<lparr>node_Version = ''node/v1'', node_Meta = Some (empty_Meta\<lparr>meta_Name := nodeName\<rparr>), node_Config = None, node_Status = None\<rparr>) []) st of
                  (Err e, st) \<Rightarrow> (Ok [e], st)
                | (Panic x, st) \<Rightarrow> (Panic x, st)
                | (Ok _, st) \<Rightarrow> (Ok [], st))
           | _ \<Rightarrow> (Ok [], st)))"

text \<open>
  The goroutine that relays: for each turn either an event of its channel with what sending it gave, or the context that
  ended. The events sent, and the errors for the handler once it returned.
\<close>

datatype relay_turn = RelayEvent Event "(unit, error) sum" | RelayDone ctx string svc_env svc_env

fun subscribe_relay ::
  "('s, 'u, 'w) EventService \<Rightarrow> metadata option \<Rightarrow> relay_turn list \<Rightarrow> 's \<times> 'w \<Rightarrow> (Event list \<times> error list res option) \<times> ('s \<times> 'w)" where
  "subscribe_relay n md [] st = (([], None), st)"
| "subscribe_relay n md (RelayEvent ev (Inl u) # rs) st = (case subscribe_relay n md rs st of ((evs, r), st) \<Rightarrow> ((ev # evs, r), st))"
| "subscribe_relay n md (RelayEvent ev (Inr e) # rs) st = (([], Some (Ok [e])), st)"
| "subscribe_relay n md (RelayDone ctx fresh env1 env2 # rs) st =
     (case announce_gone n ctx md fresh env1 env2 st of (r, st) \<Rightarrow> (([], Some r), st))"

section \<open>From the stream to the queue of the scheduler\<close>

text \<open>What the scheduler does with an event.\<close>

definition task_reaction :: "EventType \<Rightarrow> sched_handler option" where
  "task_reaction t = (case t of TaskCreate \<Rightarrow> Some ScheduleTask | TaskStart \<Rightarrow> Some ScheduleTask | TaskUpdate \<Rightarrow> Some UpdateTask
     | TaskKill \<Rightarrow> Some KillTask | TaskStop \<Rightarrow> Some StopTask | _ \<Rightarrow> None)"

definition sched_react :: "('x \<Rightarrow> instant) \<Rightarrow> 'x Controller \<Rightarrow> Event \<Rightarrow> 'x sched_state \<Rightarrow> 'x sched_state" where
  "sched_react clk c ev s =
     (let now = clk (snd s) in
      case ev_Object ev of
        Some (AnyTask t) \<Rightarrow> (case task_reaction (ev_Type ev) of Some h \<Rightarrow> snd (enqueue_task h c None now t s) | None \<Rightarrow> s)
      | Some (AnyNode n) \<Rightarrow>
          if ev_Type ev \<in> {NodeConnect, NodeUpdate, NodePatch, NodeDelete} then snd (Controller_processNode c None now n s) else s
      | Some (AnyLease l) \<Rightarrow> if ev_Type ev = LeaseExpired then snd (Controller_processLeaseExpired c None now l s) else s
      | _ \<Rightarrow> s)"

text \<open>Calls of the server return a value or an error.\<close>

definition returns :: "'a res \<times> 's \<Rightarrow> bool" where
  "returns p \<longleftrightarrow> (\<forall>m. fst p \<noteq> Panic m)"

definition calls_return :: "'x Controller \<Rightarrow> bool" where
  "calls_return c \<longleftrightarrow> (\<forall>ctx i w. returns (task_Get (sc_tasks c) ctx i w)) \<and> (\<forall>ctx ls w. returns (task_List (sc_tasks c) ctx ls w))
     \<and> (\<forall>ctx i w. returns (lease_Get (sc_leases c) ctx i w))"

lemma returns_pair [simp]: "returns (Ok v, s)" "returns (Err e, s)" "\<not> returns (Panic m, s)"
  by (simp_all add: returns_def)

lemma returns_andThen: "returns p \<Longrightarrow> (\<And>a s. returns (f a s)) \<Longrightarrow> returns (andThen p f)"
  by (cases p; cases "fst p") auto

lemma returns_on_cluster: "(\<And>s. returns (f s)) \<Longrightarrow> returns (on_cluster f st)"
  by (simp add: on_cluster_def returns_def case_prod_beta)

lemma enqueue_returns [simp]: "returns (enqueue_item now it st)"
  by (auto simp: enqueue_item_def TaskQueue_Enqueue_def Let_def)

lemma as_Task_returns [simp]: "returns (as_Task o', s)"
  by (cases o' rule: as_Task.cases) simp_all

lemma as_Node_returns [simp]: "returns (as_Node o', s)"
  by (cases o' rule: as_Node.cases) simp_all

lemma as_Lease_returns [simp]: "returns (as_Lease o', s)"
  by (cases o' rule: as_Lease.cases) simp_all

lemma task_returns: "calls_return c \<Longrightarrow> returns (enqueue_task h c ctx now t s)"
  unfolding enqueue_task_def by (intro returns_andThen returns_on_cluster) (simp_all add: calls_return_def)

lemma should_returns:
  assumes "calls_return c"
  shows "returns (Controller_shouldScheduleTask c ctx now i w)"
proof -
  obtain r w' where r: "lease_Get (sc_leases c) ctx i w = (r, w')" by (metis surj_pair)
  with assms have "returns (r, w')" unfolding calls_return_def by metis
  with r show ?thesis by (cases r) (auto simp: Controller_shouldScheduleTask_def Let_def)
qed

lemma due_returns:
  assumes "calls_return c"
  shows "returns (enqueue_due c ctx now ts s)"
proof (induction ts arbitrary: s)
  case (Cons t ts)
  obtain r s' where r: "on_cluster (Controller_shouldScheduleTask c ctx now (task_uid_of t)) s = (r, s')" by (metis surj_pair)
  obtain r2 s2 where r2: "Controller_processScheduleTask c ctx now t s' = (r2, s2)" by (metis surj_pair)
  have "returns (on_cluster (Controller_shouldScheduleTask c ctx now (task_uid_of t)) s)"
    by (rule returns_on_cluster) (rule should_returns [OF assms])
  then have "returns (r, s')" by (simp add: r)
  moreover have "returns (r2, s2)"
    using task_returns [OF assms, of ScheduleTask ctx now t s'] r2 by (simp add: Controller_processScheduleTask_def)
  ultimately show ?case using r r2 by (cases r; cases r2) (simp_all add: Cons.IH)
qed simp

lemma node_returns: "calls_return c \<Longrightarrow> returns (Controller_processNode c ctx now n s)"
  unfolding Controller_processNode_def by (intro returns_andThen returns_on_cluster due_returns) (simp_all add: calls_return_def)

lemma expired_returns:
  assumes "calls_return c"
  shows "returns (Controller_processLeaseExpired c ctx now l s)"
proof -
  obtain r s' where r: "on_cluster (task_Get (sc_tasks c) ctx (lc_TaskId (lease_config l))) s = (r, s')" by (metis surj_pair)
  moreover have "returns (on_cluster (task_Get (sc_tasks c) ctx (lc_TaskId (lease_config l))) s)"
    using assms by (intro returns_on_cluster) (simp add: calls_return_def)
  ultimately show ?thesis by (cases r) (simp_all add: Controller_processLeaseExpired_def)
qed

lemmas sched_returns = task_returns node_returns expired_returns

lemma sched_handlers_return:
  assumes "calls_return c" and "(t, h) \<in> set (sched_handlers clk c)"
  shows "never_panics (HandleErrors h)"
proof -
  have "returns (h ctx ev s)" for ctx ev s
    using assms(2) unfolding sched_handlers_def
    by (auto simp: HandleTask_def HandleNode_def HandleLease_def Controller_processScheduleTask_def Controller_processTaskUpdate_def
        Controller_processTaskKill_def Controller_processTaskStop_def intro!: returns_andThen sched_returns [OF assms(1)])
  then show ?thesis unfolding never_panics_def HandleErrors_def returns_def
    by (auto split: prod.splits result.splits) (metis fst_conv)
qed

text \<open>An exchange with exactly these handlers, and what it makes of an event.\<close>

definition at_list :: "(EventType \<times> 'w handler) list \<Rightarrow> EventType \<Rightarrow> 'w handler list" where
  "at_list hs t = map (\<lambda>(_, h). HandleErrors h) (filter (\<lambda>(t', _). t' = t) hs)"

definition runs_handlers :: "(EventType \<times> 'w handler) list \<Rightarrow> 'w Exchange \<Rightarrow> bool" where
  "runs_handlers hs e \<longleftrightarrow> (\<forall>t. at_type (persistentHandlers e) t = at_list hs t) \<and> fireOnceHandlers e = None"

definition handlers_return :: "(EventType \<times> 'w handler) list \<Rightarrow> bool" where
  "handlers_return hs \<longleftrightarrow> (\<forall>(t, h) \<in> set hs. never_panics (HandleErrors h))"

lemma runs_registered: "persistentHandlers e = [] \<Longrightarrow> fireOnceHandlers e = None \<Longrightarrow> runs_handlers hs (register hs e)"
  unfolding runs_handlers_def register_at register_once at_list_def by (simp add: at_type_def [of "[]"])

lemma registered_publish:
  assumes "handlers_return hs" and "runs_handlers hs e"
  shows "\<exists>e'. runs_handlers hs e' \<and> Exchange_Publish ctx ev (e, w) = (Ok (), (e', run_all (at_list hs (ev_Type ev)) ctx ev w))"
proof -
  have "\<forall>h \<in> set (at_type (persistentHandlers e) (ev_Type ev)). never_panics h"
    using assms by (auto simp: runs_handlers_def handlers_return_def at_list_def)
  moreover have "once_at e (ev_Type ev) = []" using assms(2) by (simp add: runs_handlers_def once_at_def)
  ultimately obtain es where "Exchange_Publish ctx ev (e, w) =
     (Ok (), (e\<lparr>fireOnceHandlers := map_option (AList.delete (ev_Type ev)) (fireOnceHandlers e),
                pending_sends := pending_sends e @ map (\<lambda>ch. (ch, ev)) (at_type (topics e) (ev_Type ev)),
                pending_errs := pending_errs e @ es\<rparr>, run_all (at_type (persistentHandlers e) (ev_Type ev)) ctx ev w))"
    using Publish_delivers [of e ev ctx w] by auto
  with assms(2) show ?thesis by (auto simp: runs_handlers_def)
qed

lemma registered_keeps:
  assumes "handlers_return hs"
  shows "bus_keeps exchange_bus (\<lambda>st. runs_handlers hs (fst st))"
  unfolding bus_keeps_def
proof (intro allI impI)
  fix ctx ev and st :: "'a Exchange \<times> 'a"
  assume "runs_handlers hs (fst st)"
  from registered_publish [OF assms this, of ctx ev "snd st"]
  show "runs_handlers hs (fst (snd (bus_Publish exchange_bus ctx ev st))) \<and> (\<forall>m. fst (bus_Publish exchange_bus ctx ev st) \<noteq> Panic m)"
    by (auto simp: exchange_bus_def)
qed

lemma registered_all:
  assumes "handlers_return hs" and "runs_handlers hs e"
  shows "snd (publish_all exchange_bus evs (e, w)) = foldl (\<lambda>w ev. run_all (at_list hs (ev_Type ev)) None ev w) w evs"
  using assms(2)
proof (induction evs arbitrary: e w)
  case (Cons ev evs)
  obtain e' where "runs_handlers hs e'" "Exchange_Publish None ev (e, w) = (Ok (), (e', run_all (at_list hs (ev_Type ev)) None ev w))"
    using registered_publish [OF assms(1) Cons.prems] by blast
  with Cons.IH show ?case by (simp add: exchange_bus_def)
qed simp

lemma sched_run:
  "run_all (at_list (sched_handlers clk c) (ev_Type ev)) None ev s = sched_react clk c ev s"
  by (cases "ev_Type ev"; cases "ev_Object ev")
    (auto simp: at_list_def sched_handlers_def run_all_def sched_react_def task_reaction_def HandleErrors_def HandleTask_def HandleNode_def HandleLease_def
      Controller_processScheduleTask_def Controller_processTaskUpdate_def Controller_processTaskKill_def Controller_processTaskStop_def
      Let_def split: any.splits prod.splits result.splits)


text \<open>An event about a task with a name queues the task as the server has it, unless it cannot be read there.\<close>

lemma enqueue_item_open: "tq_closed (fst (snd (enqueue_item now it (q, w)))) = tq_closed q"
  by (simp add: enqueue_item_def TaskQueue_Enqueue_def new_item_def upd_item_def drop_popped_def cancel_item_def Let_def split: option.splits)

lemma sched_react_queues:
  assumes "task_reaction (ev_Type ev) = Some h" and "ev_Object ev = Some (AnyTask t)"
    and "task_Get (sc_tasks c) None (task_uid_of t) w = (Ok t', w')" and "task_uid_of t \<noteq> []" and "task_name_of t \<noteq> []" and "\<not> tq_closed q"
  shows "\<exists>q' i. sched_react clk c ev (q, w) = (q', w') \<and> map_of (tq_items q') (task_uid_of t) = Some i
    \<and> qi_Handler (tq_heap q' ! i) = h \<and> qi_Proto (tq_heap q' ! i) = t' \<and> \<not> qi_cancelled (tq_heap q' ! i) \<and> \<not> tq_closed q'"
proof -
  obtain q' i where q': "enqueue_item (clk w) (new_work (clk w) (task_name_of t) (task_uid_of t) t' h) (q, w') = (Ok (), (q', w'))"
      "map_of (tq_items q') (task_uid_of t) = Some i" "qi_Handler (tq_heap q' ! i) = h" "qi_Proto (tq_heap q' ! i) = t'"
      "\<not> qi_cancelled (tq_heap q' ! i)"
    using enqueue_new [OF assms(6,5,4), where now = "clk w" and pl = t' and h = h and a = w'] by blast
  with enqueue_item_open [of "clk w" "new_work (clk w) (task_name_of t) (task_uid_of t) t' h" q w'] assms show ?thesis
    by (auto simp: sched_react_def enqueue_task_def on_cluster_def)
qed

section \<open>Properties\<close>


definition calm_scheduler :: "unit Controller" where
  "calm_scheduler = \<lparr>sc_tasks = \<lparr>tc_stub = nodding_tasks, tc_ident = None, tc_uuid = sample_uuid, tc_errs = sample_ext\<rparr>,
     sc_leases = nodding_leases, sc_nodes = \<lparr>nc_stub = nodding_nodes, nc_ident = None, nc_uuid = sample_uuid\<rparr>,
     sc_nodeService = \<lparr>snd_SendToNode = (\<lambda>ctx n ev x. (Ok (), x)), snd_IsNodeConnected = (\<lambda>n x. True)\<rparr>,
     sc_errs = sample_ext, sc_intn = (\<lambda>_. 0)\<rparr>"

lemma keys_sample_returns: "returns (keys_ParseStr sample_uuid s, st)"
  by (auto simp: keys_ParseStr_def keys_FromUIDOrName_def keys_UUID_def keys_Name_def sample_uuid_def split: if_splits)

lemma calm_returns: "calls_return calm_scheduler"
  by (auto simp: calls_return_def calm_scheduler_def task_Get_def task_List_def lease_Get_def by_text_def nodding_tasks_def nodding_leases_def
      intro!: returns_andThen keys_sample_returns)

lemma calm_Get: "task_Get (sc_tasks calm_scheduler) None task_uid w = (Ok waiting, w)"
  by (simp add: calm_scheduler_def task_Get_def by_text_def nodding_tasks_def task_uid_def) code_simp

definition two_streams :: "(ctx \<times> ((ctx \<times> (Event, error) sum) list, error) sum) list" where
  "two_streams = [(None, Inl [(None, Inl (NewEvent ''e'' TaskCreate (AnyTask waiting) [])), (None, Inr (Sentinel IoEOF))]),
     (None, Inr (Foreign ''refused'')), (None, Inl [(None, Inl stop_waiting)])]"

lemma two_streams_events: "loop_events sample_ext two_streams = [NewEvent ''e'' TaskCreate (AnyTask waiting) [], stop_waiting]"
  by (simp add: two_streams_def)


end
