(* ===== verification/ContainerSets.thy ===== *)
theory ContainerSets
  imports EventClient Scheduler
begin

text \<open>
  Container sets: the controller, pkg/controller/containerset/containerset.go, and the client, pkg/client/containerset.
  Reading a container set from an event is a parameter; a message of another type is not read as one.
\<close>

record ContainerSet =
  cset_Version :: string
  cset_Meta :: "Meta option"
  cset_Template :: "TaskConfig option"

abbreviation set_name :: "ContainerSet \<Rightarrow> string" where
  "set_name s \<equiv> meta_Name (getMeta (cset_Meta s))"

abbreviation task_labels_of :: "Task \<Rightarrow> label" where
  "task_labels_of t \<equiv> meta_Labels (getMeta (task_Meta t))"

definition set_key :: string where
  "set_key = LabelPrefix_String ''task-set''"

section \<open>The controller\<close>

definition set_task :: "string \<Rightarrow> ContainerSet \<Rightarrow> Task" where
  "set_task rnd s =
     (let l = Label_AppendMap (Label_Set [] set_key (set_name s)) (meta_Labels (getMeta (cset_Meta s)))
      in \<lparr>task_Version = [], task_Meta = Some (empty_Meta\<lparr>meta_Name := set_name s @ ''-'' @ rnd, meta_Labels := l\<rparr>),
          task_Config = cset_Template s, task_Status = None\<rparr>)"

definition Set_onCreate ::
  "(any option \<Rightarrow> ContainerSet res) \<Rightarrow> 'x task_client \<Rightarrow> (nat \<Rightarrow> nat \<Rightarrow> nat) \<Rightarrow> ctx \<Rightarrow> Event \<Rightarrow> 'x \<Rightarrow> unit res \<times> 'x" where
  "Set_onCreate unpack c draws ctx e st =
     andThen (unpack (ev_Object e), st) (\<lambda>s st.
     andThen (task_Create c ctx (set_task (GenerateBase36 draws 8) s) st) (\<lambda>_ st. (Ok (), st)))"

fun delete_set_tasks :: "'x task_client \<Rightarrow> ctx \<Rightarrow> string \<Rightarrow> Task list \<Rightarrow> 'x \<Rightarrow> unit res \<times> 'x" where
  "delete_set_tasks c ctx name [] st = (Ok (), st)"
| "delete_set_tasks c ctx name (task # tasks) st =
     (if map_of (task_labels_of task) set_key = Some name
      then andThen (task_Delete c ctx (task_name_of task) st) (\<lambda>_ st. delete_set_tasks c ctx name tasks st)
      else delete_set_tasks c ctx name tasks st)"

definition Set_onDelete :: "(any option \<Rightarrow> ContainerSet res) \<Rightarrow> 'x task_client \<Rightarrow> ctx \<Rightarrow> Event \<Rightarrow> 'x \<Rightarrow> unit res \<times> 'x" where
  "Set_onDelete unpack c ctx e st =
     andThen (unpack (ev_Object e), st) (\<lambda>taskSet st.
     andThen (task_List c ctx [] st) (\<lambda>tasks st. delete_set_tasks c ctx (set_name taskSet) tasks st))"

text \<open>The handlers are for the events of tasks.\<close>

definition set_handlers :: "(any option \<Rightarrow> ContainerSet res) \<Rightarrow> 'x task_client \<Rightarrow> (nat \<Rightarrow> nat \<Rightarrow> nat) \<Rightarrow> (EventType \<times> 'x handler) list" where
  "set_handlers unpack c draws =
     [(TaskCreate, Set_onCreate unpack c draws), (TaskUpdate, \<lambda>ctx e st. (Ok (), st)), (TaskDelete, Set_onDelete unpack c)]"

definition Set_Run ::
  "(any option \<Rightarrow> ContainerSet res) \<Rightarrow> 'x task_client \<Rightarrow> (nat \<Rightarrow> nat \<Rightarrow> nat) \<Rightarrow> ctx \<Rightarrow> 'x Exchange \<times> ctx option \<Rightarrow> 'x Exchange \<times> ctx option" where
  "Set_Run unpack c draws ctx st =
     (case event_Subscribe ctx ALL_EVENTS st of (ch, (e, started)) \<Rightarrow>
        (foldl (\<lambda>e (t, h). event_On t h e) e (set_handlers unpack c draws), started))"

section \<open>The client\<close>

record 'x ContainerSetServiceClient =
  cstub_Create :: "ctx \<Rightarrow> ContainerSet \<Rightarrow> 'x \<Rightarrow> unit res \<times> 'x"
  cstub_Get :: "ctx \<Rightarrow> string \<Rightarrow> string \<Rightarrow> 'x \<Rightarrow> ContainerSet res \<times> 'x"
  cstub_List :: "ctx \<Rightarrow> label \<Rightarrow> 'x \<Rightarrow> ContainerSet list res \<times> 'x"
  cstub_Delete :: "ctx \<Rightarrow> string \<Rightarrow> string \<Rightarrow> 'x \<Rightarrow> unit res \<times> 'x"

definition cset_Create :: "'x ContainerSetServiceClient \<Rightarrow> ctx \<Rightarrow> ContainerSet \<Rightarrow> 'x \<Rightarrow> unit res \<times> 'x" where
  "cset_Create c ctx ctr st = cstub_Create c ctx ctr st"

text \<open>Name and uid of the request are both the text of the identifier.\<close>

definition cset_Get :: "'x ContainerSetServiceClient \<Rightarrow> uuid_lib \<Rightarrow> ctx \<Rightarrow> string \<Rightarrow> 'x \<Rightarrow> ContainerSet res \<times> 'x" where
  "cset_Get c ul ctx i st = andThen (keys_ParseStr ul i, st) (\<lambda>uid st. cstub_Get c ctx (ID_String ul uid) (ID_String ul uid) st)"

definition cset_List :: "'x ContainerSetServiceClient \<Rightarrow> ctx \<Rightarrow> 'x \<Rightarrow> ContainerSet list res \<times> 'x" where
  "cset_List c ctx st = cstub_List c ctx [] st"

definition cset_Delete :: "'x ContainerSetServiceClient \<Rightarrow> uuid_lib \<Rightarrow> ctx \<Rightarrow> string \<Rightarrow> 'x \<Rightarrow> unit res \<times> 'x" where
  "cset_Delete c ul ctx i st = andThen (keys_ParseStr ul i, st) (\<lambda>uid st. cstub_Delete c ctx (ID_String ul uid) (ID_String ul uid) st)"

section \<open>Properties\<close>

text \<open>A task that was made for a set is found when the set is deleted, unless the labels of the set itself hide its name.\<close>

theorem set_task_found:
  assumes "map_of (meta_Labels (getMeta (cset_Meta s))) set_key = None" and "distinct (map fst (meta_Labels (getMeta (cset_Meta s))))"
  shows "map_of (task_labels_of (set_task rnd s)) set_key = Some (set_name s)"
  using assms by (simp add: set_task_def Let_def map_of_AppendMap Label_Set_def)

text \<open>
  No container set is ever handled: the handlers are registered for events whose object is a task, and both of them fail
  on it without a call of the server.
\<close>

theorem set_events_rejected:
  assumes "unpack (Some (AnyTask t)) = Err e" and "ev_Object ev = Some (AnyTask t)" and "(k, h) \<in> set (set_handlers unpack c draws)"
  shows "snd (h ctx ev st) = st \<and> (fst (h ctx ev st) = Err e \<or> k = TaskUpdate)"
  using assms by (auto simp: set_handlers_def Set_onCreate_def Set_onDelete_def)

end
