(* ===== verification/Auth.thy ===== *)
theory Auth
  imports Clients
begin

text \<open>
  Tokens and the interceptors that check them, pkg/auth: the package stands beside the server, which does not install the
  interceptors. The hash, the random bytes and the library of JSON web tokens are parameters.
\<close>

record LeaseClaims =
  lcl_Resource :: string
  lcl_Scope :: "string list"
  lcl_LeaseID :: string
  lcl_FencingToken :: uint64
  lcl_Issuer :: string
  lcl_Subject :: string
  lcl_IssuedAt :: "instant option"
  lcl_ExpiresAt :: "instant option"

definition NewLeaseClaim :: "instant \<Rightarrow> string \<Rightarrow> string \<Rightarrow> string \<Rightarrow> instant \<Rightarrow> LeaseClaims" where
  "NewLeaseClaim now taskID nodeID leaseID expiresAt = \<lparr>lcl_Resource = taskID, lcl_Scope = [''task.status.write''], lcl_LeaseID = leaseID,
     lcl_FencingToken = 1, lcl_Issuer = ''lease-service'', lcl_Subject = nodeID, lcl_IssuedAt = Some now, lcl_ExpiresAt = Some expiresAt\<rparr>"

section \<open>Refresh tokens\<close>

definition HashRefreshToken :: "(bytes \<Rightarrow> bytes) \<Rightarrow> string \<Rightarrow> string" where
  "HashRefreshToken sha256 token = RawURLEncoding (sha256 token)"

text \<open>\<open>rnd\<close> is what \<^verbatim>\<open>rand.Read\<close> gave for 32 bytes.\<close>

definition GenerateRefreshToken :: "(bytes \<Rightarrow> bytes) \<Rightarrow> bytes res \<Rightarrow> (string \<times> string) res" where
  "GenerateRefreshToken sha256 rnd =
     bindR rnd (\<lambda>b. let token = RawURLEncoding b; hash = sha256 token in Ok (token, RawURLEncoding hash))"

section \<open>Access tokens\<close>

text \<open>Signing claims with a private key, and parsing a token, which checks its signature and its times against a public key.\<close>

record ('priv, 'pub) jwt_lib =
  jwt_SignedString :: "LeaseClaims \<Rightarrow> 'priv \<Rightarrow> string res"
  jwt_ParseWithClaims :: "string \<Rightarrow> 'pub \<Rightarrow> LeaseClaims res"

definition auth_Generate :: "('priv, 'pub) jwt_lib \<Rightarrow> LeaseClaims \<Rightarrow> 'priv \<Rightarrow> string res" where
  "auth_Generate j claims key = jwt_SignedString j claims key"

definition auth_Verify :: "('priv, 'pub) jwt_lib \<Rightarrow> string \<Rightarrow> 'pub \<Rightarrow> LeaseClaims res" where
  "auth_Verify j accessToken key =
     (case jwt_ParseWithClaims j accessToken key of Err e \<Rightarrow> Err (Wrapped ''token validation failed'' e) | r \<Rightarrow> r)"

record 'pub AuthInterceptor =
  ai_accessibleRoles :: "(string, string list) gomap"
  ai_pubKey :: 'pub

definition AuthInterceptor_authorize ::
  "('priv, 'pub) jwt_lib \<Rightarrow> ext_errs \<Rightarrow> 'pub AuthInterceptor \<Rightarrow> metadata option \<Rightarrow> string \<Rightarrow> LeaseClaims res" where
  "AuthInterceptor_authorize j x a md methodName =
     (case md of
        None \<Rightarrow> Err (StatusErr Unauthenticated ''metadata is not provided'')
      | Some m \<Rightarrow>
          (case map_of m ''authorization'' of
             Some (accessToken # _) \<Rightarrow>
               (case auth_Verify j accessToken (ai_pubKey a) of
                  Err e \<Rightarrow> Err (StatusErr Unauthenticated (''access token is invalid: '' @ err_text x e))
                | r \<Rightarrow> r)
           | _ \<Rightarrow> Err (StatusErr Unauthenticated ''authorization token is not provided'')))"

text \<open>The values of the context that the handler gets.\<close>

type_synonym auth_values = "(string, string) gomap"

definition AuthInterceptor_Unary ::
  "('priv, 'pub) jwt_lib \<Rightarrow> ext_errs \<Rightarrow> 'pub AuthInterceptor \<Rightarrow> metadata option \<Rightarrow> string \<Rightarrow> (auth_values \<Rightarrow> 'x \<Rightarrow> 'r res \<times> 'x) \<Rightarrow> 'x \<Rightarrow> 'r res \<times> 'x" where
  "AuthInterceptor_Unary j x a md methodName handler st =
     andThen (AuthInterceptor_authorize j x a md methodName, st) (\<lambda>claims st.
     handler [(''lease'', lcl_LeaseID claims), (''subject'', lcl_Subject claims), (''resource'', lcl_Resource claims)] st)"

text \<open>A stream is not checked.\<close>

definition AuthInterceptor_Stream :: "(auth_values \<Rightarrow> 'x \<Rightarrow> 'r res \<times> 'x) \<Rightarrow> 'x \<Rightarrow> 'r res \<times> 'x" where
  "AuthInterceptor_Stream handler st = handler [] st"

section \<open>Properties\<close>

text \<open>The hash that is stored for a new token is the one that is computed when the token is presented.\<close>

theorem refresh_token_hash:
  "GenerateRefreshToken sha256 rnd = Ok (token, hash) \<Longrightarrow> hash = HashRefreshToken sha256 token"
  by (auto simp: GenerateRefreshToken_def HashRefreshToken_def bindR_eq_Ok Let_def)

text \<open>
  A unary call reaches its handler only with a token of the request that the library accepted, and the handler sees the
  claims of that token; any other call is refused as unauthenticated and has no effect.
\<close>

theorem unary_authorized:
  assumes "\<And>t k m. jwt_ParseWithClaims j t k \<noteq> Panic m"
  shows "(\<exists>m token rest claims. md = Some m \<and> map_of m ''authorization'' = Some (token # rest)
      \<and> jwt_ParseWithClaims j token (ai_pubKey a) = Ok claims
      \<and> AuthInterceptor_Unary j x a md name handler st =
          handler [(''lease'', lcl_LeaseID claims), (''subject'', lcl_Subject claims), (''resource'', lcl_Resource claims)] st)
    \<or> (\<exists>msg. AuthInterceptor_Unary j x a md name handler st = (Err (StatusErr Unauthenticated msg), st))"
proof (cases "md \<noteq> None \<and> (\<exists>t ts. map_of (the md) ''authorization'' = Some (t # ts))")
  case True
  then obtain m t ts where m: "md = Some m" "map_of m ''authorization'' = Some (t # ts)" by auto
  with assms [of t "ai_pubKey a"] show ?thesis
    by (cases "jwt_ParseWithClaims j t (ai_pubKey a)") (auto simp: AuthInterceptor_Unary_def AuthInterceptor_authorize_def auth_Verify_def)
next
  case False
  then show ?thesis by (cases md) (auto simp: AuthInterceptor_Unary_def AuthInterceptor_authorize_def split: option.splits list.splits)
qed

end
