(* ===== verification/Dashboard.thy ===== *)
theory Dashboard
  imports Clients Conditions
begin

text \<open>
  The commands that wait: the board of pkg/cmdutil/dashboard.go, and the goroutines that the commands start, stop, delete
  (cmd/voiydctl) and run begin for each task, which call the server, look at the task until it has the phase they want, and
  race with a timeout. What the board draws is not modelled; the data it draws from is.
\<close>

section \<open>The board\<close>

datatype datum = DBool bool | DStr string | DNum uint32 | DWrapped "string option"

record ServiceState =
  ss_Done :: bool
  ss_DoneMsg :: string
  ss_Failed :: bool
  ss_FailedMsg :: string
  ss_task :: Task
  ss_container :: "(string, datum) gomap option"

type_synonym board = "ServiceState list"

abbreviation wrapped :: "string option \<Rightarrow> string" where
  "wrapped v \<equiv> (case v of None \<Rightarrow> [] | Some s \<Rightarrow> s)"

definition status_of :: "Task \<Rightarrow> TaskStatus" where
  "status_of t = (case task_Status t of None \<Rightarrow> empty_TaskStatus | Some s \<Rightarrow> s)"

definition named_task :: "string \<Rightarrow> Task" where
  "named_task n = \<lparr>task_Version = [], task_Meta = Some (empty_Meta\<lparr>meta_Name := n\<rparr>), task_Config = None, task_Status = None\<rparr>"

definition NewDashboard :: "string list \<Rightarrow> board" where
  "NewDashboard ns = map (\<lambda>n. \<lparr>ss_Done = False, ss_DoneMsg = [], ss_Failed = False, ss_FailedMsg = [], ss_task = named_task n,
     ss_container = Some [(''Done'', DBool False), (''DoneMsg'', DStr []), (''Failed'', DBool False), (''FailedMsg'', DStr []), (''Name'', DStr n),
       (''Phase'', DStr []), (''Node'', DStr []), (''Pid'', DStr []), (''ID'', DStr []), (''Image'', DStr []), (''Reason'', DStr [])]\<rparr>) ns"

definition Dashboard_AddTask :: "Task \<Rightarrow> board \<Rightarrow> nat \<times> board" where
  "Dashboard_AddTask t d =
     (length d, d @ [\<lparr>ss_Done = False, ss_DoneMsg = [], ss_Failed = False, ss_FailedMsg = [], ss_task = t, ss_container = None\<rparr>])"

definition Dashboard_Update :: "nat \<Rightarrow> (ServiceState \<Rightarrow> ServiceState res) \<Rightarrow> board \<Rightarrow> unit res \<times> board" where
  "Dashboard_Update idx fn d =
     (if \<not> idx < length d then (Panic ''index out of range'', d)
      else if ss_Done (d ! idx) then (Ok (), d)
      else (case fn (d ! idx) of Ok s \<Rightarrow> (Ok (), d[idx := s]) | Err e \<Rightarrow> (Err e, d) | Panic m \<Rightarrow> (Panic m, d)))"

text \<open>Changing the data of a container; an entry that was added later has none.\<close>

definition with_container :: "((string, datum) gomap \<Rightarrow> (string, datum) gomap) \<Rightarrow> ServiceState \<Rightarrow> ServiceState res" where
  "with_container f s = (case ss_container s of None \<Rightarrow> Panic ''nil pointer dereference'' | Some m \<Rightarrow> Ok (s\<lparr>ss_container := Some (f m)\<rparr>))"

definition Dashboard_SetTask :: "nat \<Rightarrow> Task \<Rightarrow> board \<Rightarrow> unit res \<times> board" where
  "Dashboard_SetTask idx t = Dashboard_Update idx (\<lambda>s. with_container (\<lambda>_.
     [(''Name'', DStr (meta_Name (getMeta (task_Meta t)))), (''Phase'', DStr (wrapped (ts_Phase (status_of t)))),
      (''Node'', DStr (wrapped (ts_Node (status_of t)))), (''Pid'', DNum (case ts_Pid (status_of t) of None \<Rightarrow> 0 | Some n \<Rightarrow> n)),
      (''ID'', DStr (wrapped (ts_Id (status_of t)))), (''Image'', DStr (case task_Config t of None \<Rightarrow> [] | Some c \<Rightarrow> tc_Image c)),
      (''Reason'', DWrapped (ts_Reason (status_of t)))]) (s\<lparr>ss_task := t\<rparr>))"

definition Dashboard_DoneMsg :: "nat \<Rightarrow> string \<Rightarrow> board \<Rightarrow> unit res \<times> board" where
  "Dashboard_DoneMsg idx msg = Dashboard_Update idx (\<lambda>s.
     bindR (with_container (\<lambda>m. AList.update ''DoneMsg'' (DStr msg) (AList.update ''Done'' (DBool True) m)) s) (\<lambda>s.
     Ok (s\<lparr>ss_Done := True, ss_DoneMsg := msg\<rparr>)))"

definition Dashboard_Done :: "nat \<Rightarrow> board \<Rightarrow> unit res \<times> board" where
  "Dashboard_Done idx = Dashboard_Update idx (\<lambda>s.
     bindR (with_container (\<lambda>m. AList.update ''DoneMsg'' (DStr []) (AList.update ''Done'' (DBool True) m)) s) (\<lambda>s.
     Ok (s\<lparr>ss_Done := True\<rparr>)))"

definition Dashboard_FailMsg :: "nat \<Rightarrow> string \<Rightarrow> board \<Rightarrow> unit res \<times> board" where
  "Dashboard_FailMsg idx msg = Dashboard_Update idx (\<lambda>s.
     bindR (with_container (\<lambda>m. AList.update ''FailedMsg'' (DStr msg) (AList.update ''Failed'' (DBool True) m)) s) (\<lambda>s.
     Ok (s\<lparr>ss_Done := True, ss_Failed := True, ss_FailedMsg := msg\<rparr>)))"

definition Dashboard_Fail :: "nat \<Rightarrow> board \<Rightarrow> unit res \<times> board" where
  "Dashboard_Fail idx = Dashboard_Update idx (\<lambda>s. Ok (s\<lparr>ss_Done := True, ss_Failed := True\<rparr>))"

definition Dashboard_IsDone :: "board \<Rightarrow> bool" where
  "Dashboard_IsDone d = list_all (\<lambda>s. ss_Done s \<or> ss_Failed s) d"

section \<open>The commands\<close>

text \<open>
  What a command does for each task: the call it makes first, if any; the variable of the error of that call, which the
  goroutines of some commands share; its message when the call failed; whether a failed look at the task is
  reported with that variable instead of its own error; the phase it waits for and its message then.
\<close>

record 'x wait_cmd =
  wc_issue :: "(string \<Rightarrow> 'x \<Rightarrow> unit res \<times> 'x) option"
  wc_var :: "nat \<Rightarrow> nat"
  wc_refused :: "error \<Rightarrow> string"
  wc_outer :: bool
  wc_want :: "string option"
  wc_done :: "string \<Rightarrow> string"

definition start_tasks :: "'x task_client \<Rightarrow> ctx \<Rightarrow> 'x wait_cmd" where
  "start_tasks c ctx = \<lparr>wc_issue = Some (task_Start c ctx), wc_var = (\<lambda>i. i), wc_refused = err_text (tc_errs c), wc_outer = False,
     wc_want = Some (reason_text ReasonRunning), wc_done = (\<lambda>n. n @ '' started successfully'')\<rparr>"

definition stop_tasks :: "bool \<Rightarrow> 'x task_client \<Rightarrow> ctx \<Rightarrow> 'x wait_cmd" where
  "stop_tasks force c ctx = \<lparr>wc_issue = Some (if force then task_Kill c ctx else task_Stop c ctx), wc_var = (\<lambda>i. 0), wc_refused = err_text (tc_errs c),
     wc_outer = True, wc_want = Some (reason_text ReasonStopped), wc_done = (\<lambda>n. n @ '' stopped successfully'')\<rparr>"

definition delete_tasks :: "'x task_client \<Rightarrow> ctx \<Rightarrow> 'x wait_cmd" where
  "delete_tasks c ctx = \<lparr>wc_issue = Some (task_Delete c ctx), wc_var = (\<lambda>i. 0), wc_refused = (\<lambda>e. ''failed to delete''), wc_outer = False,
     wc_want = None, wc_done = (\<lambda>n. [])\<rparr>"

definition run_wait :: "'x task_client \<Rightarrow> ctx \<Rightarrow> 'x wait_cmd" where
  "run_wait c ctx = \<lparr>wc_issue = None, wc_var = (\<lambda>i. 0), wc_refused = (\<lambda>e. []), wc_outer = True,
     wc_want = Some (reason_text ReasonRunning), wc_done = (\<lambda>n. n @ '' started successfully'')\<rparr>"

section \<open>Waiting\<close>

datatype waiter = WArm | WIssue | WTest | WPoll | WFinish | WEnd

record 'x wait_state =
  wt_dash :: board
  wt_workers :: "waiter list"
  wt_armed :: "bool list"
  wt_vars :: "error option list"
  wt_world :: 'x
  wt_over :: bool
  wt_crashed :: bool

definition wait_start :: "string list \<Rightarrow> 'x \<Rightarrow> 'x wait_state" where
  "wait_start ns w = \<lparr>wt_dash = NewDashboard ns, wt_workers = replicate (length ns) WArm, wt_armed = replicate (length ns) False,
     wt_vars = replicate (length ns) None, wt_world = w, wt_over = False, wt_crashed = False\<rparr>"

definition on_board :: "(board \<Rightarrow> unit res \<times> board) \<Rightarrow> 'x wait_state \<Rightarrow> 'x wait_state" where
  "on_board f s = (case f (wt_dash s) of (Panic m, d) \<Rightarrow> s\<lparr>wt_crashed := True\<rparr> | (_, d) \<Rightarrow> s\<lparr>wt_dash := d\<rparr>)"

definition worker_to :: "nat \<Rightarrow> waiter \<Rightarrow> 'x wait_state \<Rightarrow> 'x wait_state" where
  "worker_to i p s = s\<lparr>wt_workers := (wt_workers s)[i := p]\<rparr>"

text \<open>The timer is started, the call is made and its error stored, and the error is tested.\<close>

definition wait_arm :: "nat \<Rightarrow> 'x wait_state \<Rightarrow> 'x wait_state" where
  "wait_arm i s = worker_to i WIssue (s\<lparr>wt_armed := (wt_armed s)[i := True]\<rparr>)"

definition wait_issue :: "'x wait_cmd \<Rightarrow> nat \<Rightarrow> string \<Rightarrow> 'x wait_state \<Rightarrow> 'x wait_state" where
  "wait_issue cmd i name s =
     (case wc_issue cmd of
        None \<Rightarrow> worker_to i WPoll s
      | Some call \<Rightarrow>
          (case call name (wt_world s) of
             (Panic m, w) \<Rightarrow> s\<lparr>wt_world := w, wt_crashed := True\<rparr>
           | (Ok _, w) \<Rightarrow> worker_to i WTest (s\<lparr>wt_world := w, wt_vars := (wt_vars s)[wc_var cmd i := None]\<rparr>)
           | (Err e, w) \<Rightarrow> worker_to i WTest (s\<lparr>wt_world := w, wt_vars := (wt_vars s)[wc_var cmd i := Some e]\<rparr>)))"

definition wait_test :: "'x wait_cmd \<Rightarrow> nat \<Rightarrow> 'x wait_state \<Rightarrow> 'x wait_state" where
  "wait_test cmd i s =
     (case wt_vars s ! wc_var cmd i of
        None \<Rightarrow> worker_to i WPoll s
      | Some e \<Rightarrow> worker_to i WEnd (on_board (Dashboard_FailMsg i (wc_refused cmd e)) s))"

text \<open>One look at the task, and the end when it has the phase.\<close>

definition wait_poll :: "'x task_client \<Rightarrow> ctx \<Rightarrow> 'x wait_cmd \<Rightarrow> nat \<Rightarrow> string \<Rightarrow> 'x wait_state \<Rightarrow> 'x wait_state" where
  "wait_poll c ctx cmd i name s =
     (case task_Get c ctx name (wt_world s) of
        (Panic m, w) \<Rightarrow> s\<lparr>wt_world := w, wt_crashed := True\<rparr>
      | (Err e, w) \<Rightarrow>
          (case (if wc_outer cmd then wt_vars s ! wc_var cmd i else Some e) of
             None \<Rightarrow> s\<lparr>wt_world := w, wt_crashed := True\<rparr>
           | Some e' \<Rightarrow> worker_to i WEnd (on_board (Dashboard_FailMsg i (err_text (tc_errs c) e')) (s\<lparr>wt_world := w\<rparr>)))
      | (Ok task, w) \<Rightarrow>
          (let s = on_board (Dashboard_SetTask i task) (s\<lparr>wt_world := w\<rparr>)
           in if wc_want cmd = Some (wrapped (ts_Phase (status_of task))) then worker_to i WFinish s else s))"

definition wait_finish :: "'x wait_cmd \<Rightarrow> nat \<Rightarrow> string \<Rightarrow> 'x wait_state \<Rightarrow> 'x wait_state" where
  "wait_finish cmd i name s = worker_to i WEnd (on_board (Dashboard_DoneMsg i (wc_done cmd name)) s)"

definition wait_timeout :: "nat \<Rightarrow> 'x wait_state \<Rightarrow> 'x wait_state" where
  "wait_timeout i s = on_board (Dashboard_FailMsg i ''timeout reached'') (s\<lparr>wt_armed := (wt_armed s)[i := False]\<rparr>)"

datatype wait_label = Seen nat Task | Unseen

definition poll_label :: "'x task_client \<Rightarrow> ctx \<Rightarrow> nat \<Rightarrow> string \<Rightarrow> 'x wait_state \<Rightarrow> wait_label" where
  "poll_label c ctx i name s = (case task_Get c ctx name (wt_world s) of (Ok task, w) \<Rightarrow> Seen i task | _ \<Rightarrow> Unseen)"

text \<open>
  The steps of a command for the tasks \<open>ns\<close> until it returns or crashes; other programs may change the server at any
  time. It returns once every entry of the board is done.
\<close>

inductive wait_step :: "'x task_client \<Rightarrow> ctx \<Rightarrow> 'x wait_cmd \<Rightarrow> string list \<Rightarrow> 'x wait_state \<Rightarrow> wait_label \<Rightarrow> 'x wait_state \<Rightarrow> bool"
  for c ctx cmd ns where
  wt_arm: "\<not> wt_over s \<Longrightarrow> \<not> wt_crashed s \<Longrightarrow> i < length ns \<Longrightarrow> wt_workers s ! i = WArm \<Longrightarrow> wait_step c ctx cmd ns s Unseen (wait_arm i s)"
| wt_issue: "\<not> wt_over s \<Longrightarrow> \<not> wt_crashed s \<Longrightarrow> i < length ns \<Longrightarrow> wt_workers s ! i = WIssue \<Longrightarrow>
     wait_step c ctx cmd ns s Unseen (wait_issue cmd i (ns ! i) s)"
| wt_test: "\<not> wt_over s \<Longrightarrow> \<not> wt_crashed s \<Longrightarrow> i < length ns \<Longrightarrow> wt_workers s ! i = WTest \<Longrightarrow> wait_step c ctx cmd ns s Unseen (wait_test cmd i s)"
| wt_poll: "\<not> wt_over s \<Longrightarrow> \<not> wt_crashed s \<Longrightarrow> i < length ns \<Longrightarrow> wt_workers s ! i = WPoll \<Longrightarrow>
     wait_step c ctx cmd ns s (poll_label c ctx i (ns ! i) s) (wait_poll c ctx cmd i (ns ! i) s)"
| wt_finish: "\<not> wt_over s \<Longrightarrow> \<not> wt_crashed s \<Longrightarrow> i < length ns \<Longrightarrow> wt_workers s ! i = WFinish \<Longrightarrow>
     wait_step c ctx cmd ns s Unseen (wait_finish cmd i (ns ! i) s)"
| wt_timeout: "\<not> wt_over s \<Longrightarrow> \<not> wt_crashed s \<Longrightarrow> i < length ns \<Longrightarrow> wt_armed s ! i \<Longrightarrow> wait_step c ctx cmd ns s Unseen (wait_timeout i s)"
| wt_world: "\<not> wt_over s \<Longrightarrow> \<not> wt_crashed s \<Longrightarrow> wait_step c ctx cmd ns s Unseen (s\<lparr>wt_world := w\<rparr>)"
| wt_return: "\<not> wt_over s \<Longrightarrow> \<not> wt_crashed s \<Longrightarrow> Dashboard_IsDone (wt_dash s) \<Longrightarrow> wt_dash s \<noteq> [] \<Longrightarrow>
     wait_step c ctx cmd ns s Unseen (s\<lparr>wt_over := True\<rparr>)"

inductive wait_run for c ctx cmd ns s0 where
  wr_refl: "wait_run c ctx cmd ns s0 [] s0"
| wr_step: "wait_run c ctx cmd ns s0 tr s \<Longrightarrow> wait_step c ctx cmd ns s l s' \<Longrightarrow> wait_run c ctx cmd ns s0 (tr @ [l]) s'"

section \<open>What the board shows\<close>

text \<open>An entry: it can be drawn, a failed one is done, and one that is done and has not failed was seen as wanted (\<open>r\<close>).\<close>

definition entry_ok :: "bool \<Rightarrow> ServiceState \<Rightarrow> bool" where
  "entry_ok r s \<longleftrightarrow> ss_container s \<noteq> None \<and> (ss_Failed s \<longrightarrow> ss_Done s) \<and> (ss_Done s \<longrightarrow> ss_Failed s \<or> r)"

definition board_ok :: "(nat \<Rightarrow> bool) \<Rightarrow> board \<Rightarrow> bool" where
  "board_ok R d \<longleftrightarrow> (\<forall>i < length d. entry_ok (R i) (d ! i))"

lemma board_mono: "board_ok R d \<Longrightarrow> (\<And>i. R i \<Longrightarrow> R' i) \<Longrightarrow> board_ok R' d"
  by (auto simp: board_ok_def entry_ok_def)

lemma update_keeps [simp]:
  "length (snd (Dashboard_Update i fn d)) = length d"
  "ss_Done (d ! j) \<Longrightarrow> snd (Dashboard_Update i fn d) ! j = d ! j"
  by (auto simp: Dashboard_Update_def nth_list_update split: result.splits)

lemma update_ok:
  assumes "board_ok R d" and "i < length d" and "\<And>s. entry_ok (R i) s \<Longrightarrow> \<not> ss_Done s \<Longrightarrow> \<exists>s'. fn s = Ok s' \<and> entry_ok (R i) s'"
  shows "board_ok R (snd (Dashboard_Update i fn d))" "fst (Dashboard_Update i fn d) = Ok ()"
proof -
  have "\<not> ss_Done (d ! i) \<Longrightarrow> \<exists>s'. fn (d ! i) = Ok s' \<and> entry_ok (R i) s'" using assms by (auto simp: board_ok_def)
  with assms(1,2) show "board_ok R (snd (Dashboard_Update i fn d))" "fst (Dashboard_Update i fn d) = Ok ()"
    by (auto simp: Dashboard_Update_def board_ok_def nth_list_update)
qed

lemmas board_ops = Dashboard_SetTask_def Dashboard_FailMsg_def Dashboard_DoneMsg_def

lemma board_length [simp]:
  "length (snd (Dashboard_SetTask i t d)) = length d" "length (snd (Dashboard_FailMsg i m d)) = length d" "length (snd (Dashboard_DoneMsg i m d)) = length d"
  by (simp_all add: board_ops)

lemma SetTask_ok:
  assumes "board_ok R d" and "i < length d"
  shows "board_ok R (snd (Dashboard_SetTask i t d))" "fst (Dashboard_SetTask i t d) = Ok ()"
  unfolding Dashboard_SetTask_def by (rule update_ok [OF assms]; auto simp: with_container_def entry_ok_def)+

lemma FailMsg_ok:
  assumes "board_ok R d" and "i < length d"
  shows "board_ok R (snd (Dashboard_FailMsg i m d))" "fst (Dashboard_FailMsg i m d) = Ok ()"
  unfolding Dashboard_FailMsg_def by (rule update_ok [OF assms]; auto simp: with_container_def entry_ok_def)+

lemma DoneMsg_ok:
  assumes "board_ok R d" and "i < length d" and "R i"
  shows "board_ok R (snd (Dashboard_DoneMsg i m d))" "fst (Dashboard_DoneMsg i m d) = Ok ()"
  unfolding Dashboard_DoneMsg_def by (rule update_ok [OF assms(1,2)]; use assms(3) in \<open>auto simp: with_container_def entry_ok_def\<close>)+

text \<open>Changes of the board are updates of one entry.\<close>

lemma on_board_ok:
  assumes "fst (f (wt_dash s)) = Ok ()"
  shows "on_board f s = s\<lparr>wt_dash := snd (f (wt_dash s))\<rparr>"
  using assms by (cases "f (wt_dash s)") (simp add: on_board_def)

lemma on_board_done:
  "ss_Done (wt_dash s ! j) \<Longrightarrow> wt_dash (on_board (Dashboard_Update i fn) s) ! j = wt_dash s ! j"
  using update_keeps(2) [of "wt_dash s" j i fn] by (cases "Dashboard_Update i fn (wt_dash s)") (auto simp: on_board_def split: result.splits)

lemmas wait_ops = wait_arm_def wait_issue_def wait_test_def wait_poll_def wait_finish_def wait_timeout_def worker_to_def

lemma wait_step_done:
  assumes "wait_step c ctx cmd ns s l s'" and "ss_Done (wt_dash s ! j)"
  shows "wt_dash s' ! j = wt_dash s ! j"
  using assms
  by cases (auto simp: wait_ops Let_def board_ops on_board_done split: option.splits prod.splits result.splits)

definition reached :: "'x wait_cmd \<Rightarrow> wait_label list \<Rightarrow> nat \<Rightarrow> bool" where
  "reached cmd tr i \<longleftrightarrow> (\<exists>t. Seen i t \<in> set tr \<and> wc_want cmd = Some (wrapped (ts_Phase (status_of t))))"

definition wait_inv :: "'x wait_cmd \<Rightarrow> string list \<Rightarrow> wait_label list \<Rightarrow> 'x wait_state \<Rightarrow> bool" where
  "wait_inv cmd ns tr s \<longleftrightarrow> length (wt_dash s) = length ns \<and> length (wt_workers s) = length ns \<and> board_ok (reached cmd tr) (wt_dash s)
     \<and> (\<forall>i < length ns. wt_workers s ! i = WFinish \<longrightarrow> reached cmd tr i)
     \<and> (wt_over s \<longrightarrow> (\<forall>i < length ns. ss_Done (wt_dash s ! i)))"

lemma reached_mono: "reached cmd tr i \<Longrightarrow> reached cmd (tr @ [l]) i"
  by (auto simp: reached_def)

lemma wait_inv_start: "wait_inv cmd ns [] (wait_start ns w)"
  by (simp add: wait_inv_def wait_start_def NewDashboard_def board_ok_def entry_ok_def)

lemma wait_inv_step:
  assumes "wait_inv cmd ns tr s" and "wait_step c ctx cmd ns s l s'"
  shows "wait_inv cmd ns (tr @ [l]) s'"
proof -
  have b: "board_ok (reached cmd (tr @ [l])) (wt_dash s)" using assms(1) board_mono reached_mono unfolding wait_inv_def by metis
  have n: "length (wt_dash s) = length ns" "length (wt_workers s) = length ns" using assms(1) by (simp_all add: wait_inv_def)
  have f: "\<And>i. i < length ns \<Longrightarrow> wt_workers s ! i = WFinish \<Longrightarrow> reached cmd (tr @ [l]) i"
    using assms(1) reached_mono unfolding wait_inv_def by metis
  show ?thesis using assms(2)
  proof cases
    case (wt_poll i)
    obtain r w where g: "task_Get c ctx (ns ! i) (wt_world s) = (r, w)" by (metis surj_pair)
    show ?thesis
    proof (cases r)
      case (Ok task)
      with wt_poll g have "l = Seen i task" by (simp add: poll_label_def)
      then have "wc_want cmd = Some (wrapped (ts_Phase (status_of task))) \<Longrightarrow> reached cmd (tr @ [l]) i" by (auto simp: reached_def)
      with wt_poll g Ok b f n show ?thesis by (auto simp: wait_inv_def wait_ops Let_def on_board_ok SetTask_ok nth_list_update)
    qed (use wt_poll g b f n in \<open>auto simp: wait_inv_def wait_ops on_board_ok FailMsg_ok nth_list_update split: option.splits\<close>)
  next
    case (wt_return)
    then show ?thesis using b f n by (auto simp: wait_inv_def Dashboard_IsDone_def list_all_length board_ok_def entry_ok_def)
  qed (use b f n in \<open>auto simp: wait_inv_def wait_ops on_board_ok FailMsg_ok DoneMsg_ok nth_list_update split: option.splits prod.splits result.splits\<close>)
qed

lemma wait_run_inv: "wait_run c ctx cmd ns (wait_start ns w) tr s \<Longrightarrow> wait_inv cmd ns tr s"
  by (induction rule: wait_run.induct) (auto intro: wait_inv_start wait_inv_step)

lemma wait_run_done: "wait_run c ctx cmd ns s tr s' \<Longrightarrow> ss_Done (wt_dash s ! j) \<Longrightarrow> wt_dash s' ! j = wt_dash s ! j"
proof (induction rule: wait_run.induct)
  case (wr_step tr s1 l s2)
  with wait_step_done [OF wr_step(2), of j] show ?case by simp
qed simp

section \<open>Properties\<close>

text \<open>
  C40. What a waiting command tells is true and final: along every interleaving of its goroutines, the timeouts and other
  programs, an entry that is done and has not failed was seen with the phase that was waited for, an entry that is
  done never changes again, and when the command returns every entry is done.
\<close>

theorem wait_outcomes_true:
  assumes "wait_run c ctx cmd ns (wait_start ns w) tr s" and "wait_run c ctx cmd ns s tr' s'" and "i < length ns"
  shows "(ss_Done (wt_dash s ! i) \<and> \<not> ss_Failed (wt_dash s ! i) \<longrightarrow>
       (\<exists>t. Seen i t \<in> set tr \<and> wc_want cmd = Some (wrapped (ts_Phase (status_of t)))))
    \<and> (ss_Done (wt_dash s ! i) \<longrightarrow> wt_dash s' ! i = wt_dash s ! i)
    \<and> (wt_over s \<longrightarrow> ss_Done (wt_dash s ! i))"
proof -
  from wait_run_inv [OF assms(1)] assms(3) have "entry_ok (reached cmd tr i) (wt_dash s ! i)" "wt_over s \<longrightarrow> ss_Done (wt_dash s ! i)"
    by (auto simp: wait_inv_def board_ok_def)
  with wait_run_done [OF assms(2)] show ?thesis by (auto simp: entry_ok_def reached_def)
qed

definition running_task :: Task where
  "running_task = (named_task ''a'')\<lparr>task_Status := Some (empty_TaskStatus\<lparr>ts_Phase := Some ''Running''\<rparr>)\<rparr>"

definition running_client :: "unit task_client" where
  "running_client = \<lparr>tc_stub = \<lparr>tstub_Get = (\<lambda>ctx u n x. (Ok running_task, x)), tstub_Create = (\<lambda>ctx t x. (Ok t, x)), tstub_Delete = (\<lambda>ctx u n x. (Ok (), x)),
     tstub_List = (\<lambda>ctx l x. (Ok [], x)), tstub_Update = (\<lambda>ctx u n t x. (Ok t, x)),
     tstub_UpdateStatus = (\<lambda>ctx md u n s ps x. (Ok u, x)), tstub_Condition = (\<lambda>ctx r x. (Ok (), x)), tstub_Kill = (\<lambda>ctx u n x. (Ok (), x)),
     tstub_Start = (\<lambda>ctx u n x. (Ok (), x)), tstub_Stop = (\<lambda>ctx u n x. (Ok (), x))\<rparr>, tc_ident = None, tc_uuid = sample_uuid, tc_errs = sample_ext\<rparr>"

definition start_a :: "unit wait_cmd" where
  "start_a = start_tasks running_client None"

definition started_a :: "unit wait_state" where
  "started_a = wait_finish start_a 0 ''a'' (wait_poll running_client None start_a 0 ''a'' (wait_test start_a 0 (wait_issue start_a 0 ''a'' (wait_arm 0
     (wait_start [''a''] ())))))"

lemma started_run:
  "\<exists>tr. wait_run running_client None start_a [''a''] (wait_start [''a''] ()) tr started_a"
proof -
  let ?n = "[''a'']"
  let ?s1 = "wait_arm 0 (wait_start ?n ())"
  let ?s2 = "wait_issue start_a 0 (?n ! 0) ?s1"
  let ?s3 = "wait_test start_a 0 ?s2"
  let ?s4 = "wait_poll running_client None start_a 0 (?n ! 0) ?s3"
  have 1: "wait_step running_client None start_a ?n (wait_start ?n ()) Unseen ?s1" by (rule wt_arm) code_simp+
  have 2: "wait_step running_client None start_a ?n ?s1 Unseen ?s2" by (rule wt_issue) code_simp+
  have 3: "wait_step running_client None start_a ?n ?s2 Unseen ?s3" by (rule wt_test) code_simp+
  have 4: "wait_step running_client None start_a ?n ?s3 (poll_label running_client None 0 (?n ! 0) ?s3) ?s4" by (rule wt_poll) code_simp+
  have 5: "wait_step running_client None start_a ?n ?s4 Unseen (wait_finish start_a 0 (?n ! 0) ?s4)" by (rule wt_finish) code_simp+
  from wr_step [OF wr_step [OF wr_step [OF wr_step [OF wr_step [OF wr_refl 1] 2] 3] 4] 5] show ?thesis
    unfolding started_a_def by auto
qed

theorem wait_outcomes_true_witness:
  "ss_Done (wt_dash started_a ! 0) \<and> wt_dash (wait_timeout 0 started_a) ! 0 = wt_dash started_a ! 0"
proof -
  obtain tr where tr: "wait_run running_client None start_a [''a''] (wait_start [''a''] ()) tr started_a" using started_run by blast
  have "wait_step running_client None start_a [''a''] started_a Unseen (wait_timeout 0 started_a)" by (rule wt_timeout) code_simp+
  from wr_step [OF wr_refl this] have "wait_run running_client None start_a [''a''] started_a [Unseen] (wait_timeout 0 started_a)" by simp
  note told = wait_outcomes_true [OF tr this, of 0]
  have "ss_Done (wt_dash started_a ! 0)" by code_simp
  with told show ?thesis by simp
qed

text \<open>Waiting for a deletion never ends well: a task that is gone is reported as a failure.\<close>

theorem delete_wait_fails:
  assumes "wait_run c ctx (delete_tasks cl ctx') ns (wait_start ns w) tr s" and "i < length ns" and "ss_Done (wt_dash s ! i)"
  shows "ss_Failed (wt_dash s ! i)"
  using wait_run_inv [OF assms(1)] assms(2,3) by (auto simp: wait_inv_def board_ok_def entry_ok_def reached_def delete_tasks_def)

text \<open>Stopping a task, and waiting for one to run, crashes when the task cannot be read while no call has failed.\<close>

theorem wait_crashes:
  assumes "wc_outer cmd" and "wt_vars s ! wc_var cmd i = None" and "task_Get c ctx n (wt_world s) = (Err e, w)"
  shows "wt_crashed (wait_poll c ctx cmd i n s)"
  using assms by (simp add: wait_poll_def)

end
