(* ===== verification/Commands.thy ===== *)
theory Commands
  imports Dashboard ClientConfig ClusterServer NodeUpgrade LeaseController ContainerSets EventClient
begin

text \<open>
  The commands of voiydctl that act on the server (cmd/voiydctl), with the helpers of pkg/cmdutil they use. A command runs
  after the configuration was read and the connection set up (theory ClientConfig); ending with \<^verbatim>\<open>logrus.Fatal\<close> is returning the
  error. What is printed is left out. The libraries for JSON and YAML are parameters.
\<close>

section \<open>Texts\<close>

text \<open>Division of durations rounds towards zero.\<close>

definition quot :: "int \<Rightarrow> int \<Rightarrow> int" where
  "quot a b = (if a < 0 then - ((- a) div b) else a div b)"

definition FormatDuration :: "int \<Rightarrow> string" where
  "FormatDuration d =
     (let days = quot d (24 * 3600 * second); d = d - days * (24 * 3600 * second);
          hours = quot d (3600 * second); d = d - hours * (3600 * second);
          minutes = quot d (60 * second); d = d - minutes * (60 * second);
          seconds = quot d second
      in if days > 0 then format_int days @ ''d''
         else if hours > 0 then format_int hours @ ''h''
         else if minutes > 0 then format_int minutes @ ''m''
         else format_int seconds @ ''s'')"

definition dedupeStrSlice :: "string list \<Rightarrow> string list" where
  "dedupeStrSlice vs = foldl (\<lambda>acc v. if v \<in> set acc then acc else acc @ [v]) [] vs"

text \<open>\<^verbatim>\<open>strings.Cut\<close> at the first separator: what is before and after it, and whether it is there.\<close>

definition strings_Cut :: "string \<Rightarrow> char \<Rightarrow> string \<times> string \<times> bool" where
  "strings_Cut s sep = (takeWhile (\<lambda>c. c \<noteq> sep) s, drop 1 (dropWhile (\<lambda>c. c \<noteq> sep) s), sep \<in> set s)"

definition ConvertKVStringsToMap :: "string list \<Rightarrow> label" where
  "ConvertKVStringsToMap vs = foldl (\<lambda>m s. case strings_Cut s (CHR ''='') of (k, v, _) \<Rightarrow> AList.update k v m) [] vs"

definition ReadKVStringsMapFromLabel :: "string list \<Rightarrow> label" where
  "ReadKVStringsMapFromLabel ls = ConvertKVStringsToMap (dedupeStrSlice ls)"

fun parse_each :: "string list \<Rightarrow> label \<Rightarrow> label res" where
  "parse_each [] m = Ok m"
| "parse_each (s # ss) m =
     (let part = TrimSpace s in
      if part = [] then parse_each ss m
      else (case strings_Cut part (CHR ''='') of (k, v, ok) \<Rightarrow>
        if \<not> ok then Err (Errorf (''invalid selector '' @ part @ '' expected key=value''))
        else parse_each ss (AList.update (TrimSpace k) (TrimSpace v) m)))"

definition parseSelectors :: "string list \<Rightarrow> label res" where
  "parseSelectors inputs = parse_each inputs []"

section \<open>Formats\<close>

datatype OutputFormat = OutputFormatJSON | OutputFormatYAML | OutputFormatTable

definition validateOutputFormat :: "string \<Rightarrow> OutputFormat res" where
  "validateOutputFormat s =
     (let f = map lower s in
      if f = ''json'' then Ok OutputFormatJSON else if f = ''yaml'' then Ok OutputFormatYAML
      else if f = ''table'' then Ok OutputFormatTable else Err (Errorf ''expected output to be one of [json yaml table]''))"

text \<open>Messages to JSON and back, values of JSON, and between JSON and YAML.\<close>

record ('v, 'm) text_lib =
  tx_pbMarshal :: "'m \<Rightarrow> bytes res"
  tx_pbUnmarshal :: "bytes \<Rightarrow> 'm res"
  tx_jsonUnmarshal :: "bytes \<Rightarrow> 'v res"
  tx_jsonMarshal :: "'v \<Rightarrow> bytes res"
  tx_JSONToYAML :: "bytes \<Rightarrow> bytes res"
  tx_yamlUnmarshal :: "bytes \<Rightarrow> 'v res"

datatype text_codec = JSONCodec | YamlCodec

definition JSON_Serialize :: "('v, 'm) text_lib \<Rightarrow> 'm \<Rightarrow> bytes res" where
  "JSON_Serialize x m = tx_pbMarshal x m"

definition Yaml_Serialize :: "('v, 'm) text_lib \<Rightarrow> 'm \<Rightarrow> bytes res" where
  "Yaml_Serialize x m =
     bindR (JSON_Serialize x m) (\<lambda>jsonb. bindR (tx_jsonUnmarshal x jsonb) (\<lambda>v. tx_JSONToYAML x jsonb))"

definition JSON_Deserialize :: "('v, 'm) text_lib \<Rightarrow> bytes \<Rightarrow> 'm res" where
  "JSON_Deserialize x b = tx_pbUnmarshal x b"

definition Yaml_Deserialize :: "('v, 'm) text_lib \<Rightarrow> bytes \<Rightarrow> 'm res" where
  "Yaml_Deserialize x b = bindR (tx_yamlUnmarshal x b) (\<lambda>v. bindR (tx_jsonMarshal x v) (JSON_Deserialize x))"

definition Codec_Serialize :: "('v, 'm) text_lib \<Rightarrow> text_codec \<Rightarrow> 'm \<Rightarrow> bytes res" where
  "Codec_Serialize x k = (case k of JSONCodec \<Rightarrow> JSON_Serialize x | YamlCodec \<Rightarrow> Yaml_Serialize x)"

definition Codec_Deserialize :: "('v, 'm) text_lib \<Rightarrow> text_codec \<Rightarrow> bytes \<Rightarrow> 'm res" where
  "Codec_Deserialize x k = (case k of JSONCodec \<Rightarrow> JSON_Deserialize x | YamlCodec \<Rightarrow> Yaml_Deserialize x)"

definition CodecFor :: "string \<Rightarrow> text_codec res" where
  "CodecFor s = bindR (validateOutputFormat s) (\<lambda>f. Ok (if f = OutputFormatYAML then YamlCodec else JSONCodec))"

section \<open>Applying documents\<close>

definition detectVersion :: "(bytes \<Rightarrow> string res) \<Rightarrow> bytes \<Rightarrow> string res" where
  "detectVersion header doc =
     (case header doc of
        Err e \<Rightarrow> Err (Wrapped ''decode version'' e)
      | Panic m \<Rightarrow> Panic m
      | Ok v \<Rightarrow>
          if v = [] then Err (Errorf ''missing version field'')
          else if slash \<notin> set v then Err (Errorf (''invalid version '' @ v))
          else Ok v)"

text \<open>Creating a resource, or updating it when there is one of that name.\<close>

definition create_or_update ::
  "ext_errs \<Rightarrow> string \<Rightarrow> string \<Rightarrow> ('x \<Rightarrow> unit res \<times> 'x) \<Rightarrow> (string \<Rightarrow> 'x \<Rightarrow> unit res \<times> 'x) \<Rightarrow> 'x \<Rightarrow> unit res \<times> 'x" where
  "create_or_update x kind name create update st =
     (if name = [] then (Err (Errorf (kind @ ''.meta.name is required'')), st)
      else (case create st of
              (Err e, st) \<Rightarrow> if IsConflict x (Some e) then update name st else (Err e, st)
            | p \<Rightarrow> p))"

definition applyNode :: "ext_errs \<Rightarrow> 'x node_client \<Rightarrow> ctx \<Rightarrow> Node \<Rightarrow> 'x \<Rightarrow> unit res \<times> 'x" where
  "applyNode x c ctx n = create_or_update x ''node'' (meta_Name (getMeta (node_Meta n))) (node_Create c ctx n) (\<lambda>name. node_Update c ctx name n)"

definition applyTask :: "ext_errs \<Rightarrow> 'x task_client \<Rightarrow> ctx \<Rightarrow> Task \<Rightarrow> 'x \<Rightarrow> unit res \<times> 'x" where
  "applyTask x c ctx ctr = create_or_update x ''container'' (meta_Name (getMeta (task_Meta ctr))) (task_Create c ctx ctr) (\<lambda>name. task_Update c ctx name ctr)"

definition applyVolume :: "ext_errs \<Rightarrow> 'x volume_client \<Rightarrow> ctx \<Rightarrow> Volume \<Rightarrow> 'x \<Rightarrow> unit res \<times> 'x" where
  "applyVolume x c ctx v = create_or_update x ''volume'' (meta_Name (getMeta (vol_Meta v))) (volume_Create c ctx v) (\<lambda>name. volume_Update c ctx name v)"

record 'x ClientSet =
  cls_tasks :: "'x task_client"
  cls_nodes :: "'x node_client"
  cls_volumes :: "'x volume_client"
  cls_leases :: "'x LeaseServiceClient"
  cls_errs :: ext_errs

record apply_lib =
  al_header :: "bytes \<Rightarrow> string res"
  al_node :: "bytes \<Rightarrow> Node res"
  al_task :: "bytes \<Rightarrow> Task res"
  al_volume :: "bytes \<Rightarrow> Volume res"

definition apply_doc :: "'x ClientSet \<Rightarrow> apply_lib \<Rightarrow> ctx \<Rightarrow> bytes \<Rightarrow> 'x \<Rightarrow> unit res \<times> 'x" where
  "apply_doc c al ctx doc st =
     andThen (detectVersion (al_header al) doc, st) (\<lambda>v st.
     if v = ''node/v1'' then andThen (al_node al doc, st) (\<lambda>n st. applyNode (cls_errs c) (cls_nodes c) ctx n st)
     else if v = ''task/v1'' then andThen (al_task al doc, st) (\<lambda>t st. applyTask (cls_errs c) (cls_tasks c) ctx t st)
     else if v = ''volume/v1'' then andThen (al_volume al doc, st) (\<lambda>v st. applyVolume (cls_errs c) (cls_volumes c) ctx v st)
     else (Err (Errorf (''unsupported version '' @ v)), st))"

text \<open>The documents of the file: an error of the decoder, nothing, or what encoding the document again gave.\<close>

fun apply_docs :: "'x ClientSet \<Rightarrow> apply_lib \<Rightarrow> ctx \<Rightarrow> bytes res option res list \<Rightarrow> 'x \<Rightarrow> unit res \<times> 'x" where
  "apply_docs c al ctx [] st = (Ok (), st)"
| "apply_docs c al ctx (d # ds) st =
     andThen (d, st) (\<lambda>raw st.
     case raw of
       None \<Rightarrow> apply_docs c al ctx ds st
     | Some enc \<Rightarrow> andThen (enc, st) (\<lambda>doc st. andThen (apply_doc c al ctx doc st) (\<lambda>_ st. apply_docs c al ctx ds st)))"

section \<open>Other commands\<close>

fun each_name :: "(string \<Rightarrow> 'x \<Rightarrow> unit res \<times> 'x) \<Rightarrow> string list \<Rightarrow> 'x \<Rightarrow> unit res \<times> 'x" where
  "each_name f [] st = (Ok (), st)"
| "each_name f (n # ns) st = andThen (f n st) (\<lambda>_ st. each_name f ns st)"

text \<open>The tasks of the arguments, or all of them.\<close>

definition chosen_tasks :: "'x task_client \<Rightarrow> ctx \<Rightarrow> bool \<Rightarrow> string list \<Rightarrow> 'x \<Rightarrow> string list res \<times> 'x" where
  "chosen_tasks c ctx all args st =
     (if args = [] \<and> \<not> all then (Err (Errorf ''no tasks''), st)
      else if all then andThen (task_List c ctx [] st) (\<lambda>ts st. (Ok (map (\<lambda>t. meta_Name (getMeta (task_Meta t))) ts), st))
      else (Ok args, st))"

definition start_now :: "'x task_client \<Rightarrow> ctx \<Rightarrow> bool \<Rightarrow> string list \<Rightarrow> 'x \<Rightarrow> unit res \<times> 'x" where
  "start_now c ctx all args st = andThen (chosen_tasks c ctx all args st) (\<lambda>ns st. each_name (task_Start c ctx) ns st)"

definition stop_now :: "'x task_client \<Rightarrow> ctx \<Rightarrow> bool \<Rightarrow> bool \<Rightarrow> string list \<Rightarrow> 'x \<Rightarrow> unit res \<times> 'x" where
  "stop_now c ctx force all args st =
     andThen (chosen_tasks c ctx all args st) (\<lambda>ns st. each_name (if force then task_Kill c ctx else task_Stop c ctx) ns st)"

definition delete_now :: "'x task_client \<Rightarrow> ctx \<Rightarrow> string list \<Rightarrow> 'x \<Rightarrow> unit res \<times> 'x" where
  "delete_now c ctx args st = each_name (task_Delete c ctx) args st"

definition delete_nodes :: "'x node_client \<Rightarrow> ctx \<Rightarrow> string list \<Rightarrow> 'x \<Rightarrow> unit res \<times> 'x" where
  "delete_nodes c ctx args st = each_name (node_Delete c ctx) args st"

definition delete_volumes :: "'x volume_client \<Rightarrow> ctx \<Rightarrow> string list \<Rightarrow> 'x \<Rightarrow> unit res \<times> 'x" where
  "delete_volumes c ctx args st = each_name (volume_Delete c ctx) args st"

definition delete_sets :: "'x ContainerSetServiceClient \<Rightarrow> uuid_lib \<Rightarrow> ctx \<Rightarrow> string list \<Rightarrow> 'x \<Rightarrow> unit res \<times> 'x" where
  "delete_sets c ul ctx args st = each_name (cset_Delete c ul ctx) args st"

text \<open>A lease that cannot be read is released all the same, as an empty one; the token is empty.\<close>

definition delete_lease :: "'x LeaseServiceClient \<Rightarrow> ctx \<Rightarrow> string \<Rightarrow> 'x \<Rightarrow> unit res \<times> 'x" where
  "delete_lease c ctx name st =
     (case lease_Get c ctx name st of
        (Panic m, st) \<Rightarrow> (Panic m, st)
      | (r, st) \<Rightarrow>
          (let cfg = (case r of Ok (Some l) \<Rightarrow> lease_Config l | _ \<Rightarrow> None)
           in lease_Release c ctx (case cfg of None \<Rightarrow> [] | Some k \<Rightarrow> lc_TaskId k) (case cfg of None \<Rightarrow> [] | Some k \<Rightarrow> lc_NodeId k) [] st))"

definition delete_leases :: "'x LeaseServiceClient \<Rightarrow> ctx \<Rightarrow> string list \<Rightarrow> 'x \<Rightarrow> unit res \<times> 'x" where
  "delete_leases c ctx args st = each_name (delete_lease c ctx) args st"

record run_flags =
  rf_image :: string
  rf_ports :: "string list"
  rf_user :: string
  rf_privileged :: bool
  rf_capAdd :: "string list"
  rf_capDrop :: "string list"
  rf_env :: "string list"
  rf_labels :: "string list"
  rf_nodeSelector :: "string list"

fun run_ports :: "string list \<Rightarrow> PortMapping list res" where
  "run_ports [] = Ok []"
| "run_ports (p # ps) =
     bindR (ParsePorts p) (\<lambda>pm. bindR (run_ports ps) (\<lambda>rest.
     Ok (\<lparr>pm_Name = PortMapping_String pm, pm_HostPort = np_Source pm, pm_TargetPort = np_Destination pm, pm_Protocol = [], pm_HostIp = []\<rparr> # rest)))"

definition run_task :: "run_flags \<Rightarrow> string \<Rightarrow> PortMapping list \<Rightarrow> Task" where
  "run_task fl tname tports = \<lparr>task_Version = ''task/v1'',
     task_Meta = Some (empty_Meta\<lparr>meta_Name := tname, meta_Labels := ReadKVStringsMapFromLabel (rf_labels fl)\<rparr>),
     task_Config = Some (empty_TaskConfig\<lparr>tc_Image := rf_image fl, tc_PortMappings := tports, tc_User := rf_user fl, tc_Privileged := rf_privileged fl,
       tc_Capabilities := Some \<lparr>cap_Add = rf_capAdd fl, cap_Drop = rf_capDrop fl\<rparr>, tc_NodeSelector := ReadKVStringsMapFromLabel (rf_nodeSelector fl)\<rparr>),
     task_Status = None\<rparr>"

definition run_now :: "'x task_client \<Rightarrow> ctx \<Rightarrow> run_flags \<Rightarrow> string \<Rightarrow> 'x \<Rightarrow> unit res \<times> 'x" where
  "run_now c ctx fl tname st = andThen (run_ports (rf_ports fl), st) (\<lambda>tports st. task_Create c ctx (run_task fl tname tports) st)"

definition new_volume :: "string \<Rightarrow> string list \<Rightarrow> string list \<Rightarrow> VolConfig \<Rightarrow> Volume" where
  "new_volume vname labels nodeSelector cfg = \<lparr>vol_Version = ''volume/v1'',
     vol_Meta = Some (empty_Meta\<lparr>meta_Name := vname, meta_Labels := ConvertKVStringsToMap labels\<rparr>),
     vol_Config = Some (cfg\<lparr>vc_NodeSelector := ConvertKVStringsToMap nodeSelector\<rparr>), vol_Status = None\<rparr>"

definition create_host_local :: "'x volume_client \<Rightarrow> ctx \<Rightarrow> string \<Rightarrow> string list \<Rightarrow> string list \<Rightarrow> 'x \<Rightarrow> unit res \<times> 'x" where
  "create_host_local c ctx vname labels nodeSelector st =
     volume_Create c ctx (new_volume vname labels nodeSelector \<lparr>vc_HostLocal = Some (), vc_Template = None, vc_NodeSelector = []\<rparr>) st"

text \<open>The flag for the name of the file is not read.\<close>

definition create_template ::
  "'x volume_client \<Rightarrow> ctx \<Rightarrow> string \<Rightarrow> string \<Rightarrow> string list \<Rightarrow> string list \<Rightarrow> files \<times> 'x \<Rightarrow> unit res \<times> (files \<times> 'x)" where
  "create_template c ctx vname fname labels nodeSelector st =
     andThen (os_ReadFile fname (fst st), st) (\<lambda>b st.
     on_server (volume_Create c ctx (new_volume vname labels nodeSelector
       \<lparr>vc_HostLocal = None, vc_Template = Some \<lparr>tpl_Name = fname, tpl_Data = b\<rparr>, vc_NodeSelector = []\<rparr>)) st)"

definition upgrade_nodes ::
  "'x node_client \<Rightarrow> 'x http_get \<Rightarrow> (string \<Rightarrow> bool) \<Rightarrow> (bytes \<Rightarrow> apiResponse res) \<Rightarrow> ctx \<Rightarrow> string \<Rightarrow> string list option \<Rightarrow> string list \<Rightarrow> 'x \<Rightarrow> unit res \<times> 'x" where
  "upgrade_nodes c http semver json ctx version selector args st =
     (if (selector \<noteq> None) = (args \<noteq> []) then (Err (Errorf ''must only provide either args or --label-selector flag''), st)
      else
        andThen (ParseVersion http semver json version st) (\<lambda>ver st.
        andThen (each_name (\<lambda>n. node_Upgrade c ctx n ver) args st) (\<lambda>_ st.
        case selector of
          None \<Rightarrow> (Ok (), st)
        | Some sel \<Rightarrow> andThen (parseSelectors sel, st) (\<lambda>labelMap st. node_UpgradeAll c ctx labelMap ver st))))"

text \<open>
  Editing a resource: \<open>editor\<close> is what running the editor on the file does, \<open>equal\<close> the comparison of two messages. A resource
  that was not changed is not sent.
\<close>

definition edit_with ::
  "(string \<Rightarrow> 'x \<Rightarrow> 'm res \<times> 'x) \<Rightarrow> (string \<Rightarrow> 'm \<Rightarrow> 'x \<Rightarrow> unit res \<times> 'x) \<Rightarrow> ('v, 'm) text_lib \<Rightarrow> ('m \<Rightarrow> 'm \<Rightarrow> bool)
     \<Rightarrow> (string \<Rightarrow> files \<Rightarrow> unit res \<times> files) \<Rightarrow> string \<Rightarrow> string \<Rightarrow> string \<Rightarrow> files \<times> 'x \<Rightarrow> unit res \<times> (files \<times> 'x)" where
  "edit_with get update x equal editor output tmp name st =
     andThen (on_server (get name) st) (\<lambda>old st.
     andThen (CodecFor output, st) (\<lambda>codec st.
     andThen (Codec_Serialize x codec old, st) (\<lambda>b st.
     andThen (on_files (os_Create tmp) st) (\<lambda>_ st.
     andThen (on_files (file_write tmp b) st) (\<lambda>_ st.
     andThen (on_files (editor tmp) st) (\<lambda>_ st.
     andThen (os_ReadFile tmp (fst st), st) (\<lambda>ub st.
     andThen (Codec_Deserialize x codec ub, st) (\<lambda>updated st.
     if equal old updated then (Ok (), st)
     else on_server (update name updated) st))))))))"

definition edit_task ::
  "'x task_client \<Rightarrow> ('v, Task) text_lib \<Rightarrow> (Task \<Rightarrow> Task \<Rightarrow> bool) \<Rightarrow> (string \<Rightarrow> files \<Rightarrow> unit res \<times> files) \<Rightarrow> ctx \<Rightarrow> string \<Rightarrow> string \<Rightarrow> string
     \<Rightarrow> files \<times> 'x \<Rightarrow> unit res \<times> (files \<times> 'x)" where
  "edit_task c x equal editor ctx output tmp tname st = edit_with (task_Get c ctx) (task_Update c ctx) x equal editor output tmp tname st"

definition edit_node ::
  "'x node_client \<Rightarrow> ('v, Node) text_lib \<Rightarrow> (Node \<Rightarrow> Node \<Rightarrow> bool) \<Rightarrow> (string \<Rightarrow> files \<Rightarrow> unit res \<times> files) \<Rightarrow> ctx \<Rightarrow> string \<Rightarrow> string \<Rightarrow> string
     \<Rightarrow> files \<times> 'x \<Rightarrow> unit res \<times> (files \<times> 'x)" where
  "edit_node c x equal editor ctx output tmp nname st = edit_with (node_Get c ctx) (node_Update c ctx) x equal editor output tmp nname st"

section \<open>Showing resources\<close>

text \<open>One resource, in the chosen format.\<close>

definition get_one :: "('v, 'm) text_lib \<Rightarrow> string \<Rightarrow> 'm res \<times> 'x \<Rightarrow> bytes res \<times> 'x" where
  "get_one x output p = andThen p (\<lambda>m st. andThen (CodecFor output, st) (\<lambda>codec st. (Codec_Serialize x codec m, st)))"

definition get_task :: "'x task_client \<Rightarrow> ('v, Task) text_lib \<Rightarrow> ctx \<Rightarrow> string \<Rightarrow> string \<Rightarrow> 'x \<Rightarrow> bytes res \<times> 'x" where
  "get_task c x ctx output name st = get_one x output (task_Get c ctx name st)"

definition get_node :: "'x node_client \<Rightarrow> ('v, Node) text_lib \<Rightarrow> ctx \<Rightarrow> string \<Rightarrow> string \<Rightarrow> 'x \<Rightarrow> bytes res \<times> 'x" where
  "get_node c x ctx output name st = get_one x output (node_Get c ctx name st)"

definition get_volume :: "'x volume_client \<Rightarrow> ('v, Volume) text_lib \<Rightarrow> ctx \<Rightarrow> string \<Rightarrow> string \<Rightarrow> 'x \<Rightarrow> bytes res \<times> 'x" where
  "get_volume c x ctx output name st = get_one x output (volume_Get c ctx name st)"

definition get_lease :: "'x LeaseServiceClient \<Rightarrow> ('v, Lease option) text_lib \<Rightarrow> ctx \<Rightarrow> string \<Rightarrow> string \<Rightarrow> 'x \<Rightarrow> bytes res \<times> 'x" where
  "get_lease c x ctx output name st = get_one x output (lease_Get c ctx name st)"

definition get_event :: "'x EventServiceClient \<Rightarrow> uuid_lib \<Rightarrow> ('v, Event) text_lib \<Rightarrow> ctx \<Rightarrow> string \<Rightarrow> string \<Rightarrow> 'x \<Rightarrow> bytes res \<times> 'x" where
  "get_event c ul x ctx output name st = get_one x output (event_Get c ul ctx name st)"

definition get_set :: "'x ContainerSetServiceClient \<Rightarrow> uuid_lib \<Rightarrow> ('v, ContainerSet) text_lib \<Rightarrow> ctx \<Rightarrow> string \<Rightarrow> string \<Rightarrow> 'x \<Rightarrow> bytes res \<times> 'x" where
  "get_set c ul x ctx output name st = get_one x output (cset_Get c ul ctx name st)"

text \<open>A table has a row of columns for each resource.\<close>

definition time_Since :: "instant \<Rightarrow> instant \<Rightarrow> int" where
  "time_Since now t = max (- (2 ^ 63)) (min (2 ^ 63 - 1) (now - t))"

definition age :: "instant \<Rightarrow> Meta option \<Rightarrow> string" where
  "age now m = FormatDuration (time_Since now (AsTime (meta_Created (getMeta m))))"

definition task_row :: "instant \<Rightarrow> Task \<Rightarrow> string list" where
  "task_row now t = [meta_Name (getMeta (task_Meta t)), Uint64ToString (meta_Generation (getMeta (task_Meta t))), GetValue (ts_Phase (status_of t)),
     GetValue (ts_Reason (status_of t)), GetValue (ts_Node (status_of t)), age now (task_Meta t)]"

definition node_row :: "instant \<Rightarrow> Node \<Rightarrow> string list" where
  "node_row now n = [meta_Name (getMeta (node_Meta n)), Uint64ToString (meta_Generation (getMeta (node_Meta n))), GetValue (ns_Phase (node_status n)),
     GetValue (ns_Version (node_status n)), GetValue (ns_Runtime (node_status n)), age now (node_Meta n)]"

definition getVolumeReadyStr :: "(string, ControllerStatus) gomap \<Rightarrow> string" where
  "getVolumeReadyStr m = format_nat (length (filter (\<lambda>kv. cs_Ready (snd kv) = Some True) m))"

definition volume_row :: "instant \<Rightarrow> Volume \<Rightarrow> string list" where
  "volume_row now v = [meta_Name (getMeta (vol_Meta v)), Uint64ToString (meta_Generation (getMeta (vol_Meta v))),
     getVolumeReadyStr (vs_Controllers (vol_status v)) @ ''/'' @ format_nat (length (vs_Controllers (vol_status v))),
     DriverType_String (GetDriverType v), age now (vol_Meta v)]"

definition lease_row :: "instant \<Rightarrow> Lease \<Rightarrow> string list" where
  "lease_row now l =
     (let k = lease_config l; expires = AsTime (lc_ExpiresAt k) in
      [lc_TaskId k, lc_NodeId k, if now < expires then ''true'' else ''false'', FormatDuration (time_Since now expires),
       FormatDuration (time_Since now (AsTime (lc_RenewTime k))), FormatDuration (int (unat (lc_TtlSeconds k)) * second)])"

definition get_tasks :: "'x task_client \<Rightarrow> ctx \<Rightarrow> instant \<Rightarrow> 'x \<Rightarrow> string list list res \<times> 'x" where
  "get_tasks c ctx now st = andThen (task_List c ctx [] st) (\<lambda>ts st. (Ok (map (task_row now) ts), st))"

definition get_nodes :: "'x node_client \<Rightarrow> ctx \<Rightarrow> instant \<Rightarrow> 'x \<Rightarrow> string list list res \<times> 'x" where
  "get_nodes c ctx now st = andThen (node_List c ctx [] st) (\<lambda>ns st. (Ok (map (node_row now) ns), st))"

definition get_volumes :: "'x volume_client \<Rightarrow> ctx \<Rightarrow> instant \<Rightarrow> 'x \<Rightarrow> string list list res \<times> 'x" where
  "get_volumes c ctx now st = andThen (volume_List c ctx [] st) (\<lambda>vs st. (Ok (map (volume_row now) vs), st))"

definition get_leases :: "'x LeaseServiceClient \<Rightarrow> ctx \<Rightarrow> instant \<Rightarrow> 'x \<Rightarrow> string list list res \<times> 'x" where
  "get_leases c ctx now st = andThen (lease_List c ctx [] st) (\<lambda>ls st. (Ok (map (lease_row now) ls), st))"

text \<open>The log of a task: the node it is on is asked for its lines.\<close>

definition log_open :: "'x task_client \<Rightarrow> 'x node_client \<Rightarrow> ('s, 'x) LogServiceClient \<Rightarrow> ctx \<Rightarrow> string \<Rightarrow> 'x \<Rightarrow> 's res \<times> 'x" where
  "log_open tc nc lc ctx taskID st =
     andThen (task_Get tc ctx taskID st) (\<lambda>task st.
     andThen (node_Get nc ctx (GetValue (ts_Node (status_of task))) st) (\<lambda>node st.
     log_TailLogs lc ctx (meta_Uid (getMeta (task_Meta task))) (meta_Uid (getMeta (node_Meta node))) st))"

text \<open>Looking again until the function stops or fails; the results of its calls are a list.\<close>

fun cmdutil_Watch :: "(unit res \<times> bool) list \<Rightarrow> unit res option" where
  "cmdutil_Watch [] = None"
| "cmdutil_Watch ((r, stop) # rs) = (case r of Ok _ \<Rightarrow> if stop then Some (Ok ()) else cmdutil_Watch rs | e \<Rightarrow> Some e)"

section \<open>Lemmas on the texts\<close>

text \<open>Deduplication keeps every value once, in the order of its first use.\<close>

lemma dedupe_snoc: "dedupeStrSlice (vs @ [v]) = (if v \<in> set (dedupeStrSlice vs) then dedupeStrSlice vs else dedupeStrSlice vs @ [v])"
  by (simp add: dedupeStrSlice_def)

lemma dedupe_spec: "distinct (dedupeStrSlice vs) \<and> set (dedupeStrSlice vs) = set vs"
proof (induction vs rule: rev_induct)
  case Nil
  show ?case by (simp add: dedupeStrSlice_def)
next
  case (snoc v vs)
  then show ?case by (auto simp: dedupe_snoc)
qed

text \<open>A pair printed with an equals sign is read back, whatever its value holds, when its key has none.\<close>

lemma kv_read_back:
  assumes "CHR ''='' \<notin> set k"
  shows "map_of (ConvertKVStringsToMap (vs @ [k @ ''='' @ v])) k = Some v"
proof -
  have "takeWhile (\<lambda>c. c \<noteq> CHR ''='') (k @ ''='' @ v) = k" "dropWhile (\<lambda>c. c \<noteq> CHR ''='') (k @ ''='' @ v) = ''='' @ v"
    using assms by (auto simp: takeWhile_append dropWhile_append)
  then show ?thesis by (simp add: ConvertKVStringsToMap_def strings_Cut_def update_conv)
qed

text \<open>Selectors are refused exactly when one that is not blank has no equals sign.\<close>

lemma selectors_refused:
  "(\<exists>e. parse_each ss m = Err e) \<longleftrightarrow> (\<exists>s\<in>set ss. TrimSpace s \<noteq> [] \<and> CHR ''='' \<notin> set (TrimSpace s))"
  by (induction ss arbitrary: m) (auto simp: Let_def strings_Cut_def split: if_splits)

text \<open>
  A lease that lasts another minute and a half is shown as expiring in minus thirty seconds: a negative duration is printed without its
  larger units.
\<close>

theorem lease_expiry_misprinted:
  "lease_row (90 * second) \<lparr>lease_Version = [], lease_Meta = None, lease_Config = Some (empty_LeaseConfig\<lparr>lc_ExpiresAt := Some (180 * second)\<rparr>),
     lease_Status = None\<rparr> ! 3 = ''-30s''"
  by (simp add: lease_row_def Let_def lease_config_def FormatDuration_def time_Since_def quot_def format_int_def format_nat.simps digit_def)

text \<open>Editing without a change sends nothing: the server is as it was after the resource was read.\<close>

lemma edit_unchanged:
  assumes "on_server (get name) st = (Ok old, st1)" and "CodecFor output = Ok codec" and "Codec_Serialize x codec old = Ok b"
    and "on_files (os_Create tmp) st1 = (Ok u, st2)" and "on_files (file_write tmp b) st2 = (Ok u', st3)" and "on_files (editor tmp) st3 = (Ok u'', st4)"
    and "os_ReadFile tmp (fst st4) = Ok ub" and "Codec_Deserialize x codec ub = Ok new" and "equal old new"
  shows "fst (edit_with get update x equal editor output tmp name st) = Ok () \<and>
    snd (snd (edit_with get update x equal editor output tmp name st)) = snd st1"
proof -
  have "snd st2 = snd st1" "snd st3 = snd st2" "snd st4 = snd st3"
    using assms(4-6) by (auto simp: on_files_def split: prod.splits)
  with assms show ?thesis by (simp add: edit_with_def)
qed

section \<open>Applying a task to the server\<close>

lemma conflict_wire:
  assumes "grpc_documented x" and "wire_documented wire"
  shows "\<exists>m. over_wire wire (fail_status x nil (Sentinel RepoErrIdxExists), st) = (Err (StatusErr AlreadyExists m), st)"
proof -
  have "status_FromError x (Some (Sentinel RepoErrIdxExists)) = None" "\<not> IsNotFound x (Some (Sentinel RepoErrIdxExists))"
    using assms(1) IsNotFound_sentinel [OF assms(1), of RepoErrIdxExists] by (auto simp: grpc_documented_def)
  then have "fail_status x nil (Sentinel RepoErrIdxExists) = Err (StatusErr AlreadyExists (err_text x (Sentinel RepoErrIdxExists)))"
    by (simp add: fail_status_def toStatus_ToStatus ToStatus_def IsConflict_iff)
  with assms(2) show ?thesis by (simp add: wire_documented_def)
qed

lemma conflict_class:
  assumes "grpc_documented x"
  shows "ToStatus x (Some (StatusErr AlreadyExists m)) = Some (StatusErr AlreadyExists m)" "IsConflict x (Some (StatusErr AlreadyExists m))"
  using assms by (simp_all add: ToStatus_def IsConflict_iff grpc_documented_def status_code_is_def)

text \<open>Handlers of the exchange that leave the store as it is and do not fail.\<close>

definition announces_only :: "('s \<times> 'w) bus \<Rightarrow> bool" where
  "announces_only b \<longleftrightarrow> (\<forall>ev s w. \<exists>w'. bus_Publish b None ev (s, w) = (Ok (), (s, w')))"

text \<open>What is stored for a task that is applied: a new task, or the old one with what may be changed of it.\<close>

definition applied ::
  "('s, 'u, 'w) TaskService \<Rightarrow> svc_env \<Rightarrow> Task repo_state \<Rightarrow> ID \<Rightarrow> Meta \<Rightarrow> Task \<Rightarrow> Task" where
  "applied l env A i m task =
     (case spec_Get A i of
        Ok old \<Rightarrow> task\<lparr>task_Status := task_Status old, task_Meta := Some (preserve_meta (getMeta (task_Meta old)) (sv_t1 env) m)\<rparr>
      | _ \<Rightarrow> created (tsv_Repo l) (tsv_uuid l) (sv_uuid env) (sv_t1 env) (sv_t2 env) m task)"

definition server_task_client ::
  "(error \<Rightarrow> error) \<Rightarrow> ('s \<times> 'w \<Rightarrow> svc_env) \<Rightarrow> ('s, 'u, 'w) TaskService \<Rightarrow> ('s \<times> 'w) task_client" where
  "server_task_client wire clock l = \<lparr>tc_stub = server_task_stub wire clock l, tc_ident = None, tc_uuid = tsv_uuid l, tc_errs = tsv_errs l\<rparr>"

lemma apply_new_task:
  assumes "task_service l content tcontent tinv" and "codec_roundtrip (repo_codec (tsv_Repo l))" and "announces_only (tsv_Exchange l)"
    and "repo_rel (tsv_Repo l) (content s) A" and "repo_wf A" and "uid_unused (tsv_Repo l) (content s) (sv_uuid (clock (s, w)))"
    and "task_Meta task = Some m" and "meta_Name m = n" and "n \<noteq> []" and "names A n = None" and "task_Version task \<noteq> []"
    and "t = created (tsv_Repo l) (tsv_uuid l) (sv_uuid (clock (s, w))) (sv_t1 (clock (s, w))) (sv_t2 (clock (s, w))) m task"
    and "proto_Marshal (repo_codec (tsv_Repo l)) t = Ok b"
  shows "\<exists>s' w'. applyTask x (server_task_client wire clock l) None task (s, w) = (Ok (), (s', w'))
    \<and> repo_rel (tsv_Repo l) (content s') (spec_Create A (sv_uuid (clock (s, w))) n t) \<and> repo_wf (spec_Create A (sv_uuid (clock (s, w))) n t)"
proof -
  let ?env = "clock (s, w)"
  obtain s' where c: "TaskService_Create l None ?env task (s, w) =
      andThen (bus_Publish (tsv_Exchange l) None (NewEvent (sv_event ?env) TaskCreate (AnyTask t) []) (s', w)) (\<lambda>_ st. (Ok t, st))"
    and r: "repo_rel (tsv_Repo l) (content s') (spec_Create A (sv_uuid ?env) n t)" "repo_wf (spec_Create A (sv_uuid ?env) n t)"
    using task_service.Create_stores_and_publishes [OF assms(1,2,4,5,6,7) _ _ assms(12,13), of w] assms(8,9,10) by auto
  obtain w' where "bus_Publish (tsv_Exchange l) None (NewEvent (sv_event ?env) TaskCreate (AnyTask t) []) (s', w) = (Ok (), (s', w'))"
    using assms(3) unfolding announces_only_def by blast
  with c have "task_Create (server_task_client wire clock l) None task (s, w) = (Ok (), (s', w'))"
    using assms(11) by (simp add: task_Create_def server_task_client_def server_task_stub_def grpc_Task_Create_def)
  with r assms(7-9) show ?thesis by (auto simp: applyTask_def create_or_update_def)
qed

lemma apply_old_task:
  assumes "task_service l content tcontent tinv" and "codec_roundtrip (repo_codec (tsv_Repo l))" and "announces_only (tsv_Exchange l)"
    and "repo_rel (tsv_Repo l) (content s) A" and "repo_wf A"
    and "grpc_documented (tsv_errs l)" and "wire_documented wire" and "uuid_documented (tsv_uuid l)"
    and "task_Meta task = Some m" and "meta_Name m = n" and "keys_ParseStr (tsv_uuid l) n = Ok i" and "i = \<lparr>tag = TagName, raw = n\<rparr>"
    and "names A n = Some u" and "spec_Get A i = Ok old" and "task_Meta old = Some em" and "task_Version task \<noteq> []"
    and "t = task\<lparr>task_Status := task_Status old, task_Meta := Some (preserve_meta em (sv_t1 (clock (s, w))) m)\<rparr>"
    and "proto_Marshal (repo_codec (tsv_Repo l)) t = Ok b"
  shows "\<exists>s' w'. applyTask (tsv_errs l) (server_task_client wire clock l) None task (s, w) = (Ok (), (s', w'))
    \<and> repo_rel (tsv_Repo l) (content s') (spec_Update A i t) \<and> repo_wf (spec_Update A i t)"
proof -
  have R: "repository (tsv_Repo l) content tcontent tinv" and M: "repo_msg (tsv_Repo l) = Task_msg"
    using assms(1) by (simp_all add: task_service_def task_service_axioms_def)
  have n: "n \<noteq> []" using repo_rel_names(3) [OF assms(4,13)] by simp
  let ?c = "server_task_client wire clock l" and ?env = "clock (s, w)"
  have "TaskService_Create l None ?env task (s, w) = (Err (Sentinel RepoErrIdxExists), (s, w))"
    using repository.Create_exists [OF R assms(4,5), of task m] assms(9,10,13) by (simp add: TaskService_Create_def M Task_msg_def on_store_def)
  with conflict_wire [OF assms(6,7), of zero_Task "(s, w)"] conflict_class(1) [OF assms(6)] assms(16)
  obtain msg where create: "task_Create ?c None task (s, w) = (Err (StatusErr AlreadyExists msg), (s, w))"
    by (auto simp: task_Create_def server_task_client_def server_task_stub_def grpc_Task_Create_def)
  note pid = parsed_id [OF assms(8,11)]
  obtain s' where up: "TaskService_Update l None ?env i task (s, w) =
      (if opt_Equal TaskConfig_Equal (task_Config old) (task_Config task) then (Ok (), (s', w))
       else bus_Publish (tsv_Exchange l) None (NewEvent (sv_event ?env) TaskUpdate (AnyTask t) []) (s', w))"
    and r: "repo_rel (tsv_Repo l) (content s') (spec_Update A i t)" "repo_wf (spec_Update A i t)"
    using task_service.Update_stores_and_publishes [OF assms(1,2,4,5) pid(1) assms(14,15,9,17,18), of w] by blast
  from up assms(3) obtain w' where up': "TaskService_Update l None ?env i task (s, w) = (Ok (), (s', w'))"
    unfolding announces_only_def by (cases "opt_Equal TaskConfig_Equal (task_Config old) (task_Config task)") (auto, metis)
  have "spec_Get (spec_Update A i t) i = Ok t" using assms(12,13) by (simp add: spec_Get_def spec_Update_def spec_resolve_def spec_found_def)
  with repository.Get_refines [OF R r(1) pid(1)] have "Repo_Get (tsv_Repo l) None i s' = Ok t" by simp
  with up' pid(2) assms(11) have "task_Update ?c None n task (s, w) = (Ok (), (s', w'))"
    by (simp add: task_Update_def server_task_client_def server_task_stub_def grpc_Task_Update_def TaskService_Get_def reading_def)
  with create r conflict_class(2) [OF assms(6)] n assms(9,10) show ?thesis
    by (auto simp: applyTask_def create_or_update_def server_task_client_def)
qed

lemma create_lookup:
  assumes "repo_wf A" and "fresh_uid A u"
  shows "spec_Get (spec_Create A u n t) \<lparr>tag = TagName, raw = n'\<rparr> = (if n' = n then Ok t else spec_Get A \<lparr>tag = TagName, raw = n'\<rparr>)"
proof -
  have "names A n' \<noteq> Some u" using assms unfolding repo_wf_def fresh_uid_def by blast
  then show ?thesis by (cases "names A n'") (auto simp: spec_Get_def spec_resolve_def spec_Create_def)
qed

lemma update_lookup:
  assumes "repo_wf A" and "names A n = Some u"
  shows "spec_Get (spec_Update A \<lparr>tag = TagName, raw = n\<rparr> t) \<lparr>tag = TagName, raw = n'\<rparr> =
    (if n' = n then Ok t else spec_Get A \<lparr>tag = TagName, raw = n'\<rparr>)"
proof -
  have "names A n' = Some u \<Longrightarrow> n' = n" using assms unfolding repo_wf_def by blast
  with assms(2) show ?thesis by (cases "names A n'") (auto simp: spec_Get_def spec_resolve_def spec_Update_def)
qed

lemma created_config: "repo_msg R = Task_msg \<Longrightarrow> task_Config (created R ul u t1 t2 m task) = task_Config task"
  by (simp add: created_def Let_def Task_msg_def bump_generation_def)

section \<open>Properties\<close>


definition apply_env :: svc_env where
  "apply_env = call_env\<lparr>sv_uuid := ''fedcba9876543210''\<rparr>"

lemma apply_env_unused: "uid_unused (NewTaskRepo inmemory redis_codec) (map_of one_task) (sv_uuid apply_env)"
  by (simp add: uid_unused_def apply_env_def one_task_def key_defs new_repo_defs uid_value_def sample_uid_def)


end
