(* ===== verification/Spec2Isabelle.thy ===== *)
theory Spec2Isabelle
  imports ConditionProps LogStreams AgentProps VolumeService LeaseController VolumeController NodeUpgrade LogTail NodeRuntime RuntimeEvents Patch
    ClientConfig Controllers ContainerSets Auth Commands
begin

text \<open>
  Verification of voiyd, an orchestrator for containers: a server stores tasks, nodes,
  volumes, leases and events, schedules tasks on nodes, and talks to the agent on each
  node; clients reach it over gRPC.

  \<^bold>\<open>How the program is put together.\<close> Resources are protocol buffer messages kept by
  repositories (pkg/repository) in a key/value store, which is badger or a map in memory.
  The services of internal/app work on the repositories and announce changes on an event
  exchange (pkg/events). A lease (internal/app/lease.go and its manager) gives one node at
  a time the right to run a task. Nodes are connected by sessions (node_sessions.go), a
  bounded queue of events each. The gRPC handlers (internal/transport/grpc) call the
  services and turn errors into statuses; the clients (pkg/client) call the handlers.
  Controllers use the clients: the scheduler (pkg/controller/scheduler) reacts to events by
  putting work on a task queue (pkg/queue), whose workers place tasks on nodes, revoke
  leases and send requests to the sessions. The controller of a node (pkg/controller/node)
  takes the lease of a task it is asked to start and drives the container runtime. Conditions of tasks are collected and sent in
  batches by a publisher (pkg/condition).

  \<^bold>\<open>How it is modelled.\<close> Go structs are records, enums datatypes, and machine integers words.
  A function that can fail returns \<open>res\<close> (theory Prelude): a value, an error, or a panic; it takes
  the state it reads and returns the state it leaves. A context is \<open>None\<close> while live and
  carries its error once cancelled. A value that a pointer shares is kept in a heap, a
  list, and named by its index. A call that blocks returns \<open>None\<close>; the choice of a
  \<^verbatim>\<open>select\<close> is an argument. Code that locks a mutex is one step; where goroutines
  interleave, the steps are an inductive relation (worker pool, sessions, publisher,
  leases, streams). Clocks, uuids, random numbers, the codec of the messages, badger, the hash
  function, the gRPC status package, the client libraries of containerd and CNI, HTTP servers, JSON and
  semantic versions, web tokens and TLS, and what reflection shows of a message type, are parameters. What is assumed of them is named
  (\<open>grpc_documented\<close>, \<open>uuid_documented\<close>, \<open>codec_roundtrip\<close>, \<open>rand_documented\<close>,
  \<open>wire_documented\<close>, \<open>decodes\<close>, \<open>containerd_documented\<close>, locale \<open>badger_store\<close>), and each has a concrete instance on which the
  witnesses run.

  \<^bold>\<open>The theories.\<close>
  \<^item> Prelude: results, maps and the lemmas the components share.
  \<^item> Errors (pkg/errs): error values, their classes and their gRPC status. An error keeps
    its class on the way to the client.
  \<^item> Keys (pkg/keys), Labels (pkg/labels), Util (pkg/util): identifiers and their
    encoding, selectors, number texts. Encoding and parsing are inverse.
  \<^item> Messages, ProtoUtils, ProtoReflect (pkg/protoutils): the messages of api/ and their comparison and
    merging, by reflection where the code does. A patch overlays a message field by field. Patch:
    the patch operations of the services.
  \<^item> KVStore: the store interface as locale \<open>kv_db\<close>, the store in memory and badger as its
    interpretations.
  \<^item> Repository: pkg/repository/repository.go. RepoSpec: an abstract repository, a map of
    records with two indexes, and the refinement of every operation, in locale
    \<open>repository\<close>. Resources: the five repositories and the properties, among them that every
    reachable store is well formed and that no key is shared.
  \<^item> Exchange, LogExchange (pkg/events): the event bus, its handlers and the log fan-out.
  \<^item> LeaseManager, LeaseSafety, LeaseProps: leases, locale \<open>leases\<close>. At most one holder,
    fencing tokens that grow, and what each operation requires.
  \<^item> ServiceBase, TaskService, NodeService, VolumeService, SmallServices, Sessions: the
    services of internal/app and the sessions of nodes. Delivery to a node is a bounded
    queue in order.
  \<^item> Scheduling (pkg/scheduling), Queue, QueueProps (pkg/queue): placement, and the task
    queue with its workers: one live item per resource, bounded attempts, termination,
    and that the queue drains.
  \<^item> Conditions, ConditionProps (pkg/condition): reports and their publisher; no report is
    forgotten while its sub-publisher runs.
  \<^item> Transport, LogStreams (internal/transport/grpc): the handlers and the log streams.
  \<^item> Clients (pkg/client): the task, lease and node clients over their stubs.
  \<^item> Scheduler (pkg/controller/scheduler): the controller. Cluster: what it relies on, as
    locale \<open>cluster\<close>, and its behaviour proved there. ClusterServer: the handlers, services and
    sessions of this development meet that contract, and the properties of the scheduler
    on them: placing a task is fenced by its lease.
  \<^item> Ports (pkg/networking/ports.go): port mappings and their text.
  \<^item> Agent, AgentLoop (pkg/controller/node): the controller on a node, which takes the lease
    of a task, starts, stops and kills it through the runtime, the network manager and the
    volume attacher, renews its leases and reports what the runtime tells it. These three
    and the local store are records of functions, as their Go interfaces are. AgentProps:
    whatever they do, ending a task tries every step of the clean-up and drops the lease
    epoch, a task runs only after every step of its provisioning, and on the server of
    this development a task whose lease another node holds is never queued.
  \<^item> LogTail (handler_log.go): the log streams of a node as two interleaved goroutines; lines
    are sent in order.
  \<^item> LeaseController (pkg/controller/lease): the timers of leases. A task has one armed timer
    at most, and a timer that fires asks the server before it reports an expiry.
  \<^item> Files: what the program uses of the packages path and os, on a tree of files; any call
    may fail (\<open>fs_fault\<close>). Stores (pkg/store): the local stores refine a map, locale
    \<open>key_store\<close>.
  \<^item> VolumeDrivers (pkg/volume, pkg/client/volume): the drivers meet one contract, locale
    \<open>volume_driver\<close>, and the attacher gives the mounts of a task sources that exist. VolumeController
    (pkg/controller/volume): reconciling provides every volume of the server.
  \<^item> Containerd (pkg/runtime), CNI (pkg/networking/cni.go): the container runtime and the network
    manager, instances of the interfaces of the node controller, over the client libraries of containerd and
    CNI. Running a task creates its container and stores the task, deleting removes both.
    NodeRuntime puts a node together: the container of a started task carries the
    fencing token of its lease. RuntimeEvents (pkg/controller/containerd): the events of containerd
    reach the handlers of the node in order.
  \<^item> NodeStream: the stream between the server and a node, its goroutines at both ends interleaved (Connect in
    internal/transport/grpc/node.go and pkg/client/node); events reach the handlers of the node in the order in which
    they were sent. NodeRun: what the node controller registers and reports when it starts; a stop that arrives reaches the
    queue.
  \<^item> EventClient (pkg/client/event, pkg/client/log): the loop that feeds the exchange of the event client. Controllers: Run of the
    scheduler, lease, volume and upgrade controllers, and Subscribe of the server; the scheduler handles every event of the
    stream, over reconnects, by the operation for its type.
  \<^item> ContainerSets (pkg/controller/containerset and its client), Auth (pkg/auth), ClientConfig (pkg/client/config.go and
    cmd/voiydctl/config): the configuration commands keep the stored configuration consistent.
  \<^item> Dashboard (pkg/cmdutil/dashboard.go and the waiting start, stop, run and delete commands): a goroutine per task and
    a timer each, interleaved; a task is shown as done only after the phase asked for was seen, and an outcome is final. Commands
    (cmd/voiydctl, pkg/cmdutil): the other commands of the client; applying a task to the server of this development makes it
    have that task.
  \<^item> NodeUpgrade (pkg/controller/nodeupgrade): download and replacement of the binary of a
    node, which stays whole whatever fails.

  \<^bold>\<open>Bounds.\<close> Loops over lists recurse on the list. The worker loop is a step relation, with
  a measure for its termination. There is no fuel. The capacity of a channel is the one in the code (256 conditions, 100
  log lines, the configured queue of a session).

  \<^bold>\<open>Not modelled.\<close> The wiring of the binaries, servers and gateway, drawing on the terminal (renderer, colours,
  alignment of tables), tracing and generated code: they hold no logic of the orchestrator or belong to other programs.
\<close>

end
